(* ===== verification/Py_Base.thy ===== *)
theory Py_Base
  imports Complex_Main "HOL-Library.AList" "HOL-Library.Sublist" "HOL-Library.Multiset"
    "HOL-Library.List_Lexorder" "HOL-Library.Char_ord" "HOL-Library.Product_Lexorder"
begin

text \<open>
  The part of Python 2 that every component of Blade relies on: exceptions as values of an
  error type, the result monad in which a raise stops the computation, the dynamic values
  stored in configuration sections and in a target's data dictionary, dictionaries as
  association lists in iteration order, and the string methods the sources call.

  Nothing here models a file of the repository; the definitions are the language and its
  standard library as the sources use them. Generic lemmas are declared for the simplifier
  or collected in the named collections below.
\<close>

text \<open>Keys are often pairs: quantifiers over pairs are kept as they are.\<close>

declare split_paired_All [simp del] split_paired_Ex [simp del]

named_theorems py_monad \<open>evaluation of the result monad\<close>
named_theorems py_dict \<open>laws of dictionaries\<close>
named_theorems py_str \<open>laws of the string methods\<close>

section \<open>Exceptions and the result monad\<close>

text \<open>
  \<open>SystemExit\<close> carries the message that \<open>console.error_exit\<close> prints before it calls
  \<open>sys.exit(1)\<close>; the other constructors are Python's own exceptions.
\<close>

datatype py_error =
    SystemExit string
  | KeyError
  | NameError string
  | TypeError
  | IndexError
  | ValueError
  | AttributeError string
  | NotImplementedError string
  | PyException string

type_synonym 'a result = "py_error + 'a"

definition rbind :: "'a result \<Rightarrow> ('a \<Rightarrow> 'b result) \<Rightarrow> 'b result" where
  "rbind m f = (case m of Inl e \<Rightarrow> Inl e | Inr x \<Rightarrow> f x)"

text \<open>A loop whose body may raise: \<open>for x in xs: s = f(x, s)\<close>.\<close>

fun rfold :: "('x \<Rightarrow> 's \<Rightarrow> 's result) \<Rightarrow> 'x list \<Rightarrow> 's \<Rightarrow> 's result" where
  "rfold f [] s = Inr s"
| "rfold f (x # xs) s = rbind (f x s) (rfold f xs)"

text \<open>A comprehension whose element expression may raise.\<close>

fun rmap :: "('x \<Rightarrow> 'y result) \<Rightarrow> 'x list \<Rightarrow> 'y list result" where
  "rmap f [] = Inr []"
| "rmap f (x # xs) = rbind (f x) (\<lambda>y. rbind (rmap f xs) (\<lambda>ys. Inr (y # ys)))"

definition is_ok :: "'a result \<Rightarrow> bool" where
  "is_ok r = (case r of Inl _ \<Rightarrow> False | Inr _ \<Rightarrow> True)"

lemma rbind_Inl [simp, py_monad]: "rbind (Inl e) f = Inl e"
  by (simp add: rbind_def)

lemma rbind_Inr [simp, py_monad]: "rbind (Inr x) f = f x"
  by (simp add: rbind_def)

lemma rbind_eq_Inr [py_monad]: "rbind m f = Inr y \<longleftrightarrow> (\<exists>x. m = Inr x \<and> f x = Inr y)"
  by (cases m) auto

lemma rbind_eq_Inl [py_monad]:
  "rbind m f = Inl e \<longleftrightarrow> m = Inl e \<or> (\<exists>x. m = Inr x \<and> f x = Inl e)"
  by (cases m) auto

lemma rbind_assoc: "rbind (rbind m f) g = rbind m (\<lambda>x. rbind (f x) g)"
  by (cases m) auto

lemma rbind_cong [fundef_cong]:
  "m = m' \<Longrightarrow> (\<And>x. m' = Inr x \<Longrightarrow> f x = f' x) \<Longrightarrow> rbind m f = rbind m' f'"
  by (cases m') auto

lemma rfold_cong [fundef_cong]:
  "xs = ys \<Longrightarrow> s = t \<Longrightarrow> (\<And>x u. x \<in> set ys \<Longrightarrow> f x u = g x u) \<Longrightarrow> rfold f xs s = rfold g ys t"
proof (induction ys arbitrary: xs s t)
  case (Cons y ys)
  then show ?case
    by (cases "g y t") auto
qed simp

lemma rfold_append: "rfold f (xs @ ys) s = rbind (rfold f xs s) (rfold f ys)"
proof (induction xs arbitrary: s)
  case (Cons x xs)
  then show ?case by (cases "f x s") auto
qed simp

text \<open>Loop rule: an invariant kept by every successful iteration holds of the result.\<close>

lemma rfold_invariant:
  assumes "rfold f xs s = Inr t" and "P s"
    and "\<And>x u v. x \<in> set xs \<Longrightarrow> P u \<Longrightarrow> f x u = Inr v \<Longrightarrow> P v"
  shows "P t"
  using assms
proof (induction xs arbitrary: s)
  case (Cons x xs)
  then obtain u where u: "f x s = Inr u" "rfold f xs u = Inr t"
    by (auto simp: rbind_eq_Inr)
  have "P u"
    using Cons.prems u(1) by auto
  show ?case
    by (rule Cons.IH [OF u(2) \<open>P u\<close>]) (use Cons.prems(3) in auto)
qed simp

text \<open>Loop rule for total success: a body that never raises under the invariant.\<close>

lemma rfold_total:
  assumes "P s" and "\<And>x u. x \<in> set xs \<Longrightarrow> P u \<Longrightarrow> \<exists>v. f x u = Inr v \<and> P v"
  shows "\<exists>t. rfold f xs s = Inr t \<and> P t"
  using assms
proof (induction xs arbitrary: s)
  case (Cons x xs)
  then obtain v where v: "f x s = Inr v" "P v"
    by (meson list.set_intros(1))
  have "\<exists>t. rfold f xs v = Inr t \<and> P t"
    using Cons.IH [OF v(2)] Cons.prems(2) by auto
  with v show ?case by simp
qed simp

lemma rmap_eq_Inr: "rmap f xs = Inr ys \<longleftrightarrow> list_all2 (\<lambda>x y. f x = Inr y) xs ys"
proof (induction xs arbitrary: ys)
  case (Cons x xs)
  show ?case
    by (cases ys) (auto simp: rbind_eq_Inr Cons.IH)
qed auto

lemma rmap_total: "(\<And>x. x \<in> set xs \<Longrightarrow> f x = Inr (g x)) \<Longrightarrow> rmap f xs = Inr (map g xs)"
  by (induction xs) auto

section \<open>Lists\<close>

lemma map_sum_eq_Inr: "map_sum f g x = Inr y \<longleftrightarrow> (\<exists>l. x = Inr l \<and> g l = y)"
  by (cases x) auto

lemma map_option_sum_eq: "map_option (map_sum f g) x = Some (Inr y) \<longleftrightarrow> (\<exists>l. x = Some (Inr l) \<and> g l = y)"
  by (cases x) (auto simp: map_sum_eq_Inr)

lemma distinct_iff_count_list_le: "distinct xs \<longleftrightarrow> (\<forall>x. count_list xs x \<le> 1)"
proof (induction xs)
  case (Cons y xs)
  have "(\<forall>x. count_list (y # xs) x \<le> 1) \<longleftrightarrow> count_list xs y = 0 \<and> (\<forall>x. count_list xs x \<le> 1)"
  proof (intro iffI conjI allI)
    assume le: "\<forall>x. count_list (y # xs) x \<le> 1"
    show "count_list xs y = 0" using le [rule_format, of y] by simp
    show "count_list xs x \<le> 1" for x using le [rule_format, of x] by (simp split: if_splits)
  qed auto
  then show ?case using Cons.IH count_list_0_iff [of xs y] by simp
qed simp

section \<open>Dynamic values\<close>

text \<open>
  The values a BUILD file or a configuration file can put into a dictionary. Dictionaries
  with string keys are association lists.
\<close>

datatype pyval =
    PyNone
  | PyBool bool
  | PyInt int
  | PyStr string
  | PyList "pyval list"
  | PyTuple "pyval list"
  | PyDict "(string \<times> pyval) list"

text \<open>Python's truth value of an object.\<close>

fun truthy :: "pyval \<Rightarrow> bool" where
  "truthy PyNone = False"
| "truthy (PyBool b) = b"
| "truthy (PyInt i) = (i \<noteq> 0)"
| "truthy (PyStr s) = (s \<noteq> [])"
| "truthy (PyList xs) = (xs \<noteq> [])"
| "truthy (PyTuple xs) = (xs \<noteq> [])"
| "truthy (PyDict kvs) = (kvs \<noteq> [])"

fun is_list :: "pyval \<Rightarrow> bool" where
  "is_list (PyList xs) = True"
| "is_list _ = False"

fun is_dict :: "pyval \<Rightarrow> bool" where
  "is_dict (PyDict kvs) = True"
| "is_dict _ = False"

fun is_basestring :: "pyval \<Rightarrow> bool" where
  "is_basestring (PyStr s) = True"
| "is_basestring _ = False"

section \<open>Dictionaries\<close>

text \<open>
  A dictionary is an association list with distinct keys; the list's order is the order in
  which Python iterates over it. Python 2 promises no particular order, so a statement about
  a dictionary passed in is about every list, hence about every order.
\<close>

type_synonym ('k, 'v) dict = "('k \<times> 'v) list"

abbreviation dget :: "('k, 'v) dict \<Rightarrow> 'k \<Rightarrow> 'v option" where
  "dget d k \<equiv> map_of d k"

abbreviation dkeys :: "('k, 'v) dict \<Rightarrow> 'k list" where
  "dkeys d \<equiv> map fst d"

definition dset :: "'k \<Rightarrow> 'v \<Rightarrow> ('k, 'v) dict \<Rightarrow> ('k, 'v) dict" where
  "dset k v d = AList.update k v d"

definition ddel :: "'k \<Rightarrow> ('k, 'v) dict \<Rightarrow> ('k, 'v) dict" where
  "ddel k d = AList.delete k d"

definition dict_ok :: "('k, 'v) dict \<Rightarrow> bool" where
  "dict_ok d = distinct (dkeys d)"

text \<open>\<open>d[k]\<close>, which raises \<open>KeyError\<close> for a missing key, and \<open>d.get(k, default)\<close>.\<close>

definition dindex :: "('k, 'v) dict \<Rightarrow> 'k \<Rightarrow> 'v result" where
  "dindex d k = (case dget d k of None \<Rightarrow> Inl KeyError | Some v \<Rightarrow> Inr v)"

definition dgetd :: "('k, 'v) dict \<Rightarrow> 'k \<Rightarrow> 'v \<Rightarrow> 'v" where
  "dgetd d k v0 = (case dget d k of None \<Rightarrow> v0 | Some v \<Rightarrow> v)"

text \<open>\<open>d.update(e)\<close>.\<close>

definition dupdate :: "('k, 'v) dict \<Rightarrow> ('k, 'v) dict \<Rightarrow> ('k, 'v) dict" where
  "dupdate d e = fold (\<lambda>(k, v). dset k v) e d"

lemma dget_dset [simp, py_dict]: "dget (dset k v d) = (dget d)(k \<mapsto> v)"
  by (rule ext) (simp add: dset_def update_conv')

lemma dget_ddel [simp, py_dict]: "dget (ddel k d) = (dget d)(k := None)"
  by (rule ext) (simp add: ddel_def delete_conv')

lemma dkeys_dset: "set (dkeys (dset k v d)) = insert k (set (dkeys d))"
  unfolding dset_def by (auto simp: update_keys)

lemma fst_set_dset [simp]: "fst ` set (dset k v d) = insert k (fst ` set d)"
  using dkeys_dset [of k v d] by simp

lemma dkeys_ddel: "set (dkeys (ddel k d)) = set (dkeys d) - {k}"
  unfolding ddel_def by (metis AList.delete_keys set_removeAll)

lemma dict_ok_empty [simp, py_dict]: "dict_ok []"
  by (simp add: dict_ok_def)

lemma dict_ok_dset [simp, py_dict]: "dict_ok d \<Longrightarrow> dict_ok (dset k v d)"
  by (simp add: dict_ok_def dset_def distinct_update)

lemma dict_ok_ddel [simp, py_dict]: "dict_ok d \<Longrightarrow> dict_ok (ddel k d)"
  by (simp add: dict_ok_def ddel_def distinct_delete)

lemma dget_None: "dget d k = None \<longleftrightarrow> k \<notin> set (dkeys d)"
  by (simp add: map_of_eq_None_iff)

lemma dget_present: "k \<in> set (dkeys d) \<Longrightarrow> \<exists>v. dget d k = Some v"
  using dget_None [of d k] by (cases "dget d k") auto

lemma dget_SomeD: "dget d k = Some v \<Longrightarrow> (k, v) \<in> set d"
  by (rule map_of_SomeD)

lemma dict_ok_dget: "dict_ok d \<Longrightarrow> (k, v) \<in> set d \<longleftrightarrow> dget d k = Some v"
  by (simp add: dict_ok_def)

lemma dindex_eq_Inr [simp]: "dindex d k = Inr v \<longleftrightarrow> dget d k = Some v"
  by (simp add: dindex_def split: option.splits)

lemma dindex_Some [simp]: "dget d k = Some v \<Longrightarrow> dindex d k = Inr v"
  by (simp add: dindex_def)

lemma dindex_eq_Inl: "dindex d k = Inl e \<longleftrightarrow> dget d k = None \<and> e = KeyError"
  by (auto simp: dindex_def split: option.splits)

lemma dget_dupdate: "dict_ok e \<Longrightarrow> dget (dupdate d e) = dget d ++ dget e"
proof (induction e arbitrary: d)
  case Nil
  then show ?case by (simp add: dupdate_def)
next
  case (Cons a e)
  obtain k v where [simp]: "a = (k, v)" by (cases a)
  from Cons.prems have "dict_ok e" and k: "k \<notin> set (dkeys e)"
    by (auto simp: dict_ok_def)
  have "dget (dupdate d (a # e)) = dget (dupdate (dset k v d) e)"
    by (simp add: dupdate_def)
  also have "\<dots> = dget (dset k v d) ++ dget e"
    by (rule Cons.IH [OF \<open>dict_ok e\<close>])
  also have "\<dots> = dget d ++ dget (a # e)"
    using k by (auto simp: fun_eq_iff map_add_def split: option.splits dest: map_of_SomeD)
       (metis image_eqI map_of_SomeD prod.sel(1))
  finally show ?case .
qed

lemma dict_ok_dupdate [py_dict]: "dict_ok d \<Longrightarrow> dict_ok (dupdate d e)"
  unfolding dupdate_def by (induction e arbitrary: d) auto

text \<open>
  The interface of a Python dictionary: what an indexed read returns after a store or a
  deletion, and that both keep the keys distinct.
\<close>

locale dictionary =
  fixes lookup :: "'d \<Rightarrow> 'k \<Rightarrow> 'v option"
    and store :: "'k \<Rightarrow> 'v \<Rightarrow> 'd \<Rightarrow> 'd"
    and remove :: "'k \<Rightarrow> 'd \<Rightarrow> 'd"
    and wf_dict :: "'d \<Rightarrow> bool"
  assumes lookup_store: "lookup (store k v d) = (lookup d)(k \<mapsto> v)"
    and lookup_remove: "lookup (remove k d) = (lookup d)(k := None)"
    and wf_store: "wf_dict d \<Longrightarrow> wf_dict (store k v d)"
    and wf_remove: "wf_dict d \<Longrightarrow> wf_dict (remove k d)"
begin

text \<open>Storing a list of bindings: the last binding of a key wins, other keys are kept.\<close>

lemma lookup_fold_store:
  "lookup (fold (\<lambda>x. store (key x) (val x)) xs d) k =
     (case find (\<lambda>x. key x = k) (rev xs) of Some x \<Rightarrow> Some (val x) | None \<Rightarrow> lookup d k)"
proof (induction xs rule: rev_induct)
  case (snoc x xs)
  then show ?case by (simp add: lookup_store)
qed simp

lemma lookup_fold_store_other:
  "k \<notin> key ` set xs \<Longrightarrow> lookup (fold (\<lambda>x. store (key x) (val x)) xs d) k = lookup d k"
  by (induction xs arbitrary: d) (auto simp: lookup_store)

lemma wf_fold_store: "wf_dict d \<Longrightarrow> wf_dict (fold (\<lambda>x. store (key x) (val x)) xs d)"
  by (induction xs arbitrary: d) (auto simp: wf_store)

lemma store_remove_other: "k \<noteq> j \<Longrightarrow> lookup (remove j (store k v d)) k = Some v"
  by (simp add: lookup_store lookup_remove)

end

interpretation pyd: dictionary "map_of :: ('k, 'v) dict \<Rightarrow> 'k \<Rightarrow> 'v option" dset ddel dict_ok
  by unfold_locales simp_all

end
