(* ===== verification/Py_Str.thy ===== *)
theory Py_Str
  imports Py_Base
begin

text \<open>
  The string methods and the functions of \<open>os.path\<close> (\<open>posixpath\<close>, Python 2.7) that
  the sources call: \<open>startswith\<close>, \<open>endswith\<close>, \<open>in\<close>, \<open>split\<close>, \<open>rsplit\<close>, \<open>strip\<close>,
  \<open>join\<close>, \<open>replace\<close>, \<open>translate\<close>; and \<open>os.path.join\<close>, \<open>normpath\<close>, \<open>dirname\<close>,
  \<open>basename\<close>, \<open>abspath\<close>, \<open>relpath\<close>. The main results are that splitting inverts joining and
  that \<open>normpath\<close> is idempotent, which the callers rely on when they compare paths.
\<close>

section \<open>String methods\<close>

definition startswith :: "string \<Rightarrow> string \<Rightarrow> bool" where
  "startswith s p = prefix p s"

definition endswith :: "string \<Rightarrow> string \<Rightarrow> bool" where
  "endswith s p = suffix p s"

text \<open>\<open>p in s\<close> for strings.\<close>

fun str_in :: "string \<Rightarrow> string \<Rightarrow> bool" where
  "str_in p [] = (p = [])"
| "str_in p (c # s) = (prefix p (c # s) \<or> str_in p s)"

text \<open>\<open>s.split(c)\<close> for a one-character separator.\<close>

fun split_on :: "char \<Rightarrow> string \<Rightarrow> string list" where
  "split_on c [] = [[]]"
| "split_on c (x # xs) =
     (if x = c then [] # split_on c xs
      else (case split_on c xs of [] \<Rightarrow> [[x]] | y # ys \<Rightarrow> (x # y) # ys))"

text \<open>\<open>c.join(parts)\<close>, with a separator string.\<close>

fun join_with :: "string \<Rightarrow> string list \<Rightarrow> string" where
  "join_with sep [] = []"
| "join_with sep [x] = x"
| "join_with sep (x # y # ys) = x @ sep @ join_with sep (y # ys)"

text \<open>
  \<open>s.rsplit(c, 1)\<close>: the parts before and after the last separator, or \<open>None\<close> in place of
  the one-element list \<open>[s]\<close> when the separator does not occur.
\<close>

definition rsplit1 :: "char \<Rightarrow> string \<Rightarrow> (string \<times> string) option" where
  "rsplit1 c s =
     (if c \<in> set s
      then Some (rev (tl (dropWhile (\<lambda>x. x \<noteq> c) (rev s))), rev (takeWhile (\<lambda>x. x \<noteq> c) (rev s)))
      else None)"

text \<open>\<open>a, b = s.split(c)\<close>: unpacking raises \<open>ValueError\<close> unless there are two parts.\<close>

definition unpack2 :: "'a list \<Rightarrow> ('a \<times> 'a) result" where
  "unpack2 xs = (case xs of [a, b] \<Rightarrow> Inr (a, b) | _ \<Rightarrow> Inl ValueError)"

definition unpack3 :: "'a list \<Rightarrow> ('a \<times> 'a \<times> 'a) result" where
  "unpack3 xs = (case xs of [a, b, c] \<Rightarrow> Inr (a, b, c) | _ \<Rightarrow> Inl ValueError)"

definition is_space :: "char \<Rightarrow> bool" where
  "is_space c = (c \<in> {CHR '' '', CHR 0x09, CHR 0x0A, CHR 0x0B, CHR 0x0C, CHR 0x0D})"

definition rstrip_by :: "(char \<Rightarrow> bool) \<Rightarrow> string \<Rightarrow> string" where
  "rstrip_by P s = rev (dropWhile P (rev s))"

definition strip_by :: "(char \<Rightarrow> bool) \<Rightarrow> string \<Rightarrow> string" where
  "strip_by P s = rstrip_by P (dropWhile P s)"

definition strip :: "string \<Rightarrow> string" where
  "strip s = strip_by is_space s"

text \<open>\<open>s.split()\<close>: the maximal runs of non-space characters.\<close>

function split_ws :: "string \<Rightarrow> string list" where
  "split_ws s =
     (case dropWhile is_space s of
        [] \<Rightarrow> []
      | c # cs \<Rightarrow>
          takeWhile (\<lambda>x. \<not> is_space x) (c # cs) # split_ws (dropWhile (\<lambda>x. \<not> is_space x) (c # cs)))"
  by pat_completeness auto
termination
proof (relation "measure length", simp)
  fix s c cs
  assume d: "dropWhile is_space s = c # cs"
  then have "\<not> is_space c" by (simp add: dropWhile_eq_Cons_conv)
  have "length (dropWhile (\<lambda>x. \<not> is_space x) (c # cs)) < length (c # cs)"
    using \<open>\<not> is_space c\<close> by (simp add: le_imp_less_Suc length_dropWhile_le)
  also have "\<dots> \<le> length s"
    using length_dropWhile_le [of is_space s] d by simp
  finally show "(dropWhile (\<lambda>x. \<not> is_space x) (c # cs), s) \<in> measure length" by simp
qed

declare split_ws.simps [simp del]

text \<open>\<open>s.replace(a, b)\<close> for one-character strings, and \<open>translate\<close> with a table.\<close>

definition replace_char :: "char \<Rightarrow> char \<Rightarrow> string \<Rightarrow> string" where
  "replace_char a b s = map (\<lambda>x. if x = a then b else x) s"

definition translate_chars :: "string \<Rightarrow> char \<Rightarrow> string \<Rightarrow> string" where
  "translate_chars from to s = map (\<lambda>x. if x \<in> set from then to else x) s"

text \<open>\<open>s.replace(old, new)\<close>: occurrences from left to right; \<open>old\<close> is not empty.\<close>

function replace_str :: "string \<Rightarrow> string \<Rightarrow> string \<Rightarrow> string" where
  "replace_str old new s =
     (if old \<noteq> [] \<and> startswith s old then new @ replace_str old new (drop (length old) s)
      else case s of [] \<Rightarrow> [] | c # cs \<Rightarrow> c # replace_str old new cs)"
  by pat_completeness auto
termination
  by (relation "measure (\<lambda>(_, _, s). length s)") (auto simp: startswith_def prefix_def)

declare replace_str.simps [simp del]

text \<open>\<open>s.upper()\<close> and \<open>s.lower()\<close> in the C locale.\<close>

definition upper_char :: "char \<Rightarrow> char" where
  "upper_char c = (let n = of_char c :: nat in if 97 \<le> n \<and> n \<le> 122 then char_of (n - 32) else c)"

definition upper :: "string \<Rightarrow> string" where
  "upper s = map upper_char s"

definition lower_char :: "char \<Rightarrow> char" where
  "lower_char c = (let n = of_char c :: nat in if 65 \<le> n \<and> n \<le> 90 then char_of (n + 32) else c)"

definition lower :: "string \<Rightarrow> string" where
  "lower s = map lower_char s"

text \<open>Decimal rendering, as \<open>'%d'\<close> and \<open>str\<close> give it for integers.\<close>

fun show_nat :: "nat \<Rightarrow> string" where
  "show_nat n =
     (if n < 10 then [char_of (n + 48)] else show_nat (n div 10) @ [char_of (n mod 10 + 48)])"

declare show_nat.simps [simp del]

definition show_int :: "int \<Rightarrow> string" where
  "show_int i = (if i < 0 then ''-'' @ show_nat (nat (- i)) else show_nat (nat i))"

subsection \<open>Laws\<close>

lemma startswith_iff [py_str]: "startswith s p \<longleftrightarrow> (\<exists>t. s = p @ t)"
  by (auto simp: startswith_def prefix_def)

lemma endswith_iff [py_str]: "endswith s p \<longleftrightarrow> (\<exists>t. s = t @ p)"
  by (auto simp: endswith_def suffix_def)

lemma str_in_iff [py_str]: "str_in p s \<longleftrightarrow> (\<exists>a b. s = a @ p @ b)"
proof (induction s)
  case (Cons c s)
  show ?case
  proof
    assume "str_in p (c # s)"
    then consider t where "c # s = p @ t" | a b where "s = a @ p @ b"
      using Cons.IH by (auto simp: prefix_def)
    then show "\<exists>a b. c # s = a @ p @ b"
      by cases (metis append_Nil, metis append_Cons)
  next
    assume "\<exists>a b. c # s = a @ p @ b"
    then obtain a b where ab: "c # s = a @ p @ b" by blast
    show "str_in p (c # s)"
    proof (cases a)
      case Nil
      then have "prefix p (c # s)" using ab by (simp add: prefix_def)
      then show ?thesis by simp
    next
      case (Cons _ a')
      then show ?thesis using ab Cons.IH by auto
    qed
  qed
qed auto

lemma split_on_not_Nil [simp]: "split_on c s \<noteq> []"
  by (induction s) (auto split: list.splits)

lemma split_on_no_sep [simp]: "c \<notin> set s \<Longrightarrow> split_on c s = [s]"
  by (induction s) auto

lemma split_on_parts: "p \<in> set (split_on c s) \<Longrightarrow> c \<notin> set p"
proof (induction s arbitrary: p)
  case (Cons x s)
  show ?case
  proof (cases "split_on c s")
    case Nil
    then show ?thesis by simp
  next
    case (Cons q qs)
    then show ?thesis
      using Cons.prems Cons.IH by (auto split: if_splits)
  qed
qed simp

lemma split_on_append_sep:
  "c \<notin> set p \<Longrightarrow> split_on c (p @ c # s) = p # split_on c s"
  by (induction p) auto

text \<open>Splitting inverts joining, for parts that do not contain the separator.\<close>

lemma split_join:
  "parts \<noteq> [] \<Longrightarrow> \<forall>p \<in> set parts. c \<notin> set p \<Longrightarrow> split_on c (join_with [c] parts) = parts"
  by (induction "[c]" parts rule: join_with.induct) (auto simp: split_on_append_sep)

lemma join_split: "join_with [c] (split_on c s) = s"
proof (induction s)
  case (Cons x s)
  obtain q qs where q: "split_on c s = q # qs"
    by (cases "split_on c s") auto
  show ?case
    using Cons q by (cases qs) auto
qed simp

lemma join_with_Cons: "xs \<noteq> [] \<Longrightarrow> join_with sep (x # xs) = x @ sep @ join_with sep xs"
  by (cases xs) auto

lemma join_with_eq_Nil: "join_with [c] xs = [] \<longleftrightarrow> xs = [] \<or> xs = [[]]"
  by (induction "[c]" xs rule: join_with.induct) auto

lemma rsplit1_eq_Some:
  "rsplit1 c s = Some (a, b) \<longleftrightarrow> s = a @ c # b \<and> c \<notin> set b"
proof
  assume "rsplit1 c s = Some (a, b)"
  then have c: "c \<in> set s"
    and a: "a = rev (tl (dropWhile (\<lambda>x. x \<noteq> c) (rev s)))"
    and b: "b = rev (takeWhile (\<lambda>x. x \<noteq> c) (rev s))"
    by (auto simp: rsplit1_def split: if_splits)
  from c obtain y ys where y: "dropWhile (\<lambda>x. x \<noteq> c) (rev s) = y # ys" "y = c"
    by (metis (mono_tags, lifting) dropWhile_eq_Nil_conv hd_dropWhile list.exhaust_sel set_rev)
  have "rev s = takeWhile (\<lambda>x. x \<noteq> c) (rev s) @ y # ys"
    using y(1) takeWhile_dropWhile_id [of "\<lambda>x. x \<noteq> c" "rev s"] by simp
  then have "s = rev ys @ y # rev (takeWhile (\<lambda>x. x \<noteq> c) (rev s))"
    by (metis append.assoc append_Cons append_Nil rev_append rev_rev_ident rev.simps(2))
  moreover have "c \<notin> set b"
    unfolding b by (auto dest: set_takeWhileD)
  ultimately show "s = a @ c # b \<and> c \<notin> set b"
    using y a b by simp
next
  assume s: "s = a @ c # b \<and> c \<notin> set b"
  then have "takeWhile (\<lambda>x. x \<noteq> c) (rev s) = rev b" "dropWhile (\<lambda>x. x \<noteq> c) (rev s) = c # rev a"
    by (auto simp: takeWhile_append dropWhile_append)
  with s show "rsplit1 c s = Some (a, b)"
    by (simp add: rsplit1_def)
qed

lemma rsplit1_None: "rsplit1 c s = None \<longleftrightarrow> c \<notin> set s"
  by (simp add: rsplit1_def)

lemma unpack2_eq_Inr [simp]: "unpack2 xs = Inr (a, b) \<longleftrightarrow> xs = [a, b]"
  by (auto simp: unpack2_def split: list.splits)

lemma unpack3_eq_Inr [simp]: "unpack3 xs = Inr (a, b, c) \<longleftrightarrow> xs = [a, b, c]"
  by (auto simp: unpack3_def split: list.splits)

lemma set_replace_char: "b \<noteq> a \<Longrightarrow> a \<notin> set (replace_char a b s)"
  by (auto simp: replace_char_def)

section \<open>Path functions\<close>

abbreviation slash :: char where
  "slash \<equiv> CHR ''/''"

text \<open>\<open>os.path.join(a, b)\<close>; the variadic form is the fold from the left.\<close>

definition path_join :: "string \<Rightarrow> string \<Rightarrow> string" where
  "path_join a b =
     (if startswith b ''/'' then b
      else if a = [] \<or> endswith a ''/'' then a @ b
      else a @ ''/'' @ b)"

definition path_join3 :: "string \<Rightarrow> string \<Rightarrow> string \<Rightarrow> string" where
  "path_join3 a b c = path_join (path_join a b) c"

text \<open>
  The component loop of \<open>normpath\<close>: \<open>rooted\<close> is the truth value of
  \<open>initial_slashes\<close> and \<open>acc\<close> the list \<open>new_comps\<close>.
\<close>

definition norm_step :: "bool \<Rightarrow> string \<Rightarrow> string list \<Rightarrow> string list" where
  "norm_step rooted cp acc =
     (if cp = [] \<or> cp = ''.'' then acc
      else if cp \<noteq> ''..'' \<or> (\<not> rooted \<and> acc = []) \<or> (acc \<noteq> [] \<and> last acc = ''..'')
      then acc @ [cp]
      else butlast acc)"

definition initial_slashes :: "string \<Rightarrow> nat" where
  "initial_slashes p =
     (if startswith p ''/''
      then (if startswith p ''//'' \<and> \<not> startswith p ''///'' then 2 else 1)
      else 0)"

definition normpath :: "string \<Rightarrow> string" where
  "normpath p =
     (if p = [] then ''.''
      else let n = initial_slashes p;
               comps = fold (norm_step (n \<noteq> 0)) (split_on slash p) [];
               q = replicate n slash @ join_with ''/'' comps
           in if q = [] then ''.'' else q)"

text \<open>\<open>dirname\<close> and \<open>basename\<close> split after the last slash.\<close>

definition path_head :: "string \<Rightarrow> string" where
  "path_head p = rev (dropWhile (\<lambda>x. x \<noteq> slash) (rev p))"

definition basename :: "string \<Rightarrow> string" where
  "basename p = rev (takeWhile (\<lambda>x. x \<noteq> slash) (rev p))"

definition dirname :: "string \<Rightarrow> string" where
  "dirname p =
     (let h = path_head p
      in if h \<noteq> [] \<and> \<not> list_all (\<lambda>x. x = slash) h then rstrip_by (\<lambda>x. x = slash) h else h)"

definition abspath :: "string \<Rightarrow> string \<Rightarrow> string" where
  "abspath cwd p = normpath (if startswith p ''/'' then p else path_join cwd p)"

text \<open>\<open>os.path.relpath(path, start)\<close> in the working directory \<open>cwd\<close>.\<close>

fun common_prefix_len :: "'a list \<Rightarrow> 'a list \<Rightarrow> nat" where
  "common_prefix_len (x # xs) (y # ys) = (if x = y then Suc (common_prefix_len xs ys) else 0)"
| "common_prefix_len _ _ = 0"

definition relpath :: "string \<Rightarrow> string \<Rightarrow> string \<Rightarrow> string result" where
  "relpath cwd path start =
     (if path = [] then Inl ValueError
      else
        let start_list = filter (\<lambda>x. x \<noteq> []) (split_on slash (abspath cwd start));
            path_list = filter (\<lambda>x. x \<noteq> []) (split_on slash (abspath cwd path));
            i = common_prefix_len start_list path_list;
            rel_list = replicate (length start_list - i) ''..'' @ drop i path_list
        in Inr (if rel_list = [] then ''.'' else join_with [slash] rel_list))"


subsection \<open>Normalised paths\<close>

text \<open>
  The component lists \<open>normpath\<close> produces: no empty or \<open>.\<close> component, no separator inside
  a component, and \<open>..\<close> only in front, never below the root.
\<close>

definition plain_comp :: "string \<Rightarrow> bool" where
  "plain_comp cp = (cp \<noteq> [] \<and> cp \<noteq> ''.'' \<and> slash \<notin> set cp)"

definition norm_comps :: "bool \<Rightarrow> string list \<Rightarrow> bool" where
  "norm_comps rooted cs =
     (list_all plain_comp cs \<and>
      (if rooted then ''..'' \<notin> set cs else ''..'' \<notin> set (dropWhile (\<lambda>x. x = ''..'') cs)))"

lemma dropWhile_butlast_subset: "set (dropWhile P (butlast xs)) \<subseteq> set (dropWhile P xs)"
  by (induction xs) (auto dest: in_set_butlastD)

lemma norm_comps_Nil [simp]: "norm_comps r []"
  by (simp add: norm_comps_def)

lemma norm_comps_butlast: "norm_comps r cs \<Longrightarrow> norm_comps r (butlast cs)"
  using dropWhile_butlast_subset [of "\<lambda>x. x = ''..''" cs]
  by (auto simp: norm_comps_def list_all_iff dest: in_set_butlastD)

lemma last_dropWhile_all:
  "d \<notin> set (dropWhile (\<lambda>x. x = d) cs) \<Longrightarrow> cs \<noteq> [] \<Longrightarrow> last cs = d \<Longrightarrow>
   dropWhile (\<lambda>x. x = d) cs = []"
  by (metis last_appendR last_in_set takeWhile_dropWhile_id)

lemma norm_comps_snoc:
  assumes "norm_comps r acc" and "plain_comp cp"
    and "cp = ''..'' \<Longrightarrow> \<not> r \<and> (acc = [] \<or> last acc = ''..'')"
  shows "norm_comps r (acc @ [cp])"
proof (cases r)
  case True
  then show ?thesis using assms by (auto simp: norm_comps_def)
next
  case False
  with assms(1) have acc: "''..'' \<notin> set (dropWhile (\<lambda>x. x = ''..'') acc)"
    by (simp add: norm_comps_def)
  have "''..'' \<notin> set (dropWhile (\<lambda>x. x = ''..'') (acc @ [cp]))"
  proof (cases "cp = ''..''")
    case True
    then have "dropWhile (\<lambda>x. x = ''..'') acc = []"
      using last_dropWhile_all [OF acc] assms(3) by (cases "acc = []") simp_all
    then show ?thesis using True by (simp add: dropWhile_append)
  next
    case False
    then show ?thesis using acc by (auto simp: dropWhile_append)
  qed
  with False assms(1,2) show ?thesis by (simp add: norm_comps_def)
qed

lemma norm_comps_step:
  assumes "norm_comps r acc" and "slash \<notin> set cp"
  shows "norm_comps r (norm_step r cp acc)"
proof (cases "cp = [] \<or> cp = ''.''")
  case True
  then have "norm_step r cp acc = acc" by (simp add: norm_step_def)
  then show ?thesis using assms(1) by simp
next
  case False
  then have plain: "plain_comp cp" using assms(2) by (simp add: plain_comp_def)
  show ?thesis
  proof (cases "cp \<noteq> ''..'' \<or> (\<not> r \<and> acc = []) \<or> (acc \<noteq> [] \<and> last acc = ''..'')")
    case True
    then have step: "norm_step r cp acc = acc @ [cp]" using False by (simp add: norm_step_def)
    have "norm_comps r (acc @ [cp])"
    proof (rule norm_comps_snoc [OF assms(1) plain])
      assume "cp = ''..''"
      with True have "(\<not> r \<and> acc = []) \<or> (acc \<noteq> [] \<and> last acc = ''..'')" by simp
      moreover have "acc \<noteq> [] \<Longrightarrow> last acc = ''..'' \<Longrightarrow> \<not> r"
        using assms(1) last_in_set [of acc] by (metis norm_comps_def)
      ultimately show "\<not> r \<and> (acc = [] \<or> last acc = ''..'')" by metis
    qed
    with step show ?thesis by simp
  next
    case 2: False
    have "norm_step r cp acc = butlast acc"
      unfolding norm_step_def by (simp only: if_not_P [OF False] if_not_P [OF 2])
    then show ?thesis using norm_comps_butlast [OF assms(1)] by simp
  qed
qed

lemma norm_comps_fold:
  "norm_comps r acc \<Longrightarrow> \<forall>c \<in> set cs. slash \<notin> set c \<Longrightarrow> norm_comps r (fold (norm_step r) cs acc)"
  by (induction cs arbitrary: acc) (auto simp: norm_comps_step)

lemma norm_comps_snocD: "norm_comps r (acc @ [cp]) \<Longrightarrow> norm_comps r acc"
  using norm_comps_butlast [of r "acc @ [cp]"] by simp

text \<open>A normal component list is a fixed point of the loop.\<close>

lemma fold_norm_step_fixed: "norm_comps r cs \<Longrightarrow> fold (norm_step r) cs [] = cs"
proof (induction cs rule: rev_induct)
  case (snoc cp cs)
  from snoc.prems have cs: "norm_comps r cs" by (rule norm_comps_snocD)
  have "norm_step r cp cs = cs @ [cp]"
  proof (cases "cp = ''..''")
    case True
    with snoc.prems have "\<not> r" by (auto simp: norm_comps_def)
    then have "''..'' \<notin> set (dropWhile (\<lambda>x. x = ''..'') (cs @ [cp]))"
      using snoc.prems by (simp add: norm_comps_def)
    then have "dropWhile (\<lambda>x. x = ''..'') cs = []"
      using True by (auto simp: dropWhile_append split: if_splits)
    then have all: "\<forall>x \<in> set cs. x = ''..''"
      by (simp only: dropWhile_eq_Nil_conv)
    show ?thesis
    proof (cases "cs = []")
      case False
      then have "last cs = ''..''" using all last_in_set by blast
      with True False show ?thesis by (simp add: norm_step_def)
    qed (use True \<open>\<not> r\<close> in \<open>simp add: norm_step_def\<close>)
  next
    case False
    moreover have "cp \<noteq> []" and "cp \<noteq> ''.''"
      using snoc.prems by (simp_all add: norm_comps_def plain_comp_def)
    ultimately show ?thesis by (simp add: norm_step_def)
  qed
  with snoc.IH [OF cs] show ?case by simp
qed simp

lemma fold_norm_step_Nils: "fold (norm_step r) (replicate n []) acc = acc"
  by (induction n) (auto simp: norm_step_def)

lemma split_slashes: "split_on c (replicate n c @ s) = replicate n [] @ split_on c s"
  by (induction n) auto

lemma join_comps_head:
  assumes "list_all plain_comp cs" and "cs \<noteq> []"
  obtains x xs where "join_with ''/'' cs = x # xs" and "x \<noteq> slash"
proof -
  obtain d ds where cs: "cs = d # ds" using assms(2) by (cases cs) auto
  with assms(1) obtain x xs where d: "d = x # xs" "x \<noteq> slash"
    by (cases d) (auto simp: plain_comp_def)
  show ?thesis
    by (rule that [of x "tl (join_with ''/'' cs)"]) (use cs d in \<open>cases ds; simp\<close>)+
qed

text \<open>The text \<open>normpath\<close> returns for a component list.\<close>

definition norm_text :: "nat \<Rightarrow> string list \<Rightarrow> string" where
  "norm_text n cs = (let q = replicate n slash @ join_with ''/'' cs in if q = [] then ''.'' else q)"

lemma initial_slashes_le: "initial_slashes p \<le> 2"
  by (simp add: initial_slashes_def)

lemma initial_slashes_text:
  assumes "n \<le> 2" and "list_all plain_comp cs"
  shows "initial_slashes (replicate n slash @ join_with ''/'' cs) = n"
proof (cases "cs = []")
  case True
  then show ?thesis
    using assms(1) by (auto simp: initial_slashes_def startswith_def le_Suc_eq numeral_2_eq_2)
next
  case False
  obtain x xs where "join_with ''/'' cs = x # xs" "x \<noteq> slash"
    using join_comps_head [OF assms(2) False] by metis
  then show ?thesis
    using assms(1) by (auto simp: initial_slashes_def startswith_def le_Suc_eq numeral_2_eq_2)
qed

lemma normpath_text:
  assumes "n \<le> 2" and "norm_comps (n \<noteq> 0) cs"
  shows "normpath (norm_text n cs) = norm_text n cs"
proof (cases "replicate n slash @ join_with ''/'' cs = []")
  case True
  then have "norm_text n cs = ''.''" by (simp add: norm_text_def)
  then show ?thesis
    by (simp add: normpath_def initial_slashes_def startswith_def norm_step_def)
next
  case False
  let ?q = "replicate n slash @ join_with ''/'' cs"
  have plain: "list_all plain_comp cs" using assms(2) by (simp add: norm_comps_def)
  have n: "initial_slashes ?q = n" by (rule initial_slashes_text [OF assms(1) plain])
  have "fold (norm_step (n \<noteq> 0)) (split_on slash ?q) [] =
        fold (norm_step (n \<noteq> 0)) (split_on slash (join_with ''/'' cs)) []"
    by (simp only: split_slashes fold_append comp_apply fold_norm_step_Nils)
  also have "\<dots> = cs"
  proof (cases "cs = []")
    case True
    then show ?thesis by (simp add: norm_step_def)
  next
    case False
    then have "split_on slash (join_with ''/'' cs) = cs"
      using plain by (intro split_join) (auto simp: list_all_iff plain_comp_def)
    then show ?thesis using fold_norm_step_fixed [OF assms(2)] by simp
  qed
  finally have comps: "fold (norm_step (n \<noteq> 0)) (split_on slash ?q) [] = cs" .
  have "norm_text n cs = ?q"
    unfolding norm_text_def Let_def by (rule if_not_P [OF False])
  moreover have "normpath ?q = ?q"
    unfolding normpath_def Let_def n comps using False by (simp only: if_False)
  ultimately show ?thesis by simp
qed

lemma normpath_is_text:
  obtains n cs where "normpath p = norm_text n cs" and "n \<le> 2" and "norm_comps (n \<noteq> 0) cs"
proof (cases "p = []")
  case True
  then have "normpath p = norm_text 0 []" by (simp add: normpath_def norm_text_def)
  then show ?thesis by (rule that) auto
next
  case False
  let ?n = "initial_slashes p"
  have "norm_comps (?n \<noteq> 0) (fold (norm_step (?n \<noteq> 0)) (split_on slash p) [])"
    by (rule norm_comps_fold) (auto dest: split_on_parts)
  then show ?thesis
    using that [of ?n] False initial_slashes_le by (simp add: normpath_def norm_text_def Let_def)
qed

lemma normpath_idem [simp]: "normpath (normpath p) = normpath p"
  by (rule normpath_is_text [of p]) (simp add: normpath_text)

lemma normpath_nonempty [simp]: "normpath p \<noteq> []"
  by (simp add: normpath_def Let_def)

text \<open>
  The contract of a path normaliser: callers that compare, store or nest normalised paths
  use only that normalising again changes nothing.
\<close>

locale path_normaliser =
  fixes norm :: "string \<Rightarrow> string"
  assumes norm_idem: "norm (norm p) = norm p"
begin

lemma norm_eq_cong: "norm p = norm q \<longleftrightarrow> norm (norm p) = norm (norm q)"
  by (simp add: norm_idem)

lemma normal_member: "\<forall>q \<in> set ps. norm q = q \<Longrightarrow> norm p = p \<Longrightarrow> norm p \<in> norm ` set ps \<longleftrightarrow> p \<in> set ps"
  by (force simp: image_iff)

lemma map_norm_normal: "map norm (map norm ps) = map norm ps"
  by (simp add: norm_idem)

end

interpretation posixpath: path_normaliser normpath
  by unfold_locales simp

end
