(* ===== verification/Target_Types.thy ===== *)
theory Target_Types
  imports Py_Str
begin

text \<open>
  The objects the build system passes around: target keys \<open>(path, name)\<close>, the target
  object with the attributes \<open>Target.__init__\<close> sets (\<open>src/blade/target.py\<close>), and the target
  database, a dictionary from keys to target objects.

  A target object is shared between the target database and the dictionary of build
  targets; there is one object per key because \<open>Blade.register_target\<close> refuses a second one.
  The model keeps the objects in the database and represents the dictionary of build targets
  by the list of its keys, so that an update through either dictionary is seen in both.
\<close>

type_synonym key = "string \<times> string"

text \<open>\<open>'PUBLIC'\<close> or the list of keys that may depend on the target.\<close>

datatype visibility = Public | VisibleTo "key list"

text \<open>
  The Python class of a target object, for the methods that subclasses override.
\<close>

datatype tclass =
    SystemLibraryC
  | CcLibraryC | CcBinaryC | CcTestC | CcPluginC
  | CuLibraryC | CuBinaryC | CuTestC
  | ProtoLibraryC | ThriftLibraryC | FBThriftLibraryC | ResourceLibraryC | LexYaccLibraryC
  | SwigLibraryC
  | GenRuleC | ShellTestC | PackageC | JavaJarC
  | MavenJarC | JavaLibraryC | JavaBinaryC | JavaFatLibraryC | JavaTestC
  | ScalaLibraryC | ScalaFatLibraryC | ScalaTestC
  | GoLibraryC | GoBinaryC | GoTestC
  | PythonEggC | PythonLibraryC | PrebuiltPythonLibraryC | PythonBinaryC | PythonTestC

record target =
  t_class :: tclass
  t_key :: key
  t_fullname :: string
  t_name :: string
  t_path :: string
  t_type :: string
  t_srcs :: "string list"
  t_deps :: "key list"
  t_expanded_deps :: "key list"
  t_visibility :: visibility
  t_env_name :: "string option"
  t_data :: "(string, pyval) dict"
  t_rules :: "string list"
  t_gen_headers :: "bool option"

type_synonym database = "(key, target) dict"

text \<open>\<open>'%s:%s' % key\<close>\<close>

definition show_key :: "key \<Rightarrow> string" where
  "show_key k = fst k @ '':'' @ snd k"

text \<open>A store into an attribute of the object registered under a key.\<close>

definition modify_target :: "key \<Rightarrow> (target \<Rightarrow> target) \<Rightarrow> database \<Rightarrow> database" where
  "modify_target k f db = map (\<lambda>(j, t). if j = k then (j, f t) else (j, t)) db"

text \<open>\<open>target.data[name] = v\<close> and \<open>target.data.get(name, default)\<close>.\<close>

definition set_data :: "string \<Rightarrow> pyval \<Rightarrow> target \<Rightarrow> target" where
  "set_data name v t = t\<lparr>t_data := dset name v (t_data t)\<rparr>"

definition get_data :: "target \<Rightarrow> string \<Rightarrow> pyval \<Rightarrow> pyval" where
  "get_data t name v0 = dgetd (t_data t) name v0"

text \<open>The dictionary of build targets, as a view of the database.\<close>

definition bt_view :: "key list \<Rightarrow> database \<Rightarrow> database" where
  "bt_view bt db = filter (\<lambda>(k, _). k \<in> set bt) db"

lemma dget_modify_target:
  "dget (modify_target k f db) j = (if j = k then map_option f (dget db k) else dget db j)"
  by (induction db) (auto simp: modify_target_def)

lemma dkeys_modify_target [simp]: "dkeys (modify_target k f db) = dkeys db"
  by (induction db) (auto simp: modify_target_def)

lemma dget_bt_view: "dget (bt_view bt db) k = (if k \<in> set bt then dget db k else None)"
  by (induction db) (auto simp: bt_view_def)

lemma get_set_data: "get_data (set_data n v t) m v0 = (if m = n then v else get_data t m v0)"
  by (simp add: get_data_def set_data_def dgetd_def)

lemma set_data_simps [simp]:
  "t_expanded_deps (set_data n v t) = t_expanded_deps t"
  "t_deps (set_data n v t) = t_deps t"
  "t_visibility (set_data n v t) = t_visibility t"
  "t_type (set_data n v t) = t_type t"
  "t_class (set_data n v t) = t_class t"
  "t_key (set_data n v t) = t_key t"
  "t_fullname (set_data n v t) = t_fullname t"
  by (simp_all add: set_data_def)

text \<open>
  Operations on the database that only write the \<open>data\<close> dictionaries share a frame
  contract: the keys and every attribute but \<open>data\<close> are unchanged.
\<close>

definition same_but_data :: "target \<Rightarrow> target \<Rightarrow> bool" where
  "same_but_data t u = (t\<lparr>t_data := []\<rparr> = u\<lparr>t_data := []\<rparr>)"

definition data_frame :: "database \<Rightarrow> database \<Rightarrow> bool" where
  "data_frame db db' =
     (dkeys db' = dkeys db \<and> (\<forall>k. rel_option same_but_data (dget db k) (dget db' k)))"

lemma same_but_data_refl [simp]: "same_but_data t t"
  by (simp add: same_but_data_def)

lemma same_but_data_trans: "same_but_data t u \<Longrightarrow> same_but_data u v \<Longrightarrow> same_but_data t v"
  by (simp add: same_but_data_def)

lemma same_but_data_set_data [simp]: "same_but_data t (set_data n v t)"
  by (simp add: same_but_data_def set_data_def)

lemma same_but_dataD:
  assumes "same_but_data t u"
  shows "t_expanded_deps u = t_expanded_deps t" and "t_deps u = t_deps t"
    and "t_visibility u = t_visibility t" and "t_type u = t_type t" and "t_class u = t_class t"
    and "t_key u = t_key t" and "t_fullname u = t_fullname t" and "t_srcs u = t_srcs t"
    and "t_name u = t_name t" and "t_path u = t_path t"
  using assms by (cases t; cases u; simp add: same_but_data_def)+

lemma data_frame_refl [simp]: "data_frame db db"
  by (auto simp: data_frame_def option.rel_refl)

lemma rel_option_trans:
  assumes "\<And>x y z. R x y \<Longrightarrow> R y z \<Longrightarrow> R x z" and "rel_option R a b" and "rel_option R b c"
  shows "rel_option R a c"
  using assms(2,3) by (cases a; cases b; cases c) (auto intro: assms(1))

lemma data_frame_trans: "data_frame a b \<Longrightarrow> data_frame b c \<Longrightarrow> data_frame a c"
proof -
  assume ab: "data_frame a b" and bc: "data_frame b c"
  have "rel_option same_but_data (dget a k) (dget c k)" for k
    by (rule rel_option_trans [of same_but_data _ "dget b k"])
       (use ab bc in \<open>auto simp: data_frame_def intro: same_but_data_trans\<close>)
  with ab bc show ?thesis by (simp add: data_frame_def)
qed

lemma data_frame_set: "data_frame db (modify_target k (set_data n v) db)"
proof -
  have "rel_option same_but_data (dget db j) (dget (modify_target k (set_data n v) db) j)" for j
    by (cases "dget db j") (auto simp: dget_modify_target)
  then show ?thesis by (simp add: data_frame_def)
qed

lemma data_frame_get:
  assumes "data_frame db db'" and "dget db k = Some t"
  obtains t' where "dget db' k = Some t'" and "same_but_data t t'"
proof -
  have "rel_option same_but_data (dget db k) (dget db' k)"
    using assms(1) by (simp add: data_frame_def)
  with assms(2) that show thesis by (auto simp: option_rel_Some1)
qed

lemma data_frame_get':
  assumes "data_frame db db'" and "dget db' k = Some t'"
  obtains t where "dget db k = Some t" and "same_but_data t t'"
proof -
  have "rel_option same_but_data (dget db k) (dget db' k)"
    using assms(1) by (simp add: data_frame_def)
  with assms(2) that show thesis by (auto simp: option_rel_Some2)
qed

lemma data_frame_keys: "data_frame db db' \<Longrightarrow> dkeys db' = dkeys db"
  by (simp add: data_frame_def)

text \<open>
  The contract as an interface: a database operation that stays within the frame. Its
  clients conclude that repeated application keeps the dependency lists.
\<close>

locale data_writer =
  fixes wr :: "'a \<Rightarrow> database \<Rightarrow> database"
  assumes frame: "data_frame db (wr x db)"
begin

lemma frame_fold: "data_frame db (fold wr xs db)"
proof (induction xs arbitrary: db)
  case (Cons x xs)
  show ?case using data_frame_trans [OF frame Cons.IH] by simp
qed simp

lemma fold_keys: "dkeys (fold wr xs db) = dkeys db"
  using frame_fold by (rule data_frame_keys)

end

interpretation set_flag: data_writer "\<lambda>k. modify_target k (set_data n v)" for n v
  by unfold_locales (rule data_frame_set)

end
