(* ===== verification/Dep_Analyzer.thy ===== *)
theory Dep_Analyzer
  imports Target_Types
begin

text \<open>
  The dependency analyser, \<open>src/blade/dependency_analyzer.py\<close>: the visibility check, the
  removal of duplicates, the cached depth-first search that replaces the direct dependencies
  of every build target by all its direct and indirect ones and reports cycles, and the
  topological sort (Kahn's algorithm). The virtual method \<open>_expand_deps_generation\<close> called at
  the end of each expansion is a parameter here and instantiated in theory \<open>Dep_Generation\<close>.
\<close>

section \<open>Definitions\<close>

subsection \<open>Visibility and duplicates\<close>

definition visibility_msg :: "key \<Rightarrow> target \<Rightarrow> string" where
  "visibility_msg tgt d =
     show_key tgt @ '' is not allowed to depend on '' @ t_fullname d @ '' because of visibility.''"

text \<open>
  The branch for a missing dependency formats its message with the name \<open>target_id\<close>, which
  is bound neither in the function nor in the module, so it raises \<open>NameError\<close>.
\<close>

definition check_dep_visibility :: "key \<Rightarrow> key \<Rightarrow> database \<Rightarrow> unit result" where
  "check_dep_visibility tgt dep targets =
     (case dget targets dep of
        None \<Rightarrow> Inl (NameError ''target_id'')
      | Some d \<Rightarrow>
          if fst tgt = fst dep then Inr ()
          else (case t_visibility d of
                  Public \<Rightarrow> Inr ()
                | VisibleTo ks \<Rightarrow>
                    if tgt \<notin> set ks then Inl (SystemExit (visibility_msg tgt d)) else Inr ()))"

fun unique_loop :: "'a list \<Rightarrow> 'a list \<Rightarrow> 'a set \<Rightarrow> 'a list" where
  "unique_loop [] res deps = res"
| "unique_loop (dep # ds) res deps =
     (if dep \<notin> deps then unique_loop ds (res @ [dep]) (insert dep deps)
      else unique_loop ds res deps)"

definition unique_deps :: "'a list \<Rightarrow> 'a list" where
  "unique_deps new_deps_list = rev (unique_loop (rev new_deps_list) [] {})"

subsection \<open>The cached depth-first search\<close>

fun loop_msg_roots :: "key list \<Rightarrow> string" where
  "loop_msg_roots [] = []"
| "loop_msg_roots (t # ts) = ''//'' @ show_key t @ '' --> '' @ loop_msg_roots ts"

definition loop_msg :: "key \<Rightarrow> key list \<Rightarrow> string" where
  "loop_msg d roots =
     ''loop dependency found: //'' @ show_key d @ '' --> ['' @ loop_msg_roots roots @ '']''"

text \<open>
  \<open>roots\<close> is the set \<open>root_targets\<close> of the targets being expanded, kept as a list without
  duplicates; adding \<open>target_id\<close> on entry and removing it on exit is the scope of the
  argument. The loop over the dependencies is the second function: it carries the list
  \<open>new_deps_list\<close> and the cache.
\<close>

type_synonym deps_cache = "(key, key list) dict"

text \<open>
  Each call of the search below the loop expands a target that is not on the stack yet, so
  the number of targets off the stack decreases.
\<close>

definition off_stack :: "database \<Rightarrow> key list \<Rightarrow> nat" where
  "off_stack targets roots = length (filter (\<lambda>k. k \<notin> set roots) (dkeys targets))"

lemma off_stack_Cons:
  assumes "dget targets k = Some t" and "k \<notin> set roots"
  shows "off_stack targets (k # roots) < off_stack targets roots"
proof -
  let ?off = "filter (\<lambda>j. j \<notin> set roots) (dkeys targets)"
  have "k \<in> set (dkeys targets)"
    using assms(1) by (metis dget_None option.distinct(1))
  then have "length (filter (\<lambda>j. j \<noteq> k) ?off) < length ?off"
    using assms(2) by (intro length_filter_less [of k]) auto
  moreover have "filter (\<lambda>j. j \<notin> set (k # roots)) (dkeys targets) =
      filter (\<lambda>j. j \<noteq> k) ?off"
    by (auto intro: filter_cong)
  ultimately show ?thesis by (simp only: off_stack_def)
qed

function (sequential)
  find_all_deps :: "key \<Rightarrow> database \<Rightarrow> deps_cache \<Rightarrow> key list \<Rightarrow> (key list \<times> deps_cache) result"
and
  find_deps_loop :: "key \<Rightarrow> key list \<Rightarrow> database \<Rightarrow> deps_cache \<Rightarrow> key list \<Rightarrow> key list \<Rightarrow>
    (key list \<times> deps_cache) result"
where
  "find_all_deps target_id targets cache roots =
     (case dget cache target_id of
        Some new_deps_list \<Rightarrow> Inr (new_deps_list, cache)
      | None \<Rightarrow>
          (case dget targets target_id of
             None \<Rightarrow> Inl KeyError
           | Some t \<Rightarrow>
               rbind (find_deps_loop target_id (t_expanded_deps t) targets cache
                        (List.insert target_id roots) [])
                 (\<lambda>(l, cache').
                    let l' = unique_deps l in Inr (l', dset target_id l' cache'))))"
| "find_deps_loop target_id [] targets cache roots acc = Inr (acc, cache)"
| "find_deps_loop target_id (d # ds) targets cache roots acc =
     (if d \<in> set roots then Inl (SystemExit (loop_msg d roots))
      else rbind (check_dep_visibility target_id d targets) (\<lambda>_.
        rbind (find_all_deps d targets cache roots) (\<lambda>(l, cache').
          find_deps_loop target_id ds targets cache' roots (acc @ [d] @ l))))"
  by pat_completeness auto
termination
  by (relation "measures
      [\<lambda>x. case x of Inl (_, tg, _, r) \<Rightarrow> off_stack tg r | Inr (_, _, tg, _, r, _) \<Rightarrow> off_stack tg r,
       \<lambda>x. case x of Inl (k, _, _, r) \<Rightarrow> if k \<in> set r then 2 else 0 | Inr _ \<Rightarrow> 1,
       \<lambda>x. case x of Inl _ \<Rightarrow> 0 | Inr (_, ds, _) \<Rightarrow> length ds]")
    (auto intro: off_stack_Cons simp: List.insert_def)

declare find_all_deps.simps [simp del] find_deps_loop.simps [simp del]

text \<open>
  \<open>_expand_deps\<close>: \<open>bt\<close> lists the keys of the dictionary in iteration order, \<open>db\<close> holds the
  objects and \<open>generation\<close> is the virtual method \<open>_expand_deps_generation\<close> of the object
  under the given key, which may raise.
\<close>

type_synonym generation = "key \<Rightarrow> key list \<Rightarrow> database \<Rightarrow> database result"

definition expand_step ::
  "generation \<Rightarrow> key list \<Rightarrow> key \<Rightarrow> database \<times> deps_cache \<Rightarrow> (database \<times> deps_cache) result" where
  "expand_step generation bt target_id s =
     (case s of (db, cache) \<Rightarrow>
        rbind (dindex (bt_view bt db) target_id) (\<lambda>t.
          rbind (find_all_deps target_id (bt_view bt db) cache []) (\<lambda>(l, cache').
            rbind (generation target_id bt
                     (modify_target target_id (\<lambda>t. t\<lparr>t_expanded_deps := l\<rparr>) db))
              (\<lambda>db'. Inr (db', cache')))))"

definition expand_deps :: "generation \<Rightarrow> key list \<Rightarrow> database \<Rightarrow> database result" where
  "expand_deps generation bt db =
     rbind (rfold (expand_step generation bt) bt (db, [])) (\<lambda>(db', _). Inr db')"

subsection \<open>Topological sort\<close>

text \<open>
  The counting phase. \<open>numpreds\<close> and \<open>successors\<close> are dictionaries; the loop body for one
  dependency \<open>first\<close> of \<open>second\<close> follows the source statement by statement.
\<close>

type_synonym counts = "(key, int) dict"
type_synonym succs = "(key, key list) dict"

definition count_dep :: "key \<Rightarrow> key \<Rightarrow> counts \<times> succs \<Rightarrow> (counts \<times> succs) result" where
  "count_dep second first s =
     (case s of (numpreds, successors) \<Rightarrow>
        let numpreds = (if dget numpreds first = None then dset first 0 numpreds else numpreds)
        in rbind (dindex numpreds second) (\<lambda>n.
             let numpreds = dset second (n + 1) numpreds
             in case dget successors first of
                  Some ys \<Rightarrow> Inr (numpreds, dset first (ys @ [second]) successors)
                | None \<Rightarrow> Inr (numpreds, dset first [second] successors)))"

definition count_target :: "key \<times> key list \<Rightarrow> counts \<times> succs \<Rightarrow> (counts \<times> succs) result" where
  "count_target item s =
     (case (item, s) of ((second, deps), (numpreds, successors)) \<Rightarrow>
        let numpreds = (if dget numpreds second = None then dset second 0 numpreds else numpreds);
            successors = (if dget successors second = None then dset second [] successors
                          else successors)
        in rfold (count_dep second) deps (numpreds, successors))"

text \<open>The inner loop of the queue phase: knock down the count of every successor.\<close>

definition knock_down :: "key \<Rightarrow> counts \<times> key list \<Rightarrow> (counts \<times> key list) result" where
  "knock_down y s =
     (case s of (numpreds, q) \<Rightarrow>
        rbind (dindex numpreds y) (\<lambda>n.
          let numpreds = dset y (n - 1) numpreds
          in Inr (numpreds, if n - 1 = 0 then q @ [y] else q)))"

text \<open>
  The queue phase. \<open>del numpreds[x]\<close> raises \<open>KeyError\<close> for an element that was deleted
  before, so each iteration that goes on removes a key from \<open>numpreds\<close>.
\<close>

lemma ddel_length:
  "dget d k = Some v \<Longrightarrow> length (ddel k d) < length d"
proof (induction d)
  case (Cons a d)
  then show ?case
    using length_filter_le [of "\<lambda>(k', _). k \<noteq> k'" d]
    by (cases a) (auto simp: ddel_def AList.delete_eq less_Suc_eq_le split: if_splits)
qed simp

lemma dset_length: "dget d k = Some v \<Longrightarrow> length (dset k w d) = length d"
  by (induction d) (auto simp: dset_def)

lemma knock_down_length:
  "rfold knock_down ys (numpreds, q) = Inr (numpreds', q') \<Longrightarrow> length numpreds' = length numpreds"
  by (rule rfold_invariant [where P = "\<lambda>(n, q). length n = length numpreds", of knock_down ys "(numpreds, q)" "(numpreds', q')", simplified])
     (auto simp: knock_down_def rbind_eq_Inr dset_length Let_def)

function kahn_loop :: "key list \<Rightarrow> counts \<Rightarrow> succs \<Rightarrow> key list \<Rightarrow> key list result" where
  "kahn_loop [] numpreds successors answer = Inr answer"
| "kahn_loop (x # q) numpreds successors answer =
     (case dget numpreds x of
        None \<Rightarrow> Inl KeyError
      | Some _ \<Rightarrow>
          (case dget successors x of
             None \<Rightarrow> kahn_loop q (ddel x numpreds) successors (answer @ [x])
           | Some ys \<Rightarrow>
               rbind (rfold knock_down ys (ddel x numpreds, q)) (\<lambda>(numpreds', q').
                 kahn_loop q' numpreds' successors (answer @ [x]))))"
  by pat_completeness auto
termination
  by (relation "measure (\<lambda>(q, numpreds, _, _). length numpreds)")
     (auto simp: ddel_length dest!: knock_down_length)

text \<open>
  \<open>_topological_sort(pairlist)\<close>. The start of the queue iterates over the new dictionary
  \<open>numpreds\<close>; \<open>order\<close> is the permutation in which the interpreter lists its items.
\<close>

definition topological_sort ::
  "(counts \<Rightarrow> counts) \<Rightarrow> (key \<times> key list) list \<Rightarrow> (key list \<times> succs) result" where
  "topological_sort order pairlist =
     rbind (rfold count_target pairlist ([], [])) (\<lambda>(numpreds, successors).
       let q = [key. (key, num) \<leftarrow> order numpreds, num = 0]
       in rbind (kahn_loop q numpreds successors []) (\<lambda>answer. Inr (answer, successors)))"

text \<open>\<open>pairlist.items()\<close>, with the dependency list of each object.\<close>

definition deps_items :: "key list \<Rightarrow> database \<Rightarrow> (key \<times> key list) list" where
  "deps_items bt db = map (\<lambda>k. (k, case dget db k of None \<Rightarrow> [] | Some t \<Rightarrow> t_expanded_deps t)) bt"

definition analyze_deps ::
  "generation \<Rightarrow> (counts \<Rightarrow> counts) \<Rightarrow> key list \<Rightarrow> database \<Rightarrow>
   (database \<times> key list \<times> succs) result" where
  "analyze_deps generation order bt db =
     rbind (expand_deps generation bt db) (\<lambda>db'.
       rbind (topological_sort order (deps_items bt db')) (\<lambda>(answer, successors).
         Inr (db', answer, successors)))"

end
