(* ===== verification/Dep_Search.thy ===== *)
theory Dep_Search
  imports Dep_Analyzer
begin

text \<open>
  Correctness of the cached depth-first search of the dependency analyser. The abstract
  specification is the transitive closure of the dependency relation: a successful search
  returns exactly the targets reachable by one or more dependency edges, each once, every
  target before the targets it depends on (the order in which static libraries have to be
  passed to the linker); it succeeds if and only if the graph is acyclic and every edge is
  present and visible.
\<close>

section \<open>Graphs given by successor lists\<close>

definition edges :: "('k \<Rightarrow> 'k list) \<Rightarrow> ('k \<times> 'k) set" where
  "edges succ = {(k, d). d \<in> set (succ k)}"

text \<open>Every element of the list is followed by all its successors in \<open>R\<close>.\<close>

fun follows :: "('a \<times> 'a) set \<Rightarrow> 'a list \<Rightarrow> bool" where
  "follows R [] = True"
| "follows R (x # xs) = (R `` {x} \<subseteq> set xs \<and> follows R xs)"

lemma edges_iff [simp]: "(k, d) \<in> edges succ \<longleftrightarrow> d \<in> set (succ k)"
  by (simp add: edges_def)

lemma edges_trancl_unfold:
  "(edges succ)\<^sup>+ `` {k} = (\<Union>d \<in> set (succ k). insert d ((edges succ)\<^sup>+ `` {d}))"
proof (intro equalityI subsetI)
  fix y
  assume "y \<in> (edges succ)\<^sup>+ `` {k}"
  then have "(k, y) \<in> (edges succ)\<^sup>+" by simp
  then obtain d where "(k, d) \<in> edges succ" and "(d, y) \<in> (edges succ)\<^sup>*"
    by (meson tranclD)
  then show "y \<in> (\<Union>d \<in> set (succ k). insert d ((edges succ)\<^sup>+ `` {d}))"
    by (auto dest: rtranclD)
next
  fix y
  assume "y \<in> (\<Union>d \<in> set (succ k). insert d ((edges succ)\<^sup>+ `` {d}))"
  then show "y \<in> (edges succ)\<^sup>+ `` {k}"
    by (auto intro: trancl_into_trancl2)
qed

lemma follows_append: "follows R xs \<Longrightarrow> follows R ys \<Longrightarrow> follows R (xs @ ys)"
  by (induction xs) auto

lemma follows_concat: "\<forall>xs \<in> set xss. follows R xs \<Longrightarrow> follows R (concat xss)"
  by (induction xss) (auto simp: follows_append)

lemma follows_remdups: "follows R xs \<Longrightarrow> follows R (remdups xs)"
  by (induction xs) auto

lemma follows_nth:
  "follows R xs \<Longrightarrow> i < length xs \<Longrightarrow> (xs ! i, y) \<in> R \<Longrightarrow> \<exists>j. i < j \<and> j < length xs \<and> xs ! j = y"
proof (induction xs arbitrary: i)
  case (Cons x xs)
  show ?case
  proof (cases i)
    case 0
    with Cons.prems have "y \<in> set xs" by auto
    then obtain j where "j < length xs" "xs ! j = y" by (metis in_set_conv_nth)
    with 0 show ?thesis by (intro exI [of _ "Suc j"]) simp
  next
    case (Suc i')
    with Cons obtain j where "i' < j" "j < length xs" "xs ! j = y" by auto
    with Suc show ?thesis by (intro exI [of _ "Suc j"]) simp
  qed
qed simp

section \<open>Removal of duplicates\<close>

lemma remdups_append_later: "x \<in> set ys \<Longrightarrow> remdups (xs @ x # ys) = remdups (xs @ ys)"
  by (induction xs) auto

lemma unique_loop_eq:
  "distinct res \<Longrightarrow> unique_loop xs res (set res) = rev (remdups (rev xs @ rev res))"
proof (induction xs arbitrary: res)
  case Nil
  then show ?case by (simp add: distinct_remdups_id)
next
  case (Cons x xs)
  show ?case
  proof (cases "x \<in> set res")
    case True
    then show ?thesis
      using Cons.IH [OF Cons.prems] by (simp add: remdups_append_later)
  next
    case False
    with Cons.prems have "distinct (res @ [x])" by simp
    from Cons.IH [OF this] False show ?thesis by simp
  qed
qed

lemma unique_deps_remdups [simp]: "unique_deps xs = remdups xs"
  using unique_loop_eq [of "[]" "rev xs"] by (simp add: unique_deps_def)

section \<open>Soundness of the search\<close>

definition allowed :: "database \<Rightarrow> key \<Rightarrow> key \<Rightarrow> bool" where
  "allowed targets k d = (check_dep_visibility k d targets = Inr ())"

text \<open>
  What the cache promises, relative to the direct dependencies \<open>succ\<close> of every target: the
  cached list is the closure, without duplicates and in link order; the target is not on a
  cycle; its direct dependencies are allowed and cached too.
\<close>

definition cached :: "database \<Rightarrow> (key \<Rightarrow> key list) \<Rightarrow> deps_cache \<Rightarrow> key \<Rightarrow> key list \<Rightarrow> bool" where
  "cached targets succ cache k l =
     (distinct l \<and> set l = (edges succ)\<^sup>+ `` {k} \<and> k \<notin> set l \<and> follows ((edges succ)\<^sup>+) l \<and>
      (\<forall>d \<in> set (succ k). dget cache d \<noteq> None \<and> allowed targets k d))"

definition cache_ok :: "database \<Rightarrow> (key \<Rightarrow> key list) \<Rightarrow> deps_cache \<Rightarrow> bool" where
  "cache_ok targets succ cache = (\<forall>k l. dget cache k = Some l \<longrightarrow> cached targets succ cache k l)"

text \<open>The objects not expanded yet still hold their direct dependencies.\<close>

definition agrees :: "database \<Rightarrow> (key \<Rightarrow> key list) \<Rightarrow> deps_cache \<Rightarrow> bool" where
  "agrees targets succ cache =
     (\<forall>k t. dget targets k = Some t \<longrightarrow> dget cache k = None \<longrightarrow> t_expanded_deps t = succ k)"

lemma cached_mono: "cached targets succ c k l \<Longrightarrow> dget c \<subseteq>\<^sub>m dget c' \<Longrightarrow> cached targets succ c' k l"
  by (auto simp: cached_def map_le_def dom_def)

lemma agrees_mono: "agrees targets succ c \<Longrightarrow> dget c \<subseteq>\<^sub>m dget c' \<Longrightarrow> agrees targets succ c'"
  unfolding agrees_def map_le_def by (metis domIff)

lemma cache_okD: "cache_ok targets succ c \<Longrightarrow> dget c k = Some l \<Longrightarrow> cached targets succ c k l"
  unfolding cache_ok_def by blast

lemma cache_step:
  assumes "cache_ok targets succ c" and "dget c k \<noteq> None" and "d \<in> set (succ k)"
  shows "dget c d \<noteq> None"
proof -
  from assms(2) obtain l where "dget c k = Some l" by blast
  from cache_okD [OF assms(1) this] assms(3) show ?thesis
    unfolding cached_def by blast
qed

lemma cache_closed:
  assumes ok: "cache_ok targets succ c" and "dget c k \<noteq> None" and "(k, y) \<in> (edges succ)\<^sup>+"
  shows "dget c y \<noteq> None"
  using assms(3)
proof (induction rule: trancl_induct)
  case (base y)
  then show ?case using cache_step [OF ok assms(2), of y] by simp
next
  case (step y z)
  then show ?case using cache_step [OF ok, of y z] by simp
qed

lemma cached_insert:
  assumes ok: "cache_ok targets succ c" and new: "dget c k = None"
    and deps: "\<forall>d \<in> set (succ k). dget c d \<noteq> None \<and> allowed targets k d"
  shows "cached targets succ c k (remdups (concat (map (\<lambda>d. d # the (dget c d)) (succ k))))"
proof -
  let ?R = "(edges succ)\<^sup>+" and ?l = "concat (map (\<lambda>d. d # the (dget c d)) (succ k))"
  have each: "set (the (dget c d)) = ?R `` {d} \<and> follows ?R (the (dget c d))"
    if "d \<in> set (succ k)" for d
  proof -
    from that deps obtain l where l: "dget c d = Some l" by blast
    from cache_okD [OF ok l] show ?thesis unfolding cached_def l option.sel by blast
  qed
  have set_l: "set ?l = ?R `` {k}"
    unfolding edges_trancl_unfold [of succ k] using each by auto
  moreover have "follows ?R ?l"
    using each by (intro follows_concat) auto
  moreover have "k \<notin> set ?l"
  proof
    assume "k \<in> set ?l"
    then obtain d where d: "d \<in> set (succ k)" "d = k \<or> (d, k) \<in> ?R"
      using each by auto
    then have "dget c k \<noteq> None"
      using deps cache_closed [OF ok, of d k] by auto
    with new show False by simp
  qed
  ultimately show ?thesis
    using deps by (simp add: cached_def follows_remdups)
qed

lemma cache_ok_dset:
  assumes "cache_ok targets succ c" and "dget c k = None" and "cached targets succ c k l"
  shows "cache_ok targets succ (dset k l c)" and "dget c \<subseteq>\<^sub>m dget (dset k l c)"
proof -
  show le: "dget c \<subseteq>\<^sub>m dget (dset k l c)"
    using assms(2) by (auto simp: map_le_def)
  show "cache_ok targets succ (dset k l c)"
    using assms(1,3) cached_mono [OF _ le] by (auto simp: cache_ok_def)
qed

lemma search_sound:
  shows "find_all_deps tid targets cache roots = Inr (l, cache') \<Longrightarrow>
      agrees targets succ cache \<Longrightarrow> cache_ok targets succ cache \<Longrightarrow> tid \<notin> set roots \<Longrightarrow>
      \<forall>r \<in> set roots. dget cache r = None \<Longrightarrow>
      cache_ok targets succ cache' \<and> dget cache \<subseteq>\<^sub>m dget cache' \<and> dget cache' tid = Some l \<and>
      (\<forall>r \<in> set roots. dget cache' r = None)"
    and "find_deps_loop tid ds targets cache roots acc = Inr (acc', cache') \<Longrightarrow>
      agrees targets succ cache \<Longrightarrow> cache_ok targets succ cache \<Longrightarrow>
      \<forall>r \<in> set roots. dget cache r = None \<Longrightarrow>
      cache_ok targets succ cache' \<and> dget cache \<subseteq>\<^sub>m dget cache' \<and>
      (\<forall>r \<in> set roots. dget cache' r = None) \<and>
      (\<forall>d \<in> set ds. dget cache' d \<noteq> None \<and> allowed targets tid d) \<and>
      acc' = acc @ concat (map (\<lambda>d. d # the (dget cache' d)) ds)"
proof (induction tid targets cache roots and tid ds targets cache roots acc
    arbitrary: l cache' and acc' cache' rule: find_all_deps_find_deps_loop.induct)
  case (1 tid targets cache roots)
  show ?case
  proof (cases "dget cache tid")
    case (Some l0)
    with 1 show ?thesis by (simp add: find_all_deps.simps)
  next
    case None
    with "1.prems"(1) obtain t where t: "dget targets tid = Some t"
      by (auto simp: find_all_deps.simps split: option.splits)
    with None "1.prems"(1) obtain l1 c1 where
      loop: "find_deps_loop tid (t_expanded_deps t) targets cache (List.insert tid roots) [] = Inr (l1, c1)"
      and l: "l = remdups l1" and c': "cache' = dset tid l c1"
      by (auto simp: find_all_deps.simps rbind_eq_Inr Let_def)
    have deps: "t_expanded_deps t = succ tid"
      using "1.prems"(2) t None by (simp add: agrees_def)
    have r: "\<forall>r \<in> set (List.insert tid roots). dget cache r = None"
      using "1.prems" None by auto
    note IH = "1.IH" [OF None t loop "1.prems"(2,3) r]
    have ok1: "cache_ok targets succ c1" and le1: "dget cache \<subseteq>\<^sub>m dget c1" and none: "dget c1 tid = None"
      using IH by auto
    have cached: "cached targets succ c1 tid l"
      using IH deps l cached_insert [OF ok1 none] by auto
    show ?thesis
      using cache_ok_dset [OF ok1 none cached] le1 IH "1.prems"(4)
      by (auto simp: c' intro: map_le_trans simp del: dget_dset)
         (metis dget_dset fun_upd_same, metis dget_dset fun_upd_other)
  qed
next
  case (2 tid targets cache roots acc)
  then show ?case by (simp add: find_deps_loop.simps)
next
  case (3 tid d ds targets cache roots acc)
  from "3.prems"(1) have nd: "d \<notin> set roots"
    by (auto simp: find_deps_loop.simps split: if_splits)
  with "3.prems"(1) obtain l1 c1 where
    vis: "check_dep_visibility tid d targets = Inr ()"
    and fd: "find_all_deps d targets cache roots = Inr (l1, c1)"
    and loop: "find_deps_loop tid ds targets c1 roots (acc @ [d] @ l1) = Inr (acc', cache')"
    by (auto simp: find_deps_loop.simps rbind_eq_Inr)
  have c1: "cache_ok targets succ c1 \<and> dget cache \<subseteq>\<^sub>m dget c1 \<and> dget c1 d = Some l1 \<and>
      (\<forall>r \<in> set roots. dget c1 r = None)"
    using "3.IH"(1) [OF nd vis fd "3.prems"(2,3) nd "3.prems"(4)] .
  have ag: "agrees targets succ c1"
    using agrees_mono "3.prems"(2) c1 by blast
  have rest: "cache_ok targets succ cache' \<and> dget c1 \<subseteq>\<^sub>m dget cache' \<and>
      (\<forall>r \<in> set roots. dget cache' r = None) \<and>
      (\<forall>d \<in> set ds. dget cache' d \<noteq> None \<and> allowed targets tid d) \<and>
      acc' = (acc @ [d] @ l1) @ concat (map (\<lambda>d. d # the (dget cache' d)) ds)"
    using "3.IH"(2) [OF nd vis fd _ loop ag] c1 by simp
  have "dget cache' d = Some l1"
    using rest c1 by (auto simp: map_le_def dom_def)
  with rest c1 vis show ?case
    by (auto simp: allowed_def intro: map_le_trans)
qed

section \<open>When the search succeeds\<close>

text \<open>Every dependency of a target exists and is visible to it.\<close>

definition deps_ok :: "database \<Rightarrow> (key \<Rightarrow> key list) \<Rightarrow> bool" where
  "deps_ok targets succ =
     (\<forall>k. dget targets k \<noteq> None \<longrightarrow> (\<forall>d \<in> set (succ k). dget targets d \<noteq> None \<and> allowed targets k d))"

lemma deps_okD:
  "deps_ok targets succ \<Longrightarrow> dget targets k \<noteq> None \<Longrightarrow> d \<in> set (succ k) \<Longrightarrow>
   dget targets d \<noteq> None \<and> check_dep_visibility k d targets = Inr ()"
  unfolding deps_ok_def allowed_def by blast

text \<open>
  The only error of a search over a graph whose edges are all present and visible is the
  report of a cycle, and it is raised only if there is one.
\<close>

lemma search_error:
  shows "find_all_deps tid targets cache roots = Inl e \<Longrightarrow>
      agrees targets succ cache \<Longrightarrow> cache_ok targets succ cache \<Longrightarrow> tid \<notin> set roots \<Longrightarrow>
      \<forall>r \<in> set roots. dget cache r = None \<Longrightarrow> deps_ok targets succ \<Longrightarrow> dget targets tid \<noteq> None \<Longrightarrow>
      \<forall>r \<in> set roots. (r, tid) \<in> (edges succ)\<^sup>* \<Longrightarrow>
      (\<exists>d rs. e = SystemExit (loop_msg d rs)) \<and> \<not> acyclic (edges succ)"
    and "find_deps_loop tid ds targets cache roots acc = Inl e \<Longrightarrow>
      agrees targets succ cache \<Longrightarrow> cache_ok targets succ cache \<Longrightarrow>
      \<forall>r \<in> set roots. dget cache r = None \<Longrightarrow> deps_ok targets succ \<Longrightarrow> dget targets tid \<noteq> None \<Longrightarrow>
      \<forall>r \<in> set roots. (r, tid) \<in> (edges succ)\<^sup>* \<Longrightarrow> set ds \<subseteq> set (succ tid) \<Longrightarrow>
      (\<exists>d rs. e = SystemExit (loop_msg d rs)) \<and> \<not> acyclic (edges succ)"
proof (induction tid targets cache roots and tid ds targets cache roots acc
    rule: find_all_deps_find_deps_loop.induct)
  case (1 tid targets cache roots)
  from "1.prems"(1) have None: "dget cache tid = None"
    by (auto simp: find_all_deps.simps split: option.splits)
  from "1.prems"(7) obtain t where t: "dget targets tid = Some t" by blast
  have loop: "find_deps_loop tid (t_expanded_deps t) targets cache (List.insert tid roots) [] = Inl e"
    using "1.prems"(1) None t by (auto simp: find_all_deps.simps rbind_eq_Inl Let_def)
  have deps: "t_expanded_deps t = succ tid"
    using "1.prems"(2) t None by (simp add: agrees_def)
  show ?case
    by (rule "1.IH" [OF None t loop "1.prems"(2,3)]) (use "1.prems" None deps in auto)
next
  case (2 tid targets cache roots acc)
  then show ?case by (simp add: find_deps_loop.simps)
next
  case (3 tid d ds targets cache roots acc)
  have d: "dget targets d \<noteq> None" and vis: "check_dep_visibility tid d targets = Inr ()"
    using deps_okD [OF "3.prems"(5,6), of d] "3.prems"(8) by auto
  have edge: "(tid, d) \<in> edges succ" using "3.prems"(8) by simp
  show ?case
  proof (cases "d \<in> set roots")
    case True
    then have "(d, d) \<in> (edges succ)\<^sup>+"
      using edge "3.prems"(7) by (meson rtrancl_into_trancl1)
    then show ?thesis
      using True "3.prems"(1) by (auto simp: find_deps_loop.simps acyclic_def)
  next
    case nd: False
    have reach: "\<forall>r \<in> set roots. (r, d) \<in> (edges succ)\<^sup>*"
      using edge "3.prems"(7) by (meson rtrancl.rtrancl_into_rtrancl)
    show ?thesis
    proof (cases "find_all_deps d targets cache roots")
      case (Inl e')
      then have "e' = e"
        using "3.prems"(1) nd vis by (simp add: find_deps_loop.simps)
      with Inl show ?thesis
        using "3.IH"(1) [OF nd vis _ "3.prems"(2,3) nd "3.prems"(4,5) d reach] by simp
    next
      case (Inr r)
      then obtain l1 c1 where fd: "find_all_deps d targets cache roots = Inr (l1, c1)"
        by (cases r) auto
      then have loop: "find_deps_loop tid ds targets c1 roots (acc @ [d] @ l1) = Inl e"
        using "3.prems"(1) nd vis by (simp add: find_deps_loop.simps)
      have c1: "cache_ok targets succ c1" "dget cache \<subseteq>\<^sub>m dget c1" "\<forall>r \<in> set roots. dget c1 r = None"
        using search_sound(1) [OF fd "3.prems"(2,3) nd "3.prems"(4)] by auto
      show ?thesis
        by (rule "3.IH"(2) [OF nd vis fd _ loop agrees_mono [OF "3.prems"(2) c1(2)] c1(1,3)
              "3.prems"(5,6,7)]) (use "3.prems"(8) in auto)
    qed
  qed
qed

section \<open>Expanding all build targets\<close>

text \<open>The dependencies a target has before the expansion.\<close>

definition direct_deps :: "key list \<Rightarrow> database \<Rightarrow> key \<Rightarrow> key list" where
  "direct_deps bt db k =
     (case dget (bt_view bt db) k of None \<Rightarrow> [] | Some t \<Rightarrow> t_expanded_deps t)"

definition dep_rel :: "key list \<Rightarrow> database \<Rightarrow> (key \<times> key) set" where
  "dep_rel bt db = edges (direct_deps bt db)"

lemma direct_deps_present: "d \<in> set (direct_deps bt db k) \<Longrightarrow> dget (bt_view bt db) k \<noteq> None"
  by (cases "dget (bt_view bt db) k") (simp_all add: direct_deps_def)

text \<open>The attributes the expansion does not write.\<close>

definition same_but_deps :: "target \<Rightarrow> target \<Rightarrow> bool" where
  "same_but_deps t u =
     (t\<lparr>t_data := [], t_expanded_deps := []\<rparr> = u\<lparr>t_data := [], t_expanded_deps := []\<rparr>)"

definition deps_frame :: "database \<Rightarrow> database \<Rightarrow> bool" where
  "deps_frame db db' = (\<forall>k. rel_option same_but_deps (dget db k) (dget db' k))"

lemma same_but_deps_refl [simp]: "same_but_deps t t"
  by (simp add: same_but_deps_def)

lemma same_but_deps_trans: "same_but_deps t u \<Longrightarrow> same_but_deps u v \<Longrightarrow> same_but_deps t v"
  by (simp add: same_but_deps_def)

lemma same_but_deps_data: "same_but_data t u \<Longrightarrow> same_but_deps t u"
  by (cases t; cases u) (simp add: same_but_data_def same_but_deps_def)

lemma same_but_deps_set [simp]: "same_but_deps t (t\<lparr>t_expanded_deps := l\<rparr>)"
  by (simp add: same_but_deps_def)

lemma same_but_depsD:
  assumes "same_but_deps t u"
  shows "t_visibility u = t_visibility t" and "t_fullname u = t_fullname t" and "t_deps u = t_deps t"
    and "t_type u = t_type t" and "t_class u = t_class t" and "t_key u = t_key t"
  using assms by (cases t; cases u; simp add: same_but_deps_def)+

lemma deps_frame_refl [simp]: "deps_frame db db"
  by (simp add: deps_frame_def option.rel_refl)

lemma deps_frame_trans: "deps_frame a b \<Longrightarrow> deps_frame b c \<Longrightarrow> deps_frame a c"
proof -
  assume ab: "deps_frame a b" and bc: "deps_frame b c"
  have "rel_option same_but_deps (dget a k) (dget c k)" for k
    by (rule rel_option_trans [of same_but_deps _ "dget b k"])
       (use ab bc in \<open>auto simp: deps_frame_def intro: same_but_deps_trans\<close>)
  then show ?thesis by (simp add: deps_frame_def)
qed

lemma data_frame_deps_frame: "data_frame db db' \<Longrightarrow> deps_frame db db'"
  unfolding data_frame_def deps_frame_def
  by (metis option.rel_mono_strong same_but_deps_data)

lemma deps_frame_allowed:
  assumes "deps_frame db db'"
  shows "allowed (bt_view bt db') = allowed (bt_view bt db)"
proof (intro ext)
  fix k d
  have "rel_option same_but_deps (dget db d) (dget db' d)"
    using assms by (simp add: deps_frame_def)
  then show "allowed (bt_view bt db') k d = allowed (bt_view bt db) k d"
    by (auto simp: allowed_def check_dep_visibility_def dget_bt_view same_but_depsD(1)
        elim!: option.rel_cases split: visibility.splits if_splits)
qed

lemma allowed_cong_cache_ok: "allowed tg' = allowed tg \<Longrightarrow> cache_ok tg' succ c = cache_ok tg succ c"
  by (simp add: cache_ok_def cached_def)

text \<open>
  The contract of the virtual method \<open>_expand_deps_generation\<close>: it writes only the \<open>data\<close>
  dictionaries. The expansion is verified once for every method that keeps it.
\<close>

locale generator =
  fixes gen :: generation
  assumes gen_frame: "gen k bt db = Inr db' \<Longrightarrow> data_frame db db'"
begin

text \<open>
  The state of the expansion after the targets in \<open>done\<close>: the cache is sound for the direct
  dependencies, the targets in \<open>done\<close> hold their cached closure, the others their direct
  dependencies.
\<close>

definition expand_inv :: "key list \<Rightarrow> database \<Rightarrow> key set \<Rightarrow> database \<Rightarrow> deps_cache \<Rightarrow> bool" where
  "expand_inv bt db0 done db cache =
     (deps_frame db0 db \<and>
      cache_ok (bt_view bt db0) (direct_deps bt db0) cache \<and>
      (\<forall>k \<in> done. \<exists>t. dget db k = Some t \<and> dget cache k = Some (t_expanded_deps t)) \<and>
      (\<forall>k t t0. dget db k = Some t \<longrightarrow> dget db0 k = Some t0 \<longrightarrow> k \<notin> done \<longrightarrow>
         t_expanded_deps t = t_expanded_deps t0))"

lemma expand_inv_start: "expand_inv bt db {} db []"
  by (simp add: expand_inv_def cache_ok_def)

lemma expand_inv_agrees:
  assumes "expand_inv bt db0 done db cache"
  shows "agrees (bt_view bt db) (direct_deps bt db0) cache"
  unfolding agrees_def
proof (intro allI impI)
  fix k t
  assume k: "dget (bt_view bt db) k = Some t" and None: "dget cache k = None"
  then have "dget db k = Some t" "k \<in> set bt"
    by (auto simp: dget_bt_view split: if_splits)
  moreover have "k \<notin> done"
    using assms None unfolding expand_inv_def by fastforce
  moreover obtain t0 where "dget db0 k = Some t0"
    using assms \<open>dget db k = Some t\<close> unfolding expand_inv_def deps_frame_def
    by (metis option_rel_Some2)
  ultimately show "t_expanded_deps t = direct_deps bt db0 k"
    using assms by (auto simp: expand_inv_def direct_deps_def dget_bt_view)
qed

lemma expand_step_inv:
  assumes inv: "expand_inv bt db0 done db cache"
    and step: "expand_step gen bt k (db, cache) = Inr (db', cache')"
  shows "expand_inv bt db0 (insert k done) db' cache'"
proof -
  let ?succ = "direct_deps bt db0"
  from step obtain t l db1 where
    t: "dget (bt_view bt db) k = Some t"
    and fd: "find_all_deps k (bt_view bt db) cache [] = Inr (l, cache')"
    and db1: "db1 = modify_target k (\<lambda>t. t\<lparr>t_expanded_deps := l\<rparr>) db"
    and gen: "gen k bt db1 = Inr db'"
    by (auto simp: expand_step_def rbind_eq_Inr)
  have allow: "allowed (bt_view bt db) = allowed (bt_view bt db0)"
    using inv deps_frame_allowed by (simp add: expand_inv_def)
  have ok: "cache_ok (bt_view bt db) ?succ cache"
    using inv allowed_cong_cache_ok [OF allow] by (simp add: expand_inv_def)
  have sound: "cache_ok (bt_view bt db) ?succ cache'" "dget cache \<subseteq>\<^sub>m dget cache'" "dget cache' k = Some l"
    using search_sound(1) [OF fd expand_inv_agrees [OF inv] ok] by auto
  have frame1: "deps_frame db db1"
    by (auto simp: deps_frame_def db1 dget_modify_target option.rel_map option.rel_refl)
  have frame2: "deps_frame db1 db'"
    using gen_frame [OF gen] by (rule data_frame_deps_frame)
  have exp: "map_option t_expanded_deps (dget db' j) =
      (if j = k then map_option (\<lambda>_. l) (dget db k) else map_option t_expanded_deps (dget db j))" for j
  proof -
    have "rel_option same_but_data (dget db1 j) (dget db' j)"
      using gen_frame [OF gen] by (simp add: data_frame_def)
    then have "map_option t_expanded_deps (dget db' j) = map_option t_expanded_deps (dget db1 j)"
      by (auto simp: same_but_dataD(1) elim!: option.rel_cases)
    then show ?thesis
      by (simp add: db1 dget_modify_target option.map_comp comp_def)
  qed
  have dbk: "dget db k = Some t" using t by (simp add: dget_bt_view split: if_splits)
  have "\<exists>t. dget db' j = Some t \<and> dget cache' j = Some (t_expanded_deps t)" if "j \<in> insert k done" for j
  proof (cases "j = k")
    case True
    then show ?thesis using exp [of k] dbk sound(3) by auto
  next
    case False
    with that inv obtain u where "dget db j = Some u" "dget cache j = Some (t_expanded_deps u)"
      by (auto simp: expand_inv_def)
    with False exp [of j] sound(2) show ?thesis
      by (auto simp: map_le_def dom_def)
  qed
  moreover have "t_expanded_deps u = t_expanded_deps u0"
    if "dget db' j = Some u" "dget db0 j = Some u0" "j \<notin> insert k done" for j u u0
  proof -
    from that exp [of j] obtain v where "dget db j = Some v" "t_expanded_deps u = t_expanded_deps v"
      by (cases "dget db j") auto
    with that inv show ?thesis by (auto simp: expand_inv_def)
  qed
  moreover have "deps_frame db0 db'"
    using inv frame1 frame2 deps_frame_trans unfolding expand_inv_def by blast
  moreover have "cache_ok (bt_view bt db0) ?succ cache'"
    using sound(1) allowed_cong_cache_ok [OF allow] by simp
  ultimately show ?thesis
    unfolding expand_inv_def by blast
qed

lemma expand_loop_inv:
  "rfold (expand_step gen bt) ks (db, cache) = Inr (db', cache') \<Longrightarrow> expand_inv bt db0 done db cache \<Longrightarrow>
   expand_inv bt db0 (set ks \<union> done) db' cache'"
proof (induction ks arbitrary: db cache "done")
  case (Cons k ks)
  then obtain db1 c1 where "expand_step gen bt k (db, cache) = Inr (db1, c1)"
    and "rfold (expand_step gen bt) ks (db1, c1) = Inr (db', cache')"
    by (auto simp: rbind_eq_Inr)
  with Cons.IH [of db1 c1 "insert k done"] expand_step_inv [OF Cons.prems(2)] show ?case
    by simp
qed simp

lemma expand_deps_inv:
  assumes "expand_deps gen bt db = Inr db'"
  obtains cache where "expand_inv bt db (set bt) db' cache"
proof -
  from assms obtain cache where "rfold (expand_step gen bt) bt (db, []) = Inr (db', cache)"
    by (auto simp: expand_deps_def rbind_eq_Inr)
  from expand_loop_inv [OF this expand_inv_start] that show thesis by simp
qed

text \<open>The result of a successful expansion, target by target.\<close>

lemma expand_deps_closure:
  assumes "expand_deps gen bt db = Inr db'" and "k \<in> set bt"
  obtains t where "dget db' k = Some t" and "distinct (t_expanded_deps t)"
    and "set (t_expanded_deps t) = (dep_rel bt db)\<^sup>+ `` {k}" and "k \<notin> set (t_expanded_deps t)"
    and "follows ((dep_rel bt db)\<^sup>+) (t_expanded_deps t)"
    and "\<forall>d \<in> set (direct_deps bt db k). allowed (bt_view bt db) k d"
proof -
  from assms(1) obtain cache where "expand_inv bt db (set bt) db' cache"
    by (rule expand_deps_inv)
  with assms(2) obtain t where "dget db' k = Some t"
    and "cached (bt_view bt db) (direct_deps bt db) cache k (t_expanded_deps t)"
    unfolding expand_inv_def cache_ok_def by metis
  with that show thesis unfolding cached_def dep_rel_def by blast
qed

lemma expand_deps_frame:
  assumes "expand_deps gen bt db = Inr db'"
  shows "deps_frame db db'"
  using expand_deps_inv [OF assms] by (auto simp: expand_inv_def)

lemma expand_deps_acyclic:
  assumes "expand_deps gen bt db = Inr db'"
  shows "acyclic (dep_rel bt db)"
  unfolding acyclic_def
proof (intro allI notI)
  fix k
  assume cyc: "(k, k) \<in> (dep_rel bt db)\<^sup>+"
  then obtain d where "(k, d) \<in> dep_rel bt db" by (meson tranclD)
  then have "k \<in> set bt"
    by (auto simp: dep_rel_def direct_deps_def dget_bt_view split: option.splits if_splits)
  from expand_deps_closure [OF assms this] cyc show False by auto
qed

end

text \<open>
  A generation method that moreover never raises on a target whose dependencies are build
  targets. Then the expansion of a graph with present and visible edges fails only by
  reporting a cycle.
\<close>

definition deps_within :: "key list \<Rightarrow> database \<Rightarrow> bool" where
  "deps_within bt db =
     (set bt \<subseteq> set (dkeys db) \<and>
      (\<forall>k t. k \<in> set bt \<longrightarrow> dget db k = Some t \<longrightarrow> set (t_deps t) \<subseteq> set bt))"

lemma deps_frame_keys: "deps_frame db db' \<Longrightarrow> set (dkeys db') = set (dkeys db)"
proof -
  assume f: "deps_frame db db'"
  have "dget db' k = None \<longleftrightarrow> dget db k = None" for k
    using f by (auto simp: deps_frame_def elim!: allE [of _ k] option.rel_cases)
  then have "k \<in> set (dkeys db') \<longleftrightarrow> k \<in> set (dkeys db)" for k
    by (metis dget_None)
  then show ?thesis by blast
qed

lemma deps_within_frame:
  assumes "deps_within bt db" and "deps_frame db db'"
  shows "deps_within bt db'"
  unfolding deps_within_def
proof (intro conjI allI impI)
  show "set bt \<subseteq> set (dkeys db')"
    using assms deps_frame_keys by (auto simp: deps_within_def)
next
  fix k t'
  assume k: "k \<in> set bt" "dget db' k = Some t'"
  then obtain t where "dget db k = Some t" "same_but_deps t t'"
    using assms(2) by (metis deps_frame_def option_rel_Some2)
  with k assms(1) show "set (t_deps t') \<subseteq> set bt"
    using same_but_depsD(3) [of t t'] unfolding deps_within_def by simp
qed

lemma deps_ok_frame:
  assumes "deps_ok (bt_view bt db) succ" and "deps_frame db db'"
  shows "deps_ok (bt_view bt db') succ"
proof -
  have "dget (bt_view bt db') k = None \<longleftrightarrow> dget (bt_view bt db) k = None" for k
    using deps_frame_keys [OF assms(2)] by (auto simp: dget_bt_view dget_None)
  with assms show ?thesis
    by (simp only: deps_ok_def deps_frame_allowed [OF assms(2)])
qed

locale total_generator = generator +
  assumes gen_total:
    "deps_within bt db \<Longrightarrow> dget db k = Some t \<Longrightarrow> k \<in> set bt \<Longrightarrow> set (t_expanded_deps t) \<subseteq> set bt \<Longrightarrow>
     \<exists>db'. gen k bt db = Inr db'"
begin

lemma closure_within:
  assumes "deps_ok (bt_view bt db) (direct_deps bt db)" and "k \<in> set bt"
  shows "(edges (direct_deps bt db))\<^sup>+ `` {k} \<subseteq> set bt"
proof
  fix y
  assume "y \<in> (edges (direct_deps bt db))\<^sup>+ `` {k}"
  then have "(k, y) \<in> (edges (direct_deps bt db))\<^sup>+" by simp
  then show "y \<in> set bt"
  proof (induction rule: trancl_induct)
    case (base y)
    then have "dget (bt_view bt db) k \<noteq> None" by (simp add: direct_deps_present)
    with base assms(1) have "dget (bt_view bt db) y \<noteq> None"
      using deps_okD by (metis edges_iff)
    then show ?case by (auto simp: dget_bt_view split: if_splits)
  next
    case (step y z)
    then have "dget (bt_view bt db) y \<noteq> None" by (simp add: direct_deps_present)
    with step assms(1) have "dget (bt_view bt db) z \<noteq> None"
      using deps_okD by (metis edges_iff)
    then show ?case by (auto simp: dget_bt_view split: if_splits)
  qed
qed

lemma expand_step_error:
  assumes inv: "expand_inv bt db0 done db cache" and k: "k \<in> set bt"
    and ok: "deps_ok (bt_view bt db0) (direct_deps bt db0)" and within: "deps_within bt db0"
    and err: "expand_step gen bt k (db, cache) = Inl e"
  shows "(\<exists>d rs. e = SystemExit (loop_msg d rs)) \<and> \<not> acyclic (dep_rel bt db0)"
proof -
  let ?succ = "direct_deps bt db0"
  have frame: "deps_frame db0 db" using inv by (simp add: expand_inv_def)
  have okdb: "deps_ok (bt_view bt db) ?succ" and w: "deps_within bt db"
    using deps_ok_frame [OF ok frame] deps_within_frame [OF within frame] by auto
  from w k obtain t where t: "dget db k = Some t"
    using dget_present [of k db] unfolding deps_within_def by blast
  then have view: "dget (bt_view bt db) k = Some t" using k by (simp add: dget_bt_view)
  have allow: "allowed (bt_view bt db) = allowed (bt_view bt db0)"
    by (rule deps_frame_allowed [OF frame])
  have cok: "cache_ok (bt_view bt db) ?succ cache"
    using inv allowed_cong_cache_ok [OF allow] by (simp add: expand_inv_def)
  note ag = expand_inv_agrees [OF inv]
  show ?thesis
  proof (cases "find_all_deps k (bt_view bt db) cache []")
    case (Inl e')
    with err view have "e' = e" by (simp add: expand_step_def dindex_def)
    then show ?thesis
      using search_error(1) [OF Inl ag cok _ _ okdb] view by (simp add: dep_rel_def)
  next
    case (Inr r)
    then obtain l c' where fd: "find_all_deps k (bt_view bt db) cache [] = Inr (l, c')"
      by (cases r) auto
    have "cached (bt_view bt db) ?succ c' k l"
      using search_sound(1) [OF fd ag cok] by (auto simp: cache_ok_def)
    then have "set l \<subseteq> set bt"
      using closure_within [OF ok k] by (simp add: cached_def)
    let ?db1 = "modify_target k (\<lambda>t. t\<lparr>t_expanded_deps := l\<rparr>) db"
    have "deps_frame db ?db1"
      by (auto simp: deps_frame_def dget_modify_target option.rel_map option.rel_refl)
    then have "\<exists>db'. gen k bt ?db1 = Inr db'"
      using gen_total [OF deps_within_frame [OF w], of ?db1 k "t\<lparr>t_expanded_deps := l\<rparr>"] t k \<open>set l \<subseteq> set bt\<close>
      by (simp add: dget_modify_target)
    with err view fd have False by (auto simp: expand_step_def dindex_def)
    then show ?thesis ..
  qed
qed

lemma expand_loop_error:
  "rfold (expand_step gen bt) ks (db, cache) = Inl e \<Longrightarrow> expand_inv bt db0 done db cache \<Longrightarrow>
   set ks \<subseteq> set bt \<Longrightarrow> deps_ok (bt_view bt db0) (direct_deps bt db0) \<Longrightarrow> deps_within bt db0 \<Longrightarrow>
   (\<exists>d rs. e = SystemExit (loop_msg d rs)) \<and> \<not> acyclic (dep_rel bt db0)"
proof (induction ks arbitrary: db cache "done")
  case (Cons k ks)
  show ?case
  proof (cases "expand_step gen bt k (db, cache)")
    case (Inl e')
    with Cons.prems(1) have "e' = e" by simp
    with Inl have "expand_step gen bt k (db, cache) = Inl e" by simp
    moreover have "k \<in> set bt" using Cons.prems(3) by simp
    ultimately show ?thesis
      using expand_step_error [OF Cons.prems(2) _ Cons.prems(4,5)] by blast
  next
    case (Inr s)
    then obtain db1 c1 where step: "expand_step gen bt k (db, cache) = Inr (db1, c1)"
      by (cases s) auto
    with Cons.prems show ?thesis
      by (intro Cons.IH [OF _ expand_step_inv [OF Cons.prems(2) step]]) auto
  qed
qed simp

lemma expand_deps_succeeds:
  assumes "deps_within bt db" and "deps_ok (bt_view bt db) (direct_deps bt db)"
  shows "acyclic (dep_rel bt db) \<longleftrightarrow> (\<exists>db'. expand_deps gen bt db = Inr db')"
    and "expand_deps gen bt db = Inl e \<Longrightarrow> \<exists>d rs. e = SystemExit (loop_msg d rs)"
proof -
  have err: "(\<exists>d rs. e = SystemExit (loop_msg d rs)) \<and> \<not> acyclic (dep_rel bt db)"
    if "expand_deps gen bt db = Inl e" for e
  proof -
    have "rfold (expand_step gen bt) bt (db, []) = Inl e"
      using that by (auto simp: expand_deps_def rbind_eq_Inl)
    from expand_loop_error [OF this expand_inv_start] assms show ?thesis by simp
  qed
  show "acyclic (dep_rel bt db) \<longleftrightarrow> (\<exists>db'. expand_deps gen bt db = Inr db')"
    using err expand_deps_acyclic by (cases "expand_deps gen bt db") auto
  show "expand_deps gen bt db = Inl e \<Longrightarrow> \<exists>d rs. e = SystemExit (loop_msg d rs)"
    using err by blast
qed

end

end
