(* ===== verification/Dep_Generation.thy ===== *)
theory Dep_Generation
  imports Dep_Search
begin

text \<open>
  The virtual method \<open>_expand_deps_generation\<close>: a target, once its dependencies are
  expanded, asks its dependencies to generate additional outputs by setting flags in their
  \<open>data\<close> dictionaries. The overriding methods are those of \<open>CcBinary\<close>, \<open>GoTarget\<close>,
  \<open>PythonTarget\<close>, \<open>SwigLibrary\<close> and, for Java and Scala, the breadth-first propagation of
  \<open>JavaTargetMixIn\<close>. The lemmas show that all of them keep the contract of locale
  \<open>total_generator\<close> and that the Java propagation marks every transitive dependency outside
  the C++ targets.
\<close>

section \<open>Definitions\<close>

text \<open>One iteration of \<open>for dep in self.expanded_deps: build_targets[dep].data[name] = True\<close>.\<close>

definition set_build_flag ::
  "string \<Rightarrow> (target \<Rightarrow> bool) \<Rightarrow> key list \<Rightarrow> key \<Rightarrow> database \<Rightarrow> database result" where
  "set_build_flag name P bt dep db =
     rbind (dindex (bt_view bt db) dep) (\<lambda>d.
       Inr (if P d then modify_target dep (set_data name (PyBool True)) db else db))"

definition cc_binary_generation :: generation where
  "cc_binary_generation k bt db =
     rbind (dindex db k) (\<lambda>self.
       if truthy (get_data self ''dynamic_link'' PyNone)
       then rfold (set_build_flag ''build_dynamic'' (\<lambda>_. True) bt) (t_expanded_deps self) db
       else Inr db)"

definition go_generation :: generation where
  "go_generation k bt db =
     rbind (dindex db k) (\<lambda>self.
       rfold (set_build_flag ''generate_go'' (\<lambda>_. True) bt) (t_expanded_deps self) db)"

definition python_generation :: generation where
  "python_generation k bt db =
     rbind (dindex db k) (\<lambda>self.
       rfold (set_build_flag ''generate_python'' (\<lambda>_. True) bt) (t_expanded_deps self) db)"

definition swig_generation :: generation where
  "swig_generation k bt db =
     rbind (dindex db k) (\<lambda>self.
       rfold (set_build_flag ''generate_php'' (\<lambda>d. t_type d = ''proto_library'') bt)
         (t_expanded_deps self) db)"

text \<open>
  The queue loop of \<open>_expand_deps_java_generation\<close>; \<open>ks\<close> is the set \<open>keys\<close> of the targets seen.
\<close>

definition java_stops :: "target \<Rightarrow> bool" where
  "java_stops dep = (t_type dep \<in> {''cc_library'', ''cc_binary'', ''cc_test'', ''cc_plugin''})"

definition gen_java :: "target \<Rightarrow> bool" where
  "gen_java t = truthy (get_data t ''generate_java'' (PyBool False))"

lemma off_stack_modify: "off_stack (modify_target k f db) ks = off_stack db ks"
  by (simp only: off_stack_def dkeys_modify_target)

function java_generation_loop :: "key list \<Rightarrow> key list \<Rightarrow> database \<Rightarrow> database result" where
  "java_generation_loop [] ks db = Inr db"
| "java_generation_loop (k # q) ks db =
     (if k \<in> set ks then java_generation_loop q ks db
      else (case dget db k of
              None \<Rightarrow> Inl KeyError
            | Some dep \<Rightarrow>
                if java_stops dep then java_generation_loop q (k # ks) db
                else if \<not> gen_java dep
                then java_generation_loop (q @ t_deps dep) (k # ks)
                       (modify_target k (set_data ''generate_java'' (PyBool True)) db)
                else java_generation_loop q (k # ks) db))"
  by pat_completeness auto
termination
  by (relation "measures [\<lambda>(q, ks, db). off_stack db ks, \<lambda>(q, ks, db). length q]")
     (auto simp: off_stack_modify intro: off_stack_Cons)

definition java_generation :: generation where
  "java_generation k bt db = rbind (dindex db k) (\<lambda>self. java_generation_loop (t_deps self) [] db)"

text \<open>The dispatch on the class of the object.\<close>

fun generation_of :: "tclass \<Rightarrow> generation" where
  "generation_of CcBinaryC = cc_binary_generation"
| "generation_of CcTestC = cc_binary_generation"
| "generation_of SwigLibraryC = swig_generation"
| "generation_of GoLibraryC = go_generation"
| "generation_of GoBinaryC = go_generation"
| "generation_of GoTestC = go_generation"
| "generation_of PythonLibraryC = python_generation"
| "generation_of PrebuiltPythonLibraryC = python_generation"
| "generation_of PythonBinaryC = python_generation"
| "generation_of PythonTestC = python_generation"
| "generation_of JavaLibraryC = java_generation"
| "generation_of JavaBinaryC = java_generation"
| "generation_of JavaFatLibraryC = java_generation"
| "generation_of JavaTestC = java_generation"
| "generation_of ScalaLibraryC = java_generation"
| "generation_of ScalaFatLibraryC = java_generation"
| "generation_of ScalaTestC = java_generation"
| "generation_of _ = (\<lambda>k bt db. Inr db)"

definition expand_deps_generation :: generation where
  "expand_deps_generation k bt db =
     rbind (dindex db k) (\<lambda>self. generation_of (t_class self) k bt db)"

section \<open>Frame and totality\<close>

lemma set_build_flag_frame: "set_build_flag n P bt d db = Inr db' \<Longrightarrow> data_frame db db'"
  by (auto simp: set_build_flag_def rbind_eq_Inr data_frame_set)

lemma flag_loop_frame:
  "rfold (set_build_flag n P bt) ds db = Inr db' \<Longrightarrow> data_frame db db'"
  by (erule rfold_invariant [where P = "data_frame db"])
     (auto intro: data_frame_trans set_build_flag_frame)

lemma java_loop_frame: "java_generation_loop q ks db = Inr db' \<Longrightarrow> data_frame db db'"
proof (induction q ks db rule: java_generation_loop.induct)
  case (2 k q ks db)
  then show ?case
    by (auto split: if_splits option.splits intro: data_frame_trans [OF data_frame_set])
qed simp

lemmas generation_defs =
  cc_binary_generation_def go_generation_def python_generation_def swig_generation_def
  java_generation_def

lemma generation_of_frame: "generation_of c k bt db = Inr db' \<Longrightarrow> data_frame db db'"
  by (cases c)
     (auto simp: generation_defs rbind_eq_Inr intro: flag_loop_frame java_loop_frame split: if_splits)

lemma expand_deps_generation_frame: "expand_deps_generation k bt db = Inr db' \<Longrightarrow> data_frame db db'"
  by (auto simp: expand_deps_generation_def rbind_eq_Inr intro: generation_of_frame)

lemma flag_loop_total:
  assumes "set bt \<subseteq> set (dkeys db)" and "set ds \<subseteq> set bt"
  shows "\<exists>db'. rfold (set_build_flag n P bt) ds db = Inr db'"
proof -
  have "\<exists>db'. rfold (set_build_flag n P bt) ds db = Inr db' \<and> set bt \<subseteq> set (dkeys db')"
  proof (rule rfold_total [where P = "\<lambda>d. set bt \<subseteq> set (dkeys d)"])
    fix d and db1 :: database
    assume d: "d \<in> set ds" and bt: "set bt \<subseteq> set (dkeys db1)"
    then obtain t where "dget db1 d = Some t" using assms(2) dget_present [of d db1] by blast
    then have "dindex (bt_view bt db1) d = Inr t"
      using d assms(2) by (auto simp: dget_bt_view)
    then have "set_build_flag n P bt d db1 =
        Inr (if P t then modify_target d (set_data n (PyBool True)) db1 else db1)"
      by (simp add: set_build_flag_def)
    moreover have "set bt \<subseteq> set (dkeys (if P t then modify_target d (set_data n (PyBool True)) db1 else db1))"
      using bt by (simp only: dkeys_modify_target split: if_split) simp
    ultimately show "\<exists>v. set_build_flag n P bt d db1 = Inr v \<and> set bt \<subseteq> set (dkeys v)"
      by blast
  qed (rule assms(1))
  then show ?thesis by blast
qed

lemma deps_within_set:
  "deps_within bt db \<Longrightarrow> deps_within bt (modify_target k (set_data n v) db)"
  by (rule deps_within_frame [OF _ data_frame_deps_frame [OF data_frame_set]])

lemma java_loop_total:
  assumes "deps_within bt db" and "set q \<subseteq> set bt"
  shows "\<exists>db'. java_generation_loop q ks db = Inr db'"
  using assms
proof (induction q ks db rule: java_generation_loop.induct)
  case (2 k q ks db)
  then have k: "k \<in> set bt" and q: "set q \<subseteq> set bt" by auto
  then obtain dep where dep: "dget db k = Some dep"
    using "2.prems"(1) dget_present [of k db] unfolding deps_within_def by blast
  have "set (t_deps dep) \<subseteq> set bt"
    using "2.prems"(1) k dep unfolding deps_within_def by blast
  with "2.IH" dep q deps_within_set [OF "2.prems"(1)] "2.prems"(1) show ?case by simp
qed simp

lemma expand_deps_generation_total:
  assumes "deps_within bt db" and t: "dget db k = Some t" and "k \<in> set bt"
    and "set (t_expanded_deps t) \<subseteq> set bt"
  shows "\<exists>db'. expand_deps_generation k bt db = Inr db'"
proof -
  have self: "dindex db k = Inr t" using t by simp
  have flags: "\<exists>db'. rfold (set_build_flag n P bt) (t_expanded_deps t) db = Inr db'" for n P
    using assms flag_loop_total unfolding deps_within_def by blast
  have java: "\<exists>db'. java_generation_loop (t_deps t) [] db = Inr db'"
    using assms by (intro java_loop_total [of bt]) (auto simp: deps_within_def)
  show ?thesis
    by (cases "t_class t")
       (simp_all add: expand_deps_generation_def generation_defs self flags java)
qed

interpretation blade_gen: total_generator expand_deps_generation
  by unfold_locales (auto intro: expand_deps_generation_frame expand_deps_generation_total)

section \<open>What the Java propagation marks\<close>

text \<open>A target is settled if it is a C++ target or marked.\<close>

definition java_settled :: "database \<Rightarrow> key \<Rightarrow> bool" where
  "java_settled db k = (\<forall>t. dget db k = Some t \<longrightarrow> java_stops t \<or> gen_java t)"

text \<open>Every dependency of a marked target is settled.\<close>

definition java_closed :: "database \<Rightarrow> bool" where
  "java_closed db = (\<forall>k t. dget db k = Some t \<longrightarrow> gen_java t \<longrightarrow> \<not> java_stops t \<longrightarrow>
     (\<forall>d \<in> set (t_deps t). java_settled db d))"

text \<open>The same up to the targets still in the queue.\<close>

definition java_frontier :: "key list \<Rightarrow> key list \<Rightarrow> database \<Rightarrow> bool" where
  "java_frontier q ks db =
     ((\<forall>k \<in> set ks. java_settled db k) \<and>
      (\<forall>k t. dget db k = Some t \<longrightarrow> gen_java t \<longrightarrow> \<not> java_stops t \<longrightarrow>
         (\<forall>d \<in> set (t_deps t). java_settled db d \<or> d \<in> set q)))"

abbreviation mark_java :: "key \<Rightarrow> database \<Rightarrow> database" where
  "mark_java k db \<equiv> modify_target k (set_data ''generate_java'' (PyBool True)) db"

lemma gen_java_mark [simp]: "gen_java (set_data ''generate_java'' (PyBool True) t)"
  by (simp add: gen_java_def get_set_data)

lemma java_stops_set_data [simp]: "java_stops (set_data n v t) = java_stops t"
  by (simp add: java_stops_def)

lemma settled_mark: "java_settled db d \<Longrightarrow> java_settled (mark_java k db) d"
  by (auto simp: java_settled_def dget_modify_target)

lemma settled_mark_self: "java_settled (mark_java k db) k"
  by (auto simp: java_settled_def dget_modify_target)

lemma frontier_skip:
  "java_frontier (k # q) ks db \<Longrightarrow> java_settled db k \<Longrightarrow> set ks' \<subseteq> insert k (set ks) \<Longrightarrow>
   java_frontier q ks' db"
  unfolding java_frontier_def
proof (intro conjI ballI allI impI; elim conjE)
  fix j
  assume "java_settled db k" and "set ks' \<subseteq> insert k (set ks)" and "j \<in> set ks'"
    and "\<forall>j \<in> set ks. java_settled db j"
  then show "java_settled db j" by auto
next
  fix j t d
  assume "\<forall>j t. dget db j = Some t \<longrightarrow> gen_java t \<longrightarrow> \<not> java_stops t \<longrightarrow>
      (\<forall>d \<in> set (t_deps t). java_settled db d \<or> d \<in> set (k # q))"
    and "dget db j = Some t" "gen_java t" "\<not> java_stops t" "d \<in> set (t_deps t)"
  then have "java_settled db d \<or> d \<in> set (k # q)" by blast
  moreover assume "java_settled db k"
  ultimately show "java_settled db d \<or> d \<in> set q" by auto
qed

lemma frontier_mark:
  assumes "java_frontier (k # q) ks db" and "dget db k = Some dep"
  shows "java_frontier (q @ t_deps dep) (k # ks) (mark_java k db)"
  unfolding java_frontier_def
proof (intro conjI ballI allI impI)
  fix j
  assume "j \<in> set (k # ks)"
  then show "java_settled (mark_java k db) j"
    using assms(1) settled_mark [of db j k] settled_mark_self [of k db] unfolding java_frontier_def by auto
next
  fix j t d
  assume j: "dget (mark_java k db) j = Some t" "gen_java t" "\<not> java_stops t" and d: "d \<in> set (t_deps t)"
  show "java_settled (mark_java k db) d \<or> d \<in> set (q @ t_deps dep)"
  proof (cases "j = k")
    case True
    then show ?thesis using j d assms(2) by (auto simp: dget_modify_target)
  next
    case False
    then have "java_settled db d \<or> d \<in> set (k # q)"
      using j d assms(1) by (auto simp: java_frontier_def dget_modify_target)
    then show ?thesis using settled_mark [of db d k] settled_mark_self [of k db] by auto
  qed
qed

lemma java_loop_closed:
  "java_generation_loop q ks db = Inr db' \<Longrightarrow> java_frontier q ks db \<Longrightarrow>
   java_closed db' \<and> (\<forall>d. d \<in> set q \<or> java_settled db d \<longrightarrow> java_settled db' d)"
proof (induction q ks db rule: java_generation_loop.induct)
  case (1 ks db)
  then show ?case by (auto simp: java_frontier_def java_closed_def)
next
  case (2 k q ks db)
  note front = "2.prems"(2)
  show ?case
  proof (cases "k \<in> set ks")
    case True
    then have sk: "java_settled db k" using front by (simp add: java_frontier_def)
    then have "java_frontier q ks db"
      by (intro frontier_skip [OF front]) auto
    then show ?thesis using "2.IH"(1) [OF True] "2.prems"(1) True sk by auto
  next
    case nk: False
    then obtain dep where dep: "dget db k = Some dep"
      using "2.prems" by (cases "dget db k") simp_all
    show ?thesis
    proof (cases "java_stops dep \<or> gen_java dep")
      case True
      then have sk: "java_settled db k" using dep by (simp add: java_settled_def)
      then have "java_frontier q (k # ks) db"
        by (intro frontier_skip [OF front]) auto
      with sk True show ?thesis
        using "2.IH"(2,4) [OF nk dep] "2.prems"(1) nk dep by (auto split: if_splits)
    next
      case False
      then have step: "java_generation_loop (q @ t_deps dep) (k # ks) (mark_java k db) = Inr db'"
        using "2.prems"(1) nk dep by simp
      have "java_closed db' \<and>
          (\<forall>d. d \<in> set (q @ t_deps dep) \<or> java_settled (mark_java k db) d \<longrightarrow> java_settled db' d)"
        using "2.IH"(3) [OF nk dep _ _ step frontier_mark [OF front dep]] False by simp
      then show ?thesis using settled_mark [of db _ k] settled_mark_self [of k db] by auto
    qed
  qed
qed

lemma java_generation_closed:
  assumes "java_generation k bt db = Inr db'" and "java_closed db" and "dget db k = Some t"
  shows "java_closed db'" and "\<forall>d \<in> set (t_deps t). java_settled db' d"
proof -
  have "java_generation_loop (t_deps t) [] db = Inr db'"
    using assms(1,3) by (auto simp: java_generation_def rbind_eq_Inr)
  moreover have "java_frontier (t_deps t) [] db"
    using assms(2) by (auto simp: java_frontier_def java_closed_def)
  ultimately show "java_closed db'" and "\<forall>d \<in> set (t_deps t). java_settled db' d"
    using java_loop_closed by blast+
qed

end
