(* ===== verification/Py_Value.thy ===== *)
theory Py_Value
  imports Py_Str
begin

text \<open>
  Texts of Python values: \<open>repr\<close> and \<open>'%s'\<close>, and the conversions of dynamic values to texts.
\<close>

abbreviation newline :: char where "newline \<equiv> CHR 0x0A"
abbreviation dquote :: char where "dquote \<equiv> CHR 0x22"
abbreviation backslash :: char where "backslash \<equiv> CHR 0x5C"

fun as_str :: "pyval \<Rightarrow> string result" where
  "as_str (PyStr s) = Inr s"
| "as_str _ = Inl TypeError"

definition hex_digit :: "nat \<Rightarrow> char" where
  "hex_digit n = ''0123456789abcdef'' ! n"

text \<open>\<open>if x not in xs: xs.append(x)\<close>\<close>

definition add_new :: "'a \<Rightarrow> 'a list \<Rightarrow> 'a list" where
  "add_new x xs = (if x \<in> set xs then xs else xs @ [x])"

section \<open>Printed values\<close>

text \<open>\<open>repr\<close> of Python values, as \<open>'%s'\<close> prints the elements of a list.\<close>

definition repr_char :: "char \<Rightarrow> char \<Rightarrow> string" where
  "repr_char quote c =
     (if c = quote \<or> c = backslash then [backslash, c]
      else if c = newline then [backslash, CHR ''n'']
      else if c = CHR 0x0D then [backslash, CHR ''r'']
      else if c = CHR 0x09 then [backslash, CHR ''t'']
      else if of_char c < (32 :: nat) \<or> of_char c > (126 :: nat)
      then [backslash, CHR ''x'', hex_digit (of_char c div 16), hex_digit (of_char c mod 16)]
      else [c])"

abbreviation squote :: char where "squote \<equiv> CHR 0x27"

definition repr_str :: "string \<Rightarrow> string" where
  "repr_str s =
     (let quote = (if squote \<in> set s \<and> dquote \<notin> set s then dquote else squote)
      in quote # concat (map (repr_char quote) s) @ [quote])"

definition repr_strs :: "string list \<Rightarrow> string" where
  "repr_strs ss = ''['' @ join_with '', '' (map repr_str ss) @ '']''"

fun py_repr :: "pyval \<Rightarrow> string" where
  "py_repr PyNone = ''None''"
| "py_repr (PyBool v) = (if v then ''True'' else ''False'')"
| "py_repr (PyInt i) = show_int i"
| "py_repr (PyStr s) = repr_str s"
| "py_repr (PyList vs) = ''['' @ join_with '', '' (map py_repr vs) @ '']''"
| "py_repr (PyTuple vs) = ''('' @ join_with '', '' (map py_repr vs) @ (if length vs = 1 then '','' else []) @ '')''"
| "py_repr (PyDict kvs) = ''{'' @ join_with '', '' (map (\<lambda>p. repr_str (fst p) @ '': '' @ py_repr (snd p)) kvs) @ ''}''"

text \<open>\<open>'%s' % (v,)\<close>\<close>

fun py_text :: "pyval \<Rightarrow> string result" where
  "py_text (PyStr s) = Inr s"
| "py_text v = Inr (py_repr v)"

end
