(* ===== verification/Util.thy ===== *)
theory Util
  imports Py_Value
begin

text \<open>
  The helper functions of \<open>src/blade/blade_util.py\<close>: conversion of an argument to a list,
  order-preserving removal of duplicates, the search for a file from a directory upwards
  (with which Blade finds the root of the source tree), and the construction of search-path
  variables. The file system is the parameter \<open>exists_path\<close>.
\<close>

section \<open>Definitions\<close>

definition var_to_list :: "pyval \<Rightarrow> pyval list" where
  "var_to_list var =
     (case var of PyList xs \<Rightarrow> xs | _ \<Rightarrow> if \<not> truthy var then [] else [var])"

text \<open>
  \<open>stable_unique\<close>: the comprehension keeps \<open>x\<close> if it is not in \<open>seen\<close>, and evaluating the
  condition adds it to \<open>seen\<close>.
\<close>

fun stable_unique_from :: "'a list \<Rightarrow> 'a list \<Rightarrow> 'a list" where
  "stable_unique_from seen [] = []"
| "stable_unique_from seen (x # xs) =
     (if x \<in> set seen then stable_unique_from seen xs else x # stable_unique_from (x # seen) xs)"

definition stable_unique :: "'a list \<Rightarrow> 'a list" where
  "stable_unique xs = stable_unique_from [] xs"

text \<open>
  The loop of \<open>find_file_bottom_up\<close>. Nothing in the code bounds it, so the model may fail to
  return (value \<open>None\<close>); the empty string is the result of a failed search.
\<close>

partial_function (option) find_loop :: "(string \<Rightarrow> bool) \<Rightarrow> string \<Rightarrow> string \<Rightarrow> string option" where
  "find_loop exists_path name finding_dir =
     (let path = path_join finding_dir name
      in if exists_path path then Some path
         else if finding_dir = ''/'' then Some []
         else find_loop exists_path name (dirname finding_dir))"

definition find_file_bottom_up ::
  "(string \<Rightarrow> bool) \<Rightarrow> string \<Rightarrow> string \<Rightarrow> string option \<Rightarrow> string option" where
  "find_file_bottom_up exists_path cwd name from_dir =
     find_loop exists_path name (abspath cwd (case from_dir of None \<Rightarrow> cwd | Some d \<Rightarrow> d))"

definition no_root_msg :: string where
  "no_root_msg =
     ''Can't find the file 'BLADE_ROOT' in this or any upper directory.'' @ [CHR 0x0A] @
     ''Blade need this file as a placeholder to locate the root source directory '' @
     ''(aka the directory where you #include start from).'' @ [CHR 0x0A] @
     ''You should create it manually at the first time.''"

definition find_blade_root_dir ::
  "(string \<Rightarrow> bool) \<Rightarrow> string \<Rightarrow> string option \<Rightarrow> string result option" where
  "find_blade_root_dir exists_path cwd working_dir =
     map_option (\<lambda>blade_root.
       if blade_root = [] then Inl (SystemExit no_root_msg) else Inr (dirname blade_root))
       (find_file_bottom_up exists_path cwd ''BLADE_ROOT'' working_dir)"

definition environ_add_path :: "(string, string) dict \<Rightarrow> string \<Rightarrow> string \<Rightarrow> (string, string) dict" where
  "environ_add_path env key path =
     (case dget env key of
        None \<Rightarrow> dset key path env
      | Some old \<Rightarrow> if old \<noteq> [] then dset key (path @ '':'' @ old) env else dset key path env)"

definition regular_variable_name :: "string \<Rightarrow> string" where
  "regular_variable_name var = translate_chars '',-/.+*'' CHR ''_'' var"

text \<open>
  The digest functions: \<open>md5\<close> is the hash of the standard library as a function from the
  text to the hexadecimal digest.
\<close>

definition md5sum_str :: "(string \<Rightarrow> string) \<Rightarrow> pyval \<Rightarrow> string result" where
  "md5sum_str md5 user_str =
     (case user_str of
        PyStr s \<Rightarrow> Inr (md5 s)
      | _ \<Rightarrow> Inl (SystemExit ''Not a valid basestring type to calculate md5.''))"

definition md5sum :: "(string \<Rightarrow> string) \<Rightarrow> pyval \<Rightarrow> string result" where
  "md5sum md5 obj = md5sum_str md5 obj"

section \<open>Lists\<close>

lemma var_to_list_idem [simp]: "var_to_list (PyList (var_to_list v)) = var_to_list v"
  by (simp add: var_to_list_def split: pyval.splits)

lemma stable_unique_from_set: "set (stable_unique_from seen xs) = set xs - set seen"
  by (induction seen xs rule: stable_unique_from.induct) auto

lemma stable_unique_from_cong:
  "set seen = set seen' \<Longrightarrow> stable_unique_from seen xs = stable_unique_from seen' xs"
proof (induction xs arbitrary: seen seen')
  case (Cons x xs)
  have "stable_unique_from (x # seen) xs = stable_unique_from (x # seen') xs"
    and "stable_unique_from seen xs = stable_unique_from seen' xs"
    by (rule Cons.IH, simp add: Cons.prems)+
  then show ?case by (simp only: stable_unique_from.simps Cons.prems)
qed simp

lemma stable_unique_from_map_inj:
  "inj f \<Longrightarrow> stable_unique_from (map f seen) (map f xs) = map f (stable_unique_from seen xs)"
proof (induction seen xs rule: stable_unique_from.induct)
  case (2 seen x xs)
  then have "f x \<in> set (map f seen) \<longleftrightarrow> x \<in> set seen" by (simp add: inj_image_mem_iff)
  then show ?case using 2 by simp
qed simp

lemma stable_unique_map_inj: "inj f \<Longrightarrow> stable_unique (map f xs) = map f (stable_unique xs)"
  using stable_unique_from_map_inj [of f "[]" xs] by (simp add: stable_unique_def)

lemma stable_unique_from_distinct: "distinct (stable_unique_from seen xs)"
  by (induction seen xs rule: stable_unique_from.induct) (auto simp: stable_unique_from_set)

lemma stable_unique_from_snoc:
  "stable_unique_from seen (xs @ [x]) =
     stable_unique_from seen xs @ (if x \<in> set xs \<union> set seen then [] else [x])"
  by (induction seen xs rule: stable_unique_from.induct) auto

text \<open>
  \<open>stable_unique\<close> keeps the first occurrence of every element: it is the mirror image of
  HOL's \<open>remdups\<close>, which keeps the last one. In particular the result has the same elements,
  each once, in the order of their first occurrence.
\<close>

theorem stable_unique_keeps_first: "stable_unique xs = rev (remdups (rev xs))"
  unfolding stable_unique_def
  by (induction xs rule: rev_induct) (auto simp: stable_unique_from_snoc)

section \<open>The search upwards\<close>

text \<open>The absolute path with the given components.\<close>

definition root_path :: "string list \<Rightarrow> string" where
  "root_path cs = slash # join_with ''/'' cs"

lemma root_path_norm_text: "root_path cs = norm_text 1 cs"
  by (simp add: root_path_def norm_text_def)

lemma join_with_snoc: "cs \<noteq> [] \<Longrightarrow> join_with sep (cs @ [c]) = join_with sep cs @ sep @ c"
  by (induction sep cs rule: join_with.induct) auto

lemma takeWhile_rev_comp:
  "slash \<notin> set c \<Longrightarrow> dropWhile (\<lambda>x. x \<noteq> slash) (rev (s @ slash # c)) = slash # rev s"
  by (simp add: dropWhile_append)

lemma join_comps_last:
  assumes "list_all plain_comp cs" and "cs \<noteq> []"
  shows "join_with ''/'' cs \<noteq> []" and "last (join_with ''/'' cs) \<noteq> slash"
proof -
  obtain ds c where cs: "cs = ds @ [c]" using assms(2) by (metis rev_exhaust)
  with assms(1) have "c \<noteq> []" and "slash \<notin> set c" by (simp_all add: plain_comp_def)
  then have c: "c \<noteq> []" "last c \<noteq> slash" by (metis last_in_set)+
  show "join_with ''/'' cs \<noteq> []" and "last (join_with ''/'' cs) \<noteq> slash"
    using c by (cases "ds = []"; simp add: cs join_with_snoc)+
qed

lemma dirname_root_path:
  assumes "list_all plain_comp (cs @ [c])"
  shows "dirname (root_path (cs @ [c])) = root_path cs"
proof -
  have c: "slash \<notin> set c" using assms by (simp add: plain_comp_def)
  show ?thesis
  proof (cases "cs = []")
    case True
    then have "path_head (root_path (cs @ [c])) = ''/''"
      using takeWhile_rev_comp [OF c, of "[]"] by (simp add: path_head_def root_path_def)
    then show ?thesis using True by (simp add: dirname_def root_path_def)
  next
    case False
    let ?j = "join_with ''/'' cs"
    have "root_path (cs @ [c]) = (slash # ?j) @ slash # c"
      using False by (simp add: root_path_def join_with_snoc)
    then have head: "path_head (root_path (cs @ [c])) = slash # ?j @ [slash]"
      using takeWhile_rev_comp [OF c, of "slash # ?j"] by (simp add: path_head_def)
    have j: "?j \<noteq> []" "last ?j \<noteq> slash"
      using join_comps_last [of cs] assms False by auto
    have "last ?j \<in> set (slash # ?j @ [slash])" using j(1) by simp
    with j(2) have "\<not> list_all (\<lambda>x. x = slash) (slash # ?j @ [slash])"
      unfolding list_all_iff by blast
    moreover have "rstrip_by (\<lambda>x. x = slash) (slash # ?j @ [slash]) = slash # ?j"
      using j by (cases ?j rule: rev_cases) (simp_all add: rstrip_by_def)
    ultimately have "dirname (root_path (cs @ [c])) = slash # ?j"
      unfolding dirname_def head Let_def by simp
    then show ?thesis by (simp add: root_path_def)
  qed
qed

text \<open>
  The specification of the search: the directories from the deepest to the root, and the
  first of them in which the file exists.
\<close>

definition upward_dirs :: "string list \<Rightarrow> string list" where
  "upward_dirs cs = map (\<lambda>n. root_path (take n cs)) (rev [0..<Suc (length cs)])"

definition first_existing :: "(string \<Rightarrow> bool) \<Rightarrow> string \<Rightarrow> string list \<Rightarrow> string" where
  "first_existing exists_path name dirs =
     (case find exists_path (map (\<lambda>d. path_join d name) dirs) of None \<Rightarrow> [] | Some p \<Rightarrow> p)"

lemma upward_dirs_snoc: "upward_dirs (cs @ [c]) = root_path (cs @ [c]) # upward_dirs cs"
  by (simp add: upward_dirs_def)

lemma find_loop_spec:
  "list_all plain_comp cs \<Longrightarrow>
   find_loop exists_path name (root_path cs) = Some (first_existing exists_path name (upward_dirs cs))"
proof (induction cs rule: rev_induct)
  case Nil
  then show ?case
    by (simp add: find_loop.simps [of exists_path name "''/''"] first_existing_def upward_dirs_def
        root_path_def Let_def)
next
  case (snoc c cs)
  have "root_path (cs @ [c]) \<noteq> ''/''"
    using join_comps_last(1) [OF snoc.prems] by (simp add: root_path_def)
  then show ?case
    using snoc dirname_root_path [OF snoc.prems]
    by (simp add: find_loop.simps [of exists_path name "root_path (cs @ [c])"] first_existing_def
        upward_dirs_snoc Let_def)
qed

text \<open>
  From an absolute directory (written with a single leading slash) the search always
  returns, with the path of the file in the closest enclosing directory that has it, or with
  the empty string when no enclosing directory up to the root has it.
\<close>

theorem find_file_bottom_up_finds_closest:
  assumes "list_all plain_comp cs" and "''..'' \<notin> set cs"
  shows "find_file_bottom_up exists_path cwd name (Some (root_path cs)) =
    Some (first_existing exists_path name (upward_dirs cs))"
proof -
  have "norm_comps (1 \<noteq> (0::nat)) cs" using assms by (simp add: norm_comps_def)
  then have "normpath (root_path cs) = root_path cs"
    using normpath_text [of 1 cs] by (simp add: root_path_norm_text)
  then have "abspath cwd (root_path cs) = root_path cs"
    by (simp add: abspath_def root_path_def startswith_def)
  with find_loop_spec [OF assms(1)] show ?thesis by (simp add: find_file_bottom_up_def)
qed

theorem find_file_bottom_up_finds_closest_witness:
  "find_file_bottom_up (\<lambda>p. p = ''/home/BLADE_ROOT'') ''/'' ''BLADE_ROOT'' (Some ''/home/me/src'') =
     Some ''/home/BLADE_ROOT''"
proof -
  let ?cs = "[''home'', ''me'', ''src'']"
  have "list_all plain_comp ?cs" and "''..'' \<notin> set ?cs" by code_simp+
  from find_file_bottom_up_finds_closest [OF this, of "\<lambda>p. p = ''/home/BLADE_ROOT''" "''/''" "''BLADE_ROOT''"]
  have "find_file_bottom_up (\<lambda>p. p = ''/home/BLADE_ROOT'') ''/'' ''BLADE_ROOT'' (Some (root_path ?cs)) =
      Some (first_existing (\<lambda>p. p = ''/home/BLADE_ROOT'') ''BLADE_ROOT'' (upward_dirs ?cs))" .
  moreover have "root_path ?cs = ''/home/me/src''" by code_simp
  moreover have "first_existing (\<lambda>p. p = ''/home/BLADE_ROOT'') ''BLADE_ROOT'' (upward_dirs ?cs) = ''/home/BLADE_ROOT''"
    by code_simp
  ultimately show ?thesis by simp
qed

lemma dirname_double_slash: "dirname ''//'' = ''//''"
  by (simp add: dirname_def path_head_def)

lemma find_loop_returns:
  assumes "find_loop exists_path name dir = Some r" and "dir = ''//''"
  shows "exists_path (path_join ''//'' name)"
proof -
  have step: "e = exists_path \<longrightarrow> n = name \<longrightarrow> d = ''//'' \<longrightarrow> exists_path (path_join ''//'' name)"
    if IH: "\<And>e n d r. f e n d = Some r \<Longrightarrow>
        e = exists_path \<longrightarrow> n = name \<longrightarrow> d = ''//'' \<longrightarrow> exists_path (path_join ''//'' name)"
      and eq: "(let path = path_join d n in if e path then Some path
         else if d = ''/'' then Some [] else f e n (dirname d)) = Some r" for f e n d r
  proof (intro impI)
    assume e: "e = exists_path" "n = name" "d = ''//''"
    show "exists_path (path_join ''//'' name)"
    proof (rule ccontr)
      assume "\<not> exists_path (path_join ''//'' name)"
      with eq e have "f exists_path name ''//'' = Some r"
        by (simp add: Let_def dirname_double_slash)
      with IH \<open>\<not> exists_path (path_join ''//'' name)\<close> show False by blast
    qed
  qed
  have "exists_path = exists_path \<longrightarrow> name = name \<longrightarrow> dir = ''//'' \<longrightarrow> exists_path (path_join ''//'' name)"
    by (rule find_loop.raw_induct [where P = "\<lambda>e n d r. e = exists_path \<longrightarrow> n = name \<longrightarrow> d = ''//'' \<longrightarrow>
        exists_path (path_join ''//'' name)", OF _ assms(1)]) (rule step)
  with assms(2) show ?thesis by simp
qed

text \<open>
  Above \<open>//\<close>, which POSIX and \<open>normpath\<close> keep apart from \<open>/\<close>, the search does not
  return: the directory of \<open>//\<close> is \<open>//\<close> itself, and only \<open>/\<close> stops the loop.
\<close>

theorem find_file_bottom_up_double_slash:
  assumes "\<not> exists_path (path_join ''//'' name)"
  shows "find_file_bottom_up exists_path cwd name (Some ''//'') = None"
proof -
  have "abspath cwd ''//'' = ''//''" by (simp add: abspath_def startswith_def) code_simp
  moreover have "find_loop exists_path name ''//'' = None"
    using find_loop_returns [of exists_path name "''//''"] assms by (cases "find_loop exists_path name ''//''") auto
  ultimately show ?thesis by (simp add: find_file_bottom_up_def)
qed

theorem find_file_bottom_up_double_slash_witness:
  "find_file_bottom_up (\<lambda>p. p = ''/BLADE_ROOT'') ''/'' ''BLADE_ROOT'' (Some ''//'') = None"
proof -
  have "\<not> (\<lambda>p. p = ''/BLADE_ROOT'') (path_join ''//'' ''BLADE_ROOT'')" by code_simp
  then show ?thesis by (rule find_file_bottom_up_double_slash)
qed

end
