(* ===== verification/Protoc_Plugin.thy ===== *)
theory Protoc_Plugin
  imports Util
begin

text \<open>
  The plug-ins of the protobuf compiler: the class \<open>ProtocPlugin\<close> of \<open>src/blade/proto_library_target.py\<close>, whose objects
  a configuration file puts into the section \<open>protoc_plugin_config\<close>.
\<close>

text \<open>
  The dependencies of a plug-in by language. A dependency is the tuple of the parts of its text
  between colons.
\<close>

record protoc_plugin =
  pp_name :: string
  pp_path :: string
  pp_code_generation :: "(string, string list list) dict"

definition protoc_languages :: "string list" where
  "protoc_languages = [''cpp'', ''java'', ''python'']"

definition plugin_dep :: "pyval \<Rightarrow> string list list \<Rightarrow> string list list result" where
  "plugin_dep v deps =
     (case v of
        PyStr dep \<Rightarrow> Inr (add_new (split_on (CHR '':'') (if startswith dep ''//'' then drop 2 dep else dep)) deps)
      | _ \<Rightarrow> Inl (AttributeError ''startswith''))"

definition plugin_language ::
  "string \<Rightarrow> string \<times> pyval \<Rightarrow> (string, string list list) dict \<Rightarrow> (string, string list list) dict result" where
  "plugin_language name entry gen =
     (case entry of (language, v) \<Rightarrow>
        if language \<notin> set protoc_languages
        then Inl (SystemExit (name @ '': Language '' @ language @ '' is invalid. Protoc plugins in '' @
               join_with '', '' protoc_languages @ '' are supported by blade currently.''))
        else
          (case v of
             PyDict d \<Rightarrow>
               rbind (dindex d ''deps'') (\<lambda>deps.
               rbind (rfold plugin_dep (var_to_list deps) []) (\<lambda>deps. Inr (dset language deps gen)))
           | _ \<Rightarrow> Inl TypeError))"

definition protoc_plugin_init :: "string \<Rightarrow> string \<Rightarrow> pyval \<Rightarrow> protoc_plugin result" where
  "protoc_plugin_init name path code_generation =
     (case code_generation of
        PyDict d \<Rightarrow>
          rbind (rfold (plugin_language name) d []) (\<lambda>gen.
            Inr \<lparr>pp_name = name, pp_path = path, pp_code_generation = gen\<rparr>)
      | _ \<Rightarrow> Inl (PyException ''AssertionError''))"

definition protoc_plugin_flag :: "protoc_plugin \<Rightarrow> string \<Rightarrow> string" where
  "protoc_plugin_flag p out =
     ''--plugin=protoc-gen-'' @ pp_name p @ ''='' @ pp_path p @ '' --'' @ pp_name p @ ''_out='' @ out"

text \<open>\<open>ProtocPlugin(**kwargs)\<close>: exactly the three keyword arguments; names and paths are texts.\<close>

definition new_protoc_plugin :: "(string, pyval) dict \<Rightarrow> protoc_plugin result" where
  "new_protoc_plugin kwargs =
     (if set (dkeys kwargs) \<noteq> {''name'', ''path'', ''code_generation''} then Inl TypeError
      else
        rbind (rbind (dindex kwargs ''name'') as_str) (\<lambda>name.
        rbind (rbind (dindex kwargs ''path'') as_str) (\<lambda>path.
        rbind (dindex kwargs ''code_generation'') (protoc_plugin_init name path))))"

text \<open>The object as a value of the configuration: its attributes.\<close>

definition plugin_object :: "protoc_plugin \<Rightarrow> pyval" where
  "plugin_object p =
     PyDict [(''name'', PyStr (pp_name p)), (''path'', PyStr (pp_path p)),
             (''code_generation'', PyDict (map (\<lambda>(language, deps).
                (language, PyDict [(''deps'', PyList (map (\<lambda>d. PyTuple (map PyStr d)) deps))])) (pp_code_generation p)))]"

end
