(* ===== verification/Config.thy ===== *)
theory Config
  imports Protoc_Plugin
begin

text \<open>
  The configuration database of \<open>src/blade/configparse.py\<close>: the sections with their default
  items, the update of a section by a configuration function (appending to list items and
  replacing items), and the configuration functions a \<open>BLADE_ROOT\<close> file calls. A
  configuration file is a Python program; it is the parameter of \<open>try_parse_file\<close>.
  The messages written to the console are collected in the state.
\<close>

section \<open>State\<close>

datatype message = Err string | Warn string | Info string

record config_state =
  c_file :: string
  c_configs :: "(string, (string, pyval) dict) dict"
  c_log :: "message list"

abbreviation pstr :: "string \<Rightarrow> pyval" where "pstr \<equiv> PyStr"
abbreviation pnil :: pyval where "pnil \<equiv> PyList []"
abbreviation pempty :: pyval where "pempty \<equiv> PyStr []"
abbreviation pstrs :: "string list \<Rightarrow> pyval" where "pstrs xs \<equiv> PyList (map PyStr xs)"

definition default_configs :: "(string, (string, pyval) dict) dict" where
  "default_configs =
   [(''global_config'',
      [(''build_path_template'', pstr ''build${m}_${profile}''),
       (''duplicated_source_action'', pstr ''warning''),
       (''test_timeout'', PyNone),
       (''native_builder'', pstr ''scons''),
       (''debug_info_level'', pstr ''mid'')]),
    (''cc_test_config'',
      [(''dynamic_link'', PyBool False),
       (''heap_check'', pempty),
       (''gperftools_libs'', pnil),
       (''gperftools_debug_libs'', pnil),
       (''gtest_libs'', pnil),
       (''gtest_main_libs'', pnil),
       (''pprof_path'', pempty)]),
    (''cc_binary_config'',
      [(''extra_libs'', pnil),
       (''run_lib_paths'', pnil)]),
    (''distcc_config'',
      [(''enabled'', PyBool False)]),
    (''link_config'',
      [(''link_on_tmp'', PyBool False),
       (''enable_dccc'', PyBool False)]),
    (''java_config'',
      [(''version'', pstr ''1.6''),
       (''source_version'', pempty),
       (''target_version'', pempty),
       (''maven'', pstr ''mvn''),
       (''maven_central'', pempty),
       (''warnings'', pstrs [''-Werror'', ''-Xlint:all'']),
       (''source_encoding'', PyNone),
       (''java_home'', pempty),
       (''debug_info_levels'', PyDict
          [(''no'', pstrs [''-g:none'']),
           (''low'', pstrs [''-g:source'']),
           (''mid'', pstrs [''-g:source,lines'']),
           (''high'', pstrs [''-g''])])]),
    (''java_binary_config'',
      [(''one_jar_boot_jar'', pempty)]),
    (''java_test_config'',
      [(''junit_libs'', pnil),
       (''jacoco_home'', pempty),
       (''coverage_reporter'', pempty)]),
    (''scala_config'',
      [(''scala_home'', pempty),
       (''target_platform'', pempty),
       (''warnings'', pempty),
       (''source_encoding'', PyNone)]),
    (''scala_test_config'',
      [(''scalatest_libs'', pempty)]),
    (''go_config'',
      [(''go'', pempty),
       (''go_home'', pempty)]),
    (''thrift_config'',
      [(''thrift'', pstr ''thrift''),
       (''thrift_libs'', pnil),
       (''thrift_incs'', pnil)]),
    (''fbthrift_config'',
      [(''fbthrift'', pstr ''thrift1''),
       (''fbthrift_py'', pstr ''thrift1''),
       (''fbthrift_templates'', pempty),
       (''fbthrift_libs'', pnil),
       (''fbthrift_incs'', pnil)]),
    (''proto_library_config'',
      [(''protoc'', pstr ''thirdparty/protobuf/bin/protoc''),
       (''protoc_java'', pempty),
       (''protobuf_libs'', pnil),
       (''protobuf_path'', pempty),
       (''protobuf_incs'', pnil),
       (''protobuf_java_incs'', pnil),
       (''protobuf_php_path'', pempty),
       (''protoc_php_plugin'', pempty),
       (''protobuf_java_libs'', pnil),
       (''protoc_go_plugin'', pempty),
       (''protobuf_go_path'', pempty),
       (''protoc_direct_dependencies'', PyBool False),
       (''protobuf_python_libs'', pnil)]),
    (''protoc_plugin_config'', []),
    (''cc_config'',
      [(''extra_incs'', pnil),
       (''cppflags'', pnil),
       (''cflags'', pnil),
       (''cxxflags'', pnil),
       (''linkflags'', pnil),
       (''c_warnings'', pnil),
       (''cxx_warnings'', pnil),
       (''warnings'', pnil),
       (''cpplint'', pstr ''cpplint.py''),
       (''optimize'', pnil),
       (''benchmark_libs'', pnil),
       (''benchmark_main_libs'', pnil),
       (''securecc'', PyNone),
       (''debug_info_levels'', PyDict
          [(''no'', pstrs [''-g0'']),
           (''low'', pstrs [''-g1'']),
           (''mid'', pstrs [''-g'']),
           (''high'', pstrs [''-g3''])])]),
    (''cc_library_config'',
      [(''prebuilt_libpath_pattern'', pstr ''lib${bits}_${profile}''),
       (''generate_dynamic'', PyNone),
       (''arflags'', pstrs [''rcs'']),
       (''ranlibflags'', pnil)])]"

definition init_config :: config_state where
  "init_config = \<lparr>c_file = [], c_configs = default_configs, c_log = []\<rparr>"

section \<open>Updating a section\<close>

definition log_msg :: "message \<Rightarrow> config_state \<Rightarrow> config_state" where
  "log_msg m s = s\<lparr>c_log := c_log s @ [m]\<rparr>"

definition section_msg :: "config_state \<Rightarrow> string \<Rightarrow> string \<Rightarrow> string" where
  "section_msg s section_name text = c_file s @ '': '' @ section_name @ '': '' @ text"

definition unknown_item_msg :: "config_state \<Rightarrow> string \<Rightarrow> string \<Rightarrow> string" where
  "unknown_item_msg s section_name k = section_msg s section_name (''unknown config item name: '' @ k)"

text \<open>
  One iteration of \<open>for k in append\<close>. The section dictionary \<open>config\<close> is the object in
  \<open>configs\<close>, so the item is stored there.
\<close>

definition put_item :: "string \<Rightarrow> string \<Rightarrow> pyval \<Rightarrow> config_state \<Rightarrow> config_state" where
  "put_item section_name k v s =
     s\<lparr>c_configs := dset section_name (dset k v (dgetd (c_configs s) section_name [])) (c_configs s)\<rparr>"

definition append_item :: "string \<Rightarrow> string \<times> pyval \<Rightarrow> config_state \<Rightarrow> config_state" where
  "append_item section_name item s =
     (case item of (k, v) \<Rightarrow>
        (case dget (dgetd (c_configs s) section_name []) k of
           Some (PyList xs) \<Rightarrow> put_item section_name k (PyList (xs @ var_to_list v)) s
         | Some _ \<Rightarrow>
             log_msg (Warn (section_msg s section_name (''config item '' @ k @ '' is not a list''))) s
         | None \<Rightarrow> log_msg (Warn (unknown_item_msg s section_name k)) s))"

definition append_config :: "string \<Rightarrow> pyval \<Rightarrow> config_state \<Rightarrow> config_state" where
  "append_config section_name appended s =
     (case appended of
        PyDict kvs \<Rightarrow> fold (append_item section_name) kvs s
      | _ \<Rightarrow> log_msg (Err (section_msg s section_name ''append must be a dict'')) s)"

text \<open>
  The first loop of \<open>_replace_config\<close> normalises the values of list items and collects the
  unknown keys; the unknown keys are deleted, then the section is updated.
\<close>

definition replace_value :: "(string, pyval) dict \<Rightarrow> string \<times> pyval \<Rightarrow> string \<times> pyval" where
  "replace_value config item =
     (case item of (k, v) \<Rightarrow>
        (case dget config k of Some (PyList _) \<Rightarrow> (k, PyList (var_to_list v)) | _ \<Rightarrow> (k, v)))"

definition warn_unknown ::
  "string \<Rightarrow> (string, pyval) dict \<Rightarrow> string \<times> pyval \<Rightarrow> config_state \<Rightarrow> config_state" where
  "warn_unknown section_name config item s =
     (if dget config (fst item) = None
      then log_msg (Warn (unknown_item_msg s section_name (fst item))) s else s)"

definition replace_config :: "string \<Rightarrow> (string, pyval) dict \<Rightarrow> config_state \<Rightarrow> config_state" where
  "replace_config section_name user_config s =
     (let config = dgetd (c_configs s) section_name [];
          s' = fold (warn_unknown section_name config) user_config s;
          user_config' = filter (\<lambda>kv. dget config (fst kv) \<noteq> None)
                           (map (replace_value config) user_config)
      in s'\<lparr>c_configs := dset section_name (dupdate config user_config') (c_configs s')\<rparr>)"

definition update_config :: "string \<Rightarrow> pyval \<Rightarrow> (string, pyval) dict \<Rightarrow> config_state \<Rightarrow> config_state" where
  "update_config section_name appended user_config s =
     (if dgetd (c_configs s) section_name [] \<noteq> []
      then replace_config section_name user_config
             (if truthy appended then append_config section_name appended s else s)
      else log_msg (Err (section_msg s section_name ''unknown config section name'')) s)"

definition get_config :: "config_state \<Rightarrow> string \<Rightarrow> (string, pyval) dict result" where
  "get_config s section_name = dindex (c_configs s) section_name"

section \<open>Configuration functions\<close>

text \<open>
  Membership in a Python set hashes the element first, which raises \<open>TypeError\<close> for a list
  or a dictionary.
\<close>

fun hashable :: "pyval \<Rightarrow> bool" where
  "hashable (PyList xs) = False"
| "hashable (PyDict kvs) = False"
| "hashable (PyTuple xs) = list_all hashable xs"
| "hashable _ = True"

definition in_set :: "pyval \<Rightarrow> pyval list \<Rightarrow> bool result" where
  "in_set v vs = (if hashable v then Inr (v \<in> set vs) else Inl TypeError)"

text \<open>
  \<open>_check_kwarg_enum_value\<close>; the valid values are a set in one call and the list of a
  dictionary's keys in the other, and the flag says which. The values in the message are
  printed by Python and left out.
\<close>

definition check_kwarg_enum_value ::
  "config_state \<Rightarrow> (string, pyval) dict \<Rightarrow> string \<Rightarrow> bool \<Rightarrow> pyval list \<Rightarrow> unit result" where
  "check_kwarg_enum_value s kwargs name as_set valid_values =
     (case dgetd kwargs name PyNone of
        PyNone \<Rightarrow> Inr ()
      | v \<Rightarrow>
          rbind (if as_set then in_set v valid_values else Inr (v \<in> set valid_values)) (\<lambda>b.
            if b then Inr ()
            else Inl (SystemExit (c_file s @ '': Invalid '' @ name @ '' value''))))"

definition heap_check_values :: "pyval list" where
  "heap_check_values =
     map PyStr [[], ''minimal'', ''normal'', ''strict'', ''draconian'', ''as-is'', ''local'']"

type_synonym config_fun = "pyval \<Rightarrow> (string, pyval) dict \<Rightarrow> config_state \<Rightarrow> config_state result"

definition cc_test_config :: config_fun where
  "cc_test_config appended kwargs s =
     (case dgetd kwargs ''heap_check'' PyNone of
        PyNone \<Rightarrow> Inr (update_config ''cc_test_config'' appended kwargs s)
      | v \<Rightarrow>
          rbind (in_set v heap_check_values) (\<lambda>b.
            if \<not> b then Inl (SystemExit ''cc_test_config: heap_check can only be in '')
            else Inr (update_config ''cc_test_config'' appended kwargs s)))"

definition cc_binary_config :: config_fun where
  "cc_binary_config appended kwargs s = Inr (update_config ''cc_binary_config'' appended kwargs s)"

definition cc_library_config :: config_fun where
  "cc_library_config appended kwargs s = Inr (update_config ''cc_library_config'' appended kwargs s)"

definition duplicated_source_action_values :: "pyval list" where
  "duplicated_source_action_values = [pstr ''warning'', pstr ''error'', pstr ''none'', PyNone]"

definition global_config :: config_fun where
  "global_config appended kwargs s =
     rbind (check_kwarg_enum_value s kwargs ''duplicated_source_action'' True
              duplicated_source_action_values) (\<lambda>_.
     rbind (get_config s ''cc_config'') (\<lambda>cc.
     rbind (dindex cc ''debug_info_levels'') (\<lambda>levels.
     rbind (case levels of
              PyDict kvs \<Rightarrow> Inr (map (\<lambda>kv. PyStr (fst kv)) kvs)
            | _ \<Rightarrow> Inl (AttributeError ''keys'')) (\<lambda>debug_info_levels.
     rbind (check_kwarg_enum_value s kwargs ''debug_info_level'' False debug_info_levels) (\<lambda>_.
       Inr (update_config ''global_config'' appended kwargs s))))))"

definition distcc_config :: config_fun where
  "distcc_config appended kwargs s = Inr (update_config ''distcc_config'' appended kwargs s)"

definition link_config :: config_fun where
  "link_config appended kwargs s = Inr (update_config ''link_config'' appended kwargs s)"

definition java_config :: config_fun where
  "java_config appended kwargs s = Inr (update_config ''java_config'' appended kwargs s)"

definition java_binary_config :: config_fun where
  "java_binary_config appended kwargs s = Inr (update_config ''java_binary_config'' appended kwargs s)"

definition java_test_config :: config_fun where
  "java_test_config appended kwargs s = Inr (update_config ''java_test_config'' appended kwargs s)"

definition scala_config :: config_fun where
  "scala_config appended kwargs s = Inr (update_config ''scala_config'' appended kwargs s)"

definition scala_test_config :: config_fun where
  "scala_test_config appended kwargs s = Inr (update_config ''scala_test_config'' appended kwargs s)"

definition go_config :: config_fun where
  "go_config appended kwargs s = Inr (update_config ''go_config'' appended kwargs s)"

definition thrift_library_config :: config_fun where
  "thrift_library_config appended kwargs s = Inr (update_config ''thrift_config'' appended kwargs s)"

definition fbthrift_library_config :: config_fun where
  "fbthrift_library_config appended kwargs s = Inr (update_config ''fbthrift_config'' appended kwargs s)"

text \<open>A string with blanks is split into words, anything else becomes a one-element list.\<close>

definition proto_library_config :: config_fun where
  "proto_library_config appended kwargs s =
     (let path = dgetd kwargs ''protobuf_include_path'' PyNone
      in if truthy path
         then let s' = log_msg (Warn (c_file s @ '': proto_library_config: protobuf_include_path has '' @
                                ''been renamed to protobuf_incs, and become a list'')) s;
                  kwargs' = ddel ''protobuf_include_path'' kwargs;
                  incs = (case path of
                            PyStr p \<Rightarrow> if CHR '' '' \<in> set p then pstrs (split_ws p) else PyList [path]
                          | _ \<Rightarrow> PyList [path])
              in Inr (update_config ''proto_library_config'' appended (dset ''protobuf_incs'' incs kwargs') s')
         else Inr (update_config ''proto_library_config'' appended kwargs s))"

definition cc_config :: config_fun where
  "cc_config appended kwargs s =
     (case dget kwargs ''extra_incs'' of
        Some (PyStr extra_incs) \<Rightarrow>
          if CHR '' '' \<in> set extra_incs
          then Inr (update_config ''cc_config'' appended
                      (dset ''extra_incs'' (pstrs (split_ws extra_incs)) kwargs)
                      (log_msg (Warn (c_file s @ '': cc_config: extra_incs has been changed to list'')) s))
          else Inr (update_config ''cc_config'' appended kwargs s)
      | _ \<Rightarrow> Inr (update_config ''cc_config'' appended kwargs s))"

text \<open>
  \<open>protoc_plugin\<close> has no parameter \<open>append\<close>, so that the keyword goes to the constructor, which does not take it.
  The object is stored in the section, which no other configuration function changes.
\<close>

definition plugin_section :: string where
  "plugin_section = ''protoc_plugin_config''"

definition protoc_plugin :: config_fun where
  "protoc_plugin appended kwargs s =
     (if dget kwargs ''name'' = None
      then Inl (SystemExit (''Missing 'name' in protoc_plugin parameters: '' @ py_repr (PyDict kwargs)))
      else
        rbind (get_config s plugin_section) (\<lambda>_.
          if appended \<noteq> PyNone then Inl TypeError
          else rbind (new_protoc_plugin kwargs) (\<lambda>p. Inr (put_item plugin_section (pp_name p) (plugin_object p) s))))"

text \<open>
  \<open>try_parse_file\<close>: \<open>program\<close> is the effect of executing the file, \<open>None\<close> when the file
  does not exist. A \<open>SystemExit\<close> of the file is turned into a fatal error that names the
  file; the file name is reset on every path.
\<close>

definition try_parse_file ::
  "string \<Rightarrow> (config_state \<Rightarrow> config_state result) option \<Rightarrow> config_state \<Rightarrow> config_state result" where
  "try_parse_file filename program s =
     (let s = s\<lparr>c_file := filename\<rparr>
      in case program of
           None \<Rightarrow> Inr (s\<lparr>c_file := []\<rparr>)
         | Some prog \<Rightarrow>
             (case prog s of
                Inr s' \<Rightarrow> Inr (s'\<lparr>c_file := []\<rparr>)
              | Inl (SystemExit _) \<Rightarrow>
                  Inl (SystemExit (''Parse error in config file '' @ filename @ '', exit...''))
              | Inl e \<Rightarrow> Inl e))"

text \<open>
  A configuration file made of calls of the configuration functions: the names are looked up
  in the globals of the module, an unknown one raises \<open>NameError\<close>.
\<close>

definition config_functions :: "(string \<times> config_fun) list" where
  "config_functions =
     [(''cc_test_config'', cc_test_config), (''cc_binary_config'', cc_binary_config),
      (''cc_library_config'', cc_library_config), (''global_config'', global_config),
      (''distcc_config'', distcc_config), (''link_config'', link_config),
      (''java_config'', java_config), (''java_binary_config'', java_binary_config),
      (''java_test_config'', java_test_config), (''scala_config'', scala_config),
      (''scala_test_config'', scala_test_config), (''go_config'', go_config),
      (''proto_library_config'', proto_library_config), (''protoc_plugin'', protoc_plugin),
      (''thrift_library_config'', thrift_library_config),
      (''fbthrift_library_config'', fbthrift_library_config), (''cc_config'', cc_config)]"

record config_call =
  cc_name :: string
  cc_append :: pyval
  cc_kwargs :: "(string, pyval) dict"

definition config_call :: "config_call \<Rightarrow> config_state \<Rightarrow> config_state result" where
  "config_call c s =
     (case map_of config_functions (cc_name c) of
        None \<Rightarrow> Inl (NameError (cc_name c))
      | Some f \<Rightarrow> f (cc_append c) (cc_kwargs c) s)"

definition config_file :: "config_call list \<Rightarrow> config_state \<Rightarrow> config_state result" where
  "config_file calls = rfold config_call calls"

section \<open>What an update changes\<close>

text \<open>The value of an item, and the keys and the kinds of the items of a section.\<close>

definition item :: "config_state \<Rightarrow> string \<Rightarrow> string \<Rightarrow> pyval option" where
  "item s sec k = dget (dgetd (c_configs s) sec []) k"

definition same_schema :: "config_state \<Rightarrow> config_state \<Rightarrow> bool" where
  "same_schema s s' =
     ((\<forall>sec. dget (c_configs s) sec = None \<longleftrightarrow> dget (c_configs s') sec = None) \<and>
      (\<forall>sec k. rel_option (\<lambda>v v'. is_list v \<longrightarrow> is_list v') (item s sec k) (item s' sec k)))"

lemma same_schema_refl [simp]: "same_schema s s"
  by (simp add: same_schema_def option.rel_refl)

lemma rel_list_trans:
  "rel_option (\<lambda>v v'. is_list v \<longrightarrow> is_list v') a b \<Longrightarrow> rel_option (\<lambda>v v'. is_list v \<longrightarrow> is_list v') b c \<Longrightarrow>
   rel_option (\<lambda>v v'. is_list v \<longrightarrow> is_list v') a c"
  by (cases a; cases b; cases c) auto

lemma same_schema_trans:
  assumes ab: "same_schema a b" and bc: "same_schema b c"
  shows "same_schema a c"
  unfolding same_schema_def
proof (intro conjI allI)
  show "dget (c_configs a) sec = None \<longleftrightarrow> dget (c_configs c) sec = None" for sec
    using assms by (simp add: same_schema_def)
  show "rel_option (\<lambda>v v'. is_list v \<longrightarrow> is_list v') (item a sec k) (item c sec k)" for sec k
    using assms rel_list_trans [of "item a sec k" "item b sec k" "item c sec k"]
    by (simp add: same_schema_def)
qed

lemma item_log [simp]: "item (log_msg m s) = item s" "c_configs (log_msg m s) = c_configs s"
  by (simp_all add: fun_eq_iff item_def log_msg_def)

lemma c_file_log [simp]: "c_file (log_msg m s) = c_file s"
  by (simp add: log_msg_def)

lemma item_put:
  "item (put_item sec k v s) sec' k' = (if sec' = sec \<and> k' = k then Some v else item s sec' k')"
  by (simp add: item_def put_item_def dgetd_def)

lemma section_put:
  "dget (c_configs (put_item sec k v s)) sec' = None \<longleftrightarrow> sec' \<noteq> sec \<and> dget (c_configs s) sec' = None"
  by (simp add: put_item_def)

lemma section_of_item: "item s sec k = Some v \<Longrightarrow> dget (c_configs s) sec \<noteq> None"
  by (auto simp: item_def dgetd_def split: option.splits)

lemma append_item_item:
  "item (append_item sec (k, v) s) sec' k' =
     (if sec' = sec \<and> k' = k then
        map_option (\<lambda>old. case old of PyList xs \<Rightarrow> PyList (xs @ var_to_list v) | _ \<Rightarrow> old) (item s sec k)
      else item s sec' k')"
  by (auto simp: append_item_def item_put item_def [of s sec k, symmetric] split: option.splits pyval.splits)

lemma append_item_schema: "same_schema s (append_item sec kv s)"
proof -
  obtain k v where kv: "kv = (k, v)" by (cases kv)
  have "dget (c_configs s) sec' = None \<longleftrightarrow> dget (c_configs (append_item sec kv s)) sec' = None" for sec'
    using section_of_item [of s sec k]
    by (auto simp: kv append_item_def section_put item_def [of s sec k, symmetric] split: option.splits pyval.splits)
  moreover have "rel_option (\<lambda>v v'. is_list v \<longrightarrow> is_list v') (item s sec' k') (item (append_item sec kv s) sec' k')"
    for sec' k'
    by (cases "item s sec' k'") (auto simp: kv append_item_item split: pyval.splits)
  ultimately show ?thesis by (simp add: same_schema_def)
qed

lemma append_config_schema: "same_schema s (append_config sec v s)"
proof -
  have "same_schema s (fold (append_item sec) kvs s)" for kvs
  proof (induction kvs arbitrary: s)
    case (Cons kv kvs)
    show ?case using same_schema_trans [OF append_item_schema Cons.IH] by simp
  qed simp
  then show ?thesis
    by (cases v) (simp_all add: append_config_def same_schema_def option.rel_refl)
qed

lemma fold_append_other:
  "(sec' \<noteq> sec \<or> k \<notin> fst ` set kvs) \<Longrightarrow> item (fold (append_item sec) kvs s) sec' k = item s sec' k"
proof (induction kvs arbitrary: s)
  case (Cons kv kvs)
  then show ?case by (cases kv) (auto simp: append_item_item)
qed simp

lemma fold_append_item:
  assumes "dict_ok kvs"
  shows "item (fold (append_item sec) kvs s) sec k =
    (case dget kvs k of
       None \<Rightarrow> item s sec k
     | Some v \<Rightarrow>
         map_option (\<lambda>old. case old of PyList xs \<Rightarrow> PyList (xs @ var_to_list v) | _ \<Rightarrow> old) (item s sec k))"
  using assms
proof (induction kvs arbitrary: s)
  case (Cons kv kvs)
  obtain j v where kv: "kv = (j, v)" by (cases kv)
  with Cons.prems have ok: "dict_ok kvs" and j: "j \<notin> fst ` set kvs" by (auto simp: dict_ok_def)
  show ?case
  proof (cases "k = j")
    case True
    then show ?thesis
      using fold_append_other [of sec sec k kvs] j by (simp add: kv append_item_item)
  next
    case False
    then have "item (append_item sec (j, v) s) sec k = item s sec k" by (simp add: append_item_item)
    then show ?thesis using False Cons.IH [OF ok] by (cases "dget kvs k") (simp_all add: kv)
  qed
qed simp

lemma warn_unknown_configs [simp]:
  "c_configs (fold (warn_unknown sec config) kvs s) = c_configs s"
  by (induction kvs arbitrary: s) (auto simp: warn_unknown_def)

text \<open>The values a replacement stores.\<close>

definition normalised :: "pyval option \<Rightarrow> pyval \<Rightarrow> pyval" where
  "normalised old v = (case old of Some (PyList _) \<Rightarrow> PyList (var_to_list v) | _ \<Rightarrow> v)"

lemma replace_value_eq: "replace_value config kv = (fst kv, normalised (dget config (fst kv)) (snd kv))"
  by (cases kv) (simp add: replace_value_def normalised_def split: option.splits pyval.splits)

lemma dget_replaced:
  assumes "dict_ok user"
  shows "dget (filter (\<lambda>kv. dget config (fst kv) \<noteq> None) (map (replace_value config) user)) k =
    (if dget config k = None then None else map_option (normalised (dget config k)) (dget user k))"
  using assms
proof (induction user)
  case (Cons kv user)
  then have ok: "dict_ok user" and new: "fst kv \<notin> fst ` set user" by (auto simp: dict_ok_def)
  have "dget user (fst kv) = None" using new by (simp add: map_of_eq_None_iff)
  then show ?case using Cons.IH [OF ok] by (cases kv) (auto simp: replace_value_eq)
qed simp

lemma replaced_ok:
  "dict_ok user \<Longrightarrow> dict_ok (filter P (map (replace_value config) user))"
proof -
  assume "dict_ok user"
  then have "distinct (map fst (map (replace_value config) user))"
    by (simp add: dict_ok_def replace_value_eq comp_def)
  then show ?thesis unfolding dict_ok_def by (rule distinct_map_filter)
qed

lemma replace_config_item:
  assumes "dict_ok user"
  shows "item (replace_config sec user s) sec' k =
    (if sec' = sec \<and> item s sec k \<noteq> None \<and> dget user k \<noteq> None
     then Some (normalised (item s sec k) (the (dget user k))) else item s sec' k)"
proof -
  let ?config = "dgetd (c_configs s) sec []"
  let ?new = "filter (\<lambda>kv. dget ?config (fst kv) \<noteq> None) (map (replace_value ?config) user)"
  have "item (replace_config sec user s) sec' k =
      (if sec' = sec then dget (dupdate ?config ?new) k else item s sec' k)"
    by (simp add: replace_config_def Let_def item_def dgetd_def)
  also have "dget (dupdate ?config ?new) k =
      (case dget ?new k of None \<Rightarrow> dget ?config k | Some v \<Rightarrow> Some v)"
    by (simp add: dget_dupdate [OF replaced_ok [OF assms]] map_add_def)
  also have "dget ?new k = (if item s sec k = None then None
      else map_option (normalised (item s sec k)) (dget user k))"
    unfolding item_def by (rule dget_replaced [OF assms])
  finally show ?thesis
    by (cases "dget user k") (auto simp: item_def)
qed

lemma replace_config_schema:
  assumes "dict_ok user" and "dget (c_configs s) sec \<noteq> None"
  shows "same_schema s (replace_config sec user s)"
  unfolding same_schema_def
proof (intro conjI allI)
  show "dget (c_configs s) sec' = None \<longleftrightarrow> dget (c_configs (replace_config sec user s)) sec' = None" for sec'
    using assms(2) by (auto simp: replace_config_def Let_def)
  show "rel_option (\<lambda>v v'. is_list v \<longrightarrow> is_list v') (item s sec' k) (item (replace_config sec user s) sec' k)" for sec' k
    by (cases "item s sec' k") (auto simp: replace_config_item [OF assms(1)] normalised_def split: pyval.splits)
qed

lemma update_config_schema:
  assumes "dict_ok user"
  shows "same_schema s (update_config sec a user s)"
proof (cases "dgetd (c_configs s) sec [] = []")
  case True
  then show ?thesis by (simp add: update_config_def same_schema_def option.rel_refl)
next
  case False
  let ?s1 = "if truthy a then append_config sec a s else s"
  have s1: "same_schema s ?s1" using append_config_schema by simp
  have "dget (c_configs s) sec \<noteq> None"
    using False by (cases "dget (c_configs s) sec") (simp_all add: dgetd_def)
  then have "dget (c_configs ?s1) sec \<noteq> None" using s1 by (simp only: same_schema_def) blast
  with False show ?thesis
    using same_schema_trans [OF s1 replace_config_schema [OF assms]] by (simp add: update_config_def)
qed

lemma append_config_other: "sec' \<noteq> sec \<Longrightarrow> item (append_config sec v s) sec' k = item s sec' k"
  by (cases v) (simp_all add: append_config_def fold_append_other)

lemma update_config_other:
  "dict_ok user \<Longrightarrow> sec' \<noteq> sec \<Longrightarrow> item (update_config sec a user s) sec' k = item s sec' k"
  by (simp add: update_config_def replace_config_item append_config_other)

text \<open>
  The contract shared by the configuration functions of the sections: the shape of the
  configuration is kept and the plug-ins are left alone; and what follows for a configuration
  file that calls several of them.
\<close>

definition config_keeps :: "config_state \<Rightarrow> config_state \<Rightarrow> bool" where
  "config_keeps s s' \<longleftrightarrow> same_schema s s' \<and> (\<forall>k. item s' plugin_section k = item s plugin_section k)"

lemma config_keeps_refl [simp]: "config_keeps s s"
  by (simp add: config_keeps_def)

lemma config_keeps_trans: "config_keeps a b \<Longrightarrow> config_keeps b c \<Longrightarrow> config_keeps a c"
  by (auto simp: config_keeps_def intro: same_schema_trans)

locale config_function =
  fixes f :: config_fun
  assumes keeps: "dict_ok kwargs \<Longrightarrow> f a kwargs s = Inr s' \<Longrightarrow> config_keeps s s'"
begin

lemma keeps_calls:
  assumes "rfold (\<lambda>c. f (fst c) (snd c)) calls s = Inr s'" and ok: "\<And>c. c \<in> set calls \<Longrightarrow> dict_ok (snd c)"
  shows "config_keeps s s'"
proof (rule rfold_invariant [where P = "config_keeps s", OF assms(1)])
  fix c u v assume "c \<in> set calls" and u: "config_keeps s u" and "f (fst c) (snd c) u = Inr v"
  then have "config_keeps u v" using keeps [OF ok] by blast
  with u show "config_keeps s v" by (rule config_keeps_trans)
qed simp

end

lemma update_config_keeps:
  assumes "dict_ok user" and "sec \<noteq> plugin_section"
  shows "config_keeps s (update_config sec a user s)"
  using update_config_schema [OF assms(1)] update_config_other [OF assms(1)] assms(2) by (metis config_keeps_def)

lemma update_config_log_keeps:
  assumes "dict_ok user" and "sec \<noteq> plugin_section"
  shows "config_keeps s (update_config sec a user (log_msg m s))"
  using update_config_keeps [OF assms, of "log_msg m s" a] by (simp add: config_keeps_def same_schema_def)

lemmas config_schema = update_config_keeps update_config_log_keeps

interpretation cfg_cc_test: config_function cc_test_config
  by unfold_locales
     (auto simp: cc_test_config_def rbind_eq_Inr config_schema plugin_section_def split: pyval.splits if_splits)

interpretation cfg_global: config_function global_config
  by unfold_locales (auto simp: global_config_def rbind_eq_Inr config_schema plugin_section_def)

interpretation cfg_proto: config_function proto_library_config
  by unfold_locales (auto simp: proto_library_config_def Let_def config_schema plugin_section_def split: if_splits)

interpretation cfg_cc: config_function cc_config
  by unfold_locales
     (auto simp: cc_config_def config_schema plugin_section_def split: option.splits pyval.splits if_splits)

interpretation cfg_binary: config_function cc_binary_config
  by unfold_locales (auto simp: cc_binary_config_def config_schema plugin_section_def)

lemma simple_config_function:
  "sec \<noteq> plugin_section \<Longrightarrow> config_function (\<lambda>a kwargs s. Inr (update_config sec a kwargs s))"
  by unfold_locales (auto simp: config_schema)

lemmas simple_config_defs =
  cc_library_config_def distcc_config_def link_config_def java_config_def
  java_binary_config_def java_test_config_def scala_config_def scala_test_config_def go_config_def
  thrift_library_config_def fbthrift_library_config_def

lemma config_functions_keep:
  "list_all (\<lambda>c. fst c \<noteq> ''protoc_plugin'' \<longrightarrow> config_function (snd c)) config_functions"
  unfolding config_functions_def simple_config_defs [abs_def]
  by (simp add: cfg_cc_test.config_function_axioms cfg_global.config_function_axioms cfg_binary.config_function_axioms
        cfg_proto.config_function_axioms cfg_cc.config_function_axioms simple_config_function plugin_section_def)

text \<open>
  What a call may do: the shape of every other section is kept, and an item of the section of the plug-ins
  changes only to the object of a plug-in of that name.
\<close>

definition schema_kept :: "config_call list \<Rightarrow> config_state \<Rightarrow> config_state \<Rightarrow> bool" where
  "schema_kept calls s s' \<longleftrightarrow>
     (\<forall>sec. dget (c_configs s) sec = None \<longleftrightarrow> dget (c_configs s') sec = None) \<and>
     (\<forall>sec k. sec \<noteq> plugin_section \<longrightarrow> rel_option (\<lambda>v v'. is_list v \<longrightarrow> is_list v') (item s sec k) (item s' sec k)) \<and>
     (\<forall>k. item s' plugin_section k = item s plugin_section k \<or>
        (\<exists>c \<in> set calls. \<exists>p. cc_name c = ''protoc_plugin'' \<and> new_protoc_plugin (cc_kwargs c) = Inr p \<and> pp_name p = k \<and>
           item s' plugin_section k = Some (plugin_object p)))"

lemma schema_kept_refl [simp]: "schema_kept calls s s"
  by (simp add: schema_kept_def option.rel_refl)

lemma schema_kept_trans:
  assumes ab: "schema_kept calls a b" and bc: "schema_kept calls b c"
  shows "schema_kept calls a c"
  unfolding schema_kept_def
proof (intro conjI allI impI)
  show "dget (c_configs a) sec = None \<longleftrightarrow> dget (c_configs c) sec = None" for sec
    using assms unfolding schema_kept_def by metis
  show "rel_option (\<lambda>v v'. is_list v \<longrightarrow> is_list v') (item a sec k) (item c sec k)" if "sec \<noteq> plugin_section" for sec k
    using assms that rel_list_trans [of "item a sec k" "item b sec k" "item c sec k"] unfolding schema_kept_def by blast
  show "item c plugin_section k = item a plugin_section k \<or>
      (\<exists>d \<in> set calls. \<exists>p. cc_name d = ''protoc_plugin'' \<and> new_protoc_plugin (cc_kwargs d) = Inr p \<and> pp_name p = k \<and>
         item c plugin_section k = Some (plugin_object p))" for k
    using assms unfolding schema_kept_def by metis
qed

lemma protoc_plugin_keeps:
  assumes "protoc_plugin (cc_append c) (cc_kwargs c) s = Inr s'" and "c \<in> set calls" and "cc_name c = ''protoc_plugin''"
  shows "schema_kept calls s s'"
proof -
  obtain p where p: "new_protoc_plugin (cc_kwargs c) = Inr p" and s': "s' = put_item plugin_section (pp_name p) (plugin_object p) s"
    and sec: "dget (c_configs s) plugin_section \<noteq> None"
    using assms(1) by (auto simp: protoc_plugin_def get_config_def rbind_eq_Inr split: if_splits)
  show ?thesis
    unfolding schema_kept_def s' item_put section_put using sec p assms(2,3) by (auto simp: option.rel_refl)
qed

lemma config_call_keeps:
  assumes "config_call c s = Inr s'" and "dict_ok (cc_kwargs c)" and "c \<in> set calls"
  shows "schema_kept calls s s'"
proof -
  obtain f where f: "map_of config_functions (cc_name c) = Some f" and s': "f (cc_append c) (cc_kwargs c) s = Inr s'"
    using assms(1) by (auto simp: config_call_def split: option.splits)
  show ?thesis
  proof (cases "cc_name c = ''protoc_plugin''")
    case True
    then have "f = protoc_plugin" using f by (simp add: config_functions_def)
    with s' show ?thesis using protoc_plugin_keeps [OF _ assms(3) True] by simp
  next
    case False
    then have "config_function f"
      using config_functions_keep map_of_SomeD [OF f] by (auto simp: list_all_iff)
    then have "config_keeps s s'" using config_function.keeps assms(2) s' by blast
    then show ?thesis by (auto simp: config_keeps_def same_schema_def schema_kept_def)
  qed
qed

section \<open>Properties\<close>

text \<open>
  C39. A configuration file can change the values of the configuration but not its shape: after a
  file that was executed without an error, the sections are the same as before, the items of every section
  but that of the protobuf plug-ins are the same, an item that was a list is still a list, and no file is
  current any more. In the section of the plug-ins an item is as before, or it is the plug-in that a call
  of \<open>protoc_plugin\<close> in the file has constructed under this name.
\<close>

theorem config_file_keeps_schema:
  assumes run: "try_parse_file filename (Some (config_file calls)) s = Inr s'"
    and ok: "\<And>c. c \<in> set calls \<Longrightarrow> dict_ok (cc_kwargs c)"
  shows "schema_kept calls s s' \<and> c_file s' = []"
proof -
  obtain t where t: "rfold config_call calls (s\<lparr>c_file := filename\<rparr>) = Inr t" and s': "s' = t\<lparr>c_file := []\<rparr>"
    using run by (auto simp: try_parse_file_def config_file_def split: sum.splits py_error.splits)
  have "schema_kept calls (s\<lparr>c_file := filename\<rparr>) t"
  proof (rule rfold_invariant [OF t])
    fix c u v assume c: "c \<in> set calls" and u: "schema_kept calls (s\<lparr>c_file := filename\<rparr>) u" and "config_call c u = Inr v"
    then have "schema_kept calls u v" using config_call_keeps ok by blast
    with u show "schema_kept calls (s\<lparr>c_file := filename\<rparr>) v" by (rule schema_kept_trans)
  qed simp
  then show ?thesis by (simp add: s' schema_kept_def item_def)
qed

text \<open>
  C40. The value of every item after an update of a known section: a keyword argument replaces the
  value (as a list when the item is a list), also when the same item is in the appended items,
  whose values are lost then; otherwise appended values are added at the end of a list item; all
  other items, and all other sections, are left as they are.
\<close>

theorem update_config_values:
  assumes "dict_ok user" and "dict_ok appended" and sec: "dgetd (c_configs s) sec [] \<noteq> []"
  shows "item (update_config sec (PyDict appended) user s) sec' k =
    (if sec' \<noteq> sec then item s sec' k else
     case item s sec k of
       None \<Rightarrow> None
     | Some old \<Rightarrow> Some (
         case dget user k of
           Some v \<Rightarrow> if is_list old then PyList (var_to_list v) else v
         | None \<Rightarrow>
             (case (old, dget appended k) of
                (PyList xs, Some v) \<Rightarrow> PyList (xs @ var_to_list v) | _ \<Rightarrow> old)))"
proof -
  let ?s1 = "fold (append_item sec) appended s"
  have upd: "update_config sec (PyDict appended) user s = replace_config sec user ?s1"
    using sec by (cases appended) (simp_all add: update_config_def append_config_def)
  have other: "sec' \<noteq> sec \<Longrightarrow> item ?s1 sec' k = item s sec' k" by (simp add: fold_append_other)
  show ?thesis
    by (cases "item s sec k"; cases "dget appended k"; cases "dget user k")
       (auto simp: upd replace_config_item [OF assms(1)] fold_append_item [OF assms(2)] other normalised_def
          split: pyval.splits)
qed

text \<open>The witnesses run the defaults through a small configuration file.\<close>

definition sample_calls :: "config_call list" where
  "sample_calls =
     [\<lparr>cc_name = ''global_config'', cc_append = PyNone,
       cc_kwargs = [(''debug_info_level'', pstr ''high''), (''no_such_item'', pstr ''x'')]\<rparr>,
      \<lparr>cc_name = ''cc_config'', cc_append = PyDict [(''optimize'', pstr ''-Os'')],
       cc_kwargs = [(''extra_incs'', pstr ''a b'')]\<rparr>,
      \<lparr>cc_name = ''protoc_plugin'', cc_append = PyNone,
       cc_kwargs = [(''name'', pstr ''p''), (''path'', pstr ''bin/p''),
         (''code_generation'', PyDict [(''cpp'', PyDict [(''deps'', pstr ''//lib:p'')])])]\<rparr>]"

theorem config_file_keeps_schema_witness:
  "\<exists>s'. try_parse_file ''BLADE_ROOT'' (Some (config_file sample_calls)) init_config = Inr s' \<and>
     schema_kept sample_calls init_config s' \<and> c_file s' = []"
proof -
  have "case try_parse_file ''BLADE_ROOT'' (Some (config_file sample_calls)) init_config of
    Inl _ \<Rightarrow> False | Inr _ \<Rightarrow> True" by code_simp
  then obtain s' where "try_parse_file ''BLADE_ROOT'' (Some (config_file sample_calls)) init_config = Inr s'"
    by (auto split: sum.splits)
  moreover have "c \<in> set sample_calls \<Longrightarrow> dict_ok (cc_kwargs c)" for c
    by (auto simp: sample_calls_def dict_ok_def)
  ultimately show ?thesis using config_file_keeps_schema by blast
qed

theorem update_config_values_witness:
  "item (update_config ''cc_library_config'' (PyDict [(''arflags'', pstr ''-D'')])
       [(''ranlibflags'', pstr ''-t'')] init_config) ''cc_library_config'' ''arflags'' = Some (pstrs [''rcs'', ''-D''])"
proof -
  have "item init_config ''cc_library_config'' ''arflags'' = Some (pstrs [''rcs''])"
    and "dgetd (c_configs init_config) ''cc_library_config'' [] \<noteq> []" by code_simp+
  then show ?thesis
    using update_config_values [of "[(''ranlibflags'', pstr ''-t'')]" "[(''arflags'', pstr ''-D'')]" init_config
        "''cc_library_config''" "''cc_library_config''" "''arflags''"]
    by (simp add: dict_ok_def var_to_list_def)
qed

end
