(* ===== verification/Blade_State.thy ===== *)
theory Blade_State
  imports Dep_Generation Config
begin

text \<open>
  The state of the manager object \<open>Blade\<close> (\<open>src/blade/blade.py\<close>), which the target objects and the
  loader share: where the source tree is, what was asked for on the command line, the target
  database and what the phases of a build leave behind. Two globals of other modules belong
  to the same process state and are kept beside it: the map from source files to targets
  (a class attribute of \<open>Target\<close>) and the configuration. The command line options are an
  \<open>argparse\<close> name space, a dictionary of attributes.
\<close>

type_synonym options = "(string, pyval) dict"

record blade =
  b_command_targets :: "string list"
  b_blade_path :: string
  b_working_dir :: string
  b_build_path :: string
  b_root_dir :: string
  b_options :: options
  b_command :: string
  b_current_source_path :: string
  b_direct_targets :: "key list"
  b_all_command_targets :: "key list"
  b_target_database :: database
  b_build_targets :: "key list"
  b_sorted_targets_keys :: "key list"
  b_depended_targets :: succs
  b_targets_expanded :: bool
  b_svn_root_dirs :: "string list"
  b_src_target_map :: "(string, string \<times> bool) dict"
  b_config :: config_state

text \<open>\<open>Blade.__init__\<close>; the two globals are passed on.\<close>

definition blade_init ::
  "string list \<Rightarrow> string \<Rightarrow> string \<Rightarrow> string \<Rightarrow> string \<Rightarrow> options \<Rightarrow> string \<Rightarrow>
   (string, string \<times> bool) dict \<Rightarrow> config_state \<Rightarrow> blade" where
  "blade_init command_targets blade_path working_dir build_path blade_root_dir blade_options command src_map config =
     \<lparr>b_command_targets = command_targets, b_blade_path = blade_path, b_working_dir = working_dir,
      b_build_path = build_path, b_root_dir = blade_root_dir, b_options = blade_options,
      b_command = command, b_current_source_path = blade_root_dir, b_direct_targets = [],
      b_all_command_targets = [], b_target_database = [], b_build_targets = [],
      b_sorted_targets_keys = [], b_depended_targets = [], b_targets_expanded = False, b_svn_root_dirs = [],
      b_src_target_map = src_map, b_config = config\<rparr>"

text \<open>\<open>options.name\<close> and \<open>getattr(options, name, default)\<close>.\<close>

definition opt :: "blade \<Rightarrow> string \<Rightarrow> pyval result" where
  "opt b name = (case dget (b_options b) name of None \<Rightarrow> Inl (AttributeError name) | Some v \<Rightarrow> Inr v)"

definition opt_default :: "blade \<Rightarrow> string \<Rightarrow> pyval \<Rightarrow> pyval" where
  "opt_default b name v = dgetd (b_options b) name v"

definition say :: "message \<Rightarrow> blade \<Rightarrow> blade" where
  "say m b = b\<lparr>b_config := log_msg m (b_config b)\<rparr>"

text \<open>\<open>configparse.blade_config.get_config(section)[item]\<close>\<close>

definition config_value :: "blade \<Rightarrow> string \<Rightarrow> string \<Rightarrow> pyval result" where
  "config_value b section_name name = rbind (get_config (b_config b) section_name) (\<lambda>c. dindex c name)"

definition set_current_source_path :: "string \<Rightarrow> blade \<Rightarrow> blade" where
  "set_current_source_path path b = b\<lparr>b_current_source_path := path\<rparr>"

definition register_target :: "target \<Rightarrow> blade \<Rightarrow> blade result" where
  "register_target t b =
     (if t_key t \<in> set (dkeys (b_target_database b))
      then Inl (SystemExit (''Target '' @ t_name t @ '' is duplicate in //'' @ t_path t @ ''/BUILD''))
      else Inr (b\<lparr>b_target_database := dset (t_key t) t (b_target_database b)\<rparr>))"

text \<open>
  Every object of the database is registered under its own key, and there is one object per
  key.
\<close>

definition db_ok :: "database \<Rightarrow> bool" where
  "db_ok db \<longleftrightarrow> dict_ok db \<and> list_all (\<lambda>e. t_key (snd e) = fst e) db"

lemma db_ok_empty [simp]: "db_ok []"
  by (simp add: db_ok_def)

lemma db_ok_dict [simp]: "db_ok db \<Longrightarrow> dict_ok db"
  by (simp add: db_ok_def)

lemma db_ok_key: "db_ok db \<Longrightarrow> dget db k = Some t \<Longrightarrow> t_key t = k"
  using dget_SomeD [of db k t] by (force simp: db_ok_def list_all_iff)

lemma db_ok_dset:
  assumes "db_ok db" and "t_key t = k"
  shows "db_ok (dset k t db)"
proof -
  have "dict_ok (dset k t db)" using assms(1) by simp
  moreover have "t_key (snd e) = fst e" if "e \<in> set (dset k t db)" for e
  proof -
    have "dget (dset k t db) (fst e) = Some (snd e)"
      using that \<open>dict_ok (dset k t db)\<close> dict_ok_dget [of "dset k t db" "fst e" "snd e"] by simp
    then show ?thesis using assms db_ok_key [OF assms(1)] by (auto split: if_splits)
  qed
  ultimately show ?thesis by (simp add: db_ok_def list_all_iff)
qed

text \<open>
  The way the database grows: a registered object stays registered, with its attributes, and the rest
  of the manager is untouched except for the list of messages and the source map.
\<close>

definition grows :: "blade \<Rightarrow> blade \<Rightarrow> bool" where
  "grows b b' \<longleftrightarrow>
     (db_ok (b_target_database b) \<longrightarrow> db_ok (b_target_database b')) \<and>
     map_of (b_target_database b) \<subseteq>\<^sub>m map_of (b_target_database b')"

lemma grows_refl [simp]: "grows b b"
  by (simp add: grows_def)

lemma grows_trans: "grows a b \<Longrightarrow> grows b c \<Longrightarrow> grows a c"
  by (auto simp: grows_def intro: map_le_trans)

lemma grows_dget: "grows b b' \<Longrightarrow> dget (b_target_database b) k = Some t \<Longrightarrow> dget (b_target_database b') k = Some t"
  by (force simp: grows_def map_le_def dom_def)

lemma say_db [simp]: "b_target_database (say m b) = b_target_database b"
  by (simp add: say_def)

lemma register_target_ok:
  assumes "register_target t b = Inr b'"
  shows "dget (b_target_database b) (t_key t) = None"
    and "b' = b\<lparr>b_target_database := dset (t_key t) t (b_target_database b)\<rparr>" and "grows b b'"
proof -
  show new: "dget (b_target_database b) (t_key t) = None"
    and b': "b' = b\<lparr>b_target_database := dset (t_key t) t (b_target_database b)\<rparr>"
    using assms by (auto simp: register_target_def dget_None split: if_splits)
  show "grows b b'"
    using new by (auto simp: b' grows_def db_ok_dset map_le_def dom_def)
qed

end
