(* ===== verification/Target_Ops.thy ===== *)
theory Target_Ops
  imports Blade_State
begin

text \<open>
  The base class of all targets, \<open>src/blade/target.py\<close>: the constructor with its checks, the conversion of
  dependency strings to keys, the registration of system libraries, the table of output
  files and the writing of build statements for the Ninja and Make back ends. An object under
  construction is passed beside the manager's state, because it is not in the database yet.
\<close>

section \<open>Construction\<close>

text \<open>\<open>CcBinary\<close> with its subclass \<open>CcTest\<close>, and \<open>GenRuleTarget\<close>, override the method.\<close>

definition allow_duplicate_source :: "tclass \<Rightarrow> bool" where
  "allow_duplicate_source c = (c \<in> {CcBinaryC, CcTestC, GenRuleC})"

definition new_target :: "tclass \<Rightarrow> string \<Rightarrow> string \<Rightarrow> string list \<Rightarrow> blade \<Rightarrow> target result" where
  "new_target c name target_type srcs b =
     rbind (config_value b ''global_config'' ''test_timeout'') (\<lambda>timeout.
       Inr \<lparr>t_class = c, t_key = (b_current_source_path b, name),
            t_fullname = show_key (b_current_source_path b, name), t_name = name,
            t_path = b_current_source_path b, t_type = target_type, t_srcs = srcs, t_deps = [],
            t_expanded_deps = [], t_visibility = Public, t_env_name = None,
            t_data = [(''test_timeout'', timeout), (''targets'', PyDict []), (''default_target'', PyStr [])],
            t_rules = [], t_gen_headers = None\<rparr>)"

definition check_name :: "target \<Rightarrow> unit result" where
  "check_name t =
     (if slash \<in> set (t_name t)
      then Inl (SystemExit (''//'' @ t_fullname t @ '': Invalid target name, should not contain dir part.''))
      else Inr ())"

text \<open>The message ends with the printed dictionary, which is left out.\<close>

definition check_kwargs :: "(string, pyval) dict \<Rightarrow> target \<Rightarrow> unit result" where
  "check_kwargs kwargs t =
     (if kwargs \<noteq> [] then Inl (SystemExit (''//'' @ t_fullname t @ '': unrecognized options '')) else Inr ())"

text \<open>The first loop of \<open>_check_srcs\<close>: the sources seen so far and the duplicates.\<close>

definition dup_step :: "string \<Rightarrow> string list \<times> string list \<Rightarrow> string list \<times> string list" where
  "dup_step s acc = (case acc of (dups, srcset) \<Rightarrow>
     if s \<in> set srcset then (dups @ [s], srcset) else (dups, s # srcset))"

definition invalid_src_msg :: "target \<Rightarrow> string \<Rightarrow> string" where
  "invalid_src_msg t s =
     t_fullname t @ '' Invalid source file path: '' @ s @
     ''. can only be relative path, and must in current directory or subdirectories.''"

text \<open>One iteration of the second loop, for the source \<open>s\<close>.\<close>

definition check_src :: "pyval \<Rightarrow> target \<Rightarrow> string \<Rightarrow> blade \<Rightarrow> blade result" where
  "check_src action t s b =
     (if str_in ''..'' s \<or> startswith s ''/'' then Inl (SystemExit (invalid_src_msg t s))
      else
        let src = normpath (path_join (t_path t) s);
            me = (t_fullname t, allow_duplicate_source (t_class t));
            claim = b\<lparr>b_src_target_map := dset src me (b_src_target_map b)\<rparr>
        in case dget (b_src_target_map b) src of
             None \<Rightarrow> Inr claim
           | Some existed \<Rightarrow>
               if existed = me then Inr b
               else if snd existed then Inr claim
               else if snd me then Inr b
               else
                 let message = ''Source file '' @ s @ '' belongs to {'' @ fst existed @ '', '' @ fst me @ ''}''
                 in if action = PyStr ''error'' then Inl (SystemExit message)
                    else if action = PyStr ''warning'' then Inr (say (Warn message) b)
                    else Inr b)"

definition check_srcs :: "target \<Rightarrow> blade \<Rightarrow> blade result" where
  "check_srcs t b =
     (if fst (fold dup_step (t_srcs t) ([], [])) \<noteq> []
      then Inl (SystemExit (t_fullname t @ '' Duplicate source file paths: ''))
      else rbind (get_config (b_config b) ''global_config'') (\<lambda>config.
             rfold (check_src (dgetd config ''duplicated_source_action'' PyNone) t) (t_srcs t) b))"

text \<open>
  The constructor up to the point where the dependencies are looked at. For a system library
  this is the whole of \<open>Target.__init__\<close>: it has no dependencies and its visibility is
  \<open>None\<close>, so the remaining loops do nothing.
\<close>

definition begin_target ::
  "tclass \<Rightarrow> string \<Rightarrow> string \<Rightarrow> string list \<Rightarrow> (string, pyval) dict \<Rightarrow> blade \<Rightarrow> (target \<times> blade) result" where
  "begin_target c name target_type srcs kwargs b =
     rbind (new_target c name target_type srcs b) (\<lambda>t.
     rbind (check_name t) (\<lambda>_.
     rbind (check_kwargs kwargs t) (\<lambda>_.
     rbind (check_srcs t b) (\<lambda>b. Inr (t, b)))))"

definition system_library :: "string \<Rightarrow> blade \<Rightarrow> (target \<times> blade) result" where
  "system_library name b =
     (let name = tl name
      in rbind (begin_target SystemLibraryC name ''system_library'' [] [] b) (\<lambda>(t, b).
           Inr (t\<lparr>t_key := (''#'', name), t_fullname := show_key (''#'', name), t_path := ''#''\<rparr>, b)))"

definition add_system_library :: "key \<Rightarrow> string \<Rightarrow> blade \<Rightarrow> blade result" where
  "add_system_library k name b =
     (if k \<in> set (dkeys (b_target_database b)) then Inr b
      else rbind (system_library name b) (\<lambda>(lib, b). register_target lib b))"

definition wrong_format :: "target \<Rightarrow> py_error" where
  "wrong_format t = PyException (''Wrong format in '' @ t_fullname t)"

definition unify_dep :: "target \<Rightarrow> string \<Rightarrow> blade \<Rightarrow> (key \<times> blade) result" where
  "unify_dep t dep b =
     (if dep = [] then Inl IndexError
      else if hd dep = CHR '':'' then Inr ((normpath (t_path t), tl dep), b)
      else if startswith dep ''//'' then
        (case rsplit1 (CHR '':'') (drop 2 dep) of
           None \<Rightarrow> Inl (wrong_format t)
         | Some (path, lib) \<Rightarrow> Inr ((normpath path, lib), b))
      else if startswith dep ''#'' then
        rbind (add_system_library (''#'', tl dep) dep b) (\<lambda>b. Inr ((''#'', tl dep), b))
      else
        (case rsplit1 (CHR '':'') dep of
           None \<Rightarrow> Inl (wrong_format t)
         | Some (path, lib) \<Rightarrow>
             if str_in ''..'' path then Inl (PyException ''Don't use '..' in path'')
             else Inr ((normpath (t_path t @ ''/'' @ path), lib), b)))"

definition add_dep :: "key \<Rightarrow> target \<Rightarrow> target" where
  "add_dep k t = t\<lparr>t_expanded_deps := add_new k (t_expanded_deps t), t_deps := add_new k (t_deps t)\<rparr>"

definition init_target_dep :: "string \<Rightarrow> target \<times> blade \<Rightarrow> (target \<times> blade) result" where
  "init_target_dep d tb =
     (case tb of (t, b) \<Rightarrow> rbind (unify_dep t d b) (\<lambda>(dkey, b). Inr (add_dep dkey t, b)))"

definition init_target_deps :: "string list \<Rightarrow> target \<Rightarrow> blade \<Rightarrow> (target \<times> blade) result" where
  "init_target_deps deps t b = rfold init_target_dep deps (t, b)"

definition check_format :: "target \<Rightarrow> string \<Rightarrow> unit result" where
  "check_format t s =
     (if \<not> (startswith s '':'' \<or> startswith s ''#'' \<or> startswith s ''//'' \<or> startswith s ''./'')
      then Inl (SystemExit (t_fullname t @ '': Invalid '' @ s @ ''.''))
      else if count_list s (CHR '':'') > 1
      then Inl (SystemExit (t_fullname t @ '': Invalid '' @ s @ '', missing ',' between?''))
      else Inr ())"

definition check_deps :: "string list \<Rightarrow> target \<Rightarrow> unit result" where
  "check_deps deps t = rfold (\<lambda>dep _. check_format t dep) deps ()"

definition init_visibility_item :: "pyval \<Rightarrow> target \<times> blade \<Rightarrow> (target \<times> blade) result" where
  "init_visibility_item v tb =
     (case v of
        PyStr s \<Rightarrow>
          (case tb of (t, b) \<Rightarrow>
             rbind (check_format t s) (\<lambda>_.
             rbind (unify_dep t s b) (\<lambda>(k, b).
               Inr (t\<lparr>t_visibility := (case t_visibility t of
                        Public \<Rightarrow> VisibleTo [k] | VisibleTo ks \<Rightarrow> VisibleTo (add_new k ks))\<rparr>, b))))
      | _ \<Rightarrow> Inl (AttributeError ''startswith''))"

definition init_visibility :: "pyval \<Rightarrow> target \<Rightarrow> blade \<Rightarrow> (target \<times> blade) result" where
  "init_visibility visibility t b =
     (if visibility = PyNone then Inr (t, b)
      else if var_to_list visibility = [PyStr ''PUBLIC''] then Inr (t, b)
      else rfold init_visibility_item (var_to_list visibility) (t\<lparr>t_visibility := VisibleTo []\<rparr>, b))"

definition target_init ::
  "tclass \<Rightarrow> string \<Rightarrow> string \<Rightarrow> string list \<Rightarrow> string list \<Rightarrow> pyval \<Rightarrow> (string, pyval) dict \<Rightarrow> blade \<Rightarrow>
   (target \<times> blade) result" where
  "target_init c name target_type srcs deps visibility kwargs b =
     rbind (begin_target c name target_type srcs kwargs b) (\<lambda>(t, b).
     rbind (check_deps deps t) (\<lambda>_.
     rbind (init_target_deps deps t b) (\<lambda>(t, b).
       init_visibility visibility t b)))"

section \<open>Dependencies added later\<close>

definition convert_string_to_target_helper :: "string \<Rightarrow> key result" where
  "convert_string_to_target_helper target_string =
     (let invalid = Inl (SystemExit (''invalid target lib format: '' @ target_string @
                       '', should be #lib_name or lib_path:lib_name''))
      in if target_string \<noteq> [] then
           if startswith target_string ''#'' then Inr (''#'', tl target_string)
           else if CHR '':'' \<in> set target_string then
             rbind (unpack2 (split_on (CHR '':'') target_string)) (\<lambda>(path, name).
               let path = strip path
               in Inr (if startswith path ''//'' then drop 2 path else path, strip name))
           else invalid
         else invalid)"

definition add_hardcode_dep :: "string \<Rightarrow> target \<times> blade \<Rightarrow> (target \<times> blade) result" where
  "add_hardcode_dep dep tb =
     (case tb of (t, b) \<Rightarrow>
        rbind (convert_string_to_target_helper dep) (\<lambda>dkey.
        rbind (if fst dkey = ''#'' then add_system_library dkey dep b else Inr b) (\<lambda>b.
          Inr (t\<lparr>t_expanded_deps := add_new dkey (t_expanded_deps t)\<rparr>, b))))"

definition add_hardcode_library :: "string list \<Rightarrow> target \<Rightarrow> blade \<Rightarrow> (target \<times> blade) result" where
  "add_hardcode_library hardcode_dep_list t b = rfold add_hardcode_dep hardcode_dep_list (t, b)"

text \<open>
  A location reference: the two groups of the match object, the second \<open>None\<close> when it did
  not take part in the match.
\<close>

definition add_location_reference_target ::
  "(string \<times> string option) option \<Rightarrow> target \<Rightarrow> blade \<Rightarrow> ((key \<times> string) option \<times> target \<times> blade) result" where
  "add_location_reference_target m t b =
     (case m of
        None \<Rightarrow> Inr (None, t, b)
      | Some (ref, type) \<Rightarrow>
          rbind (unify_dep t ref b) (\<lambda>(k, b).
            Inr (Some (k, strip (case type of None \<Rightarrow> [] | Some s \<Rightarrow> s)), add_dep k t, b)))"

section \<open>Names and paths\<close>

definition generate_variable_name :: "string \<Rightarrow> string \<Rightarrow> string \<Rightarrow> string" where
  "generate_variable_name path name sfx =
     ''v_'' @ regular_variable_name path @ ''_mAgIc_'' @ regular_variable_name name @
     (if sfx \<noteq> [] then ''_suFFix_'' @ sfx else [])"

definition env_name :: "target \<Rightarrow> string \<times> target" where
  "env_name t =
     (case t_env_name t of
        Some n \<Rightarrow> (n, t)
      | None \<Rightarrow> let n = ''env_'' @ generate_variable_name (t_path t) (t_name t) [] in (n, t\<lparr>t_env_name := Some n\<rparr>))"

definition var_name :: "target \<Rightarrow> string \<Rightarrow> string" where
  "var_name t sfx = generate_variable_name (t_path t) (t_name t) sfx"

definition var_name_of :: "target \<Rightarrow> string \<Rightarrow> string \<Rightarrow> string" where
  "var_name_of t name sfx = generate_variable_name (t_path t) name sfx"

definition source_file_path :: "target \<Rightarrow> string \<Rightarrow> string" where
  "source_file_path t name = normpath (path_join (t_path t) name)"

definition target_file_path :: "blade \<Rightarrow> target \<Rightarrow> string \<Rightarrow> string" where
  "target_file_path b t name = path_join3 (b_build_path b) (t_path t) (if name = [] then t_name t else name)"

section \<open>Output files\<close>

text \<open>
  \<open>data['targets']\<close> and \<open>data['default_target']\<close>: the constructor stores a dictionary and
  a string there. Another value can only come from a subclass that overwrites the entry.
\<close>

definition targets_dict :: "target \<Rightarrow> (string, pyval) dict result" where
  "targets_dict t =
     rbind (dindex (t_data t) ''targets'') (\<lambda>v. case v of PyDict d \<Rightarrow> Inr d | _ \<Rightarrow> Inl TypeError)"

definition add_target_file :: "string \<Rightarrow> pyval \<Rightarrow> target \<Rightarrow> target result" where
  "add_target_file label path t =
     rbind (targets_dict t) (\<lambda>d.
     rbind (dindex (t_data t) ''default_target'') (\<lambda>def.
       let t = set_data ''targets'' (PyDict (dset label path d)) t
       in Inr (if \<not> truthy def then set_data ''default_target'' path t else t)))"

definition add_default_target_file :: "string \<Rightarrow> pyval \<Rightarrow> target \<Rightarrow> target result" where
  "add_default_target_file label path t = add_target_file label path (set_data ''default_target'' path t)"

definition get_target_file :: "target \<Rightarrow> string \<Rightarrow> pyval result" where
  "get_target_file t label =
     (if label \<noteq> [] then rbind (targets_dict t) (\<lambda>d. Inr (dgetd d label (PyStr [])))
      else dindex (t_data t) ''default_target'')"

definition get_target_files :: "target \<Rightarrow> pyval list result" where
  "get_target_files t = rbind (targets_dict t) (\<lambda>d. Inr (map snd d))"

text \<open>The same operations under the names the SCons back end uses.\<close>

definition add_target_var :: "string \<Rightarrow> pyval \<Rightarrow> target \<Rightarrow> target result" where
  "add_target_var target_type scons_var t =
     rbind (targets_dict t) (\<lambda>d.
     rbind (dindex (t_data t) ''default_target'') (\<lambda>def.
       let t = set_data ''targets'' (PyDict (dset target_type scons_var d)) t
       in Inr (if \<not> truthy def then set_data ''default_target'' scons_var t else t)))"

definition add_default_target_var :: "string \<Rightarrow> pyval \<Rightarrow> target \<Rightarrow> target result" where
  "add_default_target_var target_type scons_var t =
     add_target_var target_type scons_var (set_data ''default_target'' scons_var t)"

definition get_target_var :: "target \<Rightarrow> string \<Rightarrow> pyval result" where
  "get_target_var t target_type =
     (if target_type \<noteq> [] then rbind (targets_dict t) (\<lambda>d. Inr (dgetd d target_type (PyStr [])))
      else dindex (t_data t) ''default_target'')"

definition get_target_vars :: "target \<Rightarrow> pyval list result" where
  "get_target_vars t = rbind (targets_dict t) (\<lambda>d. Inr (map snd d))"

section \<open>Frames\<close>

text \<open>
  What the constructor leaves alone: the manager's attributes other than the database, and the values
  of the configuration.
\<close>

definition same_setting :: "blade \<Rightarrow> blade \<Rightarrow> bool" where
  "same_setting b b' \<longleftrightarrow>
     b_current_source_path b' = b_current_source_path b \<and> b_root_dir b' = b_root_dir b \<and>
     b_build_path b' = b_build_path b \<and> b_options b' = b_options b \<and>
     c_configs (b_config b') = c_configs (b_config b)"

definition extends :: "blade \<Rightarrow> blade \<Rightarrow> bool" where
  "extends b b' \<longleftrightarrow> grows b b' \<and> same_setting b b'"

lemma extends_refl [simp]: "extends b b"
  by (simp add: extends_def same_setting_def)

lemma extends_trans: "extends a b \<Longrightarrow> extends b c \<Longrightarrow> extends a c"
  unfolding extends_def same_setting_def by (auto intro: grows_trans)

lemma extends_config [simp]:
  "extends b b' \<Longrightarrow> get_config (b_config b') = get_config (b_config b)"
  by (simp add: extends_def same_setting_def get_config_def fun_eq_iff)

lemma say_extends [simp]: "extends b (say m b)"
  by (simp add: extends_def grows_def same_setting_def say_def)

lemma claim_extends [simp]: "extends b (b\<lparr>b_src_target_map := m\<rparr>)"
  by (simp add: extends_def grows_def same_setting_def)

lemma register_extends: "register_target t b = Inr b' \<Longrightarrow> extends b b'"
  using register_target_ok [of t b b'] by (simp add: extends_def same_setting_def)

lemma check_src_extends: "check_src action t s b = Inr b' \<Longrightarrow> extends b b'"
  by (auto simp: check_src_def Let_def split: if_splits option.splits)

lemma check_srcs_extends: "check_srcs t b = Inr b' \<Longrightarrow> extends b b'"
proof -
  assume "check_srcs t b = Inr b'"
  then obtain action where "rfold (check_src action t) (t_srcs t) b = Inr b'"
    by (auto simp: check_srcs_def rbind_eq_Inr split: if_splits)
  then show ?thesis
    by (rule rfold_invariant) (auto intro: extends_trans check_src_extends)
qed

lemma begin_target_ok:
  assumes "begin_target c name ty srcs kwargs b = Inr (t, b')"
  shows "new_target c name ty srcs b = Inr t" and "check_srcs t b = Inr b'" and "kwargs = []"
    and "slash \<notin> set name" and "extends b b'"
  using assms
  by (auto simp: begin_target_def rbind_eq_Inr new_target_def check_name_def check_kwargs_def
      intro: check_srcs_extends split: if_splits)

lemma system_library_ok:
  assumes "system_library name b = Inr (t, b')"
  shows "t_key t = (''#'', tl name)" and "extends b b'"
  using assms by (auto simp: system_library_def Let_def rbind_eq_Inr dest: begin_target_ok)

lemma add_system_library_ok:
  assumes "add_system_library (''#'', tl name) name b = Inr b'"
  shows "extends b b'" and "(''#'', tl name) \<in> set (dkeys (b_target_database b'))"
proof -
  let ?k = "(''#'', tl name)"
  have "extends b b' \<and> ?k \<in> set (dkeys (b_target_database b'))"
  proof (cases "?k \<in> set (dkeys (b_target_database b))")
    case True
    then show ?thesis using assms by (simp add: add_system_library_def)
  next
    case False
    then obtain lib b1 where lib: "system_library name b = Inr (lib, b1)" and reg: "register_target lib b1 = Inr b'"
      using assms by (auto simp: add_system_library_def rbind_eq_Inr)
    have "extends b b'"
      using extends_trans [OF system_library_ok(2) [OF lib] register_extends [OF reg]] .
    then show ?thesis
      using register_target_ok(2) [OF reg] system_library_ok(1) [OF lib] by (simp add: dkeys_dset)
  qed
  then show "extends b b'" and "?k \<in> set (dkeys (b_target_database b'))" by simp_all
qed

section \<open>The meaning of a dependency string\<close>

text \<open>The key a dependency string of a target in directory \<open>path\<close> stands for.\<close>

definition dep_key :: "string \<Rightarrow> string \<Rightarrow> key option" where
  "dep_key path dep =
     (if dep = [] then None
      else if hd dep = CHR '':'' then Some (normpath path, tl dep)
      else if startswith dep ''//'' then
        map_option (\<lambda>(p, lib). (normpath p, lib)) (rsplit1 (CHR '':'') (drop 2 dep))
      else if startswith dep ''#'' then Some (''#'', tl dep)
      else
        (case rsplit1 (CHR '':'') dep of
           Some (p, lib) \<Rightarrow> if str_in ''..'' p then None else Some (normpath (path @ ''/'' @ p), lib)
         | None \<Rightarrow> None))"

lemma unify_dep_ok:
  assumes "unify_dep t d b = Inr (k, b')"
  shows "dep_key (t_path t) d = Some k" and "extends b b'"
  using assms
  by (auto simp: unify_dep_def dep_key_def rbind_eq_Inr
      dest: add_system_library_ok split: if_splits option.splits)

lemma unify_dep_system:
  assumes "unify_dep t d b = Inr (k, b')" and "startswith d ''#''"
  shows "k = (''#'', tl d)" and "k \<in> set (dkeys (b_target_database b'))"
proof -
  obtain r where d: "d = CHR ''#'' # r" using assms(2) by (auto simp: startswith_iff)
  show "k = (''#'', tl d)" and "k \<in> set (dkeys (b_target_database b'))"
    using assms add_system_library_ok(2) [of d b b']
    by (auto simp: unify_dep_def rbind_eq_Inr d startswith_iff)
qed

lemma fold_add_new: "fold add_new ks acc = acc @ stable_unique_from acc ks"
proof (induction ks arbitrary: acc)
  case (Cons k ks)
  have "stable_unique_from (k # acc) ks = stable_unique_from (acc @ [k]) ks"
    by (rule stable_unique_from_cong) auto
  then show ?case using Cons.IH by (simp add: add_new_def)
qed simp

end
