(* ===== verification/Loader.thy ===== *)
theory Loader
  imports Target_Ops
begin

text \<open>
  The loading of \<open>BUILD\<close> files, \<open>src/blade/load_build_files.py\<close>: starting from the targets of the
  command line, the \<open>BUILD\<close> file of the directory of every target that is needed is
  executed once, until the dependencies of all needed targets are loaded.

  A \<open>BUILD\<close> file is a Python program, and the file system is outside the program: they
  are the parameters of the model, collected in the record \<open>tree\<close>.
\<close>

section \<open>Definitions\<close>

text \<open>A directory with the names of its files, as \<open>os.walk\<close> lists it.\<close>

datatype directory = Directory (subdirs: "(string \<times> directory) list") (files: "string list")

record tree =
  tr_exists :: "string \<Rightarrow> bool"
  tr_isdir :: "string \<Rightarrow> bool"
  tr_walk :: "string \<Rightarrow> directory option"
  tr_program :: "string \<Rightarrow> blade \<Rightarrow> blade result"

text \<open>The first target of the database that satisfies a condition on its dependencies.\<close>

definition find_depending :: "(key list \<Rightarrow> bool) \<Rightarrow> blade \<Rightarrow> string option" where
  "find_depending P b =
     map_option (\<lambda>e. ''//'' @ t_fullname (snd e))
       (find (\<lambda>e. P (t_expanded_deps (snd e))) (b_target_database b))"

definition find_dir_depender :: "string \<Rightarrow> blade \<Rightarrow> string option" where
  "find_dir_depender dir b = find_depending (\<lambda>deps. list_ex (\<lambda>dkey. fst dkey = dir) deps) b"

definition report_not_exist :: "string \<Rightarrow> string \<Rightarrow> blade \<Rightarrow> py_error" where
  "report_not_exist source_dir path b =
     (case find_dir_depender source_dir b of
        Some depender \<Rightarrow> SystemExit (''//'' @ path @ '' not found, required by '' @ depender)
      | None \<Rightarrow> SystemExit (''//'' @ path @ '' not found''))"

definition enable_if :: "bool \<Rightarrow> pyval \<Rightarrow> pyval \<Rightarrow> pyval" where
  "enable_if cond true_value false_value =
     (let ret = (if cond then true_value else false_value) in if ret = PyNone then PyList [] else ret)"

text \<open>
  \<open>glob\<close>: \<open>glob_dir pattern\<close> lists the paths below the current directory that match a pattern,
  each with its text relative to the directory, its last component and whether it is a
  file; \<open>matches path pattern\<close> is the method \<open>match\<close> of a path.
\<close>

definition is_special :: "string \<Rightarrow> bool" where
  "is_special pattern = (CHR ''*'' \<in> set pattern \<or> CHR ''?'' \<in> set pattern \<or> CHR ''['' \<in> set pattern)"

definition glob_includes :: "(string \<Rightarrow> (string \<times> string \<times> bool) list) \<Rightarrow> string list \<Rightarrow> string list" where
  "glob_includes glob_dir srcs =
     concat (map (\<lambda>pattern. map fst (filter (\<lambda>p. snd (snd p) \<and> \<not> startswith (fst (snd p)) ''.'') (glob_dir pattern))) srcs)"

definition glob_excluded :: "(string \<Rightarrow> string \<Rightarrow> bool) \<Rightarrow> string list \<Rightarrow> string \<Rightarrow> bool" where
  "glob_excluded matches excludes path =
     (path \<in> set (filter (\<lambda>p. \<not> is_special p) excludes) \<or>
      list_ex (\<lambda>pattern. matches path pattern) (filter is_special excludes))"

definition glob ::
  "(string \<Rightarrow> (string \<times> string \<times> bool) list) \<Rightarrow> (string \<Rightarrow> string \<Rightarrow> bool) \<Rightarrow> string list \<Rightarrow> string list \<Rightarrow> string list" where
  "glob glob_dir matches srcs excludes =
     sort (remdups (filter (\<lambda>p. \<not> glob_excluded matches excludes p) (glob_includes glob_dir srcs)))"

text \<open>\<open>include\<close>: which definition file is executed in the globals of the \<open>BUILD\<close> file.\<close>

definition include_path :: "string \<Rightarrow> blade \<Rightarrow> string" where
  "include_path name b =
     (if startswith name ''//'' then path_join (b_root_dir b) (drop 2 name)
      else path_join (b_current_source_path b) name)"

definition load_build_file :: "tree \<Rightarrow> string \<Rightarrow> string list \<times> blade \<Rightarrow> (string list \<times> blade) result" where
  "load_build_file tr source_dir pb =
     (case pb of (processed, b) \<Rightarrow>
      let source_dir = normpath source_dir
      in if source_dir \<in> set processed \<or> source_dir = ''#'' then Inr (processed, b)
         else
           let processed = source_dir # processed
           in if \<not> tr_exists tr source_dir then Inl (report_not_exist source_dir source_dir b)
              else
                let old_current_source_path = b_current_source_path b;
                    b = set_current_source_path source_dir b;
                    build_file = path_join source_dir ''BUILD''
                in if tr_exists tr build_file \<and> \<not> tr_isdir tr build_file then
                     (case tr_program tr build_file b of
                        Inl (SystemExit _) \<Rightarrow> Inl (SystemExit (build_file @ '': fatal error''))
                      | Inl _ \<Rightarrow> Inl (SystemExit (''Parse error in '' @ build_file))
                      | Inr b \<Rightarrow> Inr (processed, set_current_source_path old_current_source_path b))
                   else Inl (report_not_exist source_dir build_file b))"

definition find_depender :: "key \<Rightarrow> blade \<Rightarrow> string option" where
  "find_depender dkey b = find_depending (\<lambda>deps. dkey \<in> set deps) b"

definition is_load_excluded :: "string \<Rightarrow> bool" where
  "is_load_excluded d =
     (startswith d ''.'' \<or>
      list_ex (startswith d) [''build32_debug'', ''build32_release'', ''build64_debug'', ''build64_release''])"

text \<open>The directories with a \<open>BUILD\<close> file that \<open>os.walk\<close> visits from a directory down.\<close>

fun build_dirs :: "string \<Rightarrow> directory \<Rightarrow> string list" where
  "build_dirs top_dir (Directory dirs fs) =
     (if ''BUILD'' \<in> set fs then [top_dir] else []) @
     concat (map (\<lambda>(d, sub). if is_load_excluded d then [] else build_dirs (path_join top_dir d) sub) dirs)"

text \<open>The first loop: the targets cited by name and the directories to load.\<close>

definition parse_target_id ::
  "tree \<Rightarrow> string \<Rightarrow> key list \<times> string list \<Rightarrow> (key list \<times> string list) result" where
  "parse_target_id tr target_id acc =
     (case acc of (cited, source_dirs) \<Rightarrow>
      case rsplit1 (CHR '':'') target_id of
        None \<Rightarrow> Inl ValueError
      | Some (source_dir, target_name) \<Rightarrow>
          if target_name \<noteq> ''*'' \<and> target_name \<noteq> ''...'' then Inr (add_new (source_dir, target_name) cited, source_dirs)
          else if target_name = ''...'' then
            Inr (cited, source_dirs @
                   (case tr_walk tr source_dir of None \<Rightarrow> [] | Some d \<Rightarrow> build_dirs source_dir d))
          else Inr (cited, source_dirs @ [source_dir]))"

definition str_opt :: "string option \<Rightarrow> string" where
  "str_opt s = (case s of None \<Rightarrow> ''None'' | Some t \<Rightarrow> t)"

definition no_target_msg :: "key \<Rightarrow> blade \<Rightarrow> string" where
  "no_target_msg k b = str_opt (find_depender k b) @ '': target //'' @ show_key k @ '' does not exist''"

text \<open>
  The work list. Which element \<open>set.pop\<close> takes is not specified: it is the parameter
  \<open>pick\<close>. The loop may not end (value \<open>None\<close>), because the directories are not bounded.
\<close>

type_synonym load_state = "key list \<times> string list \<times> blade"

partial_function (option) load_loop ::
  "(key list \<Rightarrow> key) \<Rightarrow> tree \<Rightarrow> key list \<Rightarrow> key list \<Rightarrow> string list \<Rightarrow> blade \<Rightarrow> load_state result option" where
  "load_loop pick tr cited related processed b =
     (if cited = [] then Some (Inr (related, processed, b))
      else
        let k = pick cited; cited = remove1 k cited
        in if k \<in> set related then load_loop pick tr cited related processed b
           else
             case load_build_file tr (fst k) (processed, b) of
               Inl e \<Rightarrow> Some (Inl e)
             | Inr (processed, b) \<Rightarrow>
                 (case dget (b_target_database b) k of
                    None \<Rightarrow> Some (Inl (SystemExit (no_target_msg k b)))
                  | Some t \<Rightarrow>
                      let related = related @ [k]
                      in load_loop pick tr
                           (fold add_new (filter (\<lambda>d. d \<notin> set related) (t_expanded_deps t)) cited)
                           related processed b))"

declare load_loop.simps [code]

definition add_root_dir :: "key \<Rightarrow> blade \<Rightarrow> blade" where
  "add_root_dir k b =
     (let root_dir = strip (hd (split_on slash (fst k)))
      in if root_dir \<notin> set (b_svn_root_dirs b) \<and> CHR ''#'' \<notin> set root_dir
         then b\<lparr>b_svn_root_dirs := b_svn_root_dirs b @ [root_dir]\<rparr> else b)"

text \<open>
  \<open>load_targets\<close>: the direct targets, all command targets and the keys of the related
  targets, with the manager as loading leaves it.
\<close>

record loaded =
  l_direct :: "key list"
  l_all :: "key list"
  l_related :: "key list"
  l_blade :: blade

definition load_targets :: "(key list \<Rightarrow> key) \<Rightarrow> tree \<Rightarrow> string list \<Rightarrow> blade \<Rightarrow> loaded result option" where
  "load_targets pick tr target_ids b =
     (case rfold (parse_target_id tr) target_ids ([], []) of
        Inl e \<Rightarrow> Some (Inl e)
      | Inr (direct, source_dirs) \<Rightarrow>
          (case rfold (load_build_file tr) source_dirs ([], b) of
             Inl e \<Rightarrow> Some (Inl e)
           | Inr (processed, b) \<Rightarrow>
               let all_command_targets = fold add_new (dkeys (b_target_database b)) direct
               in map_option (\<lambda>r. rbind r (\<lambda>(related, _, b).
                    Inr \<lparr>l_direct = direct, l_all = all_command_targets, l_related = related,
                         l_blade = fold add_root_dir related b\<rparr>))
                    (load_loop pick tr all_command_targets [] processed b)))"

end
