(* ===== verification/Manager.thy ===== *)
theory Manager
  imports Loader
begin

text \<open>
  The manager \<open>Blade\<close>, \<open>src/blade/blade.py\<close>: the phases of a build (loading, analysing, generating rules),
  the queries about the dependency graph and the choice of the number of parallel jobs. The
  dictionary of build targets is the list of its keys; the objects are in the database.
\<close>

section \<open>Loading and analysing\<close>

definition manager_load :: "(key list \<Rightarrow> key) \<Rightarrow> tree \<Rightarrow> blade \<Rightarrow> blade result option" where
  "manager_load pick tr b =
     map_option (\<lambda>r. rbind r (\<lambda>l.
       Inr (say (Info ''loading done.'')
         ((l_blade l)\<lparr>b_direct_targets := l_direct l, b_all_command_targets := l_all l,
                      b_build_targets := l_related l\<rparr>))))
       (load_targets pick tr (b_command_targets b) (say (Info ''loading BUILDs...'') b))"

definition analyze_targets :: "(counts \<Rightarrow> counts) \<Rightarrow> blade \<Rightarrow> blade result" where
  "analyze_targets order b =
     rbind (analyze_deps expand_deps_generation order (b_build_targets b) (b_target_database b)) (\<lambda>(db, ks, depended).
       Inr (say (Info ''analyzing done.'')
         ((say (Info ''analyzing dependency graph...'') b)
            \<lparr>b_target_database := db, b_sorted_targets_keys := ks, b_depended_targets := depended,
             b_targets_expanded := True\<rparr>)))"

section \<open>Queries\<close>

text \<open>An element of the dictionary of build targets.\<close>

definition build_target :: "blade \<Rightarrow> key \<Rightarrow> target result" where
  "build_target b k = dindex (bt_view (b_build_targets b) (b_target_database b)) k"

definition query_keys :: "blade \<Rightarrow> string \<Rightarrow> key list \<Rightarrow> key list result" where
  "query_keys b t query_list =
     rbind (unpack2 (split_on (CHR '':'') t)) (\<lambda>(t_path, name).
       Inr (query_list @
         (if name = ''...'' then filter (\<lambda>tkey. startswith (fst tkey) t_path) (b_build_targets b)
          else if name = ''*'' then filter (\<lambda>tkey. fst tkey = t_path) (b_build_targets b)
          else [(t_path, name)])))"

type_synonym result_map = "(key, key list \<times> key list) dict"

definition query_one :: "blade \<Rightarrow> key \<Rightarrow> result_map \<Rightarrow> result_map result" where
  "query_one b k result_map =
     rbind (build_target b k) (\<lambda>t.
     rbind (dindex (b_depended_targets b) k) (\<lambda>depended_by.
       Inr (dset k (sort (t_expanded_deps t), sort depended_by) result_map)))"

definition query_helper :: "blade \<Rightarrow> string list \<Rightarrow> result_map result" where
  "query_helper b targets =
     rbind (rfold (query_keys b) targets []) (\<lambda>query_list. rfold (query_one b) query_list [])"

text \<open>
  The dependency tree of a target, as the lines that are printed (without the colour
  codes). The first argument bounds the depth of the recursion, as Python's stack does.
\<close>

definition tree_line :: "key \<Rightarrow> nat \<Rightarrow> string" where
  "tree_line k level =
     (if level = 0 then show_key k
      else if level = 1 then ''+- '' @ show_key k
      else concat (replicate (level - 1) ''|  '') @ ''+- '' @ show_key k)"

fun query_tree :: "nat \<Rightarrow> blade \<Rightarrow> key \<Rightarrow> nat \<Rightarrow> string list result" where
  "query_tree 0 b k level = Inl (PyException ''maximum recursion depth exceeded'')"
| "query_tree (Suc depth) b k level =
     rbind (build_target b k) (\<lambda>t.
     rbind (rmap (\<lambda>dkey. query_tree depth b dkey (level + 1)) (t_deps t)) (\<lambda>lines.
       Inr (tree_line k level # concat lines)))"

definition tree_query_key :: "blade \<Rightarrow> string \<Rightarrow> string \<Rightarrow> key result" where
  "tree_query_key b cwd t =
     (if CHR '':'' \<notin> set t
      then Inl (SystemExit (''Target '' @ t @ '' is not supported by dependency tree query. The target should be '' @
                 ''in the format directory:name.''))
      else
        rbind (unpack2 (split_on (CHR '':'') t)) (\<lambda>(path, name).
        rbind (relpath cwd (b_working_dir b) (b_root_dir b)) (\<lambda>rel.
          Inr (normpath (path_join rel path), name))))"

definition query_dependency_tree :: "nat \<Rightarrow> string \<Rightarrow> blade \<Rightarrow> string list \<Rightarrow> string list result" where
  "query_dependency_tree depth cwd b targets =
     rbind (rmap (tree_query_key b cwd) targets) (\<lambda>keys.
     rbind (rmap (\<lambda>k. query_tree depth b k 0) keys) (\<lambda>lines.
       Inr (concat (map (\<lambda>ls. [] # ls @ [[]]) lines))))"

text \<open>The graph in the input language of \<open>dot\<close>, as the lines of the file.\<close>

definition quoted_key :: "key \<Rightarrow> string" where
  "quoted_key k = [CHR 0x22] @ show_key k @ [CHR 0x22]"

definition print_dot_node :: "key \<Rightarrow> string" where
  "print_dot_node node = quoted_key node @ '' [label = '' @ quoted_key node @ '']''"

definition print_dot_deps :: "blade \<Rightarrow> key list \<Rightarrow> key \<Rightarrow> string list result" where
  "print_dot_deps b target_set node =
     rbind (build_target b node) (\<lambda>t.
       Inr (map (\<lambda>i. quoted_key node @ '' -> '' @ quoted_key i) (filter (\<lambda>i. i \<in> set target_set) (t_deps t))))"

text \<open>\<open>print_mode\<close> 0 selects the dependencies of an entry, 1 the dependents.\<close>

definition mode_keys :: "nat \<Rightarrow> key list \<times> key list \<Rightarrow> key list" where
  "mode_keys print_mode e = (if print_mode = 0 then fst e else snd e)"

definition output_dot :: "blade \<Rightarrow> result_map \<Rightarrow> nat \<Rightarrow> string list result" where
  "output_dot b result_map print_mode =
     (let nodes = remdups (dkeys result_map @ concat (map (\<lambda>e. mode_keys print_mode (snd e)) result_map))
      in rbind (rmap (print_dot_deps b nodes) nodes) (\<lambda>deps.
           Inr ([''digraph blade {''] @ map print_dot_node nodes @ concat deps @ [''}''])))"

text \<open>What a query prints, or the file it writes.\<close>

datatype query_output = Printed "string list" | DotFile string "string list"

definition print_entries :: "string \<Rightarrow> (key list \<times> key list \<Rightarrow> key list) \<Rightarrow> result_map \<Rightarrow> string list" where
  "print_entries verb pick_list result_map =
     concat (map (\<lambda>e. [[CHR 0x0A], ''//'' @ show_key (fst e) @ verb] @ map show_key (pick_list (snd e))) result_map)"

definition query :: "nat \<Rightarrow> string \<Rightarrow> blade \<Rightarrow> string list \<Rightarrow> query_output result" where
  "query depth cwd b targets =
     rbind (opt b ''deps'') (\<lambda>print_deps.
     rbind (opt b ''depended'') (\<lambda>print_depended.
     rbind (opt b ''output_to_dot'') (\<lambda>dot_file.
     rbind (opt b ''output_tree'') (\<lambda>print_dep_tree.
     rbind (query_helper b targets) (\<lambda>result_map.
       case dot_file of
         PyStr (c # cs) \<Rightarrow>
           rbind (output_dot b result_map (if truthy print_depended then 1 else 0)) (\<lambda>lines.
             Inr (DotFile (path_join (b_working_dir b) (c # cs)) lines))
       | _ \<Rightarrow>
           rbind (if truthy print_deps then
                    if truthy print_dep_tree then query_dependency_tree depth cwd b targets
                    else Inr (print_entries '' depends on the following targets:'' fst result_map)
                  else Inr []) (\<lambda>deps_lines.
             Inr (Printed (deps_lines @
               (if truthy print_depended
                then print_entries '' is depended by the following targets:'' snd result_map else [])))))))))"

section \<open>Generating rules\<close>

datatype generator = NinjaRulesGenerator string | MakeRulesGenerator string | SconsRulesGenerator string

definition get_build_rules_generator :: "blade \<Rightarrow> generator result" where
  "get_build_rules_generator b =
     rbind (config_value b ''global_config'' ''native_builder'') (\<lambda>v.
       Inr (if v = PyStr ''ninja'' then NinjaRulesGenerator ''build.ninja''
            else if v = PyStr ''make'' then MakeRulesGenerator ''Makefile''
            else SconsRulesGenerator ''SConstruct''))"

definition is_scons_object_type :: "string \<Rightarrow> bool" where
  "is_scons_object_type target_type = (target_type \<noteq> ''system_library'')"

text \<open>
  The rules of all targets. \<open>rules k\<close> is the method \<open>ninja_rules\<close>, \<open>make_rules\<close> or \<open>scons_rules\<close> of the object
  under the key, which fills the object's rule buffer, and \<open>emit\<close> selects it by the builder. The methods change a
  state of which the manager is a part, given by \<open>blade_of\<close>; the methods for Make are those of the theory
  \<open>Make_Rules\<close>. The objects of the build targets are those of the database, so that the warning for an object that
  is not registered is never reached.
\<close>

definition skips :: "blade \<Rightarrow> key \<Rightarrow> string \<Rightarrow> bool" where
  "skips b k target_type =
     (\<not> is_scons_object_type target_type \<or>
      truthy (opt_default b ''no_test'' (PyBool False)) \<and> endswith target_type ''_test'' \<and> k \<notin> set (b_direct_targets b) \<or>
      \<not> truthy (opt_default b ''generate_package'' (PyBool False)) \<and> target_type = ''package'' \<and> k \<notin> set (b_direct_targets b))"

definition gen_target_rules ::
  "('w \<Rightarrow> blade) \<Rightarrow> (key \<Rightarrow> 'w \<Rightarrow> 'w result) \<Rightarrow> key \<Rightarrow> string list \<times> 'w \<Rightarrow> (string list \<times> 'w) result" where
  "gen_target_rules blade_of rules k s =
     (case s of (rules_buf, w) \<Rightarrow>
        rbind (build_target (blade_of w) k) (\<lambda>t.
          if skips (blade_of w) k (t_type t) then Inr (rules_buf, w)
          else
            rbind (rules k w) (\<lambda>w.
            rbind (dindex (b_target_database (blade_of w)) k) (\<lambda>t.
              Inr (if t_rules t \<noteq> [] then rules_buf @ [[CHR 0x0A]] @ t_rules t else rules_buf, w)))))"

definition gen_targets_rules ::
  "('w \<Rightarrow> blade) \<Rightarrow> (pyval \<Rightarrow> key \<Rightarrow> 'w \<Rightarrow> 'w result) \<Rightarrow> 'w \<Rightarrow> (string list \<times> 'w) result" where
  "gen_targets_rules blade_of emit w =
     rbind (config_value (blade_of w) ''global_config'' ''native_builder'') (\<lambda>builder.
     rbind (rfold (gen_target_rules blade_of (emit builder)) (b_sorted_targets_keys (blade_of w)) ([], w)) (\<lambda>(rules_buf, w).
       Inr (if builder = PyStr ''make'' then rev rules_buf else rules_buf, w)))"

section \<open>Parallel jobs\<close>

text \<open>
  The number of jobs; \<open>distcc_hosts\<close> is \<open>None\<close> when the distcc environment is not prepared, and
  otherwise the number of hosts.
\<close>

definition parallel_jobs_num :: "nat option \<Rightarrow> nat \<Rightarrow> blade \<Rightarrow> (int \<times> blade) result" where
  "parallel_jobs_num distcc_hosts cpu_count b =
     rbind (opt b ''jobs'') (\<lambda>v.
       case v of
         PyInt user_jobs_num \<Rightarrow>
           if user_jobs_num > 0 then Inr (user_jobs_num, b)
           else
             rbind (config_value b ''distcc_config'' ''enabled'') (\<lambda>distcc_enabled.
               let jobs_num =
                     (case distcc_hosts of
                        Some n \<Rightarrow> if truthy distcc_enabled then min (max (int (3 * n div 2)) 1) 20
                                  else min (2 * int cpu_count) 8
                      | None \<Rightarrow> min (2 * int cpu_count) 8)
               in Inr (jobs_num,
                       if jobs_num \<noteq> user_jobs_num
                       then say (Info (''tunes the parallel jobs number(-j N) to be '' @ show_int jobs_num)) b
                       else b))
       | _ \<Rightarrow> Inl TypeError)"

end
