(* ===== verification/Dep_Topo.thy ===== *)
theory Dep_Topo
  imports Dep_Generation
begin

text \<open>
  Correctness of the topological sort of the dependency analyser (Kahn's algorithm): the
  counting phase computes the number of dependencies and the transposed graph, the queue
  phase never reads a missing key, and on an acyclic graph it lists every target exactly
  once, after all the targets it depends on.
\<close>

section \<open>The counting phase\<close>

definition pl_deps :: "(key \<times> key list) list \<Rightarrow> key \<Rightarrow> key list" where
  "pl_deps pl k = (case map_of pl k of None \<Rightarrow> [] | Some ds \<Rightarrow> ds)"

text \<open>The elements the dictionaries know: the targets and their dependencies.\<close>

definition pl_nodes :: "(key \<times> key list) list \<Rightarrow> key set" where
  "pl_nodes pl = fst ` set pl \<union> (\<Union>(k, ds) \<in> set pl. set ds)"

text \<open>The transposed graph: \<open>x\<close> is followed by every target that lists it, once per listing.\<close>

definition transposed :: "(key \<times> key list) list \<Rightarrow> key \<Rightarrow> key list" where
  "transposed pl x = concat (map (\<lambda>(k, ds). replicate (count_list ds x) k) pl)"

definition counts_spec :: "(key \<times> key list) list \<Rightarrow> key \<Rightarrow> int option" where
  "counts_spec pl k = (if k \<in> pl_nodes pl then Some (int (length (pl_deps pl k))) else None)"

definition succs_spec :: "(key \<times> key list) list \<Rightarrow> key \<Rightarrow> key list option" where
  "succs_spec pl x = (if x \<in> pl_nodes pl then Some (transposed pl x) else None)"

lemma count_dep_loop:
  assumes "dget np k = Some n"
  shows "\<exists>np' sc'. rfold (count_dep k) ds (np, sc) = Inr (np', sc') \<and>
     dget np' = (\<lambda>j. if j = k then Some (n + int (length ds))
                     else if dget np j = None \<and> j \<in> set ds then Some 0 else dget np j) \<and>
     dget sc' = (\<lambda>x. if x \<in> set ds
                     then Some ((case dget sc x of None \<Rightarrow> [] | Some l \<Rightarrow> l) @ replicate (count_list ds x) k)
                     else dget sc x) \<and>
     (dict_ok np \<longrightarrow> dict_ok np')"
  using assms
proof (induction ds arbitrary: np sc n)
  case Nil
  then show ?case by (auto simp: fun_eq_iff)
next
  case (Cons d ds)
  define np1 where "np1 = (if dget np d = None then dset d 0 np else np)"
  define np2 where "np2 = dset k (n + 1) np1"
  define sc1 where "sc1 = dset d ((case dget sc d of None \<Rightarrow> [] | Some l \<Rightarrow> l) @ [k]) sc"
  have "dget np1 k = Some n"
    using Cons.prems by (auto simp: np1_def)
  then have step: "count_dep k d (np, sc) = Inr (np2, sc1)"
    by (simp add: count_dep_def np1_def np2_def sc1_def Let_def split: option.splits)
  have "dget np2 k = Some (n + 1)" by (simp add: np2_def)
  from Cons.IH [OF this, of sc1] obtain np' sc' where
    r: "rfold (count_dep k) ds (np2, sc1) = Inr (np', sc')"
    and np': "dget np' = (\<lambda>j. if j = k then Some (n + 1 + int (length ds))
                     else if dget np2 j = None \<and> j \<in> set ds then Some 0 else dget np2 j)"
    and sc': "dget sc' = (\<lambda>x. if x \<in> set ds
                     then Some ((case dget sc1 x of None \<Rightarrow> [] | Some l \<Rightarrow> l) @ replicate (count_list ds x) k)
                     else dget sc1 x)"
    and ok: "dict_ok np2 \<longrightarrow> dict_ok np'"
    by blast
  have "dict_ok np \<longrightarrow> dict_ok np'"
    using ok by (auto simp: np2_def np1_def)
  moreover have "dget np' j = (if j = k then Some (n + int (length (d # ds)))
      else if dget np j = None \<and> j \<in> set (d # ds) then Some 0 else dget np j)" for j
    by (auto simp: np' np2_def np1_def)
  moreover have "dget sc' x = (if x \<in> set (d # ds)
      then Some ((case dget sc x of None \<Rightarrow> [] | Some l \<Rightarrow> l) @ replicate (count_list (d # ds) x) k)
      else dget sc x)" for x
    by (auto simp: sc' sc1_def)
  ultimately show ?case using step r by (simp add: fun_eq_iff)
qed

lemma pl_deps_snoc:
  "k \<notin> fst ` set pl \<Longrightarrow> pl_deps (pl @ [(k, ds)]) j = (if j = k then ds else pl_deps pl j)"
  using map_of_eq_None_iff [of pl k]
  by (cases "map_of pl j") (auto simp: pl_deps_def map_add_def)

lemma pl_nodes_snoc: "pl_nodes (pl @ [(k, ds)]) = insert k (pl_nodes pl \<union> set ds)"
  by (auto simp: pl_nodes_def)

lemma transposed_snoc: "transposed (pl @ [(k, ds)]) x = transposed pl x @ replicate (count_list ds x) k"
  by (simp add: transposed_def)

lemma transposed_outside: "x \<notin> pl_nodes pl \<Longrightarrow> transposed pl x = []"
  by (induction pl) (auto simp: transposed_def pl_nodes_def)

lemma pl_deps_outside: "k \<notin> fst ` set pl \<Longrightarrow> pl_deps pl k = []"
  by (simp add: pl_deps_def map_of_eq_None_iff [THEN iffD2])

lemma counting_phase:
  assumes "distinct (map fst pl)"
  shows "\<exists>np sc. rfold count_target pl ([], []) = Inr (np, sc) \<and>
     dget np = counts_spec pl \<and> dget sc = succs_spec pl \<and> dict_ok np"
  using assms
proof (induction pl rule: rev_induct)
  case Nil
  then show ?case by (simp add: counts_spec_def succs_spec_def pl_nodes_def fun_eq_iff)
next
  case (snoc a pl)
  obtain k ds where a: "a = (k, ds)" by (cases a)
  from snoc.prems have new: "k \<notin> fst ` set pl" by (auto simp: a)
  from snoc obtain np sc where r: "rfold count_target pl ([], []) = Inr (np, sc)"
    and np: "dget np = counts_spec pl" and sc: "dget sc = succs_spec pl" and ok: "dict_ok np"
    by auto
  define np1 where "np1 = (if dget np k = None then dset k 0 np else np)"
  define sc1 where "sc1 = (if dget sc k = None then dset k [] sc else sc)"
  have "dget np1 k = Some 0"
    using new by (auto simp: np1_def np counts_spec_def pl_deps_outside)
  from count_dep_loop [OF this, of ds sc1] obtain np' sc' where
    r': "rfold (count_dep k) ds (np1, sc1) = Inr (np', sc')"
    and np': "dget np' = (\<lambda>j. if j = k then Some (0 + int (length ds))
                     else if dget np1 j = None \<and> j \<in> set ds then Some 0 else dget np1 j)"
    and sc': "dget sc' = (\<lambda>x. if x \<in> set ds
                     then Some ((case dget sc1 x of None \<Rightarrow> [] | Some l \<Rightarrow> l) @ replicate (count_list ds x) k)
                     else dget sc1 x)"
    and ok': "dict_ok np1 \<longrightarrow> dict_ok np'"
    by blast
  have step: "count_target a (np, sc) = Inr (np', sc')"
    using r' by (simp add: count_target_def a np1_def sc1_def Let_def)
  have "dget np' j = counts_spec (pl @ [a]) j" for j
    using new by (auto simp: np' np1_def np counts_spec_def a pl_nodes_snoc pl_deps_snoc pl_deps_outside)
      (auto simp: pl_nodes_def pl_deps_outside)
  moreover have "dget sc' x = succs_spec (pl @ [a]) x" for x
    by (auto simp: sc' sc1_def sc succs_spec_def a pl_nodes_snoc transposed_snoc transposed_outside
        count_list_0_iff)
  moreover have "dict_ok np'"
    using ok ok' by (simp add: np1_def)
  ultimately show ?case
    using r step by (simp add: rfold_append fun_eq_iff)
qed

lemma count_transposed:
  "distinct (map fst pl) \<Longrightarrow> count_list (transposed pl x) y = count_list (pl_deps pl y) x"
proof (induction pl)
  case Nil
  then show ?case by (simp add: transposed_def pl_deps_def)
next
  case (Cons a pl)
  obtain k ds where a: "a = (k, ds)" by (cases a)
  have "count_list (replicate n k) y = (if y = k then n else 0)" for n
    by (induction n) auto
  moreover have "y = k \<Longrightarrow> pl_deps pl y = []"
    using Cons.prems by (intro pl_deps_outside) (auto simp: a)
  moreover have "count_list (transposed pl x) y = count_list (pl_deps pl y) x"
    using Cons by simp
  moreover have "pl_deps (a # pl) y = (if y = k then ds else pl_deps pl y)"
    by (simp add: pl_deps_def a)
  moreover have "transposed (a # pl) x = replicate (count_list ds x) k @ transposed pl x"
    by (simp add: transposed_def a)
  ultimately show ?case by simp
qed

section \<open>The queue phase\<close>

lemma knock_down_loop:
  assumes "\<forall>y \<in> set ys. \<exists>n. dget np y = Some n \<and> int (count_list ys y) \<le> n"
  shows "\<exists>np' zs. rfold knock_down ys (np, q) = Inr (np', q @ zs) \<and>
     dget np' = (\<lambda>k. map_option (\<lambda>n. n - int (count_list ys k)) (dget np k)) \<and>
     distinct zs \<and> set zs = {y \<in> set ys. dget np y = Some (int (count_list ys y))}"
  using assms
proof (induction ys arbitrary: np q)
  case Nil
  then show ?case by (auto simp: option.map_ident)
next
  case (Cons y ys)
  then obtain n where n: "dget np y = Some n" "1 + int (count_list ys y) \<le> n" by auto
  define np1 where "np1 = dset y (n - 1) np"
  define q1 where "q1 = (if n - 1 = 0 then q @ [y] else q)"
  have step: "knock_down y (np, q) = Inr (np1, q1)"
    using n by (simp add: knock_down_def np1_def q1_def Let_def)
  have "\<forall>z \<in> set ys. \<exists>n. dget np1 z = Some n \<and> int (count_list ys z) \<le> n"
    using Cons.prems n by (auto simp: np1_def split: if_splits)
  from Cons.IH [OF this, of q1] obtain np' zs where
    r: "rfold knock_down ys (np1, q1) = Inr (np', q1 @ zs)"
    and np': "dget np' = (\<lambda>k. map_option (\<lambda>n. n - int (count_list ys k)) (dget np1 k))"
    and zs: "distinct zs" "set zs = {z \<in> set ys. dget np1 z = Some (int (count_list ys z))}"
    by blast
  have "dget np' = (\<lambda>k. map_option (\<lambda>n. n - int (count_list (y # ys) k)) (dget np k))"
    using n by (auto simp: np' np1_def fun_eq_iff)
  moreover define ws where "ws = (if n - 1 = 0 then y # zs else zs)"
  moreover have "distinct ws"
    using zs n by (auto simp: ws_def np1_def count_list_0_iff)
  moreover have "set ws = {z \<in> set (y # ys). dget np z = Some (int (count_list (y # ys) z))}"
  proof (rule set_eqI)
    fix z
    have "z \<in> set ws \<longleftrightarrow> (n = 1 \<and> z = y) \<or> (z \<in> set ys \<and> dget np1 z = Some (int (count_list ys z)))"
      using zs(2) by (auto simp: ws_def)
    also have "\<dots> \<longleftrightarrow> z \<in> set (y # ys) \<and> dget np z = Some (int (count_list (y # ys) z))"
    proof (cases "z = y")
      case True
      have "y \<notin> set ys \<longleftrightarrow> count_list ys y = 0" by (simp add: count_list_0_iff)
      with True n show ?thesis by (auto simp: np1_def)
    qed (simp add: np1_def)
    finally show "z \<in> set ws \<longleftrightarrow> z \<in> {z \<in> set (y # ys). dget np z = Some (int (count_list (y # ys) z))}"
      by simp
  qed
  moreover have "q1 @ zs = q @ ws" by (simp add: q1_def ws_def)
  ultimately show ?case using step r by auto
qed

text \<open>The state of the queue phase after listing \<open>ans\<close>.\<close>

definition kahn_inv ::
  "(key \<times> key list) list \<Rightarrow> key list \<Rightarrow> counts \<Rightarrow> key list \<Rightarrow> bool" where
  "kahn_inv pl q np ans =
     (distinct (ans @ q) \<and> set (ans @ q) \<subseteq> pl_nodes pl \<and>
      follows (edges (pl_deps pl)) (rev ans) \<and>
      (\<forall>k. dget np k = (if k \<in> pl_nodes pl - set ans
                        then Some (int (length (filter (\<lambda>d. d \<notin> set ans) (pl_deps pl k)))) else None)) \<and>
      (\<forall>k \<in> pl_nodes pl - set ans. k \<in> set q \<longleftrightarrow> filter (\<lambda>d. d \<notin> set ans) (pl_deps pl k) = []))"

lemma follows_rev_earlier:
  "follows R (rev ans) \<Longrightarrow> y \<in> set ans \<Longrightarrow> (y, x) \<in> R \<Longrightarrow> x \<in> set ans"
proof -
  assume "follows R (rev ans)" "y \<in> set ans" "(y, x) \<in> R"
  moreover have "follows R xs \<Longrightarrow> y \<in> set xs \<Longrightarrow> (y, x) \<in> R \<Longrightarrow> x \<in> set xs" for xs
    by (induction xs) auto
  ultimately show ?thesis by (metis set_rev)
qed

lemma filter_length_remove:
  assumes "x \<notin> set A"
  shows "int (length (filter (\<lambda>d. d \<notin> set (A @ [x])) ds)) =
         int (length (filter (\<lambda>d. d \<notin> set A) ds)) - int (count_list ds x)"
  using assms by (induction ds) auto

lemma nodes_closed: "y \<in> set (pl_deps pl k) \<Longrightarrow> y \<in> pl_nodes pl \<and> k \<in> pl_nodes pl"
  unfolding pl_deps_def pl_nodes_def
  by (cases "map_of pl k") (auto dest!: map_of_SomeD intro: rev_image_eqI bexI)

abbreviation unlisted :: "(key \<times> key list) list \<Rightarrow> key list \<Rightarrow> key \<Rightarrow> key list" where
  "unlisted pl ans k \<equiv> filter (\<lambda>d. d \<notin> set ans) (pl_deps pl k)"

text \<open>The head of the queue: all its dependencies are listed, its dependents are not.\<close>

lemma kahn_head:
  assumes "kahn_inv pl (x # q) np ans"
  shows "x \<in> pl_nodes pl" and "x \<notin> set ans" and "set (pl_deps pl x) \<subseteq> set ans"
proof -
  show "x \<in> pl_nodes pl" and "x \<notin> set ans"
    using assms by (auto simp: kahn_inv_def)
  with assms have "unlisted pl ans x = []" by (auto simp: kahn_inv_def)
  then show "set (pl_deps pl x) \<subseteq> set ans" by (auto simp: filter_empty_conv)
qed

lemma kahn_later:
  assumes inv: "kahn_inv pl (x # q) np ans" and x: "x \<in> set (pl_deps pl k)"
  shows "k \<in> pl_nodes pl - set (ans @ [x])"
proof -
  note head = kahn_head [OF inv]
  have "k \<notin> set ans"
    using x head(2) inv follows_rev_earlier [of "edges (pl_deps pl)" ans k x]
    by (auto simp: kahn_inv_def)
  moreover have "k \<noteq> x" using x head by auto
  ultimately show ?thesis using nodes_closed [OF x] by simp
qed

lemma kahn_counts:
  assumes "kahn_inv pl (x # q) np ans"
  shows "dget (ddel x np) k =
    (if k \<in> pl_nodes pl - set (ans @ [x]) then Some (int (length (unlisted pl ans k))) else None)"
  using assms by (auto simp: kahn_inv_def)

lemma unlisted_snoc:
  assumes "distinct (map fst pl)" and "x \<notin> set ans"
  shows "int (length (unlisted pl (ans @ [x]) k)) =
    int (length (unlisted pl ans k)) - int (count_list (transposed pl x) k)"
  using filter_length_remove [OF assms(2), of "pl_deps pl k"] count_transposed [OF assms(1), of x k]
  by simp

lemma transposed_member:
  "distinct (map fst pl) \<Longrightarrow> k \<in> set (transposed pl x) \<longleftrightarrow> x \<in> set (pl_deps pl k)"
  using count_transposed [of pl x k] by (metis count_list_0_iff)

text \<open>Listing the head keeps the invariant, if \<open>zs\<close> are the targets that become ready.\<close>

lemma kahn_advance:
  assumes inv: "kahn_inv pl (x # q) np ans" and "distinct zs"
    and zs: "\<And>k. k \<in> set zs \<longleftrightarrow> x \<in> set (pl_deps pl k) \<and> unlisted pl (ans @ [x]) k = []"
    and np': "\<And>k. dget np' k = (if k \<in> pl_nodes pl - set (ans @ [x])
        then Some (int (length (unlisted pl (ans @ [x]) k))) else None)"
  shows "kahn_inv pl (q @ zs) np' (ans @ [x])"
proof -
  note head = kahn_head [OF inv] and I = inv [unfolded kahn_inv_def]
  have old: "k \<in> set q \<longleftrightarrow> unlisted pl ans k = []" if "k \<in> pl_nodes pl - set (ans @ [x])" for k
    using I that by auto
  have notq: "k \<notin> set q" if "x \<in> set (pl_deps pl k)" for k
    using old [OF kahn_later [OF inv that]] that head(2) by (auto simp: filter_empty_conv)
  have "set zs \<inter> set q = {}" and new: "set zs \<subseteq> pl_nodes pl - set (ans @ [x])"
    using zs notq kahn_later [OF inv] by blast+
  then have "distinct ((ans @ [x]) @ q @ zs)" and "set ((ans @ [x]) @ q @ zs) \<subseteq> pl_nodes pl"
    using I \<open>distinct zs\<close> by auto
  moreover have "follows (edges (pl_deps pl)) (rev (ans @ [x]))"
    using I head(3) by (auto simp: Image_def)
  moreover have "k \<in> set (q @ zs) \<longleftrightarrow> unlisted pl (ans @ [x]) k = []"
    if "k \<in> pl_nodes pl - set (ans @ [x])" for k
  proof (cases "x \<in> set (pl_deps pl k)")
    case True
    then show ?thesis using notq zs by simp
  next
    case False
    then have "unlisted pl (ans @ [x]) k = unlisted pl ans k" by (auto intro: filter_cong)
    then show ?thesis using False old [OF that] zs [of k] by simp
  qed
  ultimately show ?thesis
    unfolding kahn_inv_def using np' by blast
qed

lemma kahn_pop:
  assumes pl: "distinct (map fst pl)" and inv: "kahn_inv pl (x # q) np ans"
  shows "\<exists>np' zs. rfold knock_down (transposed pl x) (ddel x np, q) = Inr (np', q @ zs) \<and>
           kahn_inv pl (q @ zs) np' (ans @ [x])"
proof -
  note head = kahn_head [OF inv] and np = kahn_counts [OF inv]
  note cnt = unlisted_snoc [OF pl head(2)] and mem = transposed_member [OF pl]
  have "\<exists>n. dget (ddel x np) y = Some n \<and> int (count_list (transposed pl x) y) \<le> n"
    if "y \<in> set (transposed pl x)" for y
  proof -
    have "y \<in> pl_nodes pl - set (ans @ [x])" using that mem kahn_later [OF inv] by blast
    then have "dget (ddel x np) y = Some (int (length (unlisted pl ans y)))"
      unfolding np by (rule if_P)
    moreover have "int (count_list (transposed pl x) y) \<le> int (length (unlisted pl ans y))"
      using cnt [of y] by linarith
    ultimately show ?thesis by blast
  qed
  then have "\<forall>y \<in> set (transposed pl x). \<exists>n. dget (ddel x np) y = Some n \<and>
      int (count_list (transposed pl x) y) \<le> n" by blast
  from knock_down_loop [OF this, of q] obtain np' zs where
    r: "rfold knock_down (transposed pl x) (ddel x np, q) = Inr (np', q @ zs)"
    and np': "dget np' = (\<lambda>k. map_option (\<lambda>n. n - int (count_list (transposed pl x) k)) (dget (ddel x np) k))"
    and zs: "distinct zs"
      "set zs = {y \<in> set (transposed pl x). dget (ddel x np) y = Some (int (count_list (transposed pl x) y))}"
    by blast
  have "k \<in> set zs \<longleftrightarrow> x \<in> set (pl_deps pl k) \<and> unlisted pl (ans @ [x]) k = []" for k
  proof -
    have "k \<in> set zs \<longleftrightarrow> x \<in> set (pl_deps pl k) \<and> k \<in> pl_nodes pl - set (ans @ [x]) \<and>
        int (length (unlisted pl (ans @ [x]) k)) = 0"
      unfolding zs(2) np mem [symmetric] cnt by auto
    then show ?thesis using kahn_later [OF inv, of k] by auto
  qed
  moreover have "dget np' k = (if k \<in> pl_nodes pl - set (ans @ [x])
      then Some (int (length (unlisted pl (ans @ [x]) k))) else None)" for k
    unfolding np' np cnt by simp
  ultimately have "kahn_inv pl (q @ zs) np' (ans @ [x])"
    by (rule kahn_advance [OF inv zs(1)])
  with r show ?thesis by blast
qed

lemma kahn_loop_total:
  assumes pl: "distinct (map fst pl)" and sc: "dget sc = succs_spec pl" and inv: "kahn_inv pl q np ans"
  shows "\<exists>ans' np'. kahn_loop q np sc ans = Inr ans' \<and> kahn_inv pl [] np' ans'"
  using inv
proof (induction "length np" arbitrary: q np ans rule: less_induct)
  case less
  show ?case
  proof (cases q)
    case Nil
    then show ?thesis using less.prems by auto
  next
    case (Cons x q')
    have inv: "kahn_inv pl (x # q') np ans" using less.prems Cons by simp
    obtain n where n: "dget np x = Some n"
      using inv kahn_head [OF inv] by (auto simp: kahn_inv_def)
    obtain np' zs where r: "rfold knock_down (transposed pl x) (ddel x np, q') = Inr (np', q' @ zs)"
      and inv': "kahn_inv pl (q' @ zs) np' (ans @ [x])"
      using kahn_pop [OF pl inv] by blast
    have "x \<in> pl_nodes pl" using inv by (auto simp: kahn_inv_def)
    then have "dget sc x = Some (transposed pl x)" by (simp add: sc succs_spec_def)
    then have "kahn_loop q np sc ans = kahn_loop (q' @ zs) np' sc (ans @ [x])"
      using Cons n r by simp
    moreover have "length np' < length np"
      using knock_down_length [OF r] ddel_length [OF n] by simp
    ultimately show ?thesis using less.hyps [OF _ inv'] by simp
  qed
qed

lemma finite_edges_pl: "finite (edges (pl_deps pl))"
proof (rule finite_subset)
  show "edges (pl_deps pl) \<subseteq> pl_nodes pl \<times> pl_nodes pl"
    using nodes_closed by (auto simp: edges_def)
  show "finite (pl_nodes pl \<times> pl_nodes pl)"
    by (auto simp: pl_nodes_def)
qed

text \<open>An empty queue means that nothing acyclic is left.\<close>

lemma kahn_complete:
  assumes inv: "kahn_inv pl [] np ans" and acyc: "acyclic (edges (pl_deps pl))"
  shows "set ans = pl_nodes pl"
proof (rule ccontr)
  assume "set ans \<noteq> pl_nodes pl"
  with inv obtain k0 where k0: "k0 \<in> pl_nodes pl - set ans" by (auto simp: kahn_inv_def)
  have "wf ((edges (pl_deps pl))\<inverse>)"
    using finite_edges_pl acyc by (rule finite_acyclic_wf_converse)
  then obtain k where k: "k \<in> pl_nodes pl - set ans"
    and min: "\<And>d. (k, d) \<in> edges (pl_deps pl) \<Longrightarrow> d \<notin> pl_nodes pl - set ans"
    using k0 by (metis wfE_min converse_iff)
  have "filter (\<lambda>d. d \<notin> set ans) (pl_deps pl k) = []"
    using min nodes_closed by (auto simp: filter_empty_conv)
  with k inv show False by (auto simp: kahn_inv_def)
qed

lemma zero_keys_filter:
  "[key. (key, num) \<leftarrow> xs, num = (0::int)] = map fst (filter (\<lambda>p. snd p = 0) xs)"
  by (induction xs) auto

lemma kahn_start:
  assumes np: "dget np = counts_spec pl" "dict_ok np" and perm: "mset (order np) = mset np"
  shows "kahn_inv pl [key. (key, num) \<leftarrow> order np, num = 0] np []"
proof -
  let ?q = "[key. (key, num) \<leftarrow> order np, num = 0]"
  have q: "?q = map fst (filter (\<lambda>p. snd p = 0) (order np))"
    by (rule zero_keys_filter)
  have "set (order np) = set np" by (metis perm set_mset_mset)
  then have mem: "k \<in> set ?q \<longleftrightarrow> dget np k = Some 0" for k
    using dict_ok_dget [OF np(2), of k 0] by (force simp: q)
  have "distinct (map fst (order np))"
    using np(2) perm by (metis dict_ok_def mset_map mset_eq_imp_distinct_iff)
  then have "distinct ?q" unfolding q by (rule distinct_map_filter)
  then show ?thesis
    using mem np(1) by (auto simp: kahn_inv_def counts_spec_def split: if_splits)
qed

section \<open>The topological sort\<close>

lemma topological_sort_correct:
  assumes pl: "distinct (map fst pl)" and perm: "\<And>d. mset (order d) = mset d"
  obtains ans sc where "topological_sort order pl = Inr (ans, sc)"
    and "distinct ans" and "set ans \<subseteq> pl_nodes pl"
    and "follows (edges (pl_deps pl)) (rev ans)" and "dget sc = succs_spec pl"
    and "acyclic (edges (pl_deps pl)) \<Longrightarrow> set ans = pl_nodes pl"
proof -
  obtain np sc where count: "rfold count_target pl ([], []) = Inr (np, sc)"
    and np: "dget np = counts_spec pl" "dict_ok np" and sc: "dget sc = succs_spec pl"
    using counting_phase [OF pl] by blast
  obtain ans np' where loop: "kahn_loop [key. (key, num) \<leftarrow> order np, num = 0] np sc [] = Inr ans"
    and inv: "kahn_inv pl [] np' ans"
    using kahn_loop_total [OF pl sc kahn_start [OF np, of order, OF perm]] by blast
  show thesis
  proof (rule that [of ans sc])
    show "topological_sort order pl = Inr (ans, sc)"
      using count loop by (simp add: topological_sort_def)
  qed (use inv sc kahn_complete [OF inv] in \<open>auto simp: kahn_inv_def\<close>)
qed

end
