(* ===== verification/Dep_Analysis.thy ===== *)
theory Dep_Analysis
  imports Dep_Topo
begin

text \<open>
  The dependency analysis as a whole, \<open>analyze_deps\<close> with the generation methods of the
  target classes: the properties of the expanded dependency lists, of the build order and of
  the table of dependents, and the errors the analysis reports.
\<close>

section \<open>From the search and the sort to the analysis\<close>

abbreviation blade_analyze ::
  "(counts \<Rightarrow> counts) \<Rightarrow> key list \<Rightarrow> database \<Rightarrow> (database \<times> key list \<times> succs) result" where
  "blade_analyze \<equiv> analyze_deps expand_deps_generation"

text \<open>The dependency list of an object of the database.\<close>

definition deps_of :: "database \<Rightarrow> key \<Rightarrow> key list" where
  "deps_of db k = (case dget db k of None \<Rightarrow> [] | Some t \<Rightarrow> t_expanded_deps t)"

lemma pl_deps_items: "pl_deps (deps_items bt db) k = (if k \<in> set bt then deps_of db k else [])"
  by (induction bt) (auto simp: pl_deps_def deps_items_def deps_of_def)

lemma deps_items_keys [simp]: "map fst (deps_items bt db) = bt"
  by (simp add: deps_items_def comp_def)

lemma analyze_depsD:
  assumes "blade_analyze order bt db = Inr (db', ans, sc)"
  shows "expand_deps expand_deps_generation bt db = Inr db'"
    and "topological_sort order (deps_items bt db') = Inr (ans, sc)"
  using assms by (auto simp: analyze_deps_def rbind_eq_Inr)

lemma expanded_deps_of:
  assumes "expand_deps expand_deps_generation bt db = Inr db'" and "k \<in> set bt"
  shows "distinct (deps_of db' k)" and "set (deps_of db' k) = (dep_rel bt db)\<^sup>+ `` {k}"
    and "k \<notin> set (deps_of db' k)" and "follows ((dep_rel bt db)\<^sup>+) (deps_of db' k)"
    and "\<forall>d \<in> set (direct_deps bt db k). allowed (bt_view bt db) k d"
  by (rule blade_gen.expand_deps_closure [OF assms]; simp add: deps_of_def)+

lemma allowed_present: "allowed (bt_view bt db) k d \<Longrightarrow> d \<in> set bt"
  by (auto simp: allowed_def check_dep_visibility_def dget_bt_view split: option.splits if_splits)

lemma closure_in_bt:
  assumes "expand_deps expand_deps_generation bt db = Inr db'" and "(k, d) \<in> (dep_rel bt db)\<^sup>+"
  shows "d \<in> set bt"
proof -
  have edge: "b \<in> set bt" if "(a, b) \<in> dep_rel bt db" for a b
  proof -
    have b: "b \<in> set (direct_deps bt db a)" using that by (simp add: dep_rel_def)
    then have "a \<in> set bt"
      using direct_deps_present by (metis dget_bt_view)
    then show ?thesis using expanded_deps_of(5) [OF assms(1)] b allowed_present by blast
  qed
  show ?thesis using assms(2) by (induction rule: trancl_induct) (auto intro: edge)
qed

lemma items_nodes:
  assumes "expand_deps expand_deps_generation bt db = Inr db'"
  shows "pl_nodes (deps_items bt db') = set bt"
proof -
  have "set (deps_of db' k) \<subseteq> set bt" if "k \<in> set bt" for k
    using expanded_deps_of(2) [OF assms that] closure_in_bt [OF assms] by auto
  then show ?thesis
    by (auto simp: pl_nodes_def deps_items_def deps_of_def image_image)
qed

lemma items_acyclic:
  assumes "expand_deps expand_deps_generation bt db = Inr db'"
  shows "acyclic (edges (pl_deps (deps_items bt db')))"
proof -
  have "edges (pl_deps (deps_items bt db')) \<subseteq> (dep_rel bt db)\<^sup>+"
    using expanded_deps_of(2) [OF assms] by (auto simp: edges_def pl_deps_items split: if_splits)
  moreover have "acyclic ((dep_rel bt db)\<^sup>+)"
    using blade_gen.expand_deps_acyclic [OF assms] by (simp add: acyclic_def)
  ultimately show ?thesis by (rule acyclic_subset [rotated])
qed

lemma analyze_sorted:
  assumes "blade_analyze order bt db = Inr (db', ans, sc)" and "distinct bt"
    and "\<And>d. mset (order d) = mset d"
  shows "distinct ans" and "set ans = set bt"
    and "follows (edges (pl_deps (deps_items bt db'))) (rev ans)"
    and "dget sc = succs_spec (deps_items bt db')"
proof -
  note ex = analyze_depsD(1) [OF assms(1)] and ts = analyze_depsD(2) [OF assms(1)]
  obtain ans' sc' where r: "topological_sort order (deps_items bt db') = Inr (ans', sc')"
    and props: "distinct ans'" "follows (edges (pl_deps (deps_items bt db'))) (rev ans')"
      "dget sc' = succs_spec (deps_items bt db')" "set ans' = pl_nodes (deps_items bt db')"
    using topological_sort_correct [of "deps_items bt db'" order] assms(2,3) items_acyclic [OF ex]
    by (metis deps_items_keys)
  from r ts have "ans' = ans" "sc' = sc" by auto
  with props items_nodes [OF ex] show "distinct ans" and "set ans = set bt"
    and "follows (edges (pl_deps (deps_items bt db'))) (rev ans)"
    and "dget sc = succs_spec (deps_items bt db')" by auto
qed

lemma follows_rev_nth:
  assumes "follows R (rev xs)" and "i < length xs" and "(xs ! i, y) \<in> R"
  shows "\<exists>j < i. xs ! j = y"
proof -
  let ?n = "length xs"
  have "rev xs ! (?n - Suc i) = xs ! i" using assms(2) by (simp add: rev_nth)
  moreover have "?n - Suc i < length (rev xs)" using assms(2) by simp
  ultimately obtain j where "?n - Suc i < j" "j < ?n" "rev xs ! j = y"
    using follows_nth [OF assms(1), of "?n - Suc i" y] assms(3) by auto
  then show ?thesis
    using assms(2) by (intro exI [of _ "?n - Suc j"]) (auto simp: rev_nth)
qed

lemma order_before:
  assumes "blade_analyze order bt db = Inr (db', ans, sc)" and "distinct bt" and "\<And>d. mset (order d) = mset d"
    and i: "i < length ans" and d: "(ans ! i, d) \<in> (dep_rel bt db)\<^sup>+"
  shows "\<exists>j < i. ans ! j = d"
proof (rule follows_rev_nth [OF analyze_sorted(3) [OF assms(1-3)] i])
  have "ans ! i \<in> set bt" using i analyze_sorted(2) [OF assms(1-3)] nth_mem by blast
  then show "(ans ! i, d) \<in> edges (pl_deps (deps_items bt db'))"
    using d expanded_deps_of(2) [OF analyze_depsD(1) [OF assms(1)]] by (simp add: pl_deps_items)
qed

lemma dependents_of:
  assumes "blade_analyze order bt db = Inr (db', ans, sc)" and "distinct bt"
    and "\<And>d. mset (order d) = mset d"
  shows "(dget sc x \<noteq> None \<longleftrightarrow> x \<in> set bt) \<and>
    (\<forall>ys. dget sc x = Some ys \<longrightarrow> distinct ys \<and> set ys = {k \<in> set bt. (k, x) \<in> (dep_rel bt db)\<^sup>+})"
proof -
  note ex = analyze_depsD(1) [OF assms(1)]
  let ?pl = "deps_items bt db'"
  have sc: "dget sc x = (if x \<in> set bt then Some (transposed ?pl x) else None)"
    using analyze_sorted(4) [OF assms] items_nodes [OF ex] by (simp add: succs_spec_def)
  have pl: "distinct (map fst ?pl)" using assms(2) by simp
  have "count_list (transposed ?pl x) k \<le> 1" for k
    using count_transposed [OF pl, of x k] expanded_deps_of(1) [OF ex]
    by (simp add: pl_deps_items distinct_iff_count_list_le)
  then have "distinct (transposed ?pl x)" by (simp add: distinct_iff_count_list_le)
  moreover have "set (transposed ?pl x) = {k \<in> set bt. (k, x) \<in> (dep_rel bt db)\<^sup>+}"
  proof (rule set_eqI)
    fix k
    have "k \<in> set (transposed ?pl x) \<longleftrightarrow> k \<in> set bt \<and> x \<in> set (deps_of db' k)"
      using transposed_member [OF pl, of k x] by (simp add: pl_deps_items)
    then show "k \<in> set (transposed ?pl x) \<longleftrightarrow> k \<in> {k \<in> set bt. (k, x) \<in> (dep_rel bt db)\<^sup>+}"
      using expanded_deps_of(2) [OF ex, of k] by auto
  qed
  ultimately show ?thesis by (simp add: sc)
qed

section \<open>A sample workspace\<close>

text \<open>
  A diamond of four targets, used to instantiate the theorems: \<open>app\<close> depends on \<open>left\<close> and
  \<open>right\<close>, both of which depend on \<open>base\<close>.
\<close>

definition sample_target :: "tclass \<Rightarrow> string \<Rightarrow> key \<Rightarrow> key list \<Rightarrow> target" where
  "sample_target c ty k ds =
     \<lparr>t_class = c, t_key = k, t_fullname = show_key k, t_name = snd k, t_path = fst k,
      t_type = ty, t_srcs = [], t_deps = ds, t_expanded_deps = ds, t_visibility = Public,
      t_env_name = None, t_data = [], t_rules = [], t_gen_headers = None\<rparr>"

definition k_app :: key where "k_app = (''a'', ''app'')"
definition k_left :: key where "k_left = (''l'', ''left'')"
definition k_right :: key where "k_right = (''r'', ''right'')"
definition k_base :: key where "k_base = (''b'', ''base'')"

definition diamond_keys :: "key list" where
  "diamond_keys = [k_app, k_base, k_left, k_right]"

definition diamond :: database where
  "diamond =
     [(k_app, sample_target JavaBinaryC ''java_binary'' k_app [k_left, k_right]),
      (k_base, sample_target JavaLibraryC ''java_library'' k_base []),
      (k_left, sample_target JavaLibraryC ''java_library'' k_left [k_base]),
      (k_right, sample_target CcLibraryC ''cc_library'' k_right [k_base])]"

text \<open>The same with an edge back from \<open>base\<close> to \<open>app\<close>.\<close>

definition looped :: database where
  "looped = modify_target k_base (\<lambda>t. t\<lparr>t_deps := [k_app], t_expanded_deps := [k_app]\<rparr>) diamond"

lemma diamond_run:
  obtains db' ans sc where "blade_analyze id diamond_keys diamond = Inr (db', ans, sc)"
    and "deps_of db' k_app = [k_left, k_right, k_base]"
    and "ans = [k_base, k_left, k_right, k_app]"
    and "map_option gen_java (dget db' k_base) = Some True"
proof -
  have run: "map_sum id (\<lambda>(db', ans, sc). (deps_of db' k_app, ans, map_option gen_java (dget db' k_base)))
      (blade_analyze id diamond_keys diamond) =
    Inr ([k_left, k_right, k_base], [k_base, k_left, k_right, k_app], Some True)"
    by code_simp
  show thesis
  proof (cases "blade_analyze id diamond_keys diamond")
    case (Inl e)
    with run show ?thesis by simp
  next
    case (Inr r)
    with run that show ?thesis by (cases r) auto
  qed
qed

section \<open>Properties\<close>

text \<open>
  C1. When the analysis succeeds, the dependency list of every build target is exactly the
  set of targets it depends on directly or indirectly, without duplicates and without itself.
\<close>

theorem analyze_deps_closure:
  assumes "analyze_deps expand_deps_generation order bt db = Inr (db', ans, sc)" and "k \<in> set bt"
  shows "set (deps_of db' k) = {d. (k, d) \<in> (dep_rel bt db)\<^sup>+} \<and> distinct (deps_of db' k) \<and>
    k \<notin> set (deps_of db' k)"
  using expanded_deps_of [OF analyze_depsD(1) [OF assms(1)] assms(2)] by auto

theorem analyze_deps_closure_witness:
  "{d. (k_app, d) \<in> (dep_rel diamond_keys diamond)\<^sup>+} = {k_left, k_right, k_base}"
proof -
  obtain db' ans sc where run: "blade_analyze id diamond_keys diamond = Inr (db', ans, sc)"
    and deps: "deps_of db' k_app = [k_left, k_right, k_base]"
    by (rule diamond_run)
  have "k_app \<in> set diamond_keys" by (simp add: diamond_keys_def)
  from analyze_deps_closure [OF run this] deps show ?thesis by auto
qed

text \<open>
  C2. The expanded list is in link order: every target of the list is followed by all the
  targets it depends on, as a linker that resolves symbols from left to right requires.
\<close>

theorem analyze_deps_link_order:
  assumes "analyze_deps expand_deps_generation order bt db = Inr (db', ans, sc)" and "k \<in> set bt"
    and "i < length (deps_of db' k)" and "(deps_of db' k ! i, d) \<in> (dep_rel bt db)\<^sup>+"
  shows "\<exists>j. i < j \<and> j < length (deps_of db' k) \<and> deps_of db' k ! j = d"
  using follows_nth [OF expanded_deps_of(4) [OF analyze_depsD(1) [OF assms(1)] assms(2)]] assms(3,4)
  by blast

theorem analyze_deps_link_order_witness:
  "(k_left, k_base) \<in> (dep_rel diamond_keys diamond)\<^sup>+ \<and>
   (\<exists>db' ans sc. blade_analyze id diamond_keys diamond = Inr (db', ans, sc) \<and>
      (\<exists>j > 0. j < length (deps_of db' k_app) \<and> deps_of db' k_app ! j = k_base))"
proof -
  obtain db' ans sc where run: "blade_analyze id diamond_keys diamond = Inr (db', ans, sc)"
    and deps: "deps_of db' k_app = [k_left, k_right, k_base]"
    by (rule diamond_run)
  have app: "k_app \<in> set diamond_keys" by (simp add: diamond_keys_def)
  have "k_base \<in> set (direct_deps diamond_keys diamond k_left)" by code_simp
  then have edge: "(k_left, k_base) \<in> (dep_rel diamond_keys diamond)\<^sup>+" by (auto simp: dep_rel_def)
  have "\<exists>j > 0. j < length (deps_of db' k_app) \<and> deps_of db' k_app ! j = k_base"
    using analyze_deps_link_order [OF run app, of 0 k_base] deps edge by simp
  with run edge show ?thesis by blast
qed

text \<open>
  C3. If every dependency is a build target and visible to its dependent, the expansion
  succeeds exactly when the dependency graph has no cycle, and otherwise stops with the
  message that reports a loop.
\<close>

theorem expand_deps_reports_loops:
  assumes "deps_within bt db" and "deps_ok (bt_view bt db) (direct_deps bt db)"
  shows "if acyclic (dep_rel bt db)
    then \<exists>db'. expand_deps expand_deps_generation bt db = Inr db'
    else \<exists>d roots. expand_deps expand_deps_generation bt db = Inl (SystemExit (loop_msg d roots))"
proof (cases "expand_deps expand_deps_generation bt db")
  case (Inl e)
  then show ?thesis using blade_gen.expand_deps_succeeds [OF assms] by auto
next
  case (Inr db')
  then show ?thesis using blade_gen.expand_deps_acyclic by auto
qed

lemma diamond_deps_ok:
  "deps_within diamond_keys diamond" "deps_ok (bt_view diamond_keys diamond) (direct_deps diamond_keys diamond)"
  "deps_within diamond_keys looped" "deps_ok (bt_view diamond_keys looped) (direct_deps diamond_keys looped)"
  by (auto simp: deps_within_def deps_ok_def allowed_def check_dep_visibility_def direct_deps_def
      bt_view_def diamond_keys_def diamond_def looped_def modify_target_def sample_target_def
      k_app_def k_left_def k_right_def k_base_def split: if_splits)

theorem expand_deps_reports_loops_witness:
  "acyclic (dep_rel diamond_keys diamond) \<and> \<not> acyclic (dep_rel diamond_keys looped) \<and>
   (\<exists>d roots. expand_deps expand_deps_generation diamond_keys looped = Inl (SystemExit (loop_msg d roots)))"
proof -
  have ok: "is_ok (expand_deps expand_deps_generation diamond_keys diamond)"
    and err: "\<not> is_ok (expand_deps expand_deps_generation diamond_keys looped)"
    by code_simp+
  have 1: "acyclic (dep_rel diamond_keys diamond)"
    using expand_deps_reports_loops [OF diamond_deps_ok(1,2)] ok
    by (auto simp: is_ok_def split: if_splits)
  show ?thesis
    using 1 expand_deps_reports_loops [OF diamond_deps_ok(3,4)] err
    by (auto simp: is_ok_def split: if_splits)
qed

text \<open>
  C4. The build order lists every build target exactly once, and every target after all the
  targets it depends on, in whatever order the interpreter iterates over dictionaries.
\<close>

theorem analyze_deps_build_order:
  assumes "analyze_deps expand_deps_generation order bt db = Inr (db', ans, sc)" and "distinct bt"
    and "\<And>d. mset (order d) = mset d"
  shows "mset ans = mset bt \<and>
    (\<forall>i < length ans. \<forall>d. (ans ! i, d) \<in> (dep_rel bt db)\<^sup>+ \<longrightarrow> (\<exists>j < i. ans ! j = d))"
proof -
  have "mset ans = mset bt"
    using analyze_sorted(1,2) [OF assms] assms(2) by (simp add: set_eq_iff_mset_eq_distinct)
  then show ?thesis using order_before [OF assms] by blast
qed

theorem analyze_deps_build_order_witness:
  "\<exists>db' ans sc. blade_analyze id diamond_keys diamond = Inr (db', ans, sc) \<and> mset ans = mset diamond_keys"
proof -
  obtain db' ans sc where run: "blade_analyze id diamond_keys diamond = Inr (db', ans, sc)"
    by (rule diamond_run)
  have "distinct diamond_keys" by code_simp
  from analyze_deps_build_order [OF run this] run show ?thesis by auto
qed

text \<open>
  C5. The table of dependents is the transpose of the expanded dependencies: it has an entry
  for exactly the build targets, and a target occurs in the entry of another one exactly if
  it depends on it.
\<close>

theorem analyze_deps_dependents:
  assumes "analyze_deps expand_deps_generation order bt db = Inr (db', ans, sc)" and "distinct bt"
    and "\<And>d. mset (order d) = mset d"
  shows "(dget sc x \<noteq> None \<longleftrightarrow> x \<in> set bt) \<and>
    (\<forall>ys. dget sc x = Some ys \<longrightarrow> distinct ys \<and> set ys = {k \<in> set bt. (k, x) \<in> (dep_rel bt db)\<^sup>+})"
  by (rule dependents_of [OF assms])

theorem analyze_deps_dependents_witness:
  "\<exists>db' ans sc ys. blade_analyze id diamond_keys diamond = Inr (db', ans, sc) \<and>
     dget sc k_base = Some ys \<and> set ys = {k \<in> set diamond_keys. (k, k_base) \<in> (dep_rel diamond_keys diamond)\<^sup>+}"
proof -
  obtain db' ans sc where run: "blade_analyze id diamond_keys diamond = Inr (db', ans, sc)"
    by (rule diamond_run)
  have d: "distinct diamond_keys" and b: "k_base \<in> set diamond_keys" by code_simp+
  have "dget sc k_base \<noteq> None"
    using analyze_deps_dependents [OF run d, THEN conjunct1] b by (simp only: id_apply simp_thms)
  then obtain ys where ys: "dget sc k_base = Some ys" by blast
  then have "set ys = {k \<in> set diamond_keys. (k, k_base) \<in> (dep_rel diamond_keys diamond)\<^sup>+}"
    using analyze_deps_dependents [OF run d, THEN conjunct2] by (simp only: id_apply simp_thms)
  with run ys show ?thesis by blast
qed

text \<open>
  C6. A successful analysis means that every direct dependency is allowed: it lies in the
  same directory, or is public, or lists the dependent in its visibility.
\<close>

theorem analyze_deps_respects_visibility:
  assumes "analyze_deps expand_deps_generation order bt db = Inr (db', ans, sc)"
    and "dget db k = Some t" and "k \<in> set bt" and "d \<in> set (t_expanded_deps t)"
  shows "\<exists>u. d \<in> set bt \<and> dget db d = Some u \<and>
    (fst k = fst d \<or> t_visibility u = Public \<or> (\<exists>ks. t_visibility u = VisibleTo ks \<and> k \<in> set ks))"
proof -
  have "d \<in> set (direct_deps bt db k)" using assms(2-4) by (simp add: direct_deps_def dget_bt_view)
  then have al: "allowed (bt_view bt db) k d"
    using expanded_deps_of(5) [OF analyze_depsD(1) [OF assms(1)] assms(3)] by blast
  then have "d \<in> set bt" by (rule allowed_present)
  with al show ?thesis
    by (auto simp: allowed_def check_dep_visibility_def dget_bt_view
        split: option.splits if_splits visibility.splits)
qed

theorem analyze_deps_respects_visibility_witness:
  "\<exists>u. k_left \<in> set diamond_keys \<and> dget diamond k_left = Some u \<and>
    (fst k_app = fst k_left \<or> t_visibility u = Public \<or>
      (\<exists>ks. t_visibility u = VisibleTo ks \<and> k_app \<in> set ks))"
proof -
  obtain db' ans sc where run: "blade_analyze id diamond_keys diamond = Inr (db', ans, sc)"
    by (rule diamond_run)
  obtain t where t: "dget diamond k_app = Some t" "k_left \<in> set (t_expanded_deps t)"
    by (simp add: diamond_def sample_target_def)
  have "k_app \<in> set diamond_keys" by (simp add: diamond_keys_def)
  from analyze_deps_respects_visibility [OF run t(1) this t(2)] show ?thesis .
qed

end
