(* ===== verification/Target_Facts.thy ===== *)
theory Target_Facts
  imports Target_Ops
begin

text \<open>
  Properties of the base class of targets: the constructor stores the meaning of the dependency strings,
  keys and dependency strings round-trip, a source file belongs to one library only, and
  the table of output files.
\<close>

section \<open>The constructor\<close>

lemma extends_registered:
  assumes "extends b b'" and "k \<in> set (dkeys (b_target_database b))"
  shows "k \<in> set (dkeys (b_target_database b'))"
proof -
  obtain t where "dget (b_target_database b) k = Some t" using dget_present [OF assms(2)] ..
  then have "dget (b_target_database b') k = Some t" using assms(1) grows_dget unfolding extends_def by blast
  then show ?thesis using dget_None [of "b_target_database b'" k] by simp
qed

lemma init_target_dep_eq:
  "init_target_dep d (t, b) = rbind (unify_dep t d b) (\<lambda>r. Inr (add_dep (fst r) t, snd r))"
  by (simp add: init_target_dep_def case_prod_unfold)

lemma init_target_deps_ok:
  assumes "rfold init_target_dep deps (t, b) = Inr (u, b')"
  shows "list_all (\<lambda>d. dep_key (t_path t) d \<noteq> None) deps \<and>
    u = t\<lparr>t_expanded_deps := fold add_new (map (\<lambda>d. the (dep_key (t_path t) d)) deps) (t_expanded_deps t),
          t_deps := fold add_new (map (\<lambda>d. the (dep_key (t_path t) d)) deps) (t_deps t)\<rparr> \<and>
    extends b b' \<and>
    (\<forall>d \<in> set deps. startswith d ''#'' \<longrightarrow> (''#'', tl d) \<in> set (dkeys (b_target_database b')))"
  using assms
proof (induction deps arbitrary: t b)
  case (Cons d deps)
  obtain r where r: "unify_dep t d b = Inr r" "rfold init_target_dep deps (add_dep (fst r) t, snd r) = Inr (u, b')"
    using Cons.prems by (auto simp: init_target_dep_eq rbind_eq_Inr)
  obtain k b1 where "r = (k, b1)" by (cases r)
  with r have k: "unify_dep t d b = Inr (k, b1)" and rest: "rfold init_target_dep deps (add_dep k t, b1) = Inr (u, b')"
    by simp_all
  note IH = Cons.IH [OF rest]
  have "t_path (add_dep k t) = t_path t" by (simp add: add_dep_def)
  moreover have "dep_key (t_path t) d = Some k" by (rule unify_dep_ok(1) [OF k])
  moreover have "extends b b'" using extends_trans [OF unify_dep_ok(2) [OF k]] IH by blast
  moreover have "(''#'', tl d) \<in> set (dkeys (b_target_database b'))" if "startswith d ''#''"
    using unify_dep_system [OF k that] IH extends_registered by blast
  ultimately show ?case using IH by (auto simp: add_dep_def)
qed simp

lemma init_visibility_item_ok:
  assumes "init_visibility_item v (t, b) = Inr (u, b')"
  shows "\<exists>vis. u = t\<lparr>t_visibility := vis\<rparr>" and "extends b b'"
  using assms by (auto simp: init_visibility_item_def rbind_eq_Inr dest: unify_dep_ok split: pyval.splits)

lemma init_visibility_ok:
  assumes "init_visibility visibility t b = Inr (u, b')"
  shows "(\<exists>vis. u = t\<lparr>t_visibility := vis\<rparr>) \<and> extends b b'"
proof -
  let ?P = "\<lambda>tb. (\<exists>vis. fst tb = t\<lparr>t_visibility := vis\<rparr>) \<and> extends b (snd tb)"
  have fold: "?P ub" if "rfold init_visibility_item vs (t\<lparr>t_visibility := VisibleTo []\<rparr>, b) = Inr ub" for vs ub
  proof (rule rfold_invariant [OF that])
    fix x :: pyval and p q :: "target \<times> blade"
    assume p: "?P p" and q: "init_visibility_item x p = Inr q"
    obtain t1 b1 t2 b2 where pq: "p = (t1, b1)" "q = (t2, b2)" by (cases p, cases q)
    from p q have "extends b b2"
      unfolding pq by (auto dest: init_visibility_item_ok(2) intro: extends_trans)
    moreover from p init_visibility_item_ok(1) [OF q [unfolded pq]]
    have "\<exists>vis. t2 = t\<lparr>t_visibility := vis\<rparr>" unfolding pq by auto
    ultimately show "?P q" by (simp add: pq)
  qed auto
  have unchanged: "\<exists>vis. t = t\<lparr>t_visibility := vis\<rparr>" by (rule exI [where x = "t_visibility t"]) simp
  show ?thesis
    using assms fold [of "var_to_list visibility" "(u, b')"] unchanged
    by (auto simp: init_visibility_def split: if_splits)
qed

lemma new_target_ok:
  assumes "new_target c name ty srcs b = Inr t"
  shows "t_class t = c" "t_key t = (b_current_source_path b, name)" "t_fullname t = show_key (t_key t)"
    "t_name t = name" "t_path t = b_current_source_path b" "t_type t = ty" "t_srcs t = srcs" "t_deps t = []"
    "t_expanded_deps t = []" "t_rules t = []" "t_gen_headers t = None"
  using assms by (auto simp: new_target_def rbind_eq_Inr)

lemma target_init_extends:
  assumes "target_init c name ty srcs deps visibility kwargs b = Inr (t, b')"
  shows "extends b b'"
proof -
  obtain t1 b1 t2 b2 where b1: "begin_target c name ty srcs kwargs b = Inr (t1, b1)"
    and b2: "rfold init_target_dep deps (t1, b1) = Inr (t2, b2)" and vis: "init_visibility visibility t2 b2 = Inr (t, b')"
    using assms by (auto simp: target_init_def init_target_deps_def rbind_eq_Inr)
  have "extends b b1" by (rule begin_target_ok(5) [OF b1])
  moreover have "extends b1 b2" using init_target_deps_ok [OF b2] by blast
  moreover have "extends b2 b'" using init_visibility_ok [OF vis] by blast
  ultimately show ?thesis by (blast intro: extends_trans)
qed

lemma target_init_path:
  assumes "target_init c name ty srcs deps visibility kwargs b = Inr (t, b')"
  shows "t_path t = b_current_source_path b"
proof -
  obtain t1 b1 t2 b2 where b1: "begin_target c name ty srcs kwargs b = Inr (t1, b1)"
    and b2: "rfold init_target_dep deps (t1, b1) = Inr (t2, b2)" and vis: "init_visibility visibility t2 b2 = Inr (t, b')"
    using assms by (auto simp: target_init_def init_target_deps_def rbind_eq_Inr)
  show ?thesis
    using new_target_ok(5) [OF begin_target_ok(1) [OF b1]] init_target_deps_ok [OF b2] init_visibility_ok [OF vis] by auto
qed

lemma dup_step_empty: "fst (fold dup_step xs (dups, seen)) = [] \<longleftrightarrow> dups = [] \<and> distinct xs \<and> set xs \<inter> set seen = {}"
  by (induction xs arbitrary: dups seen) (auto simp: dup_step_def)

lemma check_srcs_ok:
  assumes "check_srcs t b = Inr b'"
  obtains config where "distinct (t_srcs t)" and "get_config (b_config b) ''global_config'' = Inr config"
    and "rfold (check_src (dgetd config ''duplicated_source_action'' PyNone) t) (t_srcs t) b = Inr b'"
  using assms by (auto simp: check_srcs_def rbind_eq_Inr dup_step_empty split: if_splits)

text \<open>
  C35. A target whose constructor returns is well-formed: its key is the current directory and
  its name, which has no directory part; no source is listed twice; its dependencies
  are the keys the dependency strings mean, in order and without repetition, and are also the initial
  expanded dependencies; every system library among them is registered; and the constructor
  only adds entries to the database, keeping it a database of objects under their own keys.
\<close>

theorem target_init_well_formed:
  assumes "target_init c name ty srcs deps visibility kwargs b = Inr (t, b')"
  shows "t_key t = (b_current_source_path b, name) \<and> slash \<notin> set name \<and> kwargs = [] \<and>
    t_srcs t = srcs \<and> distinct srcs \<and>
    map Some (t_deps t) = stable_unique (map (dep_key (b_current_source_path b)) deps) \<and>
    t_expanded_deps t = t_deps t \<and>
    (\<forall>d \<in> set deps. startswith d ''#'' \<longrightarrow> (''#'', tl d) \<in> set (dkeys (b_target_database b'))) \<and>
    grows b b'"
proof -
  obtain t1 b1 t2 b2 where b1: "begin_target c name ty srcs kwargs b = Inr (t1, b1)"
    and b2: "rfold init_target_dep deps (t1, b1) = Inr (t2, b2)" and vis: "init_visibility visibility t2 b2 = Inr (t, b')"
    using assms by (auto simp: target_init_def init_target_deps_def rbind_eq_Inr)
  note nt = new_target_ok [OF begin_target_ok(1) [OF b1]]
  note deps = init_target_deps_ok [OF b2]
  let ?keys = "map (\<lambda>d. the (dep_key (b_current_source_path b) d)) deps"
  have t2: "t_deps t2 = stable_unique ?keys" "t_expanded_deps t2 = stable_unique ?keys"
    using deps nt by (auto simp: fold_add_new stable_unique_def)
  have "map Some ?keys = map (dep_key (b_current_source_path b)) deps"
    using deps nt by (auto simp: list_all_iff)
  then have keys: "map Some (stable_unique ?keys) = stable_unique (map (dep_key (b_current_source_path b)) deps)"
    by (simp only: stable_unique_map_inj [OF inj_Some, symmetric])
  obtain v where t: "t = t2\<lparr>t_visibility := v\<rparr>" and ext: "extends b2 b'"
    using init_visibility_ok [OF vis] by blast
  have "grows b b'"
    using begin_target_ok(5) [OF b1] deps ext by (auto simp: extends_def intro: grows_trans)
  moreover have "(''#'', tl d) \<in> set (dkeys (b_target_database b'))"
    if "d \<in> set deps" "startswith d ''#''" for d
    using deps that ext extends_registered by blast
  ultimately show ?thesis
    using begin_target_ok [OF b1] check_srcs_ok [OF begin_target_ok(2) [OF b1]] nt deps t2 keys
    by (simp add: t) blast
qed

text \<open>
  C36. The string \<open>//path:name\<close> of a key in normal form, as the messages of Blade print it, is
  read back as that key from every directory, and \<open>:name\<close> is read as the key in the
  directory of the target itself; neither changes the manager.
\<close>

theorem unify_dep_roundtrip:
  assumes "normpath p = p" and "CHR '':'' \<notin> set n"
  shows "unify_dep t (''//'' @ show_key (p, n)) b = Inr ((p, n), b) \<and>
    unify_dep (t\<lparr>t_path := p\<rparr>) ('':'' @ n) b = Inr ((p, n), b)"
proof -
  have "rsplit1 (CHR '':'') (p @ CHR '':'' # n) = Some (p, n)" using assms(2) by (simp add: rsplit1_eq_Some)
  then show ?thesis using assms(1) by (simp add: unify_dep_def show_key_def startswith_def)
qed

section \<open>Sources and the targets that own them\<close>

definition source_files :: "target \<Rightarrow> string set" where
  "source_files t = source_file_path t ` set (t_srcs t)"

text \<open>An exclusive claim on a source file is never given up when the action is \<open>'error'\<close>.\<close>

lemma check_src_keeps_claim:
  assumes "check_src (PyStr ''error'') t s b = Inr b'" and "dget (b_src_target_map b) f = Some (n, False)"
  shows "dget (b_src_target_map b') f = Some (n, False)"
  using assms by (auto simp: check_src_def Let_def split: if_splits option.splits)

lemma check_src_claims:
  assumes "check_src (PyStr ''error'') t s b = Inr b'" and "\<not> allow_duplicate_source (t_class t)"
  shows "dget (b_src_target_map b') (source_file_path t s) = Some (t_fullname t, False)"
  using assms by (auto simp: check_src_def source_file_path_def Let_def split: if_splits option.splits)

lemma check_src_list_keeps:
  assumes "rfold (check_src (PyStr ''error'') t) ss b = Inr b'" and "dget (b_src_target_map b) f = Some (n, False)"
  shows "dget (b_src_target_map b') f = Some (n, False)"
  by (rule rfold_invariant [OF assms(1), where P = "\<lambda>b. dget (b_src_target_map b) f = Some (n, False)"])
     (auto simp: assms(2) intro: check_src_keeps_claim)

lemma check_src_list_claims:
  assumes "rfold (check_src (PyStr ''error'') t) ss b = Inr b'" and "\<not> allow_duplicate_source (t_class t)"
    and "s \<in> set ss"
  shows "dget (b_src_target_map b') (source_file_path t s) = Some (t_fullname t, False)"
proof -
  obtain as bs where "ss = as @ s # bs" using assms(3) by (metis split_list)
  then obtain b1 b2 where b1: "check_src (PyStr ''error'') t s b1 = Inr b2"
    and b2: "rfold (check_src (PyStr ''error'') t) bs b2 = Inr b'"
    using assms(1) by (auto simp: rfold_append rbind_eq_Inr)
  show ?thesis by (rule check_src_list_keeps [OF b2 check_src_claims [OF b1 assms(2)]])
qed

abbreviation duplicates_are_errors :: "blade \<Rightarrow> bool" where
  "duplicates_are_errors b \<equiv> config_value b ''global_config'' ''duplicated_source_action'' = Inr (PyStr ''error'')"

lemma check_srcs_error_mode:
  assumes "duplicates_are_errors b" and "check_srcs t b = Inr b'"
  shows "rfold (check_src (PyStr ''error'') t) (t_srcs t) b = Inr b'" and "duplicates_are_errors b'"
proof -
  show "rfold (check_src (PyStr ''error'') t) (t_srcs t) b = Inr b'"
    using assms by (auto simp: config_value_def rbind_eq_Inr dgetd_def elim: check_srcs_ok)
  show "duplicates_are_errors b'"
    using assms(1) check_srcs_extends [OF assms(2)] by (simp add: config_value_def)
qed

lemma check_srcs_list_claims:
  assumes "rfold check_srcs ts b = Inr b'" and "duplicates_are_errors b"
    and "t \<in> set ts" and "\<not> allow_duplicate_source (t_class t)" and "f \<in> source_files t"
  shows "dget (b_src_target_map b') f = Some (t_fullname t, False)"
proof -
  obtain as bs where "ts = as @ t # bs" using assms(3) by (metis split_list)
  then obtain b1 b2 where as: "rfold check_srcs as b = Inr b1" and t: "check_srcs t b1 = Inr b2"
    and bs: "rfold check_srcs bs b2 = Inr b'"
    using assms(1) by (auto simp: rfold_append rbind_eq_Inr)
  have b1: "duplicates_are_errors b1"
    by (rule rfold_invariant [OF as]) (use assms(2) check_srcs_error_mode(2) in auto)
  note t = check_srcs_error_mode [OF b1 t]
  have "dget (b_src_target_map b2) f = Some (t_fullname t, False)"
    using assms(5) check_src_list_claims [OF t(1) assms(4)] by (auto simp: source_files_def)
  then show ?thesis
    using rfold_invariant [OF bs, where
        P = "\<lambda>b. duplicates_are_errors b \<and> dget (b_src_target_map b) f = Some (t_fullname t, False)"]
      t(2) check_srcs_error_mode check_src_list_keeps by blast
qed

text \<open>
  C37. When duplicated sources are configured to be errors and the sources of a sequence of targets
  pass the check, no source file, as a normalised path, belongs to two different
  targets that both disallow shared sources (all but C++ binaries, tests and generated
  rules).
\<close>

theorem sources_have_one_owner:
  assumes "rfold check_srcs ts b = Inr b'" and "duplicates_are_errors b"
    and "t \<in> set ts" and "u \<in> set ts" and "t_fullname t \<noteq> t_fullname u"
    and "\<not> allow_duplicate_source (t_class t)" and "\<not> allow_duplicate_source (t_class u)"
  shows "source_files t \<inter> source_files u = {}"
  using check_srcs_list_claims [OF assms(1,2,3,6)] check_srcs_list_claims [OF assms(1,2,4,7)] assms(5)
  by fastforce

section \<open>The table of output files\<close>

definition has_table :: "target \<Rightarrow> bool" where
  "has_table t \<longleftrightarrow> is_ok (targets_dict t) \<and> dget (t_data t) ''default_target'' \<noteq> None"

text \<open>
  The contract of the table: a stored output is found under its label, and without a label
  the first one that is not empty is found.
\<close>

locale output_table =
  fixes add add_default :: "string \<Rightarrow> pyval \<Rightarrow> target \<Rightarrow> target result"
    and get :: "target \<Rightarrow> string \<Rightarrow> pyval result" and ok :: "target \<Rightarrow> bool"
  assumes add_total: "ok t \<Longrightarrow> \<exists>u. add l v t = Inr u \<and> ok u"
    and add_label: "ok t \<Longrightarrow> add l v t = Inr u \<Longrightarrow> m \<noteq> [] \<Longrightarrow> get u m = (if m = l then Inr v else get t m)"
    and add_default_value: "ok t \<Longrightarrow> add l v t = Inr u \<Longrightarrow> get t [] = Inr w \<Longrightarrow> get u [] = Inr (if truthy w then w else v)"
    and set_default: "ok t \<Longrightarrow> add_default l v t = Inr u \<Longrightarrow> get u [] = Inr v"
begin

lemma adds_keep_default:
  assumes "ok t" and "get t [] = Inr w" and "truthy w" and "rfold (\<lambda>e. add (fst e) (snd e)) es t = Inr u"
  shows "get u [] = Inr w"
proof -
  have "ok u \<and> get u [] = Inr w"
  proof (rule rfold_invariant [OF assms(4)])
    fix e t1 t2 assume t1: "ok t1 \<and> get t1 [] = Inr w" and t2: "add (fst e) (snd e) t1 = Inr t2"
    then have "get t2 [] = Inr w" using add_default_value [of t1 "fst e" "snd e" t2 w] assms(3) by simp
    moreover have "ok t2" using t1 t2 add_total [of t1 "fst e" "snd e"] by auto
    ultimately show "ok t2 \<and> get t2 [] = Inr w" by blast
  qed (use assms in simp)
  then show ?thesis ..
qed

lemma adds_label:
  assumes "ok t" and "m \<noteq> []"
  shows "\<exists>u. rfold (\<lambda>e. add (fst e) (snd e)) es t = Inr u \<and> ok u \<and>
    get u m = (case map_of (rev es) m of Some v \<Rightarrow> Inr v | None \<Rightarrow> get t m)"
  using assms(1)
proof (induction es arbitrary: t)
  case (Cons e es)
  obtain t1 where t1: "add (fst e) (snd e) t = Inr t1" "ok t1" using add_total [OF Cons.prems] by blast
  have m: "get t1 m = (if m = fst e then Inr (snd e) else get t m)"
    by (rule add_label [OF Cons.prems t1(1) assms(2)])
  have "map_of (rev (e # es)) m =
      (case map_of (rev es) m of Some v \<Rightarrow> Some v | None \<Rightarrow> if m = fst e then Some (snd e) else None)"
    by (cases e) (simp add: map_add_def split: option.split)
  then show ?case using Cons.IH [OF t1(2)] m by (auto simp: t1(1) split: option.splits)
qed simp

end

lemma targets_dict_set_default [simp]:
  "targets_dict (set_data ''default_target'' v t) = targets_dict t"
  by (simp add: targets_dict_def set_data_def dindex_def)

lemma targets_dict_set [simp]: "targets_dict (set_data ''targets'' (PyDict d) t) = Inr d"
  by (simp add: targets_dict_def set_data_def)

lemma default_set [simp]:
  "dget (t_data (set_data ''targets'' v t)) ''default_target'' = dget (t_data t) ''default_target''"
  "dget (t_data (set_data ''default_target'' v t)) ''default_target'' = Some v"
  by (simp_all add: set_data_def)

lemmas target_file_defs = has_table_def add_target_file_def add_default_target_file_def get_target_file_def

lemma target_vars_are_files:
  "add_target_var = add_target_file" "add_default_target_var = add_default_target_file"
  "get_target_var = get_target_file"
  by (simp_all add: fun_eq_iff add_target_var_def add_default_target_var_def get_target_var_def target_file_defs)

lemma add_target_file_total:
  assumes "has_table t"
  shows "\<exists>u. add_target_file l v t = Inr u \<and> has_table u"
proof -
  obtain d w where "targets_dict t = Inr d" and "dget (t_data t) ''default_target'' = Some w"
    using assms by (auto simp: has_table_def is_ok_def split: sum.splits)
  then show ?thesis
    by (cases "truthy w") (simp_all add: add_target_file_def has_table_def is_ok_def)
qed

interpretation files: output_table add_target_file add_default_target_file get_target_file has_table
proof (unfold_locales, goal_cases)
  case (1 t l v)
  then show ?case by (rule add_target_file_total)
qed (auto simp: target_file_defs is_ok_def rbind_eq_Inr Let_def dgetd_def split: sum.splits)

interpretation vars: output_table add_target_var add_default_target_var get_target_var has_table
  unfolding target_vars_are_files by (rule files.output_table_axioms)

lemma new_target_table:
  assumes "new_target c name ty srcs b = Inr t"
  shows "has_table t" and "get_target_file t [] = Inr (PyStr [])" and "l \<noteq> [] \<Longrightarrow> get_target_file t l = Inr (PyStr [])"
  using assms
  by (auto simp: new_target_def rbind_eq_Inr target_file_defs targets_dict_def is_ok_def dindex_def dgetd_def)

text \<open>
  The output files of a new target: after any sequence of outputs was added under labels, each
  label gives the output that was added last under it, a label that was not used gives the empty
  string, and no label gives the first output (outputs are not empty).
\<close>

theorem target_files_lookup:
  assumes new: "new_target c name ty srcs b = Inr t"
    and labels: "\<And>e. e \<in> set (first # rest) \<Longrightarrow> fst e \<noteq> [] \<and> truthy (snd e)"
  shows "\<exists>u. rfold (\<lambda>e. add_target_file (fst e) (snd e)) (first # rest) t = Inr u \<and>
    get_target_file u [] = Inr (snd first) \<and>
    (\<forall>l. l \<noteq> [] \<longrightarrow> get_target_file u l =
       Inr (case map_of (rev (first # rest)) l of Some v \<Rightarrow> v | None \<Rightarrow> PyStr []))"
proof -
  note t = new_target_table [OF new]
  obtain t1 where t1: "add_target_file (fst first) (snd first) t = Inr t1" "has_table t1"
    using add_target_file_total [OF t(1)] by blast
  have default: "get_target_file t1 [] = Inr (snd first)"
    using files.add_default_value [OF t(1) t1(1) t(2)] by simp
  have l: "\<exists>u. rfold (\<lambda>e. add_target_file (fst e) (snd e)) (first # rest) t = Inr u \<and> has_table u \<and>
      get_target_file u l = (case map_of (rev (first # rest)) l of Some v \<Rightarrow> Inr v | None \<Rightarrow> Inr (PyStr []))"
    if "l \<noteq> []" for l using files.adds_label [OF t(1) that, of "first # rest"] unfolding t(3) [OF that] .
  obtain u where u: "rfold (\<lambda>e. add_target_file (fst e) (snd e)) (first # rest) t = Inr u"
    using l [of "''x''"] by auto
  then have "get_target_file u [] = Inr (snd first)"
    using files.adds_keep_default [OF t1(2) default] labels [of first] by (simp add: t1(1))
  moreover have "get_target_file u k = Inr (case map_of (rev (first # rest)) k of Some v \<Rightarrow> v | None \<Rightarrow> PyStr [])"
    if "k \<noteq> []" for k using l [OF that] u by (auto split: option.splits)
  ultimately show ?thesis using u by blast
qed

section \<open>Witnesses\<close>

definition sample_blade :: blade where
  "sample_blade =
     blade_init [''app:main''] ''/opt/blade'' ''/w'' ''build64_release'' ''/w'' [] ''build'' []
       (replace_config ''global_config'' [(''duplicated_source_action'', PyStr ''error'')] init_config)
     \<lparr>b_current_source_path := ''app''\<rparr>"

abbreviation sample_target_init :: "(target \<times> blade) result" where
  "sample_target_init \<equiv>
     target_init CcLibraryC ''util'' ''cc_library'' [''a.cc'', ''b.cc''] ['':base'', ''//lib/x:y'', ''#pthread'', '':base'']
       PyNone [] sample_blade"

theorem target_init_well_formed_witness:
  "\<exists>t b'. sample_target_init = Inr (t, b') \<and>
     t_deps t = [(''app'', ''base''), (''lib/x'', ''y''), (''#'', ''pthread'')] \<and>
     (''#'', ''pthread'') \<in> set (dkeys (b_target_database b'))"
proof -
  have "is_ok sample_target_init" by code_simp
  then obtain t b' where run: "sample_target_init = Inr (t, b')" by (auto simp: is_ok_def split: sum.splits)
  have keys: "stable_unique (map (dep_key (b_current_source_path sample_blade)) ['':base'', ''//lib/x:y'', ''#pthread'', '':base'']) =
      map Some [(''app'', ''base''), (''lib/x'', ''y''), (''#'', ''pthread'')]" by code_simp
  have "map Some (t_deps t) = map Some [(''app'', ''base''), (''lib/x'', ''y''), (''#'', ''pthread'')]"
    using target_init_well_formed [OF run] keys by simp
  then have "t_deps t = [(''app'', ''base''), (''lib/x'', ''y''), (''#'', ''pthread'')]"
    by (simp only: inj_map_eq_map [OF inj_Some])
  moreover have "(''#'', ''pthread'') \<in> set (dkeys (b_target_database b'))"
    using target_init_well_formed [OF run] by (simp add: startswith_def)
  ultimately show ?thesis using run by blast
qed

definition sample_library :: "string \<Rightarrow> string list \<Rightarrow> target" where
  "sample_library name srcs =
     \<lparr>t_class = CcLibraryC, t_key = (''app'', name), t_fullname = show_key (''app'', name), t_name = name,
      t_path = ''app'', t_type = ''cc_library'', t_srcs = srcs, t_deps = [], t_expanded_deps = [],
      t_visibility = Public, t_env_name = None, t_data = [], t_rules = [], t_gen_headers = None\<rparr>"

theorem unify_dep_roundtrip_witness:
  "unify_dep (sample_library ''a'' []) (''//'' @ show_key (''lib/x'', ''y'')) sample_blade =
     Inr ((''lib/x'', ''y''), sample_blade)"
proof -
  have "normpath ''lib/x'' = ''lib/x''" by code_simp
  moreover have "CHR '':'' \<notin> set ''y''" by simp
  ultimately show ?thesis using unify_dep_roundtrip by blast
qed

theorem sources_have_one_owner_witness:
  "is_ok (rfold check_srcs [sample_library ''a'' [''a.cc''], sample_library ''b'' [''b.cc'', ''c/d.cc'']] sample_blade) \<and>
   source_files (sample_library ''a'' [''a.cc'']) \<inter> source_files (sample_library ''b'' [''b.cc'', ''c/d.cc'']) = {}"
proof -
  let ?a = "sample_library ''a'' [''a.cc'']" and ?b = "sample_library ''b'' [''b.cc'', ''c/d.cc'']"
  have ok: "is_ok (rfold check_srcs [?a, ?b] sample_blade)" by code_simp
  then obtain b' where run: "rfold check_srcs [?a, ?b] sample_blade = Inr b'"
    by (auto simp: is_ok_def split: sum.splits)
  have "duplicates_are_errors sample_blade" by code_simp
  moreover have "t_fullname ?a \<noteq> t_fullname ?b" by code_simp
  moreover have "\<not> allow_duplicate_source (t_class ?a)" "\<not> allow_duplicate_source (t_class ?b)" by code_simp+
  ultimately show ?thesis using ok sources_have_one_owner [OF run, of ?a ?b] by simp
qed

theorem target_files_lookup_witness:
  "\<exists>t u. new_target CcLibraryC ''util'' ''cc_library'' [] sample_blade = Inr t \<and>
     rfold (\<lambda>e. add_target_file (fst e) (snd e)) [(''a'', PyStr ''libutil.a''), (''so'', PyStr ''libutil.so'')] t = Inr u \<and>
     get_target_file u [] = Inr (PyStr ''libutil.a'') \<and> get_target_file u ''so'' = Inr (PyStr ''libutil.so'')"
proof -
  have "is_ok (new_target CcLibraryC ''util'' ''cc_library'' [] sample_blade)" by code_simp
  then obtain t where new: "new_target CcLibraryC ''util'' ''cc_library'' [] sample_blade = Inr t"
    by (auto simp: is_ok_def split: sum.splits)
  show ?thesis
    using target_files_lookup [OF new, of "(''a'', PyStr ''libutil.a'')" "[(''so'', PyStr ''libutil.so'')]"] new
    by fastforce
qed

end
