(* ===== verification/Load_Facts.thy ===== *)
theory Load_Facts
  imports Loader Target_Facts
begin

text \<open>
  The properties of loading: the related targets are exactly the targets that can be reached from the
  command targets through dependencies, all of them are in the database, and loading ends
  when there are finitely many directories.
\<close>

section \<open>What a BUILD file does\<close>

text \<open>
  The rule functions of a \<open>BUILD\<close> file (\<open>cc_library\<close>, \<open>proto_library\<close> and the others) construct a target
  object and register it. The interface of loading is that an executed file only adds
  targets, and that popping the work list gives one of its elements.
\<close>

record rule_call =
  rc_class :: tclass
  rc_name :: string
  rc_type :: string
  rc_srcs :: "string list"
  rc_deps :: "string list"
  rc_visibility :: pyval
  rc_kwargs :: "(string, pyval) dict"

definition call_rule :: "rule_call \<Rightarrow> blade \<Rightarrow> blade result" where
  "call_rule c b =
     rbind (target_init (rc_class c) (rc_name c) (rc_type c) (rc_srcs c) (rc_deps c) (rc_visibility c) (rc_kwargs c) b)
       (\<lambda>r. register_target (fst r) (snd r))"

locale build_tree =
  fixes pick :: "key list \<Rightarrow> key" and tr :: tree
  assumes program: "tr_program tr f b = Inr b' \<Longrightarrow> extends b b'"
    and pick: "xs \<noteq> [] \<Longrightarrow> pick xs \<in> set xs"
begin

lemma load_build_file_ok:
  assumes "load_build_file tr d (p, b) = Inr (p', b')"
  shows "extends b b'"
    and "p' = p \<and> b' = b \<or> p' = normpath d # p \<and> normpath d \<notin> set p \<and> tr_exists tr (normpath d)"
proof -
  let ?d = "normpath d"
  have "extends b b' \<and>
    (p' = p \<and> b' = b \<or> p' = ?d # p \<and> ?d \<notin> set p \<and> tr_exists tr ?d)"
  proof (cases "?d \<in> set p \<or> ?d = ''#''")
    case True
    then show ?thesis using assms by (simp add: load_build_file_def)
  next
    case False
    then obtain b1 where b1: "tr_program tr (path_join ?d ''BUILD'') (set_current_source_path ?d b) = Inr b1"
      and b': "b' = set_current_source_path (b_current_source_path b) b1" "p' = ?d # p" "tr_exists tr ?d"
      using assms by (auto simp: load_build_file_def Let_def split: if_splits sum.splits py_error.splits)
    have "extends b b'"
      using program [OF b1] by (simp add: b' extends_def grows_def same_setting_def set_current_source_path_def)
    then show ?thesis using False b' by simp
  qed
  then show "extends b b'" and "p' = p \<and> b' = b \<or> p' = ?d # p \<and> ?d \<notin> set p \<and> tr_exists tr ?d"
    by simp_all
qed

end

text \<open>The targets a database knows for the dependencies of a target.\<close>

definition needs :: "blade \<Rightarrow> (key \<times> key) set" where
  "needs b = {(k, d). \<exists>t. dget (b_target_database b) k = Some t \<and> d \<in> set (t_expanded_deps t)}"

lemma needs_mono: "extends b b' \<Longrightarrow> needs b \<subseteq> needs b'"
  using grows_dget [of b b'] unfolding needs_def extends_def by fast

definition closed_in :: "blade \<Rightarrow> key set \<Rightarrow> key set \<Rightarrow> bool" where
  "closed_in b R S \<longleftrightarrow>
     (\<forall>k \<in> R. \<exists>t. dget (b_target_database b) k = Some t \<and> set (t_expanded_deps t) \<subseteq> S)"

lemma closed_in_extends: "closed_in b R S \<Longrightarrow> extends b b' \<Longrightarrow> closed_in b' R S"
  using grows_dget [of b b'] unfolding closed_in_def extends_def by fast

lemma closed_in_mono: "closed_in b R S \<Longrightarrow> S \<subseteq> T \<Longrightarrow> closed_in b R T"
  unfolding closed_in_def by (meson subset_trans)

lemma set_fold_add_new: "set (fold add_new xs ys) = set ys \<union> set xs"
  by (induction xs arbitrary: ys) (auto simp: add_new_def)

lemma distinct_fold_add_new: "distinct ys \<Longrightarrow> distinct (fold add_new xs ys)"
  by (induction xs arbitrary: ys) (auto simp: add_new_def)

lemma set_remove1_insert: "insert x (set (remove1 x xs)) = insert x (set xs)"
  by (induction xs) auto

text \<open>
  What the work list leaves: everything cited or related is related, the related targets are closed under
  dependencies, and no smaller set would do.
\<close>

definition loop_result :: "key list \<Rightarrow> key list \<Rightarrow> blade \<Rightarrow> load_state \<Rightarrow> bool" where
  "loop_result cited related b r \<longleftrightarrow>
     (case r of (rel, _, b') \<Rightarrow>
        extends b b' \<and>
        (distinct related \<longrightarrow> distinct rel) \<and>
        (closed_in b (set related) (set related \<union> set cited) \<longrightarrow> closed_in b' (set rel) (set rel)) \<and>
        set related \<union> set cited \<subseteq> set rel \<and>
        (\<forall>S. set related \<union> set cited \<subseteq> S \<longrightarrow> needs b' `` S \<subseteq> S \<longrightarrow> set rel \<subseteq> S))"

context build_tree
begin

lemma loop_result_visit:
  assumes load: "load_build_file tr (fst k) (p, b) = Inr (p1, b1)" and t: "dget (b_target_database b1) k = Some t"
    and k: "k \<in> set cited" "k \<notin> set related"
    and next_cited: "cited' = fold add_new (filter (\<lambda>d. d \<notin> set (related @ [k])) (t_expanded_deps t)) (remove1 k cited)"
    and res: "loop_result cited' (related @ [k]) b1 r"
  shows "loop_result cited related b r"
proof -
  obtain rel p' b' where r: "r = (rel, p', b')" by (cases r)
  have b1: "extends b b1" by (rule load_build_file_ok(1) [OF load])
  have old: "set related \<union> set cited \<subseteq> set (related @ [k]) \<union> set cited'"
    by (auto simp: next_cited set_fold_add_new in_set_remove1)
  have new: "set cited' \<subseteq> set cited \<union> set (t_expanded_deps t)"
    using set_remove1_subset [of k cited] by (auto simp: next_cited set_fold_add_new)
  have closed: "closed_in b1 (set (related @ [k])) (set (related @ [k]) \<union> set cited')"
    if "closed_in b (set related) (set related \<union> set cited)"
  proof -
    have "closed_in b1 (set related) (set (related @ [k]) \<union> set cited')"
      using closed_in_mono [OF closed_in_extends [OF that b1] old] .
    moreover have "set (t_expanded_deps t) \<subseteq> set (related @ [k]) \<union> set cited'"
      by (auto simp: next_cited set_fold_add_new)
    ultimately show ?thesis using t by (simp add: closed_in_def)
  qed
  have least: "set rel \<subseteq> S" if S: "set related \<union> set cited \<subseteq> S" "needs b' `` S \<subseteq> S" for S
  proof -
    have "dget (b_target_database b') k = Some t"
      using res grows_dget [of b1 b' k t] t by (simp add: loop_result_def r extends_def)
    then have "set (t_expanded_deps t) \<subseteq> S" using S k(1) by (auto simp: needs_def)
    then have "set (related @ [k]) \<union> set cited' \<subseteq> S" using S(1) k(1) new by auto
    then show ?thesis using res S(2) by (simp add: loop_result_def r)
  qed
  have res': "extends b1 b'" "distinct (related @ [k]) \<longrightarrow> distinct rel"
    "closed_in b1 (set (related @ [k])) (set (related @ [k]) \<union> set cited') \<longrightarrow> closed_in b' (set rel) (set rel)"
    "set (related @ [k]) \<union> set cited' \<subseteq> set rel"
    using res unfolding loop_result_def r prod.case by blast+
  show ?thesis
    unfolding loop_result_def r prod.case
  proof (intro conjI impI allI)
    show "extends b b'" by (rule extends_trans [OF b1 res'(1)])
    show "distinct related \<Longrightarrow> distinct rel" using res'(2) k(2) by simp
    show "closed_in b (set related) (set related \<union> set cited) \<Longrightarrow> closed_in b' (set rel) (set rel)"
      using res'(3) closed by blast
    show "set related \<union> set cited \<subseteq> set rel" using res'(4) old by blast
  qed (rule least)
qed

lemma loop_result_skip:
  assumes "k \<in> set related" and "loop_result (remove1 k cited) related b r"
  shows "loop_result cited related b r"
proof -
  have with_k: "set related \<union> X = set related \<union> insert k X" for X using assms(1) by blast
  have "set related \<union> set (remove1 k cited) = set related \<union> set cited"
    by (simp only: with_k [of "set (remove1 k cited)"] with_k [of "set cited"] set_remove1_insert)
  then show ?thesis using assms(2) by (simp add: loop_result_def)
qed

lemma load_loop_result:
  assumes "load_loop pick tr cited related p b = Some (Inr r)"
  shows "loop_result cited related b r"
proof -
  have "pick' = pick \<longrightarrow> tr' = tr \<longrightarrow> (\<forall>r. y = Inr r \<longrightarrow> loop_result cited related b r)"
    if "load_loop pick' tr' cited related p b = Some y" for pick' tr' y
    using that
  proof (rule load_loop.raw_induct [where P = "\<lambda>pick' tr' cited related p b y.
      pick' = pick \<longrightarrow> tr' = tr \<longrightarrow> (\<forall>r. y = Inr r \<longrightarrow> loop_result cited related b r)", rotated], intro impI allI)
    fix loop pick' tr' cited related p b y r
    assume IH: "\<And>pick' tr' cited related p b y. loop pick' tr' cited related p b = Some y \<Longrightarrow>
        pick' = pick \<longrightarrow> tr' = tr \<longrightarrow> (\<forall>r. y = Inr r \<longrightarrow> loop_result cited related b r)"
      and body: "(if cited = [] then Some (Inr (related, p, b))
        else let k = pick' cited; cited = remove1 k cited
             in if k \<in> set related then loop pick' tr' cited related p b
                else case load_build_file tr' (fst k) (p, b) of
                   Inl e \<Rightarrow> Some (Inl e)
                 | Inr (p, b) \<Rightarrow>
                     (case dget (b_target_database b) k of
                        None \<Rightarrow> Some (Inl (SystemExit (no_target_msg k b)))
                      | Some t \<Rightarrow>
                          let related = related @ [k]
                          in loop pick' tr' (fold add_new (filter (\<lambda>d. d \<notin> set related) (t_expanded_deps t)) cited)
                               related p b)) = Some y"
      and eqs: "pick' = pick" "tr' = tr" "y = Inr r"
    show "loop_result cited related b r"
    proof (cases "cited = []")
      case True
      then show ?thesis using body eqs by (auto simp: loop_result_def)
    next
      case False
      let ?k = "pick cited"
      have k: "?k \<in> set cited" by (rule pick [OF False])
      show ?thesis
      proof (cases "?k \<in> set related")
        case True
        then have "loop pick tr (remove1 ?k cited) related p b = Some (Inr r)" using body eqs False by (simp add: Let_def)
        then show ?thesis using IH loop_result_skip [OF True] by blast
      next
        case new: False
        then obtain p1 b1 t where load: "load_build_file tr (fst ?k) (p, b) = Inr (p1, b1)"
          and t: "dget (b_target_database b1) ?k = Some t"
          and cont: "loop pick tr (fold add_new (filter (\<lambda>d. d \<notin> set (related @ [?k])) (t_expanded_deps t)) (remove1 ?k cited))
             (related @ [?k]) p1 b1 = Some (Inr r)"
          using body eqs False by (auto simp: Let_def split: sum.splits option.splits)
        show ?thesis by (rule loop_result_visit [OF load t k new refl]) (use IH cont in blast)
      qed
    qed
  qed
  then show ?thesis using assms by blast
qed

text \<open>
  Loading ends: a directory is loaded once, then every step makes a target related or shortens the work
  list.
\<close>

lemma load_loop_total:
  assumes fin: "finite {d. tr_exists tr d}"
  shows "\<exists>r. load_loop pick tr cited related p b = Some r"
proof -
  let ?new_dirs = "\<lambda>(c, rel, p, b). card ({d. tr_exists tr d} - set p)"
  let ?new_keys = "\<lambda>(c, rel, p, b). card (set (dkeys (b_target_database b)) - set rel)"
  let ?pending = "\<lambda>(c, rel, p, b). length c"
  have "\<exists>r. load_loop pick tr (fst st) (fst (snd st)) (fst (snd (snd st))) (snd (snd (snd st))) = Some r"
    for st :: "key list \<times> key list \<times> string list \<times> blade"
  proof (induction st rule: wf_induct_rule [OF wf_measures [of "[?new_dirs, ?new_keys, ?pending]"]])
    case (1 st)
    obtain cited related p b where st: "st = (cited, related, p, b)" by (cases st)
    have IH: "\<exists>r. load_loop pick tr c' rel' p' b' = Some r"
      if "((c', rel', p', b'), st) \<in> measures [?new_dirs, ?new_keys, ?pending]" for c' rel' p' b'
      using 1 [OF that] by simp
    show ?case unfolding st fst_conv snd_conv
    proof (cases "cited = []")
      case True
      then show "\<exists>r. load_loop pick tr cited related p b = Some r" by (subst load_loop.simps) simp
    next
      case False
      let ?k = "pick cited"
      have k: "?k \<in> set cited" by (rule pick [OF False])
      then have shorter: "length (remove1 ?k cited) < length cited"
        using False by (simp add: length_remove1)
      have visit: "\<exists>r. load_loop pick tr c' (related @ [?k]) p' b' = Some r"
        if load: "load_build_file tr (fst ?k) (p, b) = Inr (p', b')" and t: "dget (b_target_database b') ?k = Some t"
          and k': "?k \<notin> set related" for c' p' b' t
      proof (rule IH)
        have "?k \<in> set (dkeys (b_target_database b'))" using t dget_None [of "b_target_database b'" ?k] by simp
        then have keys: "card (set (dkeys (b_target_database b')) - set (related @ [?k])) <
            card (set (dkeys (b_target_database b')) - set related)"
          using k' by (intro psubset_card_mono) auto
        have dirs: "card ({d. tr_exists tr d} - set (normpath (fst ?k) # p)) < card ({d. tr_exists tr d} - set p)"
          if "normpath (fst ?k) \<notin> set p" "tr_exists tr (normpath (fst ?k))"
          using fin that by (intro psubset_card_mono) auto
        show "((c', related @ [?k], p', b'), st) \<in> measures [?new_dirs, ?new_keys, ?pending]"
          using load_build_file_ok(2) [OF load] keys dirs unfolding st by (elim disjE) simp_all
      qed
      have skip: "\<exists>r. load_loop pick tr (remove1 ?k cited) related p b = Some r"
        by (rule IH) (simp add: st shorter)
      show "\<exists>r. load_loop pick tr cited related p b = Some r"
        using False skip visit by (subst load_loop.simps) (auto simp: Let_def split: sum.split option.split)
    qed
  qed
  from this [of "(cited, related, p, b)"] show ?thesis by simp
qed

lemma load_dirs_extends:
  assumes "rfold (load_build_file tr) dirs ([], b) = Inr (p, b')"
  shows "extends b b'"
proof -
  have "extends b (snd pb)" if "rfold (load_build_file tr) dirs ([], b) = Inr pb" for pb
  proof (rule rfold_invariant [OF that])
    fix d u v assume u: "extends b (snd u)" and v: "load_build_file tr d u = Inr v"
    obtain p1 b1 p2 b2 where "u = (p1, b1)" "v = (p2, b2)" by (cases u, cases v)
    then show "extends b (snd v)" using u v load_build_file_ok(1) [of d p1 b1 p2 b2] extends_trans by simp
  qed simp
  from this [OF assms] show ?thesis by simp
qed

lemma root_dirs_needs: "b_target_database (fold add_root_dir ks b) = b_target_database b"
  by (induction ks arbitrary: b) (simp_all add: add_root_dir_def Let_def)

lemma load_targets_ok:
  assumes "load_targets pick tr ids b = Some (Inr l)"
  shows "distinct (l_related l)" and "set (l_direct l) \<subseteq> set (l_all l)"
    and "set (l_related l) = (needs (l_blade l))\<^sup>* `` set (l_all l)"
    and "closed_in (l_blade l) (set (l_related l)) (set (l_related l))"
    and "grows b (l_blade l)"
proof -
  obtain direct dirs p b1 rel p' b' where dirs: "rfold (load_build_file tr) dirs ([], b) = Inr (p, b1)"
    and loop: "load_loop pick tr (fold add_new (dkeys (b_target_database b1)) direct) [] p b1 = Some (Inr (rel, p', b'))"
    and l: "l = \<lparr>l_direct = direct, l_all = fold add_new (dkeys (b_target_database b1)) direct, l_related = rel,
        l_blade = fold add_root_dir rel b'\<rparr>"
    using assms by (auto simp: load_targets_def Let_def rbind_eq_Inr split: sum.splits)
  note res = load_loop_result [OF loop, unfolded loop_result_def prod.case, simplified]
  have needs: "needs (l_blade l) = needs b'" and db: "b_target_database (l_blade l) = b_target_database b'"
    by (simp_all add: l needs_def root_dirs_needs)
  have closed: "closed_in b' (set rel) (set rel)" using res by (simp add: closed_in_def)
  show "distinct (l_related l)" using res by (simp add: l)
  show "set (l_direct l) \<subseteq> set (l_all l)" by (simp add: l set_fold_add_new)
  show "closed_in (l_blade l) (set (l_related l)) (set (l_related l))" using closed db by (simp add: l closed_in_def)
  have "grows b b'" using load_dirs_extends [OF dirs] res by (auto simp: extends_def intro: grows_trans)
  then show "grows b (l_blade l)" using db by (simp add: grows_def)
  have sub: "set (l_all l) \<subseteq> set rel" using res by (simp add: l set_fold_add_new)
  have step: "needs b' `` set rel \<subseteq> set rel" using closed by (force simp: closed_in_def needs_def)
  show "set (l_related l) = (needs (l_blade l))\<^sup>* `` set (l_all l)"
  proof
    have "set rel \<subseteq> (needs b')\<^sup>* `` set (l_all l)"
      using res by (elim conjE allE [where x = "(needs b')\<^sup>* `` set (l_all l)"])
         (auto simp: l set_fold_add_new intro: rtrancl.rtrancl_into_rtrancl)
    then show "set (l_related l) \<subseteq> (needs (l_blade l))\<^sup>* `` set (l_all l)" unfolding needs by (simp add: l)
    have "(needs b')\<^sup>* `` set rel \<subseteq> set rel" using step by (rule Image_closed_trancl [THEN equalityD1])
    then show "(needs (l_blade l))\<^sup>* `` set (l_all l) \<subseteq> set (l_related l)"
      unfolding needs using sub by (auto simp: l)
  qed
qed

lemma load_targets_total:
  assumes "finite {d. tr_exists tr d}"
  shows "\<exists>r. load_targets pick tr ids b = Some r"
  using load_loop_total [OF assms] by (auto simp: load_targets_def Let_def split: sum.split)

end

section \<open>Trees of rule calls\<close>

lemma call_rule_extends: "call_rule c b = Inr b' \<Longrightarrow> extends b b'"
  by (auto simp: call_rule_def rbind_eq_Inr dest!: target_init_extends register_extends intro: extends_trans)

lemma call_rules_extend: "rfold call_rule calls b = Inr b' \<Longrightarrow> extends b b'"
  by (rule rfold_invariant [where P = "extends b"]) (auto intro: extends_trans call_rule_extends)

text \<open>A source tree given by the rule calls of the \<open>BUILD\<close> file of every directory.\<close>

definition rule_tree :: "(string \<times> rule_call list) list \<Rightarrow> tree" where
  "rule_tree dirs =
     \<lparr>tr_exists = (\<lambda>p. p \<in> set (map fst dirs) \<or> p \<in> set (map (\<lambda>d. path_join (fst d) ''BUILD'') dirs)),
      tr_isdir = (\<lambda>p. p \<in> set (map fst dirs)),
      tr_walk = (\<lambda>p. None),
      tr_program = (\<lambda>p b. case map_of (map (\<lambda>d. (path_join (fst d) ''BUILD'', snd d)) dirs) p of
         None \<Rightarrow> Inl (PyException ''IOError'')
       | Some calls \<Rightarrow> rfold call_rule calls b)\<rparr>"

interpretation rule_trees: build_tree hd "rule_tree dirs" for dirs
  by unfold_locales (auto simp: rule_tree_def intro: call_rules_extend split: option.splits)

section \<open>Properties\<close>

text \<open>
  C7. When loading succeeds, the related targets (the targets to build) are listed once each and are exactly
  the targets reachable through dependencies from the targets of the command line and of the
  directories it names; each of them and all their dependencies are in the database, and
  loading never replaces or removes a registered target. This holds for every order in
  which the work list is emptied and for all \<open>BUILD\<close> files that only add targets.
\<close>

theorem load_targets_closure:
  assumes program: "\<And>f b b'. tr_program tr f b = Inr b' \<Longrightarrow> extends b b'"
    and pick: "\<And>xs. xs \<noteq> [] \<Longrightarrow> pick xs \<in> set xs"
    and run: "load_targets pick tr ids b = Some (Inr l)"
  shows "distinct (l_related l) \<and> set (l_direct l) \<subseteq> set (l_all l) \<and>
    set (l_related l) = (needs (l_blade l))\<^sup>* `` set (l_all l) \<and>
    closed_in (l_blade l) (set (l_related l)) (set (l_related l)) \<and>
    grows b (l_blade l)"
proof -
  have "build_tree pick tr" using program pick by unfold_locales
  then show ?thesis using build_tree.load_targets_ok [OF _ run] by blast
qed

text \<open>
  C8. Loading ends, with the related targets or with an error, whenever the source tree has finitely many
  files and directories.
\<close>

theorem load_targets_terminates:
  assumes program: "\<And>f b b'. tr_program tr f b = Inr b' \<Longrightarrow> extends b b'"
    and pick: "\<And>xs. xs \<noteq> [] \<Longrightarrow> pick xs \<in> set xs"
    and "finite {d. tr_exists tr d}"
  shows "\<exists>r. load_targets pick tr ids b = Some r"
proof -
  have "build_tree pick tr" using program pick by unfold_locales
  then show ?thesis using build_tree.load_targets_total assms(3) by blast
qed

definition sample_rule :: "tclass \<Rightarrow> string \<Rightarrow> string list \<Rightarrow> string list \<Rightarrow> rule_call" where
  "sample_rule c name srcs deps =
     \<lparr>rc_class = c, rc_name = name, rc_type = ''cc_library'', rc_srcs = srcs, rc_deps = deps,
      rc_visibility = PyNone, rc_kwargs = []\<rparr>"

definition sample_dirs :: "(string \<times> rule_call list) list" where
  "sample_dirs =
     [(''app'', [sample_rule CcBinaryC ''main'' [''main.cc''] [''//lib:x'', ''#pthread'']]),
      (''lib'', [sample_rule CcLibraryC ''x'' [''x.cc''] ['':y''], sample_rule CcLibraryC ''y'' [''y.cc''] [],
                 sample_rule CcLibraryC ''z'' [''z.cc''] []])]"

lemma sample_tree_finite: "finite {d. tr_exists (rule_tree dirs) d}"
proof (rule finite_subset)
  show "{d. tr_exists (rule_tree dirs) d} \<subseteq> set (map fst dirs) \<union> set (map (\<lambda>d. path_join (fst d) ''BUILD'') dirs)"
    by (auto simp: rule_tree_def)
qed simp

theorem load_targets_terminates_witness: "\<exists>r. load_targets hd (rule_tree sample_dirs) [''app:main''] sample_blade = Some r"
  by (rule load_targets_terminates) (simp_all add: rule_trees.program sample_tree_finite)

lemma sample_load:
  "map_option (map_sum (\<lambda>_. ()) (\<lambda>l. (l_direct l, l_related l)))
     (load_targets hd (rule_tree sample_dirs) [''app:main''] sample_blade) =
   Some (Inr ([(''app'', ''main'')], [(''app'', ''main''), (''lib'', ''x''), (''#'', ''pthread''), (''lib'', ''y'')]))"
  by code_simp

theorem load_targets_closure_witness:
  "\<exists>l. load_targets hd (rule_tree sample_dirs) [''app:main''] sample_blade = Some (Inr l) \<and>
     l_related l = [(''app'', ''main''), (''lib'', ''x''), (''#'', ''pthread''), (''lib'', ''y'')] \<and>
     set (l_related l) = (needs (l_blade l))\<^sup>* `` set (l_all l)"
proof -
  obtain l where l: "load_targets hd (rule_tree sample_dirs) [''app:main''] sample_blade = Some (Inr l)"
    and rel: "l_related l = [(''app'', ''main''), (''lib'', ''x''), (''#'', ''pthread''), (''lib'', ''y'')]"
    using sample_load by (auto simp: map_sum_eq_Inr)
  have "set (l_related l) = (needs (l_blade l))\<^sup>* `` set (l_all l)"
    using load_targets_closure [OF _ _ l] rule_trees.program hd_in_set by blast
  then show ?thesis using l rel by blast
qed

end
