(* ===== verification/Target_Rules.thy ===== *)
theory Target_Rules
  imports Target_Ops
begin

text \<open>
  The remaining methods of \<open>src/blade/target.py\<close>: the build statements the Ninja and Make back ends
  write, and the question whether a target generates header files, which every C++ target
  asks of its dependencies.
\<close>

section \<open>Build statements\<close>

definition write_rule :: "string \<Rightarrow> target \<Rightarrow> target" where
  "write_rule rule t = t\<lparr>t_rules := t_rules t @ [rule @ [newline]]\<rparr>"

definition write_rules :: "string list \<Rightarrow> target \<Rightarrow> target" where
  "write_rules rules t = fold write_rule rules t"

definition clone_env :: "target \<Rightarrow> target" where
  "clone_env t = (case env_name t of (n, t) \<Rightarrow> write_rule (n @ '' = top_env.Clone()'') t)"

definition get_rules :: "target \<Rightarrow> string list" where
  "get_rules t = t_rules t"

text \<open>\<open>' '.join(xs)\<close> of a list of Python values, which have to be strings.\<close>

definition join_blank :: "pyval list \<Rightarrow> string result" where
  "join_blank vs = rbind (rmap as_str vs) (\<lambda>ss. Inr (join_with '' '' ss))"

text \<open>\<open>xs.append(mark); xs += extra\<close> when \<open>extra\<close> is not empty.\<close>

definition add_marked :: "string \<Rightarrow> pyval list \<Rightarrow> pyval list \<Rightarrow> pyval list" where
  "add_marked mark extra xs = (if extra \<noteq> [] then xs @ PyStr mark # extra else xs)"

definition variable_line :: "string \<times> string \<Rightarrow> string" where
  "variable_line nv = (case nv of (name, v) \<Rightarrow>
     if v \<noteq> [] then ''  '' @ name @ '' = '' @ v else ''  '' @ name @ '' ='')"

text \<open>
  The variables are listed in the iteration order of the dictionary, with text values; a
  missing argument is the empty list.
\<close>

definition ninja_build ::
  "pyval \<Rightarrow> string \<Rightarrow> pyval \<Rightarrow> pyval list \<Rightarrow> pyval list \<Rightarrow> (string, string) dict \<Rightarrow> pyval list \<Rightarrow> target \<Rightarrow>
   target result" where
  "ninja_build outputs rule inputs implicit_deps order_only_deps variables implicit_outputs t =
     (let outs = add_marked ''|'' implicit_outputs (var_to_list outputs);
          ins = add_marked ''||'' order_only_deps
                  (add_marked ''|'' implicit_deps (if truthy inputs then var_to_list inputs else []))
      in rbind (join_blank outs) (\<lambda>outs.
         rbind (join_blank ins) (\<lambda>ins.
           Inr (write_rules (map variable_line variables)
                  (write_rule (''build '' @ outs @ '': '' @ rule @ '' '' @ ins) t)))))"

text \<open>
  \<open>json.dumps\<close> of a string or of \<open>None\<close>. The characters outside the printable ASCII range
  are written as escapes; a text with non-ASCII bytes is outside the model.
\<close>

definition json_char :: "char \<Rightarrow> string" where
  "json_char c =
     (if c = dquote then [backslash, dquote]
      else if c = backslash then [backslash, backslash]
      else if c = newline then [backslash, CHR ''n'']
      else if c = CHR 0x0D then [backslash, CHR ''r'']
      else if c = CHR 0x09 then [backslash, CHR ''t'']
      else if c = CHR 0x0C then [backslash, CHR ''f'']
      else if c = CHR 0x08 then [backslash, CHR ''b'']
      else if of_char c < (32 :: nat) \<or> of_char c > (126 :: nat)
      then backslash # ''u00'' @ [hex_digit (of_char c div 16), hex_digit (of_char c mod 16)]
      else [c])"

fun json_dumps :: "pyval \<Rightarrow> string result" where
  "json_dumps PyNone = Inr ''null''"
| "json_dumps (PyStr s) =
     (if list_all (\<lambda>c. of_char c < (128 :: nat)) s then Inr (dquote # concat (map json_char s) @ [dquote])
      else Inl (PyException ''non-ASCII text''))"
| "json_dumps _ = Inl TypeError"

definition json_text :: "pyval \<Rightarrow> string result" where
  "json_text v = rbind (json_dumps v) (\<lambda>s. Inr (strip_by (\<lambda>c. c = dquote) (strip s)))"

text \<open>\<open>s.rpartition('/')[0]\<close>\<close>

definition rpartition_head :: "string \<Rightarrow> string" where
  "rpartition_head s = (case rsplit1 slash s of None \<Rightarrow> [] | Some (h, _) \<Rightarrow> h)"

text \<open>
  Formatting with \<open>%\<close> raises \<open>TypeError\<close> unless there are as many arguments as places; the
  pieces are the texts between the places.
\<close>

fun interleave :: "string list \<Rightarrow> string list \<Rightarrow> string" where
  "interleave (p # ps) (a # as) = p @ a @ interleave ps as"
| "interleave ps _ = concat ps"

definition format :: "string list \<Rightarrow> string list \<Rightarrow> string result" where
  "format pieces args =
     (if length pieces = Suc (length args) then Inr (interleave pieces args) else Inl TypeError)"

definition format_all :: "(string list \<times> string list) list \<Rightarrow> string list result" where
  "format_all fs = rmap (\<lambda>f. format (fst f) (snd f)) fs"

definition cxx_flags :: string where
  "cxx_flags = '' -c ${CXXFLAGS} ${WARNINGS_CXXFLAGS} ${CPPFLAGS} ${WARNINGS_CPPFLAGS} ''"

definition object_rules :: "string \<Rightarrow> string \<Rightarrow> string \<Rightarrow> string \<Rightarrow> string \<Rightarrow> (string list \<times> string list) list" where
  "object_rules outs ins mkdir_path deps flags =
     [if deps = ''null'' \<and> flags = ''null'' then
        ([''${CXX} -o '', cxx_flags @ ''${CPPPATH} '', '' '' @ [newline]], [outs, ins, ins])
      else if deps \<noteq> ''null'' \<and> flags = ''null'' then
        ([''${CXX} -o '', cxx_flags, '' ${CPPPATH} '', '' '' @ [newline]], [outs, deps, ins])
      else if deps = ''null'' \<and> flags \<noteq> ''null'' then
        ([''${CXX} -o '', cxx_flags, '' ${CPPPATH} '', '' '' @ [newline]], [outs, flags, ins])
      else
        ([''${CXX} -o '', cxx_flags, '' '', '' ${CPPPATH} '', '' '' @ [newline]], [outs, flags, deps, ins]),
      ([''${MKDIR} '', ''; '' @ [backslash]], [mkdir_path]),
      ([[], '' : '', ''; '' @ [backslash]], [outs, ins])]"

definition link_rules :: "string \<Rightarrow> string \<Rightarrow> string \<Rightarrow> (string list \<times> string list) list" where
  "link_rules outs ins deps =
     [([''${CXX} -o '', '' ${COMPILE_FLAGS} '', '' -lpthread'' @ [newline]], [outs, ins]),
      if deps = ''null'' then ([''${TARGET} : '', ''; '' @ [backslash]], [ins])
      else ([''${TARGET} : '', '' '', '' ; ${CXX} -o '', '' ${COMPILE_FLAGS} '', '' -lpthread '' @ [backslash]],
            [ins, deps]),
      ([''all : ${TARGET} '' @ [newline]], []),
      ([''TARGET = '', '' '' @ [newline]], [outs])]"

definition make_statement ::
  "string \<Rightarrow> string \<Rightarrow> string \<Rightarrow> string \<Rightarrow> string \<Rightarrow> string \<Rightarrow> (string list \<times> string list) list" where
  "make_statement rule outs ins mkdir_path deps flags =
     (if rule = ''clean'' then
        [([''rm -rf ${TARGET} ${TARGET}.objs/*.a ${TARGET}.objs/*.o '' @ [newline]], []),
         ([''clean : ; '' @ [backslash]], [])]
      else if rule = ''static_lib'' then
        [([''${AR} ${ARFLAGS} '', '' '', '' '' @ [newline]], [outs, ins]),
         ([[], '' : '', ''; '' @ [backslash]], [outs, ins])]
      else if rule = ''object'' \<or> rule = ''securecc'' \<or> rule = ''securecccompile'' then
        object_rules outs ins mkdir_path deps flags
      else if rule = ''link'' then link_rules outs ins deps
      else [])"

text \<open>A statement that raises has already written the ones before it; the build stops then.\<close>

definition make_build ::
  "pyval \<Rightarrow> string \<Rightarrow> pyval \<Rightarrow> pyval list \<Rightarrow> pyval list \<Rightarrow> (string, pyval) dict \<Rightarrow> target \<Rightarrow> target result" where
  "make_build outputs rule inputs implicit_deps order_only_deps variables t =
     (let ins = add_marked '' '' order_only_deps
                  (add_marked '' '' implicit_deps (if truthy inputs then var_to_list inputs else []))
      in rbind (if variables \<noteq> [] then json_text (dgetd variables ''includes'' PyNone) else Inr []) (\<lambda>deps.
         rbind (if variables \<noteq> [] then json_text (dgetd variables ''cppflags'' PyNone) else Inr []) (\<lambda>flags.
         rbind (join_blank (var_to_list outputs)) (\<lambda>outs.
         rbind (if rule \<in> {''static_lib'', ''object'', ''securecc'', ''securecccompile'', ''link''}
                then join_blank ins else Inr []) (\<lambda>ins.
         rbind (format_all (make_statement rule outs ins (rpartition_head outs) deps flags)) (\<lambda>lines.
           Inr (write_rules lines t)))))))"

section \<open>Generated headers\<close>

text \<open>The classes that override \<open>_generate_header_files\<close> to return \<open>True\<close>.\<close>

definition always_generates_headers :: "tclass \<Rightarrow> bool" where
  "always_generates_headers c =
     (c \<in> {ProtoLibraryC, ThriftLibraryC, FBThriftLibraryC, ResourceLibraryC, GenRuleC})"

text \<open>
  The recursion through the dependencies, with the answer cached in every object. The first
  argument is the depth of the interpreter's stack that is left: Python raises
  \<open>RuntimeError\<close> when it is used up, which happens for cyclic dependencies.
\<close>

fun generate_header_files :: "nat \<Rightarrow> key \<Rightarrow> database \<Rightarrow> (bool \<times> database) result"
  and generate_header_loop :: "nat \<Rightarrow> key list \<Rightarrow> database \<Rightarrow> (bool \<times> database) result" where
  "generate_header_files 0 k db = Inl (PyException ''maximum recursion depth exceeded'')"
| "generate_header_files (Suc depth) k db =
     rbind (dindex db k) (\<lambda>t.
       if always_generates_headers (t_class t) then Inr (True, db)
       else case t_gen_headers t of
              Some v \<Rightarrow> Inr (v, db)
            | None \<Rightarrow>
                rbind (generate_header_loop depth (t_deps t) db) (\<lambda>r.
                  Inr (fst r, modify_target k (\<lambda>t. t\<lparr>t_gen_headers := Some (fst r)\<rparr>) (snd r))))"
| "generate_header_loop depth [] db = Inr (False, db)"
| "generate_header_loop depth (d # ds) db =
     rbind (generate_header_files depth d db) (\<lambda>r.
       if fst r then Inr r else generate_header_loop depth ds (snd r))"

section \<open>What the recursion computes\<close>

text \<open>
  The part of the database the question depends on, and the answer: some target that is
  reachable through direct dependencies is of a class that generates headers.
\<close>

definition header_view :: "database \<Rightarrow> key \<Rightarrow> (key list \<times> tclass) option" where
  "header_view db k = map_option (\<lambda>t. (t_deps t, t_class t)) (dget db k)"

definition dep_edges :: "(key \<Rightarrow> (key list \<times> tclass) option) \<Rightarrow> (key \<times> key) set" where
  "dep_edges G = {(k, d). \<exists>ds c. G k = Some (ds, c) \<and> d \<in> set ds}"

definition makes_headers :: "(key \<Rightarrow> (key list \<times> tclass) option) \<Rightarrow> key \<Rightarrow> bool" where
  "makes_headers G k \<longleftrightarrow> (\<exists>j ds c. (k, j) \<in> (dep_edges G)\<^sup>* \<and> G j = Some (ds, c) \<and> always_generates_headers c)"

definition headers_cached :: "(key \<Rightarrow> (key list \<times> tclass) option) \<Rightarrow> database \<Rightarrow> bool" where
  "headers_cached G db \<longleftrightarrow> header_view db = G \<and>
     (\<forall>k t v. dget db k = Some t \<longrightarrow> t_gen_headers t = Some v \<longrightarrow> v = makes_headers G k)"

lemma makes_headers_step:
  assumes "G k = Some (ds, c)"
  shows "makes_headers G k \<longleftrightarrow> always_generates_headers c \<or> (\<exists>d \<in> set ds. makes_headers G d)"
proof
  assume "makes_headers G k"
  then obtain j ds' c' where j: "(k, j) \<in> (dep_edges G)\<^sup>*" "G j = Some (ds', c')" "always_generates_headers c'"
    unfolding makes_headers_def by blast
  from j(1) show "always_generates_headers c \<or> (\<exists>d \<in> set ds. makes_headers G d)"
  proof (cases rule: converse_rtranclE)
    case base
    then show ?thesis using assms j by simp
  next
    case (step d)
    then have "d \<in> set ds" using assms by (simp add: dep_edges_def)
    then show ?thesis using step(2) j(2,3) unfolding makes_headers_def by blast
  qed
next
  assume "always_generates_headers c \<or> (\<exists>d \<in> set ds. makes_headers G d)"
  then show "makes_headers G k"
  proof
    assume "always_generates_headers c"
    then show ?thesis using assms unfolding makes_headers_def by blast
  next
    assume "\<exists>d \<in> set ds. makes_headers G d"
    then obtain d j ds' c' where d: "d \<in> set ds" "(d, j) \<in> (dep_edges G)\<^sup>*" "G j = Some (ds', c')" "always_generates_headers c'"
      unfolding makes_headers_def by blast
    have "(k, d) \<in> dep_edges G" using assms d(1) by (simp add: dep_edges_def)
    then have "(k, j) \<in> (dep_edges G)\<^sup>*" using d(2) by (rule converse_rtrancl_into_rtrancl)
    then show ?thesis using d(3,4) unfolding makes_headers_def by blast
  qed
qed

lemma headers_cached_store:
  assumes "headers_cached G db" and "v = makes_headers G k"
  shows "headers_cached G (modify_target k (\<lambda>t. t\<lparr>t_gen_headers := Some v\<rparr>) db)"
  unfolding headers_cached_def
proof (intro conjI allI impI)
  show "header_view (modify_target k (\<lambda>t. t\<lparr>t_gen_headers := Some v\<rparr>) db) = G"
  proof (rule ext)
    show "header_view (modify_target k (\<lambda>t. t\<lparr>t_gen_headers := Some v\<rparr>) db) j = G j" for j
      using assms(1) by (cases "dget db j") (auto simp: headers_cached_def header_view_def dget_modify_target)
  qed
  fix j t w
  assume "dget (modify_target k (\<lambda>t. t\<lparr>t_gen_headers := Some v\<rparr>) db) j = Some t" and "t_gen_headers t = Some w"
  then show "w = makes_headers G j"
    using assms unfolding headers_cached_def dget_modify_target by (cases "j = k") auto
qed

text \<open>
  With dependencies that are all present and ranked (so there is no cycle), a stack deeper
  than the rank is enough.
\<close>

definition ranked :: "(key \<Rightarrow> (key list \<times> tclass) option) \<Rightarrow> (key \<Rightarrow> nat) \<Rightarrow> bool" where
  "ranked G rank \<longleftrightarrow>
     (\<forall>k ds c. G k = Some (ds, c) \<longrightarrow> (\<forall>d \<in> set ds. G d \<noteq> None \<and> rank d < rank k))"

lemma header_loop_correct:
  assumes IH: "\<And>d db. d \<in> set ds \<Longrightarrow> headers_cached G db \<Longrightarrow>
      \<exists>db'. generate_header_files n d db = Inr (makes_headers G d, db') \<and> headers_cached G db'"
    and "headers_cached G db"
  shows "\<exists>db'. generate_header_loop n ds db = Inr (\<exists>d \<in> set ds. makes_headers G d, db') \<and> headers_cached G db'"
  using assms
proof (induction ds arbitrary: db)
  case (Cons d ds)
  obtain db1 where d: "generate_header_files n d db = Inr (makes_headers G d, db1)" "headers_cached G db1"
    using Cons.prems(1) [of d db] Cons.prems(2) by auto
  show ?case
  proof (cases "makes_headers G d")
    case True
    then show ?thesis using d by simp
  next
    case False
    then show ?thesis using d Cons.IH [of db1] Cons.prems(1) by simp
  qed
qed simp

lemma generate_header_files_correct:
  assumes "ranked G rank"
  shows "headers_cached G db \<Longrightarrow> G k \<noteq> None \<Longrightarrow> rank k < n \<Longrightarrow>
    \<exists>db'. generate_header_files n k db = Inr (makes_headers G k, db') \<and> headers_cached G db'"
proof (induction n arbitrary: k db)
  case (Suc n)
  then obtain t where t: "dget db k = Some t" and G: "G k = Some (t_deps t, t_class t)"
    by (auto simp: headers_cached_def header_view_def)
  note step = makes_headers_step [of G k, OF G]
  consider "always_generates_headers (t_class t)" | v where "\<not> always_generates_headers (t_class t)" "t_gen_headers t = Some v"
    | "\<not> always_generates_headers (t_class t)" "t_gen_headers t = None" by (cases "t_gen_headers t") auto
  then show ?case
  proof cases
    case 1
    then show ?thesis using Suc.prems step t by simp
  next
    case (2 v)
    then have "v = makes_headers G k" using Suc.prems(1) t unfolding headers_cached_def by blast
    then show ?thesis using 2 Suc.prems t by simp
  next
    case 3
    have "\<exists>db'. generate_header_files n d db = Inr (makes_headers G d, db') \<and> headers_cached G db'"
      if "d \<in> set (t_deps t)" "headers_cached G db" for d db
      using assms that G Suc.prems(3) Suc.IH [of db d] unfolding ranked_def by fastforce
    then obtain db1 where loop: "generate_header_loop n (t_deps t) db = Inr (\<exists>d \<in> set (t_deps t). makes_headers G d, db1)"
      and "headers_cached G db1" using header_loop_correct [of "t_deps t" G n db] Suc.prems(1) by blast
    then have "headers_cached G (modify_target k (\<lambda>t. t\<lparr>t_gen_headers := Some (makes_headers G k)\<rparr>) db1)"
      using headers_cached_store by blast
    moreover have "(\<exists>d \<in> set (t_deps t). makes_headers G d) = makes_headers G k" using 3 step by simp
    ultimately show ?thesis using 3 t loop by simp
  qed
qed simp

section \<open>Properties\<close>

text \<open>
  With all dependencies present and no cycle among them, \<open>_generate_header_files\<close> returns, and its
  answer is whether a target of a header-generating class can be reached through the
  dependencies; the answers it leaves in the objects are right too, and a
  stack deeper than the longest chain of dependencies is enough.
\<close>

theorem generate_header_files_reachability:
  assumes "ranked (header_view db) rank" and "dget db k \<noteq> None" and "rank k < depth"
    and fresh: "\<And>j t. dget db j = Some t \<Longrightarrow> t_gen_headers t = None"
  shows "\<exists>db'. generate_header_files depth k db = Inr (makes_headers (header_view db) k, db') \<and>
    headers_cached (header_view db) db'"
proof -
  have "headers_cached (header_view db) db" using fresh by (auto simp: headers_cached_def)
  moreover have "header_view db k \<noteq> None" using assms(2) by (simp add: header_view_def)
  ultimately show ?thesis using generate_header_files_correct [OF assms(1)] assms(3) by blast
qed

definition sample_headers :: database where
  "sample_headers =
     (let t = (\<lambda>c n ds. ((''p'', n),
        \<lparr>t_class = c, t_key = (''p'', n), t_fullname = show_key (''p'', n), t_name = n, t_path = ''p'',
         t_type = [], t_srcs = [], t_deps = map (Pair ''p'') ds, t_expanded_deps = [], t_visibility = Public,
         t_env_name = None, t_data = [], t_rules = [], t_gen_headers = None\<rparr>))
      in [t CcLibraryC ''a'' [''b'', ''c''], t CcLibraryC ''b'' [], t CcLibraryC ''c'' [''d''], t ProtoLibraryC ''d'' []])"

theorem generate_header_files_reachability_witness:
  "\<exists>db'. generate_header_files 4 (''p'', ''a'') sample_headers = Inr (makes_headers (header_view sample_headers) (''p'', ''a''), db') \<and>
    headers_cached (header_view sample_headers) db'"
proof (rule generate_header_files_reachability [where rank = "\<lambda>k. if snd k = ''a'' then 3 else if snd k = ''c'' then 1 else 0"])
  show "ranked (header_view sample_headers) (\<lambda>k. if snd k = ''a'' then 3 else if snd k = ''c'' then 1 else 0)"
    by (auto simp: ranked_def header_view_def sample_headers_def Let_def split: if_splits)
qed (auto simp: sample_headers_def Let_def split: if_splits)

lemma rmap_as_str [simp]: "rmap as_str (map PyStr ss) = Inr ss"
  by (induction ss) simp_all

lemma var_to_list_strs [simp]: "var_to_list (pstrs ss) = map PyStr ss"
  by (simp add: var_to_list_def)

end
