(* ===== verification/Manager_Facts.thy ===== *)
theory Manager_Facts
  imports Manager Dep_Analysis Load_Facts Target_Rules
begin

text \<open>
  Properties of the manager: what a query answers after the analysis, that the dependency tree is
  finite, what the generated rule buffer contains and in which order, and the bounds of
  the number of jobs.
\<close>

section \<open>After the analysis\<close>

lemma analyze_targetsD:
  assumes "analyze_targets order b = Inr b'"
  obtains db ks sc where "blade_analyze order (b_build_targets b) (b_target_database b) = Inr (db, ks, sc)"
    and "b_target_database b' = db" and "b_sorted_targets_keys b' = ks" and "b_depended_targets b' = sc"
    and "b_build_targets b' = b_build_targets b" and "b_options b' = b_options b"
    and "b_direct_targets b' = b_direct_targets b"
  using assms by (auto simp: analyze_targets_def rbind_eq_Inr say_def)

text \<open>The direct dependencies the loaded database has for the build targets.\<close>

abbreviation depends :: "blade \<Rightarrow> (key \<times> key) set" where
  "depends b \<equiv> dep_rel (b_build_targets b) (b_target_database b)"

lemma query_one_ok:
  assumes "query_one b k m = Inr m'"
  obtains t ys where "build_target b k = Inr t" and "dget (b_depended_targets b) k = Some ys"
    and "m' = dset k (sort (t_expanded_deps t), sort ys) m"
  using assms by (auto simp: query_one_def rbind_eq_Inr)

definition exact_entry :: "blade \<Rightarrow> key \<Rightarrow> key list \<times> key list \<Rightarrow> bool" where
  "exact_entry b k e \<longleftrightarrow> k \<in> set (b_build_targets b) \<and>
     sorted (fst e) \<and> distinct (fst e) \<and> set (fst e) = {d. (k, d) \<in> (depends b)\<^sup>+} \<and>
     sorted (snd e) \<and> distinct (snd e) \<and> set (snd e) = {x. (x, k) \<in> (depends b)\<^sup>+}"

lemma dep_rel_source: "(x, k) \<in> (dep_rel bt db)\<^sup>+ \<Longrightarrow> x \<in> set bt"
proof -
  assume "(x, k) \<in> (dep_rel bt db)\<^sup>+"
  then obtain y where "(x, y) \<in> dep_rel bt db" by (meson tranclD)
  then show ?thesis
    by (auto simp: dep_rel_def edges_def direct_deps_def dget_bt_view split: if_splits option.splits)
qed

lemma query_entry_exact:
  assumes an: "analyze_targets order b0 = Inr b" and "distinct (b_build_targets b0)"
    and "\<And>d. mset (order d) = mset d"
    and t: "build_target b k = Inr t" and ys: "dget (b_depended_targets b) k = Some ys"
  shows "exact_entry b0 k (sort (t_expanded_deps t), sort ys)"
proof -
  obtain db ks where run: "blade_analyze order (b_build_targets b0) (b_target_database b0) = Inr (db, ks, b_depended_targets b)"
    and db: "b_target_database b = db" and bt: "b_build_targets b = b_build_targets b0"
    by (rule analyze_targetsD [OF an]) blast
  have k: "k \<in> set (b_build_targets b0)" and td: "t_expanded_deps t = deps_of db k"
    using t by (auto simp: build_target_def dget_bt_view deps_of_def db bt split: if_splits)
  note deps = expanded_deps_of [OF analyze_depsD(1) [OF run] k]
  note yss = dependents_of [OF run assms(2,3), of k, THEN conjunct2, rule_format, OF ys]
  have "{x \<in> set (b_build_targets b0). (x, k) \<in> (depends b0)\<^sup>+} = {x. (x, k) \<in> (depends b0)\<^sup>+}"
    using dep_rel_source by blast
  then show ?thesis using k deps(1,2) yss by (simp add: exact_entry_def td) blast
qed

text \<open>
  C10. The answers of a query are exact: after a successful analysis, every entry of the result of
  \<open>query_helper\<close> is about a build target and holds, sorted and without repetition, exactly the
  targets it depends on directly or indirectly, and exactly the targets that depend on it.
\<close>

theorem query_answers_exact:
  assumes an: "analyze_targets order b0 = Inr b" and "distinct (b_build_targets b0)"
    and "\<And>d. mset (order d) = mset d"
    and q: "query_helper b targets = Inr m" and e: "dget m k = Some e"
  shows "exact_entry b0 k e"
proof -
  obtain ks where run: "rfold (query_one b) ks [] = Inr m"
    using q by (auto simp: query_helper_def rbind_eq_Inr)
  have "\<forall>k e. dget m k = Some e \<longrightarrow> exact_entry b0 k e"
  proof (rule rfold_invariant [OF run])
    fix j u v
    assume u: "\<forall>k e. dget u k = Some e \<longrightarrow> exact_entry b0 k e" and v: "query_one b j u = Inr v"
    obtain t ys where t: "build_target b j = Inr t" and ys: "dget (b_depended_targets b) j = Some ys"
      and v: "v = dset j (sort (t_expanded_deps t), sort ys) u" by (rule query_one_ok [OF v])
    note new = query_entry_exact [OF an assms(2,3) t ys]
    show "\<forall>k e. dget v k = Some e \<longrightarrow> exact_entry b0 k e"
    proof (intro allI impI)
      fix k e assume "dget v k = Some e"
      then show "exact_entry b0 k e" using u new by (cases "k = j") (simp_all add: v)
    qed
  qed simp
  then show ?thesis using e by blast
qed

section \<open>The dependency tree\<close>

definition deps_expanded :: "blade \<Rightarrow> bool" where
  "deps_expanded b \<longleftrightarrow>
     (\<forall>k t. dget (b_target_database b) k = Some t \<longrightarrow> set (t_deps t) \<subseteq> set (t_expanded_deps t))"

lemma analysed_target:
  assumes "expand_deps expand_deps_generation bt db = Inr db'" and "dget db k = Some t"
  obtains t' where "dget db' k = Some t'" and "t_deps t' = t_deps t"
proof -
  have "rel_option same_but_deps (dget db k) (dget db' k)"
    using blade_gen.expand_deps_frame [OF assms(1)] unfolding deps_frame_def by blast
  then obtain t' where "dget db' k = Some t'" and "same_but_deps t t'"
    using assms(2) by (auto simp: option_rel_Some1)
  moreover then have "t_deps t' = t_deps t" by (cases t; cases t') (simp add: same_but_deps_def)
  ultimately show thesis using that by blast
qed

lemma query_tree_total:
  assumes an: "analyze_targets order b0 = Inr b" and dist: "distinct (b_build_targets b0)"
    and ord: "\<And>d. mset (order d) = mset d" and wf: "deps_expanded b0"
  shows "i < length (b_sorted_targets_keys b) \<Longrightarrow> i < depth \<Longrightarrow>
    \<exists>lines. query_tree depth b (b_sorted_targets_keys b ! i) level = Inr (tree_line (b_sorted_targets_keys b ! i) level # lines)"
proof (induction depth arbitrary: i level)
  case (Suc depth)
  let ?ks = "b_sorted_targets_keys b"
  let ?k = "?ks ! i"
  obtain db sc where run: "blade_analyze order (b_build_targets b0) (b_target_database b0) = Inr (db, ?ks, sc)"
    and db: "b_target_database b = db" and bt: "b_build_targets b = b_build_targets b0"
    by (rule analyze_targetsD [OF an]) blast
  have k: "?k \<in> set (b_build_targets b0)" using analyze_sorted(2) [OF run dist ord] Suc.prems(1) nth_mem by blast
  note ex = analyze_depsD(1) [OF run]
  obtain t where t: "dget db ?k = Some t" by (rule blade_gen.expand_deps_closure [OF ex k])
  have "rel_option same_but_deps (dget (b_target_database b0) ?k) (dget db ?k)"
    using blade_gen.expand_deps_frame [OF ex] unfolding deps_frame_def by blast
  then obtain t0 where t0: "dget (b_target_database b0) ?k = Some t0" using t by (auto simp: option_rel_Some2)
  obtain t' where "dget db ?k = Some t'" and "t_deps t' = t_deps t0" by (rule analysed_target [OF ex t0])
  with t have deps: "t_deps t = t_deps t0" by simp
  have sub: "\<exists>lines. query_tree depth b d (level + 1) = Inr lines" if "d \<in> set (t_deps t)" for d
  proof -
    have "set (t_deps t0) \<subseteq> set (t_expanded_deps t0)" using wf t0 unfolding deps_expanded_def by blast
    then have "d \<in> set (t_expanded_deps t0)" using that deps by auto
    then have "(?k, d) \<in> depends b0" using t0 k by (simp add: dep_rel_def edges_def direct_deps_def dget_bt_view)
    then obtain j where "j < i" and d: "?ks ! j = d"
      using order_before [OF run dist ord Suc.prems(1)] by blast
    then show ?thesis using Suc.IH [of j "level + 1"] Suc.prems by auto
  qed
  then have "rmap (\<lambda>d. query_tree depth b d (level + 1)) (t_deps t) =
      Inr (map (\<lambda>d. projr (query_tree depth b d (level + 1))) (t_deps t))"
    by (intro rmap_total) (metis sum.sel(2))
  then show ?case using t k by (simp add: build_target_def dget_bt_view db bt)
qed simp

text \<open>
  C11. The dependency tree query ends: after a successful analysis the tree of every build target is
  printed with a recursion no deeper than the number of build targets, and it starts with
  the target itself. (The direct dependencies are among the dependencies the analysis
  started from, as the constructor of targets ensures.)
\<close>

theorem query_tree_returns:
  assumes an: "analyze_targets order b0 = Inr b" and dist: "distinct (b_build_targets b0)"
    and ord: "\<And>d. mset (order d) = mset d" and wf: "deps_expanded b0"
    and k: "k \<in> set (b_build_targets b0)"
  shows "\<exists>lines. query_tree (length (b_build_targets b0)) b k 0 = Inr (show_key k # lines)"
proof -
  obtain db sc where run: "blade_analyze order (b_build_targets b0) (b_target_database b0) = Inr (db, b_sorted_targets_keys b, sc)"
    by (rule analyze_targetsD [OF an]) blast
  note sorted = analyze_sorted [OF run dist ord]
  have "length (b_sorted_targets_keys b) = length (b_build_targets b0)"
    using sorted(1,2) dist by (metis distinct_card)
  moreover obtain i where "i < length (b_sorted_targets_keys b)" and "b_sorted_targets_keys b ! i = k"
    using k sorted(2) by (metis in_set_conv_nth)
  ultimately show ?thesis
    using query_tree_total [OF an dist ord wf, of i "length (b_build_targets b0)" 0] by (simp add: tree_line_def)
qed

section \<open>From loading to the analysis\<close>

definition visible :: "blade \<Rightarrow> bool" where
  "visible b \<longleftrightarrow>
     (\<forall>k t d u. dget (b_target_database b) k = Some t \<longrightarrow> d \<in> set (t_expanded_deps t) \<longrightarrow>
        dget (b_target_database b) d = Some u \<longrightarrow>
        fst k = fst d \<or> t_visibility u = Public \<or> (\<exists>ks. t_visibility u = VisibleTo ks \<and> k \<in> set ks))"

lemma loaded_deps_ok:
  assumes closed: "closed_in b (set (b_build_targets b)) (set (b_build_targets b))"
    and "visible b" and "deps_expanded b"
  shows "deps_within (b_build_targets b) (b_target_database b)"
    and "deps_ok (bt_view (b_build_targets b) (b_target_database b)) (direct_deps (b_build_targets b) (b_target_database b))"
proof -
  let ?bt = "b_build_targets b" and ?db = "b_target_database b"
  have present: "\<exists>t. dget ?db k = Some t \<and> set (t_expanded_deps t) \<subseteq> set ?bt" if "k \<in> set ?bt" for k
    using closed that unfolding closed_in_def by blast
  show "deps_within ?bt ?db"
    unfolding deps_within_def
  proof (intro conjI allI impI)
    show "set ?bt \<subseteq> set (dkeys ?db)" using present dget_None [of ?db] by (metis option.distinct(1) subsetI)
    fix k t assume "k \<in> set ?bt" "dget ?db k = Some t"
    then show "set (t_deps t) \<subseteq> set ?bt" using present assms(3) unfolding deps_expanded_def by fastforce
  qed
  show "deps_ok (bt_view ?bt ?db) (direct_deps ?bt ?db)"
    unfolding deps_ok_def
  proof (intro allI impI ballI)
    fix k d assume "dget (bt_view ?bt ?db) k \<noteq> None" and d: "d \<in> set (direct_deps ?bt ?db k)"
    then have k: "k \<in> set ?bt" by (simp add: dget_bt_view split: if_splits)
    then obtain t where t: "dget ?db k = Some t" "set (t_expanded_deps t) \<subseteq> set ?bt" using present by blast
    then have d: "d \<in> set (t_expanded_deps t)" using d k by (simp add: direct_deps_def dget_bt_view)
    then obtain u where u: "dget ?db d = Some u" using present t(2) by blast
    have "fst k = fst d \<or> t_visibility u = Public \<or> (\<exists>ks. t_visibility u = VisibleTo ks \<and> k \<in> set ks)"
      using assms(2) t(1) d u unfolding visible_def by blast
    then have "check_dep_visibility k d (bt_view ?bt ?db) = Inr ()"
      using d t(2) u by (auto simp: check_dep_visibility_def dget_bt_view)
    then show "dget (bt_view ?bt ?db) d \<noteq> None \<and> allowed (bt_view ?bt ?db) k d"
      using d t(2) u by (auto simp: allowed_def dget_bt_view)
  qed
qed

lemma manager_loadD:
  assumes "manager_load pick tr b = Some (Inr b1)"
  obtains l where "load_targets pick tr (b_command_targets b) (say (Info ''loading BUILDs...'') b) = Some (Inr l)"
    and "b_target_database b1 = b_target_database (l_blade l)" and "b_build_targets b1 = l_related l"
  using assms by (auto simp: manager_load_def rbind_eq_Inr say_def)

lemma analyze_targets_decides:
  assumes "distinct (b_build_targets b)" and "\<And>d. mset (order d) = mset d"
    and ok: "deps_within (b_build_targets b) (b_target_database b)"
      "deps_ok (bt_view (b_build_targets b) (b_target_database b)) (direct_deps (b_build_targets b) (b_target_database b))"
  shows "if acyclic (depends b) then \<exists>b'. analyze_targets order b = Inr b'
    else \<exists>d roots. analyze_targets order b = Inl (SystemExit (loop_msg d roots))"
proof (cases "expand_deps expand_deps_generation (b_build_targets b) (b_target_database b)")
  case (Inl e)
  then show ?thesis using blade_gen.expand_deps_succeeds [OF ok] by (auto simp: analyze_targets_def analyze_deps_def)
next
  case (Inr db)
  have "\<exists>r. topological_sort order (deps_items (b_build_targets b) db) = Inr r"
    using topological_sort_correct [of "deps_items (b_build_targets b) db" order] assms(1,2) items_acyclic [OF Inr]
    by (metis deps_items_keys)
  then show ?thesis
    using Inr blade_gen.expand_deps_acyclic [OF Inr] by (auto simp: analyze_targets_def analyze_deps_def)
qed

text \<open>
  C9. Loading hands a complete graph to the analysis: after a successful load in which every dependency is
  visible to its dependent, the analysis succeeds exactly when the dependency graph has no
  cycle, and otherwise it stops with the message that names the loop. In particular it never
  fails because a dependency is missing.
\<close>

theorem loaded_targets_analyze:
  assumes program: "\<And>f b b'. tr_program tr f b = Inr b' \<Longrightarrow> extends b b'"
    and pick: "\<And>xs. xs \<noteq> [] \<Longrightarrow> pick xs \<in> set xs"
    and load: "manager_load pick tr b = Some (Inr b1)"
    and "visible b1" and "deps_expanded b1" and ord: "\<And>d. mset (order d) = mset d"
  shows "if acyclic (depends b1) then \<exists>b2. analyze_targets order b1 = Inr b2
    else \<exists>d roots. analyze_targets order b1 = Inl (SystemExit (loop_msg d roots))"
proof -
  obtain l where l: "load_targets pick tr (b_command_targets b) (say (Info ''loading BUILDs...'') b) = Some (Inr l)"
    and b1: "b_target_database b1 = b_target_database (l_blade l)" "b_build_targets b1 = l_related l"
    by (rule manager_loadD [OF load])
  have "build_tree pick tr" using program pick by unfold_locales
  note ok = build_tree.load_targets_ok [OF this l]
  have "closed_in b1 (set (b_build_targets b1)) (set (b_build_targets b1))"
    using ok(4) by (simp add: closed_in_def b1)
  from loaded_deps_ok [OF this assms(4,5)] show ?thesis
    using analyze_targets_decides [of b1 order] ok(1) ord by (simp add: b1)
qed

section \<open>The rule buffer\<close>

text \<open>The type and the rule buffer of the object under a key.\<close>

definition rule_view :: "blade \<Rightarrow> key \<Rightarrow> (string \<times> string list) option" where
  "rule_view b k = map_option (\<lambda>t. (t_type t, t_rules t)) (dget (b_target_database b) k)"

definition same_skips :: "blade \<Rightarrow> blade \<Rightarrow> bool" where
  "same_skips b b' \<longleftrightarrow> b_options b' = b_options b \<and> b_direct_targets b' = b_direct_targets b"

text \<open>What the buffer holds for a target: nothing, or an empty line and its rules.\<close>

definition block :: "blade \<Rightarrow> blade \<Rightarrow> key \<Rightarrow> string list" where
  "block b0 b k =
     (case rule_view b k of
        Some (ty, rules) \<Rightarrow> if skips b0 k ty \<or> rules = [] then [] else [newline] # rules
      | None \<Rightarrow> [])"

text \<open>
  The contract of the methods that write rules: they fill the buffer of their own object,
  and change no other buffer, no type, and neither the options nor the direct targets.
\<close>

locale rule_writer =
  fixes blade_of :: "'w \<Rightarrow> blade" and rules :: "key \<Rightarrow> 'w \<Rightarrow> 'w result"
  assumes own_buffer: "rules k w = Inr w' \<Longrightarrow> j \<noteq> k \<Longrightarrow> rule_view (blade_of w') j = rule_view (blade_of w) j"
    and own_type: "rules k w = Inr w' \<Longrightarrow>
      map_option fst (rule_view (blade_of w') k) = map_option fst (rule_view (blade_of w) k)"
    and keeps_skips: "rules k w = Inr w' \<Longrightarrow> same_skips (blade_of w) (blade_of w')"
begin

lemma gen_step:
  assumes "gen_target_rules blade_of rules k (buf, w) = Inr (buf', w')" and "same_skips b0 (blade_of w)"
  shows "buf' = buf @ block b0 (blade_of w') k" and "same_skips b0 (blade_of w')"
    and "j \<noteq> k \<Longrightarrow> rule_view (blade_of w') j = rule_view (blade_of w) j"
proof -
  let ?b = "blade_of w" and ?b' = "blade_of w'"
  obtain t where t: "build_target ?b k = Inr t"
    and run: "(if skips ?b k (t_type t) then Inr (buf, w)
        else rbind (rules k w) (\<lambda>w. rbind (dindex (b_target_database (blade_of w)) k) (\<lambda>t.
          Inr (if t_rules t \<noteq> [] then buf @ [[CHR 0x0A]] @ t_rules t else buf, w)))) = Inr (buf', w')"
    using assms(1) by (auto simp: gen_target_rules_def rbind_eq_Inr)
  have skip: "skips ?b = skips b0" using assms(2) by (simp add: fun_eq_iff skips_def same_skips_def opt_default_def)
  have view: "rule_view ?b k = Some (t_type t, t_rules t)"
    using t by (simp add: build_target_def rule_view_def dget_bt_view split: if_splits)
  have "buf' = buf @ block b0 ?b' k \<and> same_skips b0 ?b' \<and> (j \<noteq> k \<longrightarrow> rule_view ?b' j = rule_view ?b j)"
  proof (cases "skips ?b k (t_type t)")
    case True
    then show ?thesis using run assms(2) view skip by (simp add: block_def)
  next
    case False
    then obtain t' where e: "rules k w = Inr w'" and t': "dget (b_target_database ?b') k = Some t'"
      and buf': "buf' = (if t_rules t' \<noteq> [] then buf @ [[CHR 0x0A]] @ t_rules t' else buf)"
      using run by (auto simp: rbind_eq_Inr)
    have view': "rule_view ?b' k = Some (t_type t', t_rules t')" using t' by (simp add: rule_view_def)
    have "t_type t' = t_type t" using own_type [OF e] view view' by simp
    then have "block b0 ?b' k = (if t_rules t' = [] then [] else [newline] # t_rules t')"
      using False skip view' by (simp add: block_def)
    moreover have "same_skips b0 ?b'" using keeps_skips [OF e] assms(2) by (simp add: same_skips_def)
    ultimately show ?thesis using own_buffer [OF e] by (simp add: buf')
  qed
  then show "buf' = buf @ block b0 ?b' k" and "same_skips b0 ?b'" and "j \<noteq> k \<Longrightarrow> rule_view ?b' j = rule_view ?b j"
    by blast+
qed

lemma gen_loop:
  assumes "rfold (gen_target_rules blade_of rules) ks (buf, w) = Inr (buf', w')" and "same_skips b0 (blade_of w)" and "distinct ks"
  shows "buf' = buf @ concat (map (block b0 (blade_of w')) ks) \<and>
    (\<forall>j. j \<notin> set ks \<longrightarrow> rule_view (blade_of w') j = rule_view (blade_of w) j)"
  using assms
proof (induction ks arbitrary: buf w)
  case (Cons k ks)
  then obtain buf1 w1 where step: "gen_target_rules blade_of rules k (buf, w) = Inr (buf1, w1)"
    and rest: "rfold (gen_target_rules blade_of rules) ks (buf1, w1) = Inr (buf', w')"
    by (auto simp: rbind_eq_Inr)
  note one = gen_step [OF step Cons.prems(2)]
  have IH: "buf' = buf1 @ concat (map (block b0 (blade_of w')) ks)"
    "\<And>j. j \<notin> set ks \<Longrightarrow> rule_view (blade_of w') j = rule_view (blade_of w1) j"
    using Cons.IH [OF rest one(2)] Cons.prems(3) by auto
  have "block b0 (blade_of w') k = block b0 (blade_of w1) k" using IH(2) [of k] Cons.prems(3) by (simp add: block_def)
  then show ?case using IH one(1,3) by auto
qed simp

lemma gen_loop_skips:
  "rfold (gen_target_rules blade_of rules) ks (buf, w) = Inr (buf', w') \<Longrightarrow> same_skips b0 (blade_of w) \<Longrightarrow> same_skips b0 (blade_of w')"
proof (induction ks arbitrary: buf w)
  case (Cons k ks)
  then obtain buf1 w1 where "gen_target_rules blade_of rules k (buf, w) = Inr (buf1, w1)"
    and "rfold (gen_target_rules blade_of rules) ks (buf1, w1) = Inr (buf', w')"
    by (auto simp: rbind_eq_Inr)
  then show ?case using Cons.IH Cons.prems(2) gen_step(2) by blast
qed simp

text \<open>The buffer of an object at the end is the one its method has filled, in the state the methods before have left.\<close>

lemma gen_own:
  assumes run: "rfold (gen_target_rules blade_of rules) (xs @ k # ys) (buf, w) = Inr (buf', w')"
    and "same_skips b0 (blade_of w)" and "distinct (xs @ k # ys)"
    and view: "rule_view (blade_of w) k = Some (ty, ls)" and "\<not> skips b0 k ty"
  shows "\<exists>buf1 w1 w2. rfold (gen_target_rules blade_of rules) xs (buf, w) = Inr (buf1, w1) \<and> rule_view (blade_of w1) k = Some (ty, ls) \<and>
    rules k w1 = Inr w2 \<and> rule_view (blade_of w') k = rule_view (blade_of w2) k"
proof -
  obtain buf1 w1 buf2 w2 where xs: "rfold (gen_target_rules blade_of rules) xs (buf, w) = Inr (buf1, w1)"
    and k: "gen_target_rules blade_of rules k (buf1, w1) = Inr (buf2, w2)"
    and ys: "rfold (gen_target_rules blade_of rules) ys (buf2, w2) = Inr (buf', w')"
    using run by (auto simp: rfold_append rbind_eq_Inr)
  have skip1: "same_skips b0 (blade_of w1)" by (rule gen_loop_skips [OF xs assms(2)])
  have view1: "rule_view (blade_of w1) k = Some (ty, ls)" using gen_loop [OF xs assms(2)] assms(3) view by simp
  moreover obtain t where t: "build_target (blade_of w1) k = Inr t"
    using k by (auto simp: gen_target_rules_def rbind_eq_Inr)
  ultimately have "t_type t = ty"
    by (simp add: build_target_def rule_view_def dget_bt_view split: if_splits)
  moreover have "skips (blade_of w1) = skips b0" using skip1 by (simp add: fun_eq_iff skips_def same_skips_def opt_default_def)
  ultimately have "rules k w1 = Inr w2" using k t assms(5) by (auto simp: gen_target_rules_def rbind_eq_Inr)
  moreover have "same_skips b0 (blade_of w2)" by (rule gen_step(2) [OF k skip1])
  then have "rule_view (blade_of w') k = rule_view (blade_of w2) k" using gen_loop [OF ys] assms(3) by simp
  ultimately show ?thesis using xs view1 by blast
qed

end

section \<open>Parallel jobs\<close>

text \<open>
  C13. The number of parallel jobs: a positive number given by the user is used as it is; otherwise the
  number is at least 1 and at most 20 with distcc, and at least 2 and at most 8 without it, on
  a machine with at least one processor.
\<close>

theorem parallel_jobs_num_bounds:
  assumes "opt b ''jobs'' = Inr (PyInt n)" and "config_value b ''distcc_config'' ''enabled'' = Inr distcc"
    and "cpu_count \<ge> 1"
  shows "\<exists>jobs b'. parallel_jobs_num hosts cpu_count b = Inr (jobs, b') \<and>
    (if n > 0 then jobs = n
     else if truthy distcc \<and> hosts \<noteq> None then 1 \<le> jobs \<and> jobs \<le> 20
     else 2 \<le> jobs \<and> jobs \<le> 8)"
  using assms by (auto simp: parallel_jobs_num_def Let_def split: option.split)

section \<open>Witnesses\<close>

text \<open>A session: the sample tree is loaded and analysed, and its application is queried.\<close>

definition sample_session :: blade where
  "sample_session =
     sample_blade\<lparr>b_options := [(''jobs'', PyInt 0), (''deps'', PyBool True), (''depended'', PyBool False),
        (''output_to_dot'', PyNone), (''output_tree'', PyBool False)]\<rparr>"

definition sample_loaded :: blade where
  "sample_loaded =
     (case manager_load hd (rule_tree sample_dirs) sample_session of Some (Inr b) \<Rightarrow> b | _ \<Rightarrow> sample_session)"

definition sample_analyzed :: blade where
  "sample_analyzed = (case analyze_targets id sample_loaded of Inr b \<Rightarrow> b | _ \<Rightarrow> sample_loaded)"

lemma sample_loaded_run: "manager_load hd (rule_tree sample_dirs) sample_session = Some (Inr sample_loaded)"
proof -
  have "case manager_load hd (rule_tree sample_dirs) sample_session of Some r \<Rightarrow> is_ok r | None \<Rightarrow> False" by code_simp
  then show ?thesis by (auto simp: sample_loaded_def is_ok_def split: option.splits sum.splits)
qed

lemma sample_analyzed_run: "analyze_targets id sample_loaded = Inr sample_analyzed"
proof -
  have "is_ok (analyze_targets id sample_loaded)" by code_simp
  then show ?thesis by (auto simp: sample_analyzed_def is_ok_def split: sum.splits)
qed

lemma sample_distinct: "distinct (b_build_targets sample_loaded)"
  by code_simp

lemma sample_main: "(''app'', ''main'') \<in> set (b_build_targets sample_loaded)"
  by code_simp

lemma list_all_db: "list_all (\<lambda>e. P (snd e)) db \<Longrightarrow> dget db k = Some t \<Longrightarrow> P t"
  using dget_SomeD [of db k t] by (force simp: list_all_iff)

lemma sample_deps_expanded: "deps_expanded sample_loaded"
proof -
  have "list_all (\<lambda>e. set (t_deps (snd e)) \<subseteq> set (t_expanded_deps (snd e))) (b_target_database sample_loaded)" by code_simp
  from list_all_db [OF this] show ?thesis unfolding deps_expanded_def by blast
qed

lemma sample_visible: "visible sample_loaded"
proof -
  have "list_all (\<lambda>e. t_visibility (snd e) = Public) (b_target_database sample_loaded)" by code_simp
  from list_all_db [OF this] show ?thesis unfolding visible_def by blast
qed

theorem query_answers_exact_witness:
  "\<exists>m. query_helper sample_analyzed [''app:main''] = Inr m \<and>
     {d. ((''app'', ''main''), d) \<in> (depends sample_loaded)\<^sup>+} = {(''#'', ''pthread''), (''lib'', ''x''), (''lib'', ''y'')}"
proof -
  have "map_sum (\<lambda>_. ()) (\<lambda>m. map_option fst (dget m (''app'', ''main''))) (query_helper sample_analyzed [''app:main'']) =
      Inr (Some [(''#'', ''pthread''), (''lib'', ''x''), (''lib'', ''y'')])" by code_simp
  then obtain m e where m: "query_helper sample_analyzed [''app:main''] = Inr m" and e: "dget m (''app'', ''main'') = Some e"
    and fst: "fst e = [(''#'', ''pthread''), (''lib'', ''x''), (''lib'', ''y'')]"
    by (auto simp: map_sum_eq_Inr)
  show ?thesis
    using query_answers_exact [OF sample_analyzed_run sample_distinct _ m e] m fst by (auto simp: exact_entry_def)
qed

theorem query_tree_returns_witness:
  "\<exists>lines. query_tree (length (b_build_targets sample_loaded)) sample_analyzed (''app'', ''main'') 0 =
     Inr (show_key (''app'', ''main'') # lines)"
  by (rule query_tree_returns [OF sample_analyzed_run sample_distinct _ sample_deps_expanded sample_main]) simp

theorem loaded_targets_analyze_witness:
  "acyclic (depends sample_loaded) \<and> (\<exists>b. analyze_targets id sample_loaded = Inr b)"
proof -
  have "if acyclic (depends sample_loaded) then \<exists>b2. analyze_targets id sample_loaded = Inr b2
    else \<exists>d roots. analyze_targets id sample_loaded = Inl (SystemExit (loop_msg d roots))"
    by (rule loaded_targets_analyze [OF _ _ sample_loaded_run sample_visible sample_deps_expanded])
       (simp_all add: rule_trees.program)
  then show ?thesis using sample_analyzed_run by (auto split: if_splits)
qed

theorem parallel_jobs_num_bounds_witness:
  "\<exists>jobs b'. parallel_jobs_num None 4 sample_session = Inr (jobs, b') \<and> 2 \<le> jobs \<and> jobs \<le> 8"
proof -
  have "opt sample_session ''jobs'' = Inr (PyInt 0)"
    and "config_value sample_session ''distcc_config'' ''enabled'' = Inr (PyBool False)" by code_simp+
  from parallel_jobs_num_bounds [OF this, of 4 None] show ?thesis by simp
qed

end
