(* ===== verification/Test_Scheduler.thy ===== *)
theory Test_Scheduler
  imports Blade_State
begin

text \<open>
  The scheduler that runs tests in several threads, \<open>src/blade/test_scheduler.py\<close>. The worker threads and
  the main thread interleave: a step of the model is one step of one of them between two
  accesses to shared data (the job queue is a \<open>Queue.Queue\<close>, the other shared data is
  guarded by locks). What a test process returns, and when, is up to the environment.
\<close>

section \<open>Data\<close>

record job =
  j_target :: target
  j_run_dir :: string
  j_env :: "(string, string) dict"
  j_cmd :: "string list"

definition signal_map :: "(int, string) dict" where
  "signal_map =
     [(-1, ''SIGHUP''), (-2, ''SIGINT''), (-3, ''SIGQUIT''), (-4, ''SIGILL''), (-5, ''SIGTRAP''), (-6, ''SIGABRT''),
      (-7, ''SIGBUS''), (-8, ''SIGFPE''), (-9, ''SIGKILL''), (-10, ''SIGUSR1''), (-11, ''SIGSEGV''), (-12, ''SIGUSR2''),
      (-13, ''SIGPIPE''), (-14, ''SIGALRM''), (-15, ''SIGTERM''), (-17, ''SIGCHLD''), (-18, ''SIGCONT''), (-19, ''SIGSTOP''),
      (-20, ''SIGTSTP''), (-21, ''SIGTTIN''), (-22, ''SIGTTOU''), (-23, ''SIGURG''), (-24, ''SIGXCPU''), (-25, ''SIGXFSZ''),
      (-26, ''SIGVTALRM''), (-27, ''SIGPROF''), (-28, ''SIGWINCH''), (-29, ''SIGIO''), (-30, ''SIGPWR''), (-31, ''SIGSYS'')]"

text \<open>
  Where a worker thread is: before the loop condition, after it and before the queue is
  read, inside the job handler before and after the process of the test exists, or ended.
\<close>

datatype worker_pc = AtLoop | AtGet | Starting job | Waiting job | Dead

text \<open>
  The attributes of \<open>WorkerThread\<close>; \<open>w_exclusive\<close> says which of the two queues is its \<open>job_queue\<close>,
  \<open>w_process\<close> whether \<open>job_process\<close> is an object, and times are in ticks of the clock.
\<close>

record worker =
  w_thread_id :: nat
  w_exclusive :: bool
  w_running :: bool
  w_redirect :: bool
  w_pc :: worker_pc
  w_start_time :: int
  w_timeout :: "int option"
  w_process :: bool
  w_name :: string
  w_is_timeout :: bool

definition new_worker :: "nat \<Rightarrow> bool \<Rightarrow> bool \<Rightarrow> worker" where
  "new_worker i exclusive redirect =
     \<lparr>w_thread_id = i, w_exclusive = exclusive, w_running = True, w_redirect = redirect, w_pc = AtLoop, w_start_time = 0,
      w_timeout = Some 0, w_process = False, w_name = [], w_is_timeout = False\<rparr>"

definition terminate :: "worker \<Rightarrow> worker" where
  "terminate w = w\<lparr>w_running := False\<rparr>"

definition cleanup_job :: "worker \<Rightarrow> worker" where
  "cleanup_job w =
     w\<lparr>w_start_time := 0, w_timeout := Some 0, w_process := False, w_name := [], w_is_timeout := False\<rparr>"

definition set_job_data :: "string \<Rightarrow> int option \<Rightarrow> worker \<Rightarrow> worker" where
  "set_job_data name timeout w = w\<lparr>w_process := True, w_name := name, w_timeout := timeout\<rparr>"

text \<open>The condition under which \<open>check_job_timeout\<close> terminates the process.\<close>

definition times_out :: "int \<Rightarrow> worker \<Rightarrow> bool" where
  "times_out now w =
     (\<not> w_is_timeout w \<and> w_start_time w \<noteq> 0 \<and> w_name w \<noteq> [] \<and> w_process w \<and>
      (case w_timeout w of None \<Rightarrow> False | Some t \<Rightarrow> w_start_time w + t < now))"

definition check_job_timeout :: "int \<Rightarrow> worker \<Rightarrow> worker" where
  "check_job_timeout now w = (if times_out now w then w\<lparr>w_is_timeout := True\<rparr> else w)"

section \<open>Results\<close>

definition get_result :: "int \<Rightarrow> string" where
  "get_result returncode =
     (if returncode \<noteq> 0 then dgetd signal_map returncode ''FAILED'' @ '':'' @ show_int returncode else ''SUCCESS'')"

text \<open>
  The scheduler object. Where the main thread is: it waits for the workers, or for the worker of the
  exclusive tests, prints the summary, or was interrupted in one of the two waits (the flag says
  whether in the second). The jobs whose handler has returned, and those whose handler has raised, are
  kept as a history. \<open>s_check_timeouts\<close> says whether a test timeout is configured.
\<close>

datatype main_pc = WaitWorkers | WaitExclusive | Summary | Interrupted bool

record scheduler =
  s_jobs :: int
  s_tests_run_map :: "(key, (string, pyval) dict) dict"
  s_num_of_tests :: nat
  s_failed_targets :: "(key \<times> int) list"
  s_num_of_run_tests :: nat
  s_job_queue :: "job list"
  s_exclusive_job_queue :: "job list"
  s_workers :: "worker list"
  s_main :: main_pc
  s_check_timeouts :: bool
  s_finished :: "job list"
  s_lost :: "job list"

definition get_workers_num :: "nat \<Rightarrow> int \<Rightarrow> nat \<Rightarrow> int \<times> int" where
  "get_workers_num cpu_core_num jobs num_of_tests =
     (let max_workers = max (int cpu_core_num) 16
      in if jobs \<le> 1 then (1, jobs)
         else let jobs = (if jobs > max_workers then max_workers else jobs)
              in (min (int num_of_tests) jobs, jobs))"

text \<open>
  \<open>_process_job\<close> after the process has ended: \<open>returncode\<close> is \<open>None\<close> when the process could not be
  created (\<open>OSError\<close>), which counts as 255. The store \<open>target.data['test_exit_code']\<close> is kept
  beside the target in the list of failed targets.
\<close>

definition process_job :: "job \<Rightarrow> int option \<Rightarrow> int \<Rightarrow> scheduler \<Rightarrow> scheduler" where
  "process_job j outcome costtime s =
     (let returncode = (case outcome of None \<Rightarrow> 255 | Some c \<Rightarrow> c);
          k = t_key (j_target j);
          failed = (if returncode \<noteq> 0 then s_failed_targets s @ [(k, returncode)] else s_failed_targets s);
          run_item_map = dgetd (s_tests_run_map s) k [];
          run_map = (if run_item_map \<noteq> []
                     then dset k (dset ''costtime'' (PyInt costtime) (dset ''result'' (PyStr (get_result returncode)) run_item_map))
                            (s_tests_run_map s)
                     else s_tests_run_map s)
      in s\<lparr>s_failed_targets := failed, s_tests_run_map := run_map,
           s_num_of_run_tests := s_num_of_run_tests s + 1, s_finished := s_finished s @ [j]\<rparr>)"

definition is_exclusive :: "job \<Rightarrow> bool" where
  "is_exclusive j = truthy (get_data (j_target j) ''exclusive'' PyNone)"

definition job_timeout :: "job \<Rightarrow> int option" where
  "job_timeout j = (case get_data (j_target j) ''test_timeout'' PyNone of PyInt n \<Rightarrow> Some n | _ \<Rightarrow> None)"

section \<open>Steps\<close>

text \<open>The \<open>job_queue\<close> of a worker thread.\<close>

definition worker_queue :: "worker \<Rightarrow> scheduler \<Rightarrow> job list" where
  "worker_queue w s = (if w_exclusive w then s_exclusive_job_queue s else s_job_queue s)"

definition set_worker_queue :: "worker \<Rightarrow> job list \<Rightarrow> scheduler \<Rightarrow> scheduler" where
  "set_worker_queue w q s =
     (if w_exclusive w then s\<lparr>s_exclusive_job_queue := q\<rparr> else s\<lparr>s_job_queue := q\<rparr>)"

definition set_worker :: "nat \<Rightarrow> worker \<Rightarrow> scheduler \<Rightarrow> scheduler" where
  "set_worker i w s = s\<lparr>s_workers := (s_workers s)[i := w]\<rparr>"

text \<open>
  \<open>schedule_jobs\<close> up to the point where the workers have started. Without tests it returns at
  once.
\<close>

definition schedule_jobs :: "bool \<Rightarrow> nat \<Rightarrow> int \<Rightarrow> (key, (string, pyval) dict) dict \<Rightarrow> job list \<Rightarrow> scheduler" where
  "schedule_jobs timeouts cpu_core_num jobs run_map tests =
     (let (n, jobs') = get_workers_num cpu_core_num jobs (length tests);
          started = (tests \<noteq> [])
      in \<lparr>s_jobs = (if started then jobs' else jobs), s_tests_run_map = run_map, s_num_of_tests = length tests,
          s_failed_targets = [], s_num_of_run_tests = 0,
          s_job_queue = filter (\<lambda>j. \<not> is_exclusive j) tests,
          s_exclusive_job_queue = filter is_exclusive tests,
          s_workers = (if started then map (\<lambda>i. new_worker i False (n > 1)) [0..<nat n] else []),
          s_main = (if started then WaitWorkers else Summary),
          s_check_timeouts = timeouts, s_finished = [], s_lost = []\<rparr>)"

definition all_dead :: "scheduler \<Rightarrow> bool" where
  "all_dead s = list_all (\<lambda>w. w_pc w = Dead) (s_workers s)"

text \<open>
  The steps of worker \<open>i\<close>: the loop condition, taking a job (another worker may have taken the last one in
  between), the start of the process and its end, after which the job's data is cleaned up. An
  exception of the handler ends the thread. The steps of the main thread: the check for timeouts, the
  start of the exclusive worker when the others have ended, beside their thread objects, and an interrupt by
  the user. That the main thread looks every second, without changing anything, is not a step.
\<close>

inductive sched_step :: "scheduler \<Rightarrow> scheduler \<Rightarrow> bool" where
  loop_go: "i < length (s_workers s) \<Longrightarrow> w = s_workers s ! i \<Longrightarrow> w_pc w = AtLoop \<Longrightarrow>
     worker_queue w s \<noteq> [] \<Longrightarrow> w_running w \<Longrightarrow> sched_step s (set_worker i (w\<lparr>w_pc := AtGet\<rparr>) s)"
| loop_end: "i < length (s_workers s) \<Longrightarrow> w = s_workers s ! i \<Longrightarrow> w_pc w = AtLoop \<Longrightarrow>
     worker_queue w s = [] \<or> \<not> w_running w \<Longrightarrow> sched_step s (set_worker i (w\<lparr>w_pc := Dead\<rparr>) s)"
| get_empty: "i < length (s_workers s) \<Longrightarrow> w = s_workers s ! i \<Longrightarrow> w_pc w = AtGet \<Longrightarrow>
     worker_queue w s = [] \<Longrightarrow> sched_step s (set_worker i (w\<lparr>w_pc := AtLoop\<rparr>) s)"
| get_job: "i < length (s_workers s) \<Longrightarrow> w = s_workers s ! i \<Longrightarrow> w_pc w = AtGet \<Longrightarrow>
     worker_queue w s = j # q \<Longrightarrow> now > 0 \<Longrightarrow>
     sched_step s (set_worker i (w\<lparr>w_pc := Starting j, w_start_time := now\<rparr>) (set_worker_queue w q s))"
| start: "i < length (s_workers s) \<Longrightarrow> w = s_workers s ! i \<Longrightarrow> w_pc w = Starting j \<Longrightarrow>
     sched_step s (set_worker i (set_job_data (t_fullname (j_target j)) (job_timeout j) (w\<lparr>w_pc := Waiting j\<rparr>)) s)"
| start_fails: "i < length (s_workers s) \<Longrightarrow> w = s_workers s ! i \<Longrightarrow> w_pc w = Starting j \<Longrightarrow>
     sched_step s (set_worker i (cleanup_job (w\<lparr>w_pc := AtLoop\<rparr>)) (process_job j None costtime s))"
| finish: "i < length (s_workers s) \<Longrightarrow> w = s_workers s ! i \<Longrightarrow> w_pc w = Waiting j \<Longrightarrow>
     sched_step s (set_worker i (cleanup_job (w\<lparr>w_pc := AtLoop\<rparr>)) (process_job j (Some returncode) costtime s))"
| crash: "i < length (s_workers s) \<Longrightarrow> w = s_workers s ! i \<Longrightarrow> w_pc w = Starting j \<or> w_pc w = Waiting j \<Longrightarrow>
     sched_step s (set_worker i (w\<lparr>w_pc := Dead\<rparr>) (s\<lparr>s_lost := s_lost s @ [j]\<rparr>))"
| timeout: "i < length (s_workers s) \<Longrightarrow> w = s_workers s ! i \<Longrightarrow> s_main s \<in> {WaitWorkers, WaitExclusive} \<Longrightarrow>
     s_check_timeouts s \<Longrightarrow> w_pc w \<noteq> Dead \<Longrightarrow> times_out now w \<Longrightarrow> sched_step s (set_worker i (check_job_timeout now w) s)"
| spawn_exclusive: "s_main s = WaitWorkers \<Longrightarrow> all_dead s \<Longrightarrow> s_exclusive_job_queue s \<noteq> [] \<Longrightarrow>
     sched_step s (s\<lparr>s_main := WaitExclusive, s_workers := s_workers s @ [new_worker (length (s_workers s)) True False]\<rparr>)"
| no_exclusive: "s_main s = WaitWorkers \<Longrightarrow> all_dead s \<Longrightarrow> s_exclusive_job_queue s = [] \<Longrightarrow>
     sched_step s (s\<lparr>s_main := Summary\<rparr>)"
| exclusive_done: "s_main s = WaitExclusive \<Longrightarrow> all_dead s \<Longrightarrow> sched_step s (s\<lparr>s_main := Summary\<rparr>)"
| interrupt: "s_main s \<in> {WaitWorkers, WaitExclusive} \<Longrightarrow> \<not> all_dead s \<Longrightarrow>
     sched_step s (s\<lparr>s_main := Interrupted (s_main s = WaitExclusive), s_workers := map terminate (s_workers s)\<rparr>)"

inductive reached :: "scheduler \<Rightarrow> scheduler \<Rightarrow> bool" for s0 where
  reached_start: "reached s0 s0"
| reached_step: "reached s0 s \<Longrightarrow> sched_step s t \<Longrightarrow> reached s0 t"

end
