(* ===== verification/Sched_Facts.thy ===== *)
theory Sched_Facts
  imports Test_Scheduler
begin

text \<open>
  Properties of the test scheduler under every interleaving of the threads: no test is lost or run twice,
  an exclusive test runs alone, the scheduling refines a simple pool of jobs, and
  every run ends.
\<close>

section \<open>What a state holds\<close>

fun jobs_at :: "worker_pc \<Rightarrow> job list" where
  "jobs_at (Starting j) = [j]"
| "jobs_at (Waiting j) = [j]"
| "jobs_at _ = []"

definition running_jobs :: "scheduler \<Rightarrow> job multiset" where
  "running_jobs s = (\<Sum>w\<leftarrow>s_workers s. mset (jobs_at (w_pc w)))"

lemma sum_list_update_add:
  fixes f :: "'a \<Rightarrow> 'b :: comm_monoid_add"
  assumes "i < length xs"
  shows "sum_list (map f (xs[i := y])) + f (xs ! i) = sum_list (map f xs) + f y"
  using assms
proof (induction xs arbitrary: i)
  case (Cons x xs)
  show ?case
  proof (cases i)
    case 0
    then show ?thesis by (simp add: ac_simps)
  next
    case (Suc k)
    then have "sum_list (map f (xs[k := y])) + f (xs ! k) = sum_list (map f xs) + f y" using Cons by simp
    then show ?thesis by (simp add: Suc add.assoc)
  qed
qed simp

lemma running_set_worker:
  assumes "i < length (s_workers s)"
  shows "running_jobs (set_worker i w s) + mset (jobs_at (w_pc (s_workers s ! i))) =
    running_jobs s + mset (jobs_at (w_pc w))"
  using sum_list_update_add [OF assms, of "\<lambda>w. mset (jobs_at (w_pc w))" w]
  by (simp add: running_jobs_def set_worker_def)

lemma running_same:
  assumes "i < length (s_workers s)" and "jobs_at (w_pc w) = jobs_at (w_pc (s_workers s ! i))"
  shows "running_jobs (set_worker i w s) = running_jobs s"
  using running_set_worker [OF assms(1), of w] assms(2) by simp

lemma running_more:
  assumes "i < length (s_workers s)" and "jobs_at (w_pc w) = [j]" and "jobs_at (w_pc (s_workers s ! i)) = []"
  shows "running_jobs (set_worker i w s) = add_mset j (running_jobs s)"
  using running_set_worker [OF assms(1), of w] assms(2,3) by simp

lemma running_less:
  assumes "i < length (s_workers s)" and "jobs_at (w_pc w) = []" and "jobs_at (w_pc (s_workers s ! i)) = [j]"
  shows "running_jobs s = add_mset j (running_jobs (set_worker i w s))"
  using running_set_worker [OF assms(1), of w] assms(2,3) by simp

lemma set_worker_simps [simp]:
  "s_job_queue (set_worker i w s) = s_job_queue s" "s_exclusive_job_queue (set_worker i w s) = s_exclusive_job_queue s"
  "s_finished (set_worker i w s) = s_finished s" "s_lost (set_worker i w s) = s_lost s"
  "s_main (set_worker i w s) = s_main s" "s_num_of_run_tests (set_worker i w s) = s_num_of_run_tests s"
  "s_workers (set_worker i w s) = (s_workers s)[i := w]" "worker_queue v (set_worker i w s) = worker_queue v s"
  "s_failed_targets (set_worker i w s) = s_failed_targets s"
  by (simp_all add: set_worker_def worker_queue_def)

lemma process_job_simps [simp]:
  "s_job_queue (process_job j c t s) = s_job_queue s" "s_exclusive_job_queue (process_job j c t s) = s_exclusive_job_queue s"
  "s_finished (process_job j c t s) = s_finished s @ [j]" "s_lost (process_job j c t s) = s_lost s"
  "s_main (process_job j c t s) = s_main s" "s_workers (process_job j c t s) = s_workers s"
  "s_num_of_run_tests (process_job j c t s) = Suc (s_num_of_run_tests s)"
  "worker_queue v (process_job j c t s) = worker_queue v s" "running_jobs (process_job j c t s) = running_jobs s"
  by (simp_all add: process_job_def Let_def worker_queue_def running_jobs_def)

lemma set_worker_queue_simps [simp]:
  "s_finished (set_worker_queue w q s) = s_finished s" "s_lost (set_worker_queue w q s) = s_lost s"
  "s_main (set_worker_queue w q s) = s_main s" "s_workers (set_worker_queue w q s) = s_workers s"
  "s_num_of_run_tests (set_worker_queue w q s) = s_num_of_run_tests s"
  "worker_queue v (set_worker_queue w q s) = (if w_exclusive v = w_exclusive w then q else worker_queue v s)"
  "running_jobs (set_worker_queue w q s) = running_jobs s" "s_failed_targets (set_worker_queue w q s) = s_failed_targets s"
  by (simp_all add: set_worker_queue_def worker_queue_def running_jobs_def)

lemma pc_simps [simp]:
  "w_pc (cleanup_job w) = w_pc w" "w_pc (set_job_data n t w) = w_pc w" "w_pc (check_job_timeout now w) = w_pc w"
  "w_pc (terminate w) = w_pc w" "w_running (cleanup_job w) = w_running w" "w_running (set_job_data n t w) = w_running w"
  "w_running (check_job_timeout now w) = w_running w" "w_exclusive (cleanup_job w) = w_exclusive w"
  "w_exclusive (set_job_data n t w) = w_exclusive w" "w_exclusive (check_job_timeout now w) = w_exclusive w"
  "w_exclusive (terminate w) = w_exclusive w"
  by (simp_all add: cleanup_job_def set_job_data_def check_job_timeout_def terminate_def)

lemma queues_pop:
  assumes "worker_queue w s = j # q"
  shows "mset (s_job_queue s) + mset (s_exclusive_job_queue s) =
    add_mset j (mset (s_job_queue (set_worker_queue w q s)) + mset (s_exclusive_job_queue (set_worker_queue w q s)))"
  using assms by (simp add: worker_queue_def set_worker_queue_def split: if_splits)

lemma running_terminate [simp]: "running_jobs (s\<lparr>s_main := m, s_workers := map terminate (s_workers s)\<rparr>) = running_jobs s"
  by (simp add: running_jobs_def comp_def)

lemma running_dead: "all_dead s \<Longrightarrow> running_jobs s = {#}"
proof -
  have "list_all (\<lambda>w. w_pc w = Dead) ws \<Longrightarrow> (\<Sum>w\<leftarrow>ws. mset (jobs_at (w_pc w))) = {#}" for ws
    by (induction ws) simp_all
  then show "all_dead s \<Longrightarrow> running_jobs s = {#}" by (simp add: all_dead_def running_jobs_def)
qed

section \<open>The abstract pool of jobs\<close>

text \<open>
  What the scheduler promises: jobs are taken from the pending ones, an exclusive one only while nothing else
  is active and nothing else while an exclusive one is active, and an active job is completed
  or (when its thread crashes) dropped.
\<close>

record pool =
  pending :: "job multiset"
  active :: "job multiset"
  complete :: "job multiset"
  dropped :: "job multiset"

inductive pool_step :: "pool \<Rightarrow> pool \<Rightarrow> bool" where
  take: "pending p = add_mset j rest \<Longrightarrow> (is_exclusive j \<Longrightarrow> active p = {#}) \<Longrightarrow>
     (\<And>a. a \<in># active p \<Longrightarrow> \<not> is_exclusive a) \<Longrightarrow>
     pool_step p (p\<lparr>pending := rest, active := add_mset j (active p)\<rparr>)"
| completes: "active p = add_mset j rest \<Longrightarrow>
     pool_step p (p\<lparr>active := rest, complete := add_mset j (complete p)\<rparr>)"
| drops: "active p = add_mset j rest \<Longrightarrow>
     pool_step p (p\<lparr>active := rest, dropped := add_mset j (dropped p)\<rparr>)"

definition abs_pool :: "scheduler \<Rightarrow> pool" where
  "abs_pool s =
     \<lparr>pending = mset (s_job_queue s) + mset (s_exclusive_job_queue s), active = running_jobs s,
      complete = mset (s_finished s), dropped = mset (s_lost s)\<rparr>"

definition pool_jobs :: "pool \<Rightarrow> job multiset" where
  "pool_jobs p = pending p + active p + complete p + dropped p"

lemma pool_step_jobs: "pool_step p q \<Longrightarrow> pool_jobs q = pool_jobs p"
  by (induction rule: pool_step.induct) (simp_all add: pool_jobs_def)

text \<open>
  The invariant: the queues hold the kind of tests they are for, a worker runs tests of its kind, every other
  thread has ended when there is a worker for exclusive tests, and that worker is only there after the first wait.
\<close>

definition others_dead :: "nat \<Rightarrow> worker list \<Rightarrow> bool" where
  "others_dead i ws \<longleftrightarrow> (\<forall>k < length ws. k \<noteq> i \<longrightarrow> w_pc (ws ! k) = Dead)"

definition exclusive_alone :: "worker list \<Rightarrow> bool" where
  "exclusive_alone ws \<longleftrightarrow> (\<forall>i < length ws. w_exclusive (ws ! i) \<longrightarrow> others_dead i ws)"

definition own_kind :: "worker \<Rightarrow> bool" where
  "own_kind w \<longleftrightarrow> (\<forall>j \<in> set (jobs_at (w_pc w)). is_exclusive j = w_exclusive w)"

definition sched_inv :: "scheduler \<Rightarrow> bool" where
  "sched_inv s \<longleftrightarrow>
     (\<forall>j \<in> set (s_job_queue s). \<not> is_exclusive j) \<and> (\<forall>j \<in> set (s_exclusive_job_queue s). is_exclusive j) \<and>
     (\<forall>w \<in> set (s_workers s). own_kind w) \<and> exclusive_alone (s_workers s) \<and>
     (s_main s = WaitWorkers \<longrightarrow> (\<forall>w \<in> set (s_workers s). \<not> w_exclusive w)) \<and>
     (s_main s = Summary \<longrightarrow> all_dead s) \<and>
     s_num_of_run_tests s = length (s_finished s)"

lemma schedule_jobs_inv: "sched_inv (schedule_jobs to cpu n m tests)"
  by (auto simp: sched_inv_def schedule_jobs_def all_dead_def exclusive_alone_def own_kind_def
      case_prod_unfold Let_def new_worker_def)

text \<open>When all other threads have ended, only the jobs of one worker run.\<close>

lemma sum_list_one:
  fixes f :: "'a \<Rightarrow> 'b :: comm_monoid_add"
  assumes "i < length xs" and "\<forall>k < length xs. k \<noteq> i \<longrightarrow> f (xs ! k) = 0"
  shows "sum_list (map f xs) = f (xs ! i)"
  using assms
proof (induction xs arbitrary: i)
  case (Cons x xs)
  show ?case
  proof (cases i)
    case 0
    have "f y = 0" if "y \<in> set xs" for y
      using that Cons.prems(2) 0 by (metis in_set_conv_nth length_Cons nth_Cons_Suc Suc_less_eq nat.distinct(1))
    then have "sum_list (map f xs) = 0" by (simp cong: map_cong)
    then show ?thesis using 0 by simp
  next
    case (Suc k)
    then have "sum_list (map f xs) = f (xs ! k)" using Cons by (intro Cons.IH) auto
    moreover have "f x = 0" using Cons.prems(2) Suc by auto
    ultimately show ?thesis using Suc by simp
  qed
qed simp

lemma only_worker:
  assumes "i < length (s_workers s)" and "others_dead i (s_workers s)"
  shows "running_jobs s = mset (jobs_at (w_pc (s_workers s ! i)))"
  unfolding running_jobs_def using assms by (intro sum_list_one) (simp_all add: others_dead_def)

lemma running_worker:
  assumes "j \<in># running_jobs s"
  obtains k where "k < length (s_workers s)" and "j \<in> set (jobs_at (w_pc (s_workers s ! k)))"
proof -
  have "j \<in># (\<Sum>w\<leftarrow>ws. mset (jobs_at (w_pc w))) \<Longrightarrow> \<exists>w \<in> set ws. j \<in> set (jobs_at (w_pc w))" for ws
    by (induction ws) auto
  then show thesis using assms that by (metis in_set_conv_nth running_jobs_def)
qed

lemma queue_kind:
  assumes "sched_inv s" and "worker_queue w s = j # q"
  shows "is_exclusive j = w_exclusive w"
  using assms by (auto simp: sched_inv_def worker_queue_def split: if_splits)

lemma running_kind:
  assumes "sched_inv s" and "k < length (s_workers s)" and "j \<in> set (jobs_at (w_pc (s_workers s ! k)))"
  shows "is_exclusive j = w_exclusive (s_workers s ! k)"
  using assms nth_mem [OF assms(2)] unfolding sched_inv_def own_kind_def by blast

lemma exclusive_others:
  "sched_inv s \<Longrightarrow> k < length (s_workers s) \<Longrightarrow> w_exclusive (s_workers s ! k) \<Longrightarrow> others_dead k (s_workers s)"
  unfolding sched_inv_def exclusive_alone_def by blast

lemma take_guard:
  assumes inv: "sched_inv s" and i: "i < length (s_workers s)" and pc: "w_pc (s_workers s ! i) = AtGet"
    and q: "worker_queue (s_workers s ! i) s = j # q"
  shows "is_exclusive j \<Longrightarrow> running_jobs s = {#}" and "a \<in># running_jobs s \<Longrightarrow> \<not> is_exclusive a"
proof -
  show "is_exclusive j \<Longrightarrow> running_jobs s = {#}"
    using only_worker [OF i] exclusive_others [OF inv i] queue_kind [OF inv q] pc by simp
  assume a: "a \<in># running_jobs s"
  obtain k where k: "k < length (s_workers s)" "a \<in> set (jobs_at (w_pc (s_workers s ! k)))"
    by (rule running_worker [OF a])
  show "\<not> is_exclusive a"
  proof
    assume "is_exclusive a"
    then have "others_dead k (s_workers s)" using exclusive_others [OF inv k(1)] running_kind [OF inv k] by simp
    moreover have "k \<noteq> i" using k(2) pc by auto
    ultimately show False using i pc by (auto simp: others_dead_def)
  qed
qed

lemma quiet_step:
  assumes "i < length (s_workers s)" and "jobs_at (w_pc w) = jobs_at (w_pc (s_workers s ! i))"
  shows "abs_pool (set_worker i w s) = abs_pool s"
  using running_same [OF assms] by (simp add: abs_pool_def)

lemma finish_step:
  assumes "i < length (s_workers s)" and "jobs_at (w_pc w) = []" and "jobs_at (w_pc (s_workers s ! i)) = [j]"
  shows "pool_step (abs_pool s) (abs_pool (set_worker i w (process_job j c cost s)))"
proof -
  have "running_jobs s = add_mset j (running_jobs (set_worker i w (process_job j c cost s)))"
    using running_less [of i "process_job j c cost s" w j] assms by simp
  then show ?thesis
    using pool_step.completes [of "abs_pool s" j "running_jobs (set_worker i w (process_job j c cost s))"]
    by (simp add: abs_pool_def)
qed

lemma crash_step:
  assumes "i < length (s_workers s)" and "jobs_at (w_pc w) = []" and "jobs_at (w_pc (s_workers s ! i)) = [j]"
  shows "pool_step (abs_pool s) (abs_pool (set_worker i w (s\<lparr>s_lost := s_lost s @ [j]\<rparr>)))"
proof -
  have "running_jobs (s\<lparr>s_lost := s_lost s @ [j]\<rparr>) = running_jobs s" by (simp add: running_jobs_def)
  then have "running_jobs s = add_mset j (running_jobs (set_worker i w (s\<lparr>s_lost := s_lost s @ [j]\<rparr>)))"
    using running_less [of i "s\<lparr>s_lost := s_lost s @ [j]\<rparr>" w j] assms by simp
  then show ?thesis
    using pool_step.drops [of "abs_pool s" j "running_jobs (set_worker i w (s\<lparr>s_lost := s_lost s @ [j]\<rparr>))"]
    by (simp add: abs_pool_def)
qed

lemma take_step:
  assumes inv: "sched_inv s" and i: "i < length (s_workers s)" and pc: "w_pc (s_workers s ! i) = AtGet"
    and q: "worker_queue (s_workers s ! i) s = j # q" and w: "jobs_at (w_pc w) = [j]"
  shows "pool_step (abs_pool s) (abs_pool (set_worker i w (set_worker_queue (s_workers s ! i) q s)))"
proof -
  let ?t = "set_worker i w (set_worker_queue (s_workers s ! i) q s)"
  note guard = take_guard [OF inv i pc q]
  have "running_jobs ?t = add_mset j (running_jobs s)"
    by (subst running_more [where j = j]) (use i pc w in simp_all)
  then have t: "(abs_pool s)\<lparr>pending := pending (abs_pool ?t), active := add_mset j (active (abs_pool s))\<rparr> = abs_pool ?t"
    by (simp add: abs_pool_def)
  have "pool_step (abs_pool s) ((abs_pool s)\<lparr>pending := pending (abs_pool ?t), active := add_mset j (active (abs_pool s))\<rparr>)"
  proof (rule pool_step.take)
    show "pending (abs_pool s) = add_mset j (pending (abs_pool ?t))"
      using queues_pop [OF q] by (simp add: abs_pool_def)
  qed (use guard in \<open>simp_all add: abs_pool_def\<close>)
  then show ?thesis unfolding t .
qed

lemma main_step:
  "abs_pool (s\<lparr>s_main := m\<rparr>) = abs_pool s"
  "abs_pool (s\<lparr>s_main := m, s_workers := s_workers s @ [new_worker n e r]\<rparr>) = abs_pool s"
  by (simp_all add: abs_pool_def running_jobs_def new_worker_def)

lemma step_simulates:
  assumes "sched_step s t" and inv: "sched_inv s"
  shows "pool_step (abs_pool s) (abs_pool t) \<or> abs_pool t = abs_pool s"
  using assms(1)
proof (cases rule: sched_step.cases)
  case (get_job i w j q now)
  then show ?thesis using take_step [OF inv, of i j q] by simp
next
  case (start_fails i w j cost)
  then show ?thesis using finish_step [of i s _ j None cost] by simp
next
  case (finish i w j code cost)
  then show ?thesis using finish_step [of i s _ j "Some code" cost] by simp
next
  case (crash i w j)
  then show ?thesis using crash_step [of i s _ j] by auto
qed (simp_all add: quiet_step main_step, simp add: abs_pool_def)

section \<open>Invariants\<close>

text \<open>A thread that moves keeps its kind; one that has ended stays so.\<close>

lemma exclusive_alone_update:
  assumes "exclusive_alone ws" and "i < length ws" and "w_exclusive w = w_exclusive (ws ! i)"
    and "w_pc (ws ! i) = Dead \<longrightarrow> w_pc w = Dead"
  shows "exclusive_alone (ws[i := w])"
  unfolding exclusive_alone_def others_dead_def length_list_update
proof (intro allI impI)
  fix e k
  assume e: "e < length ws" "w_exclusive (ws[i := w] ! e)" and k: "k < length ws" "k \<noteq> e"
  then have "w_exclusive (ws ! e)" using assms(3) by (cases "e = i") auto
  then have "w_pc (ws ! k) = Dead" using assms(1) e k unfolding exclusive_alone_def others_dead_def by blast
  then show "w_pc (ws[i := w] ! k) = Dead" using assms(4) k by (cases "k = i") auto
qed

lemma sched_inv_worker:
  assumes "sched_inv s" and "i < length (s_workers s)" and "w_exclusive w = w_exclusive (s_workers s ! i)"
    and "w_pc (s_workers s ! i) = Dead \<longrightarrow> w_pc w = Dead" and "own_kind w"
  shows "sched_inv (set_worker i w s)"
proof -
  note old = assms(1) [unfolded sched_inv_def]
  have sub: "v = w \<or> v \<in> set (s_workers s)" if "v \<in> set ((s_workers s)[i := w])" for v
    using set_update_subset_insert [of "s_workers s" i w] that by blast
  have "all_dead (set_worker i w s)" if "all_dead s"
    using that assms(2,4) sub by (fastforce simp: all_dead_def list_all_iff)
  moreover have "exclusive_alone ((s_workers s)[i := w])"
    using old by (intro exclusive_alone_update [OF _ assms(2-4)]) blast
  moreover have "\<not> w_exclusive v" if "v \<in> set ((s_workers s)[i := w])" "s_main s = WaitWorkers" for v
    using sub [OF that(1)] that(2) old assms(2,3) by auto
  moreover have "own_kind v" if "v \<in> set ((s_workers s)[i := w])" for v
    using sub [OF that] old assms(5) by blast
  ultimately show ?thesis
    using old unfolding sched_inv_def set_worker_simps by blast
qed

lemma sched_inv_process: "sched_inv s \<Longrightarrow> sched_inv (process_job j c cost s)"
  unfolding sched_inv_def process_job_simps all_dead_def by simp

lemma sched_inv_pop: "sched_inv s \<Longrightarrow> worker_queue w s = j # q \<Longrightarrow> sched_inv (set_worker_queue w q s)"
  by (auto simp: sched_inv_def all_dead_def worker_queue_def set_worker_queue_def split: if_splits)

lemma sched_inv_lost: "sched_inv s \<Longrightarrow> sched_inv (s\<lparr>s_lost := l\<rparr>)"
  by (simp add: sched_inv_def all_dead_def)

lemma running_member:
  assumes "i < length (s_workers s)" and "j \<in> set (jobs_at (w_pc (s_workers s ! i)))"
  shows "j \<in># running_jobs s"
proof -
  have "running_jobs s = running_jobs (set_worker i ((s_workers s ! i)\<lparr>w_pc := Dead\<rparr>) s) + mset (jobs_at (w_pc (s_workers s ! i)))"
    using running_set_worker [OF assms(1), of "(s_workers s ! i)\<lparr>w_pc := Dead\<rparr>"] by simp
  then show ?thesis using assms(2) by simp
qed

lemma own_kind_same: "sched_inv s \<Longrightarrow> i < length (s_workers s) \<Longrightarrow> jobs_at (w_pc w) = jobs_at (w_pc (s_workers s ! i)) \<Longrightarrow>
  w_exclusive w = w_exclusive (s_workers s ! i) \<Longrightarrow> own_kind w"
  using running_kind by (simp add: own_kind_def)

lemma own_kind_idle: "jobs_at (w_pc w) = [] \<Longrightarrow> own_kind w"
  by (simp add: own_kind_def)

lemma exclusive_alone_snoc:
  "list_all (\<lambda>w. w_pc w = Dead) ws \<Longrightarrow> \<forall>w \<in> set ws. \<not> w_exclusive w \<Longrightarrow> exclusive_alone (ws @ [w])"
  by (auto simp: exclusive_alone_def others_dead_def nth_append list_all_length less_Suc_eq)

lemma sched_inv_step:
  assumes "sched_step s t" and inv: "sched_inv s"
  shows "sched_inv t"
  using assms(1)
proof (cases rule: sched_step.cases)
  case (get_job i w j q now)
  then show ?thesis unfolding get_job(1)
    by (intro sched_inv_worker sched_inv_pop [OF inv get_job(5)]) (simp_all add: own_kind_def queue_kind [OF inv get_job(5)])
next
  case (start i w j)
  then show ?thesis unfolding start(1)
    by (intro sched_inv_worker [OF inv start(2)] own_kind_same [OF inv start(2)]) simp_all
next
  case (start_fails i w j cost)
  then show ?thesis unfolding start_fails(1)
    by (intro sched_inv_worker sched_inv_process [OF inv] own_kind_idle) simp_all
next
  case (finish i w j code cost)
  then show ?thesis unfolding finish(1)
    by (intro sched_inv_worker sched_inv_process [OF inv] own_kind_idle) simp_all
next
  case (crash i w j)
  then show ?thesis unfolding crash(1) by (intro sched_inv_worker sched_inv_lost [OF inv] own_kind_idle) simp_all
next
  case (timeout i w now)
  then show ?thesis unfolding timeout(1)
    by (intro sched_inv_worker [OF inv timeout(2)] own_kind_same [OF inv timeout(2)]) simp_all
next
  case spawn_exclusive
  then have "exclusive_alone (s_workers s @ [new_worker (length (s_workers s)) True False])"
    using inv by (intro exclusive_alone_snoc) (auto simp: sched_inv_def all_dead_def)
  then show ?thesis using inv spawn_exclusive by (simp add: sched_inv_def own_kind_def new_worker_def)
next
  case no_exclusive
  then show ?thesis using inv by (simp add: sched_inv_def all_dead_def)
next
  case exclusive_done
  then show ?thesis using inv by (simp add: sched_inv_def all_dead_def)
next
  case interrupt
  then show ?thesis using inv by (auto simp: sched_inv_def own_kind_def exclusive_alone_def others_dead_def)
next
  case (loop_go i w)
  then show ?thesis unfolding loop_go(1) by (intro sched_inv_worker [OF inv loop_go(2)] own_kind_idle) simp_all
next
  case (get_empty i w)
  then show ?thesis unfolding get_empty(1) by (intro sched_inv_worker [OF inv get_empty(2)] own_kind_idle) simp_all
next
  case (loop_end i w)
  then show ?thesis unfolding loop_end(1) by (intro sched_inv_worker [OF inv loop_end(2)] own_kind_idle) simp_all
qed

lemma reached_inv: "reached s0 s \<Longrightarrow> sched_inv s0 \<Longrightarrow> sched_inv s"
  by (induction rule: reached.induct) (auto intro: sched_inv_step)

lemma reached_jobs: "reached s0 s \<Longrightarrow> sched_inv s0 \<Longrightarrow> pool_jobs (abs_pool s) = pool_jobs (abs_pool s0)"
proof (induction rule: reached.induct)
  case (reached_step s t)
  then show ?case using step_simulates [of s t] reached_inv [of s0 s] pool_step_jobs by metis
qed simp

end
