(* ===== verification/Sched_Live.thy ===== *)
theory Sched_Live
  imports Sched_Facts
begin

text \<open>
  Every run of the scheduler ends: a weight of the state decreases with every step of every thread.
  A run that was not interrupted and in which no handler raised has run all tests.
\<close>

section \<open>The weight of a state\<close>

definition pc_weight :: "bool \<Rightarrow> worker_pc \<Rightarrow> nat" where
  "pc_weight e pc =
     (case pc of Dead \<Rightarrow> 0 | AtLoop \<Rightarrow> 10 | AtGet \<Rightarrow> if e then 12 else 8 | Starting j \<Rightarrow> 18 | Waiting j \<Rightarrow> 16)"

definition worker_weight :: "bool \<Rightarrow> worker \<Rightarrow> nat" where
  "worker_weight e w = pc_weight e (w_pc w) + (if w_is_timeout w \<or> w_pc w = Dead then 0 else 1)"

text \<open>The argument \<open>e\<close> says which of the two queues is empty.\<close>

definition workers_weight :: "(bool \<Rightarrow> bool) \<Rightarrow> worker list \<Rightarrow> nat" where
  "workers_weight e ws = (\<Sum>w\<leftarrow>ws. worker_weight (e (w_exclusive w)) w)"

definition empty_queue :: "scheduler \<Rightarrow> bool \<Rightarrow> bool" where
  "empty_queue s exclusive \<longleftrightarrow> (if exclusive then s_exclusive_job_queue s else s_job_queue s) = []"

definition main_weight :: "main_pc \<Rightarrow> nat" where
  "main_weight m = (case m of WaitWorkers \<Rightarrow> 40 | WaitExclusive \<Rightarrow> 20 | Summary \<Rightarrow> 0 | Interrupted _ \<Rightarrow> 0)"

definition weight :: "nat \<Rightarrow> scheduler \<Rightarrow> nat" where
  "weight n s =
     main_weight (s_main s) + (20 + 4 * n) * (length (s_job_queue s) + length (s_exclusive_job_queue s)) +
     workers_weight (empty_queue s) (s_workers s)"

lemma empty_queue_worker: "empty_queue s (w_exclusive w) \<longleftrightarrow> worker_queue w s = []"
  by (simp add: empty_queue_def worker_queue_def)

lemma workers_weight_update:
  assumes "i < length ws" and "w_exclusive w = w_exclusive (ws ! i)"
  shows "workers_weight e (ws[i := w]) + worker_weight (e (w_exclusive (ws ! i))) (ws ! i) =
    workers_weight e ws + worker_weight (e (w_exclusive (ws ! i))) w"
  using sum_list_update_add [OF assms(1), of "\<lambda>w. worker_weight (e (w_exclusive w)) w" w] assms(2)
  by (simp add: workers_weight_def)

lemma workers_weight_empty: "workers_weight e' ws \<le> workers_weight e ws + 4 * length ws"
proof (induction ws)
  case (Cons w ws)
  have "worker_weight (e' x) w \<le> worker_weight (e x) w + 4" for x
    by (auto simp: worker_weight_def pc_weight_def split: worker_pc.split)
  then have "worker_weight (e' (w_exclusive w)) w \<le> worker_weight (e (w_exclusive w)) w + 4" .
  then show ?case using Cons by (simp add: workers_weight_def)
qed (simp add: workers_weight_def)

lemma empty_queue_simps [simp]:
  "empty_queue (set_worker i w s) = empty_queue s" "empty_queue (process_job j c t s) = empty_queue s"
  "empty_queue (s\<lparr>s_lost := l\<rparr>) = empty_queue s" "empty_queue (s\<lparr>s_main := m\<rparr>) = empty_queue s"
  "empty_queue (s\<lparr>s_main := m, s_workers := ws\<rparr>) = empty_queue s"
  by (simp_all add: empty_queue_def fun_eq_iff)

lemma weight_worker:
  assumes "i < length (s_workers s)" and "w_exclusive w = w_exclusive (s_workers s ! i)"
    and "worker_weight (worker_queue (s_workers s ! i) s = []) w < worker_weight (worker_queue (s_workers s ! i) s = []) (s_workers s ! i)"
  shows "weight n (set_worker i w s) < weight n s"
  using workers_weight_update [OF assms(1,2), of "empty_queue s"] assms(3)
  by (simp add: weight_def empty_queue_worker)

lemma weight_process [simp]: "weight n (process_job j c cost s) = weight n s"
  unfolding weight_def process_job_simps empty_queue_simps ..

lemma weight_lost [simp]: "weight n (s\<lparr>s_lost := l\<rparr>) = weight n s"
  by (simp add: weight_def)

lemma length_pop:
  assumes "worker_queue w s = j # q"
  shows "length (s_job_queue s) + length (s_exclusive_job_queue s) =
    Suc (length (s_job_queue (set_worker_queue w q s)) + length (s_exclusive_job_queue (set_worker_queue w q s)))"
  using assms by (simp add: worker_queue_def set_worker_queue_def split: if_splits)

lemma weight_take:
  assumes i: "i < length (s_workers s)" and n: "length (s_workers s) \<le> n"
    and pc: "w_pc (s_workers s ! i) = AtGet" and q: "worker_queue (s_workers s ! i) s = j # q"
  shows "weight n (set_worker i ((s_workers s ! i)\<lparr>w_pc := Starting j, w_start_time := now\<rparr>)
    (set_worker_queue (s_workers s ! i) q s)) < weight n s"
proof -
  let ?w = "(s_workers s ! i)\<lparr>w_pc := Starting j, w_start_time := now\<rparr>" and ?t = "set_worker_queue (s_workers s ! i) q s"
  let ?e = "empty_queue ?t (w_exclusive (s_workers s ! i))"
  have "workers_weight (empty_queue ?t) ((s_workers s)[i := ?w]) + worker_weight ?e (s_workers s ! i) =
      workers_weight (empty_queue ?t) (s_workers s) + worker_weight ?e ?w"
    by (rule workers_weight_update [OF i]) simp
  moreover have "worker_weight ?e ?w \<le> worker_weight ?e (s_workers s ! i) + 10"
    by (simp add: worker_weight_def pc_weight_def pc)
  ultimately have "workers_weight (empty_queue ?t) ((s_workers s)[i := ?w]) \<le> workers_weight (empty_queue s) (s_workers s) + 4 * n + 10"
    using workers_weight_empty [of "empty_queue ?t" "s_workers s" "empty_queue s"] n by linarith
  then show ?thesis
    using length_pop [OF q] by (simp add: weight_def add_mult_distrib2)
qed

section \<open>Every step decreases the weight\<close>

lemma worker_weight_terminate [simp]: "worker_weight e (terminate w) = worker_weight e w"
  by (simp add: worker_weight_def terminate_def)

lemma workers_weight_terminate [simp]: "workers_weight e (map terminate ws) = workers_weight e ws"
  by (simp add: workers_weight_def comp_def)

lemma workers_weight_dead: "all_dead s \<Longrightarrow> workers_weight e (s_workers s) = 0"
proof -
  have "list_all (\<lambda>w. w_pc w = Dead) ws \<Longrightarrow> workers_weight e ws = 0" for ws
    by (induction ws) (simp_all add: workers_weight_def worker_weight_def pc_weight_def)
  then show "all_dead s \<Longrightarrow> workers_weight e (s_workers s) = 0" by (simp add: all_dead_def)
qed

lemmas weight_defs = worker_weight_def pc_weight_def cleanup_job_def set_job_data_def check_job_timeout_def times_out_def

text \<open>The number of threads there can be: one more is started after the first wait.\<close>

definition thread_bound :: "scheduler \<Rightarrow> nat" where
  "thread_bound s = length (s_workers s) + (if s_main s = WaitWorkers then 1 else 0)"

lemma thread_bound_simps [simp]:
  "thread_bound (set_worker i w s) = thread_bound s" "thread_bound (process_job j c t s) = thread_bound s"
  "thread_bound (set_worker_queue w q s) = thread_bound s" "thread_bound (s\<lparr>s_lost := l\<rparr>) = thread_bound s"
  by (simp_all add: thread_bound_def)

lemma step_decreases:
  assumes "sched_step s t" and n: "thread_bound s \<le> n"
  shows "weight n t < weight n s \<and> thread_bound t \<le> n"
  using assms(1)
proof (cases rule: sched_step.cases)
  case (get_job i w j q now)
  then have "length (s_workers s) \<le> n" using n by (simp add: thread_bound_def)
  then show ?thesis using weight_take [OF get_job(2), of n j q now] get_job n by simp
next
  case (start_fails i w j cost)
  then have "weight n t < weight n (process_job j None cost s)" unfolding start_fails(1)
    by (intro weight_worker) (simp_all add: weight_defs)
  then show ?thesis using start_fails n by simp
next
  case (finish i w j code cost)
  then have "weight n t < weight n (process_job j (Some code) cost s)" unfolding finish(1)
    by (intro weight_worker) (simp_all add: weight_defs)
  then show ?thesis using finish n by simp
next
  case (crash i w j)
  have "weight n t < weight n (s\<lparr>s_lost := s_lost s @ [j]\<rparr>)" unfolding crash(1)
    by (intro weight_worker) (use crash in \<open>auto simp: weight_defs\<close>)
  then show ?thesis using crash n by simp
next
  case (timeout i w now)
  then have "weight n t < weight n s" unfolding timeout(1)
    by (intro weight_worker) (auto simp: weight_defs)
  then show ?thesis using timeout n by simp
next
  case spawn_exclusive
  then show ?thesis using n workers_weight_dead [of s "empty_queue s"]
    by (simp add: weight_def main_weight_def workers_weight_def worker_weight_def pc_weight_def new_worker_def thread_bound_def)
next
  case no_exclusive
  then show ?thesis using n by (simp add: weight_def main_weight_def thread_bound_def)
next
  case exclusive_done
  then show ?thesis using n by (simp add: weight_def main_weight_def thread_bound_def)
next
  case interrupt
  then show ?thesis using n by (auto simp: weight_def main_weight_def thread_bound_def)
next
  case (loop_go i w)
  then have "weight n t < weight n s" unfolding loop_go(1) by (intro weight_worker) (simp_all add: weight_defs)
  then show ?thesis using loop_go n by simp
next
  case (loop_end i w)
  then have "weight n t < weight n s" unfolding loop_end(1) by (intro weight_worker) (simp_all add: weight_defs)
  then show ?thesis using loop_end n by simp
next
  case (get_empty i w)
  then have "weight n t < weight n s" unfolding get_empty(1) by (intro weight_worker) (simp_all add: weight_defs)
  then show ?thesis using get_empty n by simp
next
  case (start i w j)
  then have "weight n t < weight n s" unfolding start(1) by (intro weight_worker) (simp_all add: weight_defs)
  then show ?thesis using start n by simp
qed

section \<open>Progress\<close>

lemma worker_moves:
  assumes "i < length (s_workers s)" and "w_pc (s_workers s ! i) \<noteq> Dead"
  shows "\<exists>t. sched_step s t"
proof (cases "w_pc (s_workers s ! i)")
  case AtLoop
  then show ?thesis
    using sched_step.loop_go [OF assms(1) refl] sched_step.loop_end [OF assms(1) refl] by blast
next
  case AtGet
  show ?thesis
  proof (cases "worker_queue (s_workers s ! i) s")
    case Nil
    then show ?thesis using sched_step.get_empty [OF assms(1) refl AtGet] by blast
  next
    case (Cons j q)
    then show ?thesis using sched_step.get_job [OF assms(1) refl AtGet _ zero_less_one] by blast
  qed
next
  case (Starting j)
  then show ?thesis using sched_step.start [OF assms(1) refl] by blast
next
  case (Waiting j)
  then show ?thesis using sched_step.finish [OF assms(1) refl] by blast
qed (use assms in blast)

lemma stuck_state:
  assumes "\<nexists>t. sched_step s t"
  shows "all_dead s" and "s_main s = Summary \<or> (\<exists>b. s_main s = Interrupted b)"
proof -
  show dead: "all_dead s"
    using worker_moves assms unfolding all_dead_def list_all_length by blast
  show "s_main s = Summary \<or> (\<exists>b. s_main s = Interrupted b)"
  proof (cases "s_main s")
    case WaitWorkers
    then show ?thesis using sched_step.spawn_exclusive sched_step.no_exclusive dead assms by blast
  next
    case WaitExclusive
    then show ?thesis using sched_step.exclusive_done dead assms by blast
  qed blast+
qed

section \<open>Completeness of a run\<close>

definition waiting :: "scheduler \<Rightarrow> bool" where
  "waiting s \<longleftrightarrow> s_main s = WaitWorkers \<or> s_main s = WaitExclusive"

text \<open>
  Without interrupt and crash a worker only ends when its queue is empty, and the main thread waits for a worker of
  the queue it is about.
\<close>

definition drained :: "scheduler \<Rightarrow> bool" where
  "drained s \<longleftrightarrow> (\<forall>b. s_main s \<noteq> Interrupted b) \<longrightarrow> s_lost s = [] \<longrightarrow>
     (\<forall>w \<in> set (s_workers s). w_running w) \<and>
     (waiting s \<longrightarrow> (\<exists>w \<in> set (s_workers s). w_exclusive w = (s_main s = WaitExclusive))) \<and>
     (waiting s \<longrightarrow> (\<forall>w \<in> set (s_workers s). w_pc w = Dead \<longrightarrow> worker_queue w s = [])) \<and>
     (s_main s \<noteq> WaitWorkers \<longrightarrow> s_job_queue s = []) \<and> (s_main s = Summary \<longrightarrow> s_exclusive_job_queue s = [])"

lemma get_workers_num_bounds:
  assumes "num_of_tests > 0"
  shows "1 \<le> fst (get_workers_num cpu jobs num_of_tests)"
    and "fst (get_workers_num cpu jobs num_of_tests) \<le> max (int cpu) 16"
  using assms by (auto simp: get_workers_num_def Let_def)

lemma schedule_jobs_drained: "drained (schedule_jobs to cpu n m tests)"
proof (cases tests)
  case Nil
  then show ?thesis by (simp add: drained_def schedule_jobs_def waiting_def case_prod_unfold)
next
  case (Cons j js)
  then have "1 \<le> fst (get_workers_num cpu n (length tests))" by (intro get_workers_num_bounds) simp
  then show ?thesis
    using Cons by (auto simp: drained_def schedule_jobs_def waiting_def case_prod_unfold Let_def new_worker_def intro: exI [of _ 0])
qed

lemma drained_worker:
  assumes "drained s" and "i < length (s_workers s)" and "w_running w = w_running (s_workers s ! i)"
    and "w_exclusive w = w_exclusive (s_workers s ! i)"
    and "w_pc w \<noteq> Dead \<or> worker_queue (s_workers s ! i) s = [] \<or> \<not> w_running (s_workers s ! i)"
  shows "drained (set_worker i w s)"
proof -
  have member: "s_workers s ! i \<in> set (s_workers s)" using assms(2) by simp
  have sub: "v = w \<or> v \<in> set (s_workers s)" if "v \<in> set ((s_workers s)[i := w])" for v
    using set_update_subset_insert [of "s_workers s" i w] that by blast
  have kind: "\<exists>v \<in> set ((s_workers s)[i := w]). w_exclusive v = e" if "\<exists>v \<in> set (s_workers s). w_exclusive v = e" for e
    using that assms(2,4) by (metis in_set_conv_nth length_list_update nth_list_update_eq nth_list_update_neq)
  have queue: "worker_queue w s = worker_queue (s_workers s ! i) s" using assms(4) by (simp add: worker_queue_def)
  show ?thesis
    unfolding drained_def set_worker_simps waiting_def
  proof (intro impI)
    assume "\<forall>b. s_main s \<noteq> Interrupted b" and "s_lost s = []"
    note old = assms(1) [unfolded drained_def waiting_def, rule_format, OF this(1) [rule_format] this(2)]
    have run: "w_running (s_workers s ! i)" using old member by blast
    show "(\<forall>v \<in> set ((s_workers s)[i := w]). w_running v) \<and>
      (s_main s = WaitWorkers \<or> s_main s = WaitExclusive \<longrightarrow> (\<exists>v \<in> set ((s_workers s)[i := w]). w_exclusive v = (s_main s = WaitExclusive))) \<and>
      (s_main s = WaitWorkers \<or> s_main s = WaitExclusive \<longrightarrow> (\<forall>v \<in> set ((s_workers s)[i := w]). w_pc v = Dead \<longrightarrow> worker_queue v s = [])) \<and>
      (s_main s \<noteq> WaitWorkers \<longrightarrow> s_job_queue s = []) \<and> (s_main s = Summary \<longrightarrow> s_exclusive_job_queue s = [])"
    proof (intro conjI impI)
      show "\<forall>v \<in> set ((s_workers s)[i := w]). w_running v" using run sub assms(3) old by auto
      assume wait: "s_main s = WaitWorkers \<or> s_main s = WaitExclusive"
      show "\<exists>v \<in> set ((s_workers s)[i := w]). w_exclusive v = (s_main s = WaitExclusive)" using kind old wait by blast
      show "\<forall>v \<in> set ((s_workers s)[i := w]). w_pc v = Dead \<longrightarrow> worker_queue v s = []"
        using sub old wait assms(5) run queue by metis
    qed (use old in blast)+
  qed
qed

lemma drained_process: "drained s \<Longrightarrow> drained (process_job j c cost s)"
  unfolding drained_def waiting_def process_job_simps .

lemma drained_pop:
  assumes "drained s" and q: "worker_queue w s = j # q"
  shows "drained (set_worker_queue w q s)"
  unfolding drained_def waiting_def set_worker_queue_simps
proof (intro impI)
  assume main: "\<forall>b. s_main s \<noteq> Interrupted b" and lost: "s_lost s = []"
  note old = assms(1) [unfolded drained_def waiting_def, rule_format, OF main [rule_format] lost]
  have same: "worker_queue v s \<noteq> []" if "w_exclusive v = w_exclusive w" for v
    using q that by (simp add: worker_queue_def)
  have "s_main s \<noteq> WaitWorkers \<Longrightarrow> s_job_queue (set_worker_queue w q s) = []"
    and "s_main s = Summary \<Longrightarrow> s_exclusive_job_queue (set_worker_queue w q s) = []"
    using old q by (auto simp: worker_queue_def set_worker_queue_def split: if_splits)
  then show "(\<forall>w \<in> set (s_workers s). w_running w) \<and>
      (s_main s = WaitWorkers \<or> s_main s = WaitExclusive \<longrightarrow> (\<exists>v \<in> set (s_workers s). w_exclusive v = (s_main s = WaitExclusive))) \<and>
      (s_main s = WaitWorkers \<or> s_main s = WaitExclusive \<longrightarrow> (\<forall>v \<in> set (s_workers s). w_pc v = Dead \<longrightarrow>
        (if w_exclusive v = w_exclusive w then q else worker_queue v s) = [])) \<and>
      (s_main s \<noteq> WaitWorkers \<longrightarrow> s_job_queue (set_worker_queue w q s) = []) \<and>
      (s_main s = Summary \<longrightarrow> s_exclusive_job_queue (set_worker_queue w q s) = [])"
    using old same by auto
qed

lemma drained_step:
  assumes "sched_step s t" and old: "drained s"
  shows "drained t"
  using assms(1)
proof (cases rule: sched_step.cases)
  case (get_job i w j q now)
  then show ?thesis unfolding get_job(1) by (intro drained_worker drained_pop [OF old get_job(5)]) simp_all
next
  case (start_fails i w j cost)
  then show ?thesis unfolding start_fails(1) by (intro drained_worker drained_process [OF old]) simp_all
next
  case (finish i w j code cost)
  then show ?thesis unfolding finish(1) by (intro drained_worker drained_process [OF old]) simp_all
next
  case (loop_end i w)
  then show ?thesis unfolding loop_end(1) by (intro drained_worker [OF old]) auto
next
  case (crash i w j)
  then show ?thesis by (simp add: drained_def)
next
  case spawn_exclusive
  then show ?thesis
    using old by (auto simp: drained_def waiting_def worker_queue_def all_dead_def list_all_iff new_worker_def)
next
  case no_exclusive
  then show ?thesis
    using old by (auto simp: drained_def waiting_def worker_queue_def all_dead_def list_all_iff)
next
  case exclusive_done
  then show ?thesis
    using old by (auto simp: drained_def waiting_def worker_queue_def all_dead_def list_all_iff)
next
  case interrupt
  then have "s_main t = Interrupted (s_main s = WaitExclusive)" by simp
  then show ?thesis unfolding drained_def by blast
qed (simp_all add: drained_worker [OF old])

lemma reached_drained: "reached s0 s \<Longrightarrow> drained s0 \<Longrightarrow> drained s"
  by (induction rule: reached.induct) (auto intro: drained_step)

lemma schedule_jobs_pool: "pool_jobs (abs_pool (schedule_jobs timeouts cpu jobs run_map tests)) = mset tests"
proof -
  have "mset (filter (\<lambda>j. \<not> is_exclusive j) tests) + mset (filter is_exclusive tests) = mset tests"
    using multiset_partition [of "mset tests" is_exclusive] by (simp add: mset_filter union_commute)
  moreover have "(\<Sum>w\<leftarrow>map (\<lambda>i. new_worker i e r) is. mset (jobs_at (w_pc w))) = {#}" for e r "is"
    by (induction "is") (simp_all add: new_worker_def)
  ultimately show ?thesis
    by (simp add: pool_jobs_def abs_pool_def schedule_jobs_def running_jobs_def case_prod_unfold Let_def)
qed

section \<open>Properties\<close>

text \<open>
  C14. Whatever the threads do, no test is lost or run twice: at every moment the queued, running, finished and
  crashed tests together are exactly the scheduled tests, and the counter of run tests is the
  number of finished ones.
\<close>

theorem tests_conserved:
  assumes "reached (schedule_jobs timeouts cpu jobs run_map tests) s"
  shows "mset (s_job_queue s) + mset (s_exclusive_job_queue s) + running_jobs s + mset (s_finished s) + mset (s_lost s) =
    mset tests \<and> s_num_of_run_tests s = length (s_finished s)"
proof -
  have "sched_inv s" by (rule reached_inv [OF assms schedule_jobs_inv])
  then show ?thesis
    using reached_jobs [OF assms schedule_jobs_inv, unfolded schedule_jobs_pool]
    by (simp add: pool_jobs_def abs_pool_def sched_inv_def)
qed

text \<open>
  C15. An exclusive test runs alone: whenever an exclusive test is running, nothing else is running in any of the
  threads, the workers for the other tests included, which are still there when the worker for exclusive tests starts.
\<close>

theorem exclusive_tests_run_alone:
  assumes "reached (schedule_jobs timeouts cpu jobs run_map tests) s"
    and j: "j \<in># running_jobs s" and "is_exclusive j"
  shows "running_jobs s = {#j#}"
proof -
  have inv: "sched_inv s" by (rule reached_inv [OF assms(1) schedule_jobs_inv])
  obtain k where k: "k < length (s_workers s)" "j \<in> set (jobs_at (w_pc (s_workers s ! k)))"
    by (rule running_worker [OF j])
  then have "others_dead k (s_workers s)"
    using exclusive_others [OF inv k(1)] running_kind [OF inv k] assms(3) by simp
  then have "running_jobs s = mset (jobs_at (w_pc (s_workers s ! k)))" by (rule only_worker [OF k(1)])
  then show ?thesis using k(2) by (cases "w_pc (s_workers s ! k)") simp_all
qed

text \<open>
  C16. The scheduler refines a simple pool of jobs: every step of a thread is a step of the pool (a job is taken,
  an exclusive one only into an idle pool and none beside an exclusive one; it is completed; it is dropped by
  a crash) or leaves the pool as it is.
\<close>

theorem scheduler_refines_pool:
  assumes "reached (schedule_jobs timeouts cpu jobs run_map tests) s" and "sched_step s t"
  shows "pool_step (abs_pool s) (abs_pool t) \<or> abs_pool t = abs_pool s"
  using step_simulates [OF assms(2)] reached_inv [OF assms(1) schedule_jobs_inv] by blast

text \<open>
  C17. The scheduler always comes to an end: there is no infinite run, under any interleaving and with any
  outcomes of the tests, and a run that cannot go on has no live worker and has reached the summary or was
  interrupted.
\<close>

theorem scheduler_terminates:
  "(\<nexists>run. run 0 = schedule_jobs timeouts cpu jobs run_map tests \<and> (\<forall>k. sched_step (run k) (run (Suc k)))) \<and>
   (\<forall>s. reached (schedule_jobs timeouts cpu jobs run_map tests) s \<longrightarrow> (\<nexists>t. sched_step s t) \<longrightarrow>
      all_dead s \<and> (s_main s = Summary \<or> (\<exists>b. s_main s = Interrupted b)))"
proof (intro conjI notI allI impI)
  assume "\<exists>run. run 0 = schedule_jobs timeouts cpu jobs run_map tests \<and> (\<forall>k. sched_step (run k) (run (Suc k)))"
  then obtain run where step: "\<And>k. sched_step (run k) (run (Suc k))" by blast
  let ?n = "thread_bound (run 0)"
  have len: "thread_bound (run k) \<le> ?n" for k
    by (induction k) (use step_decreases [OF step, of _ ?n] in auto)
  have "weight ?n (run (Suc k)) < weight ?n (run k)" for k
    using step_decreases [OF step len] by simp
  then have "\<exists>f. \<forall>k. (f (Suc k), f k) \<in> measure (weight ?n)" by auto
  then show False using wf_iff_no_infinite_down_chain wf_measure by blast
qed (use stuck_state in blast)+

text \<open>
  C18. A run that reaches the summary, without an interrupt and without a crash of a handler, has run every
  scheduled test exactly once.
\<close>

theorem scheduler_runs_all_tests:
  assumes "reached (schedule_jobs timeouts cpu jobs run_map tests) s" and "s_main s = Summary" and "s_lost s = []"
  shows "mset (s_finished s) = mset tests \<and> s_num_of_run_tests s = length tests"
proof -
  have "drained s" by (rule reached_drained [OF assms(1) schedule_jobs_drained])
  then have queues: "s_job_queue s = []" "s_exclusive_job_queue s = []"
    using assms(2,3) by (simp_all add: drained_def)
  have inv: "sched_inv s" by (rule reached_inv [OF assms(1) schedule_jobs_inv])
  then have none: "running_jobs s = {#}" using running_dead assms(2) by (simp add: sched_inv_def)
  have "mset (s_finished s) = mset tests"
    using reached_jobs [OF assms(1) schedule_jobs_inv, unfolded schedule_jobs_pool] queues none assms(3)
    by (simp add: pool_jobs_def abs_pool_def)
  moreover then have "length (s_finished s) = length tests" by (metis size_mset)
  ultimately show ?thesis using inv by (simp add: sched_inv_def)
qed

section \<open>Witnesses\<close>

text \<open>One exclusive test, run to the end by the worker for exclusive tests.\<close>

definition sample_job :: job where
  "sample_job =
     \<lparr>j_target = \<lparr>t_class = CcTestC, t_key = (''p'', ''t''), t_fullname = ''p:t'', t_name = ''t'', t_path = ''p'',
        t_type = ''cc_test'', t_srcs = [], t_deps = [], t_expanded_deps = [], t_visibility = Public, t_env_name = None,
        t_data = [(''exclusive'', PyBool True)], t_rules = [], t_gen_headers = None\<rparr>,
      j_run_dir = ''p/t.runfiles'', j_env = [], j_cmd = [''p/t'']\<rparr>"

definition run0 :: scheduler where "run0 = schedule_jobs False 1 1 [] [sample_job]"
definition run1 :: scheduler where "run1 = set_worker 0 ((s_workers run0 ! 0)\<lparr>w_pc := Dead\<rparr>) run0"
definition run2 :: scheduler where
  "run2 = run1\<lparr>s_main := WaitExclusive, s_workers := s_workers run1 @ [new_worker (length (s_workers run1)) True False]\<rparr>"
definition run3 :: scheduler where "run3 = set_worker 1 ((s_workers run2 ! 1)\<lparr>w_pc := AtGet\<rparr>) run2"
definition run4 :: scheduler where
  "run4 = set_worker 1 ((s_workers run3 ! 1)\<lparr>w_pc := Starting sample_job, w_start_time := 7\<rparr>)
     (set_worker_queue (s_workers run3 ! 1) [] run3)"
definition run5 :: scheduler where
  "run5 = set_worker 1 (cleanup_job ((s_workers run4 ! 1)\<lparr>w_pc := AtLoop\<rparr>)) (process_job sample_job None 3 run4)"
definition run6 :: scheduler where "run6 = set_worker 1 ((s_workers run5 ! 1)\<lparr>w_pc := Dead\<rparr>) run5"
definition run7 :: scheduler where "run7 = run6\<lparr>s_main := Summary\<rparr>"

lemma sample_steps:
  "sched_step run0 run1" "sched_step run1 run2" "sched_step run2 run3" "sched_step run3 run4"
  "sched_step run4 run5" "sched_step run5 run6" "sched_step run6 run7"
proof -
  show "sched_step run0 run1" unfolding run1_def by (rule sched_step.loop_end [OF _ refl]; code_simp)
  show "sched_step run1 run2" unfolding run2_def by (rule sched_step.spawn_exclusive; code_simp)
  show "sched_step run2 run3" unfolding run3_def by (rule sched_step.loop_go [OF _ refl]; code_simp)
  show "sched_step run3 run4" unfolding run4_def by (rule sched_step.get_job [OF _ refl]; code_simp)
  show "sched_step run4 run5" unfolding run5_def by (rule sched_step.start_fails [OF _ refl]; code_simp)
  show "sched_step run5 run6" unfolding run6_def by (rule sched_step.loop_end [OF _ refl]; code_simp)
  show "sched_step run6 run7" unfolding run7_def by (rule sched_step.exclusive_done; code_simp)
qed

lemma sample_reached: "reached run0 run4" "reached run0 run7"
proof -
  show run4: "reached run0 run4"
    by (rule reached_step [OF reached_step [OF reached_step [OF reached_step [OF reached_start]]]]) (rule sample_steps)+
  show "reached run0 run7"
    by (rule reached_step [OF reached_step [OF reached_step [OF run4]]]) (rule sample_steps)+
qed

theorem tests_conserved_witness:
  "s_num_of_run_tests run7 = length (s_finished run7) \<and> reached run0 run7"
  using tests_conserved [OF sample_reached(2) [unfolded run0_def]] sample_reached(2) by simp

theorem exclusive_tests_run_alone_witness: "running_jobs run4 = {#sample_job#}"
proof (rule exclusive_tests_run_alone)
  show "reached (schedule_jobs False 1 1 [] [sample_job]) run4" using sample_reached(1) by (simp add: run0_def)
  show "is_exclusive sample_job" by code_simp
  have "sample_job \<in> set (jobs_at (w_pc (s_workers run4 ! 1)))" and "1 < length (s_workers run4)" by code_simp+
  then show "sample_job \<in># running_jobs run4" using running_member by blast
qed

theorem scheduler_refines_pool_witness:
  "pool_step (abs_pool run4) (abs_pool run5) \<or> abs_pool run5 = abs_pool run4"
  by (rule scheduler_refines_pool [OF sample_reached(1) [unfolded run0_def] sample_steps(5)])

theorem scheduler_terminates_witness:
  "\<nexists>run. run 0 = run0 \<and> (\<forall>k. sched_step (run k) (run (Suc k)))"
  using scheduler_terminates [of False 1 1 "[]" "[sample_job]"] unfolding run0_def by blast

theorem scheduler_runs_all_tests_witness:
  "s_main run7 = Summary \<and> mset (s_finished run7) = {#sample_job#} \<and> s_num_of_run_tests run7 = 1"
proof -
  have "s_main run7 = Summary" and "s_lost run7 = []" by code_simp+
  then show ?thesis using scheduler_runs_all_tests [OF sample_reached(2) [unfolded run0_def]] by simp
qed

end
