(* ===== verification/Binary_Runner.thy ===== *)
theory Binary_Runner
  imports Manager
begin

text \<open>
  Running a program of the build, \<open>src/blade/binary_runner.py\<close>: the directory of run files with the links and
  the test data, the environment of the process and the command. The file system is the
  environment of the model: operations are recorded in order, and every question to the file
  system is answered as a function of the operations so far.
\<close>

section \<open>The file system\<close>

datatype fs_op =
    RmTree string | MkDir string | MakeDirs string | Symlink string string
  | CopyFile string string | CopyTree string string | Remove string

record fs_env =
  fe_cwd :: string
  fe_lexists :: "fs_op list \<Rightarrow> string \<Rightarrow> bool"
  fe_exists :: "fs_op list \<Rightarrow> string \<Rightarrow> bool"
  fe_isfile :: "fs_op list \<Rightarrow> string \<Rightarrow> bool"
  fe_isdir :: "fs_op list \<Rightarrow> string \<Rightarrow> bool"
  fe_realpath :: "fs_op list \<Rightarrow> string \<Rightarrow> string"
  fe_lines :: "string \<Rightarrow> string list"
  fe_fails :: "fs_op list \<Rightarrow> fs_op \<Rightarrow> bool"
  fe_file_and_link :: "target \<Rightarrow> (string \<times> string) option"
  fe_environ :: "(string, string) dict"

text \<open>An operation that fails raises \<open>OSError\<close>.\<close>

definition do_op :: "fs_env \<Rightarrow> fs_op \<Rightarrow> fs_op list \<times> blade \<Rightarrow> (fs_op list \<times> blade) result" where
  "do_op fe p st = (case st of (ops, b) \<Rightarrow>
     if fe_fails fe ops p then Inl (PyException ''OSError'') else Inr (ops @ [p], b))"

definition try_op :: "fs_env \<Rightarrow> fs_op \<Rightarrow> fs_op list \<times> blade \<Rightarrow> fs_op list \<times> blade" where
  "try_op fe p st = (case st of (ops, b) \<Rightarrow> if fe_fails fe ops p then (ops, b) else (ops @ [p], b))"

section \<open>Paths\<close>

definition run_list :: "string list" where
  "run_list =
     [''cc_binary'', ''cc_test'', ''java_binary'', ''java_test'', ''py_binary'', ''py_test'', ''scala_test'', ''sh_test'']"

definition executable :: "blade \<Rightarrow> target \<Rightarrow> string" where
  "executable b t = path_join3 (b_build_path b) (t_path t) (t_name t)"

definition runfiles_dir :: "blade \<Rightarrow> target \<Rightarrow> string" where
  "runfiles_dir b t = executable b t @ ''.runfiles''"

section \<open>Prebuilt libraries and test data\<close>

definition prebuilt_file :: "fs_env \<Rightarrow> blade \<Rightarrow> key \<Rightarrow> (string \<times> string) list \<Rightarrow> (string \<times> string) list result" where
  "prebuilt_file fe b dep file_list =
     rbind (dindex (b_target_database b) dep) (\<lambda>dep_target.
       Inr (if t_type dep_target = ''prebuilt_cc_library''
            then (case fe_file_and_link fe dep_target of None \<Rightarrow> file_list | Some f \<Rightarrow> file_list @ [f])
            else file_list))"

definition get_prebuilt_files :: "fs_env \<Rightarrow> blade \<Rightarrow> target \<Rightarrow> (string \<times> string) list result" where
  "get_prebuilt_files fe b t = rfold (prebuilt_file fe b) (t_expanded_deps t) []"

text \<open>
  \<open>__check_test_data_dest\<close>, the comparison with one earlier destination. The subscript
  raises \<open>IndexError\<close> when the two paths have the same length.
\<close>

definition check_dest_item :: "target \<Rightarrow> string \<Rightarrow> string \<Rightarrow> unit \<Rightarrow> unit result" where
  "check_dest_item t dest other u =
     (let dest_norm = normpath dest; other_norm = normpath other;
          long_path = (if length dest_norm \<ge> length other_norm then dest_norm else other_norm);
          short_path = (if length dest_norm \<ge> length other_norm then other_norm else dest_norm)
      in if startswith long_path short_path then
           if length short_path < length long_path then
             if long_path ! length short_path = slash
             then Inl (SystemExit (dest @ '' could not exist with '' @ other @ '' in testdata of '' @ t_fullname t))
             else Inr ()
           else Inl IndexError
         else Inr ())"

definition check_test_data_dest :: "target \<Rightarrow> string \<Rightarrow> string list \<Rightarrow> unit result" where
  "check_test_data_dest t dest dest_list =
     (if dest \<in> set dest_list
      then Inl (SystemExit (''Ambiguous testdata of '' @ t_fullname t @ '': '' @ dest @ '', exit...''))
      else rfold (check_dest_item t dest) dest_list ())"

definition test_data_pair :: "pyval \<Rightarrow> (string \<times> string) result" where
  "test_data_pair i =
     (case i of
        PyTuple [PyStr src, PyStr dest] \<Rightarrow> Inr (src, dest)
      | PyTuple [x, y] \<Rightarrow> Inl TypeError
      | PyTuple _ \<Rightarrow> Inl ValueError
      | PyStr s \<Rightarrow> Inr (s, s)
      | _ \<Rightarrow> Inl TypeError)"

definition strip_root :: "string \<Rightarrow> string" where
  "strip_root p = (if startswith p ''//'' then drop 2 p else p)"

definition prepare_test_data_item ::
  "fs_env \<Rightarrow> target \<Rightarrow> pyval \<Rightarrow> string list \<times> fs_op list \<times> blade \<Rightarrow> (string list \<times> fs_op list \<times> blade) result" where
  "prepare_test_data_item fe t i st =
     (case st of (dest_list, ops, b) \<Rightarrow>
        rbind (test_data_pair i) (\<lambda>(src, dest).
          if str_in ''..'' src
          then Inr (dest_list, ops,
                 say (Warn (t_fullname t @ '': Relative path is not allowed in testdata source. Ignored '' @ src @ ''.'')) b)
          else
            let src = (if startswith src ''//'' then drop 2 src else path_join (t_path t) src);
                dest = normpath (strip_root dest)
            in rbind (check_test_data_dest t dest dest_list) (\<lambda>_.
                 let dest_list = dest_list @ [dest];
                     dest_path = path_join (runfiles_dir b t) dest
                 in if fe_exists fe ops dest_path
                    then Inr (dest_list, ops,
                           say (Warn (t_fullname t @ '': '' @ dest @ '' already existed, could not prepare testdata.'')) b)
                    else
                      let st = try_op fe (MakeDirs (dirname dest_path)) (ops, b)
                      in rbind (if fe_isfile fe (fst st) src then do_op fe (CopyFile src dest_path) st
                                else if fe_isdir fe (fst st) src then do_op fe (CopyTree src dest_path) st
                                else Inr st) (\<lambda>(ops, b). Inr (dest_list, ops, b)))))"

definition extra_test_data_line :: "fs_env \<Rightarrow> target \<Rightarrow> string \<Rightarrow> fs_op list \<times> blade \<Rightarrow> (fs_op list \<times> blade) result" where
  "extra_test_data_line fe t line st =
     (case split_ws (strip line) of
        [] \<Rightarrow> Inl IndexError
      | src # rest \<Rightarrow>
          let dst = path_join (runfiles_dir (snd st) t) (case rest of [] \<Rightarrow> [] | d # _ \<Rightarrow> d);
              dst_dir = dirname dst
          in rbind (if \<not> fe_isdir fe (fst st) dst_dir then do_op fe (MakeDirs dst_dir) st else Inr st)
               (do_op fe (CopyFile src dst)))"

definition prepare_extra_test_data :: "fs_env \<Rightarrow> target \<Rightarrow> fs_op list \<times> blade \<Rightarrow> (fs_op list \<times> blade) result" where
  "prepare_extra_test_data fe t st =
     (let testdata = path_join3 (b_build_path (snd st)) (t_path t) (t_name t @ ''.testdata'')
      in if fe_isfile fe (fst st) testdata then rfold (extra_test_data_line fe t) (fe_lines fe testdata) st
         else Inr st)"

definition prepare_test_data :: "fs_env \<Rightarrow> target \<Rightarrow> fs_op list \<times> blade \<Rightarrow> (fs_op list \<times> blade) result" where
  "prepare_test_data fe t st =
     (case dget (t_data t) ''testdata'' of
        None \<Rightarrow> Inr st
      | Some (PyList items) \<Rightarrow>
          rbind (rfold (prepare_test_data_item fe t) items ([], fst st, snd st)) (\<lambda>(_, ops, b).
            prepare_extra_test_data fe t (ops, b))
      | Some _ \<Rightarrow> Inl TypeError)"

section \<open>The environment of the process\<close>

definition link_prebuilt :: "fs_env \<Rightarrow> target \<Rightarrow> string \<times> string \<Rightarrow> fs_op list \<times> blade \<Rightarrow> (fs_op list \<times> blade) result" where
  "link_prebuilt fe t f st =
     (case st of (ops, b) \<Rightarrow>
        let src = abspath (fe_cwd fe) (fst f); dst = path_join (runfiles_dir b t) (snd f)
        in if fe_lexists fe ops dst
           then Inr (ops, say (Warn (''trying to make duplicate prebuilt symlink:'' @ [CHR 0x0A] @
                  dst @ '' -> '' @ src @ [CHR 0x0A] @
                  dst @ '' -> '' @ fe_realpath fe ops dst @ '' already exists'' @ [CHR 0x0A] @
                  ''skipped, should check duplicate prebuilt libraries'')) b)
           else do_op fe (Symlink src dst) st)"

definition add_lib_path :: "string \<Rightarrow> pyval \<Rightarrow> (string, string) dict \<Rightarrow> (string, string) dict result" where
  "add_lib_path cwd path env =
     (case path of
        PyStr p \<Rightarrow> Inr (environ_add_path env ''LD_LIBRARY_PATH'' (abspath cwd (strip_root p)))
      | _ \<Rightarrow> Inl (AttributeError ''startswith''))"

definition run_environment :: "fs_env \<Rightarrow> blade \<Rightarrow> target \<Rightarrow> (string, string) dict result" where
  "run_environment fe b t =
     (let env = environ_add_path (fe_environ fe) ''LD_LIBRARY_PATH'' (runfiles_dir b t)
      in rbind (config_value b ''cc_binary_config'' ''run_lib_paths'') (\<lambda>run_lib_paths.
         rbind (case run_lib_paths of
                  PyList paths \<Rightarrow> rfold (add_lib_path (fe_cwd fe)) paths env
                | v \<Rightarrow> if truthy v then Inl TypeError else Inr env) (\<lambda>env.
         rbind (config_value b ''java_config'' ''java_home'') (\<lambda>java_home.
           case java_home of
             PyStr (c # cs) \<Rightarrow>
               Inr (environ_add_path env ''PATH'' (path_join (abspath (fe_cwd fe) (c # cs)) ''bin''))
           | v \<Rightarrow> if truthy v then Inl TypeError else Inr env))))"

definition prepare_env ::
  "fs_env \<Rightarrow> target \<Rightarrow> fs_op list \<times> blade \<Rightarrow> ((string, string) dict \<times> fs_op list \<times> blade) result" where
  "prepare_env fe t st =
     (let b = snd st; dir = runfiles_dir b t
      in rbind (do_op fe (MkDir dir) (fst st @ [RmTree dir], b)) (\<lambda>st.
         rbind (do_op fe (Symlink (abspath (fe_cwd fe) (b_build_path b)) (path_join dir (basename (b_build_path b)))) st) (\<lambda>st.
         rbind (get_prebuilt_files fe b t) (\<lambda>prebuilt.
         rbind (rfold (link_prebuilt fe t) prebuilt st) (\<lambda>st.
         rbind (prepare_test_data fe t st) (\<lambda>st.
         rbind (run_environment fe (snd st) t) (\<lambda>env. Inr (env, st))))))))"

section \<open>Running\<close>

definition clean_target :: "fs_env \<Rightarrow> key \<Rightarrow> fs_op list \<times> blade \<Rightarrow> (fs_op list \<times> blade) result" where
  "clean_target fe k st =
     rbind (build_target (snd st) k) (\<lambda>t.
       let link = path_join (runfiles_dir (snd st) t) (basename (b_build_path (snd st)))
       in if fe_exists fe (fst st) link then do_op fe (Remove link) st else Inr st)"

definition clean_env :: "fs_env \<Rightarrow> fs_op list \<times> blade \<Rightarrow> (fs_op list \<times> blade) result" where
  "clean_env fe st = rfold (clean_target fe) (b_build_targets (snd st)) st"

text \<open>\<open>subprocess.list2cmdline\<close>: the characters of an argument, with the backslashes held back.\<close>

fun cmdline_chars :: "nat \<Rightarrow> string \<Rightarrow> string \<times> nat" where
  "cmdline_chars bs [] = ([], bs)"
| "cmdline_chars bs (c # cs) =
     (if c = CHR 0x5C then cmdline_chars (Suc bs) cs
      else
        let (out, bs') = cmdline_chars 0 cs
        in ((if c = CHR 0x22 then replicate (2 * bs) (CHR 0x5C) @ [CHR 0x5C, CHR 0x22]
             else replicate bs (CHR 0x5C) @ [c]) @ out, bs'))"

definition cmdline_arg :: "string \<Rightarrow> string" where
  "cmdline_arg arg =
     (let quote = (CHR '' '' \<in> set arg \<or> CHR 0x09 \<in> set arg \<or> arg = []);
          (out, bs) = cmdline_chars 0 arg
      in (if quote then [CHR 0x22] else []) @ out @ replicate bs (CHR 0x5C) @
         (if quote then replicate bs (CHR 0x5C) @ [CHR 0x22] else []))"

definition list2cmdline :: "string list \<Rightarrow> string" where
  "list2cmdline args = join_with '' '' (map cmdline_arg args)"

text \<open>The process: the command (one string when it is run by a shell) and its environment.\<close>

datatype command = Argv "string list" | Shell string

definition test_command :: "target \<Rightarrow> string list \<Rightarrow> command" where
  "test_command t cmd =
     (if truthy (get_data t ''run_in_shell'' (PyBool False)) then Shell (list2cmdline cmd) else Argv cmd)"

definition option_args :: "blade \<Rightarrow> string list result" where
  "option_args b = rbind (opt b ''args'') (\<lambda>v.
     case v of PyList vs \<Rightarrow> rmap (\<lambda>a. case a of PyStr s \<Rightarrow> Inr s | _ \<Rightarrow> Inl TypeError) vs | _ \<Rightarrow> Inl TypeError)"

text \<open>
  \<open>run_target\<close>: \<open>returncode\<close> is what the process returns. A name without or with several
  colons is a tuple of another length, which no key of the dictionary equals.
\<close>

definition run_target ::
  "fs_env \<Rightarrow> int \<Rightarrow> string \<Rightarrow> blade \<Rightarrow> (int \<times> command \<times> (string, string) dict \<times> fs_op list \<times> blade) result" where
  "run_target fe returncode target_name b =
     (case split_on (CHR '':'') target_name of
        [path, name] \<Rightarrow>
          rbind (build_target b (path, name)) (\<lambda>t.
            if t_type t \<notin> set run_list
            then Inl (SystemExit (''target '' @ show_key (path, name) @ '' is not a target that could run''))
            else
              rbind (prepare_env fe t ([], b)) (\<lambda>(run_env, ops, b).
              rbind (option_args b) (\<lambda>args.
                let cmd = test_command t (abspath (fe_cwd fe) (executable b t) # args)
                in rbind (clean_env fe (ops, b)) (\<lambda>(ops, b). Inr (returncode, cmd, run_env, ops, b)))))
      | _ \<Rightarrow> Inl KeyError)"

end
