(* ===== verification/Test_Runner.thy ===== *)
theory Test_Runner
  imports Binary_Runner Test_Scheduler
begin

text \<open>
  Incremental testing, \<open>src/blade/test_runner.py\<close>: the stamp of the last test run decides which tests are run again,
  the tests are handed to the scheduler, and the failed ones are marked in the new stamp. The
  stamp file, the clock, the digest function and the file times are parameters.
\<close>

section \<open>State\<close>

definition env_ignore_set :: "string list" where
  "env_ignore_set =
     [''PWD'', ''OLDPWD'', ''SHLVL'', ''LC_ALL'', ''TST_HACK_BASH_SESSION_ID'', ''BUILD_DISPLAY_NAME'', ''BUILD_URL'',
      ''BUILD_TAG'', ''SVN_REVISION'', ''BUILD_ID'', ''START_USER'', ''EXECUTOR_NUMBER'', ''NODE_NAME'', ''NODE_LABELS'',
      ''IF_PKG'', ''BUILD_NUMBER'', ''HUDSON_COOKIE'', ''SSH_CLIENT'', ''SSH2_CLIENT'', ''VIM'', ''MYVIMRC'', ''VIMRUNTIME''] @
     map (\<lambda>i. ''SVN_REVISION_'' @ show_nat i) [0..<30]"

text \<open>
  The value stored for a test program: the digests of the program and of its data, the pair
  \<open>(0, 0)\<close> of a failed test, or something else in a stamp of an older version.
\<close>

datatype md5_entry = Md5 string string | LastFailed | OldRecord

record stamp =
  st_md5 :: "(string, md5_entry) dict"
  st_testarg :: "string option"
  st_env :: "(string, string) dict"
  st_time :: int

definition empty_stamp :: stamp where
  "empty_stamp = \<lparr>st_md5 = [], st_testarg = None, st_env = [], st_time = 0\<rparr>"

text \<open>The stamp file: it does not exist, cannot be read or parsed, or holds a stamp.\<close>

datatype history = NoFile | Unreadable | Recorded stamp

record test_runner =
  n_last :: stamp
  n_stamp :: stamp
  n_run_list :: "key list"
  n_run_map :: "(key, (string, pyval) dict) dict"
  n_run_all_reason :: string
  n_skipped :: "key list"
  n_coverage :: bool

text \<open>Equality of dictionaries, which does not depend on the order of the items.\<close>

definition dict_eq :: "('k, 'v) dict \<Rightarrow> ('k, 'v) dict \<Rightarrow> bool" where
  "dict_eq a b = (set a = set b)"

definition diff_env :: "(string, string) dict \<Rightarrow> (string, string) dict \<Rightarrow> (string, string) dict \<times> (string, string) dict" where
  "diff_env a b = (filter (\<lambda>kv. kv \<notin> set b) a, filter (\<lambda>kv. kv \<notin> set a) b)"

section \<open>Why all tests would be run\<close>

abbreviation valid_inctest_time_interval :: int where
  "valid_inctest_time_interval \<equiv> 86400"

text \<open>
  The checks of the constructor; a later one overrides the reason of an earlier one. The
  printed environments are left out of the messages.
\<close>

definition check_testarg :: "stamp \<Rightarrow> stamp \<Rightarrow> string \<times> blade \<Rightarrow> string \<times> blade" where
  "check_testarg new old rb =
     (if st_testarg new \<noteq> st_testarg old
      then (''ARGUMENT'', say (Info ''all tests will run due to test arguments changed'') (snd rb)) else rb)"

definition check_env :: "stamp \<Rightarrow> stamp \<Rightarrow> string \<times> blade \<Rightarrow> string \<times> blade" where
  "check_env new old rb =
     (if \<not> dict_eq (st_env new) (st_env old)
      then
        let (added, removed) = diff_env (st_env new) (st_env old);
            b = say (Info ''all tests will run due to test environments changed:'') (snd rb);
            b = (if added \<noteq> [] then say (Info ''new environments: '') b else b);
            b = (if removed \<noteq> [] then say (Info ''old environments: '') b else b)
        in (''ENVIRONMENT'', b)
      else rb)"

definition check_interval :: "stamp \<Rightarrow> stamp \<Rightarrow> string \<times> blade \<Rightarrow> string \<times> blade" where
  "check_interval new old rb =
     (let interval = st_time new - st_time old
      in if interval \<ge> valid_inctest_time_interval \<or> interval < 0
         then (''STALE'', say (Info ''all tests will run due to all passed tests are expired now'') (snd rb)) else rb)"

definition load_history :: "history \<Rightarrow> blade \<Rightarrow> stamp \<times> string \<times> blade" where
  "load_history h b =
     (case h of
        NoFile \<Rightarrow> (empty_stamp, [], b)
      | Unreadable \<Rightarrow>
          (empty_stamp, ''NO_HISTORY'', say (Warn ''error loading incremental test history, will run full test'') b)
      | Recorded st \<Rightarrow> (st, [], b))"

text \<open>\<open>args_md5\<close> is the digest of the printed test arguments and \<open>now\<close> the rounded time.\<close>

definition test_runner_init :: "history \<Rightarrow> string \<Rightarrow> (string, string) dict \<Rightarrow> int \<Rightarrow> blade \<Rightarrow> (test_runner \<times> blade) result" where
  "test_runner_init h args_md5 environ now b =
     rbind (opt b ''fulltest'') (\<lambda>fulltest.
       let new = \<lparr>st_md5 = [], st_testarg = Some args_md5,
                  st_env = filter (\<lambda>kv. fst kv \<notin> set env_ignore_set) environ, st_time = now\<rparr>;
           (old, reason, b) =
             (if truthy fulltest then (empty_stamp, ''FULLTEST'', b)
              else
                let (old, rb) = load_history h b
                in (old, check_interval new old (check_env new old (check_testarg new old rb))))
       in Inr (\<lparr>n_last = old, n_stamp = new, n_run_list = [], n_run_map = [], n_run_all_reason = reason,
                n_skipped = [], n_coverage = truthy (opt_default b ''coverage'' (PyBool False))\<rparr>, b))"

section \<open>Which tests have changed\<close>

definition is_test :: "target \<Rightarrow> bool" where
  "is_test t = endswith (t_type t) ''_test''"

definition test_file_name :: "fs_env \<Rightarrow> blade \<Rightarrow> target \<Rightarrow> string" where
  "test_file_name fe b t = abspath (fe_cwd fe) (executable b t)"

definition dynamic_lib_file :: "fs_env \<Rightarrow> blade \<Rightarrow> key \<Rightarrow> string list \<Rightarrow> string list result" where
  "dynamic_lib_file fe b dep found =
     rbind (dindex (b_target_database b) dep) (\<lambda>dep_target.
       if str_in ''cc_library'' (t_type dep_target) then
         let lib = abspath (fe_cwd fe) (path_join3 (b_build_path b) (t_path dep_target) (''lib'' @ t_name dep_target @ ''.so''))
         in Inr (if fe_exists fe [] lib then found @ [lib] else found)
       else Inr found)"

definition test_data_file :: "fs_env \<Rightarrow> target \<Rightarrow> pyval \<Rightarrow> string list \<Rightarrow> string list result" where
  "test_data_file fe t i found =
     rbind (case i of
              PyTuple [] \<Rightarrow> Inl IndexError | PyTuple (PyStr s # _) \<Rightarrow> Inr s | PyStr s \<Rightarrow> Inr s | _ \<Rightarrow> Inl TypeError)
       (\<lambda>data_target.
          if str_in ''..'' data_target then Inr found
          else
            let path = abspath (fe_cwd fe)
                  (if startswith data_target ''//'' then drop 2 data_target else t_path t @ ''/'' @ data_target)
            in Inr (if fe_exists fe [] path then found @ [path] else found))"

text \<open>\<open>stat_text f\<close> is the text of the modification and change time of a file.\<close>

definition get_test_target_md5sum ::
  "fs_env \<Rightarrow> (string \<Rightarrow> string) \<Rightarrow> (string \<Rightarrow> string) \<Rightarrow> blade \<Rightarrow> target \<Rightarrow> md5_entry result" where
  "get_test_target_md5sum fe md5 stat_text b t =
     (let exe = test_file_name fe b t;
          related = (if fe_exists fe [] exe then [exe] else [])
      in rbind (if truthy (get_data t ''dynamic_link'' PyNone)
                then rbind (dindex (b_target_database b) (t_path t, t_name t)) (\<lambda>u.
                       rfold (dynamic_lib_file fe b) (t_expanded_deps u) related)
                else Inr related) (\<lambda>related.
         rbind (dindex (t_data t) ''testdata'') (\<lambda>v.
         rbind (case v of PyList items \<Rightarrow> rfold (test_data_file fe t) items [] | _ \<Rightarrow> Inl TypeError) (\<lambda>data.
           Inr (Md5 (md5 (concat (map stat_text (sort related)))) (md5 (concat (map stat_text (sort data)))))))))"

definition run_item :: "string \<Rightarrow> string \<Rightarrow> (string, pyval) dict" where
  "run_item runfile reason =
     [(''runfile'', PyStr runfile), (''result'', PyStr []), (''reason'', PyStr reason), (''costtime'', PyInt 0)]"

text \<open>The reason to run a test whose entry has changed.\<close>

definition change_reason :: "md5_entry option \<Rightarrow> md5_entry \<Rightarrow> string" where
  "change_reason old new =
     (case old of
        Some LastFailed \<Rightarrow> ''LAST_FAILED''
      | Some (Md5 bin data) \<Rightarrow>
          (case new of Md5 bin' data' \<Rightarrow> if bin' \<noteq> bin then ''BINARY'' else ''TESTDATA'' | _ \<Rightarrow> ''BINARY'')
      | _ \<Rightarrow> ''STALE'')"

definition set_run_item :: "key \<Rightarrow> string \<Rightarrow> string \<Rightarrow> test_runner \<Rightarrow> test_runner" where
  "set_run_item k runfile reason n = n\<lparr>n_run_map := dset k (run_item runfile reason) (n_run_map n)\<rparr>"

definition inctest_target ::
  "fs_env \<Rightarrow> (string \<Rightarrow> string) \<Rightarrow> (string \<Rightarrow> string) \<Rightarrow> blade \<Rightarrow> key \<Rightarrow> test_runner \<Rightarrow> test_runner result" where
  "inctest_target fe md5 stat_text b k n =
     rbind (build_target b k) (\<lambda>t.
       if \<not> is_test t then Inr n
       else
         let target_key = (t_path t, t_name t); file = test_file_name fe b t
         in rbind (get_test_target_md5sum fe md5 stat_text b t) (\<lambda>new.
              let n = n\<lparr>n_stamp := (n_stamp n)\<lparr>st_md5 := dset file new (st_md5 (n_stamp n))\<rparr>\<rparr>
              in if n_run_all_reason n \<noteq> [] then Inr (set_run_item target_key file (n_run_all_reason n) n)
                 else if target_key \<in> set (b_direct_targets b)
                 then Inr (set_run_item target_key file ''EXPLICIT'' (n\<lparr>n_run_list := n_run_list n @ [k]\<rparr>))
                 else
                   let old = dget (st_md5 (n_last n)) file
                   in if Some new \<noteq> old
                      then Inr (set_run_item target_key file (change_reason old new) (n\<lparr>n_run_list := n_run_list n @ [k]\<rparr>))
                      else Inr n))"

definition keep_old_entries :: "test_runner \<Rightarrow> test_runner" where
  "keep_old_entries n =
     n\<lparr>n_stamp := (n_stamp n)\<lparr>st_md5 :=
        st_md5 (n_stamp n) @ filter (\<lambda>e. dget (st_md5 (n_stamp n)) (fst e) = None) (st_md5 (n_last n))\<rparr>\<rparr>"

definition generate_inctest_run_list ::
  "fs_env \<Rightarrow> (string \<Rightarrow> string) \<Rightarrow> (string \<Rightarrow> string) \<Rightarrow> blade \<Rightarrow> test_runner \<Rightarrow> test_runner result" where
  "generate_inctest_run_list fe md5 stat_text b n =
     rbind (rfold (inctest_target fe md5 stat_text b) (b_build_targets b) n) (\<lambda>n. Inr (keep_old_entries n))"

section \<open>Running the tests\<close>

definition test_environment ::
  "fs_env \<Rightarrow> bool \<Rightarrow> blade \<Rightarrow> bool \<Rightarrow> target \<Rightarrow> (string, string) dict \<Rightarrow> (string, string) dict result" where
  "test_environment fe color b coverage t env =
     (let env = dset ''GTEST_OUTPUT'' ''xml'' (dset ''GTEST_COLOR'' (if color then ''yes'' else ''no'') env)
      in rbind (case get_data t ''heap_check'' (PyStr []) of PyStr s \<Rightarrow> Inr s | _ \<Rightarrow> Inl TypeError) (\<lambda>heap_check.
         let env = dset ''HEAPCHECK'' heap_check env
         in rbind (config_value b ''cc_test_config'' ''pprof_path'') (\<lambda>pprof_path.
            let env = (case pprof_path of
                         PyStr (c # cs) \<Rightarrow> dset ''PPROF_PATH'' (abspath (fe_cwd fe) (c # cs)) env | _ \<Rightarrow> env)
            in Inr (if coverage then dset ''BLADE_COVERAGE'' ''true'' env else env))))"

text \<open>The loop of \<open>run\<close>: the jobs so far, the runner, and the file system with the manager.\<close>

definition run_one ::
  "fs_env \<Rightarrow> bool \<Rightarrow> key \<Rightarrow> job list \<times> test_runner \<times> fs_op list \<times> blade \<Rightarrow>
   (job list \<times> test_runner \<times> fs_op list \<times> blade) result" where
  "run_one fe color k st =
     (case st of (jobs, n, ops, b) \<Rightarrow>
        rbind (build_target b k) (\<lambda>t.
          if \<not> is_test t then Inr st
          else if n_run_all_reason n = [] \<and> k \<notin> set (n_run_list n) \<and> \<not> truthy (get_data t ''always_run'' PyNone)
          then Inr (jobs, n\<lparr>n_skipped := n_skipped n @ [(t_path t, t_name t)]\<rparr>, ops, b)
          else
            rbind (prepare_env fe t (ops, b)) (\<lambda>(env, ops, b).
            rbind (option_args b) (\<lambda>args.
            rbind (test_environment fe color b (n_coverage n) t env) (\<lambda>env.
              Inr (jobs @ [\<lparr>j_target = t, j_run_dir = runfiles_dir b t, j_env = env,
                            j_cmd = test_file_name fe b t # args\<rparr>], n, ops, b))))))"

definition tests_run_list ::
  "fs_env \<Rightarrow> bool \<Rightarrow> test_runner \<Rightarrow> blade \<Rightarrow> (job list \<times> test_runner \<times> fs_op list \<times> blade) result" where
  "tests_run_list fe color n b = rfold (run_one fe color) (b_build_targets b) ([], n, [], b)"

text \<open>
  After the scheduler has run: every failed test is marked in the stamp, and the exit
  status says whether a test failed. \<open>failed\<close> lists the failed targets with their exit codes.
\<close>

definition mark_failed :: "fs_env \<Rightarrow> blade \<Rightarrow> target \<times> int \<Rightarrow> test_runner \<Rightarrow> test_runner" where
  "mark_failed fe b f n =
     (let file = test_file_name fe b (fst f)
      in if file \<in> set (dkeys (st_md5 (n_stamp n)))
         then n\<lparr>n_stamp := (n_stamp n)\<lparr>st_md5 := dset file LastFailed (st_md5 (n_stamp n))\<rparr>\<rparr> else n)"

definition skipped_summary :: "test_runner \<Rightarrow> string list" where
  "skipped_summary n =
     (if n_skipped n \<noteq> []
      then [show_nat (length (n_skipped n)) @ '' tests skipped when doing incremental test.'',
            ''Specify --full-test to run all tests.''] else [])"

definition show_tests_summary ::
  "fs_env \<Rightarrow> blade \<Rightarrow> nat \<Rightarrow> (target \<times> int) list \<Rightarrow> test_runner \<Rightarrow> test_runner \<times> string list" where
  "show_tests_summary fe b run_tests failed n =
     (let head = skipped_summary n @ [''Run '' @ show_nat run_tests @ '' tests'']
      in if failed \<noteq> []
         then (fold (mark_failed fe b) failed n,
               head @ [show_nat (length failed) @ '' tests failed:''] @
               map (\<lambda>f. t_fullname (fst f) @ '', exit code: '' @ show_int (snd f)) failed @
               [show_int (int run_tests - int (length failed)) @ '' tests passed.''])
         else (n, head @ [''All tests passed!'']))"

text \<open>The detail lines: cost, reason and result of every test, by increasing cost.\<close>

definition detail_entry :: "key \<times> (string, pyval) dict \<Rightarrow> key \<times> pyval \<times> pyval \<times> pyval" where
  "detail_entry e = (fst e, dgetd (snd e) ''costtime'' (PyInt 0), dgetd (snd e) ''reason'' (PyStr ''UNKNOWN''),
     dgetd (snd e) ''result'' (PyStr ''INTERRUPTED''))"

fun cost_of :: "pyval \<Rightarrow> int" where
  "cost_of (PyInt n) = n"
| "cost_of _ = 0"

definition tests_detail :: "test_runner \<Rightarrow> (key \<times> pyval \<times> pyval \<times> pyval) list" where
  "tests_detail n = sort_key (\<lambda>e. cost_of (fst (snd e))) (map detail_entry (n_run_map n))"

definition skipped_detail :: "test_runner \<Rightarrow> string list" where
  "skipped_detail n = map (\<lambda>k. show_key k @ '' skipped'') (sort (n_skipped n))"

text \<open>\<open>run\<close> after the scheduler; the stamp is what \<open>_write_test_history\<close> writes.\<close>

definition finish_run ::
  "fs_env \<Rightarrow> nat \<Rightarrow> (target \<times> int) list \<Rightarrow> test_runner \<Rightarrow> fs_op list \<times> blade \<Rightarrow>
   (int \<times> stamp \<times> string list \<times> fs_op list \<times> blade) result" where
  "finish_run fe run_tests failed n st =
     rbind (clean_env fe st) (\<lambda>(ops, b).
       let (n, lines) = show_tests_summary fe b run_tests failed n
       in Inr (if failed \<noteq> [] then 1 else 0, n_stamp n, lines, ops, b))"

section \<open>Java coverage\<close>

text \<open>
  The source and class directories of the library under test are methods of the Java
  targets, given as parameters.
\<close>

definition coverage_item ::
  "fs_env \<Rightarrow> (target \<Rightarrow> string) \<Rightarrow> (target \<Rightarrow> string) \<Rightarrow> blade \<Rightarrow> key \<Rightarrow> (string \<times> string \<times> string) list \<Rightarrow>
   (string \<times> string \<times> string) list result" where
  "coverage_item fe sources_dir classes_dir b k coverage_data =
     rbind (build_target b k) (\<lambda>t.
       if t_type t \<noteq> ''java_test'' then Inr coverage_data
       else
         let execution_data = path_join (runfiles_dir b t) ''jacoco.exec''
         in if \<not> fe_isfile fe [] execution_data then Inr coverage_data
            else
              case get_data t ''target_under_test'' PyNone of
                PyTuple [PyStr p, PyStr m] \<Rightarrow>
                  rbind (dindex (b_target_database b) (p, m)) (\<lambda>u.
                    Inr (coverage_data @ [(sources_dir u, classes_dir u, execution_data)]))
              | v \<Rightarrow> if truthy v then Inl KeyError else Inr coverage_data)"

definition get_java_coverage_data ::
  "fs_env \<Rightarrow> (target \<Rightarrow> string) \<Rightarrow> (target \<Rightarrow> string) \<Rightarrow> blade \<Rightarrow> test_runner \<Rightarrow> (string \<times> string \<times> string) list result" where
  "get_java_coverage_data fe sources_dir classes_dir b n =
     rfold (coverage_item fe sources_dir classes_dir b) (dkeys (n_run_map n)) []"

definition java_coverage_command ::
  "fs_env \<Rightarrow> (target \<Rightarrow> string) \<Rightarrow> (target \<Rightarrow> string) \<Rightarrow> blade \<Rightarrow> test_runner \<Rightarrow> (string option \<times> blade) result" where
  "java_coverage_command fe sources_dir classes_dir b n =
     rbind (config_value b ''java_test_config'' ''jacoco_home'') (\<lambda>home.
     rbind (config_value b ''java_test_config'' ''coverage_reporter'') (\<lambda>reporter.
       case (home, reporter) of
         (PyStr (h # hs), PyStr (r # rs)) \<Rightarrow>
           rbind (get_java_coverage_data fe sources_dir classes_dir b n) (\<lambda>data.
             Inr (if data = [] then None
                  else Some (join_with '' ''
                    ([''java -classpath '' @ (r # rs) @ '':'' @ path_join3 (h # hs) ''lib'' ''jacocoant.jar'' @
                      '' com.tencent.gdt.blade.ReportGenerator'',
                      path_join3 (b_build_path b) ''java'' ''coverage_report''] @
                     map (\<lambda>(s, c, e). s @ '','' @ c @ '','' @ e) data)), b))
       | _ \<Rightarrow>
           Inr (None, say (Warn (''Missing jacoco home or coverage report generator in global configuration. '' @
                  ''Abort java coverage report generation.'')) b)))"

end
