(* ===== verification/Runner_Facts.thy ===== *)
theory Runner_Facts
  imports Test_Runner Manager_Facts
begin

text \<open>
  Properties of the program runner: what the check of test data destinations guarantees, and the case it
  misses.
\<close>

section \<open>Destinations of test data\<close>

lemma test_data_pair_no_index: "test_data_pair i \<noteq> Inl IndexError"
  by (simp add: test_data_pair_def split: pyval.split list.split)

lemma do_op_no_index: "do_op fe p st \<noteq> Inl IndexError"
  by (simp add: do_op_def split: prod.split)

text \<open>Two destinations that may stand beside each other: different, and none below the other.\<close>

definition apart :: "string \<Rightarrow> string \<Rightarrow> bool" where
  "apart x y = (x \<noteq> y \<and> \<not> startswith x (y @ ''/'') \<and> \<not> startswith y (x @ ''/''))"

lemma startswith_slash:
  "startswith s (p @ ''/'') \<longleftrightarrow> startswith s p \<and> length p < length s \<and> s ! length p = slash"
proof
  assume "startswith s (p @ ''/'')"
  then obtain r where "s = (p @ ''/'') @ r" by (auto simp: startswith_iff)
  then show "startswith s p \<and> length p < length s \<and> s ! length p = slash"
    by (auto simp: startswith_iff nth_append)
next
  assume a: "startswith s p \<and> length p < length s \<and> s ! length p = slash"
  then obtain r where "s = p @ r" by (auto simp: startswith_iff)
  with a show "startswith s (p @ ''/'')"
    by (cases r) (auto simp: startswith_iff)
qed

lemma startswith_length: "startswith s p \<Longrightarrow> length p \<le> length s"
  by (auto simp: startswith_iff)

lemma check_dest_item_normal:
  assumes "normpath d = d" and "normpath e = e" and "d \<noteq> e"
  shows "check_dest_item t d e u \<noteq> Inl IndexError"
    and "check_dest_item t d e u = Inr v \<Longrightarrow> apart d e"
proof -
  have eq: "startswith x y \<Longrightarrow> length x = length y \<Longrightarrow> x = y" for x y :: string
    by (auto simp: startswith_iff)
  show "check_dest_item t d e u \<noteq> Inl IndexError"
    using assms eq [of d e] eq [of e d]
    by (auto simp: check_dest_item_def Let_def dest: startswith_length)
  show "check_dest_item t d e u = Inr v \<Longrightarrow> apart d e"
    using assms eq [of d e] eq [of e d]
    by (auto simp: check_dest_item_def Let_def apart_def startswith_slash
        dest: startswith_length split: if_splits)
qed

lemma check_dest_items:
  assumes "normpath d = d" and "\<forall>e \<in> set es. normpath e = e" and "d \<notin> set es"
  shows "rfold (check_dest_item t d) es u \<noteq> Inl IndexError"
    and "rfold (check_dest_item t d) es u = Inr v \<Longrightarrow> \<forall>e \<in> set es. apart d e"
  using assms
proof (induction es arbitrary: u)
  case (Cons e es)
  {
    case 1
    then show ?case
      using Cons.IH(1) check_dest_item_normal(1) [of d e t u] by (auto simp: rbind_eq_Inl)
  next
    case 2
    then show ?case
      using Cons.IH(2) check_dest_item_normal(2) [of d e t u] by (auto simp: rbind_eq_Inr)
  }
qed simp_all

lemma check_test_data_dest_normal:
  assumes "normpath d = d" and "\<forall>e \<in> set es. normpath e = e"
  shows "check_test_data_dest t d es \<noteq> Inl IndexError"
    and "check_test_data_dest t d es = Inr v \<Longrightarrow> d \<notin> set es \<and> (\<forall>e \<in> set es. apart d e)"
  using check_dest_items [OF assms] by (auto simp: check_test_data_dest_def split: if_splits)

definition dests_ok :: "string list \<Rightarrow> bool" where
  "dests_ok ds = (list_all (\<lambda>d. normpath d = d) ds \<and> distinct ds \<and>
     (\<forall>x \<in> set ds. \<forall>y \<in> set ds. x \<noteq> y \<longrightarrow> apart x y))"

lemma dests_ok_snoc:
  "dests_ok ds \<Longrightarrow> normpath d = d \<Longrightarrow> d \<notin> set ds \<Longrightarrow> \<forall>e \<in> set ds. apart d e \<Longrightarrow> dests_ok (ds @ [d])"
  by (auto simp: dests_ok_def apart_def)

lemma prepare_item_result:
  assumes "prepare_test_data_item fe t i (ds, ops, b) = r" and "dests_ok ds"
  shows "r \<noteq> Inl IndexError \<and> (\<forall>ds' ops' b'. r = Inr (ds', ops', b') \<longrightarrow> dests_ok ds')"
proof -
  consider e where "test_data_pair i = Inl e" "e \<noteq> IndexError" | p where "test_data_pair i = Inr p"
    using test_data_pair_no_index [of i] by (cases "test_data_pair i") auto
  then show ?thesis
  proof cases
    case 1
    then show ?thesis using assms(1) by (auto simp: prepare_test_data_item_def)
  next
    case 2
    obtain src dest where p: "p = (src, dest)" by force
    let ?d = "normpath (strip_root dest)"
    note chk = check_test_data_dest_normal [of ?d ds t, OF normpath_idem]
    have norm: "\<forall>e \<in> set ds. normpath e = e"
      using assms(2) by (simp add: dests_ok_def list_all_iff)
    show ?thesis
    proof (cases "str_in ''..'' src")
      case True
      then show ?thesis using assms 2 p by (auto simp: prepare_test_data_item_def)
    next
      case False
      show ?thesis
      proof (cases "check_test_data_dest t ?d ds")
        case (Inl e)
        then show ?thesis
          using assms(1) 2 p False chk(1) [OF norm] by (auto simp: prepare_test_data_item_def Let_def)
      next
        case (Inr v)
        then have "dests_ok (ds @ [?d])"
          using chk(2) [OF norm] assms(2) by (intro dests_ok_snoc) auto
        then show ?thesis
          using assms(1) 2 p False Inr
          by (auto simp: prepare_test_data_item_def Let_def rbind_eq_Inl rbind_eq_Inr do_op_no_index
              split: if_splits)
      qed
    qed
  qed
qed

lemma prepare_items_result:
  "dests_ok ds \<Longrightarrow> rfold (prepare_test_data_item fe t) items (ds, ops, b) \<noteq> Inl IndexError \<and>
   (\<forall>ds' ops' b'. rfold (prepare_test_data_item fe t) items (ds, ops, b) = Inr (ds', ops', b') \<longrightarrow> dests_ok ds')"
proof (induction items arbitrary: ds ops b)
  case (Cons i items)
  note item = prepare_item_result [OF refl Cons.prems, of fe t i ops b]
  show ?case
  proof (cases "prepare_test_data_item fe t i (ds, ops, b)")
    case (Inl e)
    then show ?thesis using item by auto
  next
    case (Inr st)
    obtain ds1 ops1 b1 where "st = (ds1, ops1, b1)" by (cases st)
    then show ?thesis using item Inr Cons.IH [of ds1 ops1 b1] by simp
  qed
qed simp

section \<open>Nesting\<close>

text \<open>
  Where a destination lies when the run directory is \<open>base\<close>, and that one destination lies inside another there:
  a statement about absolute normalised paths, which the check does not look at.
\<close>

definition dest_path :: "string \<Rightarrow> string \<Rightarrow> string" where
  "dest_path base d = normpath (path_join base d)"

definition slashed :: "string \<Rightarrow> string" where
  "slashed p = (if endswith p ''/'' then p else p @ ''/'')"

definition inside :: "string \<Rightarrow> string \<Rightarrow> string \<Rightarrow> bool" where
  "inside base x y \<longleftrightarrow> dest_path base x \<noteq> dest_path base y \<and> startswith (dest_path base x) (slashed (dest_path base y))"

text \<open>Destinations that stay in the run directory.\<close>

definition stays_below :: "string \<Rightarrow> bool" where
  "stays_below d \<longleftrightarrow> \<not> startswith d ''/'' \<and> d \<noteq> ''..'' \<and> \<not> startswith d ''../''"

lemma join_with_append:
  "xs \<noteq> [] \<Longrightarrow> ys \<noteq> [] \<Longrightarrow> join_with sep (xs @ ys) = join_with sep xs @ sep @ join_with sep ys"
  by (induction sep xs rule: join_with.induct) (auto simp: join_with_Cons)

lemma split_on_snoc: "split_on c (s @ c # p) = split_on c s @ split_on c p"
proof (induction s)
  case (Cons x s)
  obtain q qs where "split_on c s = q # qs" by (cases "split_on c s") auto
  then show ?case using Cons by simp
qed simp

lemma plain_join_last:
  assumes "list_all plain_comp cs" and "cs \<noteq> []"
  shows "join_with ''/'' cs \<noteq> []" and "last (join_with ''/'' cs) \<noteq> slash"
proof -
  obtain x xs where "join_with ''/'' cs = x # xs" by (rule join_comps_head [OF assms])
  then show ne: "join_with ''/'' cs \<noteq> []" by simp
  show "last (join_with ''/'' cs) \<noteq> slash"
  proof
    assume "last (join_with ''/'' cs) = slash"
    then obtain s where "join_with ''/'' cs = s @ slash # []" using ne by (metis append_butlast_last_id)
    then have "split_on slash (join_with ''/'' cs) = split_on slash s @ [[]]" by (simp only: split_on_snoc) simp
    moreover have "split_on slash (join_with ''/'' cs) = cs"
      using assms by (intro split_join) (auto simp: list_all_iff plain_comp_def)
    ultimately have "[] \<in> set cs" by (metis in_set_conv_decomp)
    then show False using assms(1) by (auto simp: list_all_iff plain_comp_def)
  qed
qed

lemma relative_parts:
  assumes "normpath d = d" and "stays_below d"
  obtains cs where "d = norm_text 0 cs" and "list_all plain_comp cs" and "''..'' \<notin> set cs"
proof -
  obtain n cs where d: "normpath d = norm_text n cs" and n: "n \<le> 2" and cs: "norm_comps (n \<noteq> 0) cs"
    by (rule normpath_is_text)
  have plain: "list_all plain_comp cs" using cs by (simp add: norm_comps_def)
  have "n = 0"
  proof (rule ccontr)
    assume "n \<noteq> 0"
    then have "startswith d ''/''" using d assms(1) by (cases n) (auto simp: norm_text_def startswith_def)
    then show False using assms(2) by (simp add: stays_below_def)
  qed
  moreover have "''..'' \<notin> set cs"
  proof
    assume "''..'' \<in> set cs"
    moreover have "''..'' \<notin> set (dropWhile (\<lambda>x. x = ''..'') cs)" using cs \<open>n = 0\<close> by (simp add: norm_comps_def)
    ultimately obtain rest where "cs = ''..'' # rest" by (cases cs) (auto split: if_splits)
    then have "d = ''..'' \<or> startswith d ''../''"
      using d assms(1) \<open>n = 0\<close> by (cases rest) (auto simp: norm_text_def startswith_def)
    then show False using assms(2) by (simp add: stays_below_def)
  qed
  ultimately show thesis using that d assms(1) plain by simp
qed

lemma absolute_parts:
  assumes "normpath base = base" and "startswith base ''/''"
  obtains n bs where "base = norm_text n bs" and "n \<le> 2" and "n \<noteq> 0" and "norm_comps True bs"
proof -
  obtain n bs where b: "normpath base = norm_text n bs" and n: "n \<le> 2" and bs: "norm_comps (n \<noteq> 0) bs"
    by (rule normpath_is_text)
  have "n \<noteq> 0"
  proof
    assume "n = 0"
    then have base: "base = (if join_with ''/'' bs = [] then ''.'' else join_with ''/'' bs)"
      using b assms(1) by (simp add: norm_text_def)
    have "list_all plain_comp bs" using bs by (simp add: norm_comps_def)
    then have "bs = [] \<or> (\<exists>x xs. join_with ''/'' bs = x # xs \<and> x \<noteq> slash)" by (metis join_comps_head)
    then show False using assms(2) base by (auto simp: startswith_def)
  qed
  then show thesis using that b assms(1) n bs by simp
qed

lemma slashed_text:
  assumes "n \<noteq> 0" and "list_all plain_comp bs"
  shows "slashed (norm_text n bs) = replicate n slash @ (if bs = [] then [] else join_with ''/'' bs @ ''/'')"
proof (cases "bs = []")
  case True
  then show ?thesis
    using assms(1) by (cases n) (auto simp: slashed_def norm_text_def endswith_iff replicate_append_same [symmetric])
next
  case False
  note l = plain_join_last [OF assms(2) False]
  have "norm_text n bs = replicate n slash @ join_with ''/'' bs" using l by (simp add: norm_text_def)
  moreover have "\<not> endswith (replicate n slash @ join_with ''/'' bs) ''/''"
    using l by (auto simp: endswith_iff) (metis last_appendR last_snoc)
  ultimately show ?thesis using False by (simp add: slashed_def)
qed

lemma dest_path_dot_text:
  assumes "n \<le> 2" and "n \<noteq> 0" and "norm_comps True bs"
  shows "normpath (slashed (norm_text n bs) @ ''.'') = norm_text n bs"
proof (cases "bs = []")
  case True
  have "n = 1 \<or> n = 2" using assms by linarith
  moreover have "normpath ''/.'' = ''/''" "normpath ''//.'' = ''//''" by code_simp+
  ultimately show ?thesis using True slashed_text [OF assms(2), of bs] by (auto simp: norm_text_def numeral_2_eq_2)
next
  case False
  have plain: "list_all plain_comp bs" using assms(3) by (simp add: norm_comps_def)
  obtain x xs where x: "join_with ''/'' bs = x # xs" "x \<noteq> slash" by (rule join_comps_head [OF plain False])
  let ?p = "replicate n slash @ join_with ''/'' bs @ ''/'' @ ''.''"
  have p: "slashed (norm_text n bs) @ ''.'' = ?p" using False slashed_text [OF assms(2) plain] by simp
  have n: "initial_slashes ?p = n"
    using assms(1) x by (auto simp: initial_slashes_def startswith_def le_Suc_eq numeral_2_eq_2)
  have "split_on slash (join_with ''/'' bs) = bs"
    using plain False by (intro split_join) (auto simp: list_all_iff plain_comp_def)
  then have "split_on slash ?p = replicate n [] @ bs @ [''.'']"
    using split_on_snoc [of slash "join_with ''/'' bs" "''.''"] by (simp add: split_slashes)
  then have "fold (norm_step True) (split_on slash ?p) [] = bs"
    using fold_norm_step_fixed [OF assms(3)]
    by (simp only: fold_append comp_apply fold_norm_step_Nils fold_simps id_apply) (simp add: norm_step_def)
  then have "normpath ?p = norm_text n bs"
    using n assms(2) by (simp add: normpath_def norm_text_def)
  then show ?thesis unfolding p .
qed

lemma dest_path_comps_text:
  assumes "n \<le> 2" and "n \<noteq> 0" and "norm_comps True bs" and "list_all plain_comp cs" and "''..'' \<notin> set cs" and "cs \<noteq> []"
  shows "normpath (slashed (norm_text n bs) @ join_with ''/'' cs) = slashed (norm_text n bs) @ join_with ''/'' cs"
proof -
  have plain: "list_all plain_comp bs" using assms(3) by (simp add: norm_comps_def)
  have "slashed (norm_text n bs) @ join_with ''/'' cs = norm_text n (bs @ cs)"
    using assms(2,6) slashed_text [OF assms(2) plain] join_with_append [of bs cs "''/''"] by (auto simp: norm_text_def)
  moreover have "norm_comps True (bs @ cs)" using assms(3-5) by (auto simp: norm_comps_def)
  ultimately show ?thesis using normpath_text [OF assms(1), of "bs @ cs"] assms(2) by simp
qed

lemma dest_path_below:
  assumes "normpath base = base" and "startswith base ''/''" and "normpath d = d" and "stays_below d"
  shows "dest_path base d = (if d = ''.'' then base else slashed base @ d)"
proof -
  obtain n bs where b: "base = norm_text n bs" "n \<le> 2" "n \<noteq> 0" "norm_comps True bs"
    by (rule absolute_parts [OF assms(1,2)])
  obtain cs where d: "d = norm_text 0 cs" and cs: "list_all plain_comp cs" "''..'' \<notin> set cs"
    by (rule relative_parts [OF assms(3,4)])
  have "path_join base d = slashed base @ d"
    using assms(2,4) by (auto simp: path_join_def slashed_def stays_below_def startswith_def)
  then have l: "dest_path base d = normpath (slashed base @ d)" by (simp add: dest_path_def)
  show ?thesis
  proof (cases "cs = []")
    case True
    then have "d = ''.''" using d by (simp add: norm_text_def)
    then show ?thesis using l dest_path_dot_text [OF b(2-4)] b(1) by simp
  next
    case False
    have d': "d = join_with ''/'' cs" using d plain_join_last(1) [OF cs(1) False] by (simp add: norm_text_def)
    have "split_on slash (join_with ''/'' cs) = cs"
      using cs False by (intro split_join) (auto simp: list_all_iff plain_comp_def)
    then have "d \<noteq> ''.''" using cs(1) d' by (auto simp: plain_comp_def)
    then show ?thesis using l dest_path_comps_text [OF b(2-4) cs False] b(1) d' by simp
  qed
qed

lemma inside_below:
  assumes "normpath base = base" and "startswith base ''/''"
    and "normpath x = x" and "stays_below x" and "normpath y = y" and "stays_below y"
    and "\<not> startswith x (y @ ''/'')"
  shows "inside base x y \<longleftrightarrow> y = ''.'' \<and> x \<noteq> ''.''"
proof (cases "y = ''.''")
  case True
  have "slashed base @ x \<noteq> base" if "x \<noteq> []" using that by (simp add: slashed_def)
  then show ?thesis
    using True dest_path_below [OF assms(1-4)] dest_path_below [OF assms(1,2,5,6)] normpath_nonempty [of x] assms(3)
    by (auto simp: inside_def startswith_iff)
next
  case False
  have y: "dest_path base y = slashed base @ y" using dest_path_below [OF assms(1,2,5,6)] False by simp
  obtain cs where d: "y = norm_text 0 cs" and cs: "list_all plain_comp cs" by (rule relative_parts [OF assms(5,6)])
  with False have "cs \<noteq> []" by (auto simp: norm_text_def)
  note l = plain_join_last [OF cs this]
  have "y \<noteq> []" "last y \<noteq> slash" using d l by (simp_all add: norm_text_def)
  then have "\<not> endswith (slashed base @ y) ''/''" by (auto simp: endswith_iff) (metis last_appendR last_snoc)
  then have s: "slashed (dest_path base y) = slashed base @ y @ ''/''" using y by (simp add: slashed_def)
  have "length base \<le> length (slashed base)" by (simp add: slashed_def)
  then have "\<not> startswith base (slashed base @ y @ ''/'')"
    using startswith_length [of base "slashed base @ y @ ''/''"] by auto
  moreover have "startswith (slashed base @ x) (slashed base @ y @ ''/'') \<longleftrightarrow> startswith x (y @ ''/'')"
    by (auto simp: startswith_iff)
  ultimately show ?thesis
    using False assms(7) dest_path_below [OF assms(1-4)] by (simp add: inside_def s)
qed

lemma dot_not_refused:
  assumes "normpath d = d" and "d \<noteq> ''.''"
  shows "check_test_data_dest t d [''.''] = Inr ()"
proof -
  have dot: "normpath ''.'' = ''.''" by code_simp
  have "d \<noteq> []" using normpath_nonempty [of d] assms(1) by metis
  have "\<not> startswith d ''./''"
  proof
    assume "startswith d ''./''"
    then obtain r where r: "d = ''.'' @ slash # r" by (auto simp: startswith_iff)
    then obtain cs where "d = norm_text 0 cs" and cs: "list_all plain_comp cs"
      using relative_parts [OF assms(1)] by (auto simp: stays_below_def startswith_def)
    moreover from this r have ne: "cs \<noteq> []" by (auto simp: norm_text_def)
    ultimately have "d = join_with ''/'' cs" using plain_join_last(1) [OF cs ne] by (simp add: norm_text_def)
    moreover have "split_on slash (join_with ''/'' cs) = cs"
      using cs ne by (intro split_join) (auto simp: list_all_iff plain_comp_def)
    ultimately have "cs = ''.'' # split_on slash r" using r split_on_append_sep [of slash "''.''" r] by simp
    then show False using cs by (simp add: plain_comp_def)
  qed
  then show ?thesis
    using assms dot \<open>d \<noteq> []\<close> startswith_slash [of d "''.''"]
    by (cases d) (auto simp: check_test_data_dest_def check_dest_item_def startswith_iff Let_def)
qed

text \<open>
  C21. The check of the test data destinations: whatever the test data
  items of a target are, the subscript into the longer path is never out of range (the
  destinations are normalised and a repeated one is refused before). When all items are
  accepted, their destinations are different, and of two that stay in the run directory, wherever that is, one lies
  inside the other only if the other is the run directory itself, written \<open>.\<close>. This case the check misses: it
  compares the texts, and accepts every destination beside \<open>.\<close>, although all of them lie inside it.
\<close>

theorem testdata_destinations_disjoint:
  assumes "normpath base = base" and "startswith base ''/''"
  shows "rfold (prepare_test_data_item fe t) items ([], ops, b) \<noteq> Inl IndexError \<and>
   (\<forall>ds ops' b'. rfold (prepare_test_data_item fe t) items ([], ops, b) = Inr (ds, ops', b') \<longrightarrow>
      distinct ds \<and> list_all (\<lambda>d. normpath d = d) ds \<and>
      (\<forall>x \<in> set ds. \<forall>y \<in> set ds. stays_below x \<and> stays_below y \<longrightarrow> (inside base x y \<longleftrightarrow> y = ''.'' \<and> x \<noteq> ''.''))) \<and>
   (\<forall>d. normpath d = d \<and> d \<noteq> ''.'' \<longrightarrow> check_test_data_dest t d [''.''] = Inr ())"
proof -
  have "dests_ok []" by (simp add: dests_ok_def)
  note r = prepare_items_result [OF this, of fe t items ops b]
  have "distinct ds \<and> list_all (\<lambda>d. normpath d = d) ds \<and>
      (\<forall>x \<in> set ds. \<forall>y \<in> set ds. stays_below x \<and> stays_below y \<longrightarrow> (inside base x y \<longleftrightarrow> y = ''.'' \<and> x \<noteq> ''.''))"
    if ok: "dests_ok ds" for ds
  proof (intro conjI ballI impI)
    fix x y
    assume x: "x \<in> set ds" and y: "y \<in> set ds" and below: "stays_below x \<and> stays_below y"
    have "\<not> startswith x (y @ ''/'')"
      using ok x y by (cases "x = y") (auto simp: dests_ok_def apart_def startswith_slash)
    moreover have "normpath x = x" "normpath y = y" using ok x y by (auto simp: dests_ok_def list_all_iff)
    ultimately show "inside base x y \<longleftrightarrow> y = ''.'' \<and> x \<noteq> ''.''"
      using inside_below [OF assms] below by blast
  qed (use ok in \<open>simp_all add: dests_ok_def\<close>)
  then show ?thesis using r dot_not_refused by blast
qed

text \<open>A file system in which nothing exists and every operation succeeds.\<close>

definition sample_fs :: fs_env where
  "sample_fs = \<lparr>fe_cwd = ''/w'', fe_lexists = \<lambda>_ _. False, fe_exists = \<lambda>_ _. False, fe_isfile = \<lambda>_ _. True,
     fe_isdir = \<lambda>_ _. False, fe_realpath = \<lambda>_ p. p, fe_lines = \<lambda>_. [], fe_fails = \<lambda>_ _. False,
     fe_file_and_link = \<lambda>_. None, fe_environ = []\<rparr>"

definition sample_items :: "pyval list" where
  "sample_items = [PyStr ''a/x'', PyTuple [PyStr ''//conf'', PyStr ''etc/''], PyTuple [PyStr ''top'', PyStr ''.'']]"

definition sample_test :: target where
  "sample_test = (sample_library ''t'' [])\<lparr>t_class := CcTestC, t_type := ''cc_test''\<rparr>"

theorem testdata_destinations_disjoint_witness:
  "\<exists>ds ops' b'. rfold (prepare_test_data_item sample_fs sample_test) sample_items ([], [], sample_blade) =
     Inr (ds, ops', b') \<and> ds = [''a/x'', ''etc'', ''.''] \<and> \<not> inside ''/w/r'' ''etc'' ''a/x'' \<and> inside ''/w/r'' ''etc'' ''.''"
proof -
  let ?r = "rfold (prepare_test_data_item sample_fs sample_test) sample_items ([], [], sample_blade)"
  have "case ?r of Inl _ \<Rightarrow> False | Inr (ds, _, _) \<Rightarrow> ds = [''a/x'', ''etc'', ''.'']" by code_simp
  then obtain ds ops' b' where r: "?r = Inr (ds, ops', b')" and ds: "ds = [''a/x'', ''etc'', ''.'']"
    by (cases ?r) auto
  have base: "normpath ''/w/r'' = ''/w/r''" "startswith ''/w/r'' ''/''" by code_simp+
  have below: "stays_below ''a/x''" "stays_below ''etc''" "stays_below ''.''" by code_simp+
  have "inside ''/w/r'' x y \<longleftrightarrow> y = ''.'' \<and> x \<noteq> ''.''" if "x \<in> set ds" "y \<in> set ds" "stays_below x" "stays_below y" for x y
    using testdata_destinations_disjoint [OF base, of sample_fs sample_test sample_items "[]" sample_blade] r that by blast
  then show ?thesis using r ds below by simp
qed

end
