(* ===== verification/Inctest_Facts.thy ===== *)
theory Inctest_Facts
  imports Runner_Facts
begin

text \<open>
  Incremental testing: which tests are scheduled, and what the stamp written by one run
  means for the next.
\<close>

section \<open>The loops\<close>

text \<open>The test program behind a build target, if it is a test.\<close>

definition test_of :: "blade \<Rightarrow> key \<Rightarrow> target option" where
  "test_of b k = (case build_target b k of Inr t \<Rightarrow> if is_test t then Some t else None | Inl _ \<Rightarrow> None)"

text \<open>The entry of a test has changed with respect to a stamp.\<close>

definition changed :: "fs_env \<Rightarrow> (string \<Rightarrow> string) \<Rightarrow> (string \<Rightarrow> string) \<Rightarrow> blade \<Rightarrow> stamp \<Rightarrow> target \<Rightarrow> bool" where
  "changed fe md5 stat_text b old t =
     (case get_test_target_md5sum fe md5 stat_text b t of
        Inr entry \<Rightarrow> dget (st_md5 old) (test_file_name fe b t) \<noteq> Some entry | Inl _ \<Rightarrow> False)"

text \<open>The specification of the selection: whether a test has to be run.\<close>

definition needs_run ::
  "fs_env \<Rightarrow> (string \<Rightarrow> string) \<Rightarrow> (string \<Rightarrow> string) \<Rightarrow> blade \<Rightarrow> string \<Rightarrow> stamp \<Rightarrow> target \<Rightarrow> bool" where
  "needs_run fe md5 stat_text b reason old t =
     (reason \<noteq> [] \<or> (t_path t, t_name t) \<in> set (b_direct_targets b) \<or> changed fe md5 stat_text b old t \<or>
      truthy (get_data t ''always_run'' PyNone))"

text \<open>The test joins the run list in the loop of \<open>_generate_inctest_run_list\<close>.\<close>

definition listed ::
  "fs_env \<Rightarrow> (string \<Rightarrow> string) \<Rightarrow> (string \<Rightarrow> string) \<Rightarrow> blade \<Rightarrow> stamp \<Rightarrow> key \<Rightarrow> bool" where
  "listed fe md5 stat_text b old k =
     (case test_of b k of
        None \<Rightarrow> False
      | Some t \<Rightarrow> (t_path t, t_name t) \<in> set (b_direct_targets b) \<or> changed fe md5 stat_text b old t)"

definition entry_of :: "fs_env \<Rightarrow> (string \<Rightarrow> string) \<Rightarrow> (string \<Rightarrow> string) \<Rightarrow> blade \<Rightarrow> target \<Rightarrow> md5_entry" where
  "entry_of fe md5 stat_text b t =
     (case get_test_target_md5sum fe md5 stat_text b t of Inr e \<Rightarrow> e | Inl _ \<Rightarrow> LastFailed)"

lemma entry_is_digest: "get_test_target_md5sum fe md5 stat_text b t = Inr e \<Longrightarrow> e \<noteq> LastFailed"
  by (auto simp: get_test_target_md5sum_def Let_def rbind_eq_Inr)

lemma inctest_target_step:
  assumes "inctest_target fe md5 stat_text b k n = Inr n'"
  shows "n_last n' = n_last n" and "n_run_all_reason n' = n_run_all_reason n" and "n_skipped n' = n_skipped n"
    and "n_run_all_reason n = [] \<Longrightarrow>
      n_run_list n' = n_run_list n @ (if listed fe md5 stat_text b (n_last n) k then [k] else [])"
    and "st_md5 (n_stamp n') =
      (case test_of b k of None \<Rightarrow> st_md5 (n_stamp n)
       | Some t \<Rightarrow> dset (test_file_name fe b t) (entry_of fe md5 stat_text b t) (st_md5 (n_stamp n)))"
proof -
  obtain t where t: "build_target b k = Inr t"
    using assms by (cases "build_target b k") (auto simp: inctest_target_def)
  let ?file = "test_file_name fe b t" and ?key = "(t_path t, t_name t)"
  let ?m = "\<lambda>e. n\<lparr>n_stamp := (n_stamp n)\<lparr>st_md5 := dset ?file e (st_md5 (n_stamp n))\<rparr>\<rparr>"
  consider (other) "n' = n" "test_of b k = None"
    | (all) e reason where "test_of b k = Some t" "get_test_target_md5sum fe md5 stat_text b t = Inr e"
        "n_run_all_reason n \<noteq> []" "n' = set_run_item ?key ?file reason (?m e)"
    | (one) e reason where "test_of b k = Some t" "get_test_target_md5sum fe md5 stat_text b t = Inr e"
        "n_run_all_reason n = []" "listed fe md5 stat_text b (n_last n) k"
        "n' = set_run_item ?key ?file reason ((?m e)\<lparr>n_run_list := n_run_list n @ [k]\<rparr>)"
    | (same) e where "test_of b k = Some t" "get_test_target_md5sum fe md5 stat_text b t = Inr e"
        "n_run_all_reason n = []" "\<not> listed fe md5 stat_text b (n_last n) k" "n' = ?m e"
  proof (cases "is_test t")
    case False
    then show ?thesis using assms t other by (simp add: inctest_target_def test_of_def)
  next
    case True
    then obtain e where e: "get_test_target_md5sum fe md5 stat_text b t = Inr e"
      using assms t by (cases "get_test_target_md5sum fe md5 stat_text b t") (auto simp: inctest_target_def)
    have l: "listed fe md5 stat_text b (n_last n) k \<longleftrightarrow>
      ?key \<in> set (b_direct_targets b) \<or> Some e \<noteq> dget (st_md5 (n_last n)) ?file"
      using True t e by (auto simp: listed_def test_of_def changed_def)
    show ?thesis
      using assms True t e l all [of e, OF _ _ _ sym] one [of e, OF _ _ _ _ sym] same [of e, OF _ _ _ _ sym]
      by (simp add: inctest_target_def test_of_def Let_def split: if_split_asm)
  qed
  then have "n_last n' = n_last n \<and> n_run_all_reason n' = n_run_all_reason n \<and> n_skipped n' = n_skipped n \<and>
    (n_run_all_reason n = [] \<longrightarrow>
      n_run_list n' = n_run_list n @ (if listed fe md5 stat_text b (n_last n) k then [k] else [])) \<and>
    st_md5 (n_stamp n') =
      (case test_of b k of None \<Rightarrow> st_md5 (n_stamp n)
       | Some t \<Rightarrow> dset (test_file_name fe b t) (entry_of fe md5 stat_text b t) (st_md5 (n_stamp n)))"
  proof cases
    case other
    then show ?thesis by (simp add: listed_def)
  qed (simp_all add: set_run_item_def entry_of_def)
  then show "n_last n' = n_last n" and "n_run_all_reason n' = n_run_all_reason n" and "n_skipped n' = n_skipped n"
    and "n_run_all_reason n = [] \<Longrightarrow>
      n_run_list n' = n_run_list n @ (if listed fe md5 stat_text b (n_last n) k then [k] else [])"
    and "st_md5 (n_stamp n') =
      (case test_of b k of None \<Rightarrow> st_md5 (n_stamp n)
       | Some t \<Rightarrow> dset (test_file_name fe b t) (entry_of fe md5 stat_text b t) (st_md5 (n_stamp n)))"
    by simp_all
qed

lemma inctest_loop:
  assumes "rfold (inctest_target fe md5 stat_text b) ks n = Inr n'"
  shows "n_last n' = n_last n" and "n_run_all_reason n' = n_run_all_reason n" and "n_skipped n' = n_skipped n"
    and "n_run_all_reason n = [] \<Longrightarrow>
      n_run_list n' = n_run_list n @ filter (listed fe md5 stat_text b (n_last n)) ks"
  using assms
proof (induction ks arbitrary: n)
  case (Cons k ks)
  {
    case 1
    then show ?case using Cons.IH(1) by (auto simp: rbind_eq_Inr inctest_target_step)
  next
    case 2
    then show ?case using Cons.IH(2) by (auto simp: rbind_eq_Inr inctest_target_step)
  next
    case 3
    then show ?case using Cons.IH(3) by (auto simp: rbind_eq_Inr inctest_target_step)
  next
    case 4
    then obtain u where u: "inctest_target fe md5 stat_text b k n = Inr u"
      "rfold (inctest_target fe md5 stat_text b) ks u = Inr n'"
      by (auto simp: rbind_eq_Inr)
    note step = inctest_target_step [OF u(1)]
    show ?case
      using Cons.IH(4) [of u] u(2) 4 step by simp
  }
qed simp_all


section \<open>The manager during the run\<close>

text \<open>Preparing a run only adds messages to the manager's log.\<close>

definition same_but_log :: "blade \<Rightarrow> blade \<Rightarrow> bool" where
  "same_but_log b b' = (\<exists>c. b' = b\<lparr>b_config := c\<rparr>)"

lemma same_but_log_refl [simp]: "same_but_log b b"
  unfolding same_but_log_def by (rule exI [of _ "b_config b"]) simp

lemma same_but_log_say [simp]: "same_but_log b (say m b)"
  unfolding same_but_log_def say_def by (rule exI) (rule refl)

lemma same_but_log_trans: "same_but_log a b \<Longrightarrow> same_but_log b c \<Longrightarrow> same_but_log a c"
  by (auto simp: same_but_log_def)

lemma same_but_logD:
  assumes "same_but_log b b'"
  shows "b_build_targets b' = b_build_targets b" and "b_target_database b' = b_target_database b"
    and "b_direct_targets b' = b_direct_targets b" and "b_build_path b' = b_build_path b"
  using assms by (auto simp: same_but_log_def)

lemma same_but_log_test_of: "same_but_log b b' \<Longrightarrow> test_of b' k = test_of b k"
  by (simp add: test_of_def build_target_def same_but_logD)

lemma do_op_state: "do_op fe p st = Inr st' \<Longrightarrow> snd st' = snd st"
  by (auto simp: do_op_def split: prod.splits if_splits)

lemma try_op_state: "snd (try_op fe p st) = snd st"
  by (auto simp: try_op_def split: prod.splits)

lemma try_op_stateD: "try_op fe p (ops, b) = (ops', b') \<Longrightarrow> b' = b"
  using try_op_state [of fe p "(ops, b)"] by simp

lemma rfold_log:
  assumes "rfold f xs s = Inr s'" and "\<And>x u v. f x u = Inr v \<Longrightarrow> same_but_log (g u) (g v)"
  shows "same_but_log (g s) (g s')"
  using assms(1)
  by (rule rfold_invariant) (auto intro: same_but_log_trans assms(2))

lemma link_prebuilt_log: "link_prebuilt fe t f st = Inr st' \<Longrightarrow> same_but_log (snd st) (snd st')"
  by (auto simp: link_prebuilt_def Let_def dest: do_op_state split: prod.splits if_splits)

lemma prepare_test_data_item_log:
  assumes "prepare_test_data_item fe t i st = Inr st'"
  shows "same_but_log (snd (snd st)) (snd (snd st'))"
  using assms
  by (cases st)
    (auto simp: prepare_test_data_item_def Let_def rbind_eq_Inr try_op_state dest!: do_op_state try_op_stateD split: if_splits)

lemma extra_test_data_line_log: "extra_test_data_line fe t line st = Inr st' \<Longrightarrow> snd st' = snd st"
  by (auto simp: extra_test_data_line_def Let_def rbind_eq_Inr dest!: do_op_state split: list.splits if_splits)

lemma prepare_extra_test_data_log:
  assumes "prepare_extra_test_data fe t st = Inr st'"
  shows "same_but_log (snd st) (snd st')"
proof (cases "st' = st")
  case False
  then obtain lines where l: "rfold (extra_test_data_line fe t) lines st = Inr st'"
    using assms by (auto simp: prepare_extra_test_data_def Let_def split: if_splits)
  show ?thesis
    by (rule rfold_log [OF l, of snd]) (simp add: extra_test_data_line_log)
qed simp

lemma prepare_test_data_log:
  assumes "prepare_test_data fe t st = Inr st'"
  shows "same_but_log (snd st) (snd st')"
proof (cases "dget (t_data t) ''testdata''")
  case None
  then show ?thesis using assms by (simp add: prepare_test_data_def)
next
  case (Some v)
  then obtain items where v: "v = PyList items"
    using assms by (cases v) (auto simp: prepare_test_data_def)
  obtain ds ops b where
    r: "rfold (prepare_test_data_item fe t) items ([], fst st, snd st) = Inr (ds, ops, b)"
    and x: "prepare_extra_test_data fe t (ops, b) = Inr st'"
    using assms Some v by (auto simp: prepare_test_data_def rbind_eq_Inr)
  show ?thesis
    using rfold_log [OF r, of "\<lambda>s. snd (snd s)"] prepare_test_data_item_log
      prepare_extra_test_data_log [OF x] same_but_log_trans by force
qed

lemma prepare_env_log:
  assumes "prepare_env fe t st = Inr (env, st')"
  shows "same_but_log (snd st) (snd st')"
proof -
  obtain s1 s2 pre s3 where
    "do_op fe (MkDir (runfiles_dir (snd st) t)) (fst st @ [RmTree (runfiles_dir (snd st) t)], snd st) = Inr s1"
    and "snd s2 = snd s1"
    and l: "rfold (link_prebuilt fe t) pre s2 = Inr s3" and d: "prepare_test_data fe t s3 = Inr st'"
    using assms by (auto simp: prepare_env_def Let_def rbind_eq_Inr dest: do_op_state)
  then have "snd s2 = snd st" by (auto dest: do_op_state)
  then show ?thesis
    using rfold_log [OF l, of snd] link_prebuilt_log prepare_test_data_log [OF d] same_but_log_trans by metis
qed

section \<open>The selection\<close>

text \<open>The body of the loop of \<open>run\<close> schedules the test, skips it, or passes over the target.\<close>

lemma run_one_cases:
  assumes "run_one fe color k (jobs, n, ops, b) = Inr (jobs', n', ops', b')"
  obtains (other) "test_of b k = None" "jobs' = jobs" "n' = n" "b' = b"
    | (skip) t where "test_of b k = Some t" "n_run_all_reason n = []" "k \<notin> set (n_run_list n)"
        "\<not> truthy (get_data t ''always_run'' PyNone)" "jobs' = jobs" "b' = b"
        "n' = n\<lparr>n_skipped := n_skipped n @ [(t_path t, t_name t)]\<rparr>"
    | (run) t j where "test_of b k = Some t"
        "n_run_all_reason n \<noteq> [] \<or> k \<in> set (n_run_list n) \<or> truthy (get_data t ''always_run'' PyNone)"
        "jobs' = jobs @ [j]" "j_target j = t" "n' = n" "same_but_log b b'"
proof (cases "test_of b k")
  case None
  then show ?thesis
    using assms other by (auto simp: run_one_def test_of_def rbind_eq_Inr split: sum.splits if_splits)
next
  case (Some t)
  then have t: "build_target b k = Inr t" "is_test t"
    by (auto simp: test_of_def split: sum.splits if_splits)
  show ?thesis
  proof (cases "n_run_all_reason n = [] \<and> k \<notin> set (n_run_list n) \<and> \<not> truthy (get_data t ''always_run'' PyNone)")
    case True
    have "(jobs, n\<lparr>n_skipped := n_skipped n @ [(t_path t, t_name t)]\<rparr>, ops, b) = (jobs', n', ops', b')"
      using assms unfolding run_one_def prod.case t(1) rbind_Inr if_P [OF True]
      by (simp only: t(2) not_True_eq_False if_False sum.inject)
    then show ?thesis using True by (intro skip [OF Some]) simp_all
  next
    case False
    have r: "rbind (prepare_env fe t (ops, b)) (\<lambda>(env, ops, b). rbind (option_args b) (\<lambda>args.
        rbind (test_environment fe color b (n_coverage n) t env) (\<lambda>env.
          Inr (jobs @ [\<lparr>j_target = t, j_run_dir = runfiles_dir b t, j_env = env,
            j_cmd = test_file_name fe b t # args\<rparr>], n, ops, b)))) = Inr (jobs', n', ops', b')"
      using assms unfolding run_one_def prod.case t(1) rbind_Inr if_not_P [OF False]
      by (simp only: t(2) not_True_eq_False if_False)
    then obtain env ops1 b1 where e: "prepare_env fe t (ops, b) = Inr (env, ops1, b1)"
      by (cases "prepare_env fe t (ops, b)") auto
    then obtain args where a: "option_args b1 = Inr args"
      using r by (cases "option_args b1") auto
    then obtain env1 where "test_environment fe color b1 (n_coverage n) t env = Inr env1"
      using r e by (cases "test_environment fe color b1 (n_coverage n) t env") auto
    then have "jobs @ [\<lparr>j_target = t, j_run_dir = runfiles_dir b1 t, j_env = env1, j_cmd = test_file_name fe b1 t # args\<rparr>] = jobs'"
      "n' = n" "b' = b1"
      using r unfolding e a rbind_Inr prod.case by auto
    then show ?thesis using run [OF Some _ sym] False prepare_env_log [OF e] by simp
  qed
qed

abbreviation tests_of :: "blade \<Rightarrow> key list \<Rightarrow> target list" where
  "tests_of b ks \<equiv> List.map_filter (test_of b) ks"

lemma run_loop:
  assumes "rfold (run_one fe color) ks (jobs, n, ops, b) = Inr (jobs', n', ops', b')"
    and "\<And>k t. k \<in> set ks \<Longrightarrow> test_of b k = Some t \<Longrightarrow>
      (n_run_all_reason n \<noteq> [] \<or> k \<in> set (n_run_list n) \<or> truthy (get_data t ''always_run'' PyNone)) = P t"
  shows "map j_target jobs' = map j_target jobs @ filter P (tests_of b ks) \<and>
    n_skipped n' = n_skipped n @ map (\<lambda>t. (t_path t, t_name t)) (filter (\<lambda>t. \<not> P t) (tests_of b ks)) \<and>
    n_stamp n' = n_stamp n \<and> same_but_log b b'"
  using assms
proof (induction ks arbitrary: jobs n ops b)
  case (Cons k ks)
  then obtain jobs1 n1 ops1 b1 where r: "run_one fe color k (jobs, n, ops, b) = Inr (jobs1, n1, ops1, b1)"
    "rfold (run_one fe color) ks (jobs1, n1, ops1, b1) = Inr (jobs', n', ops', b')"
    by (auto simp: rbind_eq_Inr)
  have same: "same_but_log b b1" "n_run_all_reason n1 = n_run_all_reason n" "n_run_list n1 = n_run_list n"
    "n_stamp n1 = n_stamp n"
  proof -
    from r(1) have "same_but_log b b1 \<and> n_run_all_reason n1 = n_run_all_reason n \<and> n_run_list n1 = n_run_list n \<and>
      n_stamp n1 = n_stamp n"
      by (cases rule: run_one_cases) simp_all
    then show "same_but_log b b1" "n_run_all_reason n1 = n_run_all_reason n" "n_run_list n1 = n_run_list n"
      "n_stamp n1 = n_stamp n" by simp_all
  qed
  have IH: "map j_target jobs' = map j_target jobs1 @ filter P (tests_of b ks)"
    "n_skipped n' = n_skipped n1 @ map (\<lambda>t. (t_path t, t_name t)) (filter (\<lambda>t. \<not> P t) (tests_of b ks))"
    "n_stamp n' = n_stamp n1" "same_but_log b1 b'"
    using Cons.IH [OF r(2)] Cons.prems(2) same by (simp_all add: same_but_log_test_of)
  have log: "same_but_log b b'" "n_stamp n' = n_stamp n"
    using same IH same_but_log_trans [of b b1 b'] by simp_all
  from r(1) show ?case
  proof (cases rule: run_one_cases)
    case other
    then show ?thesis using IH log by (simp add: map_filter_simps)
  next
    case (skip t)
    then have "\<not> P t" using Cons.prems(2) [of k t] by simp
    then show ?thesis using IH log skip(1,5,7) by (simp add: map_filter_simps)
  next
    case (run t j)
    then have "P t" using Cons.prems(2) [of k t] by simp
    then show ?thesis using IH log run(1,3,4,5) by (simp add: map_filter_simps)
  qed
qed (simp add: map_filter_simps)

lemma tests_selection:
  assumes "generate_inctest_run_list fe md5 stat_text b n = Inr n1"
    and "n_run_list n = []" and "n_skipped n = []"
    and "tests_run_list fe color n1 b = Inr (jobs, n2, ops, b')"
  shows "map j_target jobs = filter (needs_run fe md5 stat_text b (n_run_all_reason n) (n_last n)) (tests_of b (b_build_targets b)) \<and>
    n_skipped n2 = map (\<lambda>t. (t_path t, t_name t))
      (filter (\<lambda>t. \<not> needs_run fe md5 stat_text b (n_run_all_reason n) (n_last n) t) (tests_of b (b_build_targets b))) \<and>
    n_stamp n2 = n_stamp n1 \<and> same_but_log b b'"
proof -
  obtain m where m: "rfold (inctest_target fe md5 stat_text b) (b_build_targets b) n = Inr m" "n1 = keep_old_entries m"
    using assms(1) by (auto simp: generate_inctest_run_list_def rbind_eq_Inr)
  note loop = inctest_loop [OF m(1)]
  have n1: "n_run_all_reason n1 = n_run_all_reason n" "n_skipped n1 = []" "n_run_list n1 = n_run_list m"
    using loop m(2) assms(3) by (simp_all add: keep_old_entries_def)
  have "(n_run_all_reason n1 \<noteq> [] \<or> k \<in> set (n_run_list n1) \<or> truthy (get_data t ''always_run'' PyNone)) =
      needs_run fe md5 stat_text b (n_run_all_reason n) (n_last n) t"
    if "k \<in> set (b_build_targets b)" "test_of b k = Some t" for k t
  proof (cases "n_run_all_reason n = []")
    case True
    then have "k \<in> set (n_run_list n1) \<longleftrightarrow> listed fe md5 stat_text b (n_last n) k"
      using that(1) n1(3) loop(4) assms(2) by simp
    then show ?thesis using that(2) n1(1) True by (auto simp: needs_run_def listed_def)
  next
    case False
    then show ?thesis using n1(1) by (simp add: needs_run_def)
  qed
  from run_loop [OF assms(4) [unfolded tests_run_list_def] this] show ?thesis using n1(2) by simp
qed

text \<open>
  C19. The tests that are handed to the scheduler are exactly the test targets that need a
  run, in the order of the build: all of them when there is a reason to run everything,
  otherwise those named on the command line, those whose program, libraries or test data
  differ from the last stamp, and those marked \<open>always_run\<close>. Every other test target is
  listed as skipped.
\<close>

theorem tests_run_exactly_when_needed:
  assumes "generate_inctest_run_list fe md5 stat_text b n = Inr n1"
    and "n_run_list n = []" and "n_skipped n = []"
    and "tests_run_list fe color n1 b = Inr (jobs, n2, ops, b')"
  shows "map j_target jobs =
      filter (needs_run fe md5 stat_text b (n_run_all_reason n) (n_last n)) (tests_of b (b_build_targets b)) \<and>
    n_skipped n2 = map (\<lambda>t. (t_path t, t_name t))
      (filter (\<lambda>t. \<not> needs_run fe md5 stat_text b (n_run_all_reason n) (n_last n) t) (tests_of b (b_build_targets b)))"
  using tests_selection [OF assms] by simp

section \<open>The stamp\<close>

abbreviation entries ::
  "fs_env \<Rightarrow> (string \<Rightarrow> string) \<Rightarrow> (string \<Rightarrow> string) \<Rightarrow> blade \<Rightarrow> key list \<Rightarrow> (string \<times> md5_entry) list" where
  "entries fe md5 stat_text b ks \<equiv>
     map (\<lambda>t. (test_file_name fe b t, entry_of fe md5 stat_text b t)) (tests_of b ks)"

lemma inctest_loop_stamp:
  assumes "rfold (inctest_target fe md5 stat_text b) ks n = Inr n'"
  shows "dget (st_md5 (n_stamp n')) = dget (st_md5 (n_stamp n)) ++ map_of (rev (entries fe md5 stat_text b ks))"
  using assms
proof (induction ks arbitrary: n)
  case (Cons k ks)
  then obtain u where u: "inctest_target fe md5 stat_text b k n = Inr u"
    "rfold (inctest_target fe md5 stat_text b) ks u = Inr n'"
    by (auto simp: rbind_eq_Inr)
  show ?case
    using Cons.IH [OF u(2)] inctest_target_step(5) [OF u(1)]
    by (cases "test_of b k") (auto simp: map_filter_simps map_add_def fun_eq_iff split: option.splits)
qed (simp add: map_filter_simps)

lemma inctest_loop_digests:
  assumes "rfold (inctest_target fe md5 stat_text b) ks n = Inr n'" and "t \<in> set (tests_of b ks)"
  shows "get_test_target_md5sum fe md5 stat_text b t = Inr (entry_of fe md5 stat_text b t)"
  using assms
proof (induction ks arbitrary: n)
  case (Cons k ks)
  then obtain u where u: "inctest_target fe md5 stat_text b k n = Inr u"
    "rfold (inctest_target fe md5 stat_text b) ks u = Inr n'"
    by (auto simp: rbind_eq_Inr)
  show ?case
  proof (cases "test_of b k = Some t")
    case True
    then have "build_target b k = Inr t" "is_test t" by (auto simp: test_of_def split: sum.splits if_splits)
    then show ?thesis using u(1)
      by (cases "get_test_target_md5sum fe md5 stat_text b t") (auto simp: inctest_target_def entry_of_def)
  next
    case False
    then show ?thesis
      using Cons.IH [OF u(2)] Cons.prems(2) by (auto simp: map_filter_simps split: option.splits)
  qed
qed (simp add: map_filter_simps)

lemma keep_old_entries_stamp:
  "dget (st_md5 (n_stamp (keep_old_entries n))) = dget (st_md5 (n_last n)) ++ dget (st_md5 (n_stamp n))"
proof
  fix f
  have "map_of (filter (\<lambda>e. dget d (fst e) = None) xs) f = (if dget d f = None then map_of xs f else None)"
    for d xs :: "(string, md5_entry) dict"
    by (induction xs) auto
  then show "dget (st_md5 (n_stamp (keep_old_entries n))) f = (dget (st_md5 (n_last n)) ++ dget (st_md5 (n_stamp n))) f"
    by (auto simp: keep_old_entries_def map_add_def split: option.splits)
qed

lemma mark_failed_stamp:
  "dget (st_md5 (n_stamp (fold (mark_failed fe b) failed n))) f =
     (if f \<in> (\<lambda>e. test_file_name fe b (fst e)) ` set failed
      then map_option (\<lambda>_. LastFailed) (dget (st_md5 (n_stamp n)) f) else dget (st_md5 (n_stamp n)) f)"
proof (induction failed arbitrary: n)
  case (Cons e failed)
  have "dget (st_md5 (n_stamp (mark_failed fe b e n))) f =
    (if f = test_file_name fe b (fst e) then map_option (\<lambda>_. LastFailed) (dget (st_md5 (n_stamp n)) f)
     else dget (st_md5 (n_stamp n)) f)"
  proof (cases "test_file_name fe b (fst e) \<in> set (dkeys (st_md5 (n_stamp n)))")
    case True
    then show ?thesis
      using dget_present [OF True] by (auto simp: mark_failed_def Let_def)
  next
    case False
    then have "dget (st_md5 (n_stamp n)) (test_file_name fe b (fst e)) = None"
      using dget_None [of "st_md5 (n_stamp n)"] by simp
    then show ?thesis using False by (auto simp: mark_failed_def Let_def)
  qed
  then show ?case
    using Cons.IH by (auto simp: option.map_comp comp_def)
qed simp

definition distinct_programs :: "fs_env \<Rightarrow> blade \<Rightarrow> bool" where
  "distinct_programs fe b = distinct (map (test_file_name fe b) (tests_of b (b_build_targets b)))"

lemma generated_stamp:
  assumes "generate_inctest_run_list fe md5 stat_text b n = Inr n1" and "distinct_programs fe b"
    and "t \<in> set (tests_of b (b_build_targets b))"
  shows "dget (st_md5 (n_stamp n1)) (test_file_name fe b t) = Some (entry_of fe md5 stat_text b t)"
    and "get_test_target_md5sum fe md5 stat_text b t = Inr (entry_of fe md5 stat_text b t)"
proof -
  obtain m where m: "rfold (inctest_target fe md5 stat_text b) (b_build_targets b) n = Inr m" "n1 = keep_old_entries m"
    using assms(1) by (auto simp: generate_inctest_run_list_def rbind_eq_Inr)
  let ?es = "entries fe md5 stat_text b (b_build_targets b)"
  have "distinct (map fst (rev ?es))"
    using assms(2) by (simp add: distinct_programs_def comp_def flip: rev_map)
  then have "map_of (rev ?es) (test_file_name fe b t) = Some (entry_of fe md5 stat_text b t)"
    using assms(3) by (intro map_of_is_SomeI) auto
  then show "dget (st_md5 (n_stamp n1)) (test_file_name fe b t) = Some (entry_of fe md5 stat_text b t)"
    using inctest_loop_stamp [OF m(1)] keep_old_entries_stamp [of m] m(2) by simp
  show "get_test_target_md5sum fe md5 stat_text b t = Inr (entry_of fe md5 stat_text b t)"
    by (rule inctest_loop_digests [OF m(1) assms(3)])
qed

lemma clean_env_state:
  assumes "clean_env fe st = Inr st'"
  shows "snd st' = snd st"
  using assms unfolding clean_env_def
  by (rule rfold_invariant) (auto simp: clean_target_def Let_def rbind_eq_Inr dest: do_op_state split: if_splits)

lemma test_file_name_log: "same_but_log b b' \<Longrightarrow> test_file_name fe b' t = test_file_name fe b t"
  by (simp add: test_file_name_def executable_def same_but_logD)

lemma written_stamp:
  assumes "generate_inctest_run_list fe md5 stat_text b n = Inr n1" and "distinct_programs fe b"
    and "n_stamp n2 = n_stamp n1" and "same_but_log b b2"
    and "finish_run fe run_tests failed n2 (ops, b2) = Inr (status, written, lines, ops', b3)"
    and "t \<in> set (tests_of b (b_build_targets b))" and "fst ` set failed \<subseteq> set (tests_of b (b_build_targets b))"
  shows "dget (st_md5 written) (test_file_name fe b t) =
    Some (if t \<in> fst ` set failed then LastFailed else entry_of fe md5 stat_text b t)"
proof -
  obtain ops3 b4 where c: "clean_env fe (ops, b2) = Inr (ops3, b4)"
    using assms(5) by (auto simp: finish_run_def rbind_eq_Inr)
  have b4: "b4 = b2" using clean_env_state [OF c] by simp
  then have w: "written = n_stamp (fold (mark_failed fe b2) failed n2)"
    using assms(5) c by (auto simp: finish_run_def show_tests_summary_def Let_def split: if_splits)
  have name: "test_file_name fe b2 u = test_file_name fe b u" for u
    by (rule test_file_name_log [OF assms(4)])
  have "test_file_name fe b t \<in> (\<lambda>e. test_file_name fe b (fst e)) ` set failed \<longleftrightarrow> t \<in> fst ` set failed"
  proof
    assume "test_file_name fe b t \<in> (\<lambda>e. test_file_name fe b (fst e)) ` set failed"
    then obtain u where u: "u \<in> fst ` set failed" "test_file_name fe b t = test_file_name fe b u" by auto
    then have "t = u"
      using assms(2,6,7) unfolding distinct_programs_def distinct_map by (auto dest: inj_onD)
    then show "t \<in> fst ` set failed" using u(1) by simp
  qed auto
  then show ?thesis
    using mark_failed_stamp [of fe b2 failed n2] generated_stamp(1) [OF assms(1,2,6)] assms(3)
    by (auto simp: w name)
qed

text \<open>
  C20. Two runs in a row: when nothing changes on disk between two incremental runs, the
  second run repeats exactly the tests that failed, those named on the command line and those
  marked \<open>always_run\<close>; a test that passed is not run again.
\<close>

theorem second_run_repeats_failed_tests:
  assumes "generate_inctest_run_list fe md5 stat_text b n = Inr n1" and "n_run_list n = []" and "n_skipped n = []"
    and "tests_run_list fe color n1 b = Inr (jobs, n2, ops, b2)"
    and "finish_run fe run_tests failed n2 (ops, b2) = Inr (status, written, lines, ops', b3)"
    and "fst ` set failed \<subseteq> set (tests_of b (b_build_targets b))" and "distinct_programs fe b"
    and "n_last m = written" and "n_run_all_reason m = []" and "n_run_list m = []" and "n_skipped m = []"
    and "generate_inctest_run_list fe md5 stat_text b m = Inr m1"
    and "tests_run_list fe color m1 b = Inr (jobs', m2, ops2, b4)"
  shows "map j_target jobs' =
    filter (\<lambda>t. t \<in> fst ` set failed \<or> (t_path t, t_name t) \<in> set (b_direct_targets b) \<or>
      truthy (get_data t ''always_run'' PyNone)) (tests_of b (b_build_targets b))"
proof -
  note sel1 = tests_selection [OF assms(1-4)]
  have "changed fe md5 stat_text b written t \<longleftrightarrow> t \<in> fst ` set failed" if t: "t \<in> set (tests_of b (b_build_targets b))" for t
    using written_stamp [OF assms(1,7) _ _ assms(5) t assms(6)] sel1 generated_stamp(2) [OF assms(1,7) t]
      entry_is_digest [of fe md5 stat_text b t] by (auto simp: changed_def)
  then have "filter (needs_run fe md5 stat_text b [] written) (tests_of b (b_build_targets b)) =
    filter (\<lambda>t. t \<in> fst ` set failed \<or> (t_path t, t_name t) \<in> set (b_direct_targets b) \<or>
      truthy (get_data t ''always_run'' PyNone)) (tests_of b (b_build_targets b))"
    by (intro filter_cong) (auto simp: needs_run_def)
  then show ?thesis
    using tests_selection [OF assms(12,10,11,13)] assms(8,9) by simp
qed

section \<open>Examples\<close>

text \<open>A session with two tests and a library; the first run is a full one, in which one test fails.\<close>

definition sample_tests :: blade where
  "sample_tests =
     (let t = (\<lambda>ty n d. ((''app'', n), (sample_library n [])\<lparr>t_type := ty, t_data := d\<rparr>));
          db = [t ''cc_test'' ''a'' [(''testdata'', PyList [])], t ''cc_test'' ''b'' [(''testdata'', PyList [])],
                t ''cc_library'' ''l'' []]
      in blade_init [] ''/opt/blade'' ''/w'' ''build64_release'' ''/w'' [(''args'', PyList [])] ''test'' []
           \<lparr>c_file = [],
            c_configs = [(''cc_binary_config'', [(''run_lib_paths'', PyList [])]), (''java_config'', [(''java_home'', PyStr [])]),
              (''cc_test_config'', [(''pprof_path'', PyStr [])])], c_log = []\<rparr>
         \<lparr>b_target_database := db, b_build_targets := map fst db\<rparr>)"

definition sample_runner :: "string \<Rightarrow> stamp \<Rightarrow> test_runner" where
  "sample_runner reason old =
     \<lparr>n_last = old, n_stamp = empty_stamp, n_run_list = [], n_run_map = [], n_run_all_reason = reason, n_skipped = [],
      n_coverage = False\<rparr>"

definition sample_generated :: "string \<Rightarrow> stamp \<Rightarrow> test_runner" where
  "sample_generated reason old =
     (case generate_inctest_run_list sample_fs id id sample_tests (sample_runner reason old) of
        Inr n \<Rightarrow> n | _ \<Rightarrow> sample_runner reason old)"

definition sample_failed :: "(target \<times> int) list" where
  "sample_failed = [(snd (b_target_database sample_tests ! 0), 1)]"

definition sample_written :: stamp where
  "sample_written =
     (case tests_run_list sample_fs False (sample_generated ''STALE'' empty_stamp) sample_tests of
        Inr (jobs, n, st) \<Rightarrow>
          (case finish_run sample_fs 2 sample_failed n st of Inr (_, w, _) \<Rightarrow> w | _ \<Rightarrow> empty_stamp)
      | _ \<Rightarrow> empty_stamp)"

lemma sample_generated_run:
  assumes "is_ok (generate_inctest_run_list sample_fs id id sample_tests (sample_runner reason old))"
  shows "generate_inctest_run_list sample_fs id id sample_tests (sample_runner reason old) =
    Inr (sample_generated reason old)"
  using assms by (auto simp: sample_generated_def is_ok_def split: sum.splits)

lemma sample_generated_first:
  "generate_inctest_run_list sample_fs id id sample_tests (sample_runner ''STALE'' empty_stamp) =
    Inr (sample_generated ''STALE'' empty_stamp)"
  by (rule sample_generated_run) code_simp

lemma sample_runner_simps:
  "n_run_list (sample_runner reason old) = []" "n_skipped (sample_runner reason old) = []"
  "n_last (sample_runner reason old) = old" "n_run_all_reason (sample_runner reason old) = reason"
  by (simp_all add: sample_runner_def)

lemma is_ok_rbindE:
  assumes "is_ok (rbind m f)"
  obtains x where "m = Inr x" and "is_ok (f x)"
  using assms by (cases m) (auto simp: is_ok_def)

theorem tests_run_exactly_when_needed_witness:
  "\<exists>jobs n2 st. tests_run_list sample_fs False (sample_generated ''STALE'' empty_stamp) sample_tests = Inr (jobs, n2, st) \<and>
     map j_target jobs = tests_of sample_tests (b_build_targets sample_tests) \<and> n_skipped n2 = []"
proof -
  let ?r = "tests_run_list sample_fs False (sample_generated ''STALE'' empty_stamp) sample_tests"
  have "is_ok ?r" by code_simp
  then obtain jobs n2 ops b' where r: "?r = Inr (jobs, n2, ops, b')"
    by (cases ?r) (auto simp: is_ok_def)
  show ?thesis
    using tests_run_exactly_when_needed [OF sample_generated_first sample_runner_simps(1,2) r] r
    by (simp add: sample_runner_simps needs_run_def)
qed

theorem second_run_repeats_failed_tests_witness:
  "\<exists>jobs st. tests_run_list sample_fs False (sample_generated [] sample_written) sample_tests = Inr (jobs, st) \<and>
     map (t_name \<circ> j_target) jobs = [''a'']"
proof -
  let ?r = "tests_run_list sample_fs False (sample_generated ''STALE'' empty_stamp) sample_tests"
  let ?s = "tests_run_list sample_fs False (sample_generated [] sample_written) sample_tests"
  let ?f = "\<lambda>n st. finish_run sample_fs 2 sample_failed n st"
  have "is_ok (rbind ?r (\<lambda>(jobs, n, st). ?f n st))" by code_simp
  then obtain jobs n2 ops b2 where r: "?r = Inr (jobs, n2, ops, b2)"
    and ok: "is_ok (?f n2 (ops, b2))"
    by (rule is_ok_rbindE) (auto split: prod.splits)
  obtain status w lines ops' b3 where f: "?f n2 (ops, b2) = Inr (status, w, lines, ops', b3)"
    using ok by (cases "?f n2 (ops, b2)") (auto simp: is_ok_def)
  have w: "sample_written = w" by (simp add: sample_written_def r f)
  have g: "generate_inctest_run_list sample_fs id id sample_tests (sample_runner [] sample_written) =
    Inr (sample_generated [] sample_written)"
    by (rule sample_generated_run) code_simp
  have "is_ok ?s" by code_simp
  then obtain jobs' m2 ops2 b4 where s: "?s = Inr (jobs', m2, ops2, b4)"
    by (cases ?s) (auto simp: is_ok_def)
  have sub: "fst ` set sample_failed \<subseteq> set (tests_of sample_tests (b_build_targets sample_tests))" by code_simp
  have "distinct_programs sample_fs sample_tests" by code_simp
  note second = second_run_repeats_failed_tests [OF sample_generated_first sample_runner_simps(1,2) r f sub this]
  have "map j_target jobs' = filter (\<lambda>t. t \<in> fst ` set sample_failed \<or>
      (t_path t, t_name t) \<in> set (b_direct_targets sample_tests) \<or>
      truthy (get_data t ''always_run'' PyNone)) (tests_of sample_tests (b_build_targets sample_tests))"
    by (rule second [OF _ _ _ _ g s]) (simp_all only: sample_runner_simps w)
  moreover have "map t_name (filter (\<lambda>t. t \<in> fst ` set sample_failed \<or>
      (t_path t, t_name t) \<in> set (b_direct_targets sample_tests) \<or>
      truthy (get_data t ''always_run'' PyNone)) (tests_of sample_tests (b_build_targets sample_tests))) = [''a'']"
    by code_simp
  ultimately have "map (t_name \<circ> j_target) jobs' = [''a'']" by (metis map_map)
  then show ?thesis using s by (intro exI conjI)
qed

end
