(* ===== verification/Loose_Version.thy ===== *)
theory Loose_Version
  imports Target_Rules
begin

text \<open>
  \<open>distutils.version.LooseVersion\<close> of the Python 2 library, by which \<open>src/blade/java_targets.py\<close>
  compares the versions of Maven artifacts: a version is split into runs of digits, runs of
  lower-case letters, dots and the text in between; numbers are smaller than texts, and the
  component lists are compared lexicographically.
\<close>

section \<open>Components\<close>

datatype vcomp = VNum nat | VStr string

text \<open>Python 2 orders integers before strings.\<close>

instantiation vcomp :: linorder
begin

fun less_eq_vcomp :: "vcomp \<Rightarrow> vcomp \<Rightarrow> bool" where
  "less_eq_vcomp (VNum m) (VNum n) = (m \<le> n)"
| "less_eq_vcomp (VNum m) (VStr t) = True"
| "less_eq_vcomp (VStr s) (VNum n) = False"
| "less_eq_vcomp (VStr s) (VStr t) = (s \<le> t)"

definition less_vcomp :: "vcomp \<Rightarrow> vcomp \<Rightarrow> bool" where
  "less_vcomp a b = (a \<le> b \<and> \<not> b \<le> a)"

instance
proof
  fix a b c :: vcomp
  show "(a < b) = (a \<le> b \<and> \<not> b \<le> a)" by (simp add: less_vcomp_def)
  show "a \<le> a" by (cases a) simp_all
  show "a \<le> b \<Longrightarrow> b \<le> c \<Longrightarrow> a \<le> c" by (cases a; cases b; cases c) auto
  show "a \<le> b \<Longrightarrow> b \<le> a \<Longrightarrow> a = b" by (cases a; cases b) auto
  show "a \<le> b \<or> b \<le> a" by (cases a; cases b) auto
qed

end

datatype vclass = Digit | Lower | Dot | Other

definition vclass_of :: "char \<Rightarrow> vclass" where
  "vclass_of c =
     (if CHR ''0'' \<le> c \<and> c \<le> CHR ''9'' then Digit
      else if CHR ''a'' \<le> c \<and> c \<le> CHR ''z'' then Lower
      else if c = CHR ''.'' then Dot else Other)"

text \<open>
  The parts of \<open>component_re.split\<close> that are not empty: maximal runs of one class, except
  that every dot is a part of its own.
\<close>

function vparts :: "string \<Rightarrow> string list" where
  "vparts [] = []"
| "vparts (c # cs) =
     (if vclass_of c = Dot then [c] # vparts cs
      else (c # takeWhile (\<lambda>x. vclass_of x = vclass_of c) cs) # vparts (dropWhile (\<lambda>x. vclass_of x = vclass_of c) cs))"
  by pat_completeness auto
termination
  by (relation "measure length") (auto simp: le_imp_less_Suc length_dropWhile_le)

fun digits_value :: "nat \<Rightarrow> string \<Rightarrow> nat" where
  "digits_value n [] = n"
| "digits_value n (c # cs) = digits_value (10 * n + (of_char c - 48)) cs"

definition vcomp_of :: "string \<Rightarrow> vcomp" where
  "vcomp_of part = (if list_all (\<lambda>c. vclass_of c = Digit) part then VNum (digits_value 0 part) else VStr part)"

definition loose_version :: "string \<Rightarrow> vcomp list" where
  "loose_version s = map vcomp_of (filter (\<lambda>p. p \<noteq> ''.'') (vparts s))"

text \<open>\<open>LooseVersion(v) > LooseVersion(w)\<close>\<close>

definition version_greater :: "string \<Rightarrow> string \<Rightarrow> bool" where
  "version_greater v w = (loose_version w < loose_version v)"

lemma loose_version_examples:
  "version_greater ''1.10'' ''1.9''" "version_greater ''1.0-SNAPSHOT'' ''1.0''" "\<not> version_greater ''1.0'' ''1.00''"
  "loose_version ''1.5.2b2'' = [VNum 1, VNum 5, VNum 2, VStr ''b'', VNum 2]"
  by code_simp+

end
