(* ===== verification/Java_Deps.thy ===== *)
theory Java_Deps
  imports Loose_Version Maven
begin

text \<open>
  The dependencies of Java targets, \<open>JavaTargetMixIn\<close> of \<open>src/blade/java_targets.py\<close>: jars built by other
  targets, jars of the Maven repository, exported and provided dependencies, exclusions, and
  the resolution of version conflicts.

  Python sets are iterated in an order the language does not fix: \<open>so_str\<close> and \<open>so_key\<close> give
  the order of \<open>set(xs)\<close>. Jars are texts; a value of another type in an output table or in the data of a
  target raises \<open>TypeError\<close>.
\<close>

record set_order =
  so_str :: "string list \<Rightarrow> string list"
  so_key :: "key list \<Rightarrow> key list"

definition set_order_ok :: "set_order \<Rightarrow> bool" where
  "set_order_ok so \<longleftrightarrow>
     (\<forall>xs. distinct (so_str so xs) \<and> set (so_str so xs) = set xs) \<and>
     (\<forall>ks. distinct (so_key so ks) \<and> set (so_key so ks) = set ks)"

section \<open>Data of a target\<close>

definition py_key :: "key \<Rightarrow> pyval" where
  "py_key k = PyTuple [PyStr (fst k), PyStr (snd k)]"

fun key_of_py :: "pyval \<Rightarrow> key result" where
  "key_of_py (PyTuple [PyStr p, PyStr n]) = Inr (p, n)"
| "key_of_py _ = Inl TypeError"

text \<open>\<open>target.data.get(name, [])\<close>, a list of texts or of keys.\<close>

definition data_strs :: "target \<Rightarrow> string \<Rightarrow> string list result" where
  "data_strs t name = (case get_data t name (PyList []) of PyList vs \<Rightarrow> rmap as_str vs | _ \<Rightarrow> Inl TypeError)"

definition data_keys :: "target \<Rightarrow> string \<Rightarrow> key list result" where
  "data_keys t name = (case get_data t name (PyList []) of PyList vs \<Rightarrow> rmap key_of_py vs | _ \<Rightarrow> Inl TypeError)"

section \<open>Dependencies\<close>

definition add_hardcode_java_library :: "string list \<Rightarrow> target \<Rightarrow> blade \<Rightarrow> (target \<times> blade) result" where
  "add_hardcode_java_library deps t b = rfold init_target_dep deps (t, b)"

definition maven_dep_id :: "database \<Rightarrow> key \<Rightarrow> string list \<Rightarrow> string list result" where
  "maven_dep_id db dkey ids =
     rbind (dindex db dkey) (\<lambda>dep.
       if t_type dep = ''maven_jar'' then
         (case get_data dep ''id'' PyNone of
            PyStr s \<Rightarrow> Inr (if s \<noteq> [] then ids @ [s] else ids)
          | v \<Rightarrow> if truthy v then Inl TypeError else Inr ids)
       else Inr ids)"

definition get_maven_dep_ids :: "database \<Rightarrow> target \<Rightarrow> string list result" where
  "get_maven_dep_ids db t = rfold (maven_dep_id db) (t_deps t) []"

definition unify_one :: "target \<Rightarrow> string \<Rightarrow> key list \<times> blade \<Rightarrow> (key list \<times> blade) result" where
  "unify_one t dep st = (case st of (ks, b) \<Rightarrow> rbind (unify_dep t dep b) (\<lambda>(dkey, b). Inr (ks @ [dkey], b)))"

definition unify_deps :: "target \<Rightarrow> string list \<Rightarrow> blade \<Rightarrow> (key list \<times> blade) result" where
  "unify_deps t deps b = rfold (unify_one t) deps ([], b)"

section \<open>Exclusions\<close>

text \<open>The loop over the parts; the flag says that a wildcard has been seen.\<close>

fun wildcards_ok :: "bool \<Rightarrow> string list \<Rightarrow> bool" where
  "wildcards_ok wildcard [] = True"
| "wildcards_ok wildcard (part # parts) =
     (if wildcard \<and> part \<noteq> ''*'' then False else wildcards_ok (wildcard \<or> part = ''*'') parts)"

definition is_valid_maven_id_with_wildcards :: "string \<Rightarrow> bool" where
  "is_valid_maven_id_with_wildcards ident = wildcards_ok False (split_on (CHR '':'') ident)"

definition set_exclusion :: "string \<Rightarrow> string \<Rightarrow> string list \<times> blade \<Rightarrow> string list \<times> blade" where
  "set_exclusion fullname exclusion st =
     (case st of (exclusions, b) \<Rightarrow>
        if is_valid_id exclusion then
          if CHR ''*'' \<in> set exclusion \<and> \<not> is_valid_maven_id_with_wildcards exclusion
          then (exclusions, say (Warn (fullname @ '': Invalid maven id with wildcards '' @ exclusion @
                  ''. Ignored. The valid id could be: group:artifact:*, group:*:*, *:*:*'')) b)
          else (exclusions @ [exclusion], b)
        else (exclusions, say (Warn (fullname @ '': Exclusions only support maven id group:artifact:version. Ignore '' @
                exclusion)) b))"

definition set_pack_exclusions :: "pyval \<Rightarrow> target \<Rightarrow> blade \<Rightarrow> (target \<times> blade) result" where
  "set_pack_exclusions exclusions t b =
     rbind (rmap as_str (var_to_list exclusions)) (\<lambda>exclusions.
       let (kept, b) = fold (set_exclusion (t_fullname t)) exclusions ([], b)
       in Inr (set_data ''exclusions'' (PyList (map PyStr kept)) t, b))"

fun join_until_wildcard :: "string \<Rightarrow> string list \<Rightarrow> string" where
  "join_until_wildcard path [] = path"
| "join_until_wildcard path (part # parts) =
     (if part = ''*'' then path else join_until_wildcard (path_join path part) parts)"

definition exclusion_path :: "string \<Rightarrow> string result" where
  "exclusion_path exclusion =
     rbind (unpack3 (split_on (CHR '':'') exclusion)) (\<lambda>(grp, artifact, version).
       Inr (join_until_wildcard ''.m2/repository'' [replace_char (CHR ''.'') slash grp, artifact, version]))"

definition process_pack_exclusions :: "set_order \<Rightarrow> target \<Rightarrow> string list \<Rightarrow> string list result" where
  "process_pack_exclusions so t jars =
     rbind (data_strs t ''exclusions'') (\<lambda>exclusions.
       if exclusions \<noteq> [] then
         rbind (rmap exclusion_path exclusions) (\<lambda>paths.
           Inr (so_str so (filter (\<lambda>jar. \<not> (\<exists>p \<in> set paths. str_in p jar)) jars)))
       else Inr jars)"

section \<open>Jars of dependencies\<close>

text \<open>A failed \<open>assert\<close> is an exception.\<close>

definition extract_dep_jars ::
  "blade \<Rightarrow> key \<Rightarrow> string list \<times> string list \<Rightarrow> (string list \<times> string list) result" where
  "extract_dep_jars b dkey jars =
     (case jars of (dep_jars, maven_jars) \<Rightarrow>
        rbind (dindex (b_target_database b) dkey) (\<lambda>dep.
        rbind (config_value b ''global_config'' ''native_builder'') (\<lambda>native_builder.
        rbind (if native_builder = PyStr ''ninja'' then get_target_file dep ''jar'' else get_target_var dep ''jar'') (\<lambda>jar.
          if truthy jar then rbind (as_str jar) (\<lambda>s. Inr (dep_jars @ [s], maven_jars))
          else
            let jar = get_data dep ''binary_jar'' PyNone
            in if truthy jar then
                 if t_type dep = ''maven_jar'' then rbind (as_str jar) (\<lambda>s. Inr (dep_jars, maven_jars @ [s]))
                 else Inl (PyException ''AssertionError'')
               else Inr (dep_jars, maven_jars)))))"

definition java_get_deps :: "blade \<Rightarrow> key list \<Rightarrow> (string list \<times> string list) result" where
  "java_get_deps b deps = rfold (extract_dep_jars b) deps ([], [])"

text \<open>
  The queue loop of \<open>__get_exported_deps\<close>; \<open>keys\<close> are the targets seen.
\<close>

function exported_loop ::
  "blade \<Rightarrow> key list \<Rightarrow> key list \<Rightarrow> string list \<times> string list \<Rightarrow> (string list \<times> string list) result" where
  "exported_loop b [] keys jars = Inr jars"
| "exported_loop b (k # q) keys jars =
     (if k \<in> set keys then exported_loop b q keys jars
      else (case dget (b_target_database b) k of
              None \<Rightarrow> Inl KeyError
            | Some dep \<Rightarrow>
                rbind (data_keys dep ''exported_deps'') (\<lambda>exported_deps.
                rbind (rfold (extract_dep_jars b) exported_deps jars) (\<lambda>jars.
                  exported_loop b (q @ exported_deps) (k # keys) jars))))"
  by pat_completeness auto
termination
  by (relation "measures [\<lambda>(b, q, keys, jars). off_stack (b_target_database b) keys, \<lambda>(b, q, keys, jars). length q]")
     (auto intro: off_stack_Cons)

definition get_exported_deps :: "set_order \<Rightarrow> blade \<Rightarrow> key list \<Rightarrow> (string list \<times> string list) result" where
  "get_exported_deps so b deps =
     rbind (exported_loop b deps [] ([], [])) (\<lambda>(dep_jars, maven_jars). Inr (so_str so dep_jars, so_str so maven_jars))"

definition maven_transitive :: "database \<Rightarrow> key \<Rightarrow> string list \<Rightarrow> string list result" where
  "maven_transitive db k maven_jars =
     rbind (dindex db k) (\<lambda>dep.
       if t_type dep = ''maven_jar'' then rbind (data_strs dep ''maven_deps'') (\<lambda>deps. Inr (maven_jars @ deps))
       else Inr maven_jars)"

definition get_maven_transitive_deps :: "database \<Rightarrow> key list \<Rightarrow> string list result" where
  "get_maven_transitive_deps db deps = rfold (maven_transitive db) deps []"

section \<open>Version conflicts\<close>

abbreviation maven_repo :: string where "maven_repo \<equiv> ''.m2/repository/''"

text \<open>\<open>s[s.find(p) + len(p):]\<close>, the text behind the first occurrence.\<close>

fun text_after :: "string \<Rightarrow> string \<Rightarrow> string option" where
  "text_after p s =
     (if startswith s p then Some (drop (length p) s)
      else case s of [] \<Rightarrow> None | c # cs \<Rightarrow> text_after p cs)"

text \<open>Group, artifact and version of a jar in the local repository.\<close>

definition jar_coordinates :: "string \<Rightarrow> ((string \<times> string) \<times> string) option" where
  "jar_coordinates jar =
     (case text_after maven_repo jar of
        None \<Rightarrow> None
      | Some rest \<Rightarrow>
          let parts = split_on slash rest; n = length parts
          in if n < 4 then None
             else Some ((join_with ''.'' (take (n - 3) parts), parts ! (n - 3)), parts ! (n - 2)))"

definition maven_id :: "string \<times> string \<Rightarrow> string \<Rightarrow> string" where
  "maven_id ga version = join_with '':'' [fst ga, snd ga, version]"

text \<open>
  The loop body: the dictionary from group and artifact to the version in use and its jars, and
  the jars that lose. \<open>exists\<close> is \<open>os.path.exists\<close>.
\<close>

type_synonym jar_dict = "(string \<times> string, string \<times> string list) dict"

definition conflict_step ::
  "(string \<Rightarrow> bool) \<Rightarrow> string list \<Rightarrow> string \<Rightarrow> jar_dict \<times> string list \<Rightarrow> jar_dict \<times> string list" where
  "conflict_step exists_file ids dep_jar st =
     (case st of (d, conflicted) \<Rightarrow>
        if \<not> exists_file dep_jar then (d, conflicted)
        else
          case jar_coordinates dep_jar of
            None \<Rightarrow> (d, conflicted)
          | Some (k, version) \<Rightarrow>
              (case dget d k of
                 None \<Rightarrow> (dset k (version, [dep_jar]) d, conflicted)
               | Some (old_version, jars) \<Rightarrow>
                   if version = old_version then (dset k (old_version, jars @ [dep_jar]) d, conflicted)
                   else if maven_id k old_version \<in> set ids then (d, conflicted @ [dep_jar])
                   else if maven_id k version \<in> set ids \<or> version_greater version old_version
                   then (dset k (version, [dep_jar]) d, conflicted @ jars)
                   else (d, conflicted @ [dep_jar])))"

definition detect_maven_conflicted_deps ::
  "set_order \<Rightarrow> (string \<Rightarrow> bool) \<Rightarrow> blade \<Rightarrow> target \<Rightarrow> string list \<Rightarrow> string list result" where
  "detect_maven_conflicted_deps so exists_file b t dep_jars =
     rbind (get_maven_dep_ids (b_target_database b) t) (\<lambda>ids.
       let (_, conflicted) = fold (conflict_step exists_file ids) (so_str so dep_jars) ([], [])
       in Inr (sort (filter (\<lambda>j. j \<notin> set conflicted) (so_str so dep_jars))))"

section \<open>Compile, test and package dependencies\<close>

definition sorted_set :: "'a :: linorder list \<Rightarrow> 'a list" where
  "sorted_set xs = sort (remdups xs)"

definition get_compile_deps ::
  "set_order \<Rightarrow> (string \<Rightarrow> bool) \<Rightarrow> blade \<Rightarrow> target \<Rightarrow> (string list \<times> string list) result" where
  "get_compile_deps so exists_file b t =
     rbind (java_get_deps b (t_deps t)) (\<lambda>(dep_jars, maven_jars).
     rbind (get_exported_deps so b (t_deps t)) (\<lambda>(exported_dep_jars, exported_maven_jars).
     rbind (get_maven_transitive_deps (b_target_database b) (t_deps t)) (\<lambda>transitive.
     rbind (detect_maven_conflicted_deps so exists_file b t (maven_jars @ transitive @ exported_maven_jars)) (\<lambda>maven_jars.
       Inr (sorted_set (dep_jars @ exported_dep_jars), maven_jars)))))"

definition get_test_deps ::
  "set_order \<Rightarrow> (string \<Rightarrow> bool) \<Rightarrow> blade \<Rightarrow> target \<Rightarrow> (string list \<times> string list) result" where
  "get_test_deps so exists_file b t =
     rbind (java_get_deps b (t_expanded_deps t)) (\<lambda>(dep_jars, maven_jars).
     rbind (get_maven_transitive_deps (b_target_database b) (t_expanded_deps t)) (\<lambda>transitive.
     rbind (process_pack_exclusions so t (maven_jars @ transitive)) (\<lambda>maven_jars.
     rbind (detect_maven_conflicted_deps so exists_file b t maven_jars) (\<lambda>maven_jars.
       Inr (sorted_set dep_jars, maven_jars)))))"

text \<open>
  \<open>_get_pack_deps\<close> and the virtual method \<open>_get_java_pack_deps\<close> call each other; the first
  argument bounds the depth of the recursion, as Python's stack does.
\<close>

fun packs_deps :: "tclass \<Rightarrow> bool" where
  "packs_deps JavaLibraryC = True"
| "packs_deps JavaBinaryC = True"
| "packs_deps JavaFatLibraryC = True"
| "packs_deps JavaTestC = True"
| "packs_deps ScalaLibraryC = True"
| "packs_deps ScalaFatLibraryC = True"
| "packs_deps ScalaTestC = True"
| "packs_deps ProtoLibraryC = True"
| "packs_deps _ = False"

fun get_pack_deps :: "nat \<Rightarrow> set_order \<Rightarrow> blade \<Rightarrow> target \<Rightarrow> (string list \<times> string list) result" where
  "get_pack_deps 0 so b t = Inl (PyException ''RuntimeError'')"
| "get_pack_deps (Suc n) so b t =
     rbind (data_keys t ''provided_deps'') (\<lambda>provided.
       let deps = filter (\<lambda>k. k \<notin> set provided) (so_key so (t_deps t))
       in rbind (java_get_deps b deps) (\<lambda>jars.
          rbind (rfold (\<lambda>k (dep_jars, maven_jars).
              rbind (dindex (b_target_database b) k) (\<lambda>dep.
              rbind (if packs_deps (t_class dep) then get_pack_deps n so b dep
                     else if t_class dep = MavenJarC
                     then rbind (data_strs dep ''maven_deps'') (\<lambda>deps. Inr ([], deps))
                     else Inr ([], [])) (\<lambda>(pack_dep_jars, pack_maven_jars).
                Inr (dep_jars @ pack_dep_jars, maven_jars @ pack_maven_jars)))) deps jars) (\<lambda>(dep_jars, maven_jars).
          rbind (process_pack_exclusions so t (remdups maven_jars)) (\<lambda>maven_jars.
            Inr (sorted_set dep_jars, sort maven_jars)))))"

end
