(* ===== verification/Java_Facts.thy ===== *)
theory Java_Facts
  imports Java_Deps Target_Facts Dep_Analysis
begin

text \<open>
  Properties of the Java dependencies: conflicting versions of a Maven artifact are resolved
  to one version, whatever the iteration order of the set of jars is, and the exported jars
  are those of the targets reachable over exported dependencies.
\<close>

section \<open>Conflict resolution\<close>

text \<open>Group, artifact and version of a jar that is in the local repository.\<close>

definition located :: "(string \<Rightarrow> bool) \<Rightarrow> string \<Rightarrow> ((string \<times> string) \<times> string) option" where
  "located exists_file j = (if exists_file j then jar_coordinates j else None)"

text \<open>
  The version that is to be used among the jars \<open>S\<close> of one group and artifact: a direct
  dependency if there is one, otherwise a highest one.
\<close>

definition best :: "(string \<Rightarrow> bool) \<Rightarrow> string list \<Rightarrow> string set \<Rightarrow> string \<times> string \<Rightarrow> string \<Rightarrow> bool" where
  "best exists_file ids S k v \<longleftrightarrow>
     (\<exists>j \<in> S. located exists_file j = Some (k, v)) \<and>
     ((\<exists>j \<in> S. \<exists>w. located exists_file j = Some (k, w) \<and> maven_id k w \<in> set ids) \<longrightarrow> maven_id k v \<in> set ids) \<and>
     ((\<forall>j \<in> S. \<forall>w. located exists_file j = Some (k, w) \<longrightarrow> maven_id k w \<notin> set ids) \<longrightarrow>
        (\<forall>j \<in> S. \<forall>w. located exists_file j = Some (k, w) \<longrightarrow> loose_version w \<le> loose_version v))"

text \<open>The entry of a group and artifact in the dictionary of the loop.\<close>

definition entry_ok :: "(string \<Rightarrow> bool) \<Rightarrow> string list \<Rightarrow> string set \<Rightarrow> string \<times> string \<Rightarrow> (string \<times> string list) option \<Rightarrow> bool" where
  "entry_ok exists_file ids S k e =
     (case e of
        None \<Rightarrow> \<forall>j \<in> S. \<forall>w. located exists_file j \<noteq> Some (k, w)
      | Some (v, J) \<Rightarrow> set J = {j \<in> S. located exists_file j = Some (k, v)} \<and> best exists_file ids S k v)"

definition losers :: "(string \<Rightarrow> bool) \<Rightarrow> string set \<Rightarrow> jar_dict \<Rightarrow> string set" where
  "losers exists_file S d =
     {j \<in> S. \<exists>k w. located exists_file j = Some (k, w) \<and> map_option fst (dget d k) \<noteq> Some w}"

definition conflict_inv :: "(string \<Rightarrow> bool) \<Rightarrow> string list \<Rightarrow> string set \<Rightarrow> jar_dict \<times> string list \<Rightarrow> bool" where
  "conflict_inv exists_file ids S st =
     ((\<forall>k. entry_ok exists_file ids S k (dget (fst st) k)) \<and> set (snd st) = losers exists_file S (fst st))"

lemma entry_ok_other:
  assumes "entry_ok ex ids S k e" and "\<And>w. located ex j \<noteq> Some (k, w)"
  shows "entry_ok ex ids (insert j S) k e"
  using assms by (auto simp: entry_ok_def best_def split: option.splits)

lemma conflict_inv_None:
  assumes "conflict_inv ex ids S (d, C)" and "located ex j = None"
  shows "conflict_inv ex ids (insert j S) (d, C)"
  using assms entry_ok_other [of ex ids S _ _ j] by (auto simp: conflict_inv_def losers_def)

lemma version_not_greater: "\<not> version_greater v w \<Longrightarrow> loose_version v \<le> loose_version w"
  by (simp add: version_greater_def not_less)

lemma entry_new:
  assumes "entry_ok ex ids S k None" and "located ex j = Some (k, v)"
  shows "entry_ok ex ids (insert j S) k (Some (v, [j]))"
  using assms by (auto simp: entry_ok_def best_def)

lemma entry_same:
  assumes "entry_ok ex ids S k (Some (v, J))" and "located ex j = Some (k, v)"
  shows "entry_ok ex ids (insert j S) k (Some (v, J @ [j]))"
  using assms by (auto simp: entry_ok_def best_def)

lemma entry_keep:
  assumes "entry_ok ex ids S k (Some (v, J))" and "located ex j = Some (k, w)" and "w \<noteq> v"
    and "maven_id k v \<in> set ids \<or> \<not> (maven_id k w \<in> set ids \<or> version_greater w v)"
  shows "entry_ok ex ids (insert j S) k (Some (v, J))"
proof -
  have b: "best ex ids S k v" using assms(1) by (simp add: entry_ok_def)
  have "best ex ids (insert j S) k v"
  proof (cases "maven_id k v \<in> set ids")
    case True
    then show ?thesis using b by (auto simp: best_def)
  next
    case False
    then have "maven_id k w \<notin> set ids" "loose_version w \<le> loose_version v"
      using assms(4) version_not_greater [of w v] by simp_all
    then show ?thesis using b assms(2) by (auto simp: best_def)
  qed
  then show ?thesis using assms(1-3) by (auto simp: entry_ok_def)
qed

lemma entry_replace:
  assumes "entry_ok ex ids S k (Some (v, J))" and "located ex j = Some (k, w)"
    and "maven_id k v \<notin> set ids" and "maven_id k w \<in> set ids \<or> version_greater w v"
  shows "entry_ok ex ids (insert j S) k (Some (w, [j]))" and "\<And>i. i \<in> S \<Longrightarrow> located ex i \<noteq> Some (k, w)"
proof -
  have no: "maven_id k u \<notin> set ids" if "i \<in> S" "located ex i = Some (k, u)" for i u
    using assms(1,3) that by (auto simp: entry_ok_def best_def)
  then have le: "loose_version u \<le> loose_version v" if "i \<in> S" "located ex i = Some (k, u)" for i u
    using assms(1) that by (auto simp: entry_ok_def best_def)
  show fresh: "located ex i \<noteq> Some (k, w)" if "i \<in> S" for i
    using no [OF that, of w] le [OF that, of w] assms(4) by (auto simp: version_greater_def)
  have "best ex ids (insert j S) k w"
    using assms(2,4) no order_trans [OF le less_imp_le [of "loose_version v" "loose_version w"]]
    by (auto simp: best_def version_greater_def)
  then show "entry_ok ex ids (insert j S) k (Some (w, [j]))"
    using assms(2) fresh by (auto simp: entry_ok_def)
qed

text \<open>Replacing the entry of one group and artifact.\<close>

lemma conflict_inv_update:
  assumes "conflict_inv ex ids S (d, C)" and "located ex j = Some (k, w)"
    and "entry_ok ex ids (insert j S) k (Some (u, J'))"
    and "set C' = {i \<in> losers ex S d. \<forall>x. located ex i \<noteq> Some (k, x)} \<union>
           {i \<in> insert j S. \<exists>x. located ex i = Some (k, x) \<and> x \<noteq> u}"
  shows "conflict_inv ex ids (insert j S) (dset k (u, J') d, C')"
proof -
  have "entry_ok ex ids (insert j S) k' (dget (dset k (u, J') d) k')" for k'
    using assms(1,2,3) entry_ok_other [of ex ids S k' "dget d k'" j] by (auto simp: conflict_inv_def)
  moreover have "set C' = losers ex (insert j S) (dset k (u, J') d)"
    using assms(2,4) by (auto simp: losers_def split: if_splits)
  ultimately show ?thesis by (simp add: conflict_inv_def)
qed

text \<open>A jar that loses against the entry in use.\<close>

lemma conflict_inv_lose:
  assumes "conflict_inv ex ids S (d, C)" and "located ex j = Some (k, w)" and "dget d k = Some (v, J)" and "w \<noteq> v"
    and "entry_ok ex ids (insert j S) k (Some (v, J))"
  shows "conflict_inv ex ids (insert j S) (d, C @ [j])"
proof -
  have "entry_ok ex ids (insert j S) k' (dget d k')" for k'
    using assms entry_ok_other [of ex ids S k' "dget d k'" j] by (cases "k' = k") (auto simp: conflict_inv_def)
  moreover have "set (C @ [j]) = losers ex (insert j S) d"
    using assms by (auto simp: conflict_inv_def losers_def)
  ultimately show ?thesis by (simp add: conflict_inv_def)
qed

lemma conflict_step_inv:
  assumes inv: "conflict_inv ex ids S (d, C)" and "j \<notin> S"
  shows "conflict_inv ex ids (insert j S) (conflict_step ex ids j (d, C))"
proof (cases "located ex j")
  case None
  then show ?thesis
    using conflict_inv_None [OF inv None] by (auto simp: conflict_step_def located_def split: if_splits)
next
  case (Some kw)
  obtain k w where kw: "kw = (k, w)" by (cases kw)
  have ex: "ex j" "jar_coordinates j = Some (k, w)"
    using Some kw by (auto simp: located_def split: if_splits)
  have loc: "located ex j = Some (k, w)" using Some kw by simp
  have e: "entry_ok ex ids S k (dget d k)" and C: "set C = losers ex S d"
    using inv by (simp_all add: conflict_inv_def)
  show ?thesis
  proof (cases "dget d k")
    case None
    have "conflict_inv ex ids (insert j S) (dset k (w, [j]) d, C)"
      by (rule conflict_inv_update [OF inv loc entry_new [OF _ loc]])
        (use e None C loc in \<open>auto simp: entry_ok_def losers_def\<close>)
    then show ?thesis using ex None by (simp add: conflict_step_def)
  next
    case (Some vJ)
    obtain v J where vJ: "vJ = (v, J)" by (cases vJ)
    have d: "dget d k = Some (v, J)" and ev: "entry_ok ex ids S k (Some (v, J))"
      using Some vJ e by simp_all
    have J: "set J = {i \<in> S. located ex i = Some (k, v)}" using ev by (simp add: entry_ok_def)
    consider (same) "w = v" | (lose) "w \<noteq> v" "maven_id k v \<in> set ids \<or> \<not> (maven_id k w \<in> set ids \<or> version_greater w v)"
      | (win) "w \<noteq> v" "maven_id k v \<notin> set ids" "maven_id k w \<in> set ids \<or> version_greater w v"
      by blast
    then show ?thesis
    proof cases
      case same
      have "conflict_inv ex ids (insert j S) (dset k (v, J @ [j]) d, C)"
        by (rule conflict_inv_update [OF inv loc entry_same [OF ev]])
          (use loc same C d in \<open>auto simp: losers_def\<close>)
      then show ?thesis using ex d same by (simp add: conflict_step_def)
    next
      case lose
      have "conflict_inv ex ids (insert j S) (d, C @ [j])"
        by (rule conflict_inv_lose [OF inv loc d lose(1) entry_keep [OF ev loc lose]])
      moreover have "conflict_step ex ids j (d, C) = (d, C @ [j])"
        using ex d lose by (auto simp: conflict_step_def)
      ultimately show ?thesis by simp
    next
      case win
      note r = entry_replace [OF ev loc win(2,3)]
      have "conflict_inv ex ids (insert j S) (dset k (w, [j]) d, C @ J)"
        by (rule conflict_inv_update [OF inv loc r(1)])
          (use loc C d J r(2) in \<open>auto simp: losers_def\<close>)
      moreover have "conflict_step ex ids j (d, C) = (dset k (w, [j]) d, C @ J)"
        using ex d win by (auto simp: conflict_step_def)
      ultimately show ?thesis by simp
    qed
  qed
qed

lemma conflict_loop_inv:
  assumes "conflict_inv ex ids S st" and "distinct js" and "set js \<inter> S = {}"
  shows "conflict_inv ex ids (S \<union> set js) (fold (conflict_step ex ids) js st)"
  using assms
proof (induction js arbitrary: S st)
  case (Cons j js)
  obtain d C where st: "st = (d, C)" by force
  have "conflict_inv ex ids (insert j S) (conflict_step ex ids j st)"
    using conflict_step_inv Cons.prems st by simp
  from Cons.IH [OF this] show ?case using Cons.prems by simp
qed simp

text \<open>
  C22. Conflicts between versions of a Maven artifact are resolved as the method promises, for
  every iteration order of the set of jars: for each group and artifact among the jars found
  in the local repository there is one version \<open>v\<close> in use, a jar of that artifact stays
  exactly when it has that version, \<open>v\<close> is a direct dependency of the target if one of the
  versions is, and otherwise no version is higher. All other jars stay, and the result is a
  sorted list without duplicates.
\<close>

theorem maven_conflicts_resolved:
  assumes "set_order_ok so" and "get_maven_dep_ids (b_target_database b) t = Inr ids"
  shows "\<exists>R. detect_maven_conflicted_deps so ex b t jars = Inr R \<and> sorted R \<and> distinct R \<and> set R \<subseteq> set jars \<and>
    (\<forall>j \<in> set jars. located ex j = None \<longrightarrow> j \<in> set R) \<and>
    (\<forall>k. (\<exists>j \<in> set jars. \<exists>w. located ex j = Some (k, w)) \<longrightarrow>
      (\<exists>v. best ex ids (set jars) k v \<and>
         (\<forall>j \<in> set jars. \<forall>w. located ex j = Some (k, w) \<longrightarrow> (j \<in> set R \<longleftrightarrow> w = v))))"
proof -
  have so: "distinct (so_str so jars)" "set (so_str so jars) = set jars"
    using assms(1) by (simp_all add: set_order_ok_def)
  obtain d C where f: "fold (conflict_step ex ids) (so_str so jars) ([], []) = (d, C)" by force
  have "conflict_inv ex ids {} ([], [])"
    by (simp add: conflict_inv_def entry_ok_def losers_def)
  from conflict_loop_inv [OF this so(1)] have "conflict_inv ex ids (set jars) (d, C)"
    using so f by simp
  then have e: "entry_ok ex ids (set jars) k (dget d k)" and C: "set C = losers ex (set jars) d" for k
    by (simp_all add: conflict_inv_def)
  define R where "R = sort (filter (\<lambda>j. j \<notin> set C) (so_str so jars))"
  have R: "j \<in> set R \<longleftrightarrow> j \<in> set jars \<and> j \<notin> losers ex (set jars) d" for j
    by (auto simp: R_def so C)
  have "\<exists>v. best ex ids (set jars) k v \<and>
      (\<forall>j \<in> set jars. \<forall>w. located ex j = Some (k, w) \<longrightarrow> (j \<in> set R \<longleftrightarrow> w = v))"
    if some: "\<exists>j \<in> set jars. \<exists>w. located ex j = Some (k, w)" for k
  proof -
    obtain v J where "dget d k = Some (v, J)"
      using e [of k] some by (cases "dget d k") (auto simp: entry_ok_def)
    then have "best ex ids (set jars) k v \<and>
        (\<forall>j \<in> set jars. \<forall>w. located ex j = Some (k, w) \<longrightarrow> (j \<in> set R \<longleftrightarrow> w = v))"
      using e [of k] by (auto simp: entry_ok_def R losers_def)
    then show ?thesis by blast
  qed
  moreover have "detect_maven_conflicted_deps so ex b t jars = Inr R"
    using f assms(2) by (simp add: detect_maven_conflicted_deps_def R_def)
  moreover have "sorted R" "distinct R" by (simp_all add: R_def so(1))
  moreover have "set R \<subseteq> set jars" using R by auto
  moreover have "\<forall>j \<in> set jars. located ex j = None \<longrightarrow> j \<in> set R" using R by (auto simp: losers_def)
  ultimately show ?thesis by blast
qed

section \<open>Exported dependencies\<close>

text \<open>The jars a target contributes, tagged with where they come from.\<close>

definition jars_of :: "blade \<Rightarrow> key \<Rightarrow> (string + string) set" where
  "jars_of b k = (case extract_dep_jars b k ([], []) of Inr (ds, ms) \<Rightarrow> Inl ` set ds \<union> Inr ` set ms | Inl _ \<Rightarrow> {})"

definition tagged :: "string list \<times> string list \<Rightarrow> (string + string) set" where
  "tagged jars = Inl ` set (fst jars) \<union> Inr ` set (snd jars)"

text \<open>The exported dependencies as a relation on keys.\<close>

definition exports :: "blade \<Rightarrow> (key \<times> key) set" where
  "exports b = {(k, e). \<exists>dep es. dget (b_target_database b) k = Some dep \<and> data_keys dep ''exported_deps'' = Inr es \<and> e \<in> set es}"

lemma extract_dep_jars_tagged:
  assumes "extract_dep_jars b k jars = Inr jars'"
  shows "tagged jars' = tagged jars \<union> jars_of b k"
  using assms
  by (cases jars)
    (auto simp: extract_dep_jars_def jars_of_def tagged_def Let_def rbind_eq_Inr split: if_splits)

lemma extract_all_tagged:
  "rfold (extract_dep_jars b) es jars = Inr jars' \<Longrightarrow> tagged jars' = tagged jars \<union> (\<Union>e \<in> set es. jars_of b e)"
proof (induction es arbitrary: jars)
  case (Cons e es)
  then obtain u where "extract_dep_jars b e jars = Inr u" "rfold (extract_dep_jars b) es u = Inr jars'"
    by (auto simp: rbind_eq_Inr)
  then show ?case using Cons.IH [of u] extract_dep_jars_tagged by auto
qed simp

text \<open>What a finished loop has visited: a set closed under the relation.\<close>

definition visited :: "blade \<Rightarrow> key set \<Rightarrow> key list \<Rightarrow> string list \<times> string list \<Rightarrow> string list \<times> string list \<Rightarrow> key set \<Rightarrow> bool" where
  "visited b K q jars jars' V \<longleftrightarrow>
     K \<union> set q \<subseteq> V \<and> exports b `` V \<subseteq> V \<and> V \<subseteq> K \<union> (exports b)\<^sup>* `` set q \<and>
     tagged jars' = tagged jars \<union> (\<Union>k \<in> V - K. \<Union>e \<in> exports b `` {k}. jars_of b e)"

lemma exported_loop_visited:
  "exported_loop b q keys jars = Inr jars' \<Longrightarrow> exports b `` set keys \<subseteq> set keys \<union> set q \<Longrightarrow>
   \<exists>V. visited b (set keys) q jars jars' V"
proof (induction b q keys jars rule: exported_loop.induct)
  case (1 b keys jars)
  then have "visited b (set keys) [] jars jars' (set keys)" by (auto simp: visited_def)
  then show ?case by blast
next
  case (2 b k q keys jars)
  show ?case
  proof (cases "k \<in> set keys")
    case True
    then obtain V where "visited b (set keys) q jars jars' V"
      using 2 by auto
    then have "visited b (set keys) (k # q) jars jars' V"
      using True by (auto simp: visited_def)
    then show ?thesis by blast
  next
    case False
    then obtain dep es u where dep: "dget (b_target_database b) k = Some dep"
      and es: "data_keys dep ''exported_deps'' = Inr es" and u: "rfold (extract_dep_jars b) es jars = Inr u"
      and r: "exported_loop b (q @ es) (k # keys) u = Inr jars'"
      using 2(3) by (auto simp: rbind_eq_Inr split: option.splits)
    have k: "exports b `` {k} = set es" using dep es by (auto simp: exports_def)
    have c: "exports b `` set (k # keys) \<subseteq> set (k # keys) \<union> set (q @ es)"
      using 2(4) k by (auto simp: Image_def)
    obtain V where V: "visited b (set (k # keys)) (q @ es) u jars' V"
      using 2(2) [OF False dep es u r c] by blast
    have "V \<subseteq> set keys \<union> (exports b)\<^sup>* `` set (k # q)"
    proof
      fix x assume "x \<in> V"
      then have "x \<in> insert k (set keys \<union> (exports b)\<^sup>* `` (set q \<union> exports b `` {k}))"
        using V unfolding k by (auto simp: visited_def)
      then consider "x \<in> set keys" | "x = k" | y where "y \<in> set q" "(y, x) \<in> (exports b)\<^sup>*"
        | y where "(k, y) \<in> exports b" "(y, x) \<in> (exports b)\<^sup>*"
        by blast
      then show "x \<in> set keys \<union> (exports b)\<^sup>* `` set (k # q)"
        by cases (auto intro: converse_rtrancl_into_rtrancl)
    qed
    moreover have "V - set keys = insert k (V - set (k # keys))"
      using V False by (auto simp: visited_def)
    ultimately have "visited b (set keys) (k # q) jars jars' V"
      using V extract_all_tagged [OF u] k by (auto simp: visited_def)
    then show ?thesis by blast
  qed
qed

text \<open>
  C23. The exported jars of a target's dependencies: the queue loop ends (the function is
  total) and collects exactly the jars of the targets that are reached from the given
  dependencies over one or more exported dependencies, however the exports are shared or form cycles.
\<close>

theorem exported_deps_closure:
  assumes "set_order_ok so" and "get_exported_deps so b deps = Inr jars"
  shows "tagged jars = (\<Union>e \<in> (exports b)\<^sup>+ `` set deps. jars_of b e)"
proof -
  obtain js where js: "exported_loop b deps [] ([], []) = Inr js"
    and j: "jars = (so_str so (fst js), so_str so (snd js))"
    using assms(2) by (auto simp: get_exported_deps_def rbind_eq_Inr)
  obtain V where V: "visited b {} deps ([], []) js V"
    using exported_loop_visited [OF js] by auto
  have "(exports b)\<^sup>* `` set deps \<subseteq> V"
    using V Image_closed_trancl [of "exports b" V] by (auto simp: visited_def)
  then have "V = (exports b)\<^sup>* `` set deps"
    using V by (auto simp: visited_def)
  then have "tagged js = (\<Union>k \<in> (exports b)\<^sup>* `` set deps. \<Union>e \<in> exports b `` {k}. jars_of b e)"
    using V by (simp add: visited_def tagged_def)
  also have "\<dots> = (\<Union>e \<in> (exports b)\<^sup>+ `` set deps. jars_of b e)"
    by (auto simp: trancl_unfold_right)
  finally show ?thesis
    using assms(1) by (simp add: j tagged_def set_order_ok_def)
qed

section \<open>Examples\<close>

definition sample_order :: set_order where
  "sample_order = \<lparr>so_str = remdups, so_key = remdups\<rparr>"

lemma sample_order_ok: "set_order_ok sample_order"
  by (simp add: set_order_ok_def sample_order_def)

text \<open>A Java library that exports a second one, which exports a Maven artifact and the first one.\<close>

definition sample_java :: blade where
  "sample_java =
     (let t = (\<lambda>n c ty data. ((''j'', n),
            (sample_target c ty (''j'', n) [])\<lparr>t_data := data @ [(''targets'', PyDict []), (''default_target'', PyStr [])]\<rparr>));
          jar = (\<lambda>p. [(''binary_jar'', PyStr (''/h/.m2/repository/'' @ p))]);
          db = [t ''a'' JavaLibraryC ''java_library'' [(''exported_deps'', PyList [py_key (''j'', ''b'')])],
                t ''b'' JavaLibraryC ''java_library'' [(''exported_deps'', PyList [py_key (''j'', ''m''), py_key (''j'', ''a'')])],
                t ''m'' MavenJarC ''maven_jar'' ((''id'', PyStr ''g:m:1.0'') # jar ''g/m/1.0/m-1.0.jar'')]
      in sample_blade\<lparr>b_target_database := db\<rparr>)"

definition sample_jars :: "string list" where
  "sample_jars = map (\<lambda>p. ''/h/.m2/repository/'' @ p)
     [''g/m/1.9/m-1.9.jar'', ''g/m/1.10/m-1.10.jar'', ''g/m/1.10/m-1.10-sources.jar'', ''g/n/2/n-2.jar'']"

theorem maven_conflicts_resolved_witness:
  "detect_maven_conflicted_deps sample_order (\<lambda>_. True) sample_java (sample_library ''x'' []) sample_jars =
     Inr (map (\<lambda>p. ''/h/.m2/repository/'' @ p) [''g/m/1.10/m-1.10-sources.jar'', ''g/m/1.10/m-1.10.jar'', ''g/n/2/n-2.jar'']) \<and>
   (\<exists>R. detect_maven_conflicted_deps sample_order (\<lambda>_. True) sample_java (sample_library ''x'' []) sample_jars = Inr R \<and>
     sorted R \<and> distinct R)"
proof
  show "detect_maven_conflicted_deps sample_order (\<lambda>_. True) sample_java (sample_library ''x'' []) sample_jars =
     Inr (map (\<lambda>p. ''/h/.m2/repository/'' @ p) [''g/m/1.10/m-1.10-sources.jar'', ''g/m/1.10/m-1.10.jar'', ''g/n/2/n-2.jar''])"
    by code_simp
  have "get_maven_dep_ids (b_target_database sample_java) (sample_library ''x'' []) = Inr []" by code_simp
  from maven_conflicts_resolved [OF sample_order_ok this, of "\<lambda>_. True" sample_jars]
  show "\<exists>R. detect_maven_conflicted_deps sample_order (\<lambda>_. True) sample_java (sample_library ''x'' []) sample_jars = Inr R \<and>
     sorted R \<and> distinct R" by blast
qed

theorem exported_deps_closure_witness:
  "get_exported_deps sample_order sample_java [(''j'', ''a'')] = Inr ([], [''/h/.m2/repository/g/m/1.0/m-1.0.jar'']) \<and>
   tagged ([], [''/h/.m2/repository/g/m/1.0/m-1.0.jar'']) =
     (\<Union>e \<in> (exports sample_java)\<^sup>+ `` {(''j'', ''a'')}. jars_of sample_java e)"
proof
  show r: "get_exported_deps sample_order sample_java [(''j'', ''a'')] = Inr ([], [''/h/.m2/repository/g/m/1.0/m-1.0.jar''])"
    by code_simp
  show "tagged ([], [''/h/.m2/repository/g/m/1.0/m-1.0.jar'']) =
     (\<Union>e \<in> (exports sample_java)\<^sup>+ `` {(''j'', ''a'')}. jars_of sample_java e)"
    using exported_deps_closure [OF sample_order_ok r] by simp
qed

section \<open>Exclusions\<close>

lemma path_join_plain:
  "a \<noteq> [] \<Longrightarrow> last a \<noteq> slash \<Longrightarrow> b \<noteq> [] \<Longrightarrow> hd b \<noteq> slash \<Longrightarrow> path_join a b = a @ ''/'' @ b"
  by (cases b) (auto simp: path_join_def startswith_iff endswith_iff)

text \<open>A part of a Maven identifier: not empty, no separator, not the wildcard.\<close>

definition id_part :: "string \<Rightarrow> bool" where
  "id_part p = (p \<noteq> [] \<and> CHR '':'' \<notin> set p \<and> CHR ''*'' \<notin> set p \<and> slash \<notin> set p)"

lemma id_part_ends:
  assumes "id_part p"
  shows "p \<noteq> []" and "hd p \<noteq> slash" and "last p \<noteq> slash"
  using assms by (auto simp: id_part_def dest: hd_in_set last_in_set)

lemma exclusion_path_artifact:
  assumes "id_part grp" and "id_part artifact" and "CHR ''.'' \<notin> set grp"
  shows "exclusion_path (grp @ '':'' @ artifact @ '':*'') = Inr (''.m2/repository/'' @ grp @ ''/'' @ artifact)"
proof -
  have dot: "replace_char (CHR ''.'') slash grp = grp"
    using assms(3) unfolding replace_char_def by (intro map_idI) auto
  have "split_on (CHR '':'') (grp @ CHR '':'' # artifact @ CHR '':'' # ''*'') = [grp, artifact, ''*'']"
    using assms by (simp add: split_on_append_sep id_part_def)
  moreover have star: "grp \<noteq> ''*''" "artifact \<noteq> ''*''" using assms by (auto simp: id_part_def)
  moreover have "path_join ''.m2/repository'' grp = ''.m2/repository/'' @ grp"
    using path_join_plain [of "''.m2/repository''" grp] id_part_ends [OF assms(1)] by simp
  moreover have "path_join (''.m2/repository/'' @ grp) artifact = ''.m2/repository/'' @ grp @ ''/'' @ artifact"
    using path_join_plain [of "''.m2/repository/'' @ grp" artifact] id_part_ends [OF assms(1)] id_part_ends [OF assms(2)]
    by simp
  ultimately show ?thesis by (simp add: exclusion_path_def unpack3_def dot)
qed

text \<open>
  An exclusion removes too much: it is matched as a substring of the path of a jar, without
  the separator behind the last part. Excluding all versions of an artifact therefore
  also removes every jar of the group whose artifact only begins with that name, for instance \<open>netty\<close> when
  \<open>net\<close> is excluded.
\<close>

theorem exclusion_removes_longer_names:
  assumes "set_order_ok so" and "data_strs t ''exclusions'' = Inr [grp @ '':'' @ artifact @ '':*'']"
    and "id_part grp" and "id_part artifact" and "CHR ''.'' \<notin> set grp"
    and "process_pack_exclusions so t jars = Inr kept"
  shows "repo @ ''/.m2/repository/'' @ grp @ ''/'' @ artifact @ longer \<notin> set kept"
proof -
  let ?p = "''.m2/repository/'' @ grp @ ''/'' @ artifact"
  have e: "exclusion_path (grp @ '':'' @ artifact @ '':*'') = Inr ?p"
    by (rule exclusion_path_artifact [OF assms(3-5)])
  have "rmap exclusion_path [grp @ '':'' @ artifact @ '':*''] = Inr [?p]"
    unfolding rmap.simps e by (simp only: rbind_Inr)
  then have "kept = so_str so (filter (\<lambda>jar. \<not> (\<exists>q \<in> set [?p]. str_in q jar)) jars)"
    using assms(6) unfolding process_pack_exclusions_def assms(2) by (simp only: rbind_Inr) simp
  then have "\<not> str_in ?p j" if "j \<in> set kept" for j
    using that assms(1) by (simp add: set_order_ok_def)
  moreover have "str_in ?p (repo @ ''/.m2/repository/'' @ grp @ ''/'' @ artifact @ longer)"
    unfolding str_in_iff by (rule exI [of _ "repo @ ''/''"], rule exI [of _ longer]) simp
  ultimately show ?thesis by blast
qed

theorem exclusion_removes_longer_names_witness:
  "''/h'' @ ''/.m2/repository/'' @ ''g'' @ ''/'' @ ''net'' @ ''ty/4.0/netty-4.0.jar'' \<notin>
     set (case process_pack_exclusions sample_order
            (set_data ''exclusions'' (PyList [PyStr ''g:net:*'']) (sample_library ''x'' []))
            [''/h/.m2/repository/g/netty/4.0/netty-4.0.jar''] of Inr kept \<Rightarrow> kept | Inl _ \<Rightarrow> [])"
proof -
  let ?t = "set_data ''exclusions'' (PyList [PyStr ''g:net:*'']) (sample_library ''x'' [])"
  let ?r = "process_pack_exclusions sample_order ?t [''/h/.m2/repository/g/netty/4.0/netty-4.0.jar'']"
  have "is_ok ?r" by code_simp
  then obtain kept where k: "?r = Inr kept" by (cases ?r) (auto simp: is_ok_def)
  have "''/h'' @ ''/.m2/repository/'' @ ''g'' @ ''/'' @ ''net'' @ ''ty/4.0/netty-4.0.jar'' \<notin> set kept"
    by (rule exclusion_removes_longer_names [OF sample_order_ok _ _ _ _ k]) code_simp+
  then show ?thesis unfolding k by (simp only: sum.case not_False_eq_True)
qed

end
