(* ===== verification/Py_Regex.thy ===== *)
theory Py_Regex
  imports Target_Rules
begin

text \<open>
  The regular expression \<open>location_re\<close> of \<open>src/blade/blade_util.py\<close>, by which commands and
  resources refer to the outputs of other targets: matching, searching and substitution.
\<close>

section \<open>Matching\<close>

definition is_word :: "char \<Rightarrow> bool" where
  "is_word c = (let n = of_char c :: nat in 97 \<le> n \<and> n \<le> 122 \<or> 65 \<le> n \<and> n \<le> 90 \<or> 48 \<le> n \<and> n \<le> 57 \<or> n = 95)"

text \<open>
  The optional group and the closing parenthesis of \<open>location_re\<close> behind the reference: blanks,
  word characters and the parenthesis. A shorter run of blanks or word characters cannot be
  followed by the parenthesis, so that the greedy choice is the only one. The result is the
  text of the group and what follows the parenthesis.
\<close>

definition location_type :: "string \<Rightarrow> (string \<times> string) option" where
  "location_type tail =
     (let blanks = takeWhile is_space tail; rest = dropWhile is_space tail;
          word = takeWhile is_word rest; after = dropWhile is_word rest
      in if blanks \<noteq> [] \<and> startswith after '')'' then Some (blanks @ word, drop 1 after) else None)"

text \<open>
  A match of \<open>location_re\<close> at the beginning of a text, with the text behind it. The
  reference is a prefix of the first run \<open>ref\<close> of non-blanks that has a colon followed by
  another character; the longest prefix behind which the rest of the expression matches is
  taken.
\<close>

definition location_at :: "string \<Rightarrow> ((string \<times> string option) \<times> string) option" where
  "location_at s =
     (let rest = drop 10 s; body = dropWhile is_space rest;
          ref = takeWhile (\<lambda>c. \<not> is_space c) body; tail = dropWhile (\<lambda>c. \<not> is_space c) body;
          ends = filter (\<lambda>e. CHR '':'' \<in> set (take (e - 1) ref) \<and>
                    (if e = length ref then location_type tail \<noteq> None else ref ! e = CHR '')''))
                  (rev [1..<length ref + 1])
      in if startswith s ''$(location'' \<and> takeWhile is_space rest \<noteq> [] then
           (case ends of
              [] \<Rightarrow> None
            | e # _ \<Rightarrow>
                if e = length ref
                then map_option (\<lambda>(type, after). ((ref, Some type), after)) (location_type tail)
                else Some ((take e ref, None), drop (Suc e) body))
         else None)"

fun location_search :: "string \<Rightarrow> (string \<times> string option) option" where
  "location_search s =
     (case location_at s of
        Some (m, _) \<Rightarrow> Some m
      | None \<Rightarrow> (case s of [] \<Rightarrow> None | c # cs \<Rightarrow> location_search cs))"

lemma location_search_examples:
  "location_search ''x $(location //a/b:c jar) y'' = Some (''//a/b:c'', Some '' jar'')"
  "location_search ''$(location :c)'' = Some ('':c'', None)"
  "location_search ''$(location c)'' = None"
  by code_simp+

lemma location_type_length: "location_type s = Some (g, r) \<Longrightarrow> length r \<le> length s"
  using length_dropWhile_le [of is_space s] length_dropWhile_le [of is_word "dropWhile is_space s"]
  by (auto simp: location_type_def Let_def split: if_splits)

lemma location_at_length: "location_at s = Some (m, r) \<Longrightarrow> length r < length s"
proof -
  assume at: "location_at s = Some (m, r)"
  let ?body = "dropWhile is_space (drop 10 s)"
  have "startswith s ''$(location''" using at by (auto simp: location_at_def Let_def split: if_splits)
  then have "10 \<le> length s" by (auto simp: startswith_iff)
  moreover have "length r \<le> length ?body"
    using at location_type_length [of "dropWhile (\<lambda>c. \<not> is_space c) ?body"]
      length_dropWhile_le [of "\<lambda>c. \<not> is_space c" ?body]
    by (force simp: location_at_def Let_def split: if_splits list.splits)
  moreover have "length ?body \<le> length s - 10"
    using length_dropWhile_le [of is_space "drop 10 s"] by simp
  ultimately show ?thesis by linarith
qed

section \<open>Substitution\<close>

text \<open>
  \<open>location_re.sub\<close>: the texts between the matches and the matches, from left to right.
\<close>

function location_pieces :: "string \<Rightarrow> string list \<times> (string \<times> string option) list" where
  "location_pieces s =
     (case location_at s of
        Some (m, rest) \<Rightarrow> (case location_pieces rest of (ps, ms) \<Rightarrow> ([] # ps, m # ms))
      | None \<Rightarrow>
          (case s of
             [] \<Rightarrow> ([[]], [])
           | c # cs \<Rightarrow> (case location_pieces cs of (ps, ms) \<Rightarrow> ((c # hd ps) # tl ps, ms))))"
  by pat_completeness auto
termination
  by (relation "measure length") (auto dest: location_at_length)

declare location_pieces.simps [simp del]

lemma location_pieces_length: "length (fst (location_pieces s)) = Suc (length (snd (location_pieces s)))"
proof (induction s rule: location_pieces.induct)
  case (1 s)
  show ?case
  proof (cases "location_at s")
    case None
    show ?thesis
    proof (cases s)
      case (Cons c cs)
      then show ?thesis
        using 1(1) [OF None Cons] None by (subst (1 2) location_pieces.simps) (auto split: prod.splits)
    qed (use None in \<open>subst (1 2) location_pieces.simps, simp\<close>)
  next
    case (Some a)
    obtain m r where a: "a = (m, r)" by (cases a)
    show ?thesis
      using 1(2) [OF Some a [symmetric]] Some a by (subst (1 2) location_pieces.simps) (auto split: prod.splits)
  qed
qed

end
