(* ===== verification/Java_Source.thy ===== *)
theory Java_Source
  imports Java_Deps Loader Py_Regex
begin

text \<open>
  Sources and resources of Java targets (\<open>src/blade/java_targets.py\<close>): the package of a
  source file, the mapping from resources to
  entries of the jar and from sources to source paths. The files are the environment.
\<close>

section \<open>Packages\<close>

text \<open>\<open>'^\s*package\s+([\w.]+)'\<close> in multi-line mode: tried at the start and behind every newline.\<close>

definition package_at :: "string \<Rightarrow> string option" where
  "package_at s =
     (let s = dropWhile is_space s; rest = drop 7 s;
          name = takeWhile (\<lambda>c. is_word c \<or> c = CHR ''.'') (dropWhile is_space rest)
      in if startswith s ''package'' \<and> takeWhile is_space rest \<noteq> [] \<and> name \<noteq> [] then Some name else None)"

fun package_search :: "bool \<Rightarrow> string \<Rightarrow> string" where
  "package_search bol s =
     (case if bol then package_at s else None of
        Some name \<Rightarrow> name
      | None \<Rightarrow> (case s of [] \<Rightarrow> [] | c # cs \<Rightarrow> package_search (c = newline) cs))"

section \<open>Files\<close>

record java_fs =
  jf_exists :: "string \<Rightarrow> bool"
  jf_isfile :: "string \<Rightarrow> bool"
  jf_content :: "string \<Rightarrow> string"
  jf_walk :: "string \<Rightarrow> directory"
  jf_cwd :: string

definition get_source_package_name :: "java_fs \<Rightarrow> string \<Rightarrow> string" where
  "get_source_package_name fs file_name =
     (if \<not> jf_isfile fs file_name then [] else package_search True (jf_content fs file_name))"

definition get_java_package_name :: "java_fs \<Rightarrow> target \<Rightarrow> string list" where
  "get_java_package_name fs t =
     sorted_set (filter (\<lambda>p. p \<noteq> []) (map (\<lambda>src. get_source_package_name fs (source_file_path t src)) (t_srcs t)))"

definition get_classes_dir :: "blade \<Rightarrow> target \<Rightarrow> string" where
  "get_classes_dir b t = target_file_path b t [] @ ''.classes''"

definition get_sources_dir :: "blade \<Rightarrow> target \<Rightarrow> string" where
  "get_sources_dir b t = target_file_path b t [] @ ''.sources''"

section \<open>Resources\<close>

text \<open>\<open>s.find(p)\<close>\<close>

fun find_from :: "nat \<Rightarrow> string \<Rightarrow> string \<Rightarrow> nat option" where
  "find_from n s p =
     (if startswith s p then Some n else case s of [] \<Rightarrow> None | c # cs \<Rightarrow> find_from (Suc n) cs p)"

definition str_find :: "string \<Rightarrow> string \<Rightarrow> nat option" where
  "str_find s p = find_from 0 s p"

fun resource_segment :: "string list \<Rightarrow> string \<Rightarrow> string" where
  "resource_segment [] resource = resource"
| "resource_segment (seg # segs) resource =
     (case str_find resource seg of
        Some pos \<Rightarrow> drop (pos + length seg + 1) resource
      | None \<Rightarrow> resource_segment segs resource)"

definition java_resource_path :: "string \<Rightarrow> string" where
  "java_resource_path resource =
     resource_segment [''src/main/resources'', ''src/test/resources'', ''resources''] resource"

definition get_resource_path :: "target \<Rightarrow> string \<times> string \<Rightarrow> (string \<times> string) result" where
  "get_resource_path t resource =
     (case resource of (res_path, jar_path) \<Rightarrow>
        if str_in ''..'' res_path
        then Inl (SystemExit (t_fullname t @ '': Invalid resource '' @ res_path @ ''. Relative path is not allowed.''))
        else if startswith res_path ''//'' then
          let res_path = drop 2 res_path in Inr (res_path, if jar_path = [] then res_path else jar_path)
        else Inr (source_file_path t res_path, if jar_path = [] then java_resource_path res_path else jar_path))"

text \<open>The files below a directory, without the hidden subdirectories.\<close>

fun walk_files :: "string \<Rightarrow> directory \<Rightarrow> string list" where
  "walk_files dir (Directory ds fs) =
     map (path_join dir) fs @
     concat (map (\<lambda>(name, d). if startswith name ''.'' then [] else walk_files (path_join dir name) d) ds)"

definition regular_resource ::
  "java_fs \<Rightarrow> target \<Rightarrow> string \<times> string \<Rightarrow> (string \<times> string) list \<Rightarrow> (string \<times> string) list result" where
  "regular_resource fs t resource results =
     rbind (get_resource_path t resource) (\<lambda>(full_path, jar_path).
       if \<not> jf_exists fs full_path
       then Inl (SystemExit (t_fullname t @ '': Resource '' @ full_path @ '' does not exist.''))
       else if jf_isfile fs full_path then Inr (results @ [(full_path, jar_path)])
       else
         rbind (rmap (\<lambda>f. rbind (relpath (jf_cwd fs) f full_path) (\<lambda>rel_path. Inr (f, path_join jar_path rel_path)))
                 (walk_files full_path (jf_walk fs full_path))) (\<lambda>found. Inr (results @ found)))"

definition process_regular_resources ::
  "java_fs \<Rightarrow> target \<Rightarrow> (string \<times> string) list \<Rightarrow> (string \<times> string) list result" where
  "process_regular_resources fs t resources =
     rbind (rfold (regular_resource fs t) resources []) (\<lambda>results. Inr (sorted_set results))"

section \<open>Source paths\<close>

text \<open>The \<open>continue\<close> statements are the last ones of their loop bodies: every match counts.\<close>

definition source_segment :: "string \<Rightarrow> string \<Rightarrow> string list" where
  "source_segment src seg =
     (case str_find src seg of Some pos \<Rightarrow> if pos > 0 then [take (pos + length seg) src] else [] | None \<Rightarrow> [])"

definition source_paths_of :: "java_fs \<Rightarrow> string \<Rightarrow> string list" where
  "source_paths_of fs src =
     concat (map (source_segment src) [''src/main/java'', ''src/test/java'', ''src/java/'']) @
     (let package = get_source_package_name fs src
      in if package \<noteq> [] then
           (case str_find src (replace_char (CHR ''.'') slash package @ ''/'') of
              Some pos \<Rightarrow> if pos > 0 then [take pos src] else []
            | None \<Rightarrow> [])
         else [])"

definition java_sources_paths :: "set_order \<Rightarrow> java_fs \<Rightarrow> string list \<Rightarrow> string list" where
  "java_sources_paths so fs srcs = so_str so (concat (map (source_paths_of fs) srcs))"

end
