(* ===== verification/Java_Rules.thy ===== *)
theory Java_Rules
  imports Java_Source
begin

text \<open>
  The Java targets of \<open>src/blade/java_targets.py\<close>: the constructors of the target classes and the rules
  they write for the SCons and the Ninja back end. A method takes the target object and
  returns it updated; \<open>so\<close> is the iteration order of sets and dictionaries, \<open>fs\<close> the files.
\<close>

section \<open>Constructors\<close>

text \<open>\<open>_process_resources\<close>: the regular resources and the location references found so far.\<close>

definition resource_pair :: "target \<Rightarrow> pyval \<Rightarrow> (string \<times> string) result" where
  "resource_pair t resource =
     (case resource of
        PyTuple [PyStr src, PyStr dst] \<Rightarrow> Inr (src, dst)
      | PyTuple [_, _] \<Rightarrow> Inl TypeError
      | PyTuple _ \<Rightarrow> Inl ValueError
      | PyStr src \<Rightarrow> Inr (src, [])
      | _ \<Rightarrow> Inl (SystemExit (t_fullname t @ '': Invalid resource '' @ py_repr resource @
               ''. Resource should be either str or tuple.'')))"

definition process_resource ::
  "pyval \<Rightarrow> (string \<times> string) list \<times> (key \<times> string \<times> string) list \<times> target \<times> blade \<Rightarrow>
   ((string \<times> string) list \<times> (key \<times> string \<times> string) list \<times> target \<times> blade) result" where
  "process_resource resource st =
     (case st of (resources, locations, t, b) \<Rightarrow>
        rbind (resource_pair t resource) (\<lambda>(src, dst).
        rbind (add_location_reference_target (location_search src) t b) (\<lambda>(ref, t, b).
          Inr (case ref of
                 Some (k, type) \<Rightarrow> (resources, locations @ [(k, type, dst)], t, b)
               | None \<Rightarrow> (resources @ [(src, dst)], locations, t, b)))))"

definition py_resource :: "string \<times> string \<Rightarrow> pyval" where
  "py_resource r = PyTuple [PyStr (fst r), PyStr (snd r)]"

definition py_location :: "key \<times> string \<times> string \<Rightarrow> pyval" where
  "py_location r = (case r of (k, type, dst) \<Rightarrow> PyTuple [py_key k, PyStr type, PyStr dst])"

fun location_of_py :: "pyval \<Rightarrow> (key \<times> string \<times> string) result" where
  "location_of_py (PyTuple [k, PyStr type, PyStr dst]) = rbind (key_of_py k) (\<lambda>k. Inr (k, type, dst))"
| "location_of_py _ = Inl TypeError"

definition process_resources :: "pyval list \<Rightarrow> target \<Rightarrow> blade \<Rightarrow> (target \<times> blade) result" where
  "process_resources resources t b =
     rbind (rfold process_resource resources ([], [], t, b)) (\<lambda>(resources, locations, t, b).
       Inr (set_data ''location_resources'' (PyList (map py_location locations))
              (set_data ''resources'' (PyList (map py_resource resources)) t), b))"

definition as_strs :: "pyval \<Rightarrow> string list result" where
  "as_strs v = rmap as_str (var_to_list v)"

definition java_target_init ::
  "tclass \<Rightarrow> string \<Rightarrow> string \<Rightarrow> pyval \<Rightarrow> pyval \<Rightarrow> pyval \<Rightarrow> pyval \<Rightarrow> pyval \<Rightarrow> (string, pyval) dict \<Rightarrow> blade \<Rightarrow>
   (target \<times> blade) result" where
  "java_target_init c name type srcs deps resources source_encoding warnings kwargs b =
     rbind (as_strs srcs) (\<lambda>srcs.
     rbind (as_strs deps) (\<lambda>deps.
     rbind (target_init c name type srcs deps PyNone kwargs b) (\<lambda>(t, b).
     rbind (process_resources (var_to_list resources) t b) (\<lambda>(t, b).
       let t = set_data ''source_encoding'' source_encoding t
       in Inr (if warnings \<noteq> PyNone then set_data ''warnings'' (PyList (var_to_list warnings)) t else t, b)))))"

definition java_library_init ::
  "string \<Rightarrow> pyval \<Rightarrow> pyval \<Rightarrow> pyval \<Rightarrow> pyval \<Rightarrow> pyval \<Rightarrow> bool \<Rightarrow> string \<Rightarrow> pyval \<Rightarrow> pyval \<Rightarrow> (string, pyval) dict \<Rightarrow>
   blade \<Rightarrow> (target \<times> blade) result" where
  "java_library_init name srcs deps resources source_encoding warnings prebuilt binary_jar exported_deps provided_deps
       kwargs b =
     (let type = (if prebuilt then ''prebuilt_java_library'' else ''java_library'');
          all_deps = var_to_list deps @ var_to_list exported_deps @ var_to_list provided_deps
      in rbind (java_target_init JavaLibraryC name type srcs (PyList all_deps) resources source_encoding warnings kwargs b)
           (\<lambda>(t, b).
         rbind (as_strs exported_deps) (\<lambda>exported.
         rbind (unify_deps t exported b) (\<lambda>(exported, b).
         rbind (as_strs provided_deps) (\<lambda>provided.
         rbind (unify_deps t provided b) (\<lambda>(provided, b).
           let t = set_data ''exported_deps'' (PyList (map py_key exported)) t;
               t = set_data ''provided_deps'' (PyList (map py_key provided)) t
           in Inr (if prebuilt
                   then set_data ''binary_jar''
                          (PyStr (source_file_path t (if binary_jar = [] then name @ ''.jar'' else binary_jar))) t
                   else t, b)))))))"

definition set_exclusions_if :: "pyval \<Rightarrow> target \<Rightarrow> blade \<Rightarrow> (target \<times> blade) result" where
  "set_exclusions_if exclusions t b = (if truthy exclusions then set_pack_exclusions exclusions t b else Inr (t, b))"

definition java_binary_init ::
  "tclass \<Rightarrow> string \<Rightarrow> pyval \<Rightarrow> pyval \<Rightarrow> pyval \<Rightarrow> pyval \<Rightarrow> pyval \<Rightarrow> string \<Rightarrow> pyval \<Rightarrow> (string, pyval) dict \<Rightarrow> blade \<Rightarrow>
   (target \<times> blade) result" where
  "java_binary_init c name srcs deps resources source_encoding warnings main_class exclusions kwargs b =
     rbind (java_target_init c name ''java_binary'' srcs deps resources source_encoding warnings kwargs b) (\<lambda>(t, b).
       set_exclusions_if exclusions
         (set_data ''run_in_shell'' (PyBool True) (set_data ''main_class'' (PyStr main_class) t)) b)"

definition java_fat_library_init ::
  "string \<Rightarrow> pyval \<Rightarrow> pyval \<Rightarrow> pyval \<Rightarrow> pyval \<Rightarrow> pyval \<Rightarrow> pyval \<Rightarrow> (string, pyval) dict \<Rightarrow> blade \<Rightarrow>
   (target \<times> blade) result" where
  "java_fat_library_init name srcs deps resources source_encoding warnings exclusions kwargs b =
     rbind (java_target_init JavaFatLibraryC name ''java_fat_library'' srcs deps resources source_encoding warnings kwargs b)
       (\<lambda>(t, b). set_exclusions_if exclusions t b)"

definition java_test_init ::
  "string \<Rightarrow> pyval \<Rightarrow> pyval \<Rightarrow> pyval \<Rightarrow> pyval \<Rightarrow> pyval \<Rightarrow> string \<Rightarrow> pyval \<Rightarrow> pyval \<Rightarrow> string \<Rightarrow> (string, pyval) dict \<Rightarrow>
   blade \<Rightarrow> (target \<times> blade) result" where
  "java_test_init name srcs deps resources source_encoding warnings main_class exclusions testdata target_under_test
       kwargs b =
     rbind (java_binary_init JavaTestC name srcs deps resources source_encoding warnings main_class exclusions kwargs b)
       (\<lambda>(t, b).
         let t = set_data ''testdata'' (PyList (var_to_list testdata)) (t\<lparr>t_type := ''java_test''\<rparr>)
         in if target_under_test \<noteq> []
            then rbind (unify_dep t target_under_test b) (\<lambda>(k, b). Inr (set_data ''target_under_test'' (py_key k) t, b))
            else Inr (t, b))"

definition maven_jar_init :: "string \<Rightarrow> string \<Rightarrow> string \<Rightarrow> bool \<Rightarrow> blade \<Rightarrow> (target \<times> blade) result" where
  "maven_jar_init name ident classifier transitive b =
     rbind (target_init MavenJarC name ''maven_jar'' [] [] PyNone [] b) (\<lambda>(t, b).
       Inr (set_data ''transitive'' (PyBool transitive)
              (set_data ''classifier'' (PyStr classifier) (set_data ''id'' (PyStr ident) t)), b))"

text \<open>The functions of the BUILD files construct the target and register it.\<close>

definition register_new :: "(target \<times> blade) result \<Rightarrow> blade result" where
  "register_new r = rbind r (\<lambda>(t, b). register_target t b)"

definition maven_jar :: "string \<Rightarrow> string \<Rightarrow> string \<Rightarrow> bool \<Rightarrow> blade \<Rightarrow> blade result" where
  "maven_jar name ident classifier transitive b = register_new (maven_jar_init name ident classifier transitive b)"

definition java_library ::
  "string \<Rightarrow> pyval \<Rightarrow> pyval \<Rightarrow> pyval \<Rightarrow> pyval \<Rightarrow> pyval \<Rightarrow> bool \<Rightarrow> string \<Rightarrow> pyval \<Rightarrow> pyval \<Rightarrow> (string, pyval) dict \<Rightarrow>
   blade \<Rightarrow> blade result" where
  "java_library name srcs deps resources source_encoding warnings prebuilt binary_jar exported_deps provided_deps kwargs b =
     register_new (java_library_init name srcs deps resources source_encoding warnings prebuilt binary_jar
       exported_deps provided_deps kwargs b)"

definition java_binary ::
  "string \<Rightarrow> string \<Rightarrow> pyval \<Rightarrow> pyval \<Rightarrow> pyval \<Rightarrow> pyval \<Rightarrow> pyval \<Rightarrow> pyval \<Rightarrow> (string, pyval) dict \<Rightarrow> blade \<Rightarrow> blade result" where
  "java_binary name main_class srcs deps resources source_encoding warnings exclusions kwargs b =
     register_new (java_binary_init JavaBinaryC name srcs deps resources source_encoding warnings main_class exclusions kwargs b)"

definition java_test ::
  "string \<Rightarrow> pyval \<Rightarrow> pyval \<Rightarrow> pyval \<Rightarrow> pyval \<Rightarrow> pyval \<Rightarrow> string \<Rightarrow> pyval \<Rightarrow> pyval \<Rightarrow> string \<Rightarrow> (string, pyval) dict \<Rightarrow>
   blade \<Rightarrow> blade result" where
  "java_test name srcs deps resources source_encoding warnings main_class exclusions testdata target_under_test kwargs b =
     register_new (java_test_init name srcs deps resources source_encoding warnings main_class exclusions testdata
       target_under_test kwargs b)"

definition java_fat_library ::
  "string \<Rightarrow> pyval \<Rightarrow> pyval \<Rightarrow> pyval \<Rightarrow> pyval \<Rightarrow> pyval \<Rightarrow> pyval \<Rightarrow> (string, pyval) dict \<Rightarrow> blade \<Rightarrow> blade result" where
  "java_fat_library name srcs deps resources source_encoding warnings exclusions kwargs b =
     register_new (java_fat_library_init name srcs deps resources source_encoding warnings exclusions kwargs b)"

section \<open>The rules of a Maven jar\<close>

definition maven_blade_rules ::
  "maven_env \<Rightarrow> target \<Rightarrow> maven_cache \<Rightarrow> (target \<times> maven_cache) result" where
  "maven_blade_rules me t c =
     rbind (rbind (dindex (t_data t) ''id'') as_str) (\<lambda>ident.
     rbind (rbind (dindex (t_data t) ''classifier'') as_str) (\<lambda>classifier.
     rbind (get_jar_path me ident classifier c) (\<lambda>(binary_jar, c).
       if binary_jar = [] then Inr (t, c)
       else
         let t = set_data ''binary_jar'' (PyStr binary_jar) t
         in if truthy (get_data t ''transitive'' PyNone)
            then rbind (get_jar_deps_path me ident classifier c) (\<lambda>(deps_path, c).
                   Inr (if deps_path \<noteq> []
                        then set_data ''maven_deps'' (PyList (map PyStr (split_on (CHR '':'') deps_path))) t else t, c))
            else Inr (t, c))))"

section \<open>Rules for SCons\<close>

definition env_rule :: "(string \<Rightarrow> string) \<Rightarrow> target \<Rightarrow> target" where
  "env_rule f t = (case env_name t of (e, t) \<Rightarrow> write_rule (f e) t)"

definition env_rules :: "(string \<Rightarrow> string list) \<Rightarrow> target \<Rightarrow> target" where
  "env_rules f t = (case env_name t of (e, t) \<Rightarrow> write_rules (f e) t)"

definition java_flag :: "string \<Rightarrow> pyval \<Rightarrow> target \<Rightarrow> target result" where
  "java_flag flag v t =
     (if truthy v
      then rbind (py_text v) (\<lambda>s. Inr (env_rule (\<lambda>e. e @ ''.Append(JAVACFLAGS='' @ dquote # flag @ '' '' @ s @ [dquote] @ '')'') t))
      else Inr t)"

definition generate_java_versions :: "blade \<Rightarrow> target \<Rightarrow> target result" where
  "generate_java_versions b t =
     rbind (get_config (b_config b) ''java_config'') (\<lambda>conf.
     rbind (dindex conf ''version'') (\<lambda>version.
       let source_version = dgetd conf ''source_version'' version;
           target_version = dgetd conf ''target_version'' version
       in rbind (if truthy version then py_text version else Inr ''1.6'') (\<lambda>blade_java_version.
            let t = env_rule (\<lambda>e. e @ ''.Replace(JAVAVERSION='' @ dquote # blade_java_version @ [dquote] @ '')'') t
            in rbind (java_flag ''-source'' source_version t) (java_flag ''-target'' target_version))))"

definition generate_java_source_encoding :: "blade \<Rightarrow> target \<Rightarrow> target result" where
  "generate_java_source_encoding b t =
     rbind (let v = get_data t ''source_encoding'' PyNone
            in if v = PyNone then config_value b ''java_config'' ''source_encoding'' else Inr v) (\<lambda>source_encoding.
       java_flag ''-encoding'' source_encoding t)"

definition generate_java_sources_paths :: "set_order \<Rightarrow> java_fs \<Rightarrow> string list \<Rightarrow> target \<Rightarrow> target" where
  "generate_java_sources_paths so fs srcs t =
     (let path = java_sources_paths so fs srcs
      in if path \<noteq> [] then env_rule (\<lambda>e. e @ ''.Append(JAVASOURCEPATH='' @ repr_strs path @ '')'') t else t)"

definition generate_java_classpath :: "string list \<Rightarrow> string list \<Rightarrow> target \<Rightarrow> target" where
  "generate_java_classpath dep_jar_vars dep_jars t =
     env_rules (\<lambda>e. map (\<lambda>v. e @ ''.Append(JAVACLASSPATH=str('' @ v @ ''[0]))'') dep_jar_vars @
       (if dep_jars \<noteq> [] then [e @ ''.Append(JAVACLASSPATH='' @ repr_strs dep_jars @ '')''] else [])) t"

definition repr_location :: "key \<times> string \<times> string \<Rightarrow> string" where
  "repr_location r = (case r of (k, type, dst) \<Rightarrow>
     ''(('' @ repr_str (fst k) @ '', '' @ repr_str (snd k) @ ''), '' @ repr_str type @ '', '' @ repr_str dst @ '')'')"

definition data_locations :: "target \<Rightarrow> (key \<times> string \<times> string) list result" where
  "data_locations t =
     (case get_data t ''location_resources'' (PyList []) of PyList vs \<Rightarrow> rmap location_of_py vs | _ \<Rightarrow> Inl TypeError)"

definition generate_java_depends ::
  "string \<Rightarrow> string list \<Rightarrow> string list \<Rightarrow> string \<Rightarrow> string \<Rightarrow> target \<Rightarrow> target result" where
  "generate_java_depends var dep_jar_vars dep_jars resources_var resources_path_var t =
     rbind (data_locations t) (\<lambda>locations.
       Inr (env_rules (\<lambda>e.
         (if dep_jar_vars \<noteq> [] then [e @ ''.Depends('' @ var @ '', ['' @ join_with '','' dep_jar_vars @ ''])''] else []) @
         (if dep_jars \<noteq> [] then [e @ ''.Depends('' @ var @ '', '' @ e @ ''.Value('' @ repr_strs (sort dep_jars) @ ''))''] else []) @
         (if resources_var \<noteq> [] then [e @ ''.Depends('' @ var @ '', '' @ e @ ''.Value('' @ resources_path_var @ ''))''] else []) @
         (if locations \<noteq> []
          then [e @ ''.Depends('' @ var @ '', '' @ e @ ''.Value('' @
                  dquote # ''['' @ join_with '', '' (map repr_location (sorted_set locations)) @ '']'' @ [dquote] @ ''))'']
          else [])) t))"

definition generate_java_classes ::
  "set_order \<Rightarrow> java_fs \<Rightarrow> blade \<Rightarrow> string \<Rightarrow> string list \<Rightarrow> target \<Rightarrow> target result" where
  "generate_java_classes so fs b var srcs t =
     (let t = generate_java_sources_paths so fs srcs t
      in rbind (get_compile_deps so (jf_exists fs) b t) (\<lambda>(dep_jar_vars, dep_jars).
         let classes_dir = get_classes_dir b t;
             t = generate_java_classpath dep_jar_vars dep_jars t;
             t = env_rule (\<lambda>e. var @ '' = '' @ e @ ''.Java(target='' @ dquote # classes_dir @ [dquote] @ '', source='' @
                   repr_strs srcs @ '')'') t
         in rbind (generate_java_depends var dep_jar_vars dep_jars [] [] t) (\<lambda>t.
              Inr (env_rule (\<lambda>e. e @ ''.Clean('' @ var @ '', '' @ dquote # classes_dir @ [dquote] @ '')'') t))))"

definition source_copy :: "java_fs \<Rightarrow> blade \<Rightarrow> target \<Rightarrow> string \<Rightarrow> string \<times> string" where
  "source_copy fs b t source =
     (let src = source_file_path t source; package = get_source_package_name fs src
      in (path_join3 (get_sources_dir b t) (replace_char (CHR ''.'') slash package) (basename source), src))"

definition generate_sources :: "java_fs \<Rightarrow> blade \<Rightarrow> bool \<Rightarrow> target \<Rightarrow> target result" where
  "generate_sources fs b ninja t =
     (case env_name t of (e, t) \<Rightarrow>
        rfold (\<lambda>source t.
          case source_copy fs b t source of (dst, src) \<Rightarrow>
            if ninja then ninja_build (PyStr dst) ''copy'' (PyStr src) [] [] [] [] t
            else Inr (write_rule (e @ ''.JavaSource(target = '' @ dquote # dst @ [dquote] @ '', source = '' @
                   dquote # src @ [dquote] @ '')'') t)) (t_srcs t) t)"

end
