(* ===== verification/Java_Targets.thy ===== *)
theory Java_Targets
  imports Java_Rules
begin

text \<open>
  The rules of the Java targets (\<open>src/blade/java_targets.py\<close>): resources, jars, fat jars and the
  \<open>scons_rules\<close> and \<open>ninja_rules\<close> methods of the target classes.
\<close>

section \<open>Resources\<close>

definition resources_dir :: "blade \<Rightarrow> target \<Rightarrow> string" where
  "resources_dir b t = target_file_path b t [] @ ''.resources''"

definition quoted :: "string \<Rightarrow> string" where
  "quoted s = dquote # s @ [dquote]"

fun resource_of_py :: "pyval \<Rightarrow> (string \<times> string) result" where
  "resource_of_py (PyTuple [PyStr src, PyStr dst]) = Inr (src, dst)"
| "resource_of_py _ = Inl TypeError"

definition data_resources :: "target \<Rightarrow> (string \<times> string) list result" where
  "data_resources t =
     rbind (dindex (t_data t) ''resources'') (\<lambda>v. case v of PyList vs \<Rightarrow> rmap resource_of_py vs | _ \<Rightarrow> Inl TypeError)"

definition regular_resource_rules :: "blade \<Rightarrow> string \<Rightarrow> string \<Rightarrow> string \<Rightarrow> target \<Rightarrow> nat \<times> string \<times> string \<Rightarrow> string list" where
  "regular_resource_rules b e resources_var resources_path_var t r =
     (case r of (i, src, path) \<Rightarrow>
        let dst = path_join (resources_dir b t) path; res_var = var_name t (''resources__'' @ show_nat i)
        in [res_var @ '' = '' @ e @ ''.JavaResource(target = '' @ quoted dst @ '', source = '' @ quoted src @ '')'',
            resources_var @ ''.append('' @ res_var @ '')'',
            resources_path_var @ ''.append('' @ quoted dst @ '')''])"

definition generate_regular_resources ::
  "java_fs \<Rightarrow> blade \<Rightarrow> (string \<times> string) list \<Rightarrow> string \<Rightarrow> string \<Rightarrow> target \<Rightarrow> target result" where
  "generate_regular_resources fs b resources resources_var resources_path_var t =
     (case env_name t of (e, t) \<Rightarrow>
        rbind (process_regular_resources fs t resources) (\<lambda>resources.
          Inr (write_rules (concat (map (regular_resource_rules b e resources_var resources_path_var t)
                 (zip [0..<length resources] resources))) t)))"

definition missing_location :: "target \<Rightarrow> key \<Rightarrow> string \<Rightarrow> message" where
  "missing_location t k type =
     Warn (t_fullname t @ '': Location ('' @ repr_str (fst k) @ '', '' @ repr_str (snd k) @ '') '' @ type @ '' is missing. Ignored.'')"

definition location_resource ::
  "string \<Rightarrow> nat \<times> key \<times> string \<times> string \<Rightarrow> target \<times> blade \<Rightarrow> (target \<times> blade) result" where
  "location_resource resources_var r tb =
     (case r of (i, k, type, dst) \<Rightarrow> case tb of (t, b) \<Rightarrow>
        rbind (dindex (bt_view (b_build_targets b) (b_target_database b)) k) (\<lambda>target.
        rbind (get_target_var target type) (\<lambda>v.
          if \<not> truthy v then Inr (t, say (missing_location t k type) b)
          else
            rbind (as_str v) (\<lambda>target_var.
              case env_name t of (e, t) \<Rightarrow>
                let dst_path = path_join (resources_dir b t) (if dst \<noteq> [] then dst else ''${SOURCE.file}'');
                    res_var = var_name t (''location_resources__'' @ show_nat i)
                in Inr (write_rules
                     [res_var @ '' = '' @ e @ ''.JavaResource(target = '' @ quoted dst_path @ '', source = '' @ target_var @ '')'',
                      resources_var @ ''.append('' @ res_var @ '')''] t, b)))))"

definition generate_location_resources ::
  "(key \<times> string \<times> string) list \<Rightarrow> string \<Rightarrow> target \<Rightarrow> blade \<Rightarrow> (target \<times> blade) result" where
  "generate_location_resources resources resources_var t b =
     rfold (location_resource resources_var) (zip [0..<length resources] resources) (snd (env_name t), b)"

definition generate_resources :: "java_fs \<Rightarrow> target \<Rightarrow> blade \<Rightarrow> ((string \<times> string) \<times> target \<times> blade) result" where
  "generate_resources fs t b =
     rbind (data_resources t) (\<lambda>resources.
     rbind (rbind (dindex (t_data t) ''location_resources'') (\<lambda>_. data_locations t)) (\<lambda>locations.
       if resources = [] \<and> locations = [] then Inr (([], []), t, b)
       else
         case env_name t of (e, t) \<Rightarrow>
           let rv = var_name t ''resources''; rpv = var_name t ''resources_path'';
               t = write_rule (rv @ '', '' @ rpv @ '' = [], []'') t
           in rbind (generate_regular_resources fs b resources rv rpv t) (\<lambda>t.
              rbind (generate_location_resources locations rv t b) (\<lambda>(t, b).
                Inr ((rv, rpv),
                  (if b_command b = ''clean''
                   then write_rule (e @ ''.Clean('' @ rv @ '', '' @ quoted (resources_dir b t) @ '')'') t else t), b)))))"

section \<open>Jars, for SCons\<close>

definition generate_generated_java_jar :: "blade \<Rightarrow> string \<Rightarrow> string list \<Rightarrow> target \<Rightarrow> target" where
  "generate_generated_java_jar b var srcs t =
     env_rule (\<lambda>e. var @ '' = '' @ e @ ''.GeneratedJavaJar(target='' @ quoted (target_file_path b t []) @
       '' + top_env['' @ quoted ''JARSUFFIX'' @ ''], source=['' @ join_with '','' srcs @ ''])'') t"

definition generate_java_jar :: "blade \<Rightarrow> string list \<Rightarrow> string \<Rightarrow> target \<Rightarrow> string \<times> target" where
  "generate_java_jar b srcs resources_var t =
     (let var = var_name t ''jar'';
          t = env_rule (\<lambda>e. var @ '' = '' @ e @ ''.BladeJavaJar(target='' @ quoted (target_file_path b t [] @ ''.jar'') @
                '', source='' @ repr_strs srcs @ '' + ['' @ resources_var @ ''])'') t;
          t = (if b_command b = ''clean''
               then env_rule (\<lambda>e. e @ ''.Clean('' @ var @ '', '' @ quoted (get_classes_dir b t) @ '')'') t else t)
      in (var, t))"

definition own_jar :: "pyval result \<Rightarrow> string list result" where
  "own_jar r = rbind r (\<lambda>v. if truthy v then rbind (as_str v) (\<lambda>s. Inr [s]) else Inr [])"

definition generate_fat_jar :: "blade \<Rightarrow> string list \<Rightarrow> string list \<Rightarrow> target \<Rightarrow> (string \<times> target) result" where
  "generate_fat_jar b dep_jar_vars dep_jars t =
     rbind (own_jar (get_target_var t ''jar'')) (\<lambda>jar_vars.
       let var = var_name t ''fatjar''
       in Inr (var, env_rule (\<lambda>e. var @ '' = '' @ e @ ''.FatJar(target='' @ quoted (target_file_path b t [] @ ''.fat.jar'') @
            '', source=['' @ join_with '','' (jar_vars @ dep_jar_vars) @ ''] + '' @ repr_strs dep_jars @ '')'') t))"

definition generate_one_jar :: "blade \<Rightarrow> string list \<Rightarrow> string list \<Rightarrow> target \<Rightarrow> (string \<times> target) result" where
  "generate_one_jar b dep_jar_vars dep_jars t =
     rbind (own_jar (get_target_var t ''jar'')) (\<lambda>jar_vars.
     rbind (rbind (dindex (t_data t) ''main_class'') py_text) (\<lambda>main_class.
       let var = var_name t ''onejar'';
           t = env_rule (\<lambda>e. var @ '' = '' @ e @ ''.OneJar(target='' @ quoted (target_file_path b t [] @ ''.one.jar'') @
                 '', source=[Value('' @ quoted main_class @ '')] + ['' @ join_with '','' (jar_vars @ dep_jar_vars) @
                 ''] + '' @ repr_strs dep_jars @ '')'') t
       in rbind (add_target_var ''onejar'' (PyStr var) t) (\<lambda>t. Inr (var, t))))"

definition generate_wrapper :: "blade \<Rightarrow> string \<Rightarrow> target \<Rightarrow> target result" where
  "generate_wrapper b onejar t =
     (let var = var_name t [];
          t = env_rule (\<lambda>e. var @ '' = '' @ e @ ''.JavaBinary(target='' @ quoted (target_file_path b t []) @
                '', source='' @ onejar @ '')'') t
      in add_default_target_var ''bin'' (PyStr var) t)"

definition java_clone_env :: "target \<Rightarrow> target" where
  "java_clone_env t = env_rule (\<lambda>e. e @ '' = env_java.Clone()'') t"

definition java_warnings :: "blade \<Rightarrow> target \<Rightarrow> pyval result" where
  "java_warnings b t =
     (let w = get_data t ''warnings'' PyNone
      in if w = PyNone then config_value b ''java_config'' ''warnings'' else Inr w)"

definition java_prepare_to_generate_rule :: "blade \<Rightarrow> target \<Rightarrow> target result" where
  "java_prepare_to_generate_rule b t =
     rbind (generate_java_source_encoding b (java_clone_env t)) (\<lambda>t.
     rbind (java_warnings b t) (\<lambda>warnings.
       if truthy warnings
       then rbind (py_text warnings) (\<lambda>s. Inr (env_rule (\<lambda>e. e @ ''.Append(JAVACFLAGS='' @ s @ '')'') t))
       else Inr t))"

definition generate_classes :: "set_order \<Rightarrow> java_fs \<Rightarrow> blade \<Rightarrow> target \<Rightarrow> (string option \<times> target) result" where
  "generate_classes so fs b t =
     (if t_srcs t = [] then Inr (None, t)
      else
        let var = var_name t ''classes''
        in rbind (generate_java_classes so fs b var (map (source_file_path t) (t_srcs t)) t) (\<lambda>t. Inr (Some var, t)))"

definition generate_jar :: "set_order \<Rightarrow> java_fs \<Rightarrow> target \<Rightarrow> blade \<Rightarrow> (string \<times> target \<times> blade) result" where
  "generate_jar so fs t b =
     rbind (generate_sources fs b False t) (\<lambda>t.
       let srcs = map (source_file_path t) (t_srcs t)
       in rbind (if srcs \<noteq> [] then
                   rbind (get_compile_deps so (jf_exists fs) b t) (\<lambda>(vars, jars).
                     Inr (vars, jars, generate_java_classpath vars jars t))
                 else Inr ([], [], t)) (\<lambda>(dep_jar_vars, dep_jars, t).
          rbind (generate_resources fs t b) (\<lambda>((resources_var, resources_path_var), t, b).
            if srcs \<noteq> [] \<or> resources_var \<noteq> [] then
              case generate_java_jar b srcs resources_var t of (var, t) \<Rightarrow>
                rbind (generate_java_depends var dep_jar_vars dep_jars resources_var resources_path_var t) (\<lambda>t.
                rbind (add_target_var ''jar'' (PyStr var) t) (\<lambda>t. Inr (var, t, b)))
            else Inr ([], t, b))))"

section \<open>Jars, for Ninja\<close>

definition ninja_location ::
  "key \<times> string \<times> string \<Rightarrow> string list \<times> string list \<times> target \<times> blade \<Rightarrow>
   (string list \<times> string list \<times> target \<times> blade) result" where
  "ninja_location r st =
     (case r of (k, type, dst) \<Rightarrow> case st of (inputs, outputs, t, b) \<Rightarrow>
        rbind (dindex (bt_view (b_build_targets b) (b_target_database b)) k) (\<lambda>target.
        rbind (get_target_file target type) (\<lambda>v.
          if \<not> truthy v then Inr (inputs, outputs, t, say (missing_location t k type) b)
          else
            rbind (as_str v) (\<lambda>path.
              Inr (inputs @ [path],
                   outputs @ [path_join (resources_dir b t) (if dst = [] then basename path else dst)], t, b)))))"

definition ninja_generate_resources :: "java_fs \<Rightarrow> target \<Rightarrow> blade \<Rightarrow> (string list \<times> target \<times> blade) result" where
  "ninja_generate_resources fs t b =
     rbind (data_resources t) (\<lambda>resources.
     rbind (rbind (dindex (t_data t) ''location_resources'') (\<lambda>_. data_locations t)) (\<lambda>locations.
       if resources = [] \<and> locations = [] then Inr ([], t, b)
       else
         rbind (process_regular_resources fs t resources) (\<lambda>resources.
         rbind (rfold ninja_location locations
                  (map fst resources, map (\<lambda>r. path_join (resources_dir b t) (snd r)) resources, t, b))
           (\<lambda>(inputs, outputs, t, b).
             if inputs \<noteq> []
             then rbind (ninja_build (PyList (map PyStr outputs)) ''javaresource'' (PyList (map PyStr inputs)) [] [] [] [] t)
                    (\<lambda>t. Inr (outputs, t, b))
             else Inr (outputs, t, b)))))"

definition java_implicit_dependencies :: "string list \<Rightarrow> string list \<Rightarrow> string list" where
  "java_implicit_dependencies dep_jars maven_jars = dep_jars @ filter (\<lambda>jar. str_in ''-SNAPSHOT'' jar) maven_jars"

definition dict_order :: "set_order \<Rightarrow> (string, string) dict \<Rightarrow> (string, string) dict" where
  "dict_order so d = map (\<lambda>k. (k, dgetd d k [])) (so_str so (dkeys d))"

definition put_if :: "bool \<Rightarrow> string \<Rightarrow> string \<Rightarrow> (string, string) dict \<Rightarrow> (string, string) dict" where
  "put_if c k v d = (if c then dset k v d else d)"

definition ninja_build_jar ::
  "set_order \<Rightarrow> java_fs \<Rightarrow> blade \<Rightarrow> string \<Rightarrow> string list \<Rightarrow> string \<Rightarrow> string list \<Rightarrow> bool \<Rightarrow> string list \<Rightarrow> target \<Rightarrow>
   (string \<times> target) result" where
  "ninja_build_jar so fs b output inputs source_encoding javacflags scala scalacflags t =
     (let output = (if output = [] then target_file_path b t [] @ ''.jar'' else output);
          inputs = (if inputs = [] then map (source_file_path t) (t_srcs t) else inputs);
          rule = (if scala then ''scalac'' else ''javac'');
          vars = (if scala then put_if (scalacflags \<noteq> []) ''scalacflags'' (join_with '' '' scalacflags) []
                  else put_if (javacflags \<noteq> []) ''javacflags'' (join_with '' '' javacflags)
                         [(''classes_dir'', get_classes_dir b t)])
      in rbind (get_compile_deps so (jf_exists fs) b t) (\<lambda>(dep_jars, maven_jars).
         let jars = dep_jars @ maven_jars;
             vars = put_if (jars \<noteq> []) ''classpath'' (join_with '':'' jars) vars;
             vars = put_if (source_encoding \<noteq> []) ''source_encoding'' source_encoding vars
         in rbind (ninja_build (PyStr output) rule (PyList (map PyStr inputs))
                     (map PyStr (java_implicit_dependencies dep_jars maven_jars)) [] (dict_order so vars) [] t)
              (\<lambda>t. Inr (output, t))))"

definition ninja_build_fat_jar :: "blade \<Rightarrow> string list \<Rightarrow> string list \<Rightarrow> target \<Rightarrow> (string \<times> target) result" where
  "ninja_build_fat_jar b dep_jars maven_jars t =
     rbind (own_jar (get_target_file t ''jar'')) (\<lambda>jar.
       let output = target_file_path b t [] @ ''.fat.jar''
       in rbind (ninja_build (PyStr output) ''fatjar'' (PyList (map PyStr (jar @ dep_jars @ maven_jars))) [] [] [] [] t)
            (\<lambda>t. Inr (output, t)))"

definition javac_flags :: "blade \<Rightarrow> target \<Rightarrow> string list result" where
  "javac_flags b t =
     rbind (config_value b ''global_config'' ''debug_info_level'') (\<lambda>level.
     rbind (as_str level) (\<lambda>level.
     rbind (config_value b ''java_config'' ''debug_info_levels'') (\<lambda>levels.
     rbind (case levels of PyDict d \<Rightarrow> dindex d level | _ \<Rightarrow> Inl TypeError) (\<lambda>opts.
     rbind (let w = get_data t ''warnings'' PyNone
            in if truthy w then Inr w else config_value b ''java_config'' ''warnings'') (\<lambda>warnings.
       case (opts, warnings) of
         (PyList os, PyList ws) \<Rightarrow> rmap as_str (os @ ws)
       | _ \<Rightarrow> Inl TypeError)))))"

definition ninja_generate_jar :: "set_order \<Rightarrow> java_fs \<Rightarrow> target \<Rightarrow> blade \<Rightarrow> (string \<times> target \<times> blade) result" where
  "ninja_generate_jar so fs t b =
     rbind (generate_sources fs b True t) (\<lambda>t.
     rbind (ninja_generate_resources fs t b) (\<lambda>(resources, t, b).
       let srcs = map (source_file_path t) (t_srcs t);
           jar = target_file_path b t [] @ ''.jar'';
           javajar = (\<lambda>ins t. ninja_build (PyStr jar) ''javajar'' (PyList (map PyStr ins)) [] [] [] [] t);
           done = (\<lambda>t. rbind (add_target_file ''jar'' (PyStr jar) t) (\<lambda>t. Inr (jar, t, b)))
       in if srcs \<noteq> [] \<and> resources \<noteq> [] then
            let classes_jar = target_file_path b t [] @ ''__classes__.jar''
            in rbind (javac_flags b t) (\<lambda>flags.
               rbind (ninja_build_jar so fs b classes_jar srcs [] flags False [] t) (\<lambda>(_, t).
               rbind (javajar (classes_jar # resources) t) done))
          else if srcs \<noteq> [] then
            rbind (javac_flags b t) (\<lambda>flags.
            rbind (ninja_build_jar so fs b jar srcs [] flags False [] t) (\<lambda>(_, t). done t))
          else if resources \<noteq> [] then rbind (javajar resources t) done
          else Inr ([], t, b)))"

definition ninja_pack_jars :: "nat \<Rightarrow> set_order \<Rightarrow> java_fs \<Rightarrow> blade \<Rightarrow> target \<Rightarrow> (string list \<times> string list) result" where
  "ninja_pack_jars n so fs b t =
     rbind (get_pack_deps n so b t) (\<lambda>(dep_jars, maven_jars).
     rbind (detect_maven_conflicted_deps so (jf_exists fs) b t maven_jars) (\<lambda>maven_jars. Inr (dep_jars, maven_jars)))"

definition ninja_generate_fat_jar :: "nat \<Rightarrow> set_order \<Rightarrow> java_fs \<Rightarrow> target \<Rightarrow> blade \<Rightarrow> (string \<times> target \<times> blade) result" where
  "ninja_generate_fat_jar n so fs t b =
     rbind (ninja_generate_jar so fs t b) (\<lambda>(_, t, b).
     rbind (ninja_pack_jars n so fs b t) (\<lambda>(dep_jars, maven_jars).
     rbind (ninja_build_fat_jar b dep_jars maven_jars t) (\<lambda>(output, t). Inr (output, t, b))))"

definition ninja_generate_one_jar :: "blade \<Rightarrow> string list \<Rightarrow> string list \<Rightarrow> target \<Rightarrow> (string \<times> target) result" where
  "ninja_generate_one_jar b dep_jars maven_jars t =
     rbind (own_jar (get_target_file t ''jar'')) (\<lambda>jar.
     rbind (rbind (dindex (t_data t) ''main_class'') py_text) (\<lambda>main_class.
       let output = target_file_path b t [] @ ''.one.jar''
       in rbind (ninja_build (PyStr output) ''onejar'' (PyList (map PyStr (jar @ dep_jars @ maven_jars))) [] []
                   [(''mainclass'', main_class)] [] t) (\<lambda>t.
          rbind (add_target_file ''onejar'' (PyStr output) t) (\<lambda>t. Inr (output, t)))))"

section \<open>The rules of the classes\<close>

definition generate_prebuilt_jar :: "target \<Rightarrow> (string \<times> target) result" where
  "generate_prebuilt_jar t =
     rbind (rbind (dindex (t_data t) ''binary_jar'') py_text) (\<lambda>jar.
       let var = var_name t ''jar''
       in Inr (var, write_rule (var @ '' = top_env.File(['' @ quoted jar @ ''])'') t))"

definition java_library_scons_rules :: "set_order \<Rightarrow> java_fs \<Rightarrow> target \<Rightarrow> blade \<Rightarrow> (target \<times> blade) result" where
  "java_library_scons_rules so fs t b =
     rbind (if t_type t = ''prebuilt_java_library''
            then rbind (generate_prebuilt_jar t) (\<lambda>(var, t). Inr (var, t, b))
            else rbind (java_prepare_to_generate_rule b t) (\<lambda>t. generate_jar so fs t b)) (\<lambda>(jar_var, t, b).
       if jar_var \<noteq> [] then rbind (add_default_target_var ''jar'' (PyStr jar_var) t) (\<lambda>t. Inr (t, b)) else Inr (t, b))"

definition java_library_ninja_rules :: "set_order \<Rightarrow> java_fs \<Rightarrow> target \<Rightarrow> blade \<Rightarrow> (target \<times> blade) result" where
  "java_library_ninja_rules so fs t b =
     rbind (if t_type t = ''prebuilt_java_library''
            then rbind (rbind (dindex (t_data t) ''binary_jar'') as_str) (\<lambda>jar. Inr (path_join (b_root_dir b) jar, t, b))
            else ninja_generate_jar so fs t b) (\<lambda>(jar, t, b).
       if jar \<noteq> [] then rbind (add_default_target_file ''jar'' (PyStr jar) t) (\<lambda>t. Inr (t, b)) else Inr (t, b))"

definition scons_pack :: "nat \<Rightarrow> set_order \<Rightarrow> java_fs \<Rightarrow> target \<Rightarrow> blade \<Rightarrow> (string list \<times> string list \<times> target \<times> blade) result" where
  "scons_pack n so fs t b =
     rbind (java_prepare_to_generate_rule b t) (\<lambda>t.
     rbind (generate_jar so fs t b) (\<lambda>(_, t, b).
     rbind (ninja_pack_jars n so fs b t) (\<lambda>(dep_jar_vars, dep_jars). Inr (dep_jar_vars, dep_jars, t, b))))"

definition java_binary_scons_rules :: "nat \<Rightarrow> set_order \<Rightarrow> java_fs \<Rightarrow> target \<Rightarrow> blade \<Rightarrow> (target \<times> blade) result" where
  "java_binary_scons_rules n so fs t b =
     rbind (scons_pack n so fs t b) (\<lambda>(dep_jar_vars, dep_jars, t, b).
     rbind (generate_one_jar b dep_jar_vars dep_jars t) (\<lambda>(onejar, t).
     rbind (generate_wrapper b onejar t) (\<lambda>t. Inr (t, b))))"

definition java_binary_ninja_rules :: "nat \<Rightarrow> set_order \<Rightarrow> java_fs \<Rightarrow> target \<Rightarrow> blade \<Rightarrow> (target \<times> blade) result" where
  "java_binary_ninja_rules n so fs t b =
     rbind (ninja_generate_jar so fs t b) (\<lambda>(_, t, b).
     rbind (ninja_pack_jars n so fs b t) (\<lambda>(dep_jars, maven_jars).
     rbind (ninja_generate_one_jar b dep_jars maven_jars t) (\<lambda>(onejar, t).
       let output = target_file_path b t []
       in rbind (ninja_build (PyStr output) ''javabinary'' (PyStr onejar) [] [] [] [] t) (\<lambda>t.
          rbind (add_default_target_file ''bin'' (PyStr output) t) (\<lambda>t. Inr (t, b))))))"

definition java_fat_library_scons_rules :: "nat \<Rightarrow> set_order \<Rightarrow> java_fs \<Rightarrow> target \<Rightarrow> blade \<Rightarrow> (target \<times> blade) result" where
  "java_fat_library_scons_rules n so fs t b =
     rbind (scons_pack n so fs t b) (\<lambda>(dep_jar_vars, dep_jars, t, b).
     rbind (generate_fat_jar b dep_jar_vars dep_jars t) (\<lambda>(var, t).
     rbind (add_default_target_var ''fatjar'' (PyStr var) t) (\<lambda>t. Inr (t, b))))"

definition java_fat_library_ninja_rules :: "nat \<Rightarrow> set_order \<Rightarrow> java_fs \<Rightarrow> target \<Rightarrow> blade \<Rightarrow> (target \<times> blade) result" where
  "java_fat_library_ninja_rules n so fs t b =
     rbind (ninja_generate_fat_jar n so fs t b) (\<lambda>(jar, t, b).
     rbind (add_default_target_file ''fatjar'' (PyStr jar) t) (\<lambda>t. Inr (t, b)))"

definition tested_packages :: "java_fs \<Rightarrow> blade \<Rightarrow> target \<Rightarrow> string list option result" where
  "tested_packages fs b t =
     (let v = get_data t ''target_under_test'' PyNone
      in if truthy v
         then rbind (key_of_py v) (\<lambda>k. rbind (dindex (b_target_database b) k) (\<lambda>u. Inr (Some (get_java_package_name fs u))))
         else Inr None)"

definition generate_java_test :: "blade \<Rightarrow> string list \<Rightarrow> string list \<Rightarrow> target \<Rightarrow> target result" where
  "generate_java_test b dep_jar_vars dep_jars t =
     rbind (own_jar (get_target_var t ''jar'')) (\<lambda>jar.
       if jar \<noteq> [] then
         rbind (rbind (dindex (t_data t) ''main_class'') py_text) (\<lambda>main_class.
           Inr (env_rule (\<lambda>e. var_name t [] @ '' = '' @ e @ ''.JavaTest(target='' @ quoted (target_file_path b t []) @
                  '', source=[Value('' @ quoted main_class @ '')] + ['' @ hd jar @ ''] + ['' @
                  join_with '','' dep_jar_vars @ ''] + '' @ repr_strs dep_jars @ '')'') t))
       else Inr t)"

definition java_test_scons_rules :: "set_order \<Rightarrow> java_fs \<Rightarrow> target \<Rightarrow> blade \<Rightarrow> (target \<times> blade) result" where
  "java_test_scons_rules so fs t b =
     rbind (java_prepare_to_generate_rule b t) (\<lambda>t.
     rbind (tested_packages fs b t) (\<lambda>packages.
       let t = (case packages of
                  None \<Rightarrow> t | Some ps \<Rightarrow> env_rule (\<lambda>e. e @ ''.Append(JAVATARGETUNDERTESTPKG='' @ repr_strs ps @ '')'') t)
       in rbind (generate_jar so fs t b) (\<lambda>(_, t, b).
          rbind (get_test_deps so (jf_exists fs) b t) (\<lambda>(dep_jar_vars, dep_jars).
          rbind (generate_java_test b dep_jar_vars dep_jars t) (\<lambda>t. Inr (t, b))))))"

definition ninja_java_test_vars :: "java_fs \<Rightarrow> blade \<Rightarrow> target \<Rightarrow> (string, string) dict result" where
  "ninja_java_test_vars fs b t =
     rbind (rbind (dindex (t_data t) ''main_class'') py_text) (\<lambda>main_class.
     rbind (tested_packages fs b t) (\<lambda>packages.
       Inr (case packages of
              Some (p # ps) \<Rightarrow> [(''mainclass'', main_class), (''javatargetundertestpkg'', join_with '':'' (p # ps))]
            | _ \<Rightarrow> [(''mainclass'', main_class)])))"

definition java_test_ninja_rules :: "set_order \<Rightarrow> java_fs \<Rightarrow> target \<Rightarrow> blade \<Rightarrow> (target \<times> blade) result" where
  "java_test_ninja_rules so fs t b =
     (if t_srcs t = [] then Inr (t, say (Warn (t_fullname t @ '': Empty java test sources.'')) b)
      else
        rbind (ninja_java_test_vars fs b t) (\<lambda>vars.
        rbind (ninja_generate_jar so fs t b) (\<lambda>(jar, t, b).
        rbind (get_test_deps so (jf_exists fs) b t) (\<lambda>(dep_jars, maven_jars).
        rbind (ninja_build (PyStr (target_file_path b t [])) ''javatest'' (PyList (map PyStr (jar # dep_jars @ maven_jars)))
                 [] [] (dict_order so vars) [] t) (\<lambda>t. Inr (t, b))))))"

end
