(* ===== verification/Gen_Rule.thy ===== *)
theory Gen_Rule
  imports Java_Targets Manager
begin

text \<open>
  User defined rules, \<open>src/blade/gen_rule_target.py\<close>: the command with its location references, and the rules for
  the SCons, Ninja and Make back ends.
\<close>

section \<open>Strings\<close>

text \<open>
  \<open>template % tuple(args)\<close> with text arguments: \<open>%s\<close> takes the next argument, \<open>%%\<close> is a
  percent sign. The other conversions are not modelled and count as errors.
\<close>

fun percent :: "string \<Rightarrow> string list \<Rightarrow> string result" where
  "percent [] args = (if args = [] then Inr [] else Inl TypeError)"
| "percent (c # cs) args =
     (if c \<noteq> CHR ''%'' then rbind (percent cs args) (\<lambda>r. Inr (c # r))
      else case cs of
             [] \<Rightarrow> Inl ValueError
           | d # ds \<Rightarrow>
               if d = CHR ''s'' then
                 (case args of [] \<Rightarrow> Inl TypeError | a # as \<Rightarrow> rbind (percent ds as) (\<lambda>r. Inr (a @ r)))
               else if d = CHR ''%'' then rbind (percent ds args) (\<lambda>r. Inr (CHR ''%'' # r))
               else Inl (PyException ''conversion''))"

section \<open>Constructor\<close>

definition process_location_reference ::
  "string \<times> string option \<Rightarrow> (key \<times> string) list \<times> target \<times> blade \<Rightarrow> ((key \<times> string) list \<times> target \<times> blade) result" where
  "process_location_reference m st =
     (case st of (locations, t, b) \<Rightarrow>
        rbind (add_location_reference_target (Some m) t b) (\<lambda>(ref, t, b).
          Inr (case ref of Some r \<Rightarrow> locations @ [r] | None \<Rightarrow> locations, t, b)))"

definition py_reference :: "key \<times> string \<Rightarrow> pyval" where
  "py_reference r = PyTuple [py_key (fst r), PyStr (snd r)]"

fun reference_of_py :: "pyval \<Rightarrow> (key \<times> string) result" where
  "reference_of_py (PyTuple [k, PyStr type]) = rbind (key_of_py k) (\<lambda>k. Inr (k, type))"
| "reference_of_py _ = Inl TypeError"

definition gen_rule_init ::
  "string \<Rightarrow> pyval \<Rightarrow> pyval \<Rightarrow> pyval \<Rightarrow> string \<Rightarrow> (string, pyval) dict \<Rightarrow> blade \<Rightarrow> (target \<times> blade) result" where
  "gen_rule_init name srcs deps outs cmd kwargs b =
     rbind (as_strs srcs) (\<lambda>srcs.
     rbind (as_strs deps) (\<lambda>deps.
     rbind (target_init GenRuleC name ''gen_rule'' srcs deps PyNone kwargs b) (\<lambda>(t, b).
       let t = set_data ''outs'' (PyList (var_to_list outs)) t;
           (pieces, refs) = location_pieces cmd
       in rbind (rfold process_location_reference refs ([], t, b)) (\<lambda>(locations, t, b).
            Inr (set_data ''cmd'' (PyStr (join_with ''%s'' pieces))
                   (set_data ''locations'' (PyList (map py_reference locations)) t), b)))))"

definition gen_rule ::
  "string \<Rightarrow> pyval \<Rightarrow> pyval \<Rightarrow> pyval \<Rightarrow> string \<Rightarrow> (string, pyval) dict \<Rightarrow> blade \<Rightarrow> blade result" where
  "gen_rule name srcs deps outs cmd kwargs b = register_new (gen_rule_init name srcs deps outs cmd kwargs b)"

section \<open>Data of the target\<close>

definition rule_outs :: "target \<Rightarrow> string list result" where
  "rule_outs t = rbind (dindex (t_data t) ''outs'') as_strs"

definition rule_cmd :: "target \<Rightarrow> string result" where
  "rule_cmd t = rbind (dindex (t_data t) ''cmd'') as_str"

definition rule_locations :: "target \<Rightarrow> (key \<times> string) list result" where
  "rule_locations t =
     rbind (dindex (t_data t) ''locations'') (\<lambda>v. case v of PyList vs \<Rightarrow> rmap reference_of_py vs | _ \<Rightarrow> Inl TypeError)"

definition invalid_location :: "target \<Rightarrow> key \<Rightarrow> string \<Rightarrow> py_error" where
  "invalid_location t k type =
     SystemExit (t_fullname t @ '': Invalid location reference '' @ join_with '':'' [fst k, snd k] @ '' '' @ type)"

text \<open>The output of another target that a reference stands for.\<close>

definition location_output ::
  "(target \<Rightarrow> string \<Rightarrow> pyval result) \<Rightarrow> blade \<Rightarrow> target \<Rightarrow> key \<times> string \<Rightarrow> string result" where
  "location_output output b t r =
     (case r of (k, type) \<Rightarrow>
        rbind (build_target b k) (\<lambda>u.
        rbind (output u type) (\<lambda>v. if truthy v then py_text v else Inl (invalid_location t k type))))"

section \<open>Rules\<close>

definition gen_srcs_list :: "blade \<Rightarrow> string \<Rightarrow> string list \<Rightarrow> string" where
  "gen_srcs_list b path srcs = join_with '','' (map (\<lambda>src. quoted (path_join3 (b_build_path b) path src)) srcs)"

definition replace_vars :: "(string \<times> string) list \<Rightarrow> string \<Rightarrow> string" where
  "replace_vars rs cmd = fold (\<lambda>(old, new). replace_str old new) rs cmd"

definition scons_vars :: "blade \<Rightarrow> (string \<times> string) list" where
  "scons_vars b =
     [(''$SRCS'', ''$SOURCES''), (''$OUTS'', ''$TARGETS''), (''$FIRST_SRC'', ''$SOURCE''), (''$FIRST_OUT'', ''$TARGET''),
      (''$BUILD_DIR'', b_build_path b)]"

definition gen_dep_vars :: "blade \<Rightarrow> key \<Rightarrow> string list \<Rightarrow> string list result" where
  "gen_dep_vars b k vars =
     rbind (build_target b k) (\<lambda>dep.
       if t_type dep \<in> {''system_library'', ''prebuilt_cc_library''} then Inr vars
       else if t_type dep = ''swig_library'' then Inr (vars @ [var_name dep ''dynamic_py'', var_name dep ''dynamic_java''])
       else rbind (get_target_vars dep) (\<lambda>vs. rbind (rmap py_text vs) (\<lambda>vs. Inr (vars @ vs))))"

definition add_numbered ::
  "(string \<Rightarrow> pyval \<Rightarrow> target \<Rightarrow> target result) \<Rightarrow> string list \<Rightarrow> target \<Rightarrow> target result" where
  "add_numbered add outputs t =
     rfold (\<lambda>(i, out) t. add (show_nat i) (PyStr out) t) (zip [0..<length outputs] outputs) t"

definition gen_rule_scons_rules :: "target \<Rightarrow> blade \<Rightarrow> target result" where
  "gen_rule_scons_rules t b =
     (case env_name (clone_env t) of (e, t) \<Rightarrow>
        let var = var_name t [];
            srcs_str = (if t_srcs t \<noteq> [] then gen_srcs_list b (t_path t) (t_srcs t)
                        else if t_expanded_deps t \<noteq> [] then [] else ''time_value'')
        in rbind (rule_cmd t) (\<lambda>cmd.
           rbind (rule_locations t) (\<lambda>locations.
           rbind (rmap (location_output get_target_var b t) locations) (\<lambda>target_vars.
           rbind (rule_outs t) (\<lambda>outs.
             let cmd = quoted (replace_vars (scons_vars b) cmd) @
                       (if locations \<noteq> []
                        then '' % ('' @ join_with '','' (map (\<lambda>v. ''str('' @ v @ ''[0])'') target_vars) @ '')'' else []);
                 t = write_rule (var @ '' = '' @ e @ ''.Command(['' @ gen_srcs_list b (t_path t) outs @ ''], ['' @ srcs_str @
                       ''], ['' @ cmd @ '', '' @ quoted ''@ls $TARGETS > /dev/null'' @ ''])'') t
             in rbind (add_numbered add_target_var
                         (map (\<lambda>i. var @ ''['' @ show_nat i @ '']'') [0..<length outs]) t) (\<lambda>t.
                rbind (rfold (gen_dep_vars b) (t_expanded_deps t) []) (\<lambda>dep_vars.
                  Inr (write_rules (map (\<lambda>v. e @ ''.Depends('' @ var @ '', '' @ v @ '')'') dep_vars) t))))))))"

definition ninja_vars :: "blade \<Rightarrow> (string \<times> string) list" where
  "ninja_vars b =
     [(''$SRCS'', ''${in}''), (''$OUTS'', ''${out}''), (''$FIRST_SRC'', ''${_in_1}''), (''$FIRST_OUT'', ''${_out_1}''),
      (''$BUILD_DIR'', b_build_path b)]"

definition with_locations :: "blade \<Rightarrow> target \<Rightarrow> string \<Rightarrow> string result" where
  "with_locations b t cmd =
     rbind (rule_locations t) (\<lambda>locations.
       if locations \<noteq> []
       then rbind (rmap (location_output get_target_file b t) locations) (percent cmd)
       else Inr cmd)"

definition ninja_command :: "blade \<Rightarrow> target \<Rightarrow> string result" where
  "ninja_command b t = rbind (rule_cmd t) (\<lambda>cmd. with_locations b t (replace_vars (ninja_vars b) cmd))"

definition make_command :: "blade \<Rightarrow> target \<Rightarrow> string result" where
  "make_command b t = rbind (rule_cmd t) (with_locations b t)"

definition implicit_dependencies :: "blade \<Rightarrow> target \<Rightarrow> pyval list result" where
  "implicit_dependencies b t =
     rfold (\<lambda>dep deps. rbind (build_target b dep) (\<lambda>u. rbind (get_target_files u) (\<lambda>fs. Inr (deps @ fs))))
       (t_expanded_deps t) []"

text \<open>\<open>purple\<close> and \<open>end_color\<close> are what \<open>console.colors\<close> returns.\<close>

definition gen_rule_ninja_rules :: "string \<Rightarrow> string \<Rightarrow> set_order \<Rightarrow> target \<Rightarrow> blade \<Rightarrow> target result" where
  "gen_rule_ninja_rules purple end_color so t b =
     (let rule = regular_variable_name (source_file_path t (t_name t)) @ ''__rule__''
      in rbind (ninja_command b t) (\<lambda>cmd.
         let description = purple @ ''COMMAND //'' @ t_fullname t @ end_color;
             t = write_rule (''rule '' @ rule @ [newline] @ ''  command = '' @ cmd @ '' && cd '' @ b_root_dir b @
                   '' && ls ${out} > /dev/null'' @ [newline] @ ''  description = '' @ description @ [newline]) t
         in rbind (rule_outs t) (\<lambda>outs.
              let outputs = map (target_file_path b t) outs;
                  inputs = map (source_file_path t) (t_srcs t)
              in rbind (if str_in ''${_in_1}'' cmd
                        then (case inputs of [] \<Rightarrow> Inl IndexError | i # _ \<Rightarrow> Inr [(''_in_1'', i)]) else Inr []) (\<lambda>vars.
                 rbind (if str_in ''${_out_1}'' cmd
                        then (case outputs of [] \<Rightarrow> Inl IndexError | out # _ \<Rightarrow> Inr (vars @ [(''_out_1'', out)])) else Inr vars) (\<lambda>vars.
                 rbind (implicit_dependencies b t) (\<lambda>deps.
                 rbind (ninja_build (PyList (map PyStr outputs)) rule (PyList (map PyStr inputs)) deps [] (dict_order so vars) [] t)
                   (add_numbered add_target_file outputs)))))))"

definition gen_rule_make_rules :: "target \<Rightarrow> blade \<Rightarrow> target result" where
  "gen_rule_make_rules t b =
     (let rule = regular_variable_name (source_file_path t (t_name t))
      in rbind (make_command b t) (\<lambda>cmd.
         rbind (rule_outs t) (\<lambda>outs.
           let outputs = map (target_file_path b t) outs;
               inputs = map (source_file_path t) (t_srcs t)
           in rbind (implicit_dependencies b t) (\<lambda>deps.
              rbind (make_build (PyList (map PyStr outputs)) rule (PyList (map PyStr inputs)) deps [] [] t)
                (add_numbered add_target_file outputs)))))"

end
