(* ===== verification/Gen_Rule_Facts.thy ===== *)
theory Gen_Rule_Facts
  imports Gen_Rule Manager_Facts
begin

text \<open>
  The command of a user defined rule: storing it as a format string and formatting it later is
  equivalent to replacing the location references directly, as long as there is no percent
  sign. Under the Make back end the command is never written.
\<close>

section \<open>Replacement and formatting\<close>

abbreviation percent_sign :: char where "percent_sign \<equiv> CHR ''%''"

lemma startswith_mark:
  assumes "percent_sign \<notin> set old"
  shows "startswith (a @ percent_sign # r) old = startswith a old"
proof
  assume "startswith (a @ percent_sign # r) old"
  then obtain u where u: "a @ percent_sign # r = old @ u" by (auto simp: startswith_iff)
  then obtain us where "a = old @ us \<or> a @ us = old \<and> percent_sign # r = us @ u"
    by (auto simp: append_eq_append_conv2)
  then show "startswith a old"
    using assms by (cases us) (auto simp: startswith_iff)
qed (auto simp: startswith_iff)

lemma replace_str_mark:
  assumes "percent_sign \<notin> set old" and "old \<noteq> []"
  shows "replace_str old new (a @ percent_sign # r) = replace_str old new a @ replace_str old new (percent_sign # r)"
  using assms
proof (induction a rule: length_induct)
  case (1 a)
  show ?case
  proof (cases "startswith a old")
    case True
    then obtain u where a: "a = old @ u" by (auto simp: startswith_iff)
    have "replace_str old new (u @ percent_sign # r) = replace_str old new u @ replace_str old new (percent_sign # r)"
      using 1 a by simp
    moreover have "replace_str old new a = new @ replace_str old new u"
      using True a 1(3) by (subst replace_str.simps) simp
    moreover have "replace_str old new (a @ percent_sign # r) = new @ replace_str old new (u @ percent_sign # r)"
      using True a 1(2,3) startswith_mark [of old a r] by (subst replace_str.simps) simp
    ultimately show ?thesis by simp
  next
    case False
    then have no: "\<not> startswith (a @ percent_sign # r) old" using 1(2) startswith_mark by simp
    show ?thesis
    proof (cases a)
      case Nil
      then show ?thesis using False by (subst (2) replace_str.simps) simp
    next
      case (Cons c cs)
      have "replace_str old new (cs @ percent_sign # r) = replace_str old new cs @ replace_str old new (percent_sign # r)"
        using 1 Cons by simp
      then show ?thesis
        using Cons False no by (subst (1 2) replace_str.simps) simp
    qed
  qed
qed

lemma replace_str_skip:
  assumes "old = CHR ''$'' # o'" and "c \<noteq> CHR ''$''"
  shows "replace_str old new (c # s) = c # replace_str old new s"
  using assms by (subst replace_str.simps) (simp add: startswith_iff)

text \<open>A replacement of a variable works on the pieces of a format string.\<close>

definition var_replacement :: "string \<times> string \<Rightarrow> bool" where
  "var_replacement r \<longleftrightarrow> fst r \<noteq> [] \<and> hd (fst r) = CHR ''$'' \<and> percent_sign \<notin> set (fst r) \<and> percent_sign \<notin> set (snd r)"

lemma replace_str_pieces:
  assumes "var_replacement (old, new)" and "ps \<noteq> []"
  shows "replace_str old new (join_with ''%s'' ps) = join_with ''%s'' (map (replace_str old new) ps)"
  using assms(2)
proof (induction ps rule: induct_list012)
  case (3 p q ps)
  have d: "old = CHR ''$'' # tl old" "percent_sign \<notin> set old" "old \<noteq> []"
    using assms(1) by (cases old; simp add: var_replacement_def)+
  have "replace_str old new (p @ percent_sign # CHR ''s'' # join_with ''%s'' (q # ps)) =
    replace_str old new p @ ''%s'' @ replace_str old new (join_with ''%s'' (q # ps))"
    by (simp add: replace_str_mark [OF d(2,3)] replace_str_skip [OF d(1)])
  then show ?case using 3 by simp
qed simp_all

lemma replace_str_no_mark:
  assumes "var_replacement (old, new)" and "percent_sign \<notin> set s"
  shows "percent_sign \<notin> set (replace_str old new s)"
  using assms(2)
proof (induction s rule: length_induct)
  case (1 s)
  have old: "old \<noteq> []" "percent_sign \<notin> set new" using assms(1) by (simp_all add: var_replacement_def)
  show ?case
  proof (cases "startswith s old")
    case True
    then obtain u where "s = old @ u" by (auto simp: startswith_iff)
    then show ?thesis using True 1 old by (subst replace_str.simps) simp
  next
    case False
    then show ?thesis using 1 by (subst replace_str.simps) (auto split: list.splits)
  qed
qed

lemma replace_vars_pieces:
  assumes "list_all var_replacement rs" and "ps \<noteq> []"
  shows "replace_vars rs (join_with ''%s'' ps) = join_with ''%s'' (map (replace_vars rs) ps)"
  using assms
proof (induction rs arbitrary: ps)
  case (Cons r rs)
  have r: "var_replacement (fst r, snd r)" using Cons.prems by simp
  show ?case
    using Cons.IH [of "map (replace_str (fst r) (snd r)) ps"] Cons.prems replace_str_pieces [OF r Cons.prems(2)]
    by (simp add: replace_vars_def case_prod_beta comp_def)
qed (simp add: replace_vars_def map_idI)

lemma replace_vars_no_mark:
  "list_all var_replacement rs \<Longrightarrow> percent_sign \<notin> set s \<Longrightarrow> percent_sign \<notin> set (replace_vars rs s)"
proof (induction rs arbitrary: s)
  case (Cons r rs)
  then show ?case
    using replace_str_no_mark [of "fst r" "snd r" s] by (simp add: replace_vars_def case_prod_beta)
qed (simp add: replace_vars_def)

lemma percent_text: "percent_sign \<notin> set p \<Longrightarrow> percent (p @ s) args = rbind (percent s args) (\<lambda>r. Inr (p @ r))"
proof (induction p)
  case Nil
  show ?case by (cases "percent s args") simp_all
next
  case (Cons c p)
  then show ?case by (cases "percent s args") auto
qed

lemma percent_pieces:
  assumes "list_all (\<lambda>p. percent_sign \<notin> set p) ps" and "length ps = Suc (length args)"
  shows "percent (join_with ''%s'' ps) args = Inr (interleave ps args)"
  using assms
proof (induction ps arbitrary: args rule: induct_list012)
  case (2 p)
  then show ?case using percent_text [of p "[]" "[]"] by simp
next
  case (3 p q ps)
  obtain a as where a: "args = a # as" using 3(4) by (cases args) auto
  have "percent (join_with ''%s'' (q # ps)) as = Inr (interleave (q # ps) as)"
    using 3 a by simp
  then show ?case using 3(3) a percent_text [of p "''%s'' @ join_with ''%s'' (q # ps)"] by simp
qed simp

section \<open>Pieces of a command\<close>

lemma location_type_chars: "location_type s = Some (g, r) \<Longrightarrow> set r \<subseteq> set s"
  by (auto simp: location_type_def Let_def split: if_splits dest!: in_set_dropD set_dropWhileD)

lemma location_at_chars:
  assumes "location_at s = Some (m, r)"
  shows "set r \<subseteq> set s"
proof -
  let ?body = "dropWhile is_space (drop 10 s)"
  have body: "set ?body \<subseteq> set s" by (auto dest!: set_dropWhileD in_set_dropD)
  consider (type) g where "location_type (dropWhile (\<lambda>c. \<not> is_space c) ?body) = Some (g, r)"
    | (plain) e where "r = drop (Suc e) ?body"
    using assms by (auto simp: location_at_def Let_def split: if_splits list.splits)
  then show ?thesis
  proof cases
    case type
    then show ?thesis using location_type_chars [OF type] body by (auto dest!: set_dropWhileD)
  next
    case plain
    then show ?thesis using body by (auto dest: in_set_dropD)
  qed
qed

lemma location_pieces_chars: "p \<in> set (fst (location_pieces s)) \<Longrightarrow> set p \<subseteq> set s"
proof (induction s arbitrary: p rule: length_induct)
  case (1 s)
  have ne: "fst (location_pieces u) \<noteq> []" for u using location_pieces_length [of u] by auto
  show ?case
  proof (cases "location_at s")
    case None
    show ?thesis
    proof (cases s)
      case Nil
      then show ?thesis using 1(2) None by (subst (asm) location_pieces.simps) simp
    next
      case (Cons c cs)
      then have "p = c # hd (fst (location_pieces cs)) \<or> p \<in> set (tl (fst (location_pieces cs)))"
        using 1(2) None by (subst (asm) location_pieces.simps) (auto split: prod.splits)
      then show ?thesis
        using 1(1) Cons ne [of cs] by (auto dest!: list.set_sel(2) [OF ne] simp: subset_iff)
          (meson hd_in_set length_Cons lessI subsetD)
    qed
  next
    case (Some a)
    obtain m r where a: "a = (m, r)" by (cases a)
    then have "p = [] \<or> p \<in> set (fst (location_pieces r))"
      using 1(2) Some by (subst (asm) location_pieces.simps) (auto split: prod.splits)
    then show ?thesis
      using 1(1) location_at_length location_at_chars Some a by fastforce
  qed
qed

section \<open>The constructor\<close>

text \<open>
  The key and the type a location reference means in a BUILD file of the directory \<open>path\<close>: a function of
  the two groups of the match alone.
\<close>

definition location_meaning :: "string \<Rightarrow> string \<times> string option \<Rightarrow> (key \<times> string) option" where
  "location_meaning path m =
     map_option (\<lambda>k. (k, strip (case snd m of None \<Rightarrow> [] | Some s \<Rightarrow> s))) (dep_key path (fst m))"

lemma process_reference:
  assumes "process_location_reference m (locs, t, b) = Inr st"
  obtains r b' where "location_meaning (t_path t) m = Some r" and "st = (locs @ [r], add_dep (fst r) t, b')"
proof -
  obtain ref type where m: "m = (ref, type)" by (cases m)
  then obtain k b' where k: "unify_dep t ref b = Inr (k, b')"
    and st: "st = (locs @ [(k, strip (case type of None \<Rightarrow> [] | Some s \<Rightarrow> s))], add_dep k t, b')"
    using assms by (auto simp: process_location_reference_def add_location_reference_target_def rbind_eq_Inr)
  then show thesis using that m unify_dep_ok(1) [OF k] by (simp add: location_meaning_def)
qed

lemma references_meaning:
  "rfold process_location_reference refs (locs, t, b) = Inr (locs', t', b') \<Longrightarrow>
     t_path t' = t_path t \<and> map Some locs' = map Some locs @ map (location_meaning (t_path t)) refs"
proof (induction refs arbitrary: locs t b)
  case (Cons m refs)
  obtain st where st: "process_location_reference m (locs, t, b) = Inr st"
    and rest: "rfold process_location_reference refs st = Inr (locs', t', b')"
    using Cons.prems by (auto simp: rbind_eq_Inr)
  obtain r b1 where r: "location_meaning (t_path t) m = Some r" and "st = (locs @ [r], add_dep (fst r) t, b1)"
    by (rule process_reference [OF st])
  then show ?case using Cons.IH rest by (fastforce simp: add_dep_def)
qed simp

lemma reference_roundtrip: "reference_of_py (py_reference r) = Inr r"
  by (cases r) (simp add: py_reference_def py_key_def)

lemma gen_rule_init_data:
  assumes "gen_rule_init name srcs deps outs cmd kwargs b = Inr (t, b')"
  shows "rule_cmd t = Inr (join_with ''%s'' (fst (location_pieces cmd)))"
    and "\<exists>locs. rule_locations t = Inr locs \<and>
      map Some locs = map (location_meaning (b_current_source_path b)) (snd (location_pieces cmd))"
proof -
  obtain pieces refs where p: "location_pieces cmd = (pieces, refs)" by force
  obtain ss ds t0 b0 locs t2 b2 where i: "target_init GenRuleC name ''gen_rule'' ss ds PyNone kwargs b = Inr (t0, b0)"
    and r: "rfold process_location_reference refs ([], set_data ''outs'' (PyList (var_to_list outs)) t0, b0) = Inr (locs, t2, b2)"
    and t: "t = set_data ''cmd'' (PyStr (join_with ''%s'' pieces)) (set_data ''locations'' (PyList (map py_reference locs)) t2)"
    using assms p by (auto simp: gen_rule_init_def rbind_eq_Inr Let_def)
  show "rule_cmd t = Inr (join_with ''%s'' (fst (location_pieces cmd)))"
    by (simp add: t p rule_cmd_def set_data_def)
  have "rule_locations t = Inr locs"
    by (simp add: t rule_locations_def set_data_def rmap_eq_Inr list_all2_map1 reference_roundtrip list.rel_refl)
  moreover have "map Some locs = map (location_meaning (b_current_source_path b)) (snd (location_pieces cmd))"
    using references_meaning [OF r] target_init_path [OF i] p by (simp add: set_data_def)
  ultimately show "\<exists>locs. rule_locations t = Inr locs \<and>
      map Some locs = map (location_meaning (b_current_source_path b)) (snd (location_pieces cmd))" by blast
qed

lemma ninja_vars_ok: "percent_sign \<notin> set (b_build_path b) \<Longrightarrow> list_all var_replacement (ninja_vars b)"
  by (simp add: ninja_vars_def var_replacement_def)

lemma rmap_length: "rmap f xs = Inr ys \<Longrightarrow> length ys = length xs"
  by (auto simp: rmap_eq_Inr dest: list_all2_lengthD)

section \<open>Properties\<close>

text \<open>
  C34. The command Ninja runs for a user defined rule is the command of the BUILD file with the
  variables replaced in the texts between the location references, and the \<open>n\<close>th reference replaced
  by the output it names, although the code goes through a format string: for a command
  and a build directory without percent sign the two are equal, also in the error they end with when a
  reference names no output. The references are read off the command itself
  (\<open>location_meaning\<close>) and the reference definition works on the pieces directly and does not format.
\<close>

theorem gen_rule_command_expands:
  assumes "gen_rule_init name srcs deps outs cmd kwargs b = Inr (t, b')"
    and "percent_sign \<notin> set cmd" and "percent_sign \<notin> set (b_build_path c)"
  shows "\<exists>locs. map Some locs = map (location_meaning (b_current_source_path b)) (snd (location_pieces cmd)) \<and>
    ninja_command c t =
      rbind (rmap (location_output get_target_file c t) locs) (\<lambda>paths.
        Inr (interleave (map (replace_vars (ninja_vars c)) (fst (location_pieces cmd))) paths))"
proof -
  let ?ps = "fst (location_pieces cmd)" and ?rs = "ninja_vars c"
  note init = gen_rule_init_data [OF assms(1)]
  obtain locs where l: "rule_locations t = Inr locs"
    and m: "map Some locs = map (location_meaning (b_current_source_path b)) (snd (location_pieces cmd))"
    using init(2) by blast
  have len: "length ?ps = Suc (length locs)"
    using arg_cong [OF m, of length] location_pieces_length [of cmd] by simp
  then have ne: "?ps \<noteq> []" by auto
  have no: "list_all (\<lambda>p. percent_sign \<notin> set p) (map (replace_vars ?rs) ?ps)"
    using location_pieces_chars [of _ cmd] assms(2) replace_vars_no_mark [OF ninja_vars_ok [OF assms(3)]]
    by (fastforce simp: list_all_iff)
  have f: "percent (join_with ''%s'' (map (replace_vars ?rs) ?ps)) paths = Inr (interleave (map (replace_vars ?rs) ?ps) paths)"
    if "rmap (location_output get_target_file c t) locs = Inr paths" for paths
    using rmap_length [OF that] len by (intro percent_pieces [OF no]) simp
  have cmd: "ninja_command c t = with_locations c t (join_with ''%s'' (map (replace_vars ?rs) ?ps))"
    using init(1) replace_vars_pieces [OF ninja_vars_ok [OF assms(3)] ne] by (simp add: ninja_command_def)
  have "ninja_command c t = rbind (rmap (location_output get_target_file c t) locs) (\<lambda>paths.
      Inr (interleave (map (replace_vars ?rs) ?ps) paths))"
  proof (cases "locs = []")
    case True
    then obtain p where "?ps = [p]" using len by (cases ?ps) auto
    then show ?thesis using cmd l True by (simp add: with_locations_def)
  next
    case False
    then show ?thesis unfolding cmd with_locations_def l
      by (cases "rmap (location_output get_target_file c t) locs") (simp_all add: f)
  qed
  then show ?thesis using m by blast
qed

lemma make_build_other_rule:
  assumes "rule \<notin> {''clean'', ''static_lib'', ''object'', ''securecc'', ''securecccompile'', ''link''}"
    and "make_build outputs rule inputs deps order_only vars t = Inr t'"
  shows "t' = t"
  using assms by (auto simp: make_build_def make_statement_def format_all_def write_rules_def Let_def rbind_eq_Inr)

lemma add_numbered_rules:
  assumes "add_numbered add_target_file outputs t = Inr t'"
  shows "t_rules t' = t_rules t"
  using assms unfolding add_numbered_def
  by (rule rfold_invariant) (auto simp: add_target_file_def rbind_eq_Inr Let_def set_data_def split: if_splits)

text \<open>
  The Make back end never writes the command of a user defined rule: the method computes
  the command and then calls \<open>make_build\<close> with the name of the target as the rule, for which
  that method writes nothing. Unless the target happens to be called like one of the built-in
  rules, the rules of the target are unchanged, so that its outputs are never made.
\<close>

theorem gen_rule_make_writes_nothing:
  assumes "gen_rule_make_rules t b = Inr t'"
    and "regular_variable_name (source_file_path t (t_name t)) \<notin>
      {''clean'', ''static_lib'', ''object'', ''securecc'', ''securecccompile'', ''link''}"
  shows "t_rules t' = t_rules t"
proof -
  let ?rule = "regular_variable_name (source_file_path t (t_name t))"
  obtain outs deps u where
    m: "make_build (PyList (map PyStr (map (target_file_path b t) outs))) ?rule
      (PyList (map PyStr (map (source_file_path t) (t_srcs t)))) deps [] [] t = Inr u"
    and n: "add_numbered add_target_file (map (target_file_path b t) outs) u = Inr t'"
    using assms(1) by (auto simp: gen_rule_make_rules_def rbind_eq_Inr Let_def)
  have "u = t" by (rule make_build_other_rule [OF assms(2) m])
  then show ?thesis using add_numbered_rules [OF n] by simp
qed

section \<open>Examples\<close>

definition sample_gen_cmd :: string where
  "sample_gen_cmd = ''cp $(location :x bin) $OUTS''"

definition sample_gen_init :: "(target \<times> blade) result" where
  "sample_gen_init = gen_rule_init ''g'' (PyList []) (PyList []) (PyStr ''o'') sample_gen_cmd [] sample_blade"

definition sample_gen :: target where
  "sample_gen = (case sample_gen_init of Inr (t, _) \<Rightarrow> t | Inl _ \<Rightarrow> sample_library ''g'' [])"

text \<open>The manager when the rule of the command is written: its dependency has an output.\<close>

definition sample_gen_blade :: blade where
  "sample_gen_blade =
     (let x = (sample_library ''x'' [])\<lparr>t_data := [(''targets'', PyDict [(''bin'', PyStr ''build/app/x'')]), (''default_target'', PyStr [])]\<rparr>
      in sample_blade\<lparr>b_target_database := [((''app'', ''x''), x)], b_build_targets := [(''app'', ''x'')]\<rparr>)"

theorem gen_rule_command_expands_witness:
  "ninja_command sample_gen_blade sample_gen = Inr ''cp build/app/x ${out}''"
proof -
  have "is_ok sample_gen_init" by code_simp
  then obtain b' where i: "gen_rule_init ''g'' (PyList []) (PyList []) (PyStr ''o'') sample_gen_cmd [] sample_blade = Inr (sample_gen, b')"
    by (cases sample_gen_init) (auto simp: is_ok_def sample_gen_def sample_gen_init_def)
  have "percent_sign \<notin> set sample_gen_cmd" "percent_sign \<notin> set (b_build_path sample_gen_blade)" by code_simp+
  from gen_rule_command_expands [OF i this]
  obtain locs where m: "map Some locs = map (location_meaning (b_current_source_path sample_blade)) (snd (location_pieces sample_gen_cmd))"
    and n: "ninja_command sample_gen_blade sample_gen = rbind (rmap (location_output get_target_file sample_gen_blade sample_gen) locs)
      (\<lambda>paths. Inr (interleave (map (replace_vars (ninja_vars sample_gen_blade)) (fst (location_pieces sample_gen_cmd))) paths))"
    by blast
  have "map (location_meaning (b_current_source_path sample_blade)) (snd (location_pieces sample_gen_cmd)) = [Some ((''app'', ''x''), ''bin'')]"
    by code_simp
  with m have "locs = [((''app'', ''x''), ''bin'')]" by (cases locs) simp_all
  moreover have "rbind (rmap (location_output get_target_file sample_gen_blade sample_gen) [((''app'', ''x''), ''bin'')])
      (\<lambda>paths. Inr (interleave (map (replace_vars (ninja_vars sample_gen_blade)) (fst (location_pieces sample_gen_cmd))) paths)) =
    Inr ''cp build/app/x ${out}''" by code_simp
  ultimately show ?thesis using n by (simp only:)
qed

theorem gen_rule_make_writes_nothing_witness:
  "\<exists>t'. gen_rule_make_rules sample_gen sample_gen_blade = Inr t' \<and> t_rules t' = []"
proof -
  let ?r = "gen_rule_make_rules sample_gen sample_gen_blade"
  have "is_ok ?r" by code_simp
  then obtain t' where r: "?r = Inr t'" by (cases ?r) (auto simp: is_ok_def)
  have "t_rules t' = t_rules sample_gen" by (rule gen_rule_make_writes_nothing [OF r]) code_simp
  moreover have "t_rules sample_gen = []" by code_simp
  ultimately show ?thesis using r by simp
qed

text \<open>A percent sign in a command with a location reference is taken for a conversion.\<close>

lemma percent_sign_in_command: "percent ''echo 100% > %s'' [''build/app/x''] \<noteq> Inr ''echo 100% > build/app/x''"
  by code_simp

end
