(* ===== verification/Cc_Targets.thy ===== *)
theory Cc_Targets
  imports Gen_Rule
begin

text \<open>
  The base class of the C++ targets, \<open>CcTarget\<close> of \<open>src/blade/cc_targets.py\<close>: the constructor with its checks,
  compiler flags and include directories, prebuilt libraries, the lists of libraries to link,
  and the dependencies that generate header files.

  The lists of a target are values in the model. Where the code changes a list through an
  alias inside one object, the change is written out; a list that a BUILD file passes to two targets is two lists in
  the model.
\<close>

section \<open>Constructor\<close>

text \<open>The arguments that all C++ rules of a BUILD file share.\<close>

record cc_args =
  ca_name :: string
  ca_srcs :: pyval
  ca_deps :: pyval
  ca_visibility :: pyval
  ca_warning :: pyval
  ca_defs :: pyval
  ca_incs :: pyval
  ca_export_incs :: pyval
  ca_optimize :: pyval
  ca_extra_cppflags :: pyval
  ca_extra_linkflags :: pyval
  ca_kwargs :: "(string, pyval) dict"

definition incs_to_fullpath :: "target \<Rightarrow> string list \<Rightarrow> string list" where
  "incs_to_fullpath t incs = map (\<lambda>inc. normpath (path_join (t_path t) inc)) incs"

definition cxx_keyword_list :: "string list" where
  "cxx_keyword_list =
     [''and'', ''and_eq'', ''alignas'', ''alignof'', ''asm'', ''auto'',
      ''bitand'', ''bitor'', ''bool'', ''break'', ''case'', ''catch'',
      ''char'', ''char16_t'', ''char32_t'', ''class'', ''compl'', ''const'',
      ''constexpr'', ''const_cast'', ''continue'', ''decltype'', ''default'',
      ''delete'', ''double'', ''dynamic_cast'', ''else'', ''enum'',
      ''explicit'', ''export'', ''extern'', ''false'', ''float'', ''for'',
      ''friend'', ''goto'', ''if'', ''inline'', ''int'', ''long'', ''mutable'',
      ''namespace'', ''new'', ''noexcept'', ''not'', ''not_eq'', ''nullptr'',
      ''operator'', ''or'', ''or_eq'', ''private'', ''protected'', ''public'',
      ''register'', ''reinterpret_cast'', ''return'', ''short'', ''signed'',
      ''sizeof'', ''static'', ''static_assert'', ''static_cast'', ''struct'',
      ''switch'', ''template'', ''this'', ''thread_local'', ''throw'',
      ''true'', ''try'', ''typedef'', ''typeid'', ''typename'', ''union'',
      ''unsigned'', ''using'', ''virtual'', ''void'', ''volatile'', ''wchar_t'',
      ''while'', ''xor'', ''xor_eq'']"

definition check_def :: "string \<Rightarrow> blade \<Rightarrow> blade" where
  "check_def macro b =
     (let macro = (case str_find macro ''='' of None \<Rightarrow> macro | Some pos \<Rightarrow> take pos macro)
      in if macro \<in> set cxx_keyword_list then say (Warn (''DO NOT define c++ keyword '' @ macro @ '' as macro'')) b else b)"

definition check_defs :: "target \<Rightarrow> blade \<Rightarrow> blade result" where
  "check_defs t b = rbind (data_strs t ''defs'') (\<lambda>defs. Inr (fold check_def defs b))"

definition sources_keyword_list :: "string list" where
  "sources_keyword_list = [''thirdparty'']"

definition check_incorrect_no_warning :: "target \<Rightarrow> blade \<Rightarrow> blade" where
  "check_incorrect_no_warning t b =
     (if t_srcs t = [] \<or> get_data t ''warning'' (PyStr ''yes'') \<noteq> PyStr ''no'' then b
      else if list_ex (\<lambda>keyword. str_in keyword (t_path t)) sources_keyword_list then b
      else
        let illegal = concat (map (\<lambda>keyword. filter (\<lambda>s. \<not> str_in keyword s) (t_srcs t)) sources_keyword_list)
        in if illegal \<noteq> []
           then say (Warn (''//'' @ t_fullname t @ '': warning='no' should only be used for code in thirdparty.'')) b
           else b)"

definition set_all :: "(string \<times> pyval) list \<Rightarrow> target \<Rightarrow> target" where
  "set_all kvs t = fold (\<lambda>(k, v). set_data k v) kvs t"

definition cc_target_init :: "tclass \<Rightarrow> string \<Rightarrow> 'a cc_args_scheme \<Rightarrow> blade \<Rightarrow> (target \<times> blade) result" where
  "cc_target_init c target_type a b =
     rbind (as_strs (ca_srcs a)) (\<lambda>srcs.
     rbind (as_strs (ca_deps a)) (\<lambda>deps.
     rbind (as_strs (ca_defs a)) (\<lambda>defs.
     rbind (as_strs (ca_incs a)) (\<lambda>incs.
     rbind (as_strs (ca_export_incs a)) (\<lambda>export_incs.
     rbind (as_strs (ca_optimize a)) (\<lambda>optimize.
     rbind (as_strs (ca_extra_cppflags a)) (\<lambda>extra_cppflags.
     rbind (as_strs (ca_extra_linkflags a)) (\<lambda>extra_linkflags.
     rbind (target_init c (ca_name a) target_type srcs deps (ca_visibility a) (ca_kwargs a) b) (\<lambda>(t, b).
       let t = set_all
             [(''warning'', ca_warning a), (''defs'', pstrs defs),
              (''incs'', pstrs (incs_to_fullpath t incs)), (''export_incs'', pstrs (incs_to_fullpath t export_incs)),
              (''optimize'', pstrs optimize), (''extra_cppflags'', pstrs extra_cppflags),
              (''extra_linkflags'', pstrs extra_linkflags), (''objs_name'', PyNone)] t
       in rbind (check_defs t b) (\<lambda>b. Inr (t, check_incorrect_no_warning t b)))))))))))"

section \<open>Environment\<close>

definition check_deprecated_dep :: "target \<Rightarrow> key \<Rightarrow> blade \<Rightarrow> blade" where
  "check_deprecated_dep t k b =
     (case dget (b_target_database b) k of
        None \<Rightarrow> b
      | Some dep \<Rightarrow>
          if truthy (get_data dep ''deprecated'' PyNone)
          then (case t_deps dep of
                  [] \<Rightarrow> b
                | r # _ \<Rightarrow> say (Warn (t_fullname t @ '': //'' @ t_fullname dep @ '' has been deprecated, please depends on //'' @
                             show_key r)) b)
          else b)"

definition check_deprecated_deps :: "target \<Rightarrow> blade \<Rightarrow> blade" where
  "check_deprecated_deps t b = fold (check_deprecated_dep t) (t_deps t) b"

definition cc_clone_env :: "target \<Rightarrow> target" where
  "cc_clone_env t =
     env_rule (\<lambda>e. e @ (if get_data t ''warning'' pempty = PyStr ''yes''
                         then '' = env_cc_warning.Clone()'' else '' = env_cc.Clone()'')) t"

definition cc_prepare_to_generate_rule :: "target \<Rightarrow> blade \<Rightarrow> target \<times> blade" where
  "cc_prepare_to_generate_rule t b = (cc_clone_env t, check_deprecated_deps t b)"

definition objs_name :: "target \<Rightarrow> (string \<times> target) result" where
  "objs_name t =
     rbind (dindex (t_data t) ''objs_name'') (\<lambda>v.
       if v = PyNone
       then (let name = ''objs_'' @ generate_variable_name (t_path t) (t_name t) []
             in Inr (name, set_data ''objs_name'' (PyStr name) t))
       else rbind (as_str v) (\<lambda>name. Inr (name, t)))"

definition set_objs_name :: "string \<Rightarrow> target \<Rightarrow> target" where
  "set_objs_name name t = set_data ''objs_name'' (PyStr name) t"

section \<open>Flags\<close>

definition dashed :: "string \<Rightarrow> string" where
  "dashed flag = (if startswith flag ''-'' then flag else CHR ''-'' # flag)"

definition get_optimize_flags :: "target \<Rightarrow> blade \<Rightarrow> string list result" where
  "get_optimize_flags t b =
     rbind (data_strs t ''optimize'') (\<lambda>opt_list.
     rbind (if opt_list = [] then rbind (config_value b ''cc_config'' ''optimize'') as_strs else Inr opt_list) (\<lambda>opt_list.
       Inr (if opt_list \<noteq> [] then map dashed opt_list else [''-O2''])))"

definition export_incs_list :: "database \<Rightarrow> target \<Rightarrow> string list result" where
  "export_incs_list db t =
     rfold (\<lambda>dep inc_list.
         if fst dep = ''#'' then Inr inc_list
         else rbind (dindex db dep) (\<lambda>u. rbind (data_strs u ''export_incs'') (\<lambda>incs. Inr (inc_list @ incs))))
       (t_expanded_deps t) []"

definition get_incs_list :: "database \<Rightarrow> target \<Rightarrow> string list result" where
  "get_incs_list db t =
     rbind (data_strs t ''incs'') (\<lambda>incs.
     rbind (data_strs t ''export_incs'') (\<lambda>export_incs.
     rbind (export_incs_list db t) (\<lambda>inherited. Inr (stable_unique (incs @ export_incs @ inherited)))))"

definition get_cc_flags :: "target \<Rightarrow> blade \<Rightarrow> (string list \<times> string list) result" where
  "get_cc_flags t b =
     rbind (data_strs t ''defs'') (\<lambda>defs.
     rbind (opt b ''profile'') (\<lambda>profile.
     rbind (if profile = PyStr ''release'' \<or> truthy (get_data t ''always_optimize'' PyNone)
            then get_optimize_flags t b else Inr []) (\<lambda>oflags.
     rbind (data_strs t ''extra_cppflags'') (\<lambda>extra_cppflags.
     rbind (get_incs_list (b_target_database b) t) (\<lambda>incs.
       Inr ((if get_data t ''warning'' pempty = PyStr ''no'' then [''-w''] else []) @ map ((@) ''-D'') defs @ oflags @ extra_cppflags,
            incs))))))"

definition get_as_flags :: "blade \<Rightarrow> (string list \<times> string list) result" where
  "get_as_flags b = rbind (rbind (opt b ''m'') as_str) (\<lambda>m. Inr ([''-g'', ''--'' @ m], [''-Wa,--'' @ m]))"

definition append_rule :: "string \<Rightarrow> string list \<Rightarrow> target \<Rightarrow> target" where
  "append_rule var flags t =
     (if flags \<noteq> [] then env_rule (\<lambda>e. e @ ''.Append('' @ var @ ''='' @ repr_strs flags @ '')'') t else t)"

definition setup_cc_flags :: "target \<Rightarrow> blade \<Rightarrow> target result" where
  "setup_cc_flags t b =
     rbind (get_cc_flags t b) (\<lambda>(flags, incs). Inr (append_rule ''CPPPATH'' incs (append_rule ''CPPFLAGS'' flags (snd (env_name t)))))"

definition setup_as_flags :: "target \<Rightarrow> blade \<Rightarrow> target result" where
  "setup_as_flags t b =
     rbind (get_as_flags b) (\<lambda>(as_flags, aspp_flags).
       Inr (append_rule ''ASPPFLAGS'' aspp_flags (append_rule ''ASFLAGS'' as_flags (snd (env_name t)))))"

definition setup_link_flags :: "target \<Rightarrow> target result" where
  "setup_link_flags t = rbind (data_strs t ''extra_linkflags'') (\<lambda>flags. Inr (append_rule ''LINKFLAGS'' flags t))"

section \<open>Libraries to link, for SCons\<close>

definition header_only :: "target \<Rightarrow> bool" where
  "header_only dep \<longleftrightarrow> t_type dep = ''cc_library'' \<and> t_srcs dep = []"

definition library_var :: "target \<Rightarrow> string \<Rightarrow> string option result" where
  "library_var dep name =
     (let v = get_data dep name PyNone in if truthy v then rbind (as_str v) (\<lambda>s. Inr (Some s)) else Inr None)"

definition single_quoted :: "string \<Rightarrow> string" where
  "single_quoted s = squote # s @ [squote]"

definition static_dep ::
  "blade \<Rightarrow> key \<Rightarrow> string list \<times> string list \<Rightarrow> (string list \<times> string list) result" where
  "static_dep b k libs =
     (case libs of (link_all, lib_list) \<Rightarrow>
        rbind (build_target b k) (\<lambda>dep.
          if header_only dep then Inr libs
          else rbind (if t_type dep = ''system_library'' then Inr (Some (single_quoted (t_name dep)))
                      else library_var dep ''static_cc_library_var'') (\<lambda>lib_name.
                 Inr (case lib_name of
                        None \<Rightarrow> libs
                      | Some lib \<Rightarrow>
                          if truthy (get_data dep ''link_all_symbols'' PyNone) then (link_all @ [lib], lib_list)
                          else (link_all, lib_list @ [lib])))))"

definition static_deps_list :: "blade \<Rightarrow> target \<Rightarrow> (string list \<times> string list) result" where
  "static_deps_list b t = rfold (static_dep b) (t_expanded_deps t) ([], [])"

definition dynamic_dep :: "blade \<Rightarrow> key \<Rightarrow> string list \<Rightarrow> string list result" where
  "dynamic_dep b k lib_list =
     rbind (build_target b k) (\<lambda>dep.
       if header_only dep then Inr lib_list
       else rbind (if fst k = ''#'' then Inr (Some (single_quoted (snd k)))
                   else library_var dep ''dynamic_cc_library_var'') (\<lambda>lib_name.
              Inr (case lib_name of None \<Rightarrow> lib_list | Some lib \<Rightarrow> lib_list @ [lib])))"

definition dynamic_deps_list :: "blade \<Rightarrow> target \<Rightarrow> string list result" where
  "dynamic_deps_list b t = rfold (dynamic_dep b) (t_expanded_deps t) []"

definition libs_text :: "string list \<Rightarrow> string" where
  "libs_text libs = ''LIBS=['' @ join_with '','' libs @ '']''"

definition get_static_deps_lib_list :: "blade \<Rightarrow> target \<Rightarrow> (string list \<times> string \<times> string) result" where
  "get_static_deps_lib_list b t =
     rbind (static_deps_list b t) (\<lambda>(link_all, lib_list).
       let whole = (if link_all \<noteq> [] then [quoted ''-Wl,--whole-archive''] @ link_all @ [quoted ''-Wl,--no-whole-archive''] else [])
       in Inr (link_all, libs_text lib_list, join_with '', '' whole))"

definition get_dynamic_deps_lib_list :: "blade \<Rightarrow> target \<Rightarrow> string result" where
  "get_dynamic_deps_lib_list b t = rbind (dynamic_deps_list b t) (\<lambda>libs. Inr (libs_text libs))"

definition need_dynamic_library :: "target \<Rightarrow> blade \<Rightarrow> bool result" where
  "need_dynamic_library t b =
     rbind (get_config (b_config b) ''cc_library_config'') (\<lambda>config.
     rbind (opt b ''generate_dynamic'') (\<lambda>v.
       Inr (truthy v \<or> truthy (get_data t ''build_dynamic'' PyNone) \<or> truthy (dgetd config ''generate_dynamic'' PyNone))))"

section \<open>Dependencies that generate header files\<close>

lemma generate_header_keys:
  "generate_header_files depth k db = Inr r \<Longrightarrow> dkeys (snd r) = dkeys db"
  "generate_header_loop depth ks db = Inr r \<Longrightarrow> dkeys (snd r) = dkeys db"
proof (induction depth k db and depth ks db arbitrary: r and r rule: generate_header_files_generate_header_loop.induct)
  case (2 depth k db)
  then show ?case by (fastforce simp: rbind_eq_Inr split: if_splits option.splits)
next
  case (4 depth d ds db)
  then show ?case by (fastforce simp: rbind_eq_Inr split: if_splits)
qed auto

lemma off_stack_headers:
  assumes "generate_header_files depth k db = Inr (v, db')" and "dget db k = Some dep" and "k \<notin> set keys"
  shows "off_stack db' (k # keys) < off_stack db keys"
  using off_stack_Cons [OF assms(2,3)] generate_header_keys(1) [OF assms(1)] by (simp add: off_stack_def)

text \<open>
  The queue of \<open>_generated_header_files_dependencies\<close>. The question to a dependency caches
  its answers in the database; \<open>depth\<close> is the stack that is left for it.
\<close>

function header_deps_loop ::
  "nat \<Rightarrow> key list \<Rightarrow> key list \<Rightarrow> key list \<Rightarrow> database \<Rightarrow> (key list \<times> database) result" where
  "header_deps_loop depth [] keys deps db = Inr (deps, db)"
| "header_deps_loop depth (k # q) keys deps db =
     (if k \<in> set keys then header_deps_loop depth q keys deps db
      else (case dget db k of
              None \<Rightarrow> Inl KeyError
            | Some dep \<Rightarrow>
                (case generate_header_files depth k db of
                   Inl e \<Rightarrow> Inl e
                 | Inr (v, db') \<Rightarrow>
                     if v then
                       if t_srcs dep \<noteq> [] then header_deps_loop depth q (k # keys) (deps @ [k]) db'
                       else header_deps_loop depth (q @ t_deps dep) (k # keys) deps db'
                     else header_deps_loop depth q (k # keys) deps db')))"
  by pat_completeness auto
termination
proof (relation "measures [\<lambda>(depth, q, keys, deps, db). off_stack db keys, \<lambda>(depth, q, keys, deps, db). length q]")
qed (auto dest: off_stack_headers)

definition generated_header_files_dependencies :: "nat \<Rightarrow> target \<Rightarrow> blade \<Rightarrow> (target list \<times> blade) result" where
  "generated_header_files_dependencies depth t b =
     rbind (header_deps_loop depth (t_deps t) [] [] (b_target_database b)) (\<lambda>(ks, db).
     rbind (rmap (dindex db) ks) (\<lambda>deps. Inr (deps, b\<lparr>b_target_database := db\<rparr>)))"

end
