(* ===== verification/Cc_Rules.thy ===== *)
theory Cc_Rules
  imports Cc_Targets
begin

text \<open>
  Prebuilt C++ libraries and the rules of \<open>CcTarget\<close> (\<open>src/blade/cc_targets.py\<close>) for the three back ends: objects,
  static and dynamic libraries, link steps.
\<close>

section \<open>Surroundings\<close>

text \<open>
  The manager and what the methods read and change beside it: the files that exist, the class
  attribute \<open>_default_prebuilt_libpath\<close>, the attribute \<open>file_and_link\<close> of prebuilt libraries, the output of \<open>objdump -p\<close>
  (\<open>None\<close> when the command fails) and the version the compiler reports.
\<close>

record cc_world =
  cw_blade :: blade
  cw_exists :: "string \<Rightarrow> bool"
  cw_libpath :: "string option"
  cw_file_and_link :: "(key, (string \<times> string) option) dict"
  cw_objdump :: "string \<Rightarrow> string option"
  cw_gcc_version :: string

section \<open>Templates\<close>

text \<open>
  \<open>string.Template(s).substitute(d)\<close>: \<open>$$\<close>, \<open>$name\<close> and \<open>${name}\<close>; another dollar sign raises
  \<open>ValueError\<close> and an unknown name \<open>KeyError\<close>.
\<close>

definition is_digit :: "char \<Rightarrow> bool" where
  "is_digit c = (c \<in> set ''0123456789'')"

definition is_identifier :: "string \<Rightarrow> bool" where
  "is_identifier s = (s \<noteq> [] \<and> list_all is_word s \<and> \<not> is_digit (hd s))"

definition template_place :: "string \<Rightarrow> (string option \<times> string) option" where
  "template_place s =
     (case s of
        [] \<Rightarrow> None
      | c # cs \<Rightarrow>
          if c = CHR ''$'' then Some (None, cs)
          else if c = CHR ''{'' then
            (let name = takeWhile is_word cs; after = dropWhile is_word cs
             in if is_identifier name \<and> startswith after ''}'' then Some (Some name, drop 1 after) else None)
          else if is_identifier (takeWhile is_word s) then Some (Some (takeWhile is_word s), dropWhile is_word s)
          else None)"

lemma template_place_length: "template_place s = Some (n, r) \<Longrightarrow> length r \<le> length s"
  using length_dropWhile_le [of is_word s] length_dropWhile_le [of is_word "tl s"]
  by (auto simp: template_place_def Let_def split: list.splits if_splits)

function template_substitute :: "(string, string) dict \<Rightarrow> string \<Rightarrow> string result" where
  "template_substitute d [] = Inr []"
| "template_substitute d (c # cs) =
     (if c \<noteq> CHR ''$'' then rbind (template_substitute d cs) (\<lambda>r. Inr (c # r))
      else case template_place cs of
             None \<Rightarrow> Inl ValueError
           | Some (None, rest) \<Rightarrow> rbind (template_substitute d rest) (\<lambda>r. Inr (CHR ''$'' # r))
           | Some (Some name, rest) \<Rightarrow>
               (case dget d name of
                  None \<Rightarrow> Inl KeyError
                | Some v \<Rightarrow> rbind (template_substitute d rest) (\<lambda>r. Inr (v @ r))))"
  by pat_completeness auto
termination
  by (relation "measure (\<lambda>(_, s). length s)") (auto dest: template_place_length)

lemma template_examples:
  "template_substitute [(''bits'', ''64''), (''profile'', ''debug'')] ''lib${bits}_$profile'' = Inr ''lib64_debug''"
  "template_substitute [(''bits'', ''64'')] ''$arch/$$'' = Inl KeyError"
  "template_substitute [] ''$ x'' = Inl ValueError"
  by code_simp+

section \<open>Prebuilt libraries\<close>

definition libpath_values :: "blade \<Rightarrow> (string, string) dict result" where
  "libpath_values b =
     rbind (rbind (opt b ''m'') py_text) (\<lambda>m.
     rbind (rbind (opt b ''arch'') py_text) (\<lambda>arch.
     rbind (rbind (opt b ''profile'') py_text) (\<lambda>profile.
       Inr [(''bits'', m), (''arch'', arch), (''profile'', profile)])))"

definition default_libpath :: "(string, string) dict \<Rightarrow> cc_world \<Rightarrow> (string \<times> cc_world) result" where
  "default_libpath values w =
     (case cw_libpath w of
        Some p \<Rightarrow> Inr (p, w)
      | None \<Rightarrow>
          rbind (rbind (config_value (cw_blade w) ''cc_library_config'' ''prebuilt_libpath_pattern'') as_str) (\<lambda>pattern.
          rbind (template_substitute values pattern) (\<lambda>p. Inr (p, w\<lparr>cw_libpath := Some p\<rparr>))))"

definition prebuilt_cc_library_pathname :: "target \<Rightarrow> cc_world \<Rightarrow> ((string \<times> string) \<times> cc_world) result" where
  "prebuilt_cc_library_pathname t w =
     rbind (libpath_values (cw_blade w)) (\<lambda>values.
     rbind (default_libpath values w) (\<lambda>(default, w).
       let pattern = get_data t ''prebuilt_libpath_pattern'' PyNone
       in rbind (if truthy pattern then rbind (as_str pattern) (template_substitute values) else Inr default) (\<lambda>libpath.
            Inr ((path_join3 (t_path t) libpath (''lib'' @ t_name t @ ''.a''),
                  path_join3 (t_path t) libpath (''lib'' @ t_name t @ ''.so'')), w))))"

definition prebuilt_cc_library_path :: "bool \<Rightarrow> target \<Rightarrow> cc_world \<Rightarrow> ((string \<times> string) \<times> cc_world) result" where
  "prebuilt_cc_library_path prefer_dynamic t w =
     rbind (prebuilt_cc_library_pathname t w) (\<lambda>((a, so), w).
       let libs = (if prefer_dynamic then [so, a] else [a, so])
       in case filter (cw_exists w) libs of
            [] \<Rightarrow> Inl (SystemExit (t_fullname t @ '': Can not find either '' @ libs ! 0 @ '' or '' @ libs ! 1))
          | source # _ \<Rightarrow> Inr ((source, target_file_path (cw_blade w) t (basename source)), w))"

text \<open>\<open>output.splitlines()\<close>, with the line break of the platform, and the soname among the lines.\<close>

fun soname_of_lines :: "string list \<Rightarrow> string option" where
  "soname_of_lines [] = None"
| "soname_of_lines (line # lines) =
     (case split_ws line of
        [a, v] \<Rightarrow> if a = ''SONAME'' then Some v else soname_of_lines lines
      | _ \<Rightarrow> soname_of_lines lines)"

definition prebuilt_cc_library_dynamic_soname :: "cc_world \<Rightarrow> string \<Rightarrow> string option" where
  "prebuilt_cc_library_dynamic_soname w so =
     (case cw_objdump w so of None \<Rightarrow> None | Some output \<Rightarrow> soname_of_lines (split_on newline output))"

definition prebuilt_cc_library_is_depended :: "blade \<Rightarrow> target \<Rightarrow> bool result" where
  "prebuilt_cc_library_is_depended b t =
     rbind (dindex (b_depended_targets b) (t_key t)) (\<lambda>ks.
       rfold (\<lambda>k found. if found then Inr True
                        else rbind (build_target b k) (\<lambda>u. Inr (t_type u \<noteq> ''prebuilt_cc_library'')))
         ks False)"

definition prebuilt_cc_library_rules :: "string \<Rightarrow> string \<Rightarrow> string \<Rightarrow> target \<Rightarrow> target" where
  "prebuilt_cc_library_rules var target source t =
     (if endswith source ''.a'' then write_rule (var @ '' = top_env.File('' @ quoted source @ '')'') t
      else write_rule (var @ '' = top_env.Command('' @ quoted target @ '', '' @ quoted source @ '', Copy('' @
             quoted ''$TARGET'' @ '', '' @ quoted ''$SOURCE'' @ ''))'') t)"

type_synonym library_paths = "string \<times> string \<times> string \<times> string"

definition prebuilt_cc_library_symbolic_link :: "library_paths \<Rightarrow> target \<Rightarrow> cc_world \<Rightarrow> cc_world" where
  "prebuilt_cc_library_symbolic_link paths t w =
     (case paths of (static_source, static_target, dynamic_source, dynamic_target) \<Rightarrow>
        let (so_src, so_target) =
              (if endswith static_target ''.so'' then (static_source, static_target)
               else if endswith dynamic_target ''.so'' then (dynamic_source, dynamic_target) else ([], []));
            link = (if so_src \<noteq> []
                    then (case prebuilt_cc_library_dynamic_soname w so_src of
                            None \<Rightarrow> None | Some soname \<Rightarrow> if soname \<noteq> [] then Some (so_target, soname) else None)
                    else None)
        in w\<lparr>cw_file_and_link := dset (t_key t) link (cw_file_and_link w)\<rparr>)"

definition prebuilt_cc_library_scons_rules :: "target \<Rightarrow> cc_world \<Rightarrow> (library_paths \<times> target \<times> cc_world) result" where
  "prebuilt_cc_library_scons_rules t w =
     rbind (prebuilt_cc_library_path False t w) (\<lambda>((static_src, static_target), w).
       let var = var_name t [];
           t = set_data ''static_cc_library_var'' (PyStr var) (prebuilt_cc_library_rules var static_target static_src t)
       in rbind (need_dynamic_library t (cw_blade w)) (\<lambda>need.
            if need then
              rbind (prebuilt_cc_library_path True t w) (\<lambda>((dynamic_src, dynamic_target), w).
                let (var, t) =
                      (if dynamic_target \<noteq> static_target
                       then (let var = var_name t ''dynamic'' in (var, prebuilt_cc_library_rules var dynamic_target dynamic_src t))
                       else (var, t))
                in Inr ((static_src, static_target, dynamic_src, dynamic_target),
                        set_data ''dynamic_cc_library_var'' (PyStr var) t, w))
            else Inr ((static_src, static_target, [], []), t, w)))"

text \<open>
  The Ninja and the Make variant are the same up to the writer: \<open>copy target source\<close> writes the
  statement that copies a library.
\<close>

definition prebuilt_copy_rules ::
  "(string \<Rightarrow> string \<Rightarrow> target \<Rightarrow> target result) \<Rightarrow> target \<Rightarrow> cc_world \<Rightarrow> (library_paths \<times> target \<times> cc_world) result" where
  "prebuilt_copy_rules copy t w =
     rbind (prebuilt_cc_library_path False t w) (\<lambda>((static_src, static_target), w).
     rbind (if endswith static_src ''.a'' then Inr (static_src, t)
            else rbind (copy static_target static_src t) (\<lambda>t. Inr (static_target, t))) (\<lambda>(path, t).
     rbind (add_default_target_file ''a'' (PyStr path) t) (\<lambda>t.
     rbind (need_dynamic_library t (cw_blade w)) (\<lambda>need.
       if need then
         rbind (prebuilt_cc_library_path True t w) (\<lambda>((dynamic_src, dynamic_target), w).
         rbind (if dynamic_target \<noteq> static_target then
                  if endswith static_src ''.a'' \<and> endswith dynamic_src ''.so''
                  then rbind (copy dynamic_target dynamic_src t) (\<lambda>t. Inr (dynamic_target, t))
                  else Inl (PyException ''AssertionError'')
                else Inr (path, t)) (\<lambda>(path, t).
         rbind (add_target_file ''so'' (PyStr path) t) (\<lambda>t.
           Inr ((static_src, static_target, dynamic_src, dynamic_target), t, w))))
       else Inr ((static_src, static_target, [], []), t, w)))))"

definition ninja_copy :: "string \<Rightarrow> string \<Rightarrow> target \<Rightarrow> target result" where
  "ninja_copy target source t = ninja_build (PyStr target) ''copy'' (PyStr source) [] [] [] [] t"

definition make_copy :: "string \<Rightarrow> string \<Rightarrow> target \<Rightarrow> target result" where
  "make_copy target source t = make_build (PyStr target) ''copy'' (PyStr source) [] [] [] t"

definition prebuilt_cc_library_ninja_rules :: "target \<Rightarrow> cc_world \<Rightarrow> (library_paths \<times> target \<times> cc_world) result" where
  "prebuilt_cc_library_ninja_rules = prebuilt_copy_rules ninja_copy"

definition prebuilt_cc_library_make_rules :: "target \<Rightarrow> cc_world \<Rightarrow> (library_paths \<times> target \<times> cc_world) result" where
  "prebuilt_cc_library_make_rules = prebuilt_copy_rules make_copy"

definition prebuilt_cc_library :: "target \<Rightarrow> cc_world \<Rightarrow> (target \<times> cc_world) result" where
  "prebuilt_cc_library t w =
     rbind (prebuilt_cc_library_is_depended (cw_blade w) t) (\<lambda>depended.
       if \<not> depended then Inr (t, w)
       else
         rbind (config_value (cw_blade w) ''global_config'' ''native_builder'') (\<lambda>builder.
         rbind ((if builder = PyStr ''ninja'' then prebuilt_cc_library_ninja_rules
                 else if builder = PyStr ''make'' then prebuilt_cc_library_make_rules
                 else prebuilt_cc_library_scons_rules) t w) (\<lambda>(paths, t, w).
           Inr (t, prebuilt_cc_library_symbolic_link paths t w))))"

definition rpath_link :: "bool \<Rightarrow> target \<Rightarrow> cc_world \<Rightarrow> (string option \<times> cc_world) result" where
  "rpath_link dynamic t w =
     rbind (prebuilt_cc_library_path dynamic t w) (\<lambda>((_, path), w).
       Inr (if endswith path ''.so'' then Some (dirname path) else None, w))"

end
