(* ===== verification/Cc_Build.thy ===== *)
theory Cc_Build
  imports Cc_Rules
begin

text \<open>
  The rules of \<open>CcTarget\<close> (\<open>src/blade/cc_targets.py\<close>) for objects, libraries and link steps, with one section for every
  back end. \<open>depth\<close> is the stack left for the header question, \<open>so\<close> the iteration order of
  dictionaries.
\<close>

section \<open>SCons\<close>

definition target_rule :: "string \<Rightarrow> string \<Rightarrow> string \<Rightarrow> string list \<Rightarrow> target \<Rightarrow> blade \<Rightarrow> target result" where
  "target_rule builder var e extra t b =
     rbind (objs_name t) (\<lambda>(objs, t).
       Inr (write_rule (var @ '' = '' @ e @ ''.'' @ builder @ ''('' @
              join_with '', '' ([quoted (target_file_path b t []), objs] @ extra) @ '')'') t))"

definition static_cc_library :: "target \<Rightarrow> blade \<Rightarrow> target result" where
  "static_cc_library t b =
     (case env_name t of (e, t) \<Rightarrow>
        let var = var_name t []
        in rbind (target_rule ''Library'' var e [] t b) (\<lambda>t.
             add_default_target_var ''a'' (PyStr var) (set_data ''static_cc_library_var'' (PyStr var) t)))"

definition no_undefined_rule :: "string \<Rightarrow> string" where
  "no_undefined_rule e = e @ ''.Append(LINKFLAGS=['' @ quoted ''-Xlinker'' @ '', '' @ quoted ''--no-undefined'' @ ''])''"

definition dynamic_cc_library :: "target \<Rightarrow> blade \<Rightarrow> target result" where
  "dynamic_cc_library t b =
     rbind (setup_link_flags t) (\<lambda>t.
       case env_name t of (e, t) \<Rightarrow>
         let var = var_name t ''dynamic''
         in rbind (get_dynamic_deps_lib_list b t) (\<lambda>lib_str.
              if t_srcs t \<noteq> [] \<or> t_expanded_deps t \<noteq> [] then
                let t = (if \<not> truthy (get_data t ''allow_undefined'' PyNone) then write_rule (no_undefined_rule e) t else t)
                in rbind (target_rule ''SharedLibrary'' var e [lib_str] t b) (\<lambda>t.
                     add_target_var ''so'' (PyStr var) (set_data ''dynamic_cc_library_var'' (PyStr var) t))
              else Inr t))"

definition cc_library_rules :: "target \<Rightarrow> blade \<Rightarrow> target result" where
  "cc_library_rules t b =
     rbind (static_cc_library t b) (\<lambda>t.
     rbind (need_dynamic_library t b) (\<lambda>need. if need then dynamic_cc_library t b else Inr t))"

definition generate_generated_header_files_depends :: "nat \<Rightarrow> string \<Rightarrow> target \<Rightarrow> blade \<Rightarrow> (target \<times> blade) result" where
  "generate_generated_header_files_depends depth var t b =
     (case env_name t of (e, t) \<Rightarrow>
        rbind (generated_header_files_dependencies depth t b) (\<lambda>(deps, b).
          Inr (write_rules (map (\<lambda>dep. e @ ''.Depends('' @ var @ '', '' @ var_name dep [] @ '')'') deps) t, b)))"

text \<open>An empty source file is made for the secure compiler when there is none.\<close>

definition securecc_object_rules :: "string \<Rightarrow> string \<Rightarrow> bool \<Rightarrow> target \<times> cc_world \<Rightarrow> target \<times> cc_world" where
  "securecc_object_rules obj src scons tw =
     (case tw of (t, w) \<Rightarrow>
        (if scons then env_rule (\<lambda>e. e @ ''.AlwaysBuild('' @ obj @ '')'') t else t,
         if \<not> cw_exists w src then w\<lparr>cw_exists := (cw_exists w)(src := True)\<rparr> else w))"

definition objs_dir :: "blade \<Rightarrow> target \<Rightarrow> string" where
  "objs_dir b t = target_file_path b t [] @ ''.objs''"

definition is_secure :: "target \<Rightarrow> bool" where
  "is_secure t = truthy (get_data t ''secure'' PyNone)"

definition cc_object_rule :: "string \<Rightarrow> string list \<times> target \<times> cc_world \<Rightarrow> string list \<times> target \<times> cc_world" where
  "cc_object_rule src st =
     (case st of (objs, t, w) \<Rightarrow>
        let obj = ''obj_'' @ var_name_of t src [];
            source_path = target_file_path (cw_blade w) t src;
            args = ''target = '' @ quoted (path_join (objs_dir (cw_blade w) t) src) @ '' + top_env['' @ quoted ''OBJSUFFIX'' @ ''], source = '' @
                   quoted source_path @ (if is_secure t then '', CXX = '' @ quoted ''$SECURECXX'' else []);
            t = env_rule (\<lambda>e. obj @ '' = '' @ e @ ''.SharedObject('' @ args @ '')'') t
        in (objs @ [obj], if is_secure t then securecc_object_rules obj source_path True (t, w) else (t, w)))"

definition cc_objects_rules :: "nat \<Rightarrow> target \<Rightarrow> cc_world \<Rightarrow> (target \<times> cc_world) result" where
  "cc_objects_rules depth t w =
     (if t_type t \<notin> {''cc_library'', ''cc_binary'', ''cc_test'', ''cc_plugin''}
      then Inl (SystemExit (''logic error, type '' @ t_type t @ '' err in object rule''))
      else
        rbind (setup_cc_flags t (cw_blade w)) (\<lambda>t.
          case fold cc_object_rule (t_srcs t) ([], t, w) of (objs, t, w) \<Rightarrow>
            rbind (case objs of
                     [obj] \<Rightarrow> Inr (obj, set_objs_name obj t)
                   | _ \<Rightarrow> rbind (objs_name t) (\<lambda>(name, t).
                            Inr (name, write_rule (name @ '' = ['' @ join_with '','' objs @ '']'') t))) (\<lambda>(name, t).
            rbind (generate_generated_header_files_depends depth name t (cw_blade w)) (\<lambda>(t, b).
              Inr (if objs \<noteq> [] \<and> b_command b = ''clean''
                   then env_rule (\<lambda>e. e @ ''.Clean(['' @ name @ ''], '' @ quoted (objs_dir b t) @ '')'') t else t,
                   w\<lparr>cw_blade := b\<rparr>)))))"

section \<open>Common parts of Ninja and Make\<close>

text \<open>
  The variables of the compilation of a target: \<open>warnings\<close> are cleared unless they are
  asked for. \<open>incs\<close> prints the include directories, which differs between the two back ends.
\<close>

definition setup_cc_vars :: "(string list \<Rightarrow> string) \<Rightarrow> target \<Rightarrow> blade \<Rightarrow> (string, string) dict result" where
  "setup_cc_vars incs t b =
     rbind (get_cc_flags t b) (\<lambda>(cppflags, includes).
       Inr ((if get_data t ''warning'' PyNone \<noteq> PyStr ''yes'' then [(''c_warnings'', []), (''cxx_warnings'', [])] else []) @
            (if cppflags \<noteq> [] then [(''cppflags'', join_with '' '' cppflags)] else []) @
            (if includes \<noteq> [] then [(''includes'', incs includes)] else [])))"

definition setup_ninja_cc_vars :: "target \<Rightarrow> blade \<Rightarrow> (string, string) dict result" where
  "setup_ninja_cc_vars = setup_cc_vars (\<lambda>incs. join_with '' '' (map ((@) ''-I'') incs))"

definition setup_make_cc_vars :: "target \<Rightarrow> blade \<Rightarrow> (string, string) dict result" where
  "setup_make_cc_vars = setup_cc_vars (\<lambda>incs. concat (map ((@) '' -I'') incs))"

text \<open>
  \<open>_generate_ninja_link_flags\<close>: when the target has link flags, the list that is returned is the
  list in its data, so that the flag is appended there too. The Make variant is the same code.
\<close>

definition no_undefined :: string where
  "no_undefined = ''-Xlinker --no-undefined''"

definition generate_ninja_link_flags :: "target \<Rightarrow> (string list \<times> target) result" where
  "generate_ninja_link_flags t =
     rbind (data_strs t ''extra_linkflags'') (\<lambda>extra.
       let ldflags = extra @ (case dget (t_data t) ''allow_undefined'' of
                                None \<Rightarrow> [] | Some v \<Rightarrow> if \<not> truthy v then [no_undefined] else [])
       in Inr (ldflags, if extra \<noteq> [] then set_data ''extra_linkflags'' (pstrs ldflags) t else t))"

definition generate_make_link_flags :: "target \<Rightarrow> (string list \<times> target) result" where
  "generate_make_link_flags = generate_ninja_link_flags"

definition generate_link_all_symbols_link_flags :: "string list \<Rightarrow> string list" where
  "generate_link_all_symbols_link_flags libs =
     (if libs \<noteq> [] then [''-Wl,--whole-archive''] @ libs @ [''-Wl,--no-whole-archive''] else [])"

definition output_of :: "target \<Rightarrow> string \<Rightarrow> string option result" where
  "output_of dep label =
     rbind (get_target_file dep label) (\<lambda>v. if truthy v then rbind (as_str v) (\<lambda>s. Inr (Some s)) else Inr None)"

definition ninja_dynamic_dep :: "blade \<Rightarrow> key \<Rightarrow> string list \<times> string list \<Rightarrow> (string list \<times> string list) result" where
  "ninja_dynamic_dep b k libs =
     (case libs of (sys_libs, usr_libs) \<Rightarrow>
        rbind (build_target b k) (\<lambda>dep.
          if header_only dep then Inr libs
          else if fst k = ''#'' then Inr (sys_libs @ [snd k], usr_libs)
          else rbind (output_of dep ''so'') (\<lambda>lib.
                 Inr (case lib of None \<Rightarrow> libs | Some lib \<Rightarrow> (sys_libs, usr_libs @ [lib])))))"

definition ninja_dynamic_dependencies :: "blade \<Rightarrow> target \<Rightarrow> (string list \<times> string list) result" where
  "ninja_dynamic_dependencies b t = rfold (ninja_dynamic_dep b) (t_expanded_deps t) ([], [])"

definition make_dynamic_dependencies :: "blade \<Rightarrow> target \<Rightarrow> (string list \<times> string list) result" where
  "make_dynamic_dependencies = ninja_dynamic_dependencies"

type_synonym static_libs = "string list \<times> string list \<times> string list"

definition ninja_static_dep :: "blade \<Rightarrow> key \<Rightarrow> static_libs \<Rightarrow> static_libs result" where
  "ninja_static_dep b k libs =
     (case libs of (sys_libs, usr_libs, link_all) \<Rightarrow>
        rbind (build_target b k) (\<lambda>dep.
          if header_only dep then Inr libs
          else if fst k = ''#'' then Inr (sys_libs @ [snd k], usr_libs, link_all)
          else rbind (output_of dep ''a'') (\<lambda>lib.
                 Inr (case lib of
                        None \<Rightarrow> libs
                      | Some lib \<Rightarrow>
                          if truthy (get_data dep ''link_all_symbols'' PyNone) then (sys_libs, usr_libs, link_all @ [lib])
                          else (sys_libs, usr_libs @ [lib], link_all)))))"

definition ninja_static_dependencies :: "blade \<Rightarrow> target \<Rightarrow> static_libs result" where
  "ninja_static_dependencies b t = rfold (ninja_static_dep b) (t_expanded_deps t) ([], [], [])"

definition make_static_dependencies :: "blade \<Rightarrow> target \<Rightarrow> static_libs result" where
  "make_static_dependencies = ninja_static_dependencies"

text \<open>The outputs of the dependencies that generate headers.\<close>

definition header_inputs :: "target list \<Rightarrow> string list result" where
  "header_inputs deps = rbind (rmap (\<lambda>dep. output_of dep []) deps) (\<lambda>outs. Inr (List.map_filter id outs))"

section \<open>Ninja\<close>

definition get_ninja_rule_from_suffix :: "string \<Rightarrow> string" where
  "get_ninja_rule_from_suffix src =
     (if list_ex (endswith src) [''.cc'', ''.cpp'', ''.cxx''] then ''cxx'' else ''cc'')"

definition cc_objects_generated_header_files_dependency ::
  "nat \<Rightarrow> target \<Rightarrow> blade \<Rightarrow> (string option \<times> target \<times> blade) result" where
  "cc_objects_generated_header_files_dependency depth t b =
     rbind (generated_header_files_dependencies depth t b) (\<lambda>(deps, b).
       if deps = [] then Inr (None, t, b)
       else
         let stamp = target_file_path b t (t_name t @ ''__stamp__'')
         in rbind (header_inputs deps) (\<lambda>inputs.
            rbind (ninja_build (PyStr stamp) ''stamp'' (pstrs inputs) [] [] [] [] t) (\<lambda>t. Inr (Some stamp, t, b))))"

text \<open>\<open>obj[:pos]\<close> for the last dot before the final \<open>.o\<close>.\<close>

definition secure_stem :: "string \<Rightarrow> string result" where
  "secure_stem obj =
     (if endswith obj ''.o'' then
        (case rsplit1 (CHR ''.'') (take (length obj - 2) obj) of
           None \<Rightarrow> Inl (PyException ''AssertionError'') | Some (stem, _) \<Rightarrow> Inr stem)
      else Inl (PyException ''AssertionError''))"

definition secure_source :: "string \<Rightarrow> target \<Rightarrow> cc_world \<Rightarrow> string \<times> target \<times> cc_world" where
  "secure_source src t w =
     (let path = source_file_path t src
      in if cw_exists w path then (path, t, w)
         else (let path = target_file_path (cw_blade w) t src in (path, securecc_object_rules [] path False (t, w))))"

definition securecc_object_ninja ::
  "set_order \<Rightarrow> string \<Rightarrow> string \<Rightarrow> string list \<Rightarrow> (string, string) dict \<Rightarrow> target \<Rightarrow> cc_world \<Rightarrow> (target \<times> cc_world) result" where
  "securecc_object_ninja so obj src implicit_deps vars t w =
     rbind (secure_stem obj) (\<lambda>stem.
       let secure_obj = stem @ ''__securecc__.cc.o''
       in case secure_source src t w of (path, t, w) \<Rightarrow>
            rbind (ninja_build (PyStr secure_obj) ''securecccompile'' (PyStr path) (map PyStr implicit_deps) []
                     (dict_order so vars) [] t) (\<lambda>t.
            rbind (ninja_build (PyStr obj) ''securecc'' (PyStr secure_obj) [] [] [] [] t) (\<lambda>t. Inr (t, w))))"

definition object_path :: "blade \<Rightarrow> target \<Rightarrow> string \<Rightarrow> string" where
  "object_path b t src = path_join (objs_dir b t) src @ ''.o''"

definition object_input :: "bool \<Rightarrow> target \<Rightarrow> cc_world \<Rightarrow> string \<Rightarrow> string" where
  "object_input generated t w src =
     (if \<not> generated \<and> cw_exists w (source_file_path t src) then source_file_path t src
      else target_file_path (cw_blade w) t src)"

text \<open>One source; the generated headers are added to the dependencies again for every source.\<close>

definition cc_object_ninja ::
  "set_order \<Rightarrow> (string, string) dict \<Rightarrow> bool \<Rightarrow> string list \<Rightarrow> string \<Rightarrow> string list \<times> string list \<times> target \<times> cc_world \<Rightarrow>
   (string list \<times> string list \<times> target \<times> cc_world) result" where
  "cc_object_ninja so vars generated generated_headers src st =
     (case st of (implicit_deps, objs, t, w) \<Rightarrow>
        let obj = object_path (cw_blade w) t src
        in if is_secure t then
             rbind (securecc_object_ninja so obj src implicit_deps vars t w) (\<lambda>(t, w). Inr (implicit_deps, objs @ [obj], t, w))
           else
             let implicit_deps = implicit_deps @ (if generated \<and> length generated_headers > 1 then generated_headers else [])
             in rbind (ninja_build (PyStr obj) (get_ninja_rule_from_suffix src) (PyStr (object_input generated t w src))
                         (map PyStr implicit_deps) [] (dict_order so vars) [] t) (\<lambda>t.
                  Inr (implicit_deps, objs @ [obj], t, w)))"

definition cc_objects_ninja ::
  "nat \<Rightarrow> set_order \<Rightarrow> string list \<Rightarrow> bool \<Rightarrow> string list \<Rightarrow> target \<Rightarrow> cc_world \<Rightarrow> (target \<times> cc_world) result" where
  "cc_objects_ninja depth so sources generated generated_headers t w =
     rbind (setup_ninja_cc_vars t (cw_blade w)) (\<lambda>vars.
     rbind (cc_objects_generated_header_files_dependency depth t (cw_blade w)) (\<lambda>(stamp, t, b).
       let implicit_deps = (case stamp of None \<Rightarrow> [] | Some s \<Rightarrow> [s]) @ (if is_secure t then [''__securecc_phony__''] else [])
       in rbind (rfold (cc_object_ninja so vars generated generated_headers) (if sources \<noteq> [] then sources else t_srcs t)
                   (implicit_deps, [], t, w\<lparr>cw_blade := b\<rparr>)) (\<lambda>(_, objs, t, w).
            Inr (set_data ''objs'' (pstrs objs) t, w))))"

definition static_cc_library_ninja :: "target \<Rightarrow> blade \<Rightarrow> target result" where
  "static_cc_library_ninja t b =
     (let output = target_file_path b t (''lib'' @ t_name t @ ''.a'')
      in rbind (data_strs t ''objs'') (\<lambda>objs.
         rbind (ninja_build (PyStr output) ''ar'' (pstrs objs) [] [] [] [] t) (add_default_target_file ''a'' (PyStr output))))"

definition cc_link_ninja ::
  "set_order \<Rightarrow> string \<Rightarrow> string \<Rightarrow> string list \<Rightarrow> string list \<Rightarrow> string list \<Rightarrow> string list \<Rightarrow> string list \<Rightarrow> target \<Rightarrow>
   target result" where
  "cc_link_ninja so output rule deps ldflags extra_ldflags implicit_deps order_only_deps t =
     rbind (data_strs t ''objs'') (\<lambda>objs.
       let vars = put_if (extra_ldflags \<noteq> []) ''extra_ldflags'' (join_with '' '' extra_ldflags)
                    (put_if (ldflags \<noteq> []) ''ldflags'' (join_with '' '' ldflags) [])
       in ninja_build (PyStr output) rule (pstrs (objs @ deps)) (map PyStr implicit_deps) (map PyStr order_only_deps)
            (dict_order so vars) [] t)"

definition dynamic_cc_library_ninja :: "set_order \<Rightarrow> target \<Rightarrow> blade \<Rightarrow> target result" where
  "dynamic_cc_library_ninja so t b =
     (let output = target_file_path b t (''lib'' @ t_name t @ ''.so'')
      in rbind (generate_ninja_link_flags t) (\<lambda>(ldflags, t).
         rbind (ninja_dynamic_dependencies b t) (\<lambda>(sys_libs, usr_libs).
         rbind (cc_link_ninja so output ''solink'' usr_libs ldflags (map ((@) ''-l'') sys_libs) [] [] t)
           (add_target_file ''so'' (PyStr output)))))"

definition cc_library_ninja :: "set_order \<Rightarrow> target \<Rightarrow> blade \<Rightarrow> target result" where
  "cc_library_ninja so t b =
     rbind (static_cc_library_ninja t b) (\<lambda>t.
     rbind (need_dynamic_library t b) (\<lambda>need. if need then dynamic_cc_library_ninja so t b else Inr t))"

end
