(* ===== verification/Cc_Make.thy ===== *)
theory Cc_Make
  imports Cc_Build
begin

text \<open>
  The rules of \<open>CcTarget\<close> for the Make back end (\<open>src/blade/cc_targets.py\<close>, the methods with \<open>make\<close> in their names).
\<close>

definition setup_make_cc_flags :: "target \<Rightarrow> blade \<Rightarrow> target result" where
  "setup_make_cc_flags t b =
     rbind (get_cc_flags t b) (\<lambda>(flags, incs).
       let t = snd (env_name t);
           t = (if flags \<noteq> [] then write_rule (''# '' @ upper (t_name t) @ ''CPPFLAGS = '' @ join_with '' '' flags @ [newline]) t else t)
       in Inr (if incs \<noteq> []
               then write_rule (''# '' @ upper (t_name t) @ ''CPPPATH = '' @ join_with '' '' (map ((@) ''-I'') incs) @ [newline]) t
               else t))"

definition py_vars :: "(string, string) dict \<Rightarrow> (string, pyval) dict" where
  "py_vars vars = map (\<lambda>(k, v). (k, PyStr v)) vars"

definition securecc_object_make ::
  "string \<Rightarrow> string \<Rightarrow> string list \<Rightarrow> (string, string) dict \<Rightarrow> target \<Rightarrow> cc_world \<Rightarrow> (target \<times> cc_world) result" where
  "securecc_object_make obj src implicit_deps vars t w =
     rbind (secure_stem obj) (\<lambda>stem.
       let secure_obj = stem @ ''.cc.o''
       in case secure_source src t w of (path, t, w) \<Rightarrow>
            rbind (make_build (PyStr secure_obj) ''securecccompile'' (PyStr path) (map PyStr implicit_deps) [] (py_vars vars) t) (\<lambda>t.
            rbind (make_build (PyStr obj) ''securecc'' (PyStr secure_obj) [] [] [] t) (\<lambda>t. Inr (t, w))))"

definition cc_objects_generated_make_header_files_dependency ::
  "nat \<Rightarrow> target \<Rightarrow> blade \<Rightarrow> (string option \<times> target \<times> blade) result" where
  "cc_objects_generated_make_header_files_dependency depth t b =
     rbind (generated_header_files_dependencies depth t b) (\<lambda>(deps, b).
       if deps = [] then Inr (None, t, b)
       else
         let stamp = target_file_path b t (t_name t)
         in rbind (header_inputs deps) (\<lambda>inputs.
            rbind (if inputs \<noteq> [] then make_build (PyStr stamp) ''stamp'' (pstrs inputs) [] [] [] t else Inr t) (\<lambda>t.
              Inr (Some stamp, t, b))))"

text \<open>One source; the dependencies of an object are collected but not passed on.\<close>

definition cc_object_make ::
  "(string, string) dict \<Rightarrow> bool \<Rightarrow> string list \<Rightarrow> string \<Rightarrow> string list \<times> string list \<times> target \<times> cc_world \<Rightarrow>
   (string list \<times> string list \<times> target \<times> cc_world) result" where
  "cc_object_make vars generated generated_headers src st =
     (case st of (implicit_deps, objs, t, w) \<Rightarrow>
        let obj = object_path (cw_blade w) t src
        in if is_secure t then
             rbind (securecc_object_make obj src implicit_deps vars t w) (\<lambda>(t, w). Inr (implicit_deps, objs @ [obj], t, w))
           else
             let implicit_deps = implicit_deps @ (if generated \<and> length generated_headers > 1 then generated_headers else [])
             in rbind (make_build (PyStr obj) ''object'' (PyStr (object_input generated t w src)) [] [] (py_vars vars) t) (\<lambda>t.
                  Inr (implicit_deps, objs @ [obj], t, w)))"

definition cc_objects_make ::
  "nat \<Rightarrow> string list \<Rightarrow> bool \<Rightarrow> string list \<Rightarrow> target \<Rightarrow> cc_world \<Rightarrow> (target \<times> cc_world) result" where
  "cc_objects_make depth sources generated generated_headers t w =
     rbind (setup_make_cc_vars t (cw_blade w)) (\<lambda>vars.
     rbind (cc_objects_generated_make_header_files_dependency depth t (cw_blade w)) (\<lambda>(stamp, t, b).
       let implicit_deps = (case stamp of None \<Rightarrow> [] | Some s \<Rightarrow> [s]) @ (if is_secure t then [''.phony''] else [])
       in rbind (setup_make_cc_flags t b) (\<lambda>t.
          rbind (rfold (cc_object_make vars generated generated_headers) (if sources \<noteq> [] then sources else t_srcs t)
                   (implicit_deps, [], t, w\<lparr>cw_blade := b\<rparr>)) (\<lambda>(_, objs, t, w).
            Inr (set_data ''objs'' (pstrs objs) t, w)))))"

definition cc_clean_make :: "target \<Rightarrow> target result" where
  "cc_clean_make t = make_build (PyStr ''clean'') ''clean'' PyNone [] [] [] t"

definition static_cc_library_make :: "target \<Rightarrow> blade \<Rightarrow> target result" where
  "static_cc_library_make t b =
     (let output = target_file_path b t (''lib'' @ t_name t @ ''.a'')
      in rbind (data_strs t ''objs'') (\<lambda>objs.
         rbind (make_build (PyStr output) ''static_lib'' (pstrs objs) [] [] [] t) (add_default_target_file ''a'' (PyStr output))))"

definition cc_link_make ::
  "string \<Rightarrow> string \<Rightarrow> string list \<Rightarrow> string list \<Rightarrow> string list \<Rightarrow> string list \<Rightarrow> string list \<Rightarrow> target \<Rightarrow> target result" where
  "cc_link_make output rule deps ldflags extra_ldflags implicit_deps order_only_deps t =
     rbind (data_strs t ''objs'') (\<lambda>objs.
       let vars = put_if (extra_ldflags \<noteq> []) ''extra_ldflags'' (join_with '' '' extra_ldflags)
                    (put_if (ldflags \<noteq> []) ''ldflags'' (join_with '' '' ldflags) [])
       in make_build (PyStr output) rule (pstrs (objs @ deps)) (map PyStr implicit_deps) (map PyStr order_only_deps) (py_vars vars) t)"

definition dynamic_cc_library_make :: "target \<Rightarrow> blade \<Rightarrow> target result" where
  "dynamic_cc_library_make t b =
     (let output = target_file_path b t (''lib'' @ t_name t @ ''.so'')
      in rbind (generate_make_link_flags t) (\<lambda>(ldflags, t).
         rbind (make_dynamic_dependencies b t) (\<lambda>(sys_libs, usr_libs).
         rbind (cc_link_make output ''solink'' usr_libs ldflags (map ((@) ''-l'') sys_libs) [] [] t)
           (add_target_file ''so'' (PyStr output)))))"

definition cc_library_make :: "target \<Rightarrow> blade \<Rightarrow> target result" where
  "cc_library_make t b =
     rbind (static_cc_library_make t b) (\<lambda>t.
     rbind (need_dynamic_library t b) (\<lambda>need. if need then dynamic_cc_library_make t b else Inr t))"

end
