(* ===== verification/Cc_Classes.thy ===== *)
theory Cc_Classes
  imports Cc_Make
begin

text \<open>
  The C++ target classes of \<open>src/blade/cc_targets.py\<close>: libraries, binaries, tests and plugins, with the
  functions that BUILD files call. Rules take the target and the world and return
  both, updated.
\<close>

section \<open>Libraries\<close>

record cc_library_args = cc_args +
  ca_always_optimize :: pyval
  ca_pre_build :: pyval
  ca_prebuilt :: pyval
  ca_prebuilt_libpath_pattern :: pyval
  ca_link_all_symbols :: pyval
  ca_deprecated :: pyval
  ca_lib_allow_undefined :: pyval
  ca_secure :: pyval
  ca_compiler_env :: pyval

definition cc_library_init :: "pyval \<Rightarrow> cc_library_args \<Rightarrow> blade \<Rightarrow> (target \<times> blade) result" where
  "cc_library_init prebuilt a b =
     rbind (cc_target_init CcLibraryC ''cc_library'' a b) (\<lambda>(t, b).
       let t = (if truthy prebuilt then
                  (let t = t\<lparr>t_type := ''prebuilt_cc_library'', t_srcs := []\<rparr>
                   in if truthy (ca_prebuilt_libpath_pattern a)
                      then set_data ''prebuilt_libpath_pattern'' (ca_prebuilt_libpath_pattern a) t else t)
                else t)
       in Inr (set_all
             [(''link_all_symbols'', ca_link_all_symbols a), (''always_optimize'', ca_always_optimize a),
              (''deprecated'', ca_deprecated a), (''allow_undefined'', ca_lib_allow_undefined a), (''secure'', ca_secure a)] t, b))"

text \<open>A target for a compiler environment is registered only in that build profile.\<close>

definition register_for_profile :: "string \<Rightarrow> string \<Rightarrow> pyval \<Rightarrow> target \<Rightarrow> blade \<Rightarrow> blade result" where
  "register_for_profile kind name compiler_env t b =
     rbind (opt b ''profile'') (\<lambda>profile.
       if compiler_env = PyNone \<or> compiler_env = profile then register_target t b
       else rbind (py_text compiler_env) (\<lambda>env.
            rbind (py_text profile) (\<lambda>profile.
              Inr (say (Info (name @ '' will no be '' @ kind @ '', since compiler_env ('' @ env @
                '') conflicts with blade profile ('' @ profile @ '')'')) b))))"

definition cc_library :: "cc_library_args \<Rightarrow> blade \<Rightarrow> blade result" where
  "cc_library a b =
     rbind (cc_library_init (if truthy (ca_prebuilt a) then ca_prebuilt a else ca_pre_build a) a b) (\<lambda>(t, b).
       if truthy (ca_pre_build a)
       then Inr (say (Warn (''//'' @ t_path t @ '':'' @ t_name t @ '': 'pre_build' has been deprecated, please use '' @ single_quoted ''prebuilt'')) b)
       else register_for_profile ''library'' (ca_name a) (ca_compiler_env a) t b)"

definition with_blade :: "(target \<Rightarrow> blade \<Rightarrow> target result) \<Rightarrow> target \<times> cc_world \<Rightarrow> (target \<times> cc_world) result" where
  "with_blade f tw = (case tw of (t, w) \<Rightarrow> rbind (f t (cw_blade w)) (\<lambda>t. Inr (t, w)))"

definition note_deprecated :: "target \<Rightarrow> cc_world \<Rightarrow> cc_world" where
  "note_deprecated t w = w\<lparr>cw_blade := check_deprecated_deps t (cw_blade w)\<rparr>"

definition cc_library_scons_rules :: "nat \<Rightarrow> target \<Rightarrow> cc_world \<Rightarrow> (target \<times> cc_world) result" where
  "cc_library_scons_rules depth t w =
     (if t_type t = ''prebuilt_cc_library'' then prebuilt_cc_library t (note_deprecated t w)
      else if t_srcs t \<noteq> [] then
        (case cc_prepare_to_generate_rule t (cw_blade w) of (t, b) \<Rightarrow>
           rbind (cc_objects_rules depth t (w\<lparr>cw_blade := b\<rparr>)) (with_blade cc_library_rules))
      else Inr (t, w))"

definition cc_library_ninja_rules :: "nat \<Rightarrow> set_order \<Rightarrow> target \<Rightarrow> cc_world \<Rightarrow> (target \<times> cc_world) result" where
  "cc_library_ninja_rules depth so t w =
     (let w = note_deprecated t w
      in if t_type t = ''prebuilt_cc_library'' then prebuilt_cc_library t w
         else if t_srcs t \<noteq> [] then rbind (cc_objects_ninja depth so [] False [] t w) (with_blade (cc_library_ninja so))
         else Inr (t, w))"

definition cc_library_make_rules :: "nat \<Rightarrow> target \<Rightarrow> cc_world \<Rightarrow> (target \<times> cc_world) result" where
  "cc_library_make_rules depth t w =
     (let w = note_deprecated t w
      in if t_type t = ''prebuilt_cc_library'' then prebuilt_cc_library t w
         else if t_srcs t \<noteq> [] then rbind (cc_objects_make depth [] False [] t w) (with_blade cc_library_make)
         else Inr (t, w))"

section \<open>Binaries\<close>

record cc_binary_args = cc_args +
  ca_embed_version :: pyval
  ca_dynamic_link :: pyval
  ca_export_dynamic :: pyval

definition add_config_library :: "string \<Rightarrow> string \<Rightarrow> target \<times> blade \<Rightarrow> (target \<times> blade) result" where
  "add_config_library section_name name tb =
     (case tb of (t, b) \<Rightarrow>
        rbind (rbind (config_value b section_name name) as_strs) (\<lambda>libs. add_hardcode_library libs t b))"

text \<open>
  \<open>CcBinary\<close> takes no \<open>visibility\<close> and no \<open>export_incs\<close>: \<open>None\<close> and the empty list are passed on.
\<close>

definition cc_binary_init :: "tclass \<Rightarrow> 'a cc_binary_args_scheme \<Rightarrow> blade \<Rightarrow> (target \<times> blade) result" where
  "cc_binary_init c a b =
     rbind (cc_target_init c ''cc_binary'' (a\<lparr>ca_visibility := PyNone, ca_export_incs := pnil\<rparr>) b) (\<lambda>(t, b).
       add_config_library ''cc_binary_config'' ''extra_libs''
         (set_all [(''embed_version'', ca_embed_version a), (''dynamic_link'', ca_dynamic_link a),
                   (''export_dynamic'', ca_export_dynamic a)] t, b))"

definition cc_binary :: "'a cc_binary_args_scheme \<Rightarrow> blade \<Rightarrow> blade result" where
  "cc_binary a b = register_new (cc_binary_init CcBinaryC a b)"

definition cc_benchmark :: "'a cc_binary_args_scheme \<Rightarrow> blade \<Rightarrow> blade result" where
  "cc_benchmark a b =
     rbind (config_value b ''cc_config'' ''benchmark_libs'') (\<lambda>libs.
     rbind (config_value b ''cc_config'' ''benchmark_main_libs'') (\<lambda>main_libs.
       case (libs, main_libs) of
         (PyList libs, PyList main_libs) \<Rightarrow> cc_binary (a\<lparr>ca_deps := PyList (var_to_list (ca_deps a) @ libs @ main_libs)\<rparr>) b
       | _ \<Rightarrow> Inl TypeError))"

definition rpath_link_step :: "bool \<Rightarrow> key \<Rightarrow> string list \<times> cc_world \<Rightarrow> (string list \<times> cc_world) result" where
  "rpath_link_step dynamic k st =
     (case st of (links, w) \<Rightarrow>
        rbind (build_target (cw_blade w) k) (\<lambda>lib.
          if t_type lib = ''prebuilt_cc_library'' then
            rbind (rpath_link dynamic lib w) (\<lambda>(path, w).
              Inr (case path of None \<Rightarrow> links | Some p \<Rightarrow> if p \<noteq> [] then add_new p links else links, w))
          else Inr (links, w)))"

definition dynamic_link_of :: "target \<Rightarrow> bool result" where
  "dynamic_link_of t = rbind (dindex (t_data t) ''dynamic_link'') (\<lambda>v. Inr (truthy v))"

definition get_rpath_links :: "target \<Rightarrow> cc_world \<Rightarrow> (string list \<times> cc_world) result" where
  "get_rpath_links t w =
     rbind (dynamic_link_of t) (\<lambda>dynamic. rfold (rpath_link_step dynamic) (t_expanded_deps t) ([], w))"

definition write_rpath_links :: "target \<times> cc_world \<Rightarrow> (target \<times> cc_world) result" where
  "write_rpath_links tw =
     (case tw of (t, w) \<Rightarrow>
        rbind (get_rpath_links t w) (\<lambda>(links, w).
          Inr (fold (\<lambda>link. env_rule (\<lambda>e. e @ ''.Append(LINKFLAGS='' @ quoted (''-Wl,--rpath-link='' @ link) @ '')'')) links t, w)))"

text \<open>The versions are compared as texts.\<close>

definition static_runtime_flags :: "cc_world \<Rightarrow> string list" where
  "static_runtime_flags w = (if cw_gcc_version w > ''4.5'' then [''-static-libgcc'', ''-static-libstdc++''] else [])"

definition embed_version_rules :: "target \<Rightarrow> target result" where
  "embed_version_rules t =
     rbind (dindex (t_data t) ''embed_version'') (\<lambda>v.
       Inr (if truthy v
            then env_rules (\<lambda>e. [e @ ''.Append(LINKFLAGS=str(version_obj[0]))'',
                                 e @ ''.Requires('' @ var_name t [] @ '', version_obj)'']) t
            else t))"

definition export_dynamic_rule :: "target \<Rightarrow> target" where
  "export_dynamic_rule t =
     (if truthy (get_data t ''export_dynamic'' PyNone)
      then env_rule (\<lambda>e. e @ ''.Append(LINKFLAGS='' @ quoted ''-rdynamic'' @ '')'') t else t)"

definition whole_archive_rule :: "string \<Rightarrow> target \<Rightarrow> target" where
  "whole_archive_rule flags t = (if flags \<noteq> [] then env_rule (\<lambda>e. e @ ''.Append(LINKFLAGS=['' @ flags @ ''])'') t else t)"

definition depends_rule :: "string list \<Rightarrow> target \<Rightarrow> target" where
  "depends_rule libs t =
     (if libs \<noteq> []
      then env_rule (\<lambda>e. e @ ''.Depends('' @ var_name t [] @ '', ['' @ join_with '', '' libs @ ''])'') t else t)"

definition program_rule :: "string \<Rightarrow> string \<Rightarrow> string \<Rightarrow> target \<Rightarrow> blade \<Rightarrow> target result" where
  "program_rule builder label lib_str t b =
     (case env_name t of (e, t) \<Rightarrow>
        rbind (target_rule builder (var_name t []) e [lib_str] t b) (\<lambda>t.
          add_default_target_var label (PyStr (var_name t [])) t))"

definition cc_binary_rules :: "target \<Rightarrow> cc_world \<Rightarrow> (target \<times> cc_world) result" where
  "cc_binary_rules t w =
     rbind (get_static_deps_lib_list (cw_blade w) t) (\<lambda>(link_all, lib_str, whole).
     rbind (setup_link_flags (export_dynamic_rule (whole_archive_rule whole
              (append_rule ''LINKFLAGS'' (static_runtime_flags w) (snd (env_name t)))))) (\<lambda>t.
     rbind (program_rule ''Program'' ''bin'' lib_str t (cw_blade w)) (\<lambda>t.
     rbind (write_rpath_links (depends_rule link_all t, w)) (\<lambda>(t, w).
     rbind (embed_version_rules t) (\<lambda>t. Inr (t, w))))))"

definition dynamic_cc_binary_rules :: "target \<Rightarrow> cc_world \<Rightarrow> (target \<times> cc_world) result" where
  "dynamic_cc_binary_rules t w =
     rbind (setup_link_flags (export_dynamic_rule (snd (env_name t)))) (\<lambda>t.
     rbind (get_dynamic_deps_lib_list (cw_blade w) t) (\<lambda>lib_str.
     rbind (program_rule ''Program'' ''bin'' lib_str t (cw_blade w)) (\<lambda>t.
     rbind (embed_version_rules t) (\<lambda>t. write_rpath_links (t, w)))))"

definition cc_binary_scons_rules :: "nat \<Rightarrow> target \<Rightarrow> cc_world \<Rightarrow> (target \<times> cc_world) result" where
  "cc_binary_scons_rules depth t w =
     (case cc_prepare_to_generate_rule t (cw_blade w) of (t, b) \<Rightarrow>
        rbind (cc_objects_rules depth t (w\<lparr>cw_blade := b\<rparr>)) (\<lambda>(t, w).
        rbind (dynamic_link_of t) (\<lambda>dynamic. if dynamic then dynamic_cc_binary_rules t w else cc_binary_rules t w)))"

definition generate_cc_binary_link_flags :: "bool \<Rightarrow> target \<Rightarrow> cc_world \<Rightarrow> (string list \<times> target \<times> cc_world) result" where
  "generate_cc_binary_link_flags dynamic t w =
     rbind (generate_ninja_link_flags t) (\<lambda>(flags, t).
     rbind (get_rpath_links t w) (\<lambda>(links, w').
       Inr ((if dynamic then [] else static_runtime_flags w) @
            (if truthy (get_data t ''export_dynamic'' PyNone) then [''-rdynamic''] else []) @
            flags @ map ((@) ''-Wl,--rpath-link='') links, t, w')))"

text \<open>The libraries of a link step: system libraries, inputs, and libraries linked with all symbols.\<close>

definition link_libs :: "bool \<Rightarrow> blade \<Rightarrow> target \<Rightarrow> static_libs result" where
  "link_libs dynamic b t =
     (if dynamic then rbind (ninja_dynamic_dependencies b t) (\<lambda>(sys_libs, usr_libs). Inr (sys_libs, usr_libs, []))
      else ninja_static_dependencies b t)"

definition cc_binary_ninja :: "set_order \<Rightarrow> bool \<Rightarrow> target \<Rightarrow> cc_world \<Rightarrow> (target \<times> cc_world) result" where
  "cc_binary_ninja so dynamic t w =
     rbind (generate_cc_binary_link_flags dynamic t w) (\<lambda>(ldflags, t, w).
     rbind (link_libs dynamic (cw_blade w) t) (\<lambda>(sys_libs, usr_libs, link_all).
     rbind (dindex (t_data t) ''embed_version'') (\<lambda>embed.
       let scm = (if truthy embed then [path_join (b_build_path (cw_blade w)) ''scm.cc.o''] else []);
           output = target_file_path (cw_blade w) t []
       in rbind (cc_link_ninja so output ''link'' usr_libs (ldflags @ generate_link_all_symbols_link_flags link_all)
                   (scm @ map ((@) ''-l'') sys_libs) link_all scm t) (\<lambda>t.
          rbind (add_default_target_file ''bin'' (PyStr output) t) (\<lambda>t. Inr (t, w))))))"

definition cc_binary_ninja_rules :: "nat \<Rightarrow> set_order \<Rightarrow> target \<Rightarrow> cc_world \<Rightarrow> (target \<times> cc_world) result" where
  "cc_binary_ninja_rules depth so t w =
     rbind (cc_objects_ninja depth so [] False [] t (note_deprecated t w)) (\<lambda>(t, w).
     rbind (dynamic_link_of t) (\<lambda>dynamic. cc_binary_ninja so dynamic t w))"

text \<open>The Make variant links without the version object.\<close>

definition cc_binary_make :: "bool \<Rightarrow> target \<Rightarrow> cc_world \<Rightarrow> (target \<times> cc_world) result" where
  "cc_binary_make dynamic t w =
     rbind (generate_cc_binary_link_flags dynamic t w) (\<lambda>(ldflags, t, w).
     rbind (link_libs dynamic (cw_blade w) t) (\<lambda>(sys_libs, usr_libs, link_all).
       let output = target_file_path (cw_blade w) t []
       in rbind (cc_link_make output ''link'' usr_libs (ldflags @ generate_link_all_symbols_link_flags link_all)
                   (map ((@) ''-l'') sys_libs) link_all [] t) (\<lambda>t.
          rbind (add_default_target_file ''bin'' (PyStr output) t) (\<lambda>t. Inr (t, w)))))"

definition cc_binary_make_rules :: "nat \<Rightarrow> target \<Rightarrow> cc_world \<Rightarrow> (target \<times> cc_world) result" where
  "cc_binary_make_rules depth t w =
     rbind (cc_clean_make t) (\<lambda>t.
     rbind (cc_objects_make depth [] False [] t (note_deprecated t w)) (\<lambda>(t, w).
     rbind (dynamic_link_of t) (\<lambda>dynamic. cc_binary_make dynamic t w)))"

section \<open>Plugins\<close>

record cc_plugin_args = cc_args +
  ca_prefix :: pyval
  ca_suffix :: pyval
  ca_allow_undefined :: pyval

text \<open>
  The attributes \<open>prefix\<close> and \<open>suffix\<close>, which only plugins have, are kept in the data of the
  target under names with a leading dot, which the code never uses.
\<close>

definition cc_plugin_init :: "cc_plugin_args \<Rightarrow> blade \<Rightarrow> (target \<times> blade) result" where
  "cc_plugin_init a b =
     rbind (cc_target_init CcPluginC ''cc_plugin'' (a\<lparr>ca_visibility := PyNone, ca_export_incs := pnil\<rparr>) b) (\<lambda>(t, b).
       Inr (set_all [(''.prefix'', ca_prefix a), (''.suffix'', ca_suffix a), (''allow_undefined'', ca_allow_undefined a)] t, b))"

definition cc_plugin :: "cc_plugin_args \<Rightarrow> blade \<Rightarrow> blade result" where
  "cc_plugin a b = register_new (cc_plugin_init a b)"

definition replace_rule :: "string \<Rightarrow> pyval \<Rightarrow> target \<Rightarrow> target result" where
  "replace_rule var v t =
     (if v = PyNone then Inr t
      else rbind (py_text v) (\<lambda>s. Inr (env_rule (\<lambda>e. e @ ''.Replace('' @ var @ ''='' @ quoted s @ '')'') t)))"

definition cc_plugin_scons_rules :: "nat \<Rightarrow> target \<Rightarrow> cc_world \<Rightarrow> (target \<times> cc_world) result" where
  "cc_plugin_scons_rules depth t w =
     (case cc_prepare_to_generate_rule t (cw_blade w) of (t, b) \<Rightarrow>
        rbind (cc_objects_rules depth t (w\<lparr>cw_blade := b\<rparr>)) (\<lambda>(t, w).
        rbind (setup_link_flags t) (\<lambda>t.
        rbind (get_static_deps_lib_list (cw_blade w) t) (\<lambda>(link_all, lib_str, whole).
        rbind (replace_rule ''SHLIBPREFIX'' (get_data t ''.prefix'' PyNone) (whole_archive_rule whole t)) (\<lambda>t.
        rbind (replace_rule ''SHLIBSUFFIX'' (get_data t ''.suffix'' PyNone) t) (\<lambda>t.
        rbind (dindex (t_data t) ''allow_undefined'') (\<lambda>allow.
          let t = (if \<not> truthy allow then env_rule no_undefined_rule t else t)
          in rbind (if t_srcs t \<noteq> [] \<or> t_expanded_deps t \<noteq> []
                    then program_rule ''SharedLibrary'' ''so'' lib_str t (cw_blade w) else Inr t) (\<lambda>t.
               Inr (depends_rule link_all t, w)))))))))"

text \<open>\<open>ldflags += more\<close>: the flags returned for a target with link flags are the list in its data.\<close>

definition extend_link_flags :: "string list \<Rightarrow> string list \<Rightarrow> target \<Rightarrow> (string list \<times> target) result" where
  "extend_link_flags flags new t =
     rbind (data_strs t ''extra_linkflags'') (\<lambda>extra.
       Inr (flags @ new, if extra \<noteq> [] then set_data ''extra_linkflags'' (pstrs (flags @ new)) t else t))"

definition cc_plugin_link ::
  "(string \<Rightarrow> string \<Rightarrow> string list \<Rightarrow> string list \<Rightarrow> string list \<Rightarrow> string list \<Rightarrow> string list \<Rightarrow> target \<Rightarrow> target result) \<Rightarrow>
   target \<Rightarrow> cc_world \<Rightarrow> (target \<times> cc_world) result" where
  "cc_plugin_link link t w =
     rbind (generate_ninja_link_flags t) (\<lambda>(ldflags, t).
     rbind (ninja_static_dependencies (cw_blade w) t) (\<lambda>(sys_libs, usr_libs, link_all).
     rbind (extend_link_flags ldflags (generate_link_all_symbols_link_flags link_all) t) (\<lambda>(ldflags, t).
       let output = target_file_path (cw_blade w) t (''lib'' @ t_name t @ ''.so'')
       in if t_srcs t \<noteq> [] \<or> t_expanded_deps t \<noteq> [] then
            rbind (link output ''solink'' usr_libs ldflags (map ((@) ''-l'') sys_libs) link_all [] t) (\<lambda>t.
            rbind (add_default_target_file ''so'' (PyStr output) t) (\<lambda>t. Inr (t, w)))
          else Inr (t, w))))"

definition cc_plugin_ninja_rules :: "nat \<Rightarrow> set_order \<Rightarrow> target \<Rightarrow> cc_world \<Rightarrow> (target \<times> cc_world) result" where
  "cc_plugin_ninja_rules depth so t w =
     rbind (cc_objects_ninja depth so [] False [] t (note_deprecated t w)) (\<lambda>(t, w). cc_plugin_link (cc_link_ninja so) t w)"

definition cc_plugin_make_rules :: "nat \<Rightarrow> target \<Rightarrow> cc_world \<Rightarrow> (target \<times> cc_world) result" where
  "cc_plugin_make_rules depth t w =
     rbind (cc_objects_make depth [] False [] t (note_deprecated t w)) (\<lambda>(t, w). cc_plugin_link cc_link_make t w)"

section \<open>Tests\<close>

record cc_test_args = cc_binary_args +
  ca_testdata :: pyval
  ca_always_run :: pyval
  ca_exclusive :: pyval
  ca_heap_check :: pyval
  ca_heap_check_debug :: pyval
  ca_test_compiler_env :: pyval

definition check_heap_check :: "target \<Rightarrow> pyval \<Rightarrow> blade \<Rightarrow> pyval result" where
  "check_heap_check t heap_check b =
     (if heap_check = PyNone
      then rbind (get_config (b_config b) ''cc_test_config'') (\<lambda>config. Inr (dgetd config ''heap_check'' pempty))
      else rbind (in_set heap_check heap_check_values) (\<lambda>ok.
             if ok then Inr heap_check
             else Inl (SystemExit (''//'' @ t_path t @ '':'' @ t_name t @ '': heap_check can only be in ''))))"

definition cc_test_init :: "cc_test_args \<Rightarrow> blade \<Rightarrow> (target \<times> blade) result" where
  "cc_test_init a b =
     rbind (if ca_dynamic_link a = PyNone then config_value b ''cc_test_config'' ''dynamic_link'' else Inr (ca_dynamic_link a)) (\<lambda>dynamic.
     rbind (cc_binary_init CcTestC (a\<lparr>ca_dynamic_link := dynamic\<rparr>) b) (\<lambda>(t, b).
       let t = set_all [(''testdata'', PyList (var_to_list (ca_testdata a))), (''always_run'', ca_always_run a),
                        (''exclusive'', ca_exclusive a)] (t\<lparr>t_type := ''cc_test''\<rparr>)
       in rbind (rfold (add_config_library ''cc_test_config'') [''gtest_libs'', ''gtest_main_libs''] (t, b)) (\<lambda>(t, b).
          rbind (check_heap_check t (ca_heap_check a) b) (\<lambda>heap_check.
            if truthy heap_check
            then add_config_library ''cc_test_config''
                   (if truthy (ca_heap_check_debug a) then ''gperftools_debug_libs'' else ''gperftools_libs'')
                   (set_data ''heap_check'' heap_check t, b)
            else Inr (t, b)))))"

definition cc_test :: "cc_test_args \<Rightarrow> blade \<Rightarrow> blade result" where
  "cc_test a b =
     rbind (cc_test_init a b) (\<lambda>(t, b). register_for_profile ''test'' (ca_name a) (ca_test_compiler_env a) t b)"

end
