(* ===== verification/Cc_Facts.thy ===== *)
theory Cc_Facts
  imports Cc_Classes Gen_Rule_Facts
begin

text \<open>
  Correctness of the C++ targets: the dependencies that generate headers, include
  directories, prebuilt libraries, the libraries of a link step and the objects of a
  library.
\<close>

section \<open>What the header question leaves alone\<close>

definition without_cache :: "database \<Rightarrow> key \<Rightarrow> target option" where
  "without_cache db k = map_option (\<lambda>t. t\<lparr>t_gen_headers := None\<rparr>) (dget db k)"

lemma without_cache_store: "without_cache (modify_target k (\<lambda>t. t\<lparr>t_gen_headers := v\<rparr>) db) = without_cache db"
  by (rule ext) (simp add: without_cache_def dget_modify_target option.map_comp comp_def)

lemma generate_header_without_cache:
  "generate_header_files depth k db = Inr r \<Longrightarrow> without_cache (snd r) = without_cache db"
  "generate_header_loop depth ks db = Inr r \<Longrightarrow> without_cache (snd r) = without_cache db"
proof (induction depth k db and depth ks db arbitrary: r and r rule: generate_header_files_generate_header_loop.induct)
  case (2 depth k db)
  then show ?case by (fastforce simp: rbind_eq_Inr without_cache_store split: if_splits option.splits)
next
  case (4 depth d ds db)
  then show ?case by (fastforce simp: rbind_eq_Inr split: if_splits)
qed auto

lemma without_cache_get:
  assumes "without_cache db' = without_cache db" and "dget db k = Some t"
  obtains t' where "dget db' k = Some t'" and "t_srcs t' = t_srcs t" and "t_key t' = t_key t"
proof -
  have "without_cache db' k = Some (t\<lparr>t_gen_headers := None\<rparr>)" using assms by (simp add: without_cache_def)
  then obtain t' where g: "dget db' k = Some t'" and e: "t'\<lparr>t_gen_headers := None\<rparr> = t\<lparr>t_gen_headers := None\<rparr>"
    by (auto simp: without_cache_def)
  have "t_srcs t' = t_srcs t" and "t_key t' = t_key t"
    using arg_cong [OF e, of t_srcs] arg_cong [OF e, of t_key] by simp_all
  with g show thesis by (rule that)
qed

section \<open>The queue of header dependencies\<close>

definition has_sources :: "database \<Rightarrow> key \<Rightarrow> bool" where
  "has_sources db k \<longleftrightarrow> (\<exists>t. dget db k = Some t \<and> t_srcs t \<noteq> [])"

text \<open>The search passes through the targets that generate headers but have no sources.\<close>

definition header_links :: "database \<Rightarrow> (key \<times> key) set" where
  "header_links db = {(k, d). makes_headers (header_view db) k \<and> \<not> has_sources db k \<and> (k, d) \<in> dep_edges (header_view db)}"

definition header_makers :: "database \<Rightarrow> key set \<Rightarrow> key set" where
  "header_makers db ks = {k \<in> (header_links db)\<^sup>* `` ks. makes_headers (header_view db) k \<and> has_sources db k}"

lemma has_sources_view:
  assumes "without_cache db' = without_cache db"
  shows "has_sources db' = has_sources db"
proof (rule ext)
  fix k
  show "has_sources db' k = has_sources db k"
    using without_cache_get [OF assms, of k] without_cache_get [OF assms [symmetric], of k]
    unfolding has_sources_def by (metis option.inject)
qed

lemma header_links_view:
  assumes "without_cache db' = without_cache db"
  shows "header_view db' = header_view db" and "header_links db' = header_links db"
proof -
  show h: "header_view db' = header_view db"
  proof (rule ext)
    fix k
    have "map_option (\<lambda>t. (t_deps t, t_class t)) (without_cache db' k) = map_option (\<lambda>t. (t_deps t, t_class t)) (without_cache db k)"
      using assms by simp
    then show "header_view db' k = header_view db k"
      by (simp add: header_view_def without_cache_def option.map_comp comp_def)
  qed
  then show "header_links db' = header_links db" using has_sources_view [OF assms] by (simp add: header_links_def)
qed

lemma closed_reach: "E `` A \<subseteq> A \<Longrightarrow> E\<^sup>* `` A = A"
  by (metis Image_closed_trancl)

lemma reach_absorb: "D \<subseteq> E\<^sup>* `` A \<Longrightarrow> E\<^sup>* `` (A \<union> D) = E\<^sup>* `` A"
  by (auto intro: rtrancl_trans)

lemma header_makers_view: "without_cache db' = without_cache db \<Longrightarrow> header_makers db' = header_makers db"
  by (rule ext) (simp add: header_makers_def header_links_view [of db' db] has_sources_view [of db' db])

lemma header_links_from:
  assumes "dget db k = Some t"
  shows "header_links db `` {k} = (if makes_headers (header_view db) k \<and> t_srcs t = [] then set (t_deps t) else {})"
  using assms by (auto simp: header_links_def has_sources_def dep_edges_def header_view_def)

text \<open>The invariant of the loop, and the queue and the results after a new key.\<close>

definition header_inv :: "(key \<Rightarrow> (key list \<times> tclass) option) \<Rightarrow> key list \<Rightarrow> key list \<Rightarrow> key list \<Rightarrow> database \<Rightarrow> bool" where
  "header_inv G q keys deps db \<longleftrightarrow>
     headers_cached G db \<and> (\<forall>k \<in> set q. G k \<noteq> None) \<and> header_links db `` set keys \<subseteq> set keys \<union> set q \<and>
     distinct deps \<and> set deps = {k \<in> set keys. makes_headers G k \<and> has_sources db k}"

definition header_queue :: "bool \<Rightarrow> target \<Rightarrow> key list \<Rightarrow> key list" where
  "header_queue v t q = (if v \<and> t_srcs t = [] then q @ t_deps t else q)"

definition header_found :: "bool \<Rightarrow> target \<Rightarrow> key \<Rightarrow> key list \<Rightarrow> key list" where
  "header_found v t k deps = (if v \<and> t_srcs t \<noteq> [] then deps @ [k] else deps)"

lemma header_deps_loop_step:
  assumes "k \<notin> set keys" and "dget db k = Some t" and "generate_header_files depth k db = Inr (v, db')"
  shows "header_deps_loop depth (k # q) keys deps db =
    header_deps_loop depth (header_queue v t q) (k # keys) (header_found v t k deps) db'"
  using assms by (simp add: header_queue_def header_found_def)

lemma header_inv_view: "header_inv G q keys deps db \<Longrightarrow> header_view db = G"
  by (simp add: header_inv_def headers_cached_def)

lemma header_inv_step:
  assumes inv: "header_inv G (k # q) keys deps db" and "ranked G rank" and "k \<notin> set keys" and t: "dget db k = Some t"
    and same: "without_cache db' = without_cache db" and cached: "headers_cached G db'"
  shows "header_inv G (header_queue (makes_headers G k) t q) (k # keys) (header_found (makes_headers G k) t k deps) db'"
    and "header_makers db (set (k # keys) \<union> set (header_queue (makes_headers G k) t q)) = header_makers db (set keys \<union> set (k # q))"
proof -
  have G: "G k = Some (t_deps t, t_class t)" using header_inv_view [OF inv] t by (auto simp: header_view_def)
  have links: "header_links db `` {k} = (if makes_headers G k \<and> t_srcs t = [] then set (t_deps t) else {})"
    using header_links_from [OF t] header_inv_view [OF inv] by simp
  have src: "has_sources db k \<longleftrightarrow> t_srcs t \<noteq> []" using t by (simp add: has_sources_def)
  have "\<forall>d \<in> set (t_deps t). G d \<noteq> None" using assms(2) G by (fastforce simp: ranked_def)
  moreover have "header_links db `` set (k # keys) = header_links db `` {k} \<union> header_links db `` set keys" by auto
  ultimately show "header_inv G (header_queue (makes_headers G k) t q) (k # keys) (header_found (makes_headers G k) t k deps) db'"
    using inv assms(3) cached links src
    unfolding header_inv_def header_links_view(2) [OF same] has_sources_view [OF same] header_queue_def header_found_def
    by (auto split: if_splits)
  let ?E = "header_links db"
  have "?E\<^sup>* `` ((set keys \<union> set (k # q)) \<union> ?E `` {k}) = ?E\<^sup>* `` (set keys \<union> set (k # q))"
    by (rule reach_absorb) auto
  moreover have "set (k # keys) \<union> set (header_queue (makes_headers G k) t q) = (set keys \<union> set (k # q)) \<union> ?E `` {k}"
    by (auto simp: header_queue_def links)
  ultimately show "header_makers db (set (k # keys) \<union> set (header_queue (makes_headers G k) t q)) = header_makers db (set keys \<union> set (k # q))"
    unfolding header_makers_def by simp
qed

lemma header_deps_loop_correct:
  assumes "ranked G rank"
  shows "\<forall>k. G k \<noteq> None \<longrightarrow> rank k < depth \<Longrightarrow> header_inv G q keys deps db \<Longrightarrow>
    \<exists>deps' db'. header_deps_loop depth q keys deps db = Inr (deps', db') \<and> without_cache db' = without_cache db \<and>
      distinct deps' \<and> set deps' = header_makers db (set keys \<union> set q)"
proof (induction depth q keys deps db rule: header_deps_loop.induct)
  case (1 depth keys deps db)
  then show ?case using closed_reach [of "header_links db" "set keys"]
    by (simp add: header_makers_def header_inv_def headers_cached_def)
next
  case (2 depth k q keys deps db)
  show ?case
  proof (cases "k \<in> set keys")
    case True
    have "header_inv G q keys deps db" using 2(6) True by (simp add: header_inv_def insert_absorb)
    then show ?thesis using 2(1) [OF True 2(5)] True by (simp add: insert_absorb)
  next
    case False
    obtain t where t: "dget db k = Some t" and G: "G k \<noteq> None"
      using 2(6) by (auto simp: header_inv_def headers_cached_def header_view_def)
    obtain db1 where gen: "generate_header_files depth k db = Inr (makes_headers G k, db1)" and cached: "headers_cached G db1"
      using generate_header_files_correct [OF assms _ G] 2(5,6) G unfolding header_inv_def by blast
    have same: "without_cache db1 = without_cache db" using generate_header_without_cache(1) [OF gen] by simp
    note step = header_inv_step [OF 2(6) assms False t same cached]
    note IH = 2(2-4) [OF False t gen refl]
    have "\<exists>deps' db'. header_deps_loop depth (header_queue (makes_headers G k) t q) (k # keys)
        (header_found (makes_headers G k) t k deps) db1 = Inr (deps', db') \<and> without_cache db' = without_cache db1 \<and>
      distinct deps' \<and> set deps' = header_makers db1 (set (k # keys) \<union> set (header_queue (makes_headers G k) t q))"
      using IH 2(5) step(1) by (cases "makes_headers G k"; cases "t_srcs t = []") (simp_all add: header_queue_def header_found_def)
    then show ?thesis
      unfolding header_deps_loop_step [OF False t gen] header_makers_view [OF same] same step(2) .
  qed
qed

lemma rmap_dindex:
  assumes "\<And>k. k \<in> set ks \<Longrightarrow> \<exists>t. dget db k = Some t \<and> t_key t = k"
  shows "\<exists>ts. rmap (dindex db) ks = Inr ts \<and> map t_key ts = ks \<and> (\<forall>u \<in> set ts. dget db (t_key u) = Some u)"
  using assms
proof (induction ks)
  case (Cons k ks)
  obtain ts where "rmap (dindex db) ks = Inr ts" and "map t_key ts = ks" and "\<forall>u \<in> set ts. dget db (t_key u) = Some u" using Cons by auto
  moreover obtain t where "dget db k = Some t" and "t_key t = k" using Cons.prems [of k] by auto
  moreover from this have "dindex db k = Inr t" by (simp add: dindex_def)
  ultimately show ?case by auto
qed simp

text \<open>The target objects the search returns are those of the database, apart from the cached answers.\<close>

lemma header_targets_found:
  assumes "db_ok (b_target_database b)" and "headers_cached (header_view (b_target_database b)) (b_target_database b)"
    and "ranked (header_view (b_target_database b)) rank"
    and "\<And>k. dget (b_target_database b) k \<noteq> None \<Longrightarrow> rank k < depth"
    and "\<And>d. d \<in> set (t_deps t) \<Longrightarrow> dget (b_target_database b) d \<noteq> None"
  shows "\<exists>deps b'. generated_header_files_dependencies depth t b = Inr (deps, b') \<and>
    distinct (map t_key deps) \<and> set (map t_key deps) = header_makers (b_target_database b) (set (t_deps t)) \<and>
    (\<forall>u \<in> set deps. without_cache (b_target_database b) (t_key u) = Some (u\<lparr>t_gen_headers := None\<rparr>))"
proof -
  let ?db = "b_target_database b"
  have "header_inv (header_view ?db) (t_deps t) [] [] ?db"
    using assms(2,5) by (simp add: header_inv_def header_view_def)
  then obtain ks db' where loop: "header_deps_loop depth (t_deps t) [] [] ?db = Inr (ks, db')"
    and same: "without_cache db' = without_cache ?db" and ks: "distinct ks" "set ks = header_makers ?db (set (t_deps t))"
    using header_deps_loop_correct [OF assms(3), of depth "t_deps t" "[]" "[]" ?db] assms(4)
    by (auto simp: header_view_def)
  have "\<exists>u. dget db' k = Some u \<and> t_key u = k" if k: "k \<in> set ks" for k
  proof -
    obtain u where u: "dget ?db k = Some u" using k ks(2) by (auto simp: header_makers_def has_sources_def)
    then have "t_key u = k" using db_ok_key [OF assms(1)] by blast
    then show ?thesis using without_cache_get [OF same u] by metis
  qed
  then obtain ts where ts: "rmap (dindex db') ks = Inr ts" "map t_key ts = ks" "\<forall>u \<in> set ts. dget db' (t_key u) = Some u"
    using rmap_dindex by blast
  have cached: "without_cache ?db (t_key u) = Some (u\<lparr>t_gen_headers := None\<rparr>)" if "u \<in> set ts" for u
    using ts(3) that fun_cong [OF same, of "t_key u"] by (simp add: without_cache_def)
  have "generated_header_files_dependencies depth t b = Inr (ts, b\<lparr>b_target_database := db'\<rparr>)"
    using loop ts(1) by (simp add: generated_header_files_dependencies_def)
  moreover have "distinct (map t_key ts) \<and> set (map t_key ts) = header_makers ?db (set (t_deps t))"
    unfolding ts(2) using ks by simp
  ultimately show ?thesis using cached by blast
qed

section \<open>Properties\<close>

text \<open>
  C25. The targets whose headers have to be generated before the sources of a C++ target are
  compiled: with all dependencies present and no cycle among them the queue loop returns, and its
  result lists without repetition exactly the targets with sources that generate headers and can be reached from
  the dependencies through header-generating targets without sources of their own. A stack
  deeper than the longest chain of dependencies is enough.
\<close>

theorem header_dependencies_found:
  assumes "db_ok (b_target_database b)" and "headers_cached (header_view (b_target_database b)) (b_target_database b)"
    and "ranked (header_view (b_target_database b)) rank"
    and "\<And>k. dget (b_target_database b) k \<noteq> None \<Longrightarrow> rank k < depth"
    and "\<And>d. d \<in> set (t_deps t) \<Longrightarrow> dget (b_target_database b) d \<noteq> None"
  shows "\<exists>deps b'. generated_header_files_dependencies depth t b = Inr (deps, b') \<and>
    distinct (map t_key deps) \<and> set (map t_key deps) = header_makers (b_target_database b) (set (t_deps t))"
  using header_targets_found [OF assms] by blast

section \<open>Construction only adds system libraries\<close>

definition same_targets :: "blade \<Rightarrow> blade \<Rightarrow> bool" where
  "same_targets b b' \<longleftrightarrow> (\<forall>k. fst k \<noteq> ''#'' \<longrightarrow> dget (b_target_database b') k = dget (b_target_database b) k)"

lemma same_targets_refl [simp]: "same_targets b b"
  by (simp add: same_targets_def)

lemma same_targets_trans: "same_targets a b \<Longrightarrow> same_targets b c \<Longrightarrow> same_targets a c"
  by (simp add: same_targets_def)

lemma same_targets_say [simp]: "same_targets b (say m b)"
  by (simp add: same_targets_def)

lemma check_srcs_same_targets:
  assumes "check_srcs t b = Inr b'"
  shows "same_targets b b'"
proof -
  obtain action where "rfold (check_src action t) (t_srcs t) b = Inr b'"
    using assms by (auto simp: check_srcs_def rbind_eq_Inr split: if_splits)
  then show ?thesis
    by (rule rfold_invariant) (auto simp: check_src_def same_targets_def Let_def split: if_splits option.splits)
qed

lemma begin_target_same_targets: "begin_target c name ty srcs kwargs b = Inr (t, b') \<Longrightarrow> same_targets b b'"
  using begin_target_ok(2) check_srcs_same_targets by blast

lemma add_system_library_same_targets:
  assumes "add_system_library (''#'', tl name) name b = Inr b'"
  shows "same_targets b b'"
proof (cases "(''#'', tl name) \<in> set (dkeys (b_target_database b))")
  case True
  then show ?thesis using assms by (simp add: add_system_library_def)
next
  case False
  then obtain lib b1 where lib: "system_library name b = Inr (lib, b1)" and reg: "register_target lib b1 = Inr b'"
    using assms by (auto simp: add_system_library_def rbind_eq_Inr)
  have "same_targets b b1" using lib by (auto simp: system_library_def Let_def rbind_eq_Inr dest: begin_target_same_targets)
  then show ?thesis
    using register_target_ok(2) [OF reg] system_library_ok(1) [OF lib] by (auto simp: same_targets_def)
qed

lemma unify_dep_same_targets: "unify_dep t d b = Inr (k, b') \<Longrightarrow> same_targets b b'"
  by (auto simp: unify_dep_def rbind_eq_Inr split: if_splits option.splits dest: add_system_library_same_targets)

lemma init_target_deps_same_targets:
  assumes "init_target_deps deps t b = Inr (t', b')"
  shows "same_targets b b'"
  using rfold_invariant [of init_target_dep deps "(t, b)" "(t', b')" "\<lambda>tb. same_targets b (snd tb)"] assms
  by (fastforce simp: init_target_deps_def init_target_dep_def rbind_eq_Inr
      intro: same_targets_trans dest: unify_dep_same_targets)

lemma init_visibility_same_targets:
  assumes "init_visibility v t b = Inr (t', b')"
  shows "same_targets b b'"
proof (cases "v = PyNone \<or> var_to_list v = [PyStr ''PUBLIC'']")
  case True
  then show ?thesis using assms by (auto simp: init_visibility_def split: if_splits)
next
  case False
  then have "rfold init_visibility_item (var_to_list v) (t\<lparr>t_visibility := VisibleTo []\<rparr>, b) = Inr (t', b')"
    using assms by (simp add: init_visibility_def)
  then have "same_targets b (snd (t', b'))"
    by (rule rfold_invariant [where P = "\<lambda>tb. same_targets b (snd tb)"])
       (auto simp: init_visibility_item_def rbind_eq_Inr split: pyval.splits
         intro: same_targets_trans [OF _ unify_dep_same_targets])
  then show ?thesis by simp
qed

lemma target_init_same_targets:
  assumes "target_init c name ty srcs deps vis kwargs b = Inr (t, b')"
  shows "same_targets b b'"
proof -
  obtain t1 b1 t2 b2 where init: "begin_target c name ty srcs kwargs b = Inr (t1, b1)" "init_target_deps deps t1 b1 = Inr (t2, b2)"
    "init_visibility vis t2 b2 = Inr (t, b')"
    using assms by (auto simp: target_init_def rbind_eq_Inr)
  have "same_targets b b2"
    by (rule same_targets_trans [OF begin_target_same_targets init_target_deps_same_targets]) (fact init(1,2))+
  then show ?thesis by (rule same_targets_trans) (rule init_visibility_same_targets [OF init(3)])
qed

lemma check_def_same_targets: "same_targets b (fold check_def defs b)"
proof (induction defs arbitrary: b)
  case (Cons d defs)
  have "same_targets b (check_def d b)" by (simp add: check_def_def Let_def)
  then show ?case using Cons same_targets_trans by fastforce
qed simp

lemma check_incorrect_no_warning_same_targets: "same_targets b (check_incorrect_no_warning t b)"
  by (simp add: check_incorrect_no_warning_def Let_def)

lemma cc_target_init_same_targets:
  assumes "cc_target_init c ty a b = Inr (t, b')"
  shows "same_targets b b'"
proof -
  obtain srcs deps t1 b1 b2 where init: "target_init c (ca_name a) ty srcs deps (ca_visibility a) (ca_kwargs a) b = Inr (t1, b1)"
    and defs: "check_defs t b1 = Inr b2" and b': "b' = check_incorrect_no_warning t b2"
    using assms by (auto simp: cc_target_init_def rbind_eq_Inr Let_def)
  obtain ds where "b2 = fold check_def ds b1" using defs by (auto simp: check_defs_def rbind_eq_Inr)
  then have "same_targets b b2" using same_targets_trans [OF target_init_same_targets [OF init] check_def_same_targets] by simp
  then show ?thesis unfolding b' by (rule same_targets_trans) (rule check_incorrect_no_warning_same_targets)
qed

text \<open>
  A library declared with the deprecated attribute \<open>pre_build\<close> is never registered: the rule prints that the attribute
  is deprecated, which reads as if it were still honoured, and then returns before the
  registration. The database has the same targets as before, apart from system libraries, so
  that every target that depends on the library fails to load.
\<close>

theorem pre_build_never_registered:
  assumes "cc_library a b = Inr b'" and "truthy (ca_pre_build a)" and "fst k \<noteq> ''#''"
  shows "dget (b_target_database b') k = dget (b_target_database b) k"
proof -
  obtain t b1 m where init: "cc_library_init (if truthy (ca_prebuilt a) then ca_prebuilt a else ca_pre_build a) a b = Inr (t, b1)"
    and b': "b' = say m b1"
    using assms(1,2) by (auto simp: cc_library_def rbind_eq_Inr)
  obtain t0 where "cc_target_init CcLibraryC ''cc_library'' a b = Inr (t0, b1)"
    using init by (auto simp: cc_library_init_def rbind_eq_Inr Let_def)
  then have "same_targets b b1" by (rule cc_target_init_same_targets)
  then show ?thesis using b' assms(3) by (simp add: same_targets_def)
qed

section \<open>Versions of the compiler\<close>

lemma text_below:
  "n < 10 \<Longrightarrow> n \<noteq> 4 \<Longrightarrow> ''4.5'' < char_of (n + 48 :: nat) # s \<longleftrightarrow> 4 < n"
proof -
  assume n: "n < 10" "n \<noteq> 4"
  have "CHR ''4'' < char_of (n + 48) \<longleftrightarrow> 4 < n" using n by (simp add: less_char_def)
  moreover have "CHR ''4'' \<noteq> char_of (n + 48)"
  proof
    assume "CHR ''4'' = char_of (n + 48)"
    then have "(of_char (CHR ''4'') :: nat) = of_char (char_of (n + 48) :: char)" by (rule arg_cong)
    then show False using n by simp
  qed
  ultimately show ?thesis by simp
qed

lemma static_runtime_flags_first:
  assumes "cw_gcc_version w = char_of (n + 48 :: nat) # s" and "n < 10" and "n \<noteq> 4"
  shows "static_runtime_flags w = (if 4 < n then [''-static-libgcc'', ''-static-libstdc++''] else [])"
  using text_below [OF assms(2,3), of s] by (simp add: static_runtime_flags_def assms(1))

text \<open>
  The compiler version is compared as a text. For the versions 5 to 9 a statically linked
  binary gets the flags that link the runtime libraries statically, as the
  comparison with 4.5 intends; for the versions 10 to 39 it loses them, and the flags of a static
  and of a dynamic link step are the same.
\<close>

theorem gcc_version_compared_as_text:
  assumes "cw_gcc_version w = show_nat major @ ''.'' @ minor"
  shows "(major \<in> {5..9} \<longrightarrow> static_runtime_flags w = [''-static-libgcc'', ''-static-libstdc++'']) \<and>
    (major \<in> {10..39} \<longrightarrow> generate_cc_binary_link_flags False t w = generate_cc_binary_link_flags True t w)"
proof (intro conjI impI)
  assume m: "major \<in> {5..9}"
  then have "cw_gcc_version w = char_of (major + 48) # ''.'' @ minor" using assms by (simp add: show_nat.simps)
  then show "static_runtime_flags w = [''-static-libgcc'', ''-static-libstdc++'']"
    using static_runtime_flags_first [of w major] m by simp
next
  assume m: "major \<in> {10..39}"
  then have d: "major div 10 < 4" by auto
  then have "cw_gcc_version w = char_of (major div 10 + 48) # char_of (major mod 10 + 48) # ''.'' @ minor"
    using assms m by (simp add: show_nat.simps [of major] show_nat.simps [of "major div 10"])
  then have "static_runtime_flags w = []"
    using static_runtime_flags_first [of w "major div 10"] d by simp
  then show "generate_cc_binary_link_flags False t w = generate_cc_binary_link_flags True t w"
    by (simp add: generate_cc_binary_link_flags_def)
qed

section \<open>Examples\<close>

definition sample_cc :: "tclass \<Rightarrow> string \<Rightarrow> string \<Rightarrow> string list \<Rightarrow> string list \<Rightarrow> target" where
  "sample_cc c type n srcs ds =
     \<lparr>t_class = c, t_key = (''p'', n), t_fullname = show_key (''p'', n), t_name = n, t_path = ''p'',
      t_type = type, t_srcs = srcs, t_deps = map (Pair ''p'') ds, t_expanded_deps = map (Pair ''p'') ds, t_visibility = Public,
      t_env_name = None, t_data = [(''targets'', PyDict [(''a'', PyStr (''b/p/lib'' @ n @ ''.a''))]), (''default_target'', PyStr (''b/p/'' @ n))],
      t_rules = [], t_gen_headers = None\<rparr>"

definition sample_cc_db :: database where
  "sample_cc_db =
     map (\<lambda>t. (t_key t, t))
       [sample_cc CcLibraryC ''cc_library'' ''c'' [] [''d''], sample_cc ProtoLibraryC ''proto_library'' ''d'' [''d.proto''] [],
        sample_cc CcLibraryC ''cc_library'' ''e'' [''e.cc''] []]"

definition sample_cc_blade :: blade where
  "sample_cc_blade =
     (blade_init [] [] ''/w'' ''b'' ''/w'' [(''profile'', PyStr ''debug''), (''generate_dynamic'', PyBool False)] ''build'' []
        \<lparr>c_file = [], c_configs = [(''cc_library_config'', [])], c_log = []\<rparr>)
     \<lparr>b_target_database := sample_cc_db, b_build_targets := map fst sample_cc_db\<rparr>"

definition sample_cc_lib :: target where
  "sample_cc_lib = sample_cc CcLibraryC ''cc_library'' ''m'' [''m.cc''] [''c'', ''e'']"

lemma sample_cc_get:
  "dget sample_cc_db k = Some t \<Longrightarrow> k = (''p'', ''c'') \<and> t = sample_cc CcLibraryC ''cc_library'' ''c'' [] [''d''] \<or>
    k = (''p'', ''d'') \<and> t = sample_cc ProtoLibraryC ''proto_library'' ''d'' [''d.proto''] [] \<or>
    k = (''p'', ''e'') \<and> t = sample_cc CcLibraryC ''cc_library'' ''e'' [''e.cc''] []"
  by (auto simp: sample_cc_db_def sample_cc_def split: if_splits)

lemma sample_cc_db_facts:
  "db_ok sample_cc_db" "headers_cached (header_view sample_cc_db) sample_cc_db"
  "ranked (header_view sample_cc_db) (\<lambda>k. if snd k = ''c'' then 1 else 0)"
proof -
  show "db_ok sample_cc_db" by code_simp
  show "headers_cached (header_view sample_cc_db) sample_cc_db"
    by (auto simp: headers_cached_def sample_cc_def dest!: sample_cc_get)
  show "ranked (header_view sample_cc_db) (\<lambda>k. if snd k = ''c'' then 1 else 0)"
    by (auto simp: ranked_def header_view_def sample_cc_def dest!: sample_cc_get) (simp add: sample_cc_db_def sample_cc_def)
qed

theorem header_dependencies_found_witness:
  "header_makers sample_cc_db {(''p'', ''c''), (''p'', ''e'')} = {(''p'', ''d'')}"
proof -
  have db: "b_target_database sample_cc_blade = sample_cc_db" by (simp add: sample_cc_blade_def)
  have deps: "set (t_deps sample_cc_lib) = {(''p'', ''c''), (''p'', ''e'')}" by code_simp
  have present: "list_all (\<lambda>d. dget sample_cc_db d \<noteq> None) [(''p'', ''c''), (''p'', ''e'')]" by code_simp
  have "\<exists>deps b'. generated_header_files_dependencies 2 sample_cc_lib sample_cc_blade = Inr (deps, b') \<and>
      distinct (map t_key deps) \<and> set (map t_key deps) = header_makers sample_cc_db {(''p'', ''c''), (''p'', ''e'')}"
    using present by (intro header_dependencies_found [where b = sample_cc_blade and t = sample_cc_lib, unfolded db deps, OF sample_cc_db_facts])
      (auto simp: list_all_iff)
  then obtain ds b' where r: "generated_header_files_dependencies 2 sample_cc_lib sample_cc_blade = Inr (ds, b')"
    and ds: "set (map t_key ds) = header_makers sample_cc_db {(''p'', ''c''), (''p'', ''e'')}" by blast
  have "map_sum id (map t_key \<circ> fst) (generated_header_files_dependencies 2 sample_cc_lib sample_cc_blade) =
    (Inr [(''p'', ''d'')] :: key list result)" by code_simp
  then have "map t_key ds = [(''p'', ''d'')]" by (simp add: r)
  then show ?thesis using ds by simp
qed

definition sample_pre_build :: cc_library_args where
  "sample_pre_build =
     \<lparr>ca_name = ''old'', ca_srcs = PyList [], ca_deps = PyList [], ca_visibility = PyNone, ca_warning = PyStr ''yes'',
      ca_defs = PyList [PyStr ''int=long''], ca_incs = PyList [], ca_export_incs = PyList [], ca_optimize = PyList [],
      ca_extra_cppflags = PyList [], ca_extra_linkflags = PyList [], ca_kwargs = [], ca_always_optimize = PyBool False,
      ca_pre_build = PyBool True, ca_prebuilt = PyBool False, ca_prebuilt_libpath_pattern = PyNone,
      ca_link_all_symbols = PyBool False, ca_deprecated = PyBool False, ca_lib_allow_undefined = PyBool False,
      ca_secure = PyBool False, ca_compiler_env = PyNone\<rparr>"

theorem pre_build_never_registered_witness:
  "\<exists>b'. cc_library sample_pre_build sample_blade = Inr b' \<and> dget (b_target_database b') (''app'', ''old'') = None"
proof -
  let ?r = "cc_library sample_pre_build sample_blade"
  have "is_ok ?r" by code_simp
  then obtain b' where r: "?r = Inr b'" by (cases ?r) (auto simp: is_ok_def)
  have "truthy (ca_pre_build sample_pre_build)" by code_simp
  then have "dget (b_target_database b') (''app'', ''old'') = dget (b_target_database sample_blade) (''app'', ''old'')"
    using pre_build_never_registered [OF r, of "(''app'', ''old'')"] by simp
  moreover have "dget (b_target_database sample_blade) (''app'', ''old'') = None" by code_simp
  ultimately show ?thesis using r by simp
qed

definition sample_world :: "string \<Rightarrow> cc_world" where
  "sample_world version =
     \<lparr>cw_blade = sample_cc_blade, cw_exists = (\<lambda>p. p = ''p/m.cc''), cw_libpath = None, cw_file_and_link = [],
      cw_objdump = (\<lambda>_. None), cw_gcc_version = version\<rparr>"

theorem gcc_version_compared_as_text_witness:
  "static_runtime_flags (sample_world ''9.4'') \<noteq> [] \<and>
   generate_cc_binary_link_flags False sample_cc_lib (sample_world ''11.2'') = generate_cc_binary_link_flags True sample_cc_lib (sample_world ''11.2'')"
proof -
  have "cw_gcc_version (sample_world ''9.4'') = show_nat 9 @ ''.'' @ ''4''"
    and "cw_gcc_version (sample_world ''11.2'') = show_nat 11 @ ''.'' @ ''2''" by code_simp+
  then show ?thesis
    using gcc_version_compared_as_text [of "sample_world ''9.4''" 9 "''4''"]
      gcc_version_compared_as_text [of "sample_world ''11.2''" 11 "''2''" sample_cc_lib] by simp
qed

end
