(* ===== verification/Cc_Link_Facts.thy ===== *)
theory Cc_Link_Facts
  imports Cc_Facts
begin

text \<open>
  Prebuilt libraries, the libraries of a link step and the statements that Ninja gets for a
  library.
\<close>

section \<open>Assertions\<close>

definition no_assertion :: "'a result \<Rightarrow> bool" where
  "no_assertion r \<longleftrightarrow> r \<noteq> Inl (PyException ''AssertionError'')"

named_theorems no_assertion

lemma no_assertion_result [no_assertion]:
  "no_assertion (Inr x)" "no_assertion (Inl e) \<longleftrightarrow> e \<noteq> PyException ''AssertionError''"
  by (simp_all add: no_assertion_def)

lemma no_assertion_bind [no_assertion]:
  "no_assertion (rbind m f) \<longleftrightarrow> no_assertion m \<and> (\<forall>x. m = Inr x \<longrightarrow> no_assertion (f x))"
  by (cases m) (auto simp: no_assertion_def)

lemma no_assertion_rmap: "(\<And>x. no_assertion (f x)) \<Longrightarrow> no_assertion (rmap f xs)"
  by (induction xs) (simp_all add: no_assertion)

lemma no_assertion_opt [no_assertion]: "no_assertion (opt b n)"
  by (simp add: opt_def no_assertion split: option.splits)

lemma no_assertion_as_str [no_assertion]: "no_assertion (as_str v)"
  by (cases v) (simp_all add: no_assertion)

lemma no_assertion_strs [no_assertion]: "no_assertion (rmap as_str vs)"
  by (simp add: no_assertion_rmap no_assertion)

lemma no_assertion_py_text [no_assertion]: "no_assertion (py_text v)"
  by (cases v) (simp_all add: no_assertion)

lemma no_assertion_dindex [no_assertion]: "no_assertion (dindex d k)"
  by (simp add: dindex_def no_assertion split: option.splits)

lemma no_assertion_get_config [no_assertion]: "no_assertion (get_config c n)"
  by (simp add: get_config_def no_assertion)

lemma no_assertion_config_value [no_assertion]: "no_assertion (config_value b n m)"
  by (simp add: config_value_def no_assertion)

lemma no_assertion_template [no_assertion]: "no_assertion (template_substitute d s)"
proof (induction d s rule: template_substitute.induct)
  case (2 d c cs)
  then show ?case by (cases "template_place cs") (auto simp: no_assertion split: option.splits)
qed (simp add: no_assertion)

lemma no_assertion_targets_dict [no_assertion]: "no_assertion (targets_dict t)"
  by (simp add: targets_dict_def no_assertion split: pyval.splits)

lemma no_assertion_add_file [no_assertion]: "no_assertion (add_target_file l p t)"
  by (simp add: add_target_file_def Let_def no_assertion)

lemma no_assertion_add_default_file [no_assertion]: "no_assertion (add_default_target_file l p t)"
  by (simp add: add_default_target_file_def no_assertion)

lemma no_assertion_need_dynamic [no_assertion]: "no_assertion (need_dynamic_library t b)"
  by (simp add: need_dynamic_library_def no_assertion)

lemma no_assertion_libpath [no_assertion]: "no_assertion (libpath_values b)" "no_assertion (default_libpath vs w)"
  by (simp_all add: libpath_values_def default_libpath_def no_assertion split: option.splits)

lemma no_assertion_pathname [no_assertion]: "no_assertion (prebuilt_cc_library_pathname t w)"
  by (simp add: prebuilt_cc_library_pathname_def Let_def no_assertion split: prod.splits)

lemma no_assertion_path [no_assertion]: "no_assertion (prebuilt_cc_library_path d t w)"
  by (simp add: prebuilt_cc_library_path_def Let_def no_assertion split: prod.splits list.splits)

section \<open>Prebuilt libraries\<close>

text \<open>What the path of a prebuilt library depends on.\<close>

definition same_library :: "target \<Rightarrow> target \<Rightarrow> bool" where
  "same_library t u \<longleftrightarrow> t_path u = t_path t \<and> t_name u = t_name t \<and>
     get_data u ''prebuilt_libpath_pattern'' PyNone = get_data t ''prebuilt_libpath_pattern'' PyNone"

lemma same_library_trans: "same_library s t \<Longrightarrow> same_library t u \<Longrightarrow> same_library s u"
  by (simp add: same_library_def)

lemma set_data_same_library: "n \<noteq> ''prebuilt_libpath_pattern'' \<Longrightarrow> same_library t (set_data n v t)"
  by (simp add: same_library_def get_set_data) (simp add: set_data_def)

lemma add_target_file_same_library:
  assumes "add_target_file l p t = Inr u"
  shows "same_library t u"
proof -
  obtain d def where "u = (let t = set_data ''targets'' (PyDict (dset l p d)) t
    in if \<not> truthy def then set_data ''default_target'' p t else t)"
    using assms by (auto simp: add_target_file_def rbind_eq_Inr Let_def)
  then show ?thesis
    by (cases "truthy def") (simp_all add: Let_def same_library_trans [OF set_data_same_library set_data_same_library] set_data_same_library)
qed

lemma add_default_target_file_same_library: "add_default_target_file l p t = Inr u \<Longrightarrow> same_library t u"
  unfolding add_default_target_file_def
  by (rule same_library_trans [OF set_data_same_library add_target_file_same_library]) simp_all

lemma default_libpath_again: "default_libpath vs w = Inr (p, w1) \<Longrightarrow> default_libpath vs w1 = Inr (p, w1) \<and> cw_blade w1 = cw_blade w"
  by (auto simp: default_libpath_def rbind_eq_Inr split: option.splits)

lemma pathname_again:
  assumes "prebuilt_cc_library_pathname t w = Inr (p, w1)" and "same_library t u"
  shows "prebuilt_cc_library_pathname u w1 = Inr (p, w1)"
proof -
  obtain vs d where "libpath_values (cw_blade w) = Inr vs" and d: "default_libpath vs w = Inr (d, w1)"
    using assms(1) by (auto simp: prebuilt_cc_library_pathname_def rbind_eq_Inr Let_def)
  then show ?thesis
    using assms default_libpath_again [OF d] by (simp add: prebuilt_cc_library_pathname_def same_library_def)
qed

text \<open>
  The library that is chosen: the two candidates are the archive and the shared library, and a
  library that was found first without and then with the preference for shared libraries is
  either the same or the archive and then the shared one.
\<close>

lemma endswith_append: "endswith y s \<Longrightarrow> endswith (x @ y) s"
  by (simp add: endswith_def suffix_appendI)

lemma endswith_path_join: "endswith y s \<Longrightarrow> endswith (path_join x y) s"
  using endswith_append [of y s x] endswith_append [of y s "x @ [slash]"] by (simp add: path_join_def)

lemma endswith_lib: "endswith (path_join x (y @ n @ s)) s"
  by (intro endswith_path_join endswith_append) (simp add: endswith_def)

lemma pathname_suffixes:
  assumes "prebuilt_cc_library_pathname t w = Inr ((a, so), w1)"
  shows "endswith a ''.a''" and "endswith so ''.so''"
proof -
  obtain libpath where "a = path_join3 (t_path t) libpath (''lib'' @ t_name t @ ''.a'')"
    and "so = path_join3 (t_path t) libpath (''lib'' @ t_name t @ ''.so'')"
    using assms unfolding prebuilt_cc_library_pathname_def Let_def by (simp only: rbind_eq_Inr split_paired_Ex case_prod_conv) blast
  then show "endswith a ''.a''" and "endswith so ''.so''"
    unfolding path_join3_def by (simp_all only: endswith_lib)
qed

lemma prebuilt_path_cases:
  assumes "prebuilt_cc_library_path d t w = Inr ((src, tgt), w1)"
  obtains a so where "prebuilt_cc_library_pathname t w = Inr ((a, so), w1)" and "endswith a ''.a''" and "endswith so ''.so''"
    and "tgt = target_file_path (cw_blade w1) t (basename src)" and "cw_exists w1 src"
    and "src = (if d then if cw_exists w1 so then so else a else if cw_exists w1 a then a else so)"
proof -
  obtain a so w' where p: "prebuilt_cc_library_pathname t w = Inr ((a, so), w')"
    using assms by (cases "prebuilt_cc_library_pathname t w") (auto simp: prebuilt_cc_library_path_def)
  have e: "w' = w1 \<and> tgt = target_file_path (cw_blade w1) t (basename src) \<and> cw_exists w1 src \<and>
    src = (if d then if cw_exists w1 so then so else a else if cw_exists w1 a then a else so)"
    using assms p
    by (cases d; cases "cw_exists w' a"; cases "cw_exists w' so"; auto simp: prebuilt_cc_library_path_def Let_def)
  then have "w' = w1" by blast
  with p have q: "prebuilt_cc_library_pathname t w = Inr ((a, so), w1)" by simp
  show thesis using e by (intro that [OF q pathname_suffixes [OF q]]) blast+
qed

lemma prebuilt_path_twice:
  assumes "prebuilt_cc_library_path False t w = Inr ((ssrc, stgt), w1)" and "same_library t u"
    and "prebuilt_cc_library_path True u w1 = Inr ((dsrc, dtgt), w2)" and "dtgt \<noteq> stgt"
  shows "endswith ssrc ''.a'' \<and> endswith dsrc ''.so''"
proof -
  obtain a so where s: "prebuilt_cc_library_pathname t w = Inr ((a, so), w1)" "endswith a ''.a''" "endswith so ''.so''"
      "stgt = target_file_path (cw_blade w1) t (basename ssrc)" "cw_exists w1 ssrc" "ssrc = (if cw_exists w1 a then a else so)"
    using prebuilt_path_cases [OF assms(1)] by metis
  obtain a' so' where d: "prebuilt_cc_library_pathname u w1 = Inr ((a', so'), w2)"
      "dtgt = target_file_path (cw_blade w2) u (basename dsrc)" "cw_exists w2 dsrc" "dsrc = (if cw_exists w2 so' then so' else a')"
    using prebuilt_path_cases [OF assms(3)] by metis
  have same: "a' = a" "so' = so" "w2 = w1" using pathname_again [OF s(1) assms(2)] d(1) by auto
  have "target_file_path (cw_blade w1) u = target_file_path (cw_blade w1) t"
    using assms(2) by (simp add: target_file_path_def same_library_def fun_eq_iff)
  then have "dsrc \<noteq> ssrc" using assms(4) s(4) d(2) same by auto
  then show ?thesis using s d same by (auto split: if_splits)
qed

text \<open>
  The interface between the rules of prebuilt libraries and the back end that writes the copy
  statement.
\<close>

locale copy_writer =
  fixes copy :: "string \<Rightarrow> string \<Rightarrow> target \<Rightarrow> target result"
  assumes copy_frame: "copy target source t = Inr u \<Longrightarrow> same_library t u"
    and copy_total: "no_assertion (copy target source t)"
begin

lemma copy_rules_no_assertion: "no_assertion (prebuilt_copy_rules copy t w)"
proof -
  have ok: "endswith ssrc ''.a'' \<and> endswith dsrc ''.so''"
    if s: "prebuilt_cc_library_path False t w = Inr ((ssrc, stgt), w1)"
      and c: "(if endswith ssrc ''.a'' then Inr (ssrc, t) else rbind (copy stgt ssrc t) (\<lambda>t. Inr (stgt, t))) = Inr (path, t1)"
      and f: "add_default_target_file ''a'' (PyStr path) t1 = Inr u"
      and d: "prebuilt_cc_library_path True u w1 = Inr ((dsrc, dtgt), w2)" and n: "dtgt \<noteq> stgt"
    for ssrc stgt w1 path t1 u dsrc dtgt w2
  proof (rule prebuilt_path_twice [OF s _ d n])
    have "same_library t t1" using c copy_frame by (auto simp: rbind_eq_Inr same_library_def split: if_splits)
    then show "same_library t u" using add_default_target_file_same_library [OF f] same_library_trans by blast
  qed
  show ?thesis
    unfolding prebuilt_copy_rules_def
    by (auto simp: no_assertion copy_total split: prod.splits dest: ok)
qed

end

lemma no_assertion_join [no_assertion]: "no_assertion (join_blank vs)"
  by (simp add: join_blank_def no_assertion)

lemma write_rules_same_library: "same_library t (write_rules ls t)"
proof (induction ls arbitrary: t)
  case (Cons l ls)
  have "same_library t (write_rule l t)" by (simp add: write_rule_def same_library_def get_data_def)
  then show ?case using Cons same_library_trans by (fastforce simp: write_rules_def)
qed (simp add: write_rules_def same_library_def)

lemma write_rule_same_library: "same_library t (write_rule l t)"
  by (simp add: write_rule_def same_library_def get_data_def)

interpretation ninja_copies: copy_writer ninja_copy
proof unfold_locales
  show "same_library t u" if "ninja_copy target source t = Inr u" for target source t u
    using that by (auto simp: ninja_copy_def ninja_build_def Let_def rbind_eq_Inr
        intro: same_library_trans [OF write_rule_same_library write_rules_same_library])
  show "no_assertion (ninja_copy target source t)" for target source t
    by (simp add: ninja_copy_def ninja_build_def Let_def no_assertion)
qed

interpretation make_copies: copy_writer make_copy
proof unfold_locales
  show "same_library t u" if "make_copy target source t = Inr u" for target source t u
    using that by (auto simp: make_copy_def dest: make_build_other_rule [rotated] simp: same_library_def)
  show "no_assertion (make_copy target source t)" for target source t
    by (simp add: make_copy_def make_build_def Let_def make_statement_def format_all_def no_assertion)
qed

text \<open>
  C28. The two assertions in the rules of a prebuilt library never fail, for Ninja and for Make: when the
  target paths chosen without and with preference for shared libraries differ, the first
  source is an archive and the second a shared library, whatever files exist and although
  the path pattern is computed and cached in between.
\<close>

theorem prebuilt_assertions_hold:
  "prebuilt_cc_library_ninja_rules t w \<noteq> Inl (PyException ''AssertionError'') \<and>
   prebuilt_cc_library_make_rules t w \<noteq> Inl (PyException ''AssertionError'')"
  using ninja_copies.copy_rules_no_assertion [of t w] make_copies.copy_rules_no_assertion [of t w]
  by (simp add: prebuilt_cc_library_ninja_rules_def prebuilt_cc_library_make_rules_def no_assertion_def)

section \<open>Libraries of a link step\<close>

text \<open>The archive a dependency contributes, if any, and whether it is linked with all symbols.\<close>

definition archive_of :: "blade \<Rightarrow> key \<Rightarrow> string option" where
  "archive_of b k =
     (case build_target b k of
        Inl _ \<Rightarrow> None
      | Inr dep \<Rightarrow> if header_only dep \<or> fst k = ''#'' then None else (case output_of dep ''a'' of Inr v \<Rightarrow> v | Inl _ \<Rightarrow> None))"

definition links_all :: "blade \<Rightarrow> key \<Rightarrow> bool" where
  "links_all b k = (case build_target b k of Inl _ \<Rightarrow> False | Inr dep \<Rightarrow> truthy (get_data dep ''link_all_symbols'' PyNone))"

definition system_dep :: "blade \<Rightarrow> key \<Rightarrow> bool" where
  "system_dep b k = (fst k = ''#'' \<and> (case build_target b k of Inl _ \<Rightarrow> False | Inr dep \<Rightarrow> \<not> header_only dep))"

definition archives :: "blade \<Rightarrow> key list \<Rightarrow> string list" where
  "archives b ks = List.map_filter (archive_of b) ks"

lemma ninja_static_dep_result:
  assumes "ninja_static_dep b k (sys_libs, usr_libs, link_all) = Inr libs"
  shows "libs = (sys_libs @ (if system_dep b k then [snd k] else []),
    usr_libs @ archives b (filter (\<lambda>k. \<not> links_all b k) [k]), link_all @ archives b (filter (links_all b) [k]))"
proof -
  obtain dep where dep: "build_target b k = Inr dep" using assms by (auto simp: ninja_static_dep_def rbind_eq_Inr)
  consider "header_only dep" | "\<not> header_only dep" "fst k = ''#''" | "\<not> header_only dep" "fst k \<noteq> ''#''" by blast
  then show ?thesis
  proof cases
    case 3
    obtain v where "output_of dep ''a'' = Inr v" using assms dep 3 by (auto simp: ninja_static_dep_def rbind_eq_Inr)
    then show ?thesis
      using assms dep 3
      by (cases v) (auto simp: ninja_static_dep_def system_dep_def archives_def archive_of_def links_all_def map_filter_simps)
  qed (use assms dep in \<open>auto simp: ninja_static_dep_def system_dep_def archives_def archive_of_def links_all_def map_filter_simps\<close>)
qed

lemma archives_append: "archives b (xs @ ys) = archives b xs @ archives b ys" "archives b [] = []"
  by (simp_all add: archives_def map_filter_def)

lemma ninja_static_deps_result:
  assumes "rfold (ninja_static_dep b) ks (sys_libs, usr_libs, link_all) = Inr libs"
  shows "libs = (sys_libs @ map snd (filter (system_dep b) ks),
    usr_libs @ archives b (filter (\<lambda>k. \<not> links_all b k) ks), link_all @ archives b (filter (links_all b) ks))"
  using assms
proof (induction ks arbitrary: sys_libs usr_libs link_all)
  case (Cons k ks)
  obtain s u l where step: "ninja_static_dep b k (sys_libs, usr_libs, link_all) = Inr (s, u, l)"
    and rest: "rfold (ninja_static_dep b) ks (s, u, l) = Inr libs"
    using Cons.prems by (auto simp: rbind_eq_Inr)
  show ?case
    using Cons.IH [OF rest] ninja_static_dep_result [OF step] archives_append(1) [of b "[k]" "filter (links_all b) ks"]
      archives_append(1) [of b "[k]" "filter (\<lambda>k. \<not> links_all b k) ks"]
    by (cases "links_all b k") (simp_all add: archives_append(2))
qed (simp add: archives_def map_filter_simps)

text \<open>
  C27. The libraries of a static link step are taken from the expanded dependencies in their order, which is the
  link order: system libraries, archives, and the archives that are linked with all symbols are three
  sublists of the same list, every dependency contributes to at most one of them, and a library without sources
  to none.
\<close>

theorem static_link_libraries:
  assumes "ninja_static_dependencies b t = Inr (sys_libs, usr_libs, link_all)"
  shows "sys_libs = map snd (filter (system_dep b) (t_expanded_deps t)) \<and>
    usr_libs = archives b (filter (\<lambda>k. \<not> links_all b k) (t_expanded_deps t)) \<and>
    link_all = archives b (filter (links_all b) (t_expanded_deps t))"
  using ninja_static_deps_result [of b "t_expanded_deps t" "[]" "[]" "[]"] assms
  by (simp add: ninja_static_dependencies_def)

section \<open>Statements of a library\<close>

definition build_lines :: "string \<Rightarrow> string \<Rightarrow> string list \<Rightarrow> string list \<Rightarrow> (string, string) dict \<Rightarrow> string list" where
  "build_lines out rule ins deps vars =
     map (\<lambda>l. l @ [newline])
       ((''build '' @ out @ '': '' @ rule @ '' '' @ join_with '' '' (ins @ (if deps \<noteq> [] then ''|'' # deps else []))) #
        map variable_line vars)"

lemma write_rules_lines: "write_rules ls t = t\<lparr>t_rules := t_rules t @ map (\<lambda>l. l @ [newline]) ls\<rparr>"
  by (induction ls arbitrary: t) (simp_all add: write_rules_def write_rule_def)

lemma join_blank_strs: "join_blank (map PyStr ss) = Inr (join_with '' '' ss)"
  by (simp add: join_blank_def)

lemma ninja_build_strs:
  "ninja_build (PyStr out) rule (pstrs ins) (map PyStr deps) [] vars [] t =
    Inr (t\<lparr>t_rules := t_rules t @ build_lines out rule ins deps vars\<rparr>)"
proof -
  have o: "join_blank (add_marked ''|'' [] (var_to_list (PyStr out))) = Inr out"
    by (cases out) (simp_all add: add_marked_def var_to_list_def join_blank_def)
  have i: "add_marked ''||'' [] (add_marked ''|'' (map PyStr deps) (if truthy (pstrs ins) then var_to_list (pstrs ins) else [])) =
    map PyStr (ins @ (if deps \<noteq> [] then ''|'' # deps else []))"
    by (simp add: add_marked_def)
  show ?thesis
    unfolding ninja_build_def Let_def o i join_blank_strs rbind_Inr write_rules_lines write_rule_def
    by (simp add: build_lines_def)
qed

lemma ninja_build_str:
  assumes "i \<noteq> []"
  shows "ninja_build (PyStr out) rule (PyStr i) (map PyStr deps) [] vars [] t =
    Inr (t\<lparr>t_rules := t_rules t @ build_lines out rule [i] deps vars\<rparr>)"
proof -
  have "ninja_build (PyStr out) rule (PyStr i) = ninja_build (PyStr out) rule (pstrs [i])"
    using assms by (simp add: ninja_build_def var_to_list_def fun_eq_iff)
  then show ?thesis using ninja_build_strs [of out rule "[i]"] by simp
qed

definition object_lines ::
  "set_order \<Rightarrow> (string, string) dict \<Rightarrow> string list \<Rightarrow> cc_world \<Rightarrow> target \<Rightarrow> string \<Rightarrow> string list" where
  "object_lines so vars deps w t src =
     build_lines (object_path (cw_blade w) t src) (get_ninja_rule_from_suffix src) [object_input False t w src] deps (dict_order so vars)"

lemma rules_frame [simp]:
  "target_file_path b (t\<lparr>t_rules := r\<rparr>) = target_file_path b t" "source_file_path (t\<lparr>t_rules := r\<rparr>) = source_file_path t"
  "object_path b (t\<lparr>t_rules := r\<rparr>) = object_path b t" "object_input g (t\<lparr>t_rules := r\<rparr>) = object_input g t"
  "object_lines so vars deps w (t\<lparr>t_rules := r\<rparr>) = object_lines so vars deps w t" "is_secure (t\<lparr>t_rules := r\<rparr>) = is_secure t"
  "get_data (t\<lparr>t_rules := r\<rparr>) = get_data t" "data_strs (t\<lparr>t_rules := r\<rparr>) = data_strs t"
  by (simp_all add: fun_eq_iff target_file_path_def source_file_path_def object_path_def objs_dir_def object_input_def
      object_lines_def is_secure_def get_data_def data_strs_def)

lemma path_join_nonempty: "y \<noteq> [] \<Longrightarrow> path_join x y \<noteq> []"
  by (simp add: path_join_def)

lemma object_input_nonempty: "src \<noteq> [] \<Longrightarrow> object_input g t w src \<noteq> []"
  by (simp add: object_input_def source_file_path_def normpath_nonempty target_file_path_def path_join3_def path_join_nonempty)

lemma cc_object_ninja_plain:
  assumes "\<not> is_secure t" and "src \<noteq> []"
  shows "cc_object_ninja so vars False [] src (deps, objs, t, w) =
    Inr (deps, objs @ [object_path (cw_blade w) t src], t\<lparr>t_rules := t_rules t @ object_lines so vars deps w t src\<rparr>, w)"
  using assms by (simp add: cc_object_ninja_def ninja_build_str object_input_nonempty object_lines_def Let_def)

lemma cc_objects_ninja_plain:
  assumes "\<not> is_secure t" and "[] \<notin> set srcs"
  shows "rfold (cc_object_ninja so vars False []) srcs (deps, objs, t, w) =
    Inr (deps, objs @ map (object_path (cw_blade w) t) srcs,
      t\<lparr>t_rules := t_rules t @ concat (map (object_lines so vars deps w t) srcs)\<rparr>, w)"
  using assms
proof (induction srcs arbitrary: objs t)
  case (Cons src srcs)
  then have "src \<noteq> []" by auto
  then show ?case
    using Cons.IH [of "t\<lparr>t_rules := t_rules t @ object_lines so vars deps w t src\<rparr>"] Cons.prems
    by (simp add: cc_object_ninja_plain)
qed simp

text \<open>The stamp statement of a target with the headers \<open>hdrs\<close> to wait for, and what its objects depend on.\<close>

definition stamp_lines :: "string \<Rightarrow> target list \<Rightarrow> string list \<Rightarrow> string list" where
  "stamp_lines p hdrs inputs = (if hdrs = [] then [] else build_lines p ''stamp'' inputs [] [])"

definition stamp_deps :: "string \<Rightarrow> target list \<Rightarrow> string list" where
  "stamp_deps p hdrs = (if hdrs = [] then [] else [p])"

lemma header_stamp_result:
  assumes "cc_objects_generated_header_files_dependency depth t b = Inr (stamp, t1, b1)"
  defines "p \<equiv> target_file_path b t (t_name t @ ''__stamp__'')"
  shows "\<exists>hdrs inputs. generated_header_files_dependencies depth t b = Inr (hdrs, b1) \<and> header_inputs hdrs = Inr inputs \<and>
    b1 = b\<lparr>b_target_database := b_target_database b1\<rparr> \<and> stamp = (if hdrs = [] then None else Some p) \<and>
    t1 = t\<lparr>t_rules := t_rules t @ stamp_lines p hdrs inputs\<rparr>"
proof -
  obtain hdrs where hdrs: "generated_header_files_dependencies depth t b = Inr (hdrs, b1)"
    using assms by (auto simp: cc_objects_generated_header_files_dependency_def rbind_eq_Inr Let_def split: if_splits)
  then have b1: "b1 = b\<lparr>b_target_database := b_target_database b1\<rparr>"
    by (auto simp: generated_header_files_dependencies_def rbind_eq_Inr)
  have path: "target_file_path b1 t = target_file_path b t"
    using b1 by (metis (no_types, lifting) target_file_path_def ext blade.select_convs(4) blade.surjective blade.update_convs(11))
  show ?thesis
  proof (cases "hdrs = []")
    case True
    then show ?thesis using assms(1) hdrs b1
      by (auto simp: cc_objects_generated_header_files_dependency_def stamp_lines_def header_inputs_def List.map_filter_def)
  next
    case False
    then show ?thesis
      using assms(1) hdrs b1 path ninja_build_strs [of _ "''stamp''" _ "[]" "[]" t]
      by (auto simp: cc_objects_generated_header_files_dependency_def rbind_eq_Inr Let_def stamp_lines_def p_def)
  qed
qed

lemma add_default_target_file_result:
  assumes "add_default_target_file l (PyStr p) t = Inr u" and "l \<noteq> []" and "p \<noteq> []"
  shows "t_rules u = t_rules t" and "get_target_file u l = Inr (PyStr p)" and "get_target_file u [] = Inr (PyStr p)"
    and "get_data u ''build_dynamic'' v = get_data t ''build_dynamic'' v"
proof -
  obtain d where u: "u = set_data ''targets'' (PyDict (dset l (PyStr p) d)) (set_data ''default_target'' (PyStr p) t)"
    using assms by (auto simp: add_default_target_file_def add_target_file_def rbind_eq_Inr Let_def set_data_def dindex_def)
  show "t_rules u = t_rules t" by (simp add: u set_data_def)
  show "get_data u ''build_dynamic'' v = get_data t ''build_dynamic'' v" by (simp add: u get_set_data)
  show "get_target_file u l = Inr (PyStr p)" and "get_target_file u [] = Inr (PyStr p)"
    using assms(2) by (simp_all add: u get_target_file_def targets_dict_def set_data_def dindex_def dgetd_def)
qed

text \<open>What the rules of a target read of the manager.\<close>

definition same_place :: "cc_world \<Rightarrow> cc_world \<Rightarrow> bool" where
  "same_place w w' \<longleftrightarrow> cw_exists w' = cw_exists w \<and> b_build_path (cw_blade w') = b_build_path (cw_blade w) \<and>
     b_options (cw_blade w') = b_options (cw_blade w) \<and> get_config (b_config (cw_blade w')) = get_config (b_config (cw_blade w))"

lemma say_place [simp]:
  "b_build_path (say m b) = b_build_path b" "b_options (say m b) = b_options b" "get_config (b_config (say m b)) = get_config (b_config b)"
  by (simp_all add: say_def get_config_def log_msg_def fun_eq_iff)

lemma check_deprecated_place:
  "b_build_path (check_deprecated_deps t b) = b_build_path b \<and> b_options (check_deprecated_deps t b) = b_options b \<and>
   get_config (b_config (check_deprecated_deps t b)) = get_config (b_config b)"
proof -
  have step: "b_build_path (check_deprecated_dep t k c) = b_build_path c \<and> b_options (check_deprecated_dep t k c) = b_options c \<and>
      get_config (b_config (check_deprecated_dep t k c)) = get_config (b_config c)" for k c
    by (simp add: check_deprecated_dep_def split: option.splits list.splits)
  have "b_build_path (fold (check_deprecated_dep t) ks c) = b_build_path c \<and> b_options (fold (check_deprecated_dep t) ks c) = b_options c \<and>
      get_config (b_config (fold (check_deprecated_dep t) ks c)) = get_config (b_config c)" for ks c
    by (induction ks arbitrary: c) (simp_all add: step)
  then show ?thesis by (simp add: check_deprecated_deps_def)
qed

lemma same_place_frame:
  assumes "same_place w w'"
  shows "target_file_path (cw_blade w') = target_file_path (cw_blade w)" and "object_path (cw_blade w') = object_path (cw_blade w)"
    and "object_lines so vars deps w' = object_lines so vars deps w" and "need_dynamic_library t (cw_blade w') = need_dynamic_library t (cw_blade w)"
proof -
  show p: "target_file_path (cw_blade w') = target_file_path (cw_blade w)"
    using assms by (simp add: same_place_def target_file_path_def fun_eq_iff)
  then show o: "object_path (cw_blade w') = object_path (cw_blade w)" by (simp add: object_path_def objs_dir_def fun_eq_iff)
  then show "object_lines so vars deps w' = object_lines so vars deps w"
    using p assms by (simp add: object_lines_def object_input_def same_place_def fun_eq_iff)
  show "need_dynamic_library t (cw_blade w') = need_dynamic_library t (cw_blade w)"
    using assms by (simp add: need_dynamic_library_def same_place_def opt_def)
qed

lemma cc_objects_ninja_result:
  assumes "cc_objects_ninja depth so [] False [] t w = Inr (t', w')" and "\<not> is_secure t" and "[] \<notin> set (t_srcs t)"
  defines "p \<equiv> target_file_path (cw_blade w) t (t_name t @ ''__stamp__'')"
  shows "same_place w w' \<and> (\<exists>vars hdrs b1 inputs. setup_ninja_cc_vars t (cw_blade w) = Inr vars \<and>
    generated_header_files_dependencies depth t (cw_blade w) = Inr (hdrs, b1) \<and> header_inputs hdrs = Inr inputs \<and>
    t' = set_data ''objs'' (pstrs (map (object_path (cw_blade w) t) (t_srcs t)))
      (t\<lparr>t_rules := t_rules t @ stamp_lines p hdrs inputs @
         concat (map (object_lines so vars (stamp_deps p hdrs) w t) (t_srcs t))\<rparr>))"
proof -
  let ?deps = "\<lambda>s. case s of None \<Rightarrow> [] | Some s \<Rightarrow> [s]"
  obtain vars s t1 b1 where vars: "setup_ninja_cc_vars t (cw_blade w) = Inr vars"
    and stamp: "cc_objects_generated_header_files_dependency depth t (cw_blade w) = Inr (s, t1, b1)"
    and run: "rbind (rfold (cc_object_ninja so vars False []) (t_srcs t1) (?deps s @ (if is_secure t1 then [''__securecc_phony__''] else []), [], t1, w\<lparr>cw_blade := b1\<rparr>))
      (\<lambda>(_, objs, t, w). Inr (set_data ''objs'' (pstrs objs) t, w)) = Inr (t', w')"
    using assms(1) by (auto simp: cc_objects_ninja_def rbind_eq_Inr Let_def)
  obtain hdrs inputs where hdrs: "generated_header_files_dependencies depth t (cw_blade w) = Inr (hdrs, b1)" "header_inputs hdrs = Inr inputs"
    and b1: "b1 = cw_blade w\<lparr>b_target_database := b_target_database b1\<rparr>" and s: "s = (if hdrs = [] then None else Some p)"
    and t1: "t1 = t\<lparr>t_rules := t_rules t @ stamp_lines p hdrs inputs\<rparr>"
    using header_stamp_result [OF stamp] unfolding p_def by blast
  have place: "same_place w (w\<lparr>cw_blade := b1\<rparr>)" by (subst b1) (simp add: same_place_def)
  have deps: "?deps s = stamp_deps p hdrs" by (simp add: s stamp_deps_def)
  have "w' = w\<lparr>cw_blade := b1\<rparr>" and "t' = set_data ''objs'' (pstrs (map (object_path (cw_blade w) t) (t_srcs t)))
      (t\<lparr>t_rules := t_rules t @ stamp_lines p hdrs inputs @ concat (map (object_lines so vars (stamp_deps p hdrs) w t) (t_srcs t))\<rparr>)"
    using run assms(2,3) same_place_frame [OF place] unfolding t1 deps by (auto simp: cc_objects_ninja_plain)
  then show ?thesis using place vars hdrs by blast
qed

lemma same_place_trans: "same_place a b \<Longrightarrow> same_place b c \<Longrightarrow> same_place a c"
  by (simp add: same_place_def)

text \<open>The archive of a target whose objects are known, in the manager \<open>b\<close>.\<close>

lemma cc_library_ninja_archive:
  assumes "cc_library_ninja so t b = Inr t'" and "data_strs t ''objs'' = Inr objs" and "need_dynamic_library t b = Inr False"
  defines "lib \<equiv> target_file_path b t (''lib'' @ t_name t @ ''.a'')"
  shows "t_rules t' = t_rules t @ build_lines lib ''ar'' objs [] [] \<and>
    get_target_file t' ''a'' = Inr (PyStr lib) \<and> get_target_file t' [] = Inr (PyStr lib)"
proof -
  obtain u where u: "static_cc_library_ninja t b = Inr u"
    and n: "rbind (need_dynamic_library u b) (\<lambda>need. if need then dynamic_cc_library_ninja so u b else Inr u) = Inr t'"
    using assms(1) by (auto simp: cc_library_ninja_def rbind_eq_Inr)
  have add: "add_default_target_file ''a'' (PyStr lib) (t\<lparr>t_rules := t_rules t @ build_lines lib ''ar'' objs [] []\<rparr>) = Inr u"
    using u ninja_build_strs [of _ "''ar''" _ "[]" "[]" t] by (simp add: static_cc_library_ninja_def Let_def assms(2) lib_def)
  have "lib \<noteq> []" by (simp add: lib_def target_file_path_def path_join3_def path_join_nonempty)
  note r = add_default_target_file_result [OF add _ this]
  have "need_dynamic_library u b = need_dynamic_library t b" by (simp add: need_dynamic_library_def r)
  then have "t' = u" using n assms(3) by simp
  then show ?thesis using r by simp
qed

lemma set_data_frame:
  "target_file_path b (set_data n v t) = target_file_path b t" "t_name (set_data n v t) = t_name t" "t_rules (set_data n v t) = t_rules t"
  "n \<noteq> ''build_dynamic'' \<Longrightarrow> need_dynamic_library (set_data n v t) b = need_dynamic_library t b"
  by (simp_all add: target_file_path_def fun_eq_iff need_dynamic_library_def get_set_data) (simp_all add: set_data_def)

lemma check_deprecated_database: "b_target_database (check_deprecated_deps t b) = b_target_database b"
proof -
  have step: "b_target_database (check_deprecated_dep t k c) = b_target_database c" for k c
    by (simp add: check_deprecated_dep_def split: option.splits list.splits)
  have "b_target_database (fold (check_deprecated_dep t) ks c) = b_target_database c" for ks c
    by (induction ks arbitrary: c) (simp_all add: step)
  then show ?thesis by (simp add: check_deprecated_deps_def)
qed


section \<open>Examples\<close>

theorem static_link_libraries_witness:
  "ninja_static_dependencies sample_cc_blade sample_cc_lib = Inr ([], [''b/p/libe.a''], []) \<and>
   archives sample_cc_blade (filter (\<lambda>k. \<not> links_all sample_cc_blade k) (t_expanded_deps sample_cc_lib)) = [''b/p/libe.a'']"
proof
  show r: "ninja_static_dependencies sample_cc_blade sample_cc_lib = Inr ([], [''b/p/libe.a''], [])" by code_simp
  show "archives sample_cc_blade (filter (\<lambda>k. \<not> links_all sample_cc_blade k) (t_expanded_deps sample_cc_lib)) = [''b/p/libe.a'']"
    using static_link_libraries [OF r] by simp
qed

definition sample_set_order :: set_order where
  "sample_set_order = \<lparr>so_str = remdups, so_key = remdups\<rparr>"


end
