(* ===== verification/Cc_Make_Facts.thy ===== *)
theory Cc_Make_Facts
  imports Cc_Link_Facts
begin

text \<open>
  When the statements for Make cannot be formatted: \<open>make_build\<close> decides between its formats by comparing
  flags with the text \<open>null\<close>, and two of the formats have another number of places than arguments.
\<close>

section \<open>The text of a flag\<close>

text \<open>
  A flag is printed as JSON and stripped of quotes. It becomes \<open>null\<close> only when it is missing or
  when it is this very text.
\<close>

lemma json_char_cases:
  "c \<noteq> dquote \<Longrightarrow> json_char c = [c] \<or> (\<exists>d ds. json_char c = backslash # d # ds)"
  "json_char dquote = [backslash, dquote]"
  by (auto simp: json_char_def)

lemma json_chars_plain:
  assumes "concat (map json_char s) = r" and "backslash \<notin> set r"
  shows "s = r"
  using assms
proof (induction s arbitrary: r)
  case (Cons c s)
  show ?case
  proof (cases "json_char c = [c]")
    case True
    then show ?thesis using Cons by (cases r) auto
  next
    case False
    then have "backslash \<in> set (json_char c)" using json_char_cases by (cases "c = dquote") fastforce+
    then show ?thesis using Cons.prems by auto
  qed
qed simp

lemma list_all_eq: "list_all (\<lambda>x. x = d) xs \<Longrightarrow> c \<noteq> d \<Longrightarrow> c \<notin> set xs"
  by (auto simp: list_all_iff)

lemma filter_list_all_eq: "list_all (\<lambda>x. x = d) xs \<Longrightarrow> filter (\<lambda>c. c \<noteq> d) xs = []"
  by (auto simp: list_all_iff filter_empty_conv)

lemma filter_absent: "d \<notin> set xs \<Longrightarrow> filter (\<lambda>c. c \<noteq> d) xs = xs"
  by (auto simp: filter_id_conv)

lemma strip_by_parts:
  obtains a z where "s = a @ strip_by P s @ z" "list_all P a" "list_all P z"
proof
  show "s = takeWhile P s @ strip_by P s @ rev (takeWhile P (rev (dropWhile P s)))"
    unfolding strip_by_def rstrip_by_def
    by (metis append_assoc rev_append rev_rev_ident takeWhile_dropWhile_id)
  show "list_all P (takeWhile P s)" "list_all P (rev (takeWhile P (rev (dropWhile P s))))"
    by (auto simp: list_all_iff dest: set_takeWhileD)
qed

lemma json_text_shape:
  assumes "json_text (PyStr s) = Inr r"
  obtains a z where "dquote # concat (map json_char s) @ [dquote] = a @ r @ z"
    "list_all (\<lambda>c. c = dquote) a" "list_all (\<lambda>c. c = dquote) z"
proof -
  have "strip (dquote # b @ [dquote]) = dquote # b @ [dquote]" for b
    by (simp add: strip_def strip_by_def rstrip_by_def is_space_def)
  then have "r = strip_by (\<lambda>c. c = dquote) (dquote # concat (map json_char s) @ [dquote])"
    using assms by (auto simp: json_text_def split: if_splits)
  moreover obtain a z where "dquote # concat (map json_char s) @ [dquote] =
      a @ strip_by (\<lambda>c. c = dquote) (dquote # concat (map json_char s) @ [dquote]) @ z"
    "list_all (\<lambda>c. c = dquote) a" "list_all (\<lambda>c. c = dquote) z"
    by (rule strip_by_parts)
  ultimately show thesis using that by simp
qed

lemma json_text_plain:
  assumes "json_text (PyStr s) = Inr r" and "backslash \<notin> set r" and "dquote \<notin> set r"
  shows "s = r"
proof -
  obtain a z where e: "dquote # concat (map json_char s) @ [dquote] = a @ r @ z"
    and a: "list_all (\<lambda>c. c = dquote) a" and z: "list_all (\<lambda>c. c = dquote) z"
    using json_text_shape [OF assms(1)] .
  have b: "backslash \<notin> set (concat (map json_char s))"
  proof
    assume "backslash \<in> set (concat (map json_char s))"
    then have "backslash \<in> set (a @ r @ z)" unfolding e [symmetric] by simp
    then show False
      using assms(2) list_all_eq [OF a, of backslash] list_all_eq [OF z, of backslash] by simp
  qed
  then have s: "concat (map json_char s) = s" using json_chars_plain by metis
  have d: "dquote \<notin> set s"
  proof
    assume "dquote \<in> set s"
    then have "set (json_char dquote) \<subseteq> set (concat (map json_char s))" by auto
    then show False using b json_char_cases(2) by simp
  qed
  have r: "filter (\<lambda>c. c \<noteq> dquote) (a @ r @ z) = r"
    by (simp only: filter_append filter_list_all_eq [OF a] filter_list_all_eq [OF z] filter_absent [OF assms(3)] append_Nil append_Nil2)
  have s': "filter (\<lambda>c. c \<noteq> dquote) (dquote # s @ [dquote]) = s"
    using filter_absent [OF d] by simp
  have "dquote # s @ [dquote] = a @ r @ z" using e by (simp only: s)
  then have "filter (\<lambda>c. c \<noteq> dquote) (dquote # s @ [dquote]) = filter (\<lambda>c. c \<noteq> dquote) (a @ r @ z)"
    by (rule arg_cong)
  then show ?thesis by (simp only: r s')
qed

lemma json_text_null:
  "json_text (PyStr s) = Inr ''null'' \<longleftrightarrow> s = ''null''"
proof
  show "json_text (PyStr s) = Inr ''null'' \<Longrightarrow> s = ''null''" using json_text_plain [of s "''null''"] by simp
  show "s = ''null'' \<Longrightarrow> json_text (PyStr s) = Inr ''null''" by (simp only:) code_simp
qed

lemma json_text_None [simp]: "json_text PyNone = Inr ''null''"
  by code_simp

section \<open>Compilation\<close>

text \<open>The texts that \<open>make_build\<close> takes from its variables.\<close>

definition compile_flags :: "(string, pyval) dict \<Rightarrow> string \<Rightarrow> string result" where
  "compile_flags variables name = (if variables \<noteq> [] then json_text (dgetd variables name PyNone) else Inr [])"

lemma make_build_object:
  "make_build (PyStr out) ''object'' (PyStr src) [] [] variables t = Inl TypeError \<longleftrightarrow>
     compile_flags variables ''includes'' = Inl TypeError \<or>
     (\<exists>deps. compile_flags variables ''includes'' = Inr deps \<and> 
       (compile_flags variables ''cppflags'' = Inl TypeError \<or>
        deps = ''null'' \<and> compile_flags variables ''cppflags'' = Inr ''null''))"
  unfolding compile_flags_def [symmetric] make_build_def
  by (cases "compile_flags variables ''includes''"; cases "compile_flags variables ''cppflags''")
    (simp_all add: join_blank_def make_statement_def object_rules_def format_all_def format_def var_to_list_def add_marked_def)

lemma json_text_no_TypeError: "json_text (PyStr s) \<noteq> Inl TypeError"
  by (simp add: json_text_def)

lemma dgetd_py_vars: "dgetd (py_vars vars) n PyNone = (case dget vars n of None \<Rightarrow> PyNone | Some v \<Rightarrow> PyStr v)"
  by (induction vars) (auto simp: py_vars_def dgetd_def)

lemma compile_flags_py_vars:
  "compile_flags (py_vars vars) n =
     (if vars = [] then Inr [] else case dget vars n of None \<Rightarrow> Inr ''null'' | Some v \<Rightarrow> json_text (PyStr v))"
  unfolding compile_flags_def dgetd_py_vars by (simp add: py_vars_def split: option.splits)

lemma setup_make_cc_vars_flags:
  assumes "get_cc_flags t b = Inr (cppflags, incs)" and "setup_make_cc_vars t b = Inr vars"
  shows "dget vars ''cppflags'' = (if cppflags = [] then None else Some (join_with '' '' cppflags))"
    and "dget vars ''includes'' = (if incs = [] then None else Some (concat (map ((@) '' -I'') incs)))"
    and "vars = [] \<longleftrightarrow> get_data t ''warning'' PyNone = PyStr ''yes'' \<and> cppflags = [] \<and> incs = []"
  using assms by (auto simp: setup_make_cc_vars_def setup_cc_vars_def split: if_splits)

lemma cc_object_make_errors:
  assumes f: "get_cc_flags t b = Inr (cppflags, incs)" and v: "setup_make_cc_vars t b = Inr vars"
    and s: "\<not> is_secure t"
  shows "cc_object_make vars generated headers src (deps, objs, t, w) = Inl TypeError \<longleftrightarrow>
     incs = [] \<and> (join_with '' '' cppflags = ''null'' \<or> cppflags = [] \<and> get_data t ''warning'' PyNone \<noteq> PyStr ''yes'')"
proof (cases "vars = []")
  case True
  then have "make_build (PyStr out) ''object'' (PyStr src) [] [] (py_vars vars) t \<noteq> Inl TypeError" for out src
    unfolding make_build_object compile_flags_py_vars by simp
  then show ?thesis
    using True s setup_make_cc_vars_flags(3) [OF f v] by (simp add: cc_object_make_def Let_def rbind_eq_Inl)
next
  case False
  have i: "compile_flags (py_vars vars) ''includes'' = Inr ''null'' \<longleftrightarrow> incs = []"
    using False setup_make_cc_vars_flags(2) [OF f v] by (cases incs) (simp_all add: compile_flags_py_vars json_text_null)
  have c: "compile_flags (py_vars vars) ''cppflags'' = Inr ''null'' \<longleftrightarrow> cppflags = [] \<or> join_with '' '' cppflags = ''null''"
    using False setup_make_cc_vars_flags(1) [OF f v] by (cases cppflags) (simp_all add: compile_flags_py_vars json_text_null)
  have n: "compile_flags (py_vars vars) n \<noteq> Inl TypeError" for n
    using False by (simp add: compile_flags_py_vars json_text_no_TypeError split: option.splits)
  have "make_build (PyStr out) ''object'' (PyStr src) [] [] (py_vars vars) t = Inl TypeError \<longleftrightarrow>
      (cppflags = [] \<or> join_with '' '' cppflags = ''null'') \<and> incs = []" for out src
    unfolding make_build_object using i c n by blast
  then show ?thesis
    using False s setup_make_cc_vars_flags(3) [OF f v] by (auto simp: cc_object_make_def Let_def rbind_eq_Inl)
qed

section \<open>Linking\<close>

text \<open>The lines of a link step, in the order in which they are written.\<close>

definition link_lines :: "string \<Rightarrow> string \<Rightarrow> string list" where
  "link_lines out ins =
     [''${CXX} -o '' @ out @ '' ${COMPILE_FLAGS} '' @ ins @ '' -lpthread'' @ [newline],
      ''${TARGET} : '' @ ins @ ''; '' @ [backslash],
      ''all : ${TARGET} '' @ [newline],
      ''TARGET = '' @ out @ '' '' @ [newline]]"

lemma marked_inputs:
  "add_marked '' '' [] (add_marked '' '' (map PyStr deps) (if truthy (pstrs ins) then var_to_list (pstrs ins) else [])) =
   map PyStr (ins @ (if deps = [] then [] else '' '' # deps))"
  by (simp add: add_marked_def)

lemma make_build_link:
  "make_build (PyStr out) ''link'' (pstrs ins) (map PyStr deps) [] variables t =
     rbind (compile_flags variables ''includes'') (\<lambda>includes.
     rbind (compile_flags variables ''cppflags'') (\<lambda>_.
       if includes = ''null'' then Inr (write_rules (link_lines out (join_with '' '' (ins @ (if deps = [] then [] else '' '' # deps)))) t)
       else Inl TypeError))"
proof -
  have o: "join_blank (var_to_list (PyStr out)) = Inr out"
    by (simp add: var_to_list_def join_blank_def)
  have m: "format_all (make_statement ''link'' out i m d f) = (if d = ''null'' then Inr (link_lines out i) else Inl TypeError)" for i m d f
    by (simp add: make_statement_def link_rules_def link_lines_def format_all_def format_def)
  have l: "''link'' \<in> {''static_lib'', ''object'', ''securecc'', ''securecccompile'', ''link''}" by simp
  show ?thesis
    unfolding make_build_def Let_def marked_inputs compile_flags_def [symmetric] join_blank_strs o m if_P [OF l]
    by (rule rbind_cong [OF refl], rule rbind_cong [OF refl]) (simp only: join_blank_strs rbind_Inr rbind_Inl m split: if_split, simp)
qed

lemma dset_not_Nil: "dset k v d \<noteq> []"
  by (cases d) (auto simp: dset_def)

lemma cc_link_make_result:
  assumes "data_strs t ''objs'' = Inr objs"
  shows "cc_link_make out ''link'' libs ldflags extra deps [] t =
     (if ldflags = [] \<and> extra = [] then Inl TypeError
      else Inr (write_rules (link_lines out (join_with '' '' (objs @ libs @ (if deps = [] then [] else '' '' # deps)))) t))"
proof -
  define vars where "vars = put_if (extra \<noteq> []) ''extra_ldflags'' (join_with '' '' extra)
                    (put_if (ldflags \<noteq> []) ''ldflags'' (join_with '' '' ldflags) [])"
  have v: "vars = [] \<longleftrightarrow> ldflags = [] \<and> extra = []"
    and n: "dget vars ''includes'' = None" "dget vars ''cppflags'' = None"
    by (auto simp: vars_def put_if_def dset_not_Nil)
  have "cc_link_make out ''link'' libs ldflags extra deps [] t =
      make_build (PyStr out) ''link'' (pstrs (objs @ libs)) (map PyStr deps) [] (py_vars vars) t"
    using assms by (simp add: cc_link_make_def vars_def)
  then show ?thesis
    unfolding make_build_link compile_flags_py_vars v n by simp
qed

lemma link_all_flags_Nil: "generate_link_all_symbols_link_flags libs = [] \<longleftrightarrow> libs = []"
  by (simp add: generate_link_all_symbols_link_flags_def)

text \<open>
  C38. The statements of a compilation and of the link step of a binary for Make. The compilation of
  a source raises \<open>TypeError\<close> exactly when the target has no include directories, and either no
  other flags and warnings switched off, or flags that read \<open>null\<close>. The link step raises \<open>TypeError\<close>
  exactly when there are no link flags, no libraries linked with all symbols and no system libraries;
  otherwise it writes its four lines, with the objects, the libraries and, after a blank, the libraries linked
  with all symbols as inputs, and records the program as the default output.
\<close>

theorem make_rules_format_errors:
  assumes "get_cc_flags t (cw_blade w) = Inr (cppflags, incs)" and "setup_make_cc_vars t (cw_blade w) = Inr vars"
    and "\<not> is_secure t"
    and "generate_cc_binary_link_flags dynamic t w = Inr (ldflags, t', w')"
    and "link_libs dynamic (cw_blade w') t' = Inr (sys_libs, usr_libs, link_all)"
    and "data_strs t' ''objs'' = Inr objs"
  shows "(cc_object_make vars generated headers src (deps, done, t, w) = Inl TypeError \<longleftrightarrow>
      incs = [] \<and> (join_with '' '' cppflags = ''null'' \<or>
                   cppflags = [] \<and> get_data t ''warning'' PyNone \<noteq> PyStr ''yes'')) \<and>
    cc_binary_make dynamic t w =
      (let out = target_file_path (cw_blade w') t' [];
           ins = objs @ usr_libs @ (if link_all = [] then [] else '' '' # link_all)
       in if ldflags = [] \<and> link_all = [] \<and> sys_libs = [] then Inl TypeError
          else rbind (add_default_target_file ''bin'' (PyStr out) (write_rules (link_lines out (join_with '' '' ins)) t'))
                 (\<lambda>t. Inr (t, w')))"
proof
  show "cc_object_make vars generated headers src (deps, done, t, w) = Inl TypeError \<longleftrightarrow>
      incs = [] \<and> (join_with '' '' cppflags = ''null'' \<or>
                   cppflags = [] \<and> get_data t ''warning'' PyNone \<noteq> PyStr ''yes'')"
    by (rule cc_object_make_errors [OF assms(1-3)])
  show "cc_binary_make dynamic t w =
      (let out = target_file_path (cw_blade w') t' [];
           ins = objs @ usr_libs @ (if link_all = [] then [] else '' '' # link_all)
       in if ldflags = [] \<and> link_all = [] \<and> sys_libs = [] then Inl TypeError
          else rbind (add_default_target_file ''bin'' (PyStr out) (write_rules (link_lines out (join_with '' '' ins)) t'))
                 (\<lambda>t. Inr (t, w')))"
    unfolding cc_binary_make_def assms(4) Let_def
    by (simp add: assms(5) cc_link_make_result [OF assms(6)] link_all_flags_Nil)
qed

text \<open>A binary with static linking: the compiler version \<open>11.2\<close> adds no flags, as it is compared as text.\<close>

definition sample_cc_bin :: target where
  "sample_cc_bin = set_data ''dynamic_link'' (PyBool False) sample_cc_lib"

theorem make_rules_format_errors_witness:
  "cc_binary_make False sample_cc_bin (sample_world ''11.2'') = Inl TypeError \<and>
   cc_object_make [(''c_warnings'', []), (''cxx_warnings'', [])] False [] ''m.cc''
     ([], [], sample_cc_bin, sample_world ''11.2'') = Inl TypeError"
proof -
  have o: "get_cc_flags sample_cc_bin (cw_blade (sample_world ''11.2'')) = Inr ([], [])"
    "setup_make_cc_vars sample_cc_bin (cw_blade (sample_world ''11.2'')) = Inr [(''c_warnings'', []), (''cxx_warnings'', [])]"
    "\<not> is_secure sample_cc_bin" "get_data sample_cc_bin ''warning'' PyNone \<noteq> PyStr ''yes''" by code_simp+
  let ?f = "generate_cc_binary_link_flags False sample_cc_bin (sample_world ''11.2'')"
  have "case ?f of Inl e \<Rightarrow> False
    | Inr (flags, t', w') \<Rightarrow> flags = [] \<and> link_libs False (cw_blade w') t' = Inr ([], [''b/p/libe.a''], []) \<and>
        data_strs t' ''objs'' = Inr []" by code_simp
  then obtain t' w' where f: "?f = Inr ([], t', w')"
    and l: "link_libs False (cw_blade w') t' = Inr ([], [''b/p/libe.a''], [])" "data_strs t' ''objs'' = Inr []"
    by (cases ?f) auto
  show ?thesis
    using make_rules_format_errors [OF o(1-3) f(1) l, of False "[]" "''m.cc''" "[]" "[]"] o(4) by simp
qed
end
