(* ===== verification/Cc_Generated.thy ===== *)
theory Cc_Generated
  imports Cc_Classes
begin

text \<open>
  C++ targets whose sources are generated: lex and yacc (\<open>src/blade/lex_yacc_target.py\<close>) and embedded
  resources (\<open>src/blade/resource_library_target.py\<close>).
\<close>

section \<open>Lex and yacc\<close>

record lex_yacc_args =
  ly_name :: string
  ly_srcs :: pyval
  ly_deps :: pyval
  ly_warning :: pyval
  ly_defs :: pyval
  ly_incs :: pyval
  ly_allow_undefined :: pyval
  ly_recursive :: pyval
  ly_prefix :: pyval
  ly_kwargs :: "(string, pyval) dict"

text \<open>\<open>v.endswith(a) or v.endswith(b)\<close>\<close>

definition ends_with_one :: "string \<Rightarrow> string \<Rightarrow> pyval \<Rightarrow> bool result" where
  "ends_with_one a b v =
     (case v of PyStr s \<Rightarrow> Inr (endswith s a \<or> endswith s b) | _ \<Rightarrow> Inl (AttributeError ''endswith''))"

text \<open>
  The check of the sources. It comes before the object has its attribute \<open>fullname\<close>, which the
  message needs.
\<close>

definition check_lex_yacc_srcs :: "pyval \<Rightarrow> unit result" where
  "check_lex_yacc_srcs srcs =
     (let invalid = Inl (AttributeError ''fullname'');
          pair = (\<lambda>vs. case vs of
                    [lex_src, yacc_src] \<Rightarrow>
                      rbind (ends_with_one ''.l'' ''.ll'' lex_src) (\<lambda>ok. if \<not> ok then invalid else
                      rbind (ends_with_one ''.y'' ''.yy'' yacc_src) (\<lambda>ok. if \<not> ok then invalid else Inr ()))
                  | _ \<Rightarrow> invalid)
      in case srcs of
           PyList vs \<Rightarrow> pair vs
         | PyTuple vs \<Rightarrow> pair vs
         | PyStr s \<Rightarrow> pair (map (\<lambda>c. PyStr [c]) s)
         | PyDict d \<Rightarrow> if length d \<noteq> 2 then invalid else Inl KeyError
         | _ \<Rightarrow> Inl TypeError)"

definition lex_yacc_library_init :: "lex_yacc_args \<Rightarrow> blade \<Rightarrow> (target \<times> blade) result" where
  "lex_yacc_library_init a b =
     rbind (check_lex_yacc_srcs (ly_srcs a)) (\<lambda>_.
     rbind (cc_target_init LexYaccLibraryC ''lex_yacc_library''
              \<lparr>ca_name = ly_name a, ca_srcs = ly_srcs a, ca_deps = ly_deps a, ca_visibility = PyNone, ca_warning = ly_warning a,
               ca_defs = ly_defs a, ca_incs = ly_incs a, ca_export_incs = pnil, ca_optimize = pnil, ca_extra_cppflags = pnil,
               ca_extra_linkflags = pnil, ca_kwargs = ly_kwargs a\<rparr> b) (\<lambda>(t, b).
       Inr (set_all [(''recursive'', ly_recursive a), (''prefix'', ly_prefix a), (''allow_undefined'', ly_allow_undefined a),
                     (''link_all_symbols'', PyBool True)] t, b)))"

definition lex_yacc_library :: "lex_yacc_args \<Rightarrow> blade \<Rightarrow> blade result" where
  "lex_yacc_library a b = register_new (lex_yacc_library_init a b)"

definition setup_lex_yacc_flags :: "target \<Rightarrow> (string list \<times> string list) result" where
  "setup_lex_yacc_flags t =
     (let recursive = (if truthy (get_data t ''recursive'' PyNone) then [''-R''] else []);
          pfx = get_data t ''prefix'' PyNone
      in if truthy pfx
         then rbind (py_text pfx) (\<lambda>p. Inr (recursive @ [''-P '' @ p], [''-d'', ''-p '' @ p]))
         else Inr (recursive, [''-d'']))"

definition generate_lex_yacc_flags :: "string list \<Rightarrow> string list \<Rightarrow> target \<Rightarrow> target" where
  "generate_lex_yacc_flags lex_flags yacc_flags t =
     env_rules (\<lambda>e. [e @ ''.Replace(LEXFLAGS='' @ repr_strs lex_flags @ '')'', e @ ''.Replace(YACCFLAGS='' @ repr_strs yacc_flags @ '')'']) t"

definition unknown_source :: "target \<Rightarrow> string \<Rightarrow> py_error" where
  "unknown_source t src = SystemExit (t_fullname t @ '': Unknown source '' @ src)"

definition generate_cc_source :: "string \<Rightarrow> string \<Rightarrow> target \<Rightarrow> blade \<Rightarrow> target result" where
  "generate_cc_source var src t b =
     (let rule = (\<lambda>builder sfx. env_rule (\<lambda>e. var @ '' = '' @ e @ ''.'' @ builder @ ''(target = '' @ quoted (target_file_path b t src) @
                    '' + top_env['' @ quoted sfx @ ''], source = '' @ quoted (source_file_path t src) @ '')'') t)
      in if endswith src ''.l'' \<or> endswith src ''.y'' then Inr (rule ''CFile'' ''CFILESUFFIX'')
         else if endswith src ''.ll'' \<or> endswith src ''.yy'' then Inr (rule ''CXXFile'' ''CXXFILESUFFIX'')
         else Inl (unknown_source t src))"

definition lex_yacc_srcs :: "target \<Rightarrow> (string \<times> string) result" where
  "lex_yacc_srcs t = unpack2 (t_srcs t)"

definition lex_yacc_scons_rules :: "target \<Rightarrow> cc_world \<Rightarrow> (target \<times> cc_world) result" where
  "lex_yacc_scons_rules t w =
     (case cc_prepare_to_generate_rule t (cw_blade w) of (t, b) \<Rightarrow>
        rbind (setup_lex_yacc_flags t) (\<lambda>(lex_flags, yacc_flags).
        rbind (lex_yacc_srcs t) (\<lambda>(lex_src, yacc_src).
          let lex_var = var_name t ''lex''; yacc_var = var_name t ''yacc'';
              lex_obj = var_name_of t lex_src [] @ ''_object''; yacc_obj = var_name_of t yacc_src [] @ ''_object''
          in rbind (generate_cc_source lex_var lex_src (generate_lex_yacc_flags lex_flags yacc_flags t) b) (\<lambda>t.
             rbind (generate_cc_source yacc_var yacc_src t b) (\<lambda>t.
             rbind (setup_cc_flags (env_rule (\<lambda>e. e @ ''.Depends('' @ lex_var @ '', '' @ yacc_var @ '')'') t) b) (\<lambda>t.
               let t = env_rules (\<lambda>e. [e @ ''.Append(CPPFLAGS='' @ quoted ''-Wno-unused-function'' @ '')'',
                          lex_obj @ '' = '' @ e @ ''.SharedObject('' @ lex_var @ '')'',
                          yacc_obj @ '' = '' @ e @ ''.SharedObject('' @ yacc_var @ ''[0])'']) t
               in rbind (objs_name t) (\<lambda>(objs, t).
                  rbind (cc_library_rules (write_rule (objs @ '' = ['' @ join_with '', '' [lex_obj, yacc_obj] @ '']'') t) b) (\<lambda>t.
                    Inr (t, w\<lparr>cw_blade := b\<rparr>)))))))))"

definition ninja_cc_source :: "target \<Rightarrow> string \<Rightarrow> string result" where
  "ninja_cc_source t source =
     (if endswith source ''.l'' \<or> endswith source ''.y'' then Inr (source @ ''.c'')
      else if endswith source ''.ll'' \<or> endswith source ''.yy'' then Inr (source @ ''.cc'')
      else Inl (unknown_source t source))"

definition flag_vars :: "string \<Rightarrow> string list \<Rightarrow> (string, string) dict" where
  "flag_vars name flags = (if flags \<noteq> [] then [(name, join_with '' '' flags)] else [])"

definition ninja_lex_yacc_vars :: "target \<Rightarrow> ((string, string) dict \<times> (string, string) dict) result" where
  "ninja_lex_yacc_vars t =
     rbind (setup_lex_yacc_flags t) (\<lambda>(lex_flags, yacc_flags). Inr (flag_vars ''lexflags'' lex_flags, flag_vars ''yaccflags'' yacc_flags))"

definition ninja_lex_yacc_rules ::
  "string \<Rightarrow> string \<Rightarrow> string list \<Rightarrow> (string, string) dict \<Rightarrow> blade \<Rightarrow> target \<Rightarrow> (string \<times> string \<times> target) result" where
  "ninja_lex_yacc_rules source rule implicit_deps vars b t =
     rbind (ninja_cc_source t source) (\<lambda>cc.
       let output = target_file_path b t cc
       in rbind (ninja_build (PyStr output) rule (PyStr (source_file_path t source)) (map PyStr implicit_deps) [] vars [] t) (\<lambda>t.
            Inr (cc, output, t)))"

definition lex_yacc_ninja_rules :: "nat \<Rightarrow> set_order \<Rightarrow> target \<Rightarrow> cc_world \<Rightarrow> (target \<times> cc_world) result" where
  "lex_yacc_ninja_rules depth so t w =
     rbind (lex_yacc_srcs t) (\<lambda>(lex_src, yacc_src).
     rbind (ninja_lex_yacc_vars t) (\<lambda>(lex_vars, yacc_vars).
     rbind (ninja_lex_yacc_rules yacc_src ''yacc'' [] yacc_vars (cw_blade w) t) (\<lambda>(yacc_cc, yacc_path, t).
     rbind (ninja_lex_yacc_rules lex_src ''lex'' [yacc_path] lex_vars (cw_blade w) t) (\<lambda>(lex_cc, _, t).
     rbind (cc_objects_ninja depth so [lex_cc, yacc_cc] True [] t w) (with_blade (cc_library_ninja so))))))"

definition lex_yacc_make_rules :: "target \<Rightarrow> cc_world \<Rightarrow> (target \<times> cc_world) result" where
  "lex_yacc_make_rules t w = Inr (t, w)"

section \<open>Resources\<close>

record resource_args =
  rl_name :: string
  rl_srcs :: pyval
  rl_deps :: pyval
  rl_optimize :: pyval
  rl_extra_cppflags :: pyval
  rl_kwargs :: "(string, pyval) dict"

definition resource_library_init :: "resource_args \<Rightarrow> blade \<Rightarrow> (target \<times> blade) result" where
  "resource_library_init a b =
     cc_target_init ResourceLibraryC ''resource_library''
       \<lparr>ca_name = rl_name a, ca_srcs = rl_srcs a, ca_deps = rl_deps a, ca_visibility = PyNone, ca_warning = pempty,
        ca_defs = pnil, ca_incs = pnil, ca_export_incs = pnil, ca_optimize = rl_optimize a, ca_extra_cppflags = rl_extra_cppflags a,
        ca_extra_linkflags = pnil, ca_kwargs = rl_kwargs a\<rparr> b"

definition resource_library :: "resource_args \<Rightarrow> blade \<Rightarrow> blade result" where
  "resource_library a b = register_new (resource_library_init a b)"

definition resource_library_rules_helper :: "target \<Rightarrow> blade \<Rightarrow> (string \<times> string) \<times> target" where
  "resource_library_rules_helper t b =
     (let out_dir = path_join (b_build_path b) (t_path t);
          index = regular_variable_name (t_name t);
          v_index = var_name_of t (t_name t) ''index''
      in ((out_dir, index),
          env_rules (\<lambda>e. [e @ ''['' @ quoted ''SOURCE_PATH'' @ ''] = '' @ quoted (t_path t),
            e @ ''['' @ quoted ''TARGET_NAME'' @ ''] = '' @ quoted index,
            v_index @ '' = '' @ e @ ''.ResourceIndex(['' @ quoted (path_join out_dir (index @ ''.c'')) @ '', '' @
              quoted (path_join out_dir (index @ ''.h'')) @ ''], '' @ repr_strs (map (path_join (t_path t)) (t_srcs t)) @ '')'']) t))"

text \<open>One generated source; sources with the same base name share one object.\<close>

definition resource_object ::
  "blade \<Rightarrow> string \<Rightarrow> string list \<times> (string, string) dict \<times> target \<Rightarrow> string list \<times> (string, string) dict \<times> target" where
  "resource_object b src st =
     (case st of (objs, res_objects, t) \<Rightarrow>
        let base = regular_variable_name (basename src);
            src_name = base @ ''_'' @ t_name t @ ''_res''
        in case dget res_objects src_name of
             Some obj \<Rightarrow> (objs @ [obj], res_objects, t)
           | None \<Rightarrow>
               let obj = base @ ''_'' @ regular_variable_name (t_name t) @ ''_object'';
                   path = path_join (path_join3 (b_build_path b) (t_path t) (t_name t @ ''.objs'')) base
               in (objs @ [obj], dset src_name obj res_objects,
                   env_rule (\<lambda>e. obj @ '' = '' @ e @ ''.SharedObject(target='' @ quoted path @ '' + top_env['' @ quoted ''OBJSUFFIX'' @
                     ''], source='' @ quoted src @ '')'') t))"

definition resource_library_rules_objects :: "target \<Rightarrow> blade \<Rightarrow> target result" where
  "resource_library_rules_objects t b =
     rbind (objs_name (snd (env_name t))) (\<lambda>(name, t).
     rbind (rbind (dindex (t_data t) ''res_srcs'') as_strs) (\<lambda>res_srcs.
       case fold (resource_object b) res_srcs ([], [], t) of (objs, _, t) \<Rightarrow>
         Inr (write_rule (name @ '' = ['' @ join_with '','' objs @ '']'') t)))"

definition resource_source :: "blade \<Rightarrow> string \<Rightarrow> string \<Rightarrow> string list \<times> target \<Rightarrow> string list \<times> target" where
  "resource_source b out_dir src st =
     (case st of (res_srcs, t) \<Rightarrow>
        let src = normpath src;
            src_path = path_join (t_path t) src;
            c_path = path_join out_dir (regular_variable_name src @ ''.c'')
        in (res_srcs @ [c_path],
            env_rule (\<lambda>e. var_name_of t src_path [] @ '' = '' @ e @ ''.ResourceFile('' @ quoted c_path @ '', '' @ quoted src_path @ '')'') t))"

definition resource_library_scons_rules :: "target \<Rightarrow> cc_world \<Rightarrow> (target \<times> cc_world) result" where
  "resource_library_scons_rules t w =
     (case cc_prepare_to_generate_rule t (cw_blade w) of (t, b) \<Rightarrow>
        rbind (setup_cc_flags t b) (\<lambda>t.
          case resource_library_rules_helper t b of ((out_dir, index), t) \<Rightarrow>
            case fold (resource_source b out_dir) (t_srcs t) ([path_join out_dir (index @ ''.c'')], t) of (res_srcs, t) \<Rightarrow>
              rbind (resource_library_rules_objects (set_data ''res_srcs'' (pstrs res_srcs) t) b) (\<lambda>t.
              rbind (cc_library_rules t b) (\<lambda>t. Inr (t, w\<lparr>cw_blade := b\<rparr>)))))"

definition resource_ninja :: "blade \<Rightarrow> string \<Rightarrow> string list \<times> target \<Rightarrow> (string list \<times> target) result" where
  "resource_ninja b resource st =
     (case st of (sources, t) \<Rightarrow>
        let generated = resource @ ''.c''
        in rbind (ninja_build (PyStr (target_file_path b t generated)) ''resource'' (PyStr (source_file_path t resource)) [] [] [] [] t) (\<lambda>t.
             Inr (sources @ [generated], t)))"

definition resource_library_ninja_rules :: "nat \<Rightarrow> set_order \<Rightarrow> target \<Rightarrow> cc_world \<Rightarrow> (target \<times> cc_world) result" where
  "resource_library_ninja_rules depth so t w =
     (let w = note_deprecated t w; b = cw_blade w
      in if t_srcs t = [] then Inr (t, w)
         else
           rbind (ninja_build (pstrs [target_file_path b t (t_name t @ ''.h''), target_file_path b t (t_name t @ ''.c'')]) ''resource_index''
                    (pstrs (map (source_file_path t) (t_srcs t))) [] []
                    (dict_order so [(''name'', regular_variable_name (t_name t)), (''path'', t_path t)]) [] t) (\<lambda>t.
           rbind (rfold (resource_ninja b) (t_srcs t) ([t_name t @ ''.c''], t)) (\<lambda>(sources, t).
           rbind (cc_objects_ninja depth so sources True [] t w) (with_blade (cc_library_ninja so)))))"

end
