(* ===== verification/Shell_Package.thy ===== *)
theory Shell_Package
  imports Gen_Rule
begin

text \<open>
  Shell tests (\<open>src/blade/sh_test_target.py\<close>) and packages (\<open>src/blade/package_target.py\<close>): both collect files and the
  outputs of other targets, which they name by location references.
\<close>

section \<open>Shell tests\<close>

text \<open>The source and the destination of an entry, with \<open>what\<close> and \<open>why\<close> for the message.\<close>

definition entry_pair :: "string \<Rightarrow> string \<Rightarrow> target \<Rightarrow> pyval \<Rightarrow> (string \<times> string) result" where
  "entry_pair what why t v =
     (case v of
        PyTuple [PyStr src, PyStr dst] \<Rightarrow> Inr (src, dst)
      | PyTuple [_, _] \<Rightarrow> Inl TypeError
      | PyTuple _ \<Rightarrow> Inl ValueError
      | PyStr src \<Rightarrow> Inr (src, [])
      | _ \<Rightarrow> Inl (SystemExit (t_fullname t @ '': Invalid '' @ what @ '' '' @ py_repr v @ ''. '' @ why @ '' should be either str or tuple.'')))"

definition process_test_data_item ::
  "pyval \<Rightarrow> pyval list \<times> (key \<times> string \<times> string) list \<times> target \<times> blade \<Rightarrow>
   (pyval list \<times> (key \<times> string \<times> string) list \<times> target \<times> blade) result" where
  "process_test_data_item td st =
     (case st of (testdata, locations, t, b) \<Rightarrow>
        rbind (entry_pair ''testdata'' ''Test data'' t td) (\<lambda>(src, dst).
        rbind (add_location_reference_target (location_search src) t b) (\<lambda>(ref, t, b).
          Inr (case ref of
                 Some (k, type) \<Rightarrow> (testdata, locations @ [(k, type, dst)], t, b)
               | None \<Rightarrow> (testdata @ [td], locations, t, b)))))"

definition process_test_data :: "pyval list \<Rightarrow> target \<Rightarrow> blade \<Rightarrow> (target \<times> blade) result" where
  "process_test_data testdata t b =
     rbind (rfold process_test_data_item testdata ([], [], t, b)) (\<lambda>(testdata, locations, t, b).
       Inr (set_data ''locations'' (PyList (map py_location locations)) (set_data ''testdata'' (PyList testdata) t), b))"

definition shell_test_init ::
  "string \<Rightarrow> pyval \<Rightarrow> pyval \<Rightarrow> pyval \<Rightarrow> (string, pyval) dict \<Rightarrow> blade \<Rightarrow> (target \<times> blade) result" where
  "shell_test_init name srcs deps testdata kwargs b =
     rbind (as_strs srcs) (\<lambda>srcs.
     rbind (as_strs deps) (\<lambda>deps.
     rbind (target_init ShellTestC name ''sh_test'' srcs deps PyNone kwargs b) (\<lambda>(t, b).
       process_test_data (var_to_list testdata) t b)))"

definition sh_test :: "string \<Rightarrow> pyval \<Rightarrow> pyval \<Rightarrow> pyval \<Rightarrow> (string, pyval) dict \<Rightarrow> blade \<Rightarrow> blade result" where
  "sh_test name srcs deps testdata kwargs b = register_new (shell_test_init name srcs deps testdata kwargs b)"

text \<open>\<open>data['locations']\<close>\<close>

definition stored_locations :: "target \<Rightarrow> (key \<times> string \<times> string) list result" where
  "stored_locations t =
     rbind (dindex (t_data t) ''locations'') (\<lambda>v. case v of PyList vs \<Rightarrow> rmap location_of_py vs | _ \<Rightarrow> Inl TypeError)"

definition test_data_source ::
  "target \<Rightarrow> string \<Rightarrow> key \<times> string \<times> string \<Rightarrow> string list \<times> blade \<Rightarrow> (string list \<times> blade) result" where
  "test_data_source t e loc st =
     (case loc of (k, type, dst) \<Rightarrow> case st of (sources, b) \<Rightarrow>
        rbind (build_target b k) (\<lambda>target.
        rbind (get_target_var target type) (\<lambda>v.
          if \<not> truthy v then Inr (sources, say (missing_location t k type) b)
          else rbind (py_text v) (\<lambda>var. Inr (sources @ [var @ '', '' @ e @ ''.Value('' @ quoted dst @ '')''], b)))))"

definition generate_test_data_rules :: "target \<Rightarrow> blade \<Rightarrow> (target \<times> blade) result" where
  "generate_test_data_rules t b =
     (case env_name t of (e, t) \<Rightarrow>
        rbind (stored_locations t) (\<lambda>locations.
        rbind (rfold (test_data_source t e) locations ([], b)) (\<lambda>(sources, b).
          Inr (if sources \<noteq> []
               then write_rule (var_name t ''testdata'' @ '' = '' @ e @ ''.ShellTestData(target = '' @
                      quoted (target_file_path b t [] @ ''.testdata'') @ '', source = ['' @ join_with '', '' sources @ ''])'') t
               else t, b))))"

definition shell_test_scons_rules :: "target \<Rightarrow> blade \<Rightarrow> (target \<times> blade) result" where
  "shell_test_scons_rules t b =
     (case env_name (clone_env t) of (e, t) \<Rightarrow>
        generate_test_data_rules
          (write_rule (var_name t [] @ '' = '' @ e @ ''.ShellTest(target = '' @ quoted (target_file_path b t []) @ '', source = '' @
             repr_strs (map (source_file_path t) (t_srcs t)) @ '')'') t) b)"

text \<open>One location reference: the path of the output and its name among the test data.\<close>

definition location_entry ::
  "target \<Rightarrow> key \<times> string \<times> string \<Rightarrow> (string \<times> string) list \<times> blade \<Rightarrow> ((string \<times> string) list \<times> blade) result" where
  "location_entry t loc st =
     (case loc of (k, type, dst) \<Rightarrow> case st of (entries, b) \<Rightarrow>
        rbind (build_target b k) (\<lambda>target.
        rbind (get_target_file target type) (\<lambda>v.
          if \<not> truthy v then Inr (entries, say (missing_location t k type) b)
          else rbind (as_str v) (\<lambda>path. Inr (entries @ [(path, if dst = [] then basename path else dst)], b)))))"

text \<open>The common shape of \<open>ninja_rules\<close> and \<open>make_rules\<close>; \<open>build\<close> writes one statement.\<close>

definition shell_test_rules ::
  "(string \<Rightarrow> string \<Rightarrow> string list \<Rightarrow> (string, string) dict \<Rightarrow> target \<Rightarrow> target result) \<Rightarrow> target \<Rightarrow> blade \<Rightarrow> (target \<times> blade) result" where
  "shell_test_rules build t b =
     rbind (build (target_file_path b t []) ''shelltest'' (map (source_file_path t) (t_srcs t)) [] t) (\<lambda>t.
     rbind (stored_locations t) (\<lambda>locations.
     rbind (rfold (location_entry t) locations ([], b)) (\<lambda>(entries, b).
       if entries \<noteq> []
       then rbind (build (target_file_path b t [] @ ''.testdata'') ''shelltestdata'' (map fst entries)
                     [(''testdata'', join_with '' '' (map snd entries))] t) (\<lambda>t. Inr (t, b))
       else Inr (t, b))))"

definition ninja_statement :: "string \<Rightarrow> string \<Rightarrow> string list \<Rightarrow> (string, string) dict \<Rightarrow> target \<Rightarrow> target result" where
  "ninja_statement output rule inputs vars t = ninja_build (PyStr output) rule (pstrs inputs) [] [] vars [] t"

definition make_rule :: "string \<Rightarrow> string \<Rightarrow> string list \<Rightarrow> (string, string) dict \<Rightarrow> target \<Rightarrow> target result" where
  "make_rule output rule inputs vars t =
     make_build (PyStr output) rule (pstrs inputs) [] [] (map (\<lambda>(k, v). (k, PyStr v)) vars) t"

definition shell_test_ninja_rules :: "target \<Rightarrow> blade \<Rightarrow> (target \<times> blade) result" where
  "shell_test_ninja_rules = shell_test_rules ninja_statement"

definition shell_test_make_rules :: "target \<Rightarrow> blade \<Rightarrow> (target \<times> blade) result" where
  "shell_test_make_rules = shell_test_rules make_rule"

section \<open>Packages\<close>

definition package_types :: "string list" where
  "package_types = [''tar'', ''tar.gz'', ''tgz'', ''tar.bz2'', ''tbz'', ''zip'']"

definition package_source_path :: "target \<Rightarrow> string \<Rightarrow> string \<Rightarrow> (string \<times> string) result" where
  "package_source_path t src dst =
     (if str_in ''..'' src \<or> str_in ''..'' dst
      then Inl (SystemExit (t_fullname t @ '': Invalid src ('' @ src @ '', '' @ dst @ ''). Relative path is not allowed.''))
      else
        let (path, src) = (if startswith src ''//'' then (drop 2 src, drop 2 src) else (source_file_path t src, src))
        in Inr (path, if dst = [] then src else dst))"

definition add_package_source ::
  "java_fs \<Rightarrow> target \<Rightarrow> string \<Rightarrow> string \<Rightarrow> (string \<times> string) list \<Rightarrow> (string \<times> string) list result" where
  "add_package_source fs t src dst sources =
     rbind (package_source_path t src dst) (\<lambda>(src, dst).
       if \<not> jf_exists fs src
       then Inl (SystemExit (t_fullname t @ '': Package source '' @ src @ '' does not exist.''))
       else if jf_isfile fs src then Inr (sources @ [(src, dst)])
       else
         rbind (rmap (\<lambda>f. rbind (relpath (jf_cwd fs) f src) (\<lambda>rel. Inr (f, path_join dst rel)))
                 (walk_files src (jf_walk fs src))) (\<lambda>found. Inr (sources @ found)))"

definition process_package_src ::
  "java_fs \<Rightarrow> pyval \<Rightarrow> (string \<times> string) list \<times> (key \<times> string \<times> string) list \<times> target \<times> blade \<Rightarrow>
   ((string \<times> string) list \<times> (key \<times> string \<times> string) list \<times> target \<times> blade) result" where
  "process_package_src fs s st =
     (case st of (sources, locations, t, b) \<Rightarrow>
        rbind (entry_pair ''src'' ''src'' t s) (\<lambda>(src, dst).
          case location_search src of
            Some m \<Rightarrow>
              rbind (add_location_reference_target (Some m) t b) (\<lambda>(ref, t, b).
                Inr (sources, case ref of Some (k, type) \<Rightarrow> locations @ [(k, type, dst)] | None \<Rightarrow> locations, t, b))
          | None \<Rightarrow> rbind (add_package_source fs t src dst sources) (\<lambda>sources. Inr (sources, locations, t, b))))"

definition package_init ::
  "java_fs \<Rightarrow> string \<Rightarrow> pyval \<Rightarrow> pyval \<Rightarrow> pyval \<Rightarrow> pyval \<Rightarrow> (string, pyval) dict \<Rightarrow> blade \<Rightarrow> (target \<times> blade) result" where
  "package_init fs name srcs deps type out kwargs b =
     rbind (as_strs deps) (\<lambda>deps.
     rbind (target_init PackageC name ''package'' [] deps PyNone kwargs b) (\<lambda>(t, b).
     rbind (in_set type (map PyStr package_types)) (\<lambda>ok.
     rbind (py_text type) (\<lambda>type_text.
       if \<not> ok then
         Inl (SystemExit (t_fullname t @ '': Invalid type '' @ type_text @ ''. Types supported by the package are '' @
           join_with '', '' (sort package_types)))
       else
         rbind (rfold (process_package_src fs) (var_to_list srcs) ([], [], set_data ''type'' type t, b)) (\<lambda>(sources, locations, t, b).
           Inr (set_data ''out'' (if truthy out then out else PyStr (name @ ''.'' @ type_text))
                  (set_data ''locations'' (PyList (map py_location locations))
                    (set_data ''sources'' (PyList (map py_resource sources)) t)), b))))))"

definition package_rule ::
  "java_fs \<Rightarrow> string \<Rightarrow> pyval \<Rightarrow> pyval \<Rightarrow> pyval \<Rightarrow> pyval \<Rightarrow> (string, pyval) dict \<Rightarrow> blade \<Rightarrow> blade result" where
  "package_rule fs name srcs deps type out kwargs b = register_new (package_init fs name srcs deps type out kwargs b)"

definition package_sources :: "target \<Rightarrow> (string \<times> string) list result" where
  "package_sources t =
     rbind (dindex (t_data t) ''sources'') (\<lambda>v. case v of PyList vs \<Rightarrow> rmap resource_of_py vs | _ \<Rightarrow> Inl TypeError)"

definition package_output :: "blade \<Rightarrow> target \<Rightarrow> string result" where
  "package_output b t = rbind (rbind (dindex (t_data t) ''out'') as_str) (\<lambda>out. Inr (target_file_path b t out))"

definition package_source_rule :: "string \<Rightarrow> target \<Rightarrow> nat \<times> string \<times> string \<Rightarrow> string \<times> string \<times> string" where
  "package_source_rule sources_dir t entry =
     (case entry of (i, src, dst) \<Rightarrow>
        let var = var_name t (''source__'' @ show_nat i); dst = path_join sources_dir dst
        in (var, dst, ''.PackageSource(target = '' @ quoted dst @ '', source = '' @ quoted src @ '')''))"

definition package_location_rule ::
  "string \<Rightarrow> nat \<times> key \<times> string \<times> string \<Rightarrow> string list \<times> target \<times> blade \<Rightarrow> (string list \<times> target \<times> blade) result" where
  "package_location_rule sources_dir loc st =
     (case loc of (i, k, type, dst) \<Rightarrow> case st of (vars, t, b) \<Rightarrow>
        rbind (build_target b k) (\<lambda>target.
        rbind (get_target_var target type) (\<lambda>v.
          if \<not> truthy v then Inr (vars, t, say (missing_location t k type) b)
          else
            rbind (as_str v) (\<lambda>target_var.
              if dst \<noteq> [] then
                let var = var_name t (''location__'' @ show_nat i)
                in Inr (vars @ [var],
                        env_rule (\<lambda>e. var @ '' = '' @ e @ ''.PackageSource(target = '' @ quoted (path_join sources_dir dst) @ '', source = '' @
                          target_var @ '')'') t, b)
              else Inr (vars @ [target_var], t, b)))))"

definition package_scons_rules :: "target \<Rightarrow> blade \<Rightarrow> (target \<times> blade) result" where
  "package_scons_rules t b =
     (case env_name (clone_env t) of (e, t) \<Rightarrow>
        rbind (package_output b t) (\<lambda>target.
        rbind (package_sources t) (\<lambda>sources.
        rbind (stored_locations t) (\<lambda>locations.
          let sources_dir = target @ ''.sources'';
              rules = map (package_source_rule sources_dir t) (zip [0..<length sources] sources);
              t = write_rules (map (\<lambda>(var, _, rule). var @ '' = '' @ e @ rule) rules) t
          in rbind (rfold (package_location_rule sources_dir) (zip [0..<length locations] locations) ([], t, b)) (\<lambda>(location_vars, t, b).
             rbind (rbind (dindex (t_data t) ''type'') py_text) (\<lambda>type.
               let var = var_name t []
               in Inr (write_rules
                    ([var @ '' = '' @ e @ ''.Package(target='' @ quoted target @ '', source=['' @ join_with '','' (map fst rules) @
                        ''] + ['' @ join_with '','' (sort location_vars) @ ''])'',
                      e @ ''.Append(PACKAGESUFFIX='' @ quoted type @ '')''] @
                     (if rules \<noteq> []
                      then [e @ ''.Depends('' @ var @ '', '' @ e @ ''.Value('' @ repr_strs (map (\<lambda>(_, dst, _). dst) rules) @ ''))''] else []) @
                     (if locations \<noteq> []
                      then [e @ ''.Depends('' @ var @ '', '' @ e @ ''.Value('' @
                              quoted (py_repr (PyList (map py_location (sorted_set locations)))) @ ''))''] else [])) t, b)))))))"

definition package_ninja_rules :: "target \<Rightarrow> blade \<Rightarrow> (target \<times> blade) result" where
  "package_ninja_rules t b =
     rbind (package_sources t) (\<lambda>sources.
     rbind (stored_locations t) (\<lambda>locations.
     rbind (rfold (location_entry t) locations (sources, b)) (\<lambda>(entries, b).
     rbind (package_output b t) (\<lambda>output.
     rbind (ninja_statement output ''package'' (map fst entries) [(''entries'', join_with '' '' (map snd entries))] t) (\<lambda>t.
       Inr (t, b))))))"

end
