(* ===== verification/Proto_Library.thy ===== *)
theory Proto_Library
  imports Cc_Classes
begin

text \<open>
  Protobuf targets (\<open>src/blade/proto_library_target.py\<close>) and the plug-ins of the protobuf compiler, which the
  configuration function \<open>protoc_plugin\<close> (\<open>src/blade/configparse.py\<close>) registers. The table of plug-ins is an
  argument, \<open>plugins\<close>; \<open>so\<close> is the iteration order of sets and dictionaries, \<open>fs\<close> the file system,
  \<open>depth\<close> the stack left for the header question.
\<close>

section \<open>Plug-ins\<close>

definition plugin_languages :: "set_order \<Rightarrow> protoc_plugin \<Rightarrow> string list" where
  "plugin_languages so p = so_str so (dkeys (pp_code_generation p))"

text \<open>The dependencies of a plug-in for a language; the loader unpacks every one into path and name.\<close>

definition plugin_keys :: "protoc_plugin \<Rightarrow> string \<Rightarrow> key list result" where
  "plugin_keys p language = rmap unpack2 (dgetd (pp_code_generation p) language [])"

section \<open>Constructor\<close>

record proto_args =
  pa_name :: string
  pa_srcs :: pyval
  pa_deps :: pyval
  pa_optimize :: pyval
  pa_deprecated :: pyval
  pa_generate_descriptors :: pyval
  pa_plugins :: pyval
  pa_source_encoding :: pyval
  pa_kwargs :: "(string, pyval) dict"

definition check_proto_src :: "pyval \<Rightarrow> unit \<Rightarrow> unit result" where
  "check_proto_src v _ =
     (case v of
        PyStr src \<Rightarrow> if \<not> endswith src ''.proto'' then Inl (SystemExit (''Invalid proto file name '' @ src)) else Inr ()
      | _ \<Rightarrow> Inl (AttributeError ''endswith''))"

definition check_proto_srcs_name :: "pyval list \<Rightarrow> unit result" where
  "check_proto_srcs_name srcs = rfold check_proto_src srcs ()"

definition add_plugin_language ::
  "protoc_plugin \<Rightarrow> string \<Rightarrow> key list \<times> key list \<times> target \<Rightarrow> (key list \<times> key list \<times> target) result" where
  "add_plugin_language p language st =
     (case st of (deps, java_deps, t) \<Rightarrow>
        rbind (plugin_keys p language) (\<lambda>keys.
          Inr (deps @ keys, if language = ''java'' then java_deps @ keys else java_deps, fold add_dep keys t)))"

definition find_plugin :: "(string, protoc_plugin) dict \<Rightarrow> pyval \<Rightarrow> protoc_plugin option result" where
  "find_plugin plugins v =
     (if \<not> hashable v then Inl TypeError else Inr (case v of PyStr name \<Rightarrow> dget plugins name | _ \<Rightarrow> None))"

definition add_plugin ::
  "set_order \<Rightarrow> (string, protoc_plugin) dict \<Rightarrow> pyval \<Rightarrow> key list \<times> key list \<times> target \<Rightarrow>
   (key list \<times> key list \<times> target) result" where
  "add_plugin so plugins v st =
     rbind (find_plugin plugins v) (\<lambda>p.
       case p of
         None \<Rightarrow> rbind (py_text v) (\<lambda>name. Inl (SystemExit (t_fullname (snd (snd st)) @ '': Unknown plugin '' @ name)))
       | Some p \<Rightarrow> rfold (add_plugin_language p) (plugin_languages so p) st)"

definition proto_config_list :: "blade \<Rightarrow> string \<Rightarrow> string list result" where
  "proto_config_list b name = rbind (config_value b ''proto_library_config'' name) as_strs"

definition proto_library_init ::
  "set_order \<Rightarrow> (string, protoc_plugin) dict \<Rightarrow> proto_args \<Rightarrow> blade \<Rightarrow> (target \<times> blade) result" where
  "proto_library_init so plugins a b =
     rbind (check_proto_srcs_name (var_to_list (pa_srcs a))) (\<lambda>_.
     rbind (cc_target_init ProtoLibraryC ''proto_library''
              \<lparr>ca_name = pa_name a, ca_srcs = pa_srcs a, ca_deps = pa_deps a, ca_visibility = PyNone, ca_warning = pempty,
               ca_defs = pnil, ca_incs = pnil, ca_export_incs = pnil, ca_optimize = pa_optimize a, ca_extra_cppflags = pnil,
               ca_extra_linkflags = pnil, ca_kwargs = pa_kwargs a\<rparr> b) (\<lambda>(t, b).
     rbind (as_strs (pa_srcs a)) (\<lambda>srcs.
     rbind (proto_config_list b ''protobuf_libs'') (\<lambda>libs.
     rbind (proto_config_list b ''protobuf_java_libs'') (\<lambda>java_libs.
     rbind (proto_config_list b ''protobuf_python_libs'') (\<lambda>python_libs.
     rbind (add_hardcode_library libs
              (if srcs \<noteq> [] then set_data ''public_protos'' (pstrs (map (source_file_path t) srcs)) t else t) b) (\<lambda>(t, b).
     rbind (add_hardcode_java_library java_libs t b) (\<lambda>(t, b).
     rbind (add_hardcode_library python_libs t b) (\<lambda>(t, b).
       let names = var_to_list (pa_plugins a)
       in rbind (rfold (add_plugin so plugins) names ([], [], set_data ''protoc_plugins'' (PyList names) t)) (\<lambda>(deps, java_deps, t).
          rbind (as_strs (pa_deps a)) (\<lambda>own.
          rbind (unify_deps t own b) (\<lambda>(own, b).
          rbind (unify_deps t java_libs b) (\<lambda>(java_libs, b).
            Inr (set_all
                   [(''protoc_plugin_deps'', PyList (map py_key (so_key so deps))),
                    (''exported_deps'', PyList (map py_key (own @ java_libs @ so_key so java_deps))),
                    (''link_all_symbols'', PyBool True), (''deprecated'', pa_deprecated a),
                    (''source_encoding'', pa_source_encoding a), (''java_sources_explict_dependency'', pnil),
                    (''python_vars'', pnil), (''python_sources'', pnil),
                    (''generate_descriptors'', pa_generate_descriptors a)] t, b))))))))))))))"

definition proto_library ::
  "set_order \<Rightarrow> (string, protoc_plugin) dict \<Rightarrow> proto_args \<Rightarrow> blade \<Rightarrow> blade result" where
  "proto_library so plugins a b = register_new (proto_library_init so plugins a b)"

section \<open>Checks\<close>

definition check_proto_dep :: "database \<Rightarrow> target \<Rightarrow> key list \<Rightarrow> key \<Rightarrow> unit \<Rightarrow> unit result" where
  "check_proto_dep db t proto_deps dkey _ =
     (if dkey \<in> set proto_deps then Inr ()
      else rbind (dindex db dkey) (\<lambda>dep.
        if t_type dep \<noteq> ''proto_library'' \<and> t_type dep \<noteq> ''gen_rule''
        then Inl (SystemExit (t_fullname t @ '': Invalid dep '' @ t_fullname dep @
               ''. Proto_library can only depend on proto_library or gen_rule.''))
        else Inr ()))"

definition check_proto_deps :: "target \<Rightarrow> blade \<Rightarrow> blade result" where
  "check_proto_deps t b =
     rbind (proto_config_list b ''protobuf_libs'') (\<lambda>libs.
     rbind (proto_config_list b ''protobuf_java_libs'') (\<lambda>java_libs.
     rbind (unify_deps t (libs @ java_libs) b) (\<lambda>(libs, b).
     rbind (dindex (t_data t) ''protoc_plugin_deps'') (\<lambda>_.
     rbind (data_keys t ''protoc_plugin_deps'') (\<lambda>plugin_deps.
     rbind (rfold (check_proto_dep (b_target_database b) t (libs @ plugin_deps)) (t_deps t) ()) (\<lambda>_. Inr b))))))"

definition proto_prepare_to_generate_rule :: "target \<Rightarrow> blade \<Rightarrow> (target \<times> blade) result" where
  "proto_prepare_to_generate_rule t b =
     (case cc_prepare_to_generate_rule t b of (t, b) \<Rightarrow> rbind (check_proto_deps t b) (\<lambda>b. Inr (t, b)))"

section \<open>Names of generated files\<close>

text \<open>\<open>src[:-6]\<close>\<close>

definition proto_stem :: "string \<Rightarrow> string" where
  "proto_stem src = take (length src - 6) src"

definition proto_gen_files :: "blade \<Rightarrow> target \<Rightarrow> string \<Rightarrow> string \<times> string" where
  "proto_gen_files b t src =
     (target_file_path b t (proto_stem src @ ''.pb.cc''), target_file_path b t (proto_stem src @ ''.pb.h''))"

definition proto_gen_php_file :: "blade \<Rightarrow> target \<Rightarrow> string \<Rightarrow> string" where
  "proto_gen_php_file b t src = target_file_path b t (proto_stem src @ ''.pb.php'')"

definition proto_gen_python_file :: "blade \<Rightarrow> target \<Rightarrow> string \<Rightarrow> string" where
  "proto_gen_python_file b t src = target_file_path b t (proto_stem src @ ''_pb2.py'')"

definition proto_gen_go_file :: "blade \<Rightarrow> target \<Rightarrow> string \<Rightarrow> string" where
  "proto_gen_go_file b t src = target_file_path b t (proto_stem src @ ''.pb.go'')"

definition proto_gen_descriptor_file :: "blade \<Rightarrow> target \<Rightarrow> string \<Rightarrow> string" where
  "proto_gen_descriptor_file b t name = target_file_path b t (name @ ''.descriptors.pb'')"

definition proto_gen_file_names :: "string \<Rightarrow> string list" where
  "proto_gen_file_names src = [proto_stem src @ ''.pb.h'', proto_stem src @ ''.pb.cc'']"

section \<open>Options of a proto file\<close>

text \<open>
  \<open>'^\s*option\s+NAME\s*=\s*'\<close> and a quote, with the text behind it. Every repetition ends
  at the first character outside its class, so that there is no other way to match.
\<close>

definition option_at :: "string \<Rightarrow> string \<Rightarrow> string option" where
  "option_at name s =
     (let s = dropWhile is_space s; blanks = drop 6 s;
          rest = dropWhile is_space blanks;
          equals = dropWhile is_space (drop (length name) rest);
          quote = dropWhile is_space (drop 1 equals)
      in if startswith s ''option'' \<and> takeWhile is_space blanks \<noteq> [] \<and> startswith rest name \<and> startswith equals ''='' \<and>
            (startswith quote [dquote] \<or> startswith quote [squote])
         then Some (drop 1 quote) else None)"

definition java_package_at :: "string \<Rightarrow> string option" where
  "java_package_at s =
     (case option_at ''java_package'' s of
        None \<Rightarrow> None
      | Some rest \<Rightarrow>
          let name = takeWhile (\<lambda>c. is_word c \<or> c = CHR ''.'') rest in if name \<noteq> [] then Some name else None)"

definition outer_classname_at :: "string \<Rightarrow> string option" where
  "outer_classname_at s =
     (case option_at ''java_outer_classname'' s of
        None \<Rightarrow> None
      | Some rest \<Rightarrow>
          let name = takeWhile is_word rest; end_quote = dropWhile is_word rest
          in if name \<noteq> [] \<and> (startswith end_quote [dquote] \<or> startswith end_quote [squote]) then Some name else None)"

text \<open>\<open>re.search\<close> of an expression that begins with \<open>^\<close>, in multi-line mode.\<close>

fun line_search :: "(string \<Rightarrow> string option) \<Rightarrow> bool \<Rightarrow> string \<Rightarrow> string option" where
  "line_search p bol s =
     (case if bol then p s else None of
        Some r \<Rightarrow> Some r
      | None \<Rightarrow> (case s of [] \<Rightarrow> None | c # cs \<Rightarrow> line_search p (c = newline) cs))"

declare line_search.simps [simp del]

definition proto_java_package_name :: "string \<Rightarrow> string" where
  "proto_java_package_name content =
     (case line_search java_package_at True content of Some name \<Rightarrow> name | None \<Rightarrow> package_search True content)"

definition capitalise :: "string \<Rightarrow> string" where
  "capitalise p = (case p of [] \<Rightarrow> [] | c # cs \<Rightarrow> upper_char c # cs)"

definition proto_java_gen_class_name :: "string \<Rightarrow> string \<Rightarrow> string" where
  "proto_java_gen_class_name src content =
     (case line_search outer_classname_at True content of
        Some name \<Rightarrow> name
      | None \<Rightarrow> concat (map capitalise (split_on (CHR ''_'') (basename (proto_stem src)))))"

definition proto_java_gen_file :: "java_fs \<Rightarrow> target \<Rightarrow> string \<Rightarrow> (string \<times> string) result" where
  "proto_java_gen_file fs t src =
     (let path = source_file_path t src
      in if \<not> jf_isfile fs path then Inl (PyException ''IOError'')
         else let content = jf_content fs path
              in Inr (replace_char (CHR ''.'') slash (proto_java_package_name content),
                      proto_java_gen_class_name src content @ ''.java''))"

definition proto_java_output :: "java_fs \<Rightarrow> blade \<Rightarrow> target \<Rightarrow> string \<Rightarrow> string result" where
  "proto_java_output fs b t src =
     rbind (proto_java_gen_file fs t src) (\<lambda>(package_dir, java_name).
       Inr (target_file_path b t (path_join3 (dirname src) package_dir java_name)))"

end
