(* ===== verification/Proto_Rules.thy ===== *)
theory Proto_Rules
  imports Proto_Library
begin

text \<open>
  The rules of protobuf targets (\<open>src/blade/proto_library_target.py\<close>) for SCons and Ninja, in every language.
\<close>

section \<open>Languages, for SCons\<close>

text \<open>\<open>self.data[name].append(v)\<close>\<close>

definition append_data :: "string \<Rightarrow> pyval \<Rightarrow> target \<Rightarrow> target result" where
  "append_data name v t =
     rbind (dindex (t_data t) name) (\<lambda>old.
       case old of PyList vs \<Rightarrow> Inr (set_data name (PyList (vs @ [v])) t) | _ \<Rightarrow> Inl (AttributeError ''append''))"

definition proto_java_rule :: "java_fs \<Rightarrow> blade \<Rightarrow> string \<Rightarrow> string list \<times> target \<Rightarrow> (string list \<times> target) result" where
  "proto_java_rule fs b src st =
     (case st of (vars, t) \<Rightarrow>
        rbind (proto_java_output fs b t src) (\<lambda>java_src.
          let var = var_name_of t java_src [];
              t = env_rule (\<lambda>e. var @ '' = '' @ e @ ''.ProtoJava('' @ quoted java_src @ '', '' @ quoted (path_join (t_path t) src) @ '')'') t;
              t = set_data ''java_sources''
                    (PyTuple [PyStr java_src, PyStr (path_join (b_build_path b) (t_path t)), PyStr (t_name t)]) t
          in rbind (append_data ''java_sources_explict_dependency'' (PyStr java_src) t) (\<lambda>t. Inr (vars @ [var], t))))"

definition proto_java_rules :: "set_order \<Rightarrow> java_fs \<Rightarrow> target \<Rightarrow> blade \<Rightarrow> target result" where
  "proto_java_rules so fs t b =
     rbind (rfold (proto_java_rule fs b) (t_srcs t) ([], snd (env_name t))) (\<lambda>(src_vars, t).
     rbind (generate_java_versions b t) (\<lambda>t.
     rbind (generate_java_source_encoding b t) (\<lambda>t.
     rbind (get_compile_deps so (jf_exists fs) b t) (\<lambda>(dep_jar_vars, dep_jars).
       let var = var_name t ''jar'';
           t = generate_generated_java_jar b var src_vars (generate_java_classpath dep_jar_vars dep_jars t)
       in rbind (generate_java_depends var dep_jar_vars dep_jars [] [] t) (add_target_var ''jar'' (PyStr var))))))"

definition proto_php_rules :: "target \<Rightarrow> blade \<Rightarrow> target" where
  "proto_php_rules t b =
     env_rules (\<lambda>e. map (\<lambda>src. e @ ''.ProtoPhp(['' @ quoted (proto_gen_php_file b t src) @ ''], '' @
       quoted (path_join (t_path t) src) @ '')'') (t_srcs t)) t"

definition proto_python_rule :: "blade \<Rightarrow> string \<Rightarrow> target \<Rightarrow> target result" where
  "proto_python_rule b src t =
     (let py_src = proto_gen_python_file b t src; var = var_name_of t src ''python'';
          t = env_rule (\<lambda>e. var @ '' = '' @ e @ ''.ProtoPython(['' @ quoted py_src @ ''], '' @ quoted (path_join (t_path t) src) @ '')'') t
      in rbind (append_data ''python_vars'' (PyStr var) t) (append_data ''python_sources'' (PyStr py_src)))"

definition proto_python_rules :: "target \<Rightarrow> blade \<Rightarrow> target result" where
  "proto_python_rules t b =
     rbind (rfold (proto_python_rule b) (t_srcs t) t) (\<lambda>t.
     rbind (data_strs t ''python_vars'') (\<lambda>vars.
       let var = var_name t ''python''
       in Inr (set_data ''python_var'' (PyStr var)
            (env_rules (\<lambda>e. [e @ ''['' @ quoted ''BASE_DIR'' @ ''] = '' @ quoted (b_build_path b),
               e @ ''['' @ quoted ''BUILD_DIR'' @ ''] = '' @ quoted (b_build_path b),
               var @ '' = '' @ e @ ''.PythonLibrary(['' @ quoted (target_file_path b t [] @ ''.pylib'') @ ''], ['' @
                 join_with '', '' vars @ ''])'']) t))))"

definition proto_go_rule :: "blade \<Rightarrow> target \<Rightarrow> string \<Rightarrow> string \<Rightarrow> string \<Rightarrow> string \<Rightarrow> string list" where
  "proto_go_rule b t go_home go_path e src =
     (let go_src = proto_gen_go_file b t src;
          src_var = var_name_of t src ''go_src''; dst_var = var_name_of t src ''go_dst'';
          go_dst = foldl path_join go_home [''src'', go_path, t_path t, dirname src,
                     replace_char (CHR ''.'') (CHR ''_'') (basename src), basename go_src]
      in [src_var @ '' = '' @ e @ ''.ProtoGo('' @ quoted go_src @ '', '' @ quoted (path_join (t_path t) src) @ '')'',
          dst_var @ '' = '' @ e @ ''.ProtoGoSource('' @ quoted go_dst @ '', '' @ src_var @ '')'',
          var_name t ''go'' @ ''.append('' @ dst_var @ '')''])"

definition proto_go_rules :: "target \<Rightarrow> blade \<Rightarrow> target result" where
  "proto_go_rules t b =
     rbind (config_value b ''go_config'' ''go_home'') (\<lambda>go_home.
       if \<not> truthy go_home then Inl (SystemExit (t_fullname t @ '': go_home is not configured in BLADE_ROOT.''))
       else
         rbind (as_str go_home) (\<lambda>go_home.
         rbind (rbind (config_value b ''proto_library_config'' ''protobuf_go_path'') as_str) (\<lambda>go_path.
           add_target_var ''go'' (PyStr (var_name t ''go''))
             (env_rules (\<lambda>e. [e @ ''.Replace(PROTOBUFGOPATH='' @ quoted go_path @ '')'', var_name t ''go'' @ '' = []''] @
                concat (map (proto_go_rule b t go_home go_path e) (t_srcs t))) t))))"

definition proto_descriptor_rules :: "target \<Rightarrow> blade \<Rightarrow> target" where
  "proto_descriptor_rules t b =
     env_rule (\<lambda>e. e @ ''.ProtoDescriptors('' @ quoted (proto_gen_descriptor_file b t (t_name t)) @ '', '' @
       repr_strs (map (path_join (t_path t)) (t_srcs t)) @ '')'') t"

section \<open>Flags\<close>

text \<open>The plug-ins of a target, \<open>[config[plugin] for plugin in self.data['protoc_plugins']]\<close>.\<close>

definition target_plugin :: "(string, protoc_plugin) dict \<Rightarrow> pyval \<Rightarrow> protoc_plugin result" where
  "target_plugin plugins v =
     rbind (find_plugin plugins v) (\<lambda>p. case p of None \<Rightarrow> Inl KeyError | Some p \<Rightarrow> Inr p)"

definition target_plugins :: "(string, protoc_plugin) dict \<Rightarrow> target \<Rightarrow> protoc_plugin list result" where
  "target_plugins plugins t =
     rbind (dindex (t_data t) ''protoc_plugins'') (\<lambda>v.
       case v of PyList vs \<Rightarrow> rmap (target_plugin plugins) vs | _ \<Rightarrow> Inl TypeError)"

definition plugin_flag_rules :: "set_order \<Rightarrow> blade \<Rightarrow> string \<Rightarrow> protoc_plugin \<Rightarrow> string list" where
  "plugin_flag_rules so b e p =
     map (\<lambda>language. e @ ''.Append(PROTOC'' @ upper language @ ''PLUGINFLAGS = '' @
            quoted (protoc_plugin_flag p (b_build_path b) @ '' '') @ '')'') (plugin_languages so p)"

definition protoc_plugin_rules :: "set_order \<Rightarrow> (string, protoc_plugin) dict \<Rightarrow> target \<Rightarrow> blade \<Rightarrow> target result" where
  "protoc_plugin_rules so plugins t b =
     rbind (target_plugins plugins t) (\<lambda>ps. Inr (env_rules (\<lambda>e. concat (map (plugin_flag_rules so b e) ps)) t))"

definition put_plugin_flags :: "set_order \<Rightarrow> blade \<Rightarrow> protoc_plugin \<Rightarrow> (string, string) dict \<Rightarrow> (string, string) dict" where
  "put_plugin_flags so b p flags =
     fold (\<lambda>language. dset language (protoc_plugin_flag p (b_build_path b))) (plugin_languages so p) flags"

definition protoc_plugin_flags ::
  "set_order \<Rightarrow> (string, protoc_plugin) dict \<Rightarrow> target \<Rightarrow> blade \<Rightarrow> (string, string) dict result" where
  "protoc_plugin_flags so plugins t b =
     rbind (target_plugins plugins t) (\<lambda>ps. Inr (fold (put_plugin_flags so b) ps []))"

definition dep_protos :: "database \<Rightarrow> key \<Rightarrow> string list result" where
  "dep_protos db key = rbind (dindex db key) (\<lambda>dep. data_strs dep ''public_protos'')"

definition protoc_direct_dependencies :: "target \<Rightarrow> blade \<Rightarrow> string list result" where
  "protoc_direct_dependencies t b =
     (if get_data t ''public_protos'' PyNone = PyNone then Inl TypeError
      else
        rbind (data_strs t ''public_protos'') (\<lambda>protos.
        rbind (rmap (dep_protos (b_target_database b)) (t_deps t)) (\<lambda>others. Inr (protos @ concat others))))"

text \<open>The flag for the direct dependencies, when it is configured and there are several.\<close>

definition direct_dependencies_flag :: "target \<Rightarrow> blade \<Rightarrow> string option result" where
  "direct_dependencies_flag t b =
     rbind (config_value b ''proto_library_config'' ''protoc_direct_dependencies'') (\<lambda>v.
       if \<not> truthy v then Inr None
       else rbind (protoc_direct_dependencies t b) (\<lambda>deps.
              Inr (if length deps > 1 then Some (''--direct_dependencies '' @ join_with '':'' deps) else None)))"

definition protoc_direct_dependencies_rules :: "target \<Rightarrow> blade \<Rightarrow> target result" where
  "protoc_direct_dependencies_rules t b =
     rbind (direct_dependencies_flag t b) (\<lambda>flag.
       Inr (case flag of
              None \<Rightarrow> t
            | Some f \<Rightarrow> env_rule (\<lambda>e. e @ ''.Append(PROTOCFLAGS='' @ quoted f @ '')'') t))"

section \<open>SCons\<close>

text \<open>\<open>getattr(options, name, False) or self.data.get(name)\<close>\<close>

definition generates :: "target \<Rightarrow> blade \<Rightarrow> string \<Rightarrow> bool" where
  "generates t b name \<longleftrightarrow> truthy (opt_default b name (PyBool False)) \<or> truthy (get_data t name PyNone)"

definition generates_java :: "target \<Rightarrow> blade \<Rightarrow> bool" where
  "generates_java t b \<longleftrightarrow> generates t b ''generate_java'' \<or> truthy (get_data t ''generate_scala'' PyNone)"

definition when_ok :: "bool \<Rightarrow> (target \<Rightarrow> target result) \<Rightarrow> target \<Rightarrow> target result" where
  "when_ok c f t = (if c then f t else Inr t)"

definition proto_language_rules :: "set_order \<Rightarrow> java_fs \<Rightarrow> target \<Rightarrow> blade \<Rightarrow> target result" where
  "proto_language_rules so fs t b =
     rbind (when_ok (generates_java t b) (\<lambda>t. proto_java_rules so fs t b) t) (\<lambda>t.
     rbind (when_ok (generates t b ''generate_php'') (\<lambda>t. Inr (proto_php_rules t b)) t) (\<lambda>t.
     rbind (when_ok (generates t b ''generate_python'') (\<lambda>t. proto_python_rules t b) t) (\<lambda>t.
     rbind (when_ok (generates t b ''generate_go'') (\<lambda>t. proto_go_rules t b) t) (\<lambda>t.
     rbind (dindex (t_data t) ''generate_descriptors'') (\<lambda>v.
       Inr (if truthy v then proto_descriptor_rules t b else t))))))"

definition proto_object :: "target \<Rightarrow> string \<Rightarrow> string" where
  "proto_object t src = ''obj_'' @ var_name_of t src []"

definition proto_object_rules :: "blade \<Rightarrow> target \<Rightarrow> string \<Rightarrow> string \<Rightarrow> string list" where
  "proto_object_rules b t e src =
     (case proto_gen_files b t src of (cc, hdr) \<Rightarrow>
        [e @ ''.Proto(['' @ quoted cc @ '', '' @ quoted hdr @ ''], '' @ quoted (path_join (t_path t) src) @ '')'',
         proto_object t src @ '' = '' @ e @ ''.SharedObject(target='' @ quoted cc @ '' + top_env['' @ quoted ''OBJSUFFIX'' @
           ''], source='' @ quoted cc @ '')''])"

definition proto_objs :: "string list \<Rightarrow> target \<Rightarrow> (string \<times> target) result" where
  "proto_objs objs t =
     (case objs of
        [obj] \<Rightarrow> Inr (obj, set_objs_name obj t)
      | _ \<Rightarrow> rbind (objs_name t) (\<lambda>(name, t). Inr (name, write_rule (name @ '' = ['' @ join_with '','' objs @ '']'') t)))"

definition proto_scons_rules ::
  "nat \<Rightarrow> set_order \<Rightarrow> java_fs \<Rightarrow> (string, protoc_plugin) dict \<Rightarrow> target \<Rightarrow> blade \<Rightarrow> (target \<times> blade) result" where
  "proto_scons_rules depth so fs plugins t b =
     rbind (proto_prepare_to_generate_rule t b) (\<lambda>(t, b).
       if t_srcs t = [] then Inr (t, b)
       else
         rbind (protoc_direct_dependencies_rules t b) (\<lambda>t.
         rbind (protoc_plugin_rules so plugins t b) (\<lambda>t.
         rbind (proto_language_rules so fs t b) (\<lambda>t.
         rbind (setup_cc_flags t b) (\<lambda>t.
           let t = env_rules (\<lambda>e. concat (map (proto_object_rules b t e) (t_srcs t))) t;
               sources = map (\<lambda>src. fst (proto_gen_files b t src)) (t_srcs t)
           in rbind (proto_objs (map (proto_object t) (t_srcs t)) t) (\<lambda>(objs, t).
                let t = env_rule (\<lambda>e. e @ ''.Depends('' @ objs @ '', '' @ repr_strs sources @ '')'') t
                in rbind (generate_generated_header_files_depends depth (repr_strs sources) t b) (\<lambda>(t, b).
                   rbind (cc_library_rules t b) (\<lambda>t. Inr (t, b)))))))))"

section \<open>Ninja\<close>

definition ninja_proto_descriptor_rules :: "target \<Rightarrow> blade \<Rightarrow> target result" where
  "ninja_proto_descriptor_rules t b =
     (case map (source_file_path t) (t_srcs t) of
        [] \<Rightarrow> Inl IndexError
      | first # rest \<Rightarrow>
          ninja_build (PyStr (proto_gen_descriptor_file b t (t_name t))) ''protodescriptors'' (pstrs (first # rest)) [] []
            [(''first'', first)] [] t)"

definition ninja_protoc_plugin_vars :: "(string, string) dict \<Rightarrow> string \<Rightarrow> (string, string) dict" where
  "ninja_protoc_plugin_vars flags language =
     (case dget flags language of None \<Rightarrow> [] | Some v \<Rightarrow> [(''protoc'' @ language @ ''pluginflags'', v)])"

definition ninja_protoc_direct_dependencies ::
  "target \<Rightarrow> blade \<Rightarrow> (string, string) dict \<Rightarrow> (string, string) dict result" where
  "ninja_protoc_direct_dependencies t b vars =
     rbind (direct_dependencies_flag t b) (\<lambda>flag. Inr (case flag of None \<Rightarrow> vars | Some f \<Rightarrow> dset ''protocflags'' f vars))"

definition ninja_proto_java :: 
  "set_order \<Rightarrow> java_fs \<Rightarrow> blade \<Rightarrow> (string, string) dict \<Rightarrow> string \<Rightarrow> string list \<times> target \<Rightarrow> (string list \<times> target) result" where
  "ninja_proto_java so fs b vars src st =
     (case st of (sources, t) \<Rightarrow>
        rbind (proto_java_output fs b t src) (\<lambda>output.
        rbind (ninja_build (PyStr output) ''protojava'' (PyStr (source_file_path t src)) [] [] (dict_order so vars) [] t) (\<lambda>t.
          Inr (sources @ [output], t))))"

definition ninja_proto_java_rules ::
  "set_order \<Rightarrow> java_fs \<Rightarrow> (string, string) dict \<Rightarrow> target \<Rightarrow> blade \<Rightarrow> target result" where
  "ninja_proto_java_rules so fs plugin_flags t b =
     rbind (rfold (ninja_proto_java so fs b (ninja_protoc_plugin_vars plugin_flags ''java'')) (t_srcs t) ([], t)) (\<lambda>(sources, t).
       let encoding = get_data t ''source_encoding'' PyNone
       in rbind (if truthy encoding then py_text encoding else Inr []) (\<lambda>encoding.
          rbind (ninja_build_jar so fs b [] sources encoding [] False [] t) (\<lambda>(jar, t). add_target_file ''jar'' (PyStr jar) t)))"

definition ninja_proto_python :: "blade \<Rightarrow> string \<Rightarrow> string list \<times> target \<Rightarrow> (string list \<times> target) result" where
  "ninja_proto_python b src st =
     (case st of (pys, t) \<Rightarrow>
        let output = proto_gen_python_file b t src
        in rbind (ninja_build (PyStr output) ''protopython'' (PyStr (source_file_path t src)) [] [] [] [] t) (\<lambda>t.
             Inr (pys @ [output], t)))"

definition ninja_proto_python_rules :: "target \<Rightarrow> blade \<Rightarrow> target result" where
  "ninja_proto_python_rules t b =
     rbind (rfold (ninja_proto_python b) (t_srcs t) ([], t)) (\<lambda>(pys, t).
       let pylib = target_file_path b t [] @ ''.pylib''
       in rbind (ninja_build (PyStr pylib) ''pythonlibrary'' (pstrs pys) [] [] [(''pythonbasedir'', b_build_path b)] [] t)
            (add_target_file ''pylib'' (PyStr pylib)))"

definition ninja_proto_rules :: "set_order \<Rightarrow> java_fs \<Rightarrow> (string, string) dict \<Rightarrow> target \<Rightarrow> blade \<Rightarrow> target result" where
  "ninja_proto_rules so fs plugin_flags t b =
     rbind (when_ok (generates_java t b) (\<lambda>t. ninja_proto_java_rules so fs plugin_flags t b) t) (\<lambda>t.
     rbind (when_ok (generates t b ''generate_python'') (\<lambda>t. ninja_proto_python_rules t b) t) (\<lambda>t.
     rbind (dindex (t_data t) ''generate_descriptors'') (\<lambda>v. when_ok (truthy v) (\<lambda>t. ninja_proto_descriptor_rules t b) t)))"

definition ninja_proto_source ::
  "set_order \<Rightarrow> blade \<Rightarrow> (string, string) dict \<Rightarrow> string \<Rightarrow> target \<Rightarrow> target result" where
  "ninja_proto_source so b vars src t =
     (case proto_gen_files b t src of (cc, hdr) \<Rightarrow>
        ninja_build (pstrs [cc, hdr]) ''proto'' (PyStr (source_file_path t src)) [] [] (dict_order so vars) [] t)"

definition proto_ninja_rules ::
  "nat \<Rightarrow> set_order \<Rightarrow> java_fs \<Rightarrow> (string, protoc_plugin) dict \<Rightarrow> target \<Rightarrow> cc_world \<Rightarrow> (target \<times> cc_world) result" where
  "proto_ninja_rules depth so fs plugins t w =
     rbind (check_proto_deps t (check_deprecated_deps t (cw_blade w))) (\<lambda>b.
       let w = w\<lparr>cw_blade := b\<rparr>
       in if t_srcs t = [] then Inr (t, w)
          else
            rbind (protoc_plugin_flags so plugins t b) (\<lambda>plugin_flags.
            rbind (ninja_protoc_direct_dependencies t b (ninja_protoc_plugin_vars plugin_flags ''cpp'')) (\<lambda>vars.
            rbind (rfold (ninja_proto_source so b vars) (t_srcs t) t) (\<lambda>t.
            rbind (cc_objects_ninja depth so (map (\<lambda>src. proto_gen_file_names src ! 1) (t_srcs t)) True
                     (map (\<lambda>src. snd (proto_gen_files b t src)) (t_srcs t)) t w) (\<lambda>tw.
            rbind (with_blade (cc_library_ninja so) tw) (with_blade (ninja_proto_rules so fs plugin_flags)))))))"

end
