(* ===== verification/Thrift_Library.thy ===== *)
theory Thrift_Library
  imports Proto_Rules
begin

text \<open>
  Thrift targets: the scan of an IDL file for the names of generated files (\<open>src/blade/thrift_helper.py\<close>,
  \<open>src/blade/fbthrift_helper.py\<close>), and the targets with their rules (\<open>src/blade/thrift_library.py\<close>,
  \<open>src/blade/fbthrift_library.py\<close>).
\<close>

section \<open>IDL files\<close>

record thrift_helper =
  th_path :: string
  th_src :: string
  th_package_name :: "(string, string) dict"
  th_has_constants :: bool
  th_enums :: "string list"
  th_structs :: "string list"
  th_exceptions :: "string list"
  th_services :: "string list"

text \<open>\<open>line[0:line.find(mark)]\<close>, when the mark is there.\<close>

definition cut_at :: "string \<Rightarrow> string \<Rightarrow> string" where
  "cut_at mark line = (case str_find line mark of None \<Rightarrow> line | Some pos \<Rightarrow> take pos line)"

text \<open>\<open>'^namespace ([0-9_a-zA-Z]+) ([0-9_a-zA-Z.]+)'\<close>\<close>

definition namespace_match :: "string \<Rightarrow> (string \<times> string) option" where
  "namespace_match line =
     (let rest = drop 10 line; lang = takeWhile is_word rest; tail = dropWhile is_word rest;
          package = takeWhile (\<lambda>c. is_word c \<or> c = CHR ''.'') (drop 1 tail)
      in if startswith line ''namespace '' \<and> lang \<noteq> [] \<and> startswith tail '' '' \<and> package \<noteq> [] then Some (lang, package) else None)"

definition thrift_keywords :: "string list" where
  "thrift_keywords = [''const'', ''struct'', ''service'', ''enum'', ''exception'']"

text \<open>\<open>'(const|struct|service|enum|exception) ([0-9_a-zA-Z]+)'\<close>\<close>

definition definition_match :: "string \<Rightarrow> (string \<times> string) option" where
  "definition_match line =
     (case filter (\<lambda>kw. startswith line (kw @ '' '')) thrift_keywords of
        [] \<Rightarrow> None
      | kw # _ \<Rightarrow>
          let name = takeWhile is_word (drop (length kw + 1) line) in if name \<noteq> [] then Some (kw, name) else None)"

definition add_definition :: "string \<Rightarrow> string \<Rightarrow> thrift_helper \<Rightarrow> thrift_helper" where
  "add_definition kw name h =
     (if kw = ''const'' then h\<lparr>th_has_constants := True\<rparr>
      else if kw = ''struct'' then h\<lparr>th_structs := th_structs h @ [name]\<rparr>
      else if kw = ''service'' then h\<lparr>th_services := th_services h @ [name]\<rparr>
      else if kw = ''enum'' then h\<lparr>th_enums := th_enums h @ [name]\<rparr>
      else if kw = ''exception'' then h\<lparr>th_exceptions := th_exceptions h @ [name]\<rparr>
      else h)"

definition parse_line :: "string \<Rightarrow> thrift_helper \<Rightarrow> thrift_helper" where
  "parse_line line h =
     (let line = strip line
      in if startswith line ''//'' \<or> startswith line ''#'' then h
         else
           let line = cut_at ''#'' (cut_at ''//'' line)
           in case namespace_match line of
                Some (lang, package) \<Rightarrow> h\<lparr>th_package_name := dset lang package (th_package_name h)\<rparr>
              | None \<Rightarrow> (case definition_match line of None \<Rightarrow> h | Some (kw, name) \<Rightarrow> add_definition kw name h))"

definition has_definitions :: "thrift_helper \<Rightarrow> bool" where
  "has_definitions h \<longleftrightarrow>
     th_has_constants h \<or> th_structs h \<noteq> [] \<or> th_enums h \<noteq> [] \<or> th_exceptions h \<noteq> [] \<or> th_services h \<noteq> []"

definition parse_file :: "string \<Rightarrow> thrift_helper \<Rightarrow> thrift_helper result" where
  "parse_file content h =
     (let h = fold parse_line (split_on newline content) h
      in if has_definitions h then Inr h else Inl (SystemExit (th_path h @ '' is an empty thrift file.'')))"

definition thrift_helper_init :: "java_fs \<Rightarrow> string \<Rightarrow> string \<Rightarrow> thrift_helper result" where
  "thrift_helper_init fs dir src =
     (let path = path_join dir src
      in if \<not> jf_isfile fs path then Inl (SystemExit (path @ '' is not a valid file.''))
         else parse_file (jf_content fs path)
                \<lparr>th_path = path, th_src = src, th_package_name = [], th_has_constants = False, th_enums = [], th_structs = [],
                 th_exceptions = [], th_services = []\<rparr>)"

text \<open>\<open>path[:-7]\<close>, the path without the ending \<open>.thrift\<close>.\<close>

definition thrift_stem :: "string \<Rightarrow> string" where
  "thrift_stem path = take (length path - 7) path"

definition thrift_name :: "thrift_helper \<Rightarrow> string" where
  "thrift_name h = thrift_stem (basename (th_path h))"

definition get_generated_cpp_files :: "thrift_helper \<Rightarrow> string list" where
  "get_generated_cpp_files h =
     (let name = thrift_stem (th_src h); dir = dirname name
      in [name @ ''_constants.cpp'', name @ ''_constants.h'', name @ ''_types.cpp'', name @ ''_types.h''] @
         concat (map (\<lambda>service. [path_join dir (service @ ''.cpp''), path_join dir (service @ ''.h'')]) (th_services h)))"

text \<open>\<open>os.path.join(*package.split('.'))\<close>\<close>

definition package_path :: "string \<Rightarrow> string" where
  "package_path package =
     (case split_on (CHR ''.'') package of [] \<Rightarrow> [] | p # ps \<Rightarrow> foldl path_join p ps)"

definition get_generated_java_files :: "thrift_helper \<Rightarrow> string list" where
  "get_generated_java_files h =
     (let base_path = package_path (dgetd (th_package_name h) ''java'' [])
      in map (path_join base_path)
           ((if th_has_constants h then [''Constants.java''] else []) @
            map (\<lambda>name. name @ ''.java'') (th_enums h @ th_structs h @ th_exceptions h @ th_services h)))"

definition get_generated_py_files :: "thrift_helper \<Rightarrow> string list" where
  "get_generated_py_files h =
     (let base_path = package_path (dgetd (th_package_name h) ''py'' (thrift_name h))
      in map (path_join base_path) ([''constants.py'', ''ttypes.py''] @ map (\<lambda>service. service @ ''.py'') (th_services h)))"

section \<open>Targets\<close>

text \<open>
  The helpers of a target, by source. They are attributes of the target object, which the
  constructor returns beside it.
\<close>

type_synonym thrift_helpers = "(string, thrift_helper) dict"

record thrift_args =
  ta_name :: string
  ta_srcs :: pyval
  ta_deps :: pyval
  ta_optimize :: pyval
  ta_deprecated :: pyval
  ta_kwargs :: "(string, pyval) dict"

text \<open>The check comes before the object has its attribute \<open>fullname\<close>, which the message needs.\<close>

definition check_thrift_src :: "pyval \<Rightarrow> unit \<Rightarrow> unit result" where
  "check_thrift_src v _ =
     (case v of
        PyStr src \<Rightarrow> if \<not> endswith src ''.thrift'' then Inl (AttributeError ''fullname'') else Inr ()
      | _ \<Rightarrow> Inl (AttributeError ''endswith''))"

definition thrift_cc_args :: "'a thrift_args_scheme \<Rightarrow> cc_args" where
  "thrift_cc_args a =
     \<lparr>ca_name = ta_name a, ca_srcs = ta_srcs a, ca_deps = ta_deps a, ca_visibility = PyNone, ca_warning = pempty,
      ca_defs = pnil, ca_incs = pnil, ca_export_incs = pnil, ca_optimize = ta_optimize a, ca_extra_cppflags = pnil,
      ca_extra_linkflags = pnil, ca_kwargs = ta_kwargs a\<rparr>"

definition add_helper ::
  "(string \<Rightarrow> thrift_helper result) \<Rightarrow> string \<Rightarrow> thrift_helpers \<Rightarrow> thrift_helpers result" where
  "add_helper new src helpers = rbind (new src) (\<lambda>h. Inr (dset src h helpers))"

definition thrift_library_init :: "java_fs \<Rightarrow> thrift_args \<Rightarrow> blade \<Rightarrow> (thrift_helpers \<times> target \<times> blade) result" where
  "thrift_library_init fs a b =
     rbind (rfold check_thrift_src (var_to_list (ta_srcs a)) ()) (\<lambda>_.
     rbind (cc_target_init ThriftLibraryC ''thrift_library'' (thrift_cc_args a) b) (\<lambda>(t, b).
     rbind (add_config_library ''thrift_config'' ''thrift_libs''
              (set_data ''python_sources'' pnil (set_data ''python_vars'' pnil t), b)) (\<lambda>(t, b).
       let t = set_all [(''link_all_symbols'', PyBool True), (''deprecated'', ta_deprecated a),
                        (''java_sources_explict_dependency'', pnil)] t
       in rbind (as_strs (ta_srcs a)) (\<lambda>srcs.
          rbind (rfold (add_helper (thrift_helper_init fs (t_path t))) srcs []) (\<lambda>helpers. Inr (helpers, t, b))))))"

definition register_with_helpers ::
  "(thrift_helpers \<times> target \<times> blade) result \<Rightarrow> (thrift_helpers \<times> blade) result" where
  "register_with_helpers r =
     rbind r (\<lambda>(helpers, t, b). rbind (register_target t b) (\<lambda>b. Inr (helpers, b)))"

definition thrift_library :: "java_fs \<Rightarrow> thrift_args \<Rightarrow> blade \<Rightarrow> (thrift_helpers \<times> blade) result" where
  "thrift_library fs a b = register_with_helpers (thrift_library_init fs a b)"

definition thrift_gen_files ::
  "(thrift_helper \<Rightarrow> string list) \<Rightarrow> thrift_helpers \<Rightarrow> blade \<Rightarrow> target \<Rightarrow> string \<Rightarrow> string list result" where
  "thrift_gen_files get helpers b t src = rbind (dindex helpers src) (\<lambda>h. Inr (map (target_file_path b t) (get h)))"

definition thrift_gen_cpp_files :: "thrift_helpers \<Rightarrow> blade \<Rightarrow> target \<Rightarrow> string \<Rightarrow> string list result" where
  "thrift_gen_cpp_files = thrift_gen_files get_generated_cpp_files"

definition thrift_gen_py_files :: "thrift_helpers \<Rightarrow> blade \<Rightarrow> target \<Rightarrow> string \<Rightarrow> string list result" where
  "thrift_gen_py_files = thrift_gen_files get_generated_py_files"

definition thrift_gen_java_files :: "thrift_helpers \<Rightarrow> blade \<Rightarrow> target \<Rightarrow> string \<Rightarrow> string list result" where
  "thrift_gen_java_files = thrift_gen_files get_generated_java_files"

text \<open>\<open>self.data[name] += vs\<close>\<close>

definition extend_data :: "string \<Rightarrow> string list \<Rightarrow> target \<Rightarrow> target result" where
  "extend_data name vs t =
     rbind (dindex (t_data t) name) (\<lambda>old.
       case old of PyList us \<Rightarrow> Inr (set_data name (PyList (us @ map PyStr vs)) t) | _ \<Rightarrow> Inl TypeError)"

definition thrift_java_rule :: "thrift_helpers \<Rightarrow> blade \<Rightarrow> string \<Rightarrow> target \<Rightarrow> target result" where
  "thrift_java_rule helpers b src t =
     rbind (thrift_gen_java_files helpers b t src) (\<lambda>java_files.
       case java_files of
         [] \<Rightarrow> Inl IndexError
       | first # _ \<Rightarrow>
           extend_data ''java_sources_explict_dependency'' java_files
             (set_data ''java_sources''
                (PyTuple [PyStr (dirname first), PyStr (path_join (b_build_path b) (t_path t)), PyStr (t_name t)])
                (env_rule (\<lambda>e. e @ ''.ThriftJava('' @ repr_strs java_files @ '', '' @ quoted (path_join (t_path t) src) @ '')'') t)))"

definition thrift_java_rules :: "thrift_helpers \<Rightarrow> target \<Rightarrow> blade \<Rightarrow> target result" where
  "thrift_java_rules helpers t b = rfold (thrift_java_rule helpers b) (t_srcs t) t"

definition thrift_python_rule :: "thrift_helpers \<Rightarrow> blade \<Rightarrow> string \<Rightarrow> target \<Rightarrow> target result" where
  "thrift_python_rule helpers b src t =
     rbind (thrift_gen_py_files helpers b t src) (\<lambda>py_files.
       let var = var_name t ''python''
       in rbind (append_data ''python_vars'' (PyStr var)
                   (env_rule (\<lambda>e. var @ '' = '' @ e @ ''.ThriftPython('' @ repr_strs py_files @ '', '' @
                      quoted (path_join (t_path t) src) @ '')'') t)) (extend_data ''python_sources'' py_files))"

definition thrift_python_rules :: "thrift_helpers \<Rightarrow> target \<Rightarrow> blade \<Rightarrow> target result" where
  "thrift_python_rules helpers t b = rfold (thrift_python_rule helpers b) (t_srcs t) t"

section \<open>SCons\<close>

definition thrift_object :: "target \<Rightarrow> string \<Rightarrow> string" where
  "thrift_object t cpp = var_name_of t cpp [] @ ''_object''"

text \<open>One source: the statement with \<open>builder\<close> for the generated files, and an object for every C++ file.\<close>

definition thrift_source_rules ::
  "string \<Rightarrow> (string \<Rightarrow> string list result) \<Rightarrow> string \<Rightarrow> string list \<times> target \<Rightarrow> (string list \<times> target) result" where
  "thrift_source_rules builder gen src st =
     (case st of (sources, t) \<Rightarrow>
        rbind (gen src) (\<lambda>generated.
          let cpps = filter (\<lambda>f. endswith f ''.cpp'') generated
          in Inr (sources @ cpps,
                  env_rules (\<lambda>e. (e @ ''.'' @ builder @ ''('' @ repr_strs generated @ '', '' @ quoted (path_join (t_path t) src) @ '')'') #
                    map (\<lambda>cpp. thrift_object t cpp @ '' = '' @ e @ ''.SharedObject(target='' @ quoted cpp @ '' + top_env['' @
                      quoted ''OBJSUFFIX'' @ ''], source='' @ quoted cpp @ '')'') cpps) t)))"

definition thrift_cc_rules :: "string \<Rightarrow> (string \<Rightarrow> string list result) \<Rightarrow> target \<Rightarrow> blade \<Rightarrow> target result" where
  "thrift_cc_rules builder gen t b =
     rbind (setup_cc_flags t b) (\<lambda>t.
     rbind (rfold (thrift_source_rules builder gen) (t_srcs t) ([], t)) (\<lambda>(sources, t).
     rbind (objs_name t) (\<lambda>(objs, t).
       cc_library_rules
         (env_rules (\<lambda>e. [objs @ '' = ['' @ join_with '','' (map (thrift_object t) sources) @ '']'',
            e @ ''.Depends('' @ objs @ '', '' @ repr_strs sources @ '')'']) t) b)))"

definition thrift_scons_rules :: "thrift_helpers \<Rightarrow> target \<Rightarrow> blade \<Rightarrow> (target \<times> blade) result" where
  "thrift_scons_rules helpers t b =
     (case cc_prepare_to_generate_rule t b of (t, b) \<Rightarrow>
        let direct = t_key t \<in> set (b_direct_targets b)
        in rbind (when_ok (generates t b ''generate_java'' \<or> direct) (\<lambda>t. thrift_java_rules helpers t b) t) (\<lambda>t.
           rbind (when_ok (generates t b ''generate_python'' \<or> direct) (\<lambda>t. thrift_python_rules helpers t b) t) (\<lambda>t.
           rbind (thrift_cc_rules ''Thrift'' (thrift_gen_cpp_files helpers b t) t b) (\<lambda>t. Inr (t, b)))))"

section \<open>Ninja and Make\<close>

text \<open>One source; \<open>build\<close> writes the statement of the generated files.\<close>

definition thrift_source ::
  "(pyval \<Rightarrow> pyval \<Rightarrow> target \<Rightarrow> target result) \<Rightarrow> string \<Rightarrow> thrift_helpers \<Rightarrow> blade \<Rightarrow> string \<Rightarrow>
   string list \<times> string list \<times> target \<Rightarrow> (string list \<times> string list \<times> target) result" where
  "thrift_source build cwd helpers b src st =
     (case st of (sources, headers, t) \<Rightarrow>
        rbind (thrift_gen_cpp_files helpers b t src) (\<lambda>generated.
        rbind (build (pstrs generated) (PyStr (source_file_path t src)) t) (\<lambda>t.
        rbind (rmap (\<lambda>s. relpath cwd s (path_join (b_build_path b) (t_path t))) (filter (\<lambda>f. endswith f ''.cpp'') generated)) (\<lambda>cpps.
          Inr (sources @ cpps, headers @ filter (\<lambda>f. endswith f ''.h'') generated, t)))))"

definition thrift_ninja_rules ::
  "nat \<Rightarrow> set_order \<Rightarrow> string \<Rightarrow> thrift_helpers \<Rightarrow> target \<Rightarrow> cc_world \<Rightarrow> (target \<times> cc_world) result" where
  "thrift_ninja_rules depth so cwd helpers t w =
     (if t_srcs t = [] then Inr (t, w)
      else
        rbind (rfold (thrift_source (\<lambda>outs ins. ninja_build outs ''thrift'' ins [] [] [] []) cwd helpers (cw_blade w)) (t_srcs t)
                 ([], [], t)) (\<lambda>(sources, headers, t).
        rbind (cc_objects_ninja depth so sources True headers t w) (with_blade (cc_library_ninja so))))"

definition thrift_make_rules ::
  "nat \<Rightarrow> string \<Rightarrow> thrift_helpers \<Rightarrow> target \<Rightarrow> cc_world \<Rightarrow> (target \<times> cc_world) result" where
  "thrift_make_rules depth cwd helpers t w =
     (if t_srcs t = [] then Inr (t, w)
      else
        rbind (rfold (thrift_source (\<lambda>outs ins. make_build outs ''thrift'' ins [] [] []) cwd helpers (cw_blade w)) (t_srcs t)
                 ([], [], t)) (\<lambda>(sources, headers, t).
        rbind (cc_objects_make depth sources True headers t w) (with_blade cc_library_make)))"

section \<open>The compiler of Facebook\<close>

record fbthrift_args = thrift_args +
  fb_options :: pyval
  fb_include_prefix :: pyval

definition valid_fbthrift_src :: "string \<Rightarrow> bool" where
  "valid_fbthrift_src src =
     (case rsplit1 (CHR ''.'') (basename src) of None \<Rightarrow> False | Some (_, ending) \<Rightarrow> ending = ''thrift'')"

definition check_fbthrift_srcs_name :: "string list \<Rightarrow> unit result" where
  "check_fbthrift_srcs_name srcs =
     (if list_all valid_fbthrift_src srcs then Inr () else Inl (SystemExit ''invalid thrift file names found.''))"

definition fbthrift_options :: "pyval \<Rightarrow> pyval \<Rightarrow> string result" where
  "fbthrift_options options include_prefix =
     rbind (py_text options) (\<lambda>text.
     rbind (py_text include_prefix) (\<lambda>pfx.
       Inr (text @ (if options \<noteq> pempty then '','' else []) @ ''include_prefix='' @ pfx)))"

definition fbthrift_library_init :: "java_fs \<Rightarrow> fbthrift_args \<Rightarrow> blade \<Rightarrow> (thrift_helpers \<times> target \<times> blade) result" where
  "fbthrift_library_init fs a b =
     rbind (as_strs (ta_srcs a)) (\<lambda>srcs.
     rbind (check_fbthrift_srcs_name srcs) (\<lambda>_.
     rbind (cc_target_init FBThriftLibraryC ''fbthrift_library'' (thrift_cc_args a) b) (\<lambda>(t, b).
     rbind (config_value b ''fbthrift_config'' ''fbthrift'') (\<lambda>_.
     rbind (add_config_library ''fbthrift_config'' ''fbthrift_libs'' (t, b)) (\<lambda>(t, b).
     rbind (fbthrift_options (fb_options a) (fb_include_prefix a)) (\<lambda>options.
     rbind (rfold (add_helper (thrift_helper_init fs (t_path t))) srcs []) (\<lambda>helpers.
       Inr (helpers, set_data ''options'' (PyStr options) (set_data ''link_all_symbols'' (PyBool True) t), b))))))))"

definition fbthrift_library :: "java_fs \<Rightarrow> fbthrift_args \<Rightarrow> blade \<Rightarrow> (thrift_helpers \<times> blade) result" where
  "fbthrift_library fs a b = register_with_helpers (fbthrift_library_init fs a b)"

definition fb_generated_cpp_files :: "thrift_helper \<Rightarrow> string list" where
  "fb_generated_cpp_files h =
     map (\<lambda>ending. ''gen-cpp/'' @ thrift_name h @ ending)
       [''_constants.cpp'', ''_constants.h'', ''_reflection.cpp'', ''_reflection.h'', ''_types.cpp'', ''_types.h'', ''_types.tcc''] @
     concat (map (\<lambda>service. map (\<lambda>ending. ''gen-cpp/'' @ service @ ending) [''.cpp'', ''.h'', ''.tcc'']) (th_services h))"

definition fb_generated_cpp2_files :: "thrift_helper \<Rightarrow> string list" where
  "fb_generated_cpp2_files h =
     map (\<lambda>ending. ''gen-cpp2/'' @ thrift_name h @ ending)
       [''_constants.cpp'', ''_constants.h'', ''_types.cpp'', ''_types.h'', ''_data.cpp'', ''_data.h'', ''_types.tcc''] @
     concat (map (\<lambda>service. map (\<lambda>ending. ''gen-cpp2/'' @ service @ ending)
       [''.cpp'', ''.h'', ''_custom_protocol.h'', ''_client.cpp'', ''.tcc'']) (th_services h))"

definition fbthrift_gen_cpp_files :: "thrift_helpers \<Rightarrow> blade \<Rightarrow> target \<Rightarrow> string \<Rightarrow> string list result" where
  "fbthrift_gen_cpp_files = thrift_gen_files fb_generated_cpp_files"

definition fbthrift_gen_cpp2_files :: "thrift_helpers \<Rightarrow> blade \<Rightarrow> target \<Rightarrow> string \<Rightarrow> string list result" where
  "fbthrift_gen_cpp2_files = thrift_gen_files fb_generated_cpp2_files"

definition fbthrift_scons_rules :: "thrift_helpers \<Rightarrow> target \<Rightarrow> blade \<Rightarrow> (target \<times> blade) result" where
  "fbthrift_scons_rules helpers t b =
     (case cc_prepare_to_generate_rule t b of (t, b) \<Rightarrow>
        rbind (rbind (dindex (t_data t) ''options'') as_str) (\<lambda>options.
          let t = env_rule (\<lambda>e. e @ ''.Replace(FBOPTIONS='' @ repr_strs [options] @ '')'') t
          in rbind (thrift_cc_rules ''FBThrift2'' (fbthrift_gen_cpp2_files helpers b t) t b) (\<lambda>t. Inr (t, b))))"

end
