(* ===== verification/Make_Rules.thy ===== *)
theory Make_Rules
  imports Manager_Facts Cc_Link_Facts Cc_Generated Shell_Package Thrift_Library
begin

text \<open>
  The method \<open>make_rules\<close> of all classes, and the rule buffer of a build with Make (\<open>Blade.gen_targets_rules\<close>). Every method
  keeps the contract \<open>rule_writer\<close>: it writes into the buffer of its own target only.
\<close>

section \<open>The method \<open>make_rules\<close>\<close>

text \<open>
  The classes with a method of their own; the others inherit the one of \<open>Target\<close>, which raises. The helper
  objects of a Thrift target, which its constructor makes, are given by its key, \<open>depth\<close> is the stack that is left
  and \<open>cwd\<close> the working directory.
\<close>

definition target_make_rules ::
  "nat \<Rightarrow> string \<Rightarrow> (key \<Rightarrow> thrift_helpers) \<Rightarrow> target \<Rightarrow> cc_world \<Rightarrow> (target \<times> cc_world) result" where
  "target_make_rules depth cwd helpers t w =
     (case t_class t of
        CcLibraryC \<Rightarrow> cc_library_make_rules depth t w
      | CcBinaryC \<Rightarrow> cc_binary_make_rules depth t w
      | CcTestC \<Rightarrow> cc_binary_make_rules depth t w
      | CcPluginC \<Rightarrow> cc_plugin_make_rules depth t w
      | GenRuleC \<Rightarrow> with_blade gen_rule_make_rules (t, w)
      | LexYaccLibraryC \<Rightarrow> lex_yacc_make_rules t w
      | ShellTestC \<Rightarrow> rbind (shell_test_make_rules t (cw_blade w)) (\<lambda>(t, b). Inr (t, w\<lparr>cw_blade := b\<rparr>))
      | ThriftLibraryC \<Rightarrow> thrift_make_rules depth cwd (helpers (t_key t)) t w
      | _ \<Rightarrow> Inl (NotImplementedError (t_fullname t)))"

text \<open>The call on the object under a key: the object of the database is the one the method changes.\<close>

definition make_rules :: "nat \<Rightarrow> string \<Rightarrow> (key \<Rightarrow> thrift_helpers) \<Rightarrow> key \<Rightarrow> cc_world \<Rightarrow> cc_world result" where
  "make_rules depth cwd helpers k w =
     rbind (dindex (b_target_database (cw_blade w)) k) (\<lambda>t.
     rbind (target_make_rules depth cwd helpers t w) (\<lambda>(t, w).
       Inr (w\<lparr>cw_blade := (cw_blade w)\<lparr>b_target_database :=
         modify_target k (\<lambda>u. t\<lparr>t_gen_headers := t_gen_headers u\<rparr>) (b_target_database (cw_blade w))\<rparr>\<rparr>)))"

text \<open>The choice of \<open>gen_targets_rules\<close>; the methods of the other builders are arguments.\<close>

definition builder_rules ::
  "(key \<Rightarrow> cc_world \<Rightarrow> cc_world result) \<Rightarrow> (key \<Rightarrow> cc_world \<Rightarrow> cc_world result) \<Rightarrow> (key \<Rightarrow> cc_world \<Rightarrow> cc_world result) \<Rightarrow>
   pyval \<Rightarrow> key \<Rightarrow> cc_world \<Rightarrow> cc_world result" where
  "builder_rules ninja_of make_of scons_of builder =
     (if builder = PyStr ''ninja'' then ninja_of else if builder = PyStr ''make'' then make_of else scons_of)"

section \<open>What the methods leave alone\<close>

definition kept :: "blade \<Rightarrow> blade \<Rightarrow> bool" where
  "kept b b' \<longleftrightarrow> rule_view b' = rule_view b \<and> same_skips b b'"

lemma kept_refl [simp]: "kept b b"
  by (simp add: kept_def same_skips_def)

lemma kept_trans: "kept a b \<Longrightarrow> kept b c \<Longrightarrow> kept a c"
  by (simp add: kept_def same_skips_def)

lemma kept_say [simp]: "kept b (say m b)"
  by (simp add: kept_def same_skips_def rule_view_def fun_eq_iff) (simp add: say_def)

named_theorems same_type

lemma write_type [simp]: "t_type (write_rule r t) = t_type t" "t_type (set_data n v t) = t_type t"
  "t_type (snd (env_name t)) = t_type t" "t_type (env_rule f t) = t_type t"
  by (auto simp: write_rule_def set_data_def env_name_def env_rule_def Let_def split: option.splits prod.splits)

lemma write_rules_type [simp]: "t_type (write_rules ls t) = t_type t"
  by (induction ls arbitrary: t) (simp_all add: write_rules_def write_rule_def)

lemma make_build_type [same_type]: "make_build outs r ins d oo v t = Inr u \<Longrightarrow> t_type u = t_type t"
  by (auto simp: make_build_def rbind_eq_Inr Let_def)

lemma ninja_build_type [same_type]: "ninja_build outs r ins d oo v io t = Inr u \<Longrightarrow> t_type u = t_type t"
  by (auto simp: ninja_build_def rbind_eq_Inr Let_def)

lemma add_file_type [same_type]:
  "add_target_file l p t = Inr u \<Longrightarrow> t_type u = t_type t"
  "add_default_target_file l p t = Inr u \<Longrightarrow> t_type u = t_type t"
proof -
  show *: "add_target_file l p t = Inr u \<Longrightarrow> t_type u = t_type t" for t u
    by (auto simp: add_target_file_def rbind_eq_Inr Let_def)
  show "add_default_target_file l p t = Inr u \<Longrightarrow> t_type u = t_type t"
    by (auto simp: add_default_target_file_def rbind_eq_Inr Let_def dest: *)
qed

lemma setup_flags_type [same_type]: "setup_make_cc_flags t b = Inr u \<Longrightarrow> t_type u = t_type t"
  by (auto simp: setup_make_cc_flags_def rbind_eq_Inr Let_def)

lemma link_flags_type [same_type]: "generate_ninja_link_flags t = Inr (fl, u) \<Longrightarrow> t_type u = t_type t"
  "generate_make_link_flags t = Inr (fl, u) \<Longrightarrow> t_type u = t_type t"
  "extend_link_flags fs new t = Inr (fl, u) \<Longrightarrow> t_type u = t_type t"
  by (auto simp: generate_ninja_link_flags_def generate_make_link_flags_def extend_link_flags_def rbind_eq_Inr Let_def split: if_splits)

lemma add_numbered_type [same_type]: "add_numbered add_target_file outs t = Inr u \<Longrightarrow> t_type u = t_type t"
  unfolding add_numbered_def by (erule rfold_invariant) (auto dest: same_type)

lemma cc_link_type [same_type]: "cc_link_make out r d l e i oo t = Inr u \<Longrightarrow> t_type u = t_type t"
  by (auto simp: cc_link_make_def rbind_eq_Inr Let_def dest: same_type)

lemma cc_library_make_type [same_type]:
  "static_cc_library_make t b = Inr u \<Longrightarrow> t_type u = t_type t"
  "dynamic_cc_library_make t b = Inr u \<Longrightarrow> t_type u = t_type t"
  "cc_library_make t b = Inr u \<Longrightarrow> t_type u = t_type t"
proof -
  show s: "static_cc_library_make t b = Inr u \<Longrightarrow> t_type u = t_type t" for t u
    by (auto simp: static_cc_library_make_def rbind_eq_Inr Let_def dest!: same_type)
  show d: "dynamic_cc_library_make t b = Inr u \<Longrightarrow> t_type u = t_type t" for t u
    by (auto simp: dynamic_cc_library_make_def rbind_eq_Inr Let_def dest!: same_type)
  show "cc_library_make t b = Inr u \<Longrightarrow> t_type u = t_type t"
    by (auto simp: cc_library_make_def rbind_eq_Inr split: if_splits dest!: s d)
qed

section \<open>The state of the manager\<close>

lemma rule_view_cache: "without_cache (b_target_database b') = without_cache (b_target_database b) \<Longrightarrow> rule_view b' = rule_view b"
proof
  fix k
  assume "without_cache (b_target_database b') = without_cache (b_target_database b)"
  then have "map_option (\<lambda>t. (t_type t, t_rules t)) (without_cache (b_target_database b') k) =
      map_option (\<lambda>t. (t_type t, t_rules t)) (without_cache (b_target_database b) k)" by simp
  then show "rule_view b' k = rule_view b k" by (simp add: rule_view_def without_cache_def option.map_comp comp_def)
qed

lemma header_loop_cache:
  "header_deps_loop depth q keys deps db = Inr (deps', db') \<Longrightarrow> without_cache db' = without_cache db"
proof (induction depth q keys deps db rule: header_deps_loop.induct)
  case (2 depth k q keys deps db)
  then show ?case
    by (auto split: if_splits option.splits sum.splits dest!: generate_header_without_cache(1))
qed simp

lemma headers_kept: "generated_header_files_dependencies depth t b = Inr (hdrs, b') \<Longrightarrow> kept b b'"
  by (auto simp: generated_header_files_dependencies_def rbind_eq_Inr kept_def same_skips_def
      intro!: rule_view_cache dest!: header_loop_cache)

lemma deprecated_kept: "kept b (check_deprecated_deps t b)"
proof -
  have step: "kept c (check_deprecated_dep t k c)" for k c
    by (simp add: check_deprecated_dep_def split: option.splits list.splits)
  have "kept c (fold (check_deprecated_dep t) ks c)" for ks c
    by (induction ks arbitrary: c) (auto intro: kept_trans [OF step])
  then show ?thesis by (simp add: check_deprecated_deps_def)
qed

lemma pathname_blade: "prebuilt_cc_library_pathname t w = Inr (p, w') \<Longrightarrow> cw_blade w' = cw_blade w"
  by (auto simp: prebuilt_cc_library_pathname_def default_libpath_def rbind_eq_Inr Let_def split: option.splits)

lemma path_blade: "prebuilt_cc_library_path d t w = Inr (p, w') \<Longrightarrow> cw_blade w' = cw_blade w"
  by (auto simp: prebuilt_cc_library_path_def rbind_eq_Inr Let_def split: list.splits dest: pathname_blade)

lemma rpath_blade: "rpath_link d t w = Inr (p, w') \<Longrightarrow> cw_blade w' = cw_blade w"
  by (auto simp: rpath_link_def rbind_eq_Inr dest: path_blade)

lemma rpath_links_blade: "get_rpath_links t w = Inr (links, w') \<Longrightarrow> cw_blade w' = cw_blade w"
proof -
  assume "get_rpath_links t w = Inr (links, w')"
  then obtain d where "rfold (rpath_link_step d) (t_expanded_deps t) ([], w) = Inr (links, w')"
    by (auto simp: get_rpath_links_def rbind_eq_Inr)
  then have "cw_blade (snd (links, w')) = cw_blade w"
    by (rule rfold_invariant [where P = "\<lambda>s. cw_blade (snd s) = cw_blade w"])
       (auto simp: rpath_link_step_def rbind_eq_Inr split: if_splits dest!: rpath_blade)
  then show ?thesis by simp
qed

text \<open>A method that only changes its own object.\<close>

definition writes_own :: "target \<Rightarrow> cc_world \<Rightarrow> (target \<times> cc_world) result \<Rightarrow> bool" where
  "writes_own t w r \<longleftrightarrow> (\<forall>t' w'. r = Inr (t', w') \<longrightarrow> t_type t' = t_type t \<and> kept (cw_blade w) (cw_blade w'))"

lemma writes_own_bind:
  assumes "writes_own t w m" and "\<And>u v. m = Inr (u, v) \<Longrightarrow> writes_own u v (f (u, v))"
  shows "writes_own t w (rbind m f)"
  unfolding writes_own_def
proof (intro allI impI)
  fix t' w'
  assume "rbind m f = Inr (t', w')"
  then obtain u v where m: "m = Inr (u, v)" and f: "f (u, v) = Inr (t', w')" by (auto simp: rbind_eq_Inr)
  have "t_type u = t_type t" "kept (cw_blade w) (cw_blade v)" using assms(1) m by (auto simp: writes_own_def)
  moreover have "t_type t' = t_type u" "kept (cw_blade v) (cw_blade w')" using assms(2) [OF m] f by (auto simp: writes_own_def)
  ultimately show "t_type t' = t_type t \<and> kept (cw_blade w) (cw_blade w')" using kept_trans by auto
qed

lemma writes_own_with_blade:
  "(\<And>u. f t (cw_blade w) = Inr u \<Longrightarrow> t_type u = t_type t) \<Longrightarrow> writes_own t w (with_blade f (t, w))"
  by (auto simp: writes_own_def with_blade_def rbind_eq_Inr)

lemma writes_own_start: "kept (cw_blade w) (cw_blade v) \<Longrightarrow> t_type u = t_type t \<Longrightarrow> writes_own u v r \<Longrightarrow> writes_own t w r"
  unfolding writes_own_def by (metis kept_trans)

section \<open>The methods\<close>

lemma make_stamp_own:
  assumes "cc_objects_generated_make_header_files_dependency depth t b = Inr (s, u, b')"
  shows "t_type u = t_type t" and "kept b b'"
proof -
  obtain deps where deps: "generated_header_files_dependencies depth t b = Inr (deps, b')"
    using assms by (auto simp: cc_objects_generated_make_header_files_dependency_def rbind_eq_Inr Let_def split: if_splits)
  then show "kept b b'" by (rule headers_kept)
  show "t_type u = t_type t"
    using assms by (auto simp: cc_objects_generated_make_header_files_dependency_def rbind_eq_Inr Let_def split: if_splits dest: same_type)
qed

lemma securecc_own:
  assumes "securecc_object_make obj src d vars t w = Inr (u, v)"
  shows "t_type u = t_type t" and "cw_blade v = cw_blade w"
proof -
  obtain path t0 w0 where s: "secure_source src t w = (path, t0, w0)" by (cases "secure_source src t w")
  then have "t0 = t" "cw_blade w0 = cw_blade w"
    by (auto simp: secure_source_def securecc_object_rules_def Let_def split: if_splits)
  then show "t_type u = t_type t" and "cw_blade v = cw_blade w"
    using assms s by (auto simp: securecc_object_make_def rbind_eq_Inr Let_def dest!: same_type)
qed

lemma cc_object_own:
  assumes "cc_object_make vars g hs src (d, objs, t, w) = Inr (d', objs', u, v)"
  shows "t_type u = t_type t \<and> cw_blade v = cw_blade w"
proof (cases "is_secure t")
  case True
  then show ?thesis using assms by (auto simp: cc_object_make_def Let_def rbind_eq_Inr dest: securecc_own)
next
  case False
  then show ?thesis using assms by (auto simp: cc_object_make_def Let_def rbind_eq_Inr dest!: make_build_type split: if_splits)
qed

lemma cc_object_loop_own:
  assumes "rfold (cc_object_make vars g hs) srcs (d, objs, t, w) = Inr (d', objs', u, v)"
  shows "t_type u = t_type t \<and> cw_blade v = cw_blade w"
proof -
  have "t_type (fst (snd (snd (d', objs', u, v)))) = t_type t \<and> cw_blade (snd (snd (snd (d', objs', u, v)))) = cw_blade w"
    using assms
    by (rule rfold_invariant [where P = "\<lambda>s. t_type (fst (snd (snd s))) = t_type t \<and> cw_blade (snd (snd (snd s))) = cw_blade w"])
       (auto dest!: cc_object_own)
  then show ?thesis by simp
qed

lemma cc_objects_own: "writes_own t w (cc_objects_make depth srcs g hs t w)"
  unfolding writes_own_def
proof (intro allI impI)
  fix t' w'
  assume "cc_objects_make depth srcs g hs t w = Inr (t', w')"
  then obtain s t1 b1 t2 vars d objs t3 where st: "cc_objects_generated_make_header_files_dependency depth t (cw_blade w) = Inr (s, t1, b1)"
    and fl: "setup_make_cc_flags t1 b1 = Inr t2"
    and loop: "rfold (cc_object_make vars g hs) (if srcs \<noteq> [] then srcs else t_srcs t2)
      ((case s of None \<Rightarrow> [] | Some s \<Rightarrow> [s]) @ (if is_secure t1 then [''.phony''] else []), [], t2, w\<lparr>cw_blade := b1\<rparr>) = Inr (d, objs, t3, w')"
    and t': "t' = set_data ''objs'' (pstrs objs) t3"
    by (auto simp: cc_objects_make_def rbind_eq_Inr Let_def)
  show "t_type t' = t_type t \<and> kept (cw_blade w) (cw_blade w')"
    using make_stamp_own [OF st] setup_flags_type [OF fl] cc_object_loop_own [OF loop] t' by simp
qed

lemma prebuilt_copy_own:
  assumes copy: "\<And>a b t u. copy a b t = Inr u \<Longrightarrow> t_type u = t_type t"
    and "prebuilt_copy_rules copy t w = Inr (paths, u, v)"
  shows "t_type u = t_type t" and "cw_blade v = cw_blade w"
proof -
  note r = assms(2) [unfolded prebuilt_copy_rules_def]
  show "t_type u = t_type t"
    using r by (auto simp: rbind_eq_Inr Let_def split: if_splits dest!: same_type copy)
  show "cw_blade v = cw_blade w"
    using r by (auto simp: rbind_eq_Inr Let_def split: if_splits dest!: path_blade)
qed

lemma prebuilt_scons_own:
  assumes "prebuilt_cc_library_scons_rules t w = Inr (paths, u, v)"
  shows "t_type u = t_type t" and "cw_blade v = cw_blade w"
proof -
  have rules: "t_type (prebuilt_cc_library_rules a b c t) = t_type t" for a b c t
    by (simp add: prebuilt_cc_library_rules_def)
  show "t_type u = t_type t"
    using assms by (auto simp: prebuilt_cc_library_scons_rules_def rbind_eq_Inr Let_def rules split: if_splits)
  show "cw_blade v = cw_blade w"
    using assms by (auto simp: prebuilt_cc_library_scons_rules_def rbind_eq_Inr Let_def split: if_splits dest!: path_blade)
qed

lemma symbolic_link_blade [simp]: "cw_blade (prebuilt_cc_library_symbolic_link paths t w) = cw_blade w"
  by (simp add: prebuilt_cc_library_symbolic_link_def Let_def split: prod.splits)

lemma prebuilt_variants_own:
  assumes "r \<in> {prebuilt_cc_library_ninja_rules, prebuilt_cc_library_make_rules, prebuilt_cc_library_scons_rules}"
    and "r t w = Inr (paths, u, v)"
  shows "t_type u = t_type t" and "cw_blade v = cw_blade w"
proof -
  have n: "ninja_copy a b t = Inr u \<Longrightarrow> t_type u = t_type t" and m: "make_copy a b t = Inr u \<Longrightarrow> t_type u = t_type t" for a b t u
    by (auto simp: ninja_copy_def make_copy_def dest: same_type)
  consider "prebuilt_copy_rules ninja_copy t w = Inr (paths, u, v)" | "prebuilt_copy_rules make_copy t w = Inr (paths, u, v)"
    | "prebuilt_cc_library_scons_rules t w = Inr (paths, u, v)"
    using assms by (auto simp: prebuilt_cc_library_ninja_rules_def prebuilt_cc_library_make_rules_def)
  note cases = this
  show "t_type u = t_type t"
    by (rule cases) (erule prebuilt_copy_own(1) [rotated], rule n, assumption, erule prebuilt_copy_own(1) [rotated], rule m, assumption,
      erule prebuilt_scons_own(1))
  show "cw_blade v = cw_blade w"
    by (rule cases) (erule prebuilt_copy_own(2) [rotated], rule n, assumption, erule prebuilt_copy_own(2) [rotated], rule m, assumption,
      erule prebuilt_scons_own(2))
qed

lemma prebuilt_own: "writes_own t w (prebuilt_cc_library t w)"
  unfolding writes_own_def
proof (intro allI impI)
  fix t' w'
  assume "prebuilt_cc_library t w = Inr (t', w')"
  then obtain depended where d: "(if \<not> depended then Inr (t, w)
       else rbind (config_value (cw_blade w) ''global_config'' ''native_builder'') (\<lambda>builder.
         rbind ((if builder = PyStr ''ninja'' then prebuilt_cc_library_ninja_rules
                 else if builder = PyStr ''make'' then prebuilt_cc_library_make_rules
                 else prebuilt_cc_library_scons_rules) t w) (\<lambda>(paths, t, w).
           Inr (t, prebuilt_cc_library_symbolic_link paths t w)))) = Inr (t', w')"
    unfolding prebuilt_cc_library_def by (auto simp: rbind_eq_Inr [of "prebuilt_cc_library_is_depended (cw_blade w) t"])
  show "t_type t' = t_type t \<and> kept (cw_blade w) (cw_blade w')"
  proof (cases depended)
    case True
    define rules where "rules builder = (if builder = PyStr ''ninja'' then prebuilt_cc_library_ninja_rules
        else if builder = PyStr ''make'' then prebuilt_cc_library_make_rules else prebuilt_cc_library_scons_rules)" for builder
    obtain builder paths v where r: "rules builder t w = Inr (paths, t', v)" and w': "w' = prebuilt_cc_library_symbolic_link paths t' v"
      using d True unfolding rules_def [symmetric] by (auto simp: rbind_eq_Inr)
    have "rules builder \<in> {prebuilt_cc_library_ninja_rules, prebuilt_cc_library_make_rules, prebuilt_cc_library_scons_rules}"
      by (simp add: rules_def)
    from prebuilt_variants_own [OF this r] show ?thesis using w' by simp
  qed (use d in simp)
qed

lemma deprecated_own: "writes_own t (note_deprecated t w) r \<Longrightarrow> writes_own t w r"
  by (rule writes_own_start [of _ "note_deprecated t w" t]) (simp_all add: note_deprecated_def deprecated_kept)

lemma cc_library_own: "writes_own t w (cc_library_make_rules depth t w)"
proof -
  have "writes_own t v (rbind (cc_objects_make depth [] False [] t v) (with_blade cc_library_make))" for v
    by (intro writes_own_bind cc_objects_own writes_own_with_blade) (rule same_type)
  moreover have "writes_own t v (Inr (t, v))" for v by (simp add: writes_own_def)
  ultimately have "writes_own t (note_deprecated t w) (cc_library_make_rules depth t w)"
    using prebuilt_own by (simp add: cc_library_make_rules_def Let_def)
  then show ?thesis by (rule deprecated_own)
qed

lemma cc_binary_link_own: "writes_own t w (cc_binary_make dynamic t w)"
  unfolding writes_own_def
proof (intro allI impI)
  fix t' w'
  assume "cc_binary_make dynamic t w = Inr (t', w')"
  then obtain flags t1 sys usr all u where fl: "generate_cc_binary_link_flags dynamic t w = Inr (flags, t1, w')"
    and link: "cc_link_make (target_file_path (cw_blade w') t1 []) ''link'' usr
      (flags @ generate_link_all_symbols_link_flags all) (map ((@) ''-l'') sys) all [] t1 = Inr u"
    and add: "add_default_target_file ''bin'' (PyStr (target_file_path (cw_blade w') t1 [])) u = Inr t'"
    by (auto simp: cc_binary_make_def rbind_eq_Inr Let_def)
  have "t_type t1 = t_type t" "cw_blade w' = cw_blade w"
    using fl by (auto simp: generate_cc_binary_link_flags_def rbind_eq_Inr dest!: link_flags_type rpath_links_blade)
  then show "t_type t' = t_type t \<and> kept (cw_blade w) (cw_blade w')"
    using cc_link_type [OF link] add_file_type(2) [OF add] by simp
qed

lemma cc_binary_own: "writes_own t w (cc_binary_make_rules depth t w)"
proof (cases "cc_clean_make t")
  case (Inl e)
  then show ?thesis by (simp add: cc_binary_make_rules_def writes_own_def)
next
  case (Inr u)
  have "t_type u = t_type t" using Inr by (auto simp: cc_clean_make_def dest: same_type)
  moreover have "writes_own v x (rbind (dynamic_link_of v) (\<lambda>dynamic. cc_binary_make dynamic v x))" for v x
    using cc_binary_link_own by (cases "dynamic_link_of v") (simp_all add: writes_own_def)
  then have "writes_own u v (rbind (cc_objects_make depth [] False [] u v) (\<lambda>(t, w). rbind (dynamic_link_of t) (\<lambda>dynamic. cc_binary_make dynamic t w)))" for v
    by (intro writes_own_bind cc_objects_own) simp
  then have "writes_own u (note_deprecated u w) (cc_binary_make_rules depth t w)"
    using Inr by (simp add: cc_binary_make_rules_def)
  moreover have "kept (cw_blade w) (cw_blade (note_deprecated u w))" by (simp add: note_deprecated_def deprecated_kept)
  ultimately show ?thesis by (intro writes_own_start [of w "note_deprecated u w" u])
qed

lemma cc_plugin_link_own: "writes_own t w (cc_plugin_link cc_link_make t w)"
  unfolding writes_own_def cc_plugin_link_def
  by (auto simp: rbind_eq_Inr Let_def split: if_splits dest!: same_type)

lemma cc_plugin_own: "writes_own t w (cc_plugin_make_rules depth t w)"
proof (rule deprecated_own)
  show "writes_own t (note_deprecated t w) (cc_plugin_make_rules depth t w)"
    unfolding cc_plugin_make_rules_def by (intro writes_own_bind cc_objects_own) (simp add: cc_plugin_link_own)
qed

lemma gen_rule_own: "writes_own t w (with_blade gen_rule_make_rules (t, w))"
  by (rule writes_own_with_blade) (auto simp: gen_rule_make_rules_def rbind_eq_Inr Let_def dest!: same_type)

lemma shell_test_own:
  assumes "shell_test_make_rules t b = Inr (u, b')"
  shows "t_type u = t_type t" and "kept b b'"
proof -
  have loop: "kept b b'" if "rfold (location_entry u) ls ([], b) = Inr (es, b')" for u ls es b'
  proof -
    have "kept b (snd (es, b'))"
      using that by (rule rfold_invariant [where P = "\<lambda>s. kept b (snd s)"])
        (auto simp: location_entry_def rbind_eq_Inr split: if_splits intro: kept_trans [OF _ kept_say])
    then show ?thesis by simp
  qed
  show "t_type u = t_type t" and "kept b b'"
    using assms by (auto simp: shell_test_make_rules_def shell_test_rules_def make_rule_def rbind_eq_Inr split: if_splits
      dest!: make_build_type loop)
qed

lemma thrift_own: "writes_own t w (thrift_make_rules depth cwd helpers t w)"
proof (cases "t_srcs t = []")
  case True
  then show ?thesis by (simp add: thrift_make_rules_def writes_own_def)
next
  case False
  let ?loop = "rfold (thrift_source (\<lambda>outs ins. make_build outs ''thrift'' ins [] [] []) cwd helpers (cw_blade w)) (t_srcs t) ([], [], t)"
  show ?thesis
  proof (cases ?loop)
    case (Inl e)
    then show ?thesis using False by (simp add: thrift_make_rules_def writes_own_def)
  next
    case (Inr st)
    obtain ss hs u where st: "st = (ss, hs, u)" by (cases st)
    have "t_type (snd (snd st)) = t_type t"
      using Inr by (rule rfold_invariant [where P = "\<lambda>s. t_type (snd (snd s)) = t_type t"])
        (auto simp: thrift_source_def rbind_eq_Inr dest!: make_build_type)
    moreover have "writes_own u w (rbind (cc_objects_make depth ss True hs u w) (with_blade cc_library_make))"
      by (intro writes_own_bind cc_objects_own writes_own_with_blade) (rule same_type)
    ultimately show ?thesis
      using Inr st False writes_own_start [of w w u t] by (simp add: thrift_make_rules_def)
  qed
qed

lemma target_make_rules_own: "writes_own t w (target_make_rules depth cwd helpers t w)"
proof -
  have "writes_own t w (rbind (shell_test_make_rules t (cw_blade w)) (\<lambda>(t, b). Inr (t, w\<lparr>cw_blade := b\<rparr>)))"
    using shell_test_own [of t "cw_blade w"] by (auto simp: writes_own_def rbind_eq_Inr)
  moreover have "writes_own t w (Inl e)" for e by (simp add: writes_own_def)
  moreover have "writes_own t w (lex_yacc_make_rules t w)" by (simp add: writes_own_def lex_yacc_make_rules_def)
  ultimately show ?thesis
    using cc_library_own cc_binary_own cc_plugin_own gen_rule_own thrift_own
    by (simp add: target_make_rules_def split: tclass.split)
qed

lemma make_rules_own:
  assumes "make_rules depth cwd helpers k w = Inr w'"
  shows "j \<noteq> k \<Longrightarrow> rule_view (cw_blade w') j = rule_view (cw_blade w) j"
    and "map_option fst (rule_view (cw_blade w') k) = map_option fst (rule_view (cw_blade w) k)"
    and "same_skips (cw_blade w) (cw_blade w')"
proof -
  obtain t u v where t: "dget (b_target_database (cw_blade w)) k = Some t"
    and r: "target_make_rules depth cwd helpers t w = Inr (u, v)"
    and w': "w' = v\<lparr>cw_blade := (cw_blade v)\<lparr>b_target_database :=
      modify_target k (\<lambda>x. u\<lparr>t_gen_headers := t_gen_headers x\<rparr>) (b_target_database (cw_blade v))\<rparr>\<rparr>"
    using assms by (auto simp: make_rules_def rbind_eq_Inr)
  have own: "t_type u = t_type t" "rule_view (cw_blade v) = rule_view (cw_blade w)" "same_skips (cw_blade w) (cw_blade v)"
    using target_make_rules_own [of t w depth cwd helpers] r by (auto simp: writes_own_def kept_def)
  have new: "rule_view (cw_blade w') j = (if j = k then map_option (\<lambda>_. (t_type t, t_rules u)) (rule_view (cw_blade v) k) else rule_view (cw_blade v) j)" for j
    using own(1) by (simp add: w' rule_view_def dget_modify_target option.map_comp comp_def)
  show "j \<noteq> k \<Longrightarrow> rule_view (cw_blade w') j = rule_view (cw_blade w) j" using new own(2) by simp
  show "map_option fst (rule_view (cw_blade w') k) = map_option fst (rule_view (cw_blade w) k)"
    using new t own(2) by (simp add: rule_view_def)
  show "same_skips (cw_blade w) (cw_blade w')" using own(3) by (simp add: w' same_skips_def)
qed

interpretation make_writer: rule_writer cw_blade "make_rules depth cwd helpers" for depth cwd helpers
  by unfold_locales (rule make_rules_own; assumption)+

section \<open>The rule buffer\<close>

text \<open>
  C12. With the builder \<open>make\<close>, the rule buffer is the reversal of the blocks of the targets, in the order of the sorted
  keys. A target that is not built by rules, a test or a package that is not asked for adds nothing. The block of every
  other target is an empty line and the lines its own method \<open>make_rules\<close> has written, run in the state that the methods
  of the targets before it have left: no method changes the rules or the type of another target, so no lines are lost,
  repeated or mixed.
\<close>

theorem gen_targets_rules_content:
  assumes "config_value (cw_blade w) ''global_config'' ''native_builder'' = Inr (PyStr ''make'')"
    and "gen_targets_rules cw_blade (builder_rules ninja_of (make_rules depth cwd helpers) scons_of) w = Inr (buf, w')"
    and "distinct (b_sorted_targets_keys (cw_blade w))"
  shows "buf = rev (concat (map (block (cw_blade w) (cw_blade w')) (b_sorted_targets_keys (cw_blade w)))) \<and>
    (\<forall>xs k ys ty ls.
       b_sorted_targets_keys (cw_blade w) = xs @ k # ys \<and> rule_view (cw_blade w) k = Some (ty, ls) \<and>
       \<not> skips (cw_blade w) k ty \<longrightarrow>
       (\<exists>buf1 w1 w2.
          rfold (gen_target_rules cw_blade (make_rules depth cwd helpers)) xs ([], w) = Inr (buf1, w1) \<and>
          rule_view (cw_blade w1) k = Some (ty, ls) \<and>
          make_rules depth cwd helpers k w1 = Inr w2 \<and> rule_view (cw_blade w') k = rule_view (cw_blade w2) k))"
proof -
  let ?keys = "b_sorted_targets_keys (cw_blade w)" and ?b = "cw_blade w"
  have emit: "builder_rules ninja_of (make_rules depth cwd helpers) scons_of (PyStr ''make'') = make_rules depth cwd helpers"
    by (simp add: builder_rules_def)
  obtain buf' where run: "rfold (gen_target_rules cw_blade (make_rules depth cwd helpers)) ?keys ([], w) = Inr (buf', w')"
    and buf: "buf = rev buf'"
    using assms(1,2) by (auto simp: gen_targets_rules_def emit rbind_eq_Inr)
  have skip: "same_skips ?b ?b" by (simp add: same_skips_def)
  have "buf = rev (concat (map (block ?b (cw_blade w')) ?keys))"
    using make_writer.gen_loop [OF run skip assms(3)] buf by simp
  moreover have "\<exists>buf1 w1 w2. rfold (gen_target_rules cw_blade (make_rules depth cwd helpers)) xs ([], w) = Inr (buf1, w1) \<and>
      rule_view (cw_blade w1) k = Some (ty, ls) \<and> make_rules depth cwd helpers k w1 = Inr w2 \<and> rule_view (cw_blade w') k = rule_view (cw_blade w2) k"
    if "?keys = xs @ k # ys" and "rule_view ?b k = Some (ty, ls)" and "\<not> skips ?b k ty" for xs k ys ty ls
  proof -
    have "rfold (gen_target_rules cw_blade (make_rules depth cwd helpers)) (xs @ k # ys) ([], w) = Inr (buf', w')"
      using run that(1) by simp
    then show ?thesis by (rule make_writer.gen_own [OF _ skip _ that(2,3)]) (use assms(3) that(1) in simp)
  qed
  ultimately show ?thesis by blast
qed

text \<open>Two libraries, one of them with a dependency on the other.\<close>

definition sample_make_libs :: "target list" where
  "sample_make_libs =
     map (set_data ''warning'' (PyStr ''yes''))
       [sample_cc CcLibraryC ''cc_library'' ''e'' [''e.cc''] [], sample_cc CcLibraryC ''cc_library'' ''m'' [''m.cc''] [''e'']]"

definition sample_make_world :: cc_world where
  "sample_make_world =
     (sample_world ''9.4'')\<lparr>cw_blade := sample_cc_blade
        \<lparr>b_config := \<lparr>c_file = [], c_configs = [(''global_config'', [(''native_builder'', PyStr ''make'')]), (''cc_library_config'', [])], c_log = []\<rparr>,
         b_target_database := map (\<lambda>t. (t_key t, t)) sample_make_libs, b_build_targets := map t_key sample_make_libs,
         b_sorted_targets_keys := map t_key sample_make_libs\<rparr>\<rparr>"

definition sample_make_run :: "(string list \<times> cc_world) result" where
  "sample_make_run =
     gen_targets_rules cw_blade
       (builder_rules (\<lambda>_ _. Inl TypeError) (make_rules 2 ''/w'' (\<lambda>_. [])) (\<lambda>_ _. Inl TypeError)) sample_make_world"

theorem gen_targets_rules_content_witness:
  "\<exists>buf w' buf1 w1 w2.
     sample_make_run = Inr (buf, w') \<and>
     buf = rev (concat (map (block (cw_blade sample_make_world) (cw_blade w')) [(''p'', ''e''), (''p'', ''m'')])) \<and>
     rfold (gen_target_rules cw_blade (make_rules 2 ''/w'' (\<lambda>_. []))) [(''p'', ''e'')] ([], sample_make_world) = Inr (buf1, w1) \<and>
     make_rules 2 ''/w'' (\<lambda>_. []) (''p'', ''m'') w1 = Inr w2 \<and>
     rule_view (cw_blade w') (''p'', ''m'') = rule_view (cw_blade w2) (''p'', ''m'')"
proof -
  let ?w = sample_make_world
  have "is_ok sample_make_run" by code_simp
  then obtain buf w' where r: "sample_make_run = Inr (buf, w')" by (auto simp: is_ok_def split: sum.splits)
  have c: "config_value (cw_blade ?w) ''global_config'' ''native_builder'' = Inr (PyStr ''make'')"
    and k: "b_sorted_targets_keys (cw_blade ?w) = [(''p'', ''e''), (''p'', ''m'')]"
    and v: "rule_view (cw_blade ?w) (''p'', ''m'') = Some (''cc_library'', [])"
    and s: "\<not> skips (cw_blade ?w) (''p'', ''m'') ''cc_library''" by code_simp+
  have d: "distinct (b_sorted_targets_keys (cw_blade ?w))" unfolding k by simp
  note all = gen_targets_rules_content [OF c r [unfolded sample_make_run_def] d]
  have "b_sorted_targets_keys (cw_blade ?w) = [(''p'', ''e'')] @ (''p'', ''m'') # []" unfolding k by simp
  then show ?thesis
    using r conjunct1 [OF all] conjunct2 [OF all, rule_format, OF conjI [OF _ conjI [OF v s]]] unfolding k by blast
qed
end
