(* ===== verification/Go_Targets.thy ===== *)
theory Go_Targets
  imports Gen_Rule
begin

text \<open>
  Go targets, \<open>src/blade/go_targets.py\<close>: the package of a target from the directory of its sources, the
  environment of the Go tool, which is asked for once per process, and the rules for SCons.
\<close>

section \<open>The environment of the Go tool\<close>

text \<open>
  The class attributes \<open>_go_os\<close> and \<open>_go_arch\<close>, and what the command \<open>go env\<close> answers: its exit status,
  the lines of its output and its error text.
\<close>

record go_env =
  go_os :: "string option"
  go_arch :: "string option"

record go_answer =
  ga_returncode :: int
  ga_stdout :: "string list"
  ga_stderr :: string

definition go_env_value :: "string \<Rightarrow> string \<Rightarrow> string" where
  "go_env_value name line = strip_by (\<lambda>c. c = dquote) (replace_str name [] line)"

definition go_env_line :: "string \<Rightarrow> go_env \<Rightarrow> go_env" where
  "go_env_line line g =
     (if startswith line ''GOOS='' then g\<lparr>go_os := Some (go_env_value ''GOOS='' line)\<rparr>
      else if startswith line ''GOARCH='' then g\<lparr>go_arch := Some (go_env_value ''GOARCH='' line)\<rparr>
      else g)"

definition init_go_environment :: "(string \<Rightarrow> go_answer) \<Rightarrow> target \<Rightarrow> blade \<Rightarrow> go_env \<Rightarrow> go_env result" where
  "init_go_environment run t b g =
     (if go_os g = None \<and> go_arch g = None then
        rbind (rbind (config_value b ''go_config'' ''go'') py_text) (\<lambda>go.
          let a = run (go @ '' env'')
          in if ga_returncode a \<noteq> 0
             then Inl (SystemExit (t_fullname t @ '': Failed to initialize go environment: '' @ ga_stderr a))
             else Inr (fold go_env_line (ga_stdout a) g))
      else Inr g)"

section \<open>Constructors\<close>

definition set_go_package :: "string \<Rightarrow> target \<Rightarrow> blade \<Rightarrow> target result" where
  "set_go_package cwd t b =
     (case remdups (map (\<lambda>s. dirname (source_file_path t s)) (t_srcs t)) of
        [path] \<Rightarrow>
          rbind (rbind (config_value b ''go_config'' ''go_home'') as_str) (\<lambda>go_home.
          rbind (relpath cwd path (path_join go_home ''src'')) (\<lambda>package.
            Inr (set_data ''go_package'' (PyStr package) t)))
      | _ \<Rightarrow> Inl (SystemExit (t_fullname t @
               '': Go sources belonging to the same package should be in the same directory. Sources: '' @
               join_with '', '' (t_srcs t))))"

definition go_target_init ::
  "string \<Rightarrow> (string \<Rightarrow> go_answer) \<Rightarrow> tclass \<Rightarrow> string \<Rightarrow> string \<Rightarrow> pyval \<Rightarrow> pyval \<Rightarrow> (string, pyval) dict \<Rightarrow> go_env \<times> blade \<Rightarrow>
   (target \<times> go_env \<times> blade) result" where
  "go_target_init cwd run c name type srcs deps kwargs st =
     (case st of (g, b) \<Rightarrow>
        rbind (as_strs srcs) (\<lambda>srcs.
        rbind (as_strs deps) (\<lambda>deps.
        rbind (target_init c name type srcs deps PyNone kwargs b) (\<lambda>(t, b).
        rbind (set_go_package cwd t b) (\<lambda>t.
        rbind (init_go_environment run t b g) (\<lambda>g. Inr (t, g, b)))))))"

definition go_register :: "(target \<times> go_env \<times> blade) result \<Rightarrow> (go_env \<times> blade) result" where
  "go_register r = rbind r (\<lambda>(t, g, b). rbind (register_target t b) (\<lambda>b. Inr (g, b)))"

definition go_library ::
  "string \<Rightarrow> (string \<Rightarrow> go_answer) \<Rightarrow> string \<Rightarrow> pyval \<Rightarrow> pyval \<Rightarrow> (string, pyval) dict \<Rightarrow> go_env \<times> blade \<Rightarrow>
   (go_env \<times> blade) result" where
  "go_library cwd run name srcs deps kwargs st =
     go_register (go_target_init cwd run GoLibraryC name ''go_library'' srcs deps kwargs st)"

definition go_binary ::
  "string \<Rightarrow> (string \<Rightarrow> go_answer) \<Rightarrow> string \<Rightarrow> pyval \<Rightarrow> pyval \<Rightarrow> (string, pyval) dict \<Rightarrow> go_env \<times> blade \<Rightarrow>
   (go_env \<times> blade) result" where
  "go_binary cwd run name srcs deps kwargs st =
     go_register (go_target_init cwd run GoBinaryC name ''go_binary'' srcs deps kwargs st)"

definition go_test_init ::
  "string \<Rightarrow> (string \<Rightarrow> go_answer) \<Rightarrow> string \<Rightarrow> pyval \<Rightarrow> pyval \<Rightarrow> pyval \<Rightarrow> (string, pyval) dict \<Rightarrow> go_env \<times> blade \<Rightarrow>
   (target \<times> go_env \<times> blade) result" where
  "go_test_init cwd run name srcs deps testdata kwargs st =
     rbind (go_target_init cwd run GoTestC name ''go_test'' srcs deps kwargs st) (\<lambda>(t, st).
       Inr (set_data ''testdata'' (PyList (var_to_list testdata)) t, st))"

definition go_test ::
  "string \<Rightarrow> (string \<Rightarrow> go_answer) \<Rightarrow> string \<Rightarrow> pyval \<Rightarrow> pyval \<Rightarrow> pyval \<Rightarrow> (string, pyval) dict \<Rightarrow> go_env \<times> blade \<Rightarrow>
   (go_env \<times> blade) result" where
  "go_test cwd run name srcs deps testdata kwargs st = go_register (go_test_init cwd run name srcs deps testdata kwargs st)"

section \<open>Rules\<close>

definition go_package :: "target \<Rightarrow> string result" where
  "go_package t = rbind (dindex (t_data t) ''go_package'') py_text"

definition go_prepare_to_generate_rule :: "target \<Rightarrow> target result" where
  "go_prepare_to_generate_rule t =
     (case env_name (clone_env t) of (e, t) \<Rightarrow>
        rbind (go_package t) (\<lambda>package. Inr (write_rule (e @ ''.Replace(GOPACKAGE='' @ quoted package @ '')'') t)))"

definition go_dependency :: "blade \<Rightarrow> string \<Rightarrow> string \<Rightarrow> key \<Rightarrow> target \<Rightarrow> target result" where
  "go_dependency b e var dep t =
     rbind (build_target b dep) (\<lambda>u.
     rbind (get_target_var u ''go'') (\<lambda>v.
       if truthy v then rbind (py_text v) (\<lambda>s. Inr (write_rule (e @ ''.Depends('' @ var @ '', '' @ s @ '')'') t)) else Inr t))"

definition generate_go_dependencies :: "blade \<Rightarrow> target \<Rightarrow> target result" where
  "generate_go_dependencies b t =
     (case env_name t of (e, t) \<Rightarrow> rfold (go_dependency b e (var_name t [])) (t_deps t) t)"

definition go_name :: "string option \<Rightarrow> string" where
  "go_name v = (case v of Some s \<Rightarrow> s | None \<Rightarrow> ''None'')"

text \<open>The overridden \<open>_target_file_path\<close> of libraries and binaries.\<close>

definition go_library_path :: "go_env \<Rightarrow> blade \<Rightarrow> target \<Rightarrow> string result" where
  "go_library_path g b t =
     rbind (rbind (config_value b ''go_config'' ''go_home'') as_str) (\<lambda>go_home.
     rbind (go_package t) (\<lambda>package.
       Inr (path_join (path_join3 go_home ''pkg'' (go_name (go_os g) @ ''_'' @ go_name (go_arch g))) (package @ ''.a''))))"

definition go_binary_path :: "blade \<Rightarrow> target \<Rightarrow> string result" where
  "go_binary_path b t =
     rbind (rbind (config_value b ''go_config'' ''go_home'') as_str) (\<lambda>go_home.
     rbind (go_package t) (\<lambda>package. Inr (path_join3 go_home ''bin'' (basename package))))"

definition go_build_rule :: "string \<Rightarrow> string \<Rightarrow> target \<Rightarrow> target" where
  "go_build_rule builder path t =
     env_rule (\<lambda>e. var_name t [] @ '' = '' @ e @ ''.'' @ builder @ ''(target = '' @ quoted path @ '', source = '' @
       repr_strs (map (source_file_path t) (t_srcs t)) @ '')'') t"

definition go_library_scons_rules :: "go_env \<Rightarrow> target \<Rightarrow> blade \<Rightarrow> target result" where
  "go_library_scons_rules g t b =
     rbind (go_prepare_to_generate_rule t) (\<lambda>t.
     rbind (go_library_path g b t) (\<lambda>path.
     rbind (add_target_var ''go'' (PyStr (var_name t [])) (go_build_rule ''GoLibrary'' path t))
       (generate_go_dependencies b)))"

definition go_binary_scons_rules :: "target \<Rightarrow> blade \<Rightarrow> target result" where
  "go_binary_scons_rules t b =
     rbind (go_prepare_to_generate_rule t) (\<lambda>t.
     rbind (go_binary_path b t) (\<lambda>path.
     rbind (add_target_var ''bin'' (PyStr (var_name t [])) (go_build_rule ''GoBinary'' path t))
       (generate_go_dependencies b)))"

definition go_test_scons_rules :: "target \<Rightarrow> blade \<Rightarrow> target result" where
  "go_test_scons_rules t b =
     rbind (go_prepare_to_generate_rule t) (\<lambda>t.
       generate_go_dependencies b (go_build_rule ''GoTest'' (target_file_path b t []) t))"

end
