(* ===== verification/Scala_Targets.thy ===== *)
theory Scala_Targets
  imports Java_Targets
begin

text \<open>
  Scala targets, \<open>src/blade/scala_targets.py\<close>: they share the dependency and resource methods of the Java targets and
  have their own compiler options.
\<close>

section \<open>Constructors\<close>

definition scala_target_init ::
  "tclass \<Rightarrow> string \<Rightarrow> string \<Rightarrow> pyval \<Rightarrow> pyval \<Rightarrow> pyval \<Rightarrow> pyval \<Rightarrow> pyval \<Rightarrow> (string, pyval) dict \<Rightarrow> blade \<Rightarrow>
   (target \<times> blade) result" where
  "scala_target_init c name type srcs deps resources source_encoding warnings kwargs b =
     rbind (as_strs srcs) (\<lambda>srcs.
     rbind (as_strs deps) (\<lambda>deps.
     rbind (target_init c name type srcs deps PyNone kwargs b) (\<lambda>(t, b).
     rbind (process_resources (var_to_list resources) t b) (\<lambda>(t, b).
       let t = (if truthy source_encoding then set_data ''source_encoding'' source_encoding t else t)
       in Inr (if truthy warnings then set_data ''warnings'' warnings t else t, b)))))"

definition scala_library_init ::
  "string \<Rightarrow> pyval \<Rightarrow> pyval \<Rightarrow> pyval \<Rightarrow> pyval \<Rightarrow> pyval \<Rightarrow> pyval \<Rightarrow> pyval \<Rightarrow> (string, pyval) dict \<Rightarrow> blade \<Rightarrow>
   (target \<times> blade) result" where
  "scala_library_init name srcs deps resources source_encoding warnings exported_deps provided_deps kwargs b =
     (let all_deps = var_to_list deps @ var_to_list exported_deps @ var_to_list provided_deps
      in rbind (scala_target_init ScalaLibraryC name ''scala_library'' srcs (PyList all_deps) resources source_encoding
                  warnings kwargs b) (\<lambda>(t, b).
         rbind (as_strs exported_deps) (\<lambda>exported.
         rbind (unify_deps t exported b) (\<lambda>(exported, b).
         rbind (as_strs provided_deps) (\<lambda>provided.
         rbind (unify_deps t provided b) (\<lambda>(provided, b).
           Inr (set_data ''provided_deps'' (PyList (map py_key provided))
                  (set_data ''exported_deps'' (PyList (map py_key exported)) t), b)))))))"

definition scala_fat_library_init ::
  "tclass \<Rightarrow> string \<Rightarrow> pyval \<Rightarrow> pyval \<Rightarrow> pyval \<Rightarrow> pyval \<Rightarrow> pyval \<Rightarrow> pyval \<Rightarrow> (string, pyval) dict \<Rightarrow> blade \<Rightarrow>
   (target \<times> blade) result" where
  "scala_fat_library_init c name srcs deps resources source_encoding warnings exclusions kwargs b =
     rbind (scala_target_init c name ''scala_fat_library'' srcs deps resources source_encoding warnings kwargs b)
       (\<lambda>(t, b). set_exclusions_if exclusions t b)"

definition scala_test_init ::
  "string \<Rightarrow> pyval \<Rightarrow> pyval \<Rightarrow> pyval \<Rightarrow> pyval \<Rightarrow> pyval \<Rightarrow> pyval \<Rightarrow> (string, pyval) dict \<Rightarrow> blade \<Rightarrow> (target \<times> blade) result" where
  "scala_test_init name srcs deps resources source_encoding warnings testdata kwargs b =
     rbind (scala_fat_library_init ScalaTestC name srcs deps resources source_encoding warnings (PyList []) kwargs b)
       (\<lambda>(t, b).
         let t = set_data ''testdata'' (PyList (var_to_list testdata)) (t\<lparr>t_type := ''scala_test''\<rparr>)
         in rbind (config_value b ''scala_test_config'' ''scalatest_libs'') (\<lambda>libs.
              if truthy libs
              then (case libs of
                      PyList vs \<Rightarrow> rbind (rmap as_str vs) (\<lambda>deps. add_hardcode_java_library deps t b)
                    | _ \<Rightarrow> Inl TypeError)
              else Inr (t, say (Warn ''scalatest jar was not configured'') b)))"

definition scala_library ::
  "string \<Rightarrow> pyval \<Rightarrow> pyval \<Rightarrow> pyval \<Rightarrow> pyval \<Rightarrow> pyval \<Rightarrow> pyval \<Rightarrow> pyval \<Rightarrow> (string, pyval) dict \<Rightarrow> blade \<Rightarrow> blade result" where
  "scala_library name srcs deps resources source_encoding warnings exported_deps provided_deps kwargs b =
     register_new (scala_library_init name srcs deps resources source_encoding warnings exported_deps provided_deps kwargs b)"

definition scala_fat_library ::
  "string \<Rightarrow> pyval \<Rightarrow> pyval \<Rightarrow> pyval \<Rightarrow> pyval \<Rightarrow> pyval \<Rightarrow> pyval \<Rightarrow> (string, pyval) dict \<Rightarrow> blade \<Rightarrow> blade result" where
  "scala_fat_library name srcs deps resources source_encoding warnings exclusions kwargs b =
     register_new (scala_fat_library_init ScalaFatLibraryC name srcs deps resources source_encoding warnings exclusions kwargs b)"

definition scala_test ::
  "string \<Rightarrow> pyval \<Rightarrow> pyval \<Rightarrow> pyval \<Rightarrow> pyval \<Rightarrow> pyval \<Rightarrow> pyval \<Rightarrow> (string, pyval) dict \<Rightarrow> blade \<Rightarrow> blade result" where
  "scala_test name srcs deps resources source_encoding warnings testdata kwargs b =
     register_new (scala_test_init name srcs deps resources source_encoding warnings testdata kwargs b)"

section \<open>Compiler options\<close>

definition scala_option :: "string \<Rightarrow> pyval \<Rightarrow> target \<Rightarrow> target result" where
  "scala_option pre v t =
     rbind (py_text v) (\<lambda>s. Inr (env_rule (\<lambda>e. e @ ''.Append(SCALACFLAGS=['' @ quoted (pre @ s) @ ''])'') t))"

definition generate_scala_target_platform :: "blade \<Rightarrow> target \<Rightarrow> target result" where
  "generate_scala_target_platform b t =
     rbind (config_value b ''scala_config'' ''target_platform'') (\<lambda>v.
       if truthy v then scala_option ''-target:'' v t else Inr t)"

definition generate_scala_source_encoding :: "blade \<Rightarrow> target \<Rightarrow> target result" where
  "generate_scala_source_encoding b t =
     rbind (let v = get_data t ''source_encoding'' PyNone
            in if truthy v then Inr v else config_value b ''scala_config'' ''source_encoding'') (\<lambda>v.
       if truthy v then scala_option ''-encoding '' v t else Inr t)"

definition generate_scala_warnings :: "blade \<Rightarrow> target \<Rightarrow> target result" where
  "generate_scala_warnings b t =
     rbind (let v = get_data t ''warnings'' PyNone
            in if truthy v then Inr v
               else rbind (config_value b ''scala_config'' ''warnings'') (\<lambda>w.
                      Inr (if truthy w then w else PyStr ''-nowarn''))) (\<lambda>v. scala_option [] v t)"

definition scala_prepare_to_generate_rule :: "blade \<Rightarrow> target \<Rightarrow> target result" where
  "scala_prepare_to_generate_rule b t =
     rbind (generate_scala_target_platform b (clone_env t)) (\<lambda>t.
     rbind (generate_scala_source_encoding b t) (generate_scala_warnings b))"

definition flag_if :: "string \<Rightarrow> pyval \<Rightarrow> string list result" where
  "flag_if pre v = (if truthy v then rbind (py_text v) (\<lambda>s. Inr [pre @ s]) else Inr [])"

definition scalac_flags :: "blade \<Rightarrow> target \<Rightarrow> string list result" where
  "scalac_flags b t =
     rbind (config_value b ''scala_config'' ''target_platform'') (\<lambda>platform.
     rbind (flag_if ''-target:'' platform) (\<lambda>f1.
     rbind (flag_if [] (get_data t ''warnings'' PyNone)) (\<lambda>f2.
     rbind (config_value b ''scala_config'' ''warnings'') (\<lambda>warnings.
     rbind (flag_if [] warnings) (\<lambda>f3. Inr (f1 @ f2 @ f3))))))"

section \<open>Jars\<close>

definition scala_generate_jar :: "set_order \<Rightarrow> java_fs \<Rightarrow> target \<Rightarrow> blade \<Rightarrow> (string \<times> target \<times> blade) result" where
  "scala_generate_jar so fs t b =
     (let sources = map (source_file_path t) (t_srcs t)
      in if sources = [] then Inr ([], t, b)
         else
           case env_name t of (e, t) \<Rightarrow>
             let var = var_name t ''jar''
             in rbind (get_compile_deps so (jf_exists fs) b t) (\<lambda>(dep_jar_vars, dep_jars).
                rbind (generate_resources fs (generate_java_classpath dep_jar_vars dep_jars t) b)
                  (\<lambda>((resources_var, resources_path_var), t, b).
                    let t = write_rule (var @ '' = '' @ e @ ''.ScalaJar(target='' @ quoted (target_file_path b t [] @ ''.jar'') @
                              '', source='' @ repr_strs sources @ '' + ['' @ resources_var @ ''])'') t
                    in rbind (generate_java_depends var dep_jar_vars dep_jars resources_var resources_path_var t) (\<lambda>t.
                       rbind (add_target_var ''jar'' (PyStr var) t) (\<lambda>t. Inr (var, t, b))))))"

definition scala_ninja_generate_jar :: "set_order \<Rightarrow> java_fs \<Rightarrow> target \<Rightarrow> blade \<Rightarrow> (string \<times> target \<times> blade) result" where
  "scala_ninja_generate_jar so fs t b =
     rbind (ninja_generate_resources fs t b) (\<lambda>(resources, t, b).
       let srcs = map (source_file_path t) (t_srcs t);
           jar = target_file_path b t [] @ ''.jar'';
           javajar = (\<lambda>ins t. ninja_build (PyStr jar) ''javajar'' (PyList (map PyStr ins)) [] [] [] [] t);
           finish = (\<lambda>t. rbind (add_target_file ''jar'' (PyStr jar) t) (\<lambda>t. Inr (jar, t, b)))
       in if srcs \<noteq> [] \<and> resources \<noteq> [] then
            let classes_jar = target_file_path b t [] @ ''__classes__.jar''
            in rbind (scalac_flags b t) (\<lambda>flags.
               rbind (ninja_build_jar so fs b classes_jar srcs [] [] True flags t) (\<lambda>(_, t).
               rbind (javajar (classes_jar # resources) t) finish))
          else if srcs \<noteq> [] then
            rbind (scalac_flags b t) (\<lambda>flags.
            rbind (ninja_build_jar so fs b jar srcs [] [] True flags t) (\<lambda>(_, t). finish t))
          else if resources \<noteq> [] then rbind (javajar resources t) finish
          else Inr ([], t, b))"

section \<open>Rules\<close>

definition scala_library_scons_rules :: "set_order \<Rightarrow> java_fs \<Rightarrow> target \<Rightarrow> blade \<Rightarrow> (target \<times> blade) result" where
  "scala_library_scons_rules so fs t b =
     rbind (scala_prepare_to_generate_rule b t) (\<lambda>t.
     rbind (scala_generate_jar so fs t b) (\<lambda>(jar_var, t, b).
       if jar_var \<noteq> [] then rbind (add_default_target_var ''jar'' (PyStr jar_var) t) (\<lambda>t. Inr (t, b)) else Inr (t, b)))"

definition scala_library_ninja_rules :: "set_order \<Rightarrow> java_fs \<Rightarrow> target \<Rightarrow> blade \<Rightarrow> (target \<times> blade) result" where
  "scala_library_ninja_rules so fs t b =
     rbind (scala_ninja_generate_jar so fs t b) (\<lambda>(jar, t, b).
       if jar \<noteq> [] then rbind (add_default_target_file ''jar'' (PyStr jar) t) (\<lambda>t. Inr (t, b)) else Inr (t, b))"

definition scala_fat_library_scons_rules :: "nat \<Rightarrow> set_order \<Rightarrow> java_fs \<Rightarrow> target \<Rightarrow> blade \<Rightarrow> (target \<times> blade) result" where
  "scala_fat_library_scons_rules n so fs t b =
     rbind (scala_prepare_to_generate_rule b t) (\<lambda>t.
     rbind (scala_generate_jar so fs t b) (\<lambda>(_, t, b).
     rbind (ninja_pack_jars n so fs b t) (\<lambda>(dep_jar_vars, dep_jars).
     rbind (generate_fat_jar b dep_jar_vars dep_jars t) (\<lambda>(var, t).
     rbind (add_default_target_var ''fatjar'' (PyStr var) t) (\<lambda>t. Inr (t, b))))))"

definition scala_fat_library_ninja_rules :: "nat \<Rightarrow> set_order \<Rightarrow> java_fs \<Rightarrow> target \<Rightarrow> blade \<Rightarrow> (target \<times> blade) result" where
  "scala_fat_library_ninja_rules n so fs t b =
     rbind (scala_ninja_generate_jar so fs t b) (\<lambda>(_, t, b).
     rbind (ninja_pack_jars n so fs b t) (\<lambda>(dep_jars, maven_jars).
     rbind (ninja_build_fat_jar b dep_jars maven_jars t) (\<lambda>(jar, t).
     rbind (add_default_target_file ''fatjar'' (PyStr jar) t) (\<lambda>t. Inr (t, b)))))"

definition generate_scala_test :: "blade \<Rightarrow> string list \<Rightarrow> string list \<Rightarrow> target \<Rightarrow> target result" where
  "generate_scala_test b dep_jar_vars dep_jars t =
     rbind (own_jar (get_target_var t ''jar'')) (\<lambda>jar.
       Inr (if jar \<noteq> []
            then env_rule (\<lambda>e. var_name t [] @ '' = '' @ e @ ''.ScalaTest(target='' @ quoted (target_file_path b t []) @
                   '', source=['' @ hd jar @ ''] + ['' @ join_with '','' dep_jar_vars @ ''] + '' @ repr_strs dep_jars @ '')'') t
            else t))"

definition scala_test_scons_rules :: "set_order \<Rightarrow> java_fs \<Rightarrow> target \<Rightarrow> blade \<Rightarrow> (target \<times> blade) result" where
  "scala_test_scons_rules so fs t b =
     rbind (scala_prepare_to_generate_rule b t) (\<lambda>t.
     rbind (scala_generate_jar so fs t b) (\<lambda>(_, t, b).
     rbind (get_test_deps so (jf_exists fs) b t) (\<lambda>(dep_jar_vars, dep_jars).
     rbind (generate_scala_test b dep_jar_vars dep_jars t) (\<lambda>t. Inr (t, b)))))"

definition scala_test_ninja_rules :: "set_order \<Rightarrow> java_fs \<Rightarrow> target \<Rightarrow> blade \<Rightarrow> (target \<times> blade) result" where
  "scala_test_ninja_rules so fs t b =
     (if t_srcs t = [] then Inr (t, say (Warn (t_fullname t @ '': Empty scala test sources.'')) b)
      else
        rbind (scala_ninja_generate_jar so fs t b) (\<lambda>(jar, t, b).
        rbind (get_test_deps so (jf_exists fs) b t) (\<lambda>(dep_jars, maven_jars).
        rbind (ninja_build (PyStr (target_file_path b t [])) ''scalatest'' (PyList (map PyStr (jar # dep_jars @ maven_jars)))
                 [] [] [] [] t) (\<lambda>t. Inr (t, b)))))"

end
