(* ===== verification/Maven_Facts.thy ===== *)
theory Maven_Facts
  imports Maven
begin

text \<open>
  The jar database of the Maven cache: its entries are typed (a valid identifier, mapped to
  the path the local repository has for it), and a lookup is answered from the database once
  it has succeeded.
\<close>

section \<open>The invariant\<close>

text \<open>The path of an artifact in the local repository.\<close>

definition canonical_path :: "string \<Rightarrow> string \<times> string \<Rightarrow> string option" where
  "canonical_path repo k =
     (case split_on (CHR '':'') (fst k) of
        [grp, artifact, version] \<Rightarrow>
          Some (path_join (path_join (path_join3 repo (replace_char (CHR ''.'') slash grp) artifact) version)
            (jar_name artifact version (snd k)))
      | _ \<Rightarrow> None)"

definition cache_ok :: "maven_cache \<Rightarrow> bool" where
  "cache_ok c =
     (\<forall>k a. dget (m_jar_database c) k = Some a \<longrightarrow>
        is_valid_id (fst k) \<and> canonical_path (m_local_repository c) k = Some (a_path a))"

lemma cache_ok_init: "cache_ok (maven_cache_init me conf log_dir)"
  by (simp add: cache_ok_def maven_cache_init_def)

text \<open>What an operation keeps when it only runs commands and prints messages.\<close>

definition same_cache :: "maven_cache \<Rightarrow> maven_cache \<Rightarrow> bool" where
  "same_cache c c' =
     (m_jar_database c' = m_jar_database c \<and> m_local_repository c' = m_local_repository c \<and>
      m_maven c' = m_maven c \<and> m_need_check_config c' = m_need_check_config c)"

lemma same_cache_refl [simp]: "same_cache c c"
  by (simp add: same_cache_def)

lemma same_cache_trans: "same_cache a b \<Longrightarrow> same_cache b c \<Longrightarrow> same_cache a c"
  by (simp add: same_cache_def)

lemma same_cache_say [simp]: "same_cache c (maven_say m c') = same_cache c c'"
  by (simp add: same_cache_def maven_say_def)

lemma same_cache_call [simp]: "same_cache c (snd (maven_call me cmd c')) = same_cache c c'"
  by (simp add: same_cache_def maven_call_def)

text \<open>Results whose cache differs from the given one only in the record of commands and messages.\<close>

definition keeps_cache :: "maven_cache \<Rightarrow> (bool \<times> maven_cache) result \<Rightarrow> bool" where
  "keeps_cache c r = (\<forall>ok c'. r = Inr (ok, c') \<longrightarrow> same_cache c c')"

lemma keeps_cache_Inr [intro]: "same_cache c c' \<Longrightarrow> keeps_cache c (Inr (ok, c'))"
  by (simp add: keeps_cache_def)

lemma keeps_cache_rbind [intro]: "(\<And>x. keeps_cache c (f x)) \<Longrightarrow> keeps_cache c (rbind m f)"
  by (cases m) (simp_all add: keeps_cache_def)

lemma keeps_cache_copy [intro]:
  "same_cache c d \<Longrightarrow> keeps_cache c (rbind (copy_log me src dst d) (\<lambda>d. Inr (ok, d)))"
  by (simp add: keeps_cache_def copy_log_def same_cache_def)

lemma keeps_cache_if [intro]: "keeps_cache c r \<Longrightarrow> keeps_cache c r' \<Longrightarrow> keeps_cache c (if P then r else r')"
  by simp

lemmas keeps_cache_intros = keeps_cache_if keeps_cache_Inr keeps_cache_copy keeps_cache_rbind

lemma download_jar_cache: "keeps_cache c (download_jar me ident cl c)"
  unfolding download_jar_def Let_def case_prod_beta
  by (intro keeps_cache_intros) simp_all

lemma download_dependency_cache: "keeps_cache c (download_dependency me ident cl c)"
  unfolding download_dependency_def Let_def case_prod_beta
  by (intro keeps_cache_intros) simp_all

lemma is_valid_id_split:
  assumes "is_valid_id ident"
  obtains grp artifact version where "split_on (CHR '':'') ident = [grp, artifact, version]"
  using assms by (auto simp: is_valid_id_def split: list.splits)

lemma download_artifact_entry:
  assumes "download_artifact me ident cl c = Inr (True, c')" and "is_valid_id ident"
  shows "\<exists>p d. same_cache c d \<and> canonical_path (m_local_repository c) (ident, cl) = Some p \<and>
    c' = d\<lparr>m_jar_database := dset (ident, cl) \<lparr>a_path = p, a_deps = None\<rparr> (m_jar_database c)\<rparr>"
proof -
  obtain grp artifact version where s: "split_on (CHR '':'') ident = [grp, artifact, version]"
    using assms(2) by (rule is_valid_id_split)
  obtain d where d: "download_jar me ident cl c = Inr (True, d)"
    using assms(1) by (auto simp: download_artifact_def rbind_eq_Inr split: if_splits)
  have sc: "same_cache c d" using download_jar_cache [of c me ident cl] d unfolding keeps_cache_def by blast
  then show ?thesis
    using assms(1) d s
    by (intro exI [of _ "path_join (path_join (path_join3 (m_local_repository c) (replace_char (CHR ''.'') slash grp)
            artifact) version) (jar_name artifact version cl)"] exI [of _ d])
      (auto simp: download_artifact_def generate_jar_path_def unpack3_def canonical_path_def same_cache_def)
qed

lemma get_artifact_cases:
  assumes "get_artifact_from_database me ident cl c = Inr (a, c')"
  obtains c1 where "is_valid_id ident" "maven_check_config c = Inr c1" "dget (m_jar_database c') (ident, cl) = Some a"
    "c' = c1 \<and> dget (m_jar_database c1) (ident, cl) = Some a \<or>
     dget (m_jar_database c1) (ident, cl) = None \<and> download_artifact me ident cl c1 = Inr (True, c')"
  using assms
  by (auto simp: get_artifact_from_database_def rbind_eq_Inr check_id_def split: if_splits prod.splits)

lemma check_config_keeps:
  assumes "maven_check_config c = Inr c1"
  shows "m_jar_database c1 = m_jar_database c" and "m_local_repository c1 = m_local_repository c"
    and "m_need_check_config c1 = False" and "m_events c1 = m_events c"
  using assms by (auto simp: maven_check_config_def split: if_splits)

lemma get_artifact_keeps:
  assumes "get_artifact_from_database me ident cl c = Inr (a, c')" and "cache_ok c"
  shows "cache_ok c'" and "m_local_repository c' = m_local_repository c" and "m_need_check_config c' = False"
    and "dget (m_jar_database c') (ident, cl) = Some a" and "is_valid_id ident"
proof -
  from assms(1) obtain c1 where c1: "is_valid_id ident" "maven_check_config c = Inr c1"
    "dget (m_jar_database c') (ident, cl) = Some a"
    and d: "c' = c1 \<and> dget (m_jar_database c1) (ident, cl) = Some a \<or>
     dget (m_jar_database c1) (ident, cl) = None \<and> download_artifact me ident cl c1 = Inr (True, c')"
    by (rule get_artifact_cases)
  note k = check_config_keeps [OF c1(2)]
  have "cache_ok c' \<and> m_local_repository c' = m_local_repository c \<and> m_need_check_config c' = False"
    using d
  proof (elim disjE conjE)
    assume "c' = c1"
    then show ?thesis using k assms(2) by (simp add: cache_ok_def)
  next
    assume "download_artifact me ident cl c1 = Inr (True, c')"
    then show ?thesis
      using download_artifact_entry [OF _ c1(1)] k assms(2) c1(1) by (fastforce simp: cache_ok_def same_cache_def)
  qed
  then show "cache_ok c'" and "m_local_repository c' = m_local_repository c" and "m_need_check_config c' = False"
    by simp_all
qed (use assms(1) in \<open>auto elim: get_artifact_cases\<close>)

lemma set_deps_keeps: "cache_ok c \<Longrightarrow> cache_ok (set_deps k s c)"
  by (auto simp: cache_ok_def set_deps_def split: option.splits if_splits)

lemma get_deps_keeps:
  assumes "get_jar_deps_path me ident cl c = Inr (s, c')" and "cache_ok c"
  shows "cache_ok c' \<and> m_local_repository c' = m_local_repository c"
proof -
  obtain a c1 where a: "get_artifact_from_database me ident cl c = Inr (a, c1)"
    using assms(1) by (auto simp: get_jar_deps_path_def rbind_eq_Inr)
  note k = get_artifact_keeps [OF a assms(2)]
  have ok: "cache_ok d" if "same_cache c1 d" for d
    using k(1) that by (simp add: cache_ok_def same_cache_def)
  show ?thesis
  proof (cases "a_deps a")
    case None
    then obtain b d where d: "download_dependency me ident cl c1 = Inr (b, d)"
      and c': "c' = set_deps (ident, cl) s d"
      using assms(1) a by (auto simp: get_jar_deps_path_def rbind_eq_Inr split: if_splits option.splits)
    have "same_cache c1 d" using download_dependency_cache [of c1 me ident cl] d unfolding keeps_cache_def by blast
    then show ?thesis
      using set_deps_keeps [OF ok] k(2) by (simp add: c' same_cache_def set_deps_def)
  next
    case (Some v)
    then show ?thesis using assms(1) a k(1,2) by (simp add: get_jar_deps_path_def)
  qed
qed

section \<open>Properties\<close>

text \<open>
  C24. The jar database is well typed at every moment: a new cache is, and both lookups keep it
  so whatever the commands and the file system answer. Every identifier in it has the form
  group:artifact:version with non-empty parts and is mapped to the path of that artifact in
  the local repository, which is what a lookup returns.
\<close>

theorem maven_database_typed:
  "cache_ok (maven_cache_init me conf log_dir) \<and>
   (\<forall>ident cl c p c'. cache_ok c \<longrightarrow> get_jar_path me ident cl c = Inr (p, c') \<longrightarrow>
      cache_ok c' \<and> is_valid_id ident \<and> canonical_path (m_local_repository c) (ident, cl) = Some p) \<and>
   (\<forall>ident cl c s c'. cache_ok c \<longrightarrow> get_jar_deps_path me ident cl c = Inr (s, c') \<longrightarrow> cache_ok c')"
proof (intro conjI allI impI)
  show "cache_ok (maven_cache_init me conf log_dir)" by (rule cache_ok_init)
next
  fix ident cl c p c'
  assume ok: "cache_ok c" and "get_jar_path me ident cl c = Inr (p, c')"
  then obtain a where a: "get_artifact_from_database me ident cl c = Inr (a, c')" and p: "p = a_path a"
    by (auto simp: get_jar_path_def rbind_eq_Inr)
  note k = get_artifact_keeps [OF a ok]
  show "cache_ok c'" and "is_valid_id ident" by (rule k(1), rule k(5))
  show "canonical_path (m_local_repository c) (ident, cl) = Some p"
    using k(1,2,4) p unfolding cache_ok_def by metis
next
  fix ident cl c s c'
  assume "cache_ok c" and "get_jar_deps_path me ident cl c = Inr (s, c')"
  then show "cache_ok c'" using get_deps_keeps by blast
qed

lemma get_artifact_cached:
  assumes "m_need_check_config c = False" and "is_valid_id ident"
    and "dget (m_jar_database c) (ident, cl) = Some a"
  shows "get_artifact_from_database me ident cl c = Inr (a, c)"
  using assms by (simp add: get_artifact_from_database_def maven_check_config_def check_id_def)

text \<open>
  An artifact is downloaded at most once by a process: after a successful lookup the same
  lookup returns the same path from the database, in whatever environment, and leaves the
  whole cache unchanged (no command is run and nothing is printed).
\<close>

theorem maven_lookup_cached:
  assumes "get_jar_path me ident cl c = Inr (p, c')" and "cache_ok c"
  shows "get_jar_path me' ident cl c' = Inr (p, c')"
proof -
  obtain a where a: "get_artifact_from_database me ident cl c = Inr (a, c')" and p: "p = a_path a"
    using assms(1) by (auto simp: get_jar_path_def rbind_eq_Inr)
  note k = get_artifact_keeps [OF a assms(2)]
  show ?thesis
    by (simp add: get_jar_path_def get_artifact_cached [OF k(3,5,4)] p)
qed

text \<open>
  A released artifact whose jar and description file are in the local repository is never
  downloaded again: the lookup succeeds without running a command. Snapshots are the
  exception, which are downloaded when their log is older than a day.
\<close>

theorem maven_release_not_downloaded:
  assumes "split_on (CHR '':'') ident = [grp, artifact, version]" and "is_valid_id ident"
    and "\<not> endswith version ''-SNAPSHOT''" and "truthy (m_maven c)"
    and "dget (m_jar_database c) (ident, cl) = None"
    and "generate_jar_path c ident = Inr dir"
    and "mv_isfile me (m_events c) (path_join dir (jar_name artifact version cl))"
    and "mv_isfile me (m_events c) (path_join dir (artifact @ ''-'' @ version @ ''.pom''))"
  shows "\<exists>c'. get_jar_path me ident cl c = Inr (path_join dir (jar_name artifact version cl), c') \<and>
    m_events c' = m_events c \<and> m_log c' = m_log c"
proof -
  obtain c1 where c1: "maven_check_config c = Inr c1" and e: "m_events c1 = m_events c" "m_log c1 = m_log c"
    "m_local_repository c1 = m_local_repository c" "m_jar_database c1 = m_jar_database c"
    using assms(4) by (cases "m_need_check_config c") (simp_all add: maven_check_config_def)
  have g: "generate_jar_path c1 ident = Inr dir"
    using assms(6) e by (simp add: generate_jar_path_def)
  have "jar_is_fresh me dir (jar_name artifact version cl) (artifact @ ''-'' @ version @ ''.pom'') version l c1" for l
    using assms(3,7,8) e by (simp add: jar_is_fresh_def)
  then have "download_jar me ident cl c1 = Inr (True, c1)"
    using assms(1) g by (simp add: download_jar_def unpack3_def Let_def)
  then have "download_artifact me ident cl c1 =
    Inr (True, c1\<lparr>m_jar_database := dset (ident, cl) \<lparr>a_path = path_join dir (jar_name artifact version cl), a_deps = None\<rparr>
      (m_jar_database c1)\<rparr>)"
    using assms(1) g by (simp add: download_artifact_def unpack3_def)
  then show ?thesis
    using c1 assms(2,5) e
    by (simp add: get_jar_path_def get_artifact_from_database_def check_id_def)
qed

section \<open>Examples\<close>

text \<open>A repository that has the jar and the description of one artifact only.\<close>

definition sample_maven :: maven_env where
  "sample_maven = \<lparr>mv_home = ''/h'', mv_build_time = 0,
     mv_isfile = \<lambda>_ p. p \<in> {''/h/.m2/repository/g/h/a/1.0/a-1.0.jar'', ''/h/.m2/repository/g/h/a/1.0/a-1.0.pom''},
     mv_exists = \<lambda>_ _. True, mv_mtime = \<lambda>_ _. 0, mv_status = \<lambda>_ _. 0, mv_copy_fails = \<lambda>_ _ _. False,
     mv_first_line = \<lambda>_ _. Some ''x.jar''\<rparr>"

definition sample_cache :: maven_cache where
  "sample_cache = maven_cache_init sample_maven [(''maven'', PyStr ''mvn'')] ''/log''"

lemma sample_cache_ok: "cache_ok sample_cache"
  by (simp add: sample_cache_def cache_ok_init)

theorem maven_database_typed_witness:
  "\<exists>c'. get_jar_path sample_maven ''g.h:a:2.0'' [] sample_cache = Inr (''/h/.m2/repository/g/h/a/2.0/a-2.0.jar'', c') \<and>
     cache_ok c'"
proof -
  let ?r = "get_jar_path sample_maven ''g.h:a:2.0'' [] sample_cache"
  have "map_sum (\<lambda>_. ()) fst ?r = Inr ''/h/.m2/repository/g/h/a/2.0/a-2.0.jar''" by code_simp
  then obtain c' where c': "?r = Inr (''/h/.m2/repository/g/h/a/2.0/a-2.0.jar'', c')"
    by (auto simp: map_sum_eq_Inr)
  have "cache_ok c'"
    using maven_database_typed [of sample_maven "[]" "[]"] c' sample_cache_ok by blast
  then show ?thesis using c' by blast
qed

theorem maven_lookup_cached_witness:
  "\<exists>p c'. get_jar_path sample_maven ''g.h:a:2.0'' ''tests'' sample_cache = Inr (p, c') \<and>
     get_jar_path (sample_maven\<lparr>mv_status := \<lambda>_ _. 1\<rparr>) ''g.h:a:2.0'' ''tests'' c' = Inr (p, c')"
proof -
  let ?r = "get_jar_path sample_maven ''g.h:a:2.0'' ''tests'' sample_cache"
  have "is_ok ?r" by code_simp
  then obtain p c' where r: "?r = Inr (p, c')" by (cases ?r) (auto simp: is_ok_def)
  show ?thesis using maven_lookup_cached [OF r sample_cache_ok] r by blast
qed

theorem maven_release_not_downloaded_witness:
  "\<exists>c'. get_jar_path sample_maven ''g.h:a:1.0'' [] sample_cache = Inr (''/h/.m2/repository/g/h/a/1.0/a-1.0.jar'', c') \<and>
     m_events c' = []"
proof -
  have "\<exists>c'. get_jar_path sample_maven ''g.h:a:1.0'' [] sample_cache =
      Inr (path_join ''/h/.m2/repository/g/h/a/1.0'' (jar_name ''a'' ''1.0'' []), c') \<and>
    m_events c' = m_events sample_cache \<and> m_log c' = m_log sample_cache"
    by (rule maven_release_not_downloaded [where grp = "''g.h''"]) code_simp+
  moreover have "path_join ''/h/.m2/repository/g/h/a/1.0'' (jar_name ''a'' ''1.0'' []) = ''/h/.m2/repository/g/h/a/1.0/a-1.0.jar''"
    by code_simp
  moreover have "m_events sample_cache = []" by code_simp
  ultimately show ?thesis by auto
qed

end
