(* ===== verification/Python_Targets.thy ===== *)
theory Python_Targets
  imports Gen_Rule
begin

text \<open>
  Python targets, \<open>src/blade/py_targets.py\<close>: eggs, libraries, prebuilt libraries, binaries and tests, with the
  rules for SCons and Ninja. \<open>exists_path\<close> says which files exist, \<open>cwd\<close> is the working directory, \<open>so\<close> the
  iteration order of dictionaries.
\<close>

section \<open>Eggs\<close>

definition py_egg_init ::
  "string \<Rightarrow> pyval \<Rightarrow> pyval \<Rightarrow> pyval \<Rightarrow> (string, pyval) dict \<Rightarrow> blade \<Rightarrow> (target \<times> blade) result" where
  "py_egg_init name srcs deps prebuilt kwargs b =
     rbind (as_strs srcs) (\<lambda>srcs.
     rbind (as_strs deps) (\<lambda>deps.
     rbind (target_init PythonEggC name ''py_egg'' srcs deps PyNone kwargs b) (\<lambda>(t, b).
       Inr (if truthy prebuilt then t\<lparr>t_type := ''prebuilt_py_egg''\<rparr> else t, b))))"

definition py_egg ::
  "string \<Rightarrow> pyval \<Rightarrow> pyval \<Rightarrow> pyval \<Rightarrow> (string, pyval) dict \<Rightarrow> blade \<Rightarrow> blade result" where
  "py_egg name srcs deps prebuilt kwargs b = register_new (py_egg_init name srcs deps prebuilt kwargs b)"

definition egg_dep :: "blade \<Rightarrow> key \<Rightarrow> string list \<times> string list \<Rightarrow> (string list \<times> string list) result" where
  "egg_dep b k st =
     (case st of (paths, vars) \<Rightarrow>
        rbind (build_target b k) (\<lambda>dep.
        rbind (data_strs dep ''python_sources'') (\<lambda>srcs.
        rbind (data_strs dep ''python_vars'') (\<lambda>vs. Inr (paths @ srcs, vars @ vs)))))"

definition py_egg_scons_rules :: "(string \<Rightarrow> bool) \<Rightarrow> target \<Rightarrow> blade \<Rightarrow> target result" where
  "py_egg_scons_rules exists_path t b =
     (case env_name (clone_env t) of (e, t) \<Rightarrow>
        if t_type t = ''prebuilt_py_egg'' then Inr t
        else
          let setup_file = path_join (t_path t) ''setup.py'';
              python_package = path_join (t_path t) (t_name t);
              init_file = path_join python_package ''__init__.py''
          in if \<not> exists_path init_file
             then Inl (SystemExit (''The __init__.py not existed in '' @ python_package))
             else
               rbind (rfold (egg_dep b) (t_expanded_deps t)
                        ((if exists_path setup_file then [setup_file] else []) @ [init_file], [])) (\<lambda>(paths, vars).
                 let var = var_name t [] @ ''_python_binary_var''
                 in Inr (write_rules
                      ((var @ '' = '' @ e @ ''.PythonEgg(['' @ quoted (target_file_path b t [] @ ''.egg'') @ ''], '' @ repr_strs paths @ '')'') #
                       map (\<lambda>v. e @ ''.Depends('' @ var @ '', '' @ v @ '')'') vars) t)))"

section \<open>Base class\<close>

definition python_target_init ::
  "tclass \<Rightarrow> string \<Rightarrow> string \<Rightarrow> pyval \<Rightarrow> pyval \<Rightarrow> pyval \<Rightarrow> pyval \<Rightarrow> (string, pyval) dict \<Rightarrow> blade \<Rightarrow> (target \<times> blade) result" where
  "python_target_init c name type srcs deps base visibility kwargs b =
     rbind (as_strs srcs) (\<lambda>srcs.
     rbind (as_strs deps) (\<lambda>deps.
     rbind (target_init c name type srcs deps visibility kwargs b) (\<lambda>(t, b).
     rbind (if truthy base then
              rbind (as_str base) (\<lambda>base.
                if \<not> startswith base ''//''
                then Inl (SystemExit (t_fullname t @ '': Invalid base directory '' @ base @
                       ''. Option base should be a directory starting with '//' from BLADE_ROOT directory.''))
                else Inr (set_data ''python_base'' (PyStr (drop 2 base)) t))
            else Inr t) (\<lambda>t.
       Inr (set_data ''python_sources'' (pstrs (map (source_file_path t) srcs)) t, b)))))"

definition python_base :: "target \<Rightarrow> string result" where
  "python_base t = as_str (get_data t ''python_base'' pempty)"

definition python_prepare_to_generate_rule :: "target \<Rightarrow> blade \<Rightarrow> target result" where
  "python_prepare_to_generate_rule t b =
     rbind (python_base t) (\<lambda>base.
       Inr (env_rules (\<lambda>e. [e @ ''.Replace(BUILD_DIR='' @ quoted (b_build_path b) @ '')'',
                            e @ ''.Replace(BASE_DIR='' @ quoted base @ '')'']) (clone_env t)))"

definition python_ninja_vars :: "target \<Rightarrow> (string, string) dict result" where
  "python_ninja_vars t = rbind (python_base t) (\<lambda>base. Inr (if base \<noteq> [] then [(''pythonbasedir'', base)] else []))"

section \<open>Libraries\<close>

definition python_library_init ::
  "tclass \<Rightarrow> string \<Rightarrow> pyval \<Rightarrow> pyval \<Rightarrow> pyval \<Rightarrow> pyval \<Rightarrow> (string, pyval) dict \<Rightarrow> blade \<Rightarrow> (target \<times> blade) result" where
  "python_library_init c name srcs deps base visibility kwargs b =
     python_target_init c name ''py_library'' srcs deps base visibility kwargs b"

text \<open>The variable of a dependency, \<open>data.get('python_var')\<close>.\<close>

definition python_var :: "blade \<Rightarrow> key \<Rightarrow> string list result" where
  "python_var b k =
     rbind (build_target b k) (\<lambda>dep.
       let v = get_data dep ''python_var'' PyNone in if truthy v then rbind (py_text v) (\<lambda>s. Inr [s]) else Inr [])"

definition scons_pylib :: "target \<Rightarrow> blade \<Rightarrow> (string \<times> target) result" where
  "scons_pylib t b =
     (case env_name t of (e, t) \<Rightarrow>
        rbind (data_strs t ''python_sources'') (\<lambda>sources.
          if sources = [] then Inr ([], t)
          else
            let var = var_name t ''pylib'';
                t = set_data ''python_var'' (PyStr var)
                      (write_rule (var @ '' = '' @ e @ ''.PythonLibrary('' @ quoted (target_file_path b t [] @ ''.pylib'') @ '', '' @
                        repr_strs sources @ '')'') t)
            in rbind (rmap (python_var b) (t_deps t)) (\<lambda>vars.
                 Inr (var, write_rules (map (\<lambda>v. e @ ''.Depends('' @ var @ '', '' @ v @ '')'') (concat vars)) t))))"

definition python_library_scons_rules :: "target \<Rightarrow> blade \<Rightarrow> target result" where
  "python_library_scons_rules t b =
     rbind (python_prepare_to_generate_rule t b) (\<lambda>t. rbind (scons_pylib t b) (\<lambda>(_, t). Inr t))"

definition ninja_pylib :: "set_order \<Rightarrow> target \<Rightarrow> blade \<Rightarrow> (string \<times> target) result" where
  "ninja_pylib so t b =
     (if t_srcs t = [] then Inr ([], t)
      else
        let output = target_file_path b t [] @ ''.pylib''
        in rbind (python_ninja_vars t) (\<lambda>vars.
           rbind (ninja_build (PyStr output) ''pythonlibrary'' (pstrs (map (source_file_path t) (t_srcs t))) [] [] (dict_order so vars) [] t) (\<lambda>t.
           rbind (add_target_file ''pylib'' (PyStr output) t) (\<lambda>t. Inr (output, t)))))"

definition python_library_ninja_rules :: "set_order \<Rightarrow> target \<Rightarrow> blade \<Rightarrow> target result" where
  "python_library_ninja_rules so t b = rbind (ninja_pylib so t b) (\<lambda>(_, t). Inr t)"

definition prebuilt_python_library_init ::
  "string \<Rightarrow> pyval \<Rightarrow> pyval \<Rightarrow> pyval \<Rightarrow> pyval \<Rightarrow> (string, pyval) dict \<Rightarrow> blade \<Rightarrow> (target \<times> blade) result" where
  "prebuilt_python_library_init name srcs deps base visibility kwargs b =
     rbind (python_target_init PrebuiltPythonLibraryC name ''prebuilt_py_library'' srcs deps base visibility kwargs b) (\<lambda>(t, b).
       if truthy base then Inl (SystemExit (t_fullname t @ '': Prebuilt py_library doesn't support base''))
       else case t_srcs t of
              [src] \<Rightarrow>
                if \<not> endswith src ''.egg'' \<and> \<not> endswith src ''.whl''
                then Inl (SystemExit (t_fullname t @ '': Invalid file '' @ src @ '' in srcs, prebuilt py_library only support egg and whl''))
                else Inr (t, b)
            | _ \<Rightarrow> Inl (SystemExit (t_fullname t @ '': There can only be 1 file in prebuilt py_library'')))"

definition first_source :: "target \<Rightarrow> string result" where
  "first_source t = (case t_srcs t of [] \<Rightarrow> Inl IndexError | s # _ \<Rightarrow> Inr (source_file_path t s))"

definition prebuilt_python_library_scons_rules :: "target \<Rightarrow> blade \<Rightarrow> target result" where
  "prebuilt_python_library_scons_rules t b =
     rbind (python_prepare_to_generate_rule t b) (\<lambda>t.
     rbind (first_source t) (\<lambda>src.
       let var = var_name t ''pylib''
       in Inr (set_data ''python_var'' (PyStr var) (env_rule (\<lambda>e. var @ '' = '' @ e @ ''.File('' @ quoted src @ '')'') t))))"

definition prebuilt_python_library_ninja_rules :: "target \<Rightarrow> target result" where
  "prebuilt_python_library_ninja_rules t = rbind (first_source t) (\<lambda>src. add_target_file ''pylib'' (PyStr src) t)"

definition py_library ::
  "string \<Rightarrow> pyval \<Rightarrow> pyval \<Rightarrow> pyval \<Rightarrow> pyval \<Rightarrow> pyval \<Rightarrow> (string, pyval) dict \<Rightarrow> blade \<Rightarrow> blade result" where
  "py_library name srcs deps base prebuilt visibility kwargs b =
     register_new
       (if truthy prebuilt then prebuilt_python_library_init name srcs deps base visibility kwargs b
        else python_library_init PythonLibraryC name srcs deps base visibility kwargs b)"

section \<open>Binaries and tests\<close>

definition python_binary_init ::
  "tclass \<Rightarrow> string \<Rightarrow> pyval \<Rightarrow> pyval \<Rightarrow> pyval \<Rightarrow> pyval \<Rightarrow> (string, pyval) dict \<Rightarrow> blade \<Rightarrow> (target \<times> blade) result" where
  "python_binary_init c name srcs deps main base kwargs b =
     rbind (python_library_init c name srcs deps base PyNone kwargs b) (\<lambda>(t, b).
       let t = set_data ''run_in_shell'' (PyBool True) (t\<lparr>t_type := ''py_binary''\<rparr>)
       in if truthy main then Inr (set_data ''main'' main t, b)
          else case var_to_list srcs of
                 [src] \<Rightarrow> Inr (set_data ''main'' src t, b)
               | _ \<Rightarrow> Inl (SystemExit (t_fullname t @ '': The entry file must be specified by the '' @ quoted ''main'' @
                       '' argument if there are more than one srcs'')))"

text \<open>\<open>p[:-3]\<close>\<close>

definition without_py :: "string \<Rightarrow> string" where
  "without_py p = take (length p - 3) p"

definition get_entry :: "string \<Rightarrow> target \<Rightarrow> string result" where
  "get_entry cwd t =
     rbind (rbind (dindex (t_data t) ''main'') as_str) (\<lambda>main.
     rbind (python_base t) (\<lambda>base.
     rbind (relpath cwd (without_py (normpath (path_join (t_path t) main))) base) (\<lambda>rel.
       Inr (replace_char slash (CHR ''.'') rel))))"

definition python_binary_scons_rules :: "string \<Rightarrow> target \<Rightarrow> blade \<Rightarrow> target result" where
  "python_binary_scons_rules cwd t b =
     rbind (python_prepare_to_generate_rule t b) (\<lambda>t.
     rbind (scons_pylib t b) (\<lambda>(pylib, t).
     rbind (get_entry cwd t) (\<lambda>entry.
     rbind (rmap (python_var b) (t_expanded_deps t)) (\<lambda>vars.
       Inr (env_rules (\<lambda>e. [e @ ''.Append(ENTRY='' @ quoted entry @ '')'',
              var_name t [] @ '' = '' @ e @ ''.PythonBinary('' @ quoted (target_file_path b t []) @ '', ['' @
              join_with '','' ((if pylib \<noteq> [] then [pylib] else []) @ concat vars) @ ''])'']) t)))))"

definition dep_pylib :: "blade \<Rightarrow> key \<Rightarrow> pyval list result" where
  "dep_pylib b k =
     rbind (build_target b k) (\<lambda>dep. rbind (get_target_file dep ''pylib'') (\<lambda>v. Inr (if truthy v then [v] else [])))"

definition python_binary_ninja_rules :: "string \<Rightarrow> set_order \<Rightarrow> target \<Rightarrow> blade \<Rightarrow> target result" where
  "python_binary_ninja_rules cwd so t b =
     (let output = target_file_path b t []
      in rbind (ninja_pylib so t b) (\<lambda>(pylib, t).
         rbind (rmap (dep_pylib b) (t_expanded_deps t)) (\<lambda>pylibs.
         rbind (python_ninja_vars t) (\<lambda>vars.
         rbind (get_entry cwd t) (\<lambda>entry.
         rbind (ninja_build (PyStr output) ''pythonbinary''
                  (PyList ((if pylib \<noteq> [] then [PyStr pylib] else []) @ concat pylibs)) [] []
                  (dict_order so (dset ''mainentry'' entry vars)) [] t)
           (add_default_target_file ''bin'' (PyStr output)))))))"

definition py_binary ::
  "string \<Rightarrow> pyval \<Rightarrow> pyval \<Rightarrow> pyval \<Rightarrow> pyval \<Rightarrow> (string, pyval) dict \<Rightarrow> blade \<Rightarrow> blade result" where
  "py_binary name srcs deps main base kwargs b = register_new (python_binary_init PythonBinaryC name srcs deps main base kwargs b)"

definition python_test_init ::
  "string \<Rightarrow> pyval \<Rightarrow> pyval \<Rightarrow> pyval \<Rightarrow> pyval \<Rightarrow> pyval \<Rightarrow> (string, pyval) dict \<Rightarrow> blade \<Rightarrow> (target \<times> blade) result" where
  "python_test_init name srcs deps main base testdata kwargs b =
     rbind (python_binary_init PythonTestC name srcs deps main base kwargs b) (\<lambda>(t, b).
       Inr (set_data ''testdata'' testdata (t\<lparr>t_type := ''py_test''\<rparr>), b))"

definition py_test ::
  "string \<Rightarrow> pyval \<Rightarrow> pyval \<Rightarrow> pyval \<Rightarrow> pyval \<Rightarrow> pyval \<Rightarrow> (string, pyval) dict \<Rightarrow> blade \<Rightarrow> blade result" where
  "py_test name srcs deps main base testdata kwargs b = register_new (python_test_init name srcs deps main base testdata kwargs b)"

end
