(* ===== verification/Java_Jar.thy ===== *)
theory Java_Jar
  imports Gen_Rule
begin

text \<open>
  The old Java target, \<open>src/blade/java_jar_target.py\<close>: sources of the target and of its generated dependencies are copied to
  one directory, compiled and packed. \<open>cwd\<close> is the working directory, \<open>exists_path\<close> says which files
  exist, and \<open>order\<close> is the order in which the set of source directories is listed.
\<close>

section \<open>Constructor\<close>

definition prebuilt_java_jar_build_path :: "blade \<Rightarrow> target \<Rightarrow> string" where
  "prebuilt_java_jar_build_path b t = path_join3 (b_build_path b) (t_path t) (t_name t @ ''.jar'')"

definition prebuilt_java_jar_src_path :: "target \<Rightarrow> string" where
  "prebuilt_java_jar_src_path t = path_join (t_path t) (t_name t @ ''.jar'')"

definition java_jar_init ::
  "string \<Rightarrow> pyval \<Rightarrow> pyval \<Rightarrow> pyval \<Rightarrow> (string, pyval) dict \<Rightarrow> blade \<Rightarrow> (target \<times> blade) result" where
  "java_jar_init name srcs deps prebuilt kwargs b =
     rbind (as_strs srcs) (\<lambda>srcs.
     rbind (as_strs deps) (\<lambda>deps.
     rbind (target_init JavaJarC name ''java_jar'' srcs deps PyNone kwargs b) (\<lambda>(t, b).
       let t = (if truthy prebuilt
                then set_data ''jar_class_path'' (PyStr (prebuilt_java_jar_src_path t)) (t\<lparr>t_type := ''prebuilt_java_jar''\<rparr>) else t)
       in Inr (set_data ''java_jars'' pnil t, b))))"

definition java_jar ::
  "string \<Rightarrow> pyval \<Rightarrow> pyval \<Rightarrow> pyval \<Rightarrow> pyval \<Rightarrow> (string, pyval) dict \<Rightarrow> blade \<Rightarrow> blade result" where
  "java_jar name srcs deps prebuilt pre_build kwargs b =
     rbind (java_jar_init name srcs deps (if truthy prebuilt then prebuilt else pre_build) kwargs b) (\<lambda>(t, b).
       register_target t
         (if truthy pre_build
          then say (Warn (''//'' @ t_path t @ '':'' @ t_name t @ '': '' @ quoted ''pre_build'' @ '' has been deprecated, please use '' @
                 quoted ''prebuilt'')) b
          else b))"

section \<open>Rules\<close>

text \<open>
  What the rules of a target remember: the files for which there is a command, the variables
  of commands, the directories of the copied sources and the class path.
\<close>

record jar_work =
  jw_target :: target
  jw_cmd_list :: "string list"
  jw_cmd_vars :: "string list"
  jw_after_dep_sources :: "string list"
  jw_classpath :: "string list"

definition jw_rule :: "(string \<Rightarrow> string) \<Rightarrow> jar_work \<Rightarrow> jar_work" where
  "jw_rule f j = j\<lparr>jw_target := env_rule f (jw_target j)\<rparr>"

definition jw_rules :: "(string \<Rightarrow> string list) \<Rightarrow> jar_work \<Rightarrow> jar_work" where
  "jw_rules f j = j\<lparr>jw_target := env_rules f (jw_target j)\<rparr>"

definition note_command :: "string \<Rightarrow> jar_work \<Rightarrow> jar_work" where
  "note_command path j = j\<lparr>jw_cmd_list := jw_cmd_list j @ [path]\<rparr>"

definition note_var :: "string \<Rightarrow> jar_work \<Rightarrow> jar_work" where
  "note_var var j = j\<lparr>jw_cmd_vars := jw_cmd_vars j @ [var]\<rparr>"

definition mkdir_rule :: "string \<Rightarrow> string \<Rightarrow> string" where
  "mkdir_rule path e = e @ ''.Command('' @ quoted path @ '', '' @ quoted [] @ '', [Mkdir('' @ quoted path @ '')])''"

definition make_directory :: "string \<Rightarrow> jar_work \<Rightarrow> jar_work" where
  "make_directory path j = (if path \<in> set (jw_cmd_list j) then j else note_command path (jw_rule (mkdir_rule path) j))"

definition java_jar_gen_class_root :: "blade \<Rightarrow> target \<Rightarrow> string" where
  "java_jar_gen_class_root b t = path_join3 (b_build_path b) (t_path t) (t_name t @ ''_classes'')"

definition dep_is_jar_to_compile :: "blade \<Rightarrow> key \<Rightarrow> bool result" where
  "dep_is_jar_to_compile b k =
     rbind (build_target b k) (\<lambda>dep. Inr (str_in ''java_jar'' (t_type dep) \<and> \<not> str_in ''prebuilt'' (t_type dep)))"

subsection \<open>Sources of dependencies\<close>

definition copy_rule :: "string \<Rightarrow> string \<Rightarrow> string \<Rightarrow> nat \<Rightarrow> string \<Rightarrow> string \<Rightarrow> string \<Rightarrow> string" where
  "copy_rule var path dummy idx src_dir cmd e =
     var @ '' = '' @ e @ ''.Command('' @ quoted (path @ ''/'' @ dummy @ show_nat idx) @ '', '' @ quoted src_dir @ '', ['' @ quoted cmd @ ''])''"

definition prepare_dep_source ::
  "string \<Rightarrow> string \<Rightarrow> string \<times> string \<times> string \<Rightarrow> nat \<times> jar_work \<Rightarrow> (nat \<times> jar_work) result" where
  "prepare_dep_source cwd new_src dep_src st =
     (case st of (idx, j) \<Rightarrow>
        rbind (relpath cwd (fst dep_src) (fst (snd dep_src))) (\<lambda>dep_dir.
          let var = t_name (jw_target j) @ ''_cmd_dep_var_'';
              new_path = path_join new_src dep_dir; here = (dep_dir = ''.'');
              j = (if here then j else j\<lparr>jw_after_dep_sources := jw_after_dep_sources j @ [new_path]\<rparr>);
              fresh = (new_path \<notin> set (jw_cmd_list j));
              j = (if fresh
                   then note_command new_path (note_var (var @ show_nat idx)
                          (jw_rule (\<lambda>e. var @ show_nat idx @ '' = '' @ mkdir_rule new_path e) j))
                   else j);
              idx = (if fresh then idx + 1 else idx)
          in Inr (idx + 1,
                  note_var (var @ show_nat idx)
                    (jw_rule (copy_rule (var @ show_nat idx) new_path ''dummy_file_'' (idx + 1) (if here then [] else fst dep_src)
                       (''cp '' @ fst dep_src @ ''/*.java '' @ new_path)) j))))"

definition explicit_dep_rule :: "blade \<Rightarrow> string \<Rightarrow> key \<Rightarrow> jar_work \<Rightarrow> jar_work result" where
  "explicit_dep_rule b var k j =
     rbind (build_target b k) (\<lambda>dep.
       let v = get_data dep ''java_sources_explict_dependency'' PyNone
       in if truthy v
          then rbind (py_text v) (\<lambda>text. Inr (jw_rule (\<lambda>e. e @ ''.Depends('' @ var @ '', '' @ text @ '')'') j))
          else Inr j)"

definition java_jar_rules_prepare_dep ::
  "string \<Rightarrow> string \<Rightarrow> (string \<times> string \<times> string) list \<Rightarrow> blade \<Rightarrow> jar_work \<Rightarrow> jar_work result" where
  "java_jar_rules_prepare_dep cwd new_src dep_sources b j =
     rbind (rfold (prepare_dep_source cwd new_src) dep_sources (0, j)) (\<lambda>(_, j).
       if dep_sources \<noteq> []
       then rfold (explicit_dep_rule b (t_name (jw_target j) @ ''_cmd_dep_var_0'')) (t_expanded_deps (jw_target j)) j
       else Inr j)"

subsection \<open>Compilation\<close>

definition java_jar_dep :: "blade \<Rightarrow> key \<Rightarrow> string list result" where
  "java_jar_dep b k =
     rbind (dep_is_jar_to_compile b k) (\<lambda>c. Inr (if c then [path_join3 (b_build_path b) (fst k) (snd k @ ''.jar'')] else []))"

definition java_jar_deps_list :: "blade \<Rightarrow> key list \<Rightarrow> string list result" where
  "java_jar_deps_list b deps = rbind (rmap (java_jar_dep b) deps) (\<lambda>jars. Inr (concat jars))"

text \<open>One directory of sources; the counter of the commands begins with zero for each.\<close>

definition copy_source_dir ::
  "string \<Rightarrow> string \<Rightarrow> string \<Rightarrow> string list \<times> jar_work \<Rightarrow> (string list \<times> jar_work) result" where
  "copy_source_dir cwd new_src src_dir st =
     (case st of (new_sources, j) \<Rightarrow>
        rbind (relpath cwd src_dir (t_path (jw_target j))) (\<lambda>rel_path.
          let package = (case str_find rel_path ''/'' of None \<Rightarrow> rel_path | Some pos \<Rightarrow> drop (pos + 1) rel_path);
              path = path_join new_src package;
              var = t_name (jw_target j) @ ''_cmd_src_var_'';
              fresh = (path \<notin> set (jw_cmd_list j));
              j = (if fresh then note_command path (jw_rule (\<lambda>e. var @ ''0 = '' @ mkdir_rule path e) j) else j);
              idx = (if fresh then 1 else 0)
          in Inr (new_sources @ [path],
                  note_var (var @ show_nat idx)
                    (jw_rule (copy_rule (var @ show_nat idx) path ''dummy_src_file_'' (idx + 1) src_dir
                       (''cp '' @ src_dir @ ''/*.java '' @ path)) j))))"

definition version_flag :: "blade \<Rightarrow> string \<Rightarrow> string \<Rightarrow> string result" where
  "version_flag b name flag =
     rbind (config_value b ''java_config'' name) (\<lambda>v.
       if truthy v then rbind (py_text v) (\<lambda>s. Inr ('' '' @ flag @ '' '' @ s)) else Inr [])"

definition javac_command :: "blade \<Rightarrow> string \<Rightarrow> string \<Rightarrow> string \<Rightarrow> string list \<Rightarrow> string result" where
  "javac_command b classpath class_root new_src source_dirs =
     rbind (version_flag b ''source_version'' ''-source'') (\<lambda>source.
     rbind (version_flag b ''target_version'' ''-target'') (\<lambda>target.
       Inr (''javac'' @ source @ target @ (if classpath = [] then [] else '' -classpath '' @ classpath) @ '' -d '' @ class_root @
            '' -sourcepath '' @ new_src @ '' '' @ join_with '' '' (map (\<lambda>d. path_join d ''*.java'') source_dirs))))"

definition dep_jars_rule :: "blade \<Rightarrow> string \<Rightarrow> key \<Rightarrow> jar_work \<Rightarrow> jar_work result" where
  "dep_jars_rule b var k j =
     rbind (build_target b k) (\<lambda>dep.
       let v = get_data dep ''java_jars'' PyNone
       in if truthy v
          then rbind (py_text v) (\<lambda>text. Inr (jw_rule (\<lambda>e. e @ ''.Depends('' @ var @ '', '' @ text @ '')'') j))
          else Inr j)"

definition java_jar_rules_compile_src ::
  "string \<Rightarrow> string list \<Rightarrow> string \<Rightarrow> blade \<Rightarrow> jar_work \<Rightarrow> (string \<times> string \<times> jar_work) result" where
  "java_jar_rules_compile_src cwd target_sources new_src b j =
     (let class_root = java_jar_gen_class_root b (jw_target j);
          classes_var = var_name (jw_target j) [] @ ''_classes''
      in rbind (java_jar_deps_list b (t_expanded_deps (jw_target j))) (\<lambda>jar_list.
         rbind (rfold (copy_source_dir cwd new_src) target_sources ([], j)) (\<lambda>(new_sources, j).
         rbind (javac_command b (join_with '':'' (jw_classpath j @ jar_list)) class_root new_src
                  (stable_unique (jw_after_dep_sources j @ new_sources))) (\<lambda>cmd.
           let j = jw_rule (\<lambda>e. classes_var @ '' = '' @ e @ ''.Command('' @
                     quoted (path_join class_root (t_name (jw_target j) @ ''_dummy_file_0'')) @ '', '' @ quoted [] @ '', ['' @ quoted cmd @ ''])'') j
           in rbind (rfold (dep_jars_rule b classes_var) (t_expanded_deps (jw_target j)) j) (\<lambda>j.
                let j = jw_rules (\<lambda>e. map (\<lambda>cmd. e @ ''.Depends('' @ classes_var @ '', '' @ cmd @ '')'') (jw_cmd_vars j)) j
                in Inr (class_root, classes_var, j\<lparr>jw_classpath := jw_classpath j @ [class_root]\<rparr>))))))"

subsection \<open>Packing\<close>

text \<open>\<open>f[0]\<close> for the entry \<open>jar_packing_files\<close> of a dependency.\<close>

definition first_text :: "pyval \<Rightarrow> string result" where
  "first_text v =
     (case v of
        PyTuple (x # _) \<Rightarrow> as_str x
      | PyList (x # _) \<Rightarrow> as_str x
      | PyStr (c # _) \<Rightarrow> Inr [c]
      | PyDict _ \<Rightarrow> Inl KeyError
      | _ \<Rightarrow> Inl TypeError)"

definition pack_dep_file ::
  "string \<Rightarrow> blade \<Rightarrow> key \<Rightarrow> nat \<times> string list \<times> jar_work \<Rightarrow> (nat \<times> string list \<times> jar_work) result" where
  "pack_dep_file class_path b k st =
     (case st of (idx, cmds, j) \<Rightarrow>
        rbind (build_target b k) (\<lambda>dep.
          let f = get_data dep ''jar_packing_files'' PyNone
          in if \<not> truthy f then Inr (idx, cmds, j)
             else
               rbind (first_text f) (\<lambda>src.
                 let var = t_name (jw_target j) @ ''_cmd_jar_var_'' @ show_nat idx; dst = path_join class_path (basename src)
                 in if dst \<in> set (jw_cmd_list j) then Inr (idx, cmds, j)
                    else Inr (idx + 1, cmds @ [var],
                              note_command dst
                                (jw_rule (\<lambda>e. var @ '' = '' @ e @ ''.Command('' @ quoted dst @ '', '' @ quoted src @ '', '' @
                                   replicate 28 (CHR '' '') @ ''[Copy('' @ quoted ''$TARGET'' @ '','' @ quoted ''$SOURCE'' @ '')])'') j)))))"

definition java_jar_rules_make_jar ::
  "(string \<Rightarrow> bool) \<Rightarrow> string \<Rightarrow> string \<Rightarrow> string \<Rightarrow> blade \<Rightarrow> jar_work \<Rightarrow> jar_work result" where
  "java_jar_rules_make_jar exists_path cwd class_path classes_var b j =
     (let t = jw_target j;
          cmd_jar = t_name t @ ''_cmd_jar'';
          build_file = path_join (b_root_dir b) ''BLADE_ROOT''; build_file_dst = path_join class_path ''BLADE_ROOT'';
          fresh = (build_file_dst \<notin> set (jw_cmd_list j));
          j = (if fresh
               then note_command build_file_dst
                      (jw_rule (\<lambda>e. cmd_jar @ '' = '' @ e @ ''.Command('' @ quoted build_file_dst @ '', '' @ quoted build_file @
                         '', [Copy('' @ quoted build_file_dst @ '', '' @ quoted build_file @ '')])'') j)
               else j)
      in rbind (rfold (pack_dep_file class_path b) (t_expanded_deps t) (0, if fresh then [cmd_jar] else [], j)) (\<lambda>(_, cmds, j).
         rbind (relpath cwd class_path (path_join (b_build_path b) (t_path t))) (\<lambda>rel_path.
           let jar_var = var_name t [] @ ''_'' @ replace_char slash (CHR ''_'') rel_path @ ''_jar'';
               jar = target_file_path b t [] @ ''.jar'';
               remove_var = ''cmd_remove_'' @ jar_var;
               removed = (jar \<notin> set (jw_cmd_list j) \<and> exists_path jar);
               j = jw_rules (\<lambda>e.
                     (if removed
                      then [remove_var @ '' = '' @ e @ ''.Command('' @ quoted (jar @ ''.jar'') @ '', '' @ quoted [] @ '', [Delete('' @
                              quoted jar @ '')])''] else []) @
                     [jar_var @ '' = '' @ e @ ''.BladeJar(['' @ quoted jar @ ''], '' @ quoted build_file_dst @ '')'']) j
           in rbind (dindex (t_data (jw_target j)) ''java_jars'') (\<lambda>jars.
              rbind (case jars of PyList js \<Rightarrow> Inr (PyList (js @ [PyStr jar])) | _ \<Rightarrow> Inl (AttributeError ''append'')) (\<lambda>jars.
                Inr (jw_rules (\<lambda>e. map (\<lambda>v. e @ ''.Depends('' @ jar_var @ '', '' @ v @ '')'')
                       ([classes_var] @ cmds @ (if removed then [remove_var] else [])))
                     (j\<lparr>jw_target := set_data ''java_jars'' jars (jw_target j)\<rparr>)))))))"

section \<open>All rules\<close>

fun java_source_of_py :: "pyval \<Rightarrow> (string \<times> string \<times> string) result" where
  "java_source_of_py (PyTuple [PyStr a, PyStr b, PyStr c]) = Inr (a, b, c)"
| "java_source_of_py _ = Inl TypeError"

definition dep_java_source :: "blade \<Rightarrow> key \<Rightarrow> (string \<times> string \<times> string) list result" where
  "dep_java_source b k =
     rbind (build_target b k) (\<lambda>dep.
       let v = get_data dep ''java_sources'' PyNone
       in if truthy v then rbind (java_source_of_py v) (\<lambda>s. Inr [s]) else Inr [])"

definition dep_class_path :: "blade \<Rightarrow> key \<Rightarrow> string list result" where
  "dep_class_path b k =
     rbind (build_target b k) (\<lambda>dep.
       let v = get_data dep ''jar_class_path'' PyNone in if truthy v then rbind (as_str v) (\<lambda>s. Inr [s]) else Inr [])"

definition java_jar_scons_rules ::
  "((string \<times> string \<times> string) list \<Rightarrow> (string \<times> string \<times> string) list) \<Rightarrow> (string \<Rightarrow> bool) \<Rightarrow> string \<Rightarrow> target \<Rightarrow> blade \<Rightarrow>
   target result" where
  "java_jar_scons_rules order exists_path cwd t b =
     (let t = clone_env t
      in if t_type t = ''prebuilt_java_jar'' then
           Inr (write_rule (''Command('' @ quoted (prebuilt_java_jar_build_path b t) @ '', '' @ quoted (prebuilt_java_jar_src_path t) @
             '', Copy('' @ quoted ''$TARGET'' @ '', '' @ quoted ''$SOURCE'' @ ''))'') t)
         else
           let t = snd (env_name t);
               new_src = path_join3 (b_build_path b) (t_path t) (t_name t @ ''_src'')
           in rbind (rmap (\<lambda>k. rbind (build_target b k) (\<lambda>dep. data_strs dep ''java_dep_var'')) (t_expanded_deps t)) (\<lambda>dep_vars.
              rbind (rmap (dep_java_source b) (t_expanded_deps t)) (\<lambda>sources.
              rbind (rmap (dep_class_path b) (t_expanded_deps t)) (\<lambda>classpath.
                let dep_sources = order (remdups (concat sources));
                    j = \<lparr>jw_target = t, jw_cmd_list = [], jw_cmd_vars = concat dep_vars, jw_after_dep_sources = [],
                         jw_classpath = concat classpath\<rparr>;
                    j = make_directory new_src (make_directory (java_jar_gen_class_root b t) j)
                in rbind (if dep_sources \<noteq> [] then java_jar_rules_prepare_dep cwd new_src dep_sources b j else Inr j) (\<lambda>j.
                   rbind (java_jar_rules_compile_src cwd (stable_unique (map (path_join (t_path t)) (t_srcs t))) new_src b j)
                     (\<lambda>(class_path, classes_var, j).
                   rbind (java_jar_rules_make_jar exists_path cwd class_path classes_var b j) (\<lambda>j. Inr (jw_target j))))))))"

end
