(* ===== verification/Cu_Targets.thy ===== *)
theory Cu_Targets
  imports Cc_Classes
begin

text \<open>
  CUDA targets (\<open>src/blade/cu_targets.py\<close>): libraries, binaries and tests, with their rules for SCons. The arguments
  are those of C++ targets; visibility, exported includes and optimisation flags are not among
  them, and the constructor of the base class is given its defaults instead.
\<close>

section \<open>Base class\<close>

definition cu_target_init :: "tclass \<Rightarrow> string \<Rightarrow> 'a cc_args_scheme \<Rightarrow> blade \<Rightarrow> (target \<times> blade) result" where
  "cu_target_init c target_type a b =
     cc_target_init c target_type (a\<lparr>ca_visibility := PyNone, ca_export_incs := pnil, ca_optimize := pnil\<rparr>) b"

definition get_cu_flags :: "target \<Rightarrow> blade \<Rightarrow> (string list \<times> string list) result" where
  "get_cu_flags t b =
     rbind (data_strs t ''defs'') (\<lambda>defs.
     rbind (opt b ''profile'') (\<lambda>profile.
     rbind (if profile = PyStr ''release'' \<or> truthy (get_data t ''always_optimize'' PyNone)
            then get_optimize_flags t b else Inr []) (\<lambda>oflags.
     rbind (get_incs_list (b_target_database b) t) (\<lambda>incs.
       Inr ((if get_data t ''warning'' pempty = PyStr ''no'' then [''-w''] else []) @ map ((@) ''-D'') defs @ oflags, incs)))))"

definition cu_object :: "target \<Rightarrow> string \<Rightarrow> string" where
  "cu_object t src = ''obj_'' @ var_name_of t src []"

definition cu_object_rule :: "string \<Rightarrow> blade \<Rightarrow> target \<Rightarrow> string \<Rightarrow> string \<Rightarrow> string" where
  "cu_object_rule flags b t e src =
     cu_object t src @ '' = '' @ e @ ''.NvccObject(NVCCFLAGS='' @ quoted flags @ '', target='' @
     quoted (path_join (path_join3 (b_build_path b) (t_path t) (t_name t @ ''.objs'')) src) @ '' + top_env['' @
     quoted ''OBJSUFFIX'' @ ''], source='' @ quoted (target_file_path b t src) @ '')''"

definition cu_objects_rules :: "target \<Rightarrow> blade \<Rightarrow> target result" where
  "cu_objects_rules t b =
     rbind (get_cu_flags t b) (\<lambda>(flags, incs).
       let options = ''-I'' @ join_with '' -I'' incs @ '' '' @ join_with '' '' flags;
           t = env_rules (\<lambda>e. map (cu_object_rule options b t e) (t_srcs t)) t
       in rbind (objs_name t) (\<lambda>(objs, t).
            Inr (write_rule (objs @ '' = ['' @ join_with '','' (map (cu_object t) (t_srcs t)) @ '']'') t)))"

section \<open>Libraries\<close>

definition cu_library_init :: "'a cc_args_scheme \<Rightarrow> blade \<Rightarrow> (target \<times> blade) result" where
  "cu_library_init a b = cu_target_init CuLibraryC ''cu_library'' a b"

definition cu_library :: "cc_args \<Rightarrow> blade \<Rightarrow> blade result" where
  "cu_library a b = register_new (cu_library_init a b)"

definition cu_library_scons_rules :: "target \<Rightarrow> blade \<Rightarrow> (target \<times> blade) result" where
  "cu_library_scons_rules t b =
     (case cc_prepare_to_generate_rule t b of (t, b) \<Rightarrow>
        rbind (cu_objects_rules t b) (\<lambda>t. rbind (cc_library_rules t b) (\<lambda>t. Inr (t, b))))"

section \<open>Binaries and tests\<close>

definition cu_binary_init :: "tclass \<Rightarrow> 'a cc_args_scheme \<Rightarrow> blade \<Rightarrow> (target \<times> blade) result" where
  "cu_binary_init c a b = cu_target_init c ''cu_binary'' a b"

definition cu_binary :: "cc_args \<Rightarrow> blade \<Rightarrow> blade result" where
  "cu_binary a b = register_new (cu_binary_init CuBinaryC a b)"

definition nvcc_rule :: "string \<Rightarrow> string" where
  "nvcc_rule e =
     e @ ''.Replace('' @ join_with '', '' (map (\<lambda>tool. tool @ ''='' @ e @ ''['' @ quoted ''NVCC'' @ '']'')
       [''CC'', ''CPP'', ''CXX'', ''LINK'']) @ '')''"

definition cu_binary_rules :: "target \<Rightarrow> blade \<Rightarrow> target result" where
  "cu_binary_rules t b =
     rbind (get_static_deps_lib_list b t) (\<lambda>(link_all, lib_str, whole).
     rbind (setup_link_flags (export_dynamic_rule (whole_archive_rule whole t))) (\<lambda>t.
     rbind (objs_name t) (\<lambda>(objs, t).
       let var = var_name t [];
           t = env_rules (\<lambda>e. [nvcc_rule e,
                 var @ '' = '' @ e @ ''.Program('' @ quoted (target_file_path b t []) @ '', '' @ objs @ '', '' @ lib_str @ '')'',
                 e @ ''.Depends('' @ var @ '', '' @ objs @ '')'']) t
       in Inr (env_rule (\<lambda>e. e @ ''.Requires('' @ var @ '', version_obj)'') (depends_rule link_all t)))))"

definition cu_binary_scons_rules :: "target \<Rightarrow> blade \<Rightarrow> (target \<times> blade) result" where
  "cu_binary_scons_rules t b =
     (case cc_prepare_to_generate_rule t b of (t, b) \<Rightarrow>
        rbind (cu_objects_rules t b) (\<lambda>t. rbind (cu_binary_rules t b) (\<lambda>t. Inr (t, b))))"

record cu_test_args = cc_args +
  cu_testdata :: pyval
  cu_always_run :: pyval
  cu_exclusive :: pyval

definition cu_test_init :: "cu_test_args \<Rightarrow> blade \<Rightarrow> (target \<times> blade) result" where
  "cu_test_init a b =
     rbind (cu_binary_init CuTestC a b) (\<lambda>(t, b).
       let t = set_all [(''testdata'', PyList (var_to_list (cu_testdata a))), (''always_run'', cu_always_run a),
                        (''exclusive'', cu_exclusive a)] (t\<lparr>t_type := ''cu_test''\<rparr>)
       in rbind (add_config_library ''cc_test_config'' ''gtest_libs'' (t, b))
            (add_config_library ''cc_test_config'' ''gtest_main_libs''))"

definition cu_test :: "cu_test_args \<Rightarrow> blade \<Rightarrow> blade result" where
  "cu_test a b = register_new (cu_test_init a b)"

end
