(* ===== verification/Swig_Library.thy ===== *)
theory Swig_Library
  imports Proto_Rules
begin

text \<open>
  SWIG targets (\<open>src/blade/swig_library_target.py\<close>): the constructor and the SCons rules of the wrappers for Python, Java
  and PHP. The include directories that the platform reports for Java and PHP are arguments.
\<close>

section \<open>Constructor\<close>

record swig_args =
  sw_name :: string
  sw_srcs :: pyval
  sw_deps :: pyval
  sw_warning :: pyval
  sw_java_package :: pyval
  sw_java_lib_packed :: pyval
  sw_optimize :: pyval
  sw_extra_swigflags :: pyval
  sw_kwargs :: "(string, pyval) dict"

definition swig_library_init :: "swig_args \<Rightarrow> blade \<Rightarrow> (target \<times> blade) result" where
  "swig_library_init a b =
     rbind (cc_target_init SwigLibraryC ''swig_library''
              \<lparr>ca_name = sw_name a, ca_srcs = sw_srcs a, ca_deps = sw_deps a, ca_visibility = PyNone, ca_warning = sw_warning a,
               ca_defs = pnil, ca_incs = pnil, ca_export_incs = pnil, ca_optimize = sw_optimize a,
               ca_extra_cppflags = sw_extra_swigflags a, ca_extra_linkflags = pnil, ca_kwargs = sw_kwargs a\<rparr> b) (\<lambda>(t, b).
       Inr (set_all [(''cpperraswarn'', sw_warning a), (''java_package'', sw_java_package a),
                     (''java_lib_packed'', sw_java_lib_packed a), (''java_dep_var'', pnil),
                     (''java_sources_explict_dependency'', pnil), (''python_vars'', pnil), (''python_sources'', pnil)] t, b))"

definition swig_library :: "swig_args \<Rightarrow> blade \<Rightarrow> blade result" where
  "swig_library a b = register_new (swig_library_init a b)"

section \<open>Generated files\<close>

text \<open>\<open>src[:-2]\<close> with another ending, in the build directory.\<close>

definition swig_gen_file :: "string \<Rightarrow> blade \<Rightarrow> target \<Rightarrow> string \<Rightarrow> string" where
  "swig_gen_file ending b t src = path_join3 (b_build_path b) (t_path t) (take (length src - 2) src @ ending)"

definition pyswig_gen_python_file :: "blade \<Rightarrow> target \<Rightarrow> string \<Rightarrow> string" where
  "pyswig_gen_python_file = swig_gen_file ''.py''"

definition pyswig_gen_file :: "blade \<Rightarrow> target \<Rightarrow> string \<Rightarrow> string" where
  "pyswig_gen_file = swig_gen_file ''_pywrap.cxx''"

definition javaswig_gen_file :: "blade \<Rightarrow> target \<Rightarrow> string \<Rightarrow> string" where
  "javaswig_gen_file = swig_gen_file ''_javawrap.cxx''"

definition phpswig_gen_file :: "blade \<Rightarrow> target \<Rightarrow> string \<Rightarrow> string" where
  "phpswig_gen_file = swig_gen_file ''_phpwrap.cxx''"

text \<open>
  The files that a source includes. A line keeps its newline in the code; it is stripped with
  the quotes, so that the lines here end before it.
\<close>

definition included_file :: "string \<Rightarrow> string list \<Rightarrow> string list result" where
  "included_file line dep =
     (if startswith line ''#include'' \<or> startswith line ''%include'' then
        (case split_on (CHR '' '') line of
           _ # word # _ \<Rightarrow>
             let name = strip_by (\<lambda>c. c \<in> {squote, dquote, CHR 0x0D, newline}) word
             in Inr (if CHR ''<'' \<in> set name then dep else add_new name dep)
         | _ \<Rightarrow> Inl IndexError)
      else Inr dep)"

definition swig_extract_dependency_files :: "java_fs \<Rightarrow> string \<Rightarrow> string list result" where
  "swig_extract_dependency_files fs src =
     (if \<not> jf_isfile fs src then Inl (PyException ''IOError'')
      else rbind (rfold included_file (split_on newline (jf_content fs src)) []) (\<lambda>dep. Inr (filter (jf_exists fs) dep)))"

section \<open>Rules\<close>

definition warn_flag :: "target \<Rightarrow> string" where
  "warn_flag t = (if get_data t ''cpperraswarn'' pempty = PyStr ''yes'' then '' -cpperraswarn'' else [])"

definition wrapper_object_rule :: "string \<Rightarrow> string \<Rightarrow> string \<Rightarrow> string" where
  "wrapper_object_rule obj e src =
     obj @ '' = '' @ e @ ''.SharedObject(target='' @ quoted src @ '' + top_env['' @ quoted ''OBJSUFFIX'' @ ''], source='' @ quoted src @ '')''"

definition wrapper_depends_rule :: "string \<Rightarrow> string \<Rightarrow> string list \<Rightarrow> string" where
  "wrapper_depends_rule e src deps = e @ ''.Depends('' @ quoted src @ '', '' @ repr_strs deps @ '')''"

definition objs_rule :: "string \<Rightarrow> string list \<Rightarrow> target \<Rightarrow> (string \<times> target) result" where
  "objs_rule sfx objs t =
     rbind (objs_name t) (\<lambda>(name, t).
       Inr (name @ sfx, write_rule (name @ sfx @ '' = ['' @ join_with '','' objs @ '']'') t))"

text \<open>The shared library of the wrappers, and its dependence on the libraries that are linked as a whole.\<close>

definition wrapper_library ::
  "string \<Rightarrow> string \<Rightarrow> string \<Rightarrow> string \<Rightarrow> string \<Rightarrow> target \<Rightarrow> target" where
  "wrapper_library var path objs lib_str options t =
     (if t_srcs t \<noteq> [] \<or> t_expanded_deps t \<noteq> []
      then env_rule (\<lambda>e. var @ '' = '' @ e @ ''.SharedLibrary('' @ quoted path @ '', '' @ objs @ '', '' @ lib_str @ options @ '')'') t
      else t)"

definition wrapper_library_depends :: "string \<Rightarrow> string list \<Rightarrow> target \<Rightarrow> target" where
  "wrapper_library_depends var libs t =
     (if libs \<noteq> [] then env_rule (\<lambda>e. e @ ''.Depends('' @ var @ '', ['' @ join_with '', '' libs @ ''])'') t else t)"

subsection \<open>Python\<close>

definition swig_py_source ::
  "java_fs \<Rightarrow> blade \<Rightarrow> string \<Rightarrow> string list \<times> (string, string list) dict \<times> target \<Rightarrow>
   (string list \<times> (string, string list) dict \<times> target) result" where
  "swig_py_source fs b src st =
     (case st of (objs, dep_map, t) \<Rightarrow>
        let cxx = pyswig_gen_file b t src; src_path = path_join (t_path t) src;
            obj = var_name_of t src ''python'' @ ''_object'';
            t = env_rule (\<lambda>e. e @ ''.SwigPython(['' @ quoted cxx @ ''], '' @ quoted src_path @ '')'') t
        in rbind (append_data ''python_sources'' (PyStr (pyswig_gen_python_file b t src)) t) (\<lambda>t.
           rbind (append_data ''python_vars'' (PyStr obj) (env_rule (\<lambda>e. wrapper_object_rule obj e cxx) t)) (\<lambda>t.
           rbind (swig_extract_dependency_files fs src_path) (\<lambda>deps.
             Inr (objs @ [obj], dset src_path deps dep_map, env_rule (\<lambda>e. wrapper_depends_rule e cxx deps) t)))))"

definition python_library_path :: "blade \<Rightarrow> target \<Rightarrow> string" where
  "python_library_path b t =
     (let path = target_file_path b t []; lib = basename path
      in path_join (dirname path) (if startswith lib ''_'' then lib else ''_'' @ lib))"

definition swig_library_rules_py :: "java_fs \<Rightarrow> target \<Rightarrow> blade \<Rightarrow> ((string, string list) dict \<times> target) result" where
  "swig_library_rules_py fs t b =
     (let var = var_name t ''dynamic_py''
      in rbind (setup_cc_flags (env_rule (\<lambda>e. e @ ''.Append(SWIGPYTHONFLAGS='' @ quoted (warn_flag t) @ '')'') t) b) (\<lambda>t.
         rbind (rfold (swig_py_source fs b) (t_srcs t) ([], [], t)) (\<lambda>(obj_names, dep_map, t).
         rbind (objs_rule ''_py'' obj_names t) (\<lambda>(objs, t).
         rbind (get_static_deps_lib_list b t) (\<lambda>(link_all, lib_str, whole).
           let path = python_library_path b t;
               t = (if whole \<noteq> [] then env_rule (\<lambda>e. e @ ''.Append(LINKFLAGS=['' @ whole @ ''])'') t else t);
               t = wrapper_library var path objs lib_str ('', SHLIBPREFIX = '' @ quoted []) t
           in rbind (if t_srcs t \<noteq> [] \<or> t_expanded_deps t \<noteq> []
                     then rbind (append_data ''python_sources'' (PyStr (path @ ''.so'')) t) (append_data ''python_vars'' (PyStr var))
                     else Inr t) (\<lambda>t.
                Inr (dep_map, wrapper_library_depends var link_all t)))))))"

subsection \<open>Java\<close>

text \<open>The files of a source: from the table when it is there.\<close>

definition known_deps :: "java_fs \<Rightarrow> (string, string list) dict \<Rightarrow> string \<Rightarrow> string list result" where
  "known_deps fs dep_map key =
     (case dget dep_map key of Some deps \<Rightarrow> Inr deps | None \<Rightarrow> swig_extract_dependency_files fs key)"

definition swig_java_source ::
  "java_fs \<Rightarrow> (string, string list) dict \<Rightarrow> bool \<Rightarrow> string \<Rightarrow> blade \<Rightarrow> string \<Rightarrow> string list \<times> target \<Rightarrow>
   (string list \<times> target) result" where
  "swig_java_source fs dep_map depend_outdir out_dir b src st =
     (case st of (objs, t) \<Rightarrow>
        let cxx = javaswig_gen_file b t src; src_path = path_join (t_path t) src;
            var = var_name t ''dynamic_java'' @ ''_'' @ regular_variable_name (basename src);
            obj = var_name_of t src ''dynamic_java'' @ ''_object'';
            t = env_rule (\<lambda>e. var @ '' = '' @ e @ ''.SwigJava(['' @ quoted cxx @ ''], '' @ quoted src_path @ '')'') t
        in rbind (append_data ''java_sources_explict_dependency'' (PyStr cxx) t) (\<lambda>t.
             let t = (if depend_outdir
                      then env_rule (\<lambda>e. e @ ''.Depends('' @ var @ '', '' @ quoted (path_join out_dir ''dummy_file'') @ '')'') t else t)
             in rbind (append_data ''java_dep_var'' (PyStr var) t) (\<lambda>t.
                rbind (known_deps fs dep_map src_path) (\<lambda>deps.
                  Inr (objs @ [obj],
                       env_rules (\<lambda>e. [wrapper_object_rule obj e cxx, wrapper_depends_rule e cxx deps]) t)))))"

definition swig_library_rules_java_helper ::
  "java_fs \<Rightarrow> string list \<Rightarrow> bool \<Rightarrow> bool \<Rightarrow> bool \<Rightarrow> string \<Rightarrow> (string, string list) dict \<Rightarrow> target \<Rightarrow> blade \<Rightarrow> target result" where
  "swig_library_rules_java_helper fs java_includes depend_outdir build_jar lib_packed out_dir dep_map t b =
     (let var = var_name t ''dynamic_java'';
          t = (if java_includes \<noteq> [] then env_rule (\<lambda>e. e @ ''.Append(CPPPATH='' @ repr_strs java_includes @ '')'') t else t)
      in rbind (rfold (swig_java_source fs dep_map depend_outdir out_dir b) (t_srcs t) ([], t)) (\<lambda>(obj_names, t).
         rbind (objs_rule ''_dynamic_java'' obj_names t) (\<lambda>(objs, t).
         rbind (get_static_deps_lib_list b t) (\<lambda>(link_all, lib_str, _).
           let path = target_file_path b t [] @ ''_java'';
               t = wrapper_library_depends var link_all (wrapper_library var path objs lib_str [] t)
           in Inr (if build_jar \<and> lib_packed
                   then set_data ''jar_packing_file''
                          (PyTuple [PyStr (path_join (dirname path) (''lib'' @ basename path @ ''.so'')), PyStr (t_name t)]) t
                   else t)))))"

text \<open>The flags for a package: its directory is made when it is not there.\<close>

definition java_package_rules ::
  "java_fs \<Rightarrow> bool \<Rightarrow> string \<Rightarrow> target \<Rightarrow> blade \<Rightarrow> (string \<times> bool \<times> string \<times> target) result" where
  "java_package_rules fs build_jar package t b =
     (let out_dir = path_join3 (b_build_path b) (t_path t) (replace_char (CHR ''.'') slash package);
          cmd = var_name t ''dynamic_java'' @ ''_swig_out_cmd_var'';
          missing = \<not> jf_exists fs out_dir
      in rbind (if missing
                then append_data ''java_dep_var'' (PyStr cmd)
                       (env_rule (\<lambda>e. cmd @ '' = '' @ e @ ''.Command('' @ quoted (path_join out_dir ''dummy_file'') @ '', '' @ quoted [] @
                          '', [Mkdir('' @ quoted out_dir @ '')])'') t)
                else Inr t) (\<lambda>t.
           Inr ('' -package '' @ package @ '' -outdir '' @ out_dir, missing, out_dir,
                if build_jar
                then set_data ''java_sources''
                       (PyTuple [PyStr out_dir, PyStr (path_join (b_build_path b) (t_path t)), PyStr (t_name t)]) t
                else t)))"

definition swig_library_rules_java ::
  "java_fs \<Rightarrow> string list \<Rightarrow> (string, string list) dict \<Rightarrow> target \<Rightarrow> blade \<Rightarrow> target result" where
  "swig_library_rules_java fs java_includes dep_map t b =
     (let t = env_rule (\<lambda>e. e @ ''.Append(CPPFLAGS = ['' @ quoted ''-fno-strict-aliasing'' @ ''])'') t;
          build_jar = truthy (get_data t ''generate_java'' PyNone);
          package = get_data t ''java_package'' pempty;
          lib_packed = truthy (get_data t ''java_lib_packed'' (PyBool False));
          warn = warn_flag t
      in rbind (if truthy package then rbind (as_str package) (\<lambda>p. java_package_rules fs build_jar p t b)
                else Inr ([], False, path_join (b_build_path b) (t_path t), t)) (\<lambda>(flags, depend_outdir, out_dir, t).
           swig_library_rules_java_helper fs java_includes depend_outdir build_jar lib_packed out_dir dep_map
             (env_rule (\<lambda>e. e @ ''.Append(SWIGJAVAFLAGS='' @ quoted (warn @ flags) @ '')'') t) b))"

subsection \<open>PHP\<close>

definition swig_php_source :: "java_fs \<Rightarrow> blade \<Rightarrow> string \<Rightarrow> string list \<times> target \<Rightarrow> (string list \<times> target) result" where
  "swig_php_source fs b src st =
     (case st of (objs, t) \<Rightarrow>
        let cxx = phpswig_gen_file b t src; src_path = path_join (t_path t) src;
            obj = var_name_of t src ''php'' @ ''_object''
        in rbind (swig_extract_dependency_files fs src_path) (\<lambda>deps.
             Inr (objs @ [obj],
                  env_rules (\<lambda>e. [e @ ''.SwigPhp(['' @ quoted cxx @ ''], '' @ quoted src_path @ '')'', wrapper_object_rule obj e cxx,
                    wrapper_depends_rule e cxx deps]) t)))"

text \<open>The table of the Python rules is replaced by an empty one, so that every source is read again.\<close>

definition swig_library_rules_php :: "java_fs \<Rightarrow> string list \<Rightarrow> target \<Rightarrow> blade \<Rightarrow> target result" where
  "swig_library_rules_php fs php_incs t b =
     (let var = var_name t [];
          t = env_rules (\<lambda>e. [e @ ''.Append(SWIGPHPFLAGS='' @ quoted (warn_flag t) @ '')''] @
                (if php_incs \<noteq> [] then [e @ ''.Append(CPPPATH='' @ repr_strs php_incs @ '')''] else [])) t
      in rbind (rfold (swig_php_source fs b) (t_srcs t) ([], t)) (\<lambda>(obj_names, t).
         rbind (objs_rule ''_php'' obj_names t) (\<lambda>(objs, t).
         rbind (get_static_deps_lib_list b t) (\<lambda>(link_all, lib_str, _).
           let path = target_file_path b t []
           in Inr (wrapper_library_depends var link_all
                (wrapper_library var (path_join (dirname path) (basename path)) objs lib_str ('', SHLIBPREFIX='' @ quoted []) t))))))"

section \<open>All languages\<close>

definition swig_scons_rules ::
  "java_fs \<Rightarrow> string list \<Rightarrow> string list \<Rightarrow> target \<Rightarrow> blade \<Rightarrow> (target \<times> blade) result" where
  "swig_scons_rules fs java_includes php_incs t b =
     (case cc_prepare_to_generate_rule t b of (t, b) \<Rightarrow>
        rbind (swig_library_rules_py fs t b) (\<lambda>(dep_map, t).
        rbind (when_ok (generates t b ''generate_java'') (\<lambda>t. swig_library_rules_java fs java_includes dep_map t b) t) (\<lambda>t.
        rbind (if truthy (opt_default b ''generate_php'' (PyBool False)) then
                 (if php_incs = []
                  then Inl (SystemExit (''failed to build //'' @ t_path t @ '':'' @ t_name t @ '', please install php modules''))
                  else swig_library_rules_php fs php_incs t b)
               else Inr t) (\<lambda>t. Inr (t, b)))))"

end
