(* ===== verification/Thrift_Facts.thy ===== *)
theory Thrift_Facts
  imports Thrift_Library Target_Facts
begin

text \<open>
  Thrift targets: what the constructor checks is what the rules rely on, and every generated
  file is recorded.
\<close>

section \<open>Constructor\<close>

lemma target_init_srcs:
  assumes "target_init c name ty srcs deps visibility kwargs b = Inr (t, b')"
  shows "t_srcs t = srcs"
proof -
  obtain t1 b1 t2 b2 where b1: "begin_target c name ty srcs kwargs b = Inr (t1, b1)"
    and b2: "rfold init_target_dep deps (t1, b1) = Inr (t2, b2)" and vis: "init_visibility visibility t2 b2 = Inr (t, b')"
    using assms by (auto simp: target_init_def init_target_deps_def rbind_eq_Inr)
  have "t_srcs t1 = srcs" by (rule new_target_ok(7) [OF begin_target_ok(1) [OF b1]])
  moreover have "t_srcs t2 = t_srcs t1" using init_target_deps_ok [OF b2] by simp
  moreover have "t_srcs t = t_srcs t2" using init_visibility_ok [OF vis] by auto
  ultimately show ?thesis by simp
qed

lemma set_all_frame [simp]: "t_srcs (set_all kvs t) = t_srcs t" "t_path (set_all kvs t) = t_path t"
  by (induction kvs arbitrary: t) (auto simp: set_all_def set_data_def split: prod.splits)

lemma cc_target_init_srcs:
  assumes "cc_target_init c ty a b = Inr (t, b')" and "as_strs (ca_srcs a) = Inr srcs"
  shows "t_srcs t = srcs"
proof -
  obtain deps u b1 where init: "target_init c (ca_name a) ty srcs deps (ca_visibility a) (ca_kwargs a) b = Inr (u, b1)"
    and t: "t_srcs t = t_srcs u"
    using assms by (auto simp: cc_target_init_def rbind_eq_Inr Let_def)
  show ?thesis using t target_init_srcs [OF init] by simp
qed

lemma add_hardcode_dep_frame:
  "add_hardcode_dep dep (t, b) = Inr (u, b') \<Longrightarrow> t_srcs u = t_srcs t \<and> t_data u = t_data t \<and> t_path u = t_path t"
  by (auto simp: add_hardcode_dep_def rbind_eq_Inr)

lemma add_hardcode_library_frame:
  assumes "add_hardcode_library deps t b = Inr (u, b')"
  shows "t_srcs u = t_srcs t \<and> t_data u = t_data t \<and> t_path u = t_path t"
  using assms unfolding add_hardcode_library_def
proof (induction deps arbitrary: t b)
  case (Cons d deps)
  then obtain t1 b1 where "add_hardcode_dep d (t, b) = Inr (t1, b1)" and "rfold add_hardcode_dep deps (t1, b1) = Inr (u, b')"
    by (auto simp: rbind_eq_Inr)
  then show ?case using Cons.IH add_hardcode_dep_frame by metis
qed simp

lemma add_config_library_frame:
  "add_config_library s n (t, b) = Inr (u, b') \<Longrightarrow> t_srcs u = t_srcs t \<and> t_data u = t_data t \<and> t_path u = t_path t"
  by (auto simp: add_config_library_def rbind_eq_Inr dest: add_hardcode_library_frame)

section \<open>Helpers\<close>

lemma thrift_helper_has_definitions: "thrift_helper_init fs dir src = Inr h \<Longrightarrow> has_definitions h"
  by (auto simp: thrift_helper_init_def parse_file_def Let_def split: if_splits)

lemma java_files_nonempty: "has_definitions h \<Longrightarrow> get_generated_java_files h \<noteq> []"
  by (auto simp: has_definitions_def get_generated_java_files_def Let_def)

definition helper_of :: "thrift_helpers \<Rightarrow> string \<Rightarrow> thrift_helper" where
  "helper_of helpers src = the (dget helpers src)"

definition helpers_ok :: "thrift_helpers \<Rightarrow> string list \<Rightarrow> bool" where
  "helpers_ok helpers srcs \<longleftrightarrow> (\<forall>src \<in> set srcs. \<exists>h. dget helpers src = Some h \<and> has_definitions h)"

lemma add_helper_result:
  "add_helper new src helpers = Inr helpers' \<Longrightarrow> \<exists>h. new src = Inr h \<and> helpers' = dset src h helpers"
  by (auto simp: add_helper_def rbind_eq_Inr)

lemma add_helpers_ok:
  assumes "rfold (add_helper (thrift_helper_init fs dir)) srcs helpers = Inr helpers'" and "helpers_ok helpers done"
  shows "helpers_ok helpers' (done @ srcs)"
  using assms
proof (induction srcs arbitrary: helpers "done")
  case (Cons src srcs)
  then obtain h where h: "thrift_helper_init fs dir src = Inr h"
    and rest: "rfold (add_helper (thrift_helper_init fs dir)) srcs (dset src h helpers) = Inr helpers'"
    by (auto simp: rbind_eq_Inr dest!: add_helper_result)
  have "helpers_ok (dset src h helpers) (done @ [src])"
    using Cons.prems(2) thrift_helper_has_definitions [OF h] by (auto simp: helpers_ok_def)
  from Cons.IH [OF rest this] show ?case by simp
qed simp

section \<open>Rules\<close>

text \<open>The entries of a target to which its rules append.\<close>

definition appendable :: "string list \<Rightarrow> target \<Rightarrow> bool" where
  "appendable names t \<longleftrightarrow> (\<forall>name \<in> set names. \<exists>vs. dget (t_data t) name = Some (PyList vs))"

lemma dget_set_data [simp]: "dget (t_data (set_data n v t)) m = (if m = n then Some v else dget (t_data t) m)"
  by (simp add: set_data_def)

lemma extend_data_ok:
  assumes "appendable names t" and "n \<in> set names" and "data_strs t n = Inr old"
  shows "\<exists>u. extend_data n vs t = Inr u \<and> appendable names u \<and> data_strs u n = Inr (old @ vs) \<and>
    (\<forall>m. m \<noteq> n \<longrightarrow> data_strs u m = data_strs t m) \<and> t_srcs u = t_srcs t \<and> target_file_path b u = target_file_path b t"
proof -
  obtain us where us: "dget (t_data t) n = Some (PyList us)" using assms(1,2) by (auto simp: appendable_def)
  have "rmap as_str us = Inr old" using assms(3) us by (simp add: data_strs_def get_data_def dgetd_def)
  then have "rmap as_str (us @ map PyStr vs) = Inr (old @ vs)"
    by (induction us arbitrary: old) (auto simp: rbind_eq_Inr)
  then show ?thesis
    using assms(1) us
    by (auto simp: extend_data_def dindex_def data_strs_def get_set_data appendable_def get_data_def dgetd_def
        target_file_path_def fun_eq_iff) (auto simp: set_data_def)
qed

lemma append_data_extend: "append_data n (PyStr v) t = Inr u \<longleftrightarrow> extend_data n [v] t = Inr u"
  by (auto simp: append_data_def extend_data_def rbind_eq_Inr split: pyval.splits)

lemma env_rule_frame [simp]:
  "t_srcs (env_rule f t) = t_srcs t" "t_data (env_rule f t) = t_data t" "target_file_path b (env_rule f t) = target_file_path b t"
  by (auto simp: env_rule_def env_name_def write_rule_def Let_def target_file_path_def fun_eq_iff split: option.splits)

lemma data_strs_cong: "t_data u = t_data t \<Longrightarrow> data_strs u n = data_strs t n"
  by (simp add: data_strs_def get_data_def)

lemma appendable_cong: "t_data u = t_data t \<Longrightarrow> appendable names u = appendable names t"
  by (simp add: appendable_def)

text \<open>The generated files of a source in the build directory, for one language.\<close>

abbreviation generated_at :: "(thrift_helper \<Rightarrow> string list) \<Rightarrow> thrift_helpers \<Rightarrow> blade \<Rightarrow> target \<Rightarrow> string \<Rightarrow> string list" where
  "generated_at get helpers b t src \<equiv> map (target_file_path b t) (get (helper_of helpers src))"

lemma thrift_gen_files_ok:
  "helpers_ok helpers srcs \<Longrightarrow> src \<in> set srcs \<Longrightarrow> thrift_gen_files get helpers b t src = Inr (generated_at get helpers b t src)"
  by (auto simp: helpers_ok_def thrift_gen_files_def dindex_def helper_of_def)

text \<open>
  A loop over the sources whose body succeeds, keeps the target in place and appends the files
  of the source to an entry.
\<close>

definition same_entries :: "string \<Rightarrow> target \<Rightarrow> target \<Rightarrow> bool" where
  "same_entries n t u \<longleftrightarrow>
     (\<forall>m \<in> {''java_sources_explict_dependency'', ''python_sources''}. m \<noteq> n \<longrightarrow> data_strs u m = data_strs t m)"

lemma same_entries_trans: "same_entries n t u \<Longrightarrow> same_entries n u v \<Longrightarrow> same_entries n t v"
  by (simp add: same_entries_def)

definition extends_entry ::
  "string \<Rightarrow> (string \<Rightarrow> string list) \<Rightarrow> string list \<Rightarrow> string list \<Rightarrow> blade \<Rightarrow> (string \<Rightarrow> string) \<Rightarrow>
   (string \<Rightarrow> target \<Rightarrow> target result) \<Rightarrow> bool" where
  "extends_entry n added names srcs b place f \<longleftrightarrow>
     (\<forall>t src old. appendable names t \<longrightarrow> src \<in> set srcs \<longrightarrow> data_strs t n = Inr old \<longrightarrow> target_file_path b t = place \<longrightarrow>
        (\<exists>u. f src t = Inr u \<and> appendable names u \<and> data_strs u n = Inr (old @ added src) \<and> t_srcs u = t_srcs t \<and>
             target_file_path b u = place \<and> same_entries n t u))"

lemma extends_entry_rfold:
  assumes "extends_entry n added names srcs b place f" and "set xs \<subseteq> set srcs" and "appendable names t" and "data_strs t n = Inr old"
    and "target_file_path b t = place"
  shows "\<exists>u. rfold f xs t = Inr u \<and> appendable names u \<and> data_strs u n = Inr (old @ concat (map added xs)) \<and> t_srcs u = t_srcs t \<and>
    target_file_path b u = place \<and> same_entries n t u"
  using assms(2-5)
proof (induction xs arbitrary: t old)
  case (Cons x xs)
  then obtain u where u: "f x t = Inr u" "appendable names u" "data_strs u n = Inr (old @ added x)" "t_srcs u = t_srcs t"
      "target_file_path b u = place" "same_entries n t u"
    using assms(1) unfolding extends_entry_def by (metis list.set_intros(1) subsetD)
  have "set xs \<subseteq> set srcs" using Cons.prems(1) by simp
  from Cons.IH [OF this u(2,3,5)] obtain v where v: "rfold f xs u = Inr v" "appendable names v"
      "data_strs v n = Inr ((old @ added x) @ concat (map added xs))" "t_srcs v = t_srcs u" "target_file_path b v = place" "same_entries n u v"
    by blast
  show ?case using u(1,4) v same_entries_trans [OF u(6) v(6)] by simp
qed (simp add: same_entries_def)

abbreviation thrift_entries :: "string list" where
  "thrift_entries \<equiv> [''java_sources_explict_dependency'', ''python_vars'', ''python_sources'']"

lemma appendable_set_data: "m \<notin> set names \<Longrightarrow> appendable names t \<Longrightarrow> appendable names (set_data m v t)"
  by (auto simp: appendable_def)

lemma data_strs_set_data: "m \<noteq> n \<Longrightarrow> data_strs (set_data m v t) n = data_strs t n"
  by (simp add: data_strs_def get_set_data)

lemma set_data_place [simp]: "target_file_path b (set_data n v t) = target_file_path b t" "t_srcs (set_data n v t) = t_srcs t"
  by (simp_all add: target_file_path_def set_data_def fun_eq_iff)

lemma thrift_java_rule_extends:
  assumes "helpers_ok helpers srcs" and "target_file_path b t0 = place"
  shows "extends_entry ''java_sources_explict_dependency'' (generated_at get_generated_java_files helpers b t0) thrift_entries srcs b place
    (thrift_java_rule helpers b)"
  unfolding extends_entry_def
proof (intro allI impI)
  fix t src old
  assume t: "appendable thrift_entries t" "src \<in> set srcs" "data_strs t ''java_sources_explict_dependency'' = Inr old"
    "target_file_path b t = place"
  let ?files = "generated_at get_generated_java_files helpers b t0 src"
  obtain h where "dget helpers src = Some h" and "has_definitions h" using assms(1) t(2) by (auto simp: helpers_ok_def)
  then have "?files \<noteq> []" using java_files_nonempty by (simp add: helper_of_def)
  then obtain first rest where files: "?files = first # rest" by (cases ?files) auto
  let ?t = "set_data ''java_sources'' (PyTuple [PyStr (dirname first), PyStr (path_join (b_build_path b) (t_path t)), PyStr (t_name t)])
    (env_rule (\<lambda>e. e @ ''.ThriftJava('' @ repr_strs ?files @ '', '' @ quoted (path_join (t_path t) src) @ '')'') t)"
  have "appendable thrift_entries ?t"
    by (rule appendable_set_data) (simp_all add: appendable_cong [OF env_rule_frame(2)] t(1))
  moreover have "data_strs ?t ''java_sources_explict_dependency'' = Inr old"
    by (simp add: data_strs_set_data data_strs_cong [OF env_rule_frame(2)] t(3))
  ultimately obtain u where "extend_data ''java_sources_explict_dependency'' ?files ?t = Inr u" "appendable thrift_entries u"
      "data_strs u ''java_sources_explict_dependency'' = Inr (old @ ?files)" "t_srcs u = t_srcs t" "target_file_path b u = place"
      "data_strs u ''python_sources'' = data_strs ?t ''python_sources''"
    using extend_data_ok [of thrift_entries ?t "''java_sources_explict_dependency''" old ?files b] t(4) by auto
  moreover have "thrift_gen_java_files helpers b t src = Inr ?files"
    using thrift_gen_files_ok [OF assms(1) t(2)] assms(2) t(4) by (simp add: thrift_gen_java_files_def)
  ultimately show "\<exists>u. thrift_java_rule helpers b src t = Inr u \<and> appendable thrift_entries u \<and>
      data_strs u ''java_sources_explict_dependency'' = Inr (old @ ?files) \<and> t_srcs u = t_srcs t \<and> target_file_path b u = place \<and>
      same_entries ''java_sources_explict_dependency'' t u"
    unfolding thrift_java_rule_def
    by (simp add: files same_entries_def data_strs_set_data data_strs_cong [OF env_rule_frame(2)])
qed

lemma thrift_python_rule_extends:
  assumes "helpers_ok helpers srcs" and "target_file_path b t0 = place"
  shows "extends_entry ''python_sources'' (generated_at get_generated_py_files helpers b t0) thrift_entries srcs b place
    (thrift_python_rule helpers b)"
  unfolding extends_entry_def
proof (intro allI impI)
  fix t src old
  assume t: "appendable thrift_entries t" "src \<in> set srcs" "data_strs t ''python_sources'' = Inr old" "target_file_path b t = place"
  let ?files = "generated_at get_generated_py_files helpers b t0 src" and ?var = "var_name t ''python''"
  let ?t = "env_rule (\<lambda>e. ?var @ '' = '' @ e @ ''.ThriftPython('' @ repr_strs ?files @ '', '' @ quoted (path_join (t_path t) src) @ '')'') t"
  have ready: "appendable thrift_entries ?t" by (simp add: appendable_cong [OF env_rule_frame(2)] t(1))
  obtain vs where vs: "dget (t_data ?t) ''python_vars'' = Some (PyList vs)" using ready by (auto simp: appendable_def)
  let ?u = "set_data ''python_vars'' (PyList (vs @ [PyStr ?var])) ?t"
  have app: "append_data ''python_vars'' (PyStr ?var) ?t = Inr ?u" using vs by (simp add: append_data_def dindex_def)
  have "appendable thrift_entries ?u" using ready by (auto simp: appendable_def)
  moreover have "data_strs ?u ''python_sources'' = Inr old"
    by (simp add: data_strs_set_data data_strs_cong [OF env_rule_frame(2)] t(3))
  ultimately obtain u where u: "extend_data ''python_sources'' ?files ?u = Inr u" "appendable thrift_entries u"
      "data_strs u ''python_sources'' = Inr (old @ ?files)" "t_srcs u = t_srcs t" "target_file_path b u = place"
      "data_strs u ''java_sources_explict_dependency'' = data_strs ?u ''java_sources_explict_dependency''"
    using extend_data_ok [of thrift_entries ?u "''python_sources''" old ?files b] t(4) by auto
  moreover have "thrift_gen_py_files helpers b t src = Inr ?files"
    using thrift_gen_files_ok [OF assms(1) t(2)] assms(2) t(4) by (simp add: thrift_gen_py_files_def)
  ultimately show "\<exists>u. thrift_python_rule helpers b src t = Inr u \<and> appendable thrift_entries u \<and>
      data_strs u ''python_sources'' = Inr (old @ ?files) \<and> t_srcs u = t_srcs t \<and> target_file_path b u = place \<and>
      same_entries ''python_sources'' t u"
    unfolding thrift_python_rule_def Let_def
    using app by (simp add: same_entries_def data_strs_set_data data_strs_cong [OF env_rule_frame(2)])
qed

lemma thrift_library_init_ok:
  assumes "thrift_library_init fs a b = Inr (helpers, t, b')"
  shows "helpers_ok helpers (t_srcs t) \<and> appendable thrift_entries t \<and>
    data_strs t ''java_sources_explict_dependency'' = Inr [] \<and> data_strs t ''python_sources'' = Inr []"
proof -
  obtain t1 b1 t2 b2 srcs where t1: "cc_target_init ThriftLibraryC ''thrift_library'' (thrift_cc_args a) b = Inr (t1, b1)"
    and t2: "add_config_library ''thrift_config'' ''thrift_libs''
      (set_data ''python_sources'' pnil (set_data ''python_vars'' pnil t1), b1) = Inr (t2, b2)"
    and srcs: "as_strs (ta_srcs a) = Inr srcs"
    and t: "t = set_all [(''link_all_symbols'', PyBool True), (''deprecated'', ta_deprecated a),
      (''java_sources_explict_dependency'', pnil)] t2"
    and helpers: "rfold (add_helper (thrift_helper_init fs (t_path t))) srcs [] = Inr helpers"
    using assms by (auto simp: thrift_library_init_def rbind_eq_Inr Let_def)
  note frame = add_config_library_frame [OF t2]
  have "t_srcs t = srcs" using frame cc_target_init_srcs [OF t1] srcs by (simp add: t thrift_cc_args_def)
  then have "helpers_ok helpers (t_srcs t)" using add_helpers_ok [OF helpers, of "[]"] by (simp add: helpers_ok_def)
  moreover have "dget (t_data t2) ''python_vars'' = Some pnil" "dget (t_data t2) ''python_sources'' = Some pnil" using frame by simp_all
  ultimately show ?thesis by (simp add: t set_all_def appendable_def data_strs_def get_data_def dgetd_def)
qed

text \<open>
  C30. The rules of a constructed Thrift target for Java and Python never raise, for any state of the manager:
  the constructor has read every source and refused files without definitions, so that the
  subscript of the first Java file is in range. Afterwards the target lists exactly the Java and Python
  files generated from its sources, in their order.
\<close>

theorem thrift_rules_record_generated_files:
  assumes "thrift_library_init fs a b = Inr (helpers, t, b')"
  shows "\<exists>t1 t2. thrift_java_rules helpers t c = Inr t1 \<and> thrift_python_rules helpers t1 c = Inr t2 \<and>
    data_strs t2 ''java_sources_explict_dependency'' =
      Inr (concat (map (\<lambda>src. map (target_file_path c t) (get_generated_java_files (helper_of helpers src))) (t_srcs t))) \<and>
    data_strs t2 ''python_sources'' =
      Inr (concat (map (\<lambda>src. map (target_file_path c t) (get_generated_py_files (helper_of helpers src))) (t_srcs t)))"
proof -
  note ok = thrift_library_init_ok [OF assms]
  let ?place = "target_file_path c t"
  have h: "helpers_ok helpers (t_srcs t)" using ok by blast
  obtain t1 where t1: "thrift_java_rules helpers t c = Inr t1" "appendable thrift_entries t1" "t_srcs t1 = t_srcs t"
      "target_file_path c t1 = ?place" "same_entries ''java_sources_explict_dependency'' t t1" "data_strs t1 ''java_sources_explict_dependency'' =
        Inr (concat (map (generated_at get_generated_java_files helpers c t) (t_srcs t)))"
    using extends_entry_rfold [OF thrift_java_rule_extends [OF h refl], of "t_srcs t" t "[]" c] ok by (auto simp: thrift_java_rules_def)
  have "data_strs t1 ''python_sources'' = Inr []" using t1(5) ok by (simp add: same_entries_def)
  then obtain t2 where "thrift_python_rules helpers t1 c = Inr t2" "same_entries ''python_sources'' t1 t2"
      "data_strs t2 ''python_sources'' = Inr (concat (map (generated_at get_generated_py_files helpers c t) (t_srcs t)))"
    using extends_entry_rfold [OF thrift_python_rule_extends [OF h refl], of "t_srcs t" t1 "[]" c t] t1 by (auto simp: thrift_python_rules_def)
  then show ?thesis using t1 by (auto simp: same_entries_def)
qed

section \<open>Witness\<close>

definition sample_thrift_fs :: java_fs where
  "sample_thrift_fs =
     \<lparr>jf_exists = (\<lambda>_. True), jf_isfile = (\<lambda>p. p = ''app/m.thrift''),
      jf_content = (\<lambda>_. ''namespace java a.b'' @ [newline] @ ''struct S { // x'' @ [newline] @ ''service T {''),
      jf_walk = (\<lambda>_. Directory [] []), jf_cwd = ''/w''\<rparr>"

definition sample_thrift_args :: thrift_args where
  "sample_thrift_args =
     \<lparr>ta_name = ''m'', ta_srcs = PyStr ''m.thrift'', ta_deps = pnil, ta_optimize = pnil, ta_deprecated = PyBool False, ta_kwargs = []\<rparr>"

theorem thrift_rules_record_generated_files_witness:
  "\<exists>helpers t b' t1 t2. thrift_library_init sample_thrift_fs sample_thrift_args sample_blade = Inr (helpers, t, b') \<and>
     thrift_java_rules helpers t sample_blade = Inr t1 \<and> thrift_python_rules helpers t1 sample_blade = Inr t2 \<and>
     data_strs t2 ''java_sources_explict_dependency'' = Inr [''build64_release/app/a/b/S.java'', ''build64_release/app/a/b/T.java'']"
proof -
  let ?r = "thrift_library_init sample_thrift_fs sample_thrift_args sample_blade"
  have "case ?r of Inl _ \<Rightarrow> False | Inr (helpers, t, b') \<Rightarrow>
      concat (map (\<lambda>src. map (target_file_path sample_blade t) (get_generated_java_files (helper_of helpers src))) (t_srcs t)) =
      [''build64_release/app/a/b/S.java'', ''build64_release/app/a/b/T.java'']"
    by code_simp
  then obtain helpers t b' where r: "?r = Inr (helpers, t, b')"
    and java: "concat (map (\<lambda>src. map (target_file_path sample_blade t) (get_generated_java_files (helper_of helpers src))) (t_srcs t)) =
      [''build64_release/app/a/b/S.java'', ''build64_release/app/a/b/T.java'']"
    by (auto split: sum.splits prod.splits)
  obtain t1 t2 where "thrift_java_rules helpers t sample_blade = Inr t1" "thrift_python_rules helpers t1 sample_blade = Inr t2"
    "data_strs t2 ''java_sources_explict_dependency'' = Inr [''build64_release/app/a/b/S.java'', ''build64_release/app/a/b/T.java'']"
    using thrift_rules_record_generated_files [OF r, of sample_blade] unfolding java by blast
  then show ?thesis using r by blast
qed

end
