(* ===== verification/Proto_Facts.thy ===== *)
theory Proto_Facts
  imports Proto_Rules Cc_Link_Facts
begin

text \<open>
  Protobuf targets: what Ninja is told to generate is what it is told to compile, and which of the flags
  of several plug-ins reach the protobuf compiler.
\<close>

section \<open>Objects of generated sources\<close>

lemma concat_replicate_snoc: "concat (replicate n xs) @ xs = xs @ concat (replicate n xs)"
  by (induction n) auto

text \<open>The statement of the source at position \<open>i\<close>, with the headers \<open>extra\<close> that are added for every source.\<close>

definition generated_lines ::
  "(string, string) dict \<Rightarrow> string list \<Rightarrow> string list \<Rightarrow> blade \<Rightarrow> target \<Rightarrow> nat \<times> string \<Rightarrow> string list" where
  "generated_lines vars deps extra b t e =
     build_lines (object_path b t (snd e)) (get_ninja_rule_from_suffix (snd e)) [target_file_path b t (snd e)]
       (deps @ concat (replicate (Suc (fst e)) extra)) vars"

definition repeated_headers :: "string list \<Rightarrow> string list" where
  "repeated_headers headers = (if length headers > 1 then headers else [])"

lemma target_file_path_nonempty: "name \<noteq> [] \<Longrightarrow> target_file_path b t name \<noteq> []"
  by (simp add: target_file_path_def path_join3_def path_join_nonempty)

lemma cc_object_ninja_generated:
  assumes "\<not> is_secure t" and "src \<noteq> []"
  shows "cc_object_ninja so vars True headers src (deps @ concat (replicate i (repeated_headers headers)), objs, t, w) =
    Inr (deps @ concat (replicate (Suc i) (repeated_headers headers)), objs @ [object_path (cw_blade w) t src],
      t\<lparr>t_rules := t_rules t @ generated_lines (dict_order so vars) deps (repeated_headers headers) (cw_blade w) t (i, src)\<rparr>, w)"
proof -
  have step: "cc_object_ninja so vars True headers src (ds, objs, t, w) =
      Inr (ds @ repeated_headers headers, objs @ [object_path (cw_blade w) t src], t\<lparr>t_rules := t_rules t @
        build_lines (object_path (cw_blade w) t src) (get_ninja_rule_from_suffix src) [target_file_path (cw_blade w) t src]
          (ds @ repeated_headers headers) (dict_order so vars)\<rparr>, w)" for ds
    using assms
    by (simp add: cc_object_ninja_def object_input_def ninja_build_str target_file_path_nonempty Let_def repeated_headers_def)
  have "(deps @ concat (replicate i (repeated_headers headers))) @ repeated_headers headers =
      deps @ concat (replicate (Suc i) (repeated_headers headers))"
    by (simp add: concat_replicate_snoc)
  then show ?thesis unfolding step generated_lines_def by simp
qed

lemma generated_lines_frame [simp]: "generated_lines vars deps extra b (t\<lparr>t_rules := r\<rparr>) = generated_lines vars deps extra b t"
  by (simp add: generated_lines_def fun_eq_iff)

lemma cc_objects_ninja_generated:
  assumes "\<not> is_secure t" and "[] \<notin> set srcs"
  shows "\<exists>deps'. rfold (cc_object_ninja so vars True headers) srcs (deps @ concat (replicate i (repeated_headers headers)), objs, t, w) =
    Inr (deps', objs @ map (object_path (cw_blade w) t) srcs,
      t\<lparr>t_rules := t_rules t @
        concat (map (generated_lines (dict_order so vars) deps (repeated_headers headers) (cw_blade w) t) (enumerate i srcs))\<rparr>, w)"
  using assms
proof (induction srcs arbitrary: objs t i)
  case (Cons src srcs)
  then have src: "src \<noteq> []" and srcs: "[] \<notin> set srcs" by auto
  let ?u = "t\<lparr>t_rules := t_rules t @ generated_lines (dict_order so vars) deps (repeated_headers headers) (cw_blade w) t (i, src)\<rparr>"
  have "\<not> is_secure ?u" using Cons.prems(1) by simp
  from Cons.IH [OF this srcs, of "Suc i" "objs @ [object_path (cw_blade w) t src]"]
  show ?case using cc_object_ninja_generated [OF Cons.prems(1) src, of so vars headers deps i objs w]
    by (auto simp del: replicate_Suc)
qed simp

lemma cc_objects_ninja_generated_result:
  assumes "cc_objects_ninja depth so srcs True headers t w = Inr (t', w')" and "\<not> is_secure t" and "[] \<notin> set srcs" and "srcs \<noteq> []"
  defines "p \<equiv> target_file_path (cw_blade w) t (t_name t @ ''__stamp__'')"
  shows "same_place w w' \<and> (\<exists>vars deps stamp.
    t' = set_data ''objs'' (pstrs (map (object_path (cw_blade w) t) srcs))
      (t\<lparr>t_rules := t_rules t @ stamp @
         concat (map (generated_lines vars deps (repeated_headers headers) (cw_blade w) t) (enumerate 0 srcs))\<rparr>) \<and>
    (deps = [] \<and> stamp = [] \<or> (\<exists>inputs. deps = [p] \<and> stamp = build_lines p ''stamp'' inputs [] [])))"
proof -
  let ?deps = "\<lambda>s. case s of None \<Rightarrow> [] | Some s \<Rightarrow> [s]"
  obtain vars s t1 b1 where stamp: "cc_objects_generated_header_files_dependency depth t (cw_blade w) = Inr (s, t1, b1)"
    and run: "rbind (rfold (cc_object_ninja so vars True headers) srcs
        (?deps s @ (if is_secure t1 then [''__securecc_phony__''] else []), [], t1, w\<lparr>cw_blade := b1\<rparr>))
      (\<lambda>(_, objs, t, w). Inr (set_data ''objs'' (pstrs objs) t, w)) = Inr (t', w')"
    using assms(1,4) by (auto simp: cc_objects_ninja_def rbind_eq_Inr Let_def)
  obtain ls where t1: "t1 = t\<lparr>t_rules := t_rules t @ ls\<rparr>" and b1: "b1 = cw_blade w\<lparr>b_target_database := b_target_database b1\<rparr>"
    and ls: "s = None \<and> ls = [] \<or> (\<exists>inputs. s = Some p \<and> ls = build_lines p ''stamp'' inputs [] [])"
  proof -
    obtain hdrs inputs where "b1 = cw_blade w\<lparr>b_target_database := b_target_database b1\<rparr>" "s = (if hdrs = [] then None else Some p)"
      "t1 = t\<lparr>t_rules := t_rules t @ stamp_lines p hdrs inputs\<rparr>"
      using header_stamp_result [OF stamp] unfolding p_def by blast
    then show thesis using that by (cases "hdrs = []") (auto simp: stamp_lines_def)
  qed
  have place: "same_place w (w\<lparr>cw_blade := b1\<rparr>)" by (subst b1) (simp add: same_place_def)
  have lines: "generated_lines vs ds hs b1 t = generated_lines vs ds hs (cw_blade w) t" for vs ds hs
    using same_place_frame(1,2) [OF place] by (simp add: generated_lines_def fun_eq_iff)
  have "\<not> is_secure t1" using assms(2) t1 by simp
  from cc_objects_ninja_generated [OF this assms(3), of so vars headers "?deps s" 0 "[]" "w\<lparr>cw_blade := b1\<rparr>"]
  have "w' = w\<lparr>cw_blade := b1\<rparr> \<and> t' = set_data ''objs'' (pstrs (map (object_path (cw_blade w) t) srcs))
      (t\<lparr>t_rules := t_rules t @ ls @
         concat (map (generated_lines (dict_order so vars) (?deps s) (repeated_headers headers) (cw_blade w) t) (enumerate 0 srcs))\<rparr>)"
    using run assms(2) same_place_frame(2) [OF place] lines unfolding t1 by auto
  moreover have "?deps s = [] \<and> ls = [] \<or> (\<exists>inputs. ?deps s = [p] \<and> ls = build_lines p ''stamp'' inputs [] [])" using ls by auto
  ultimately show ?thesis using place by blast
qed

section \<open>Rules of other languages\<close>

text \<open>A successful run only adds rules.\<close>

definition adds_rules :: "target \<Rightarrow> target result \<Rightarrow> bool" where
  "adds_rules t r \<longleftrightarrow> (\<forall>u. r = Inr u \<longrightarrow> (\<exists>ls. t_rules u = t_rules t @ ls))"

named_theorems adds_rules

lemma adds_rules_Inr [adds_rules]: "adds_rules t (Inr t)"
  by (simp add: adds_rules_def)

lemma adds_rules_bind:
  "adds_rules t m \<Longrightarrow> (\<And>u. m = Inr u \<Longrightarrow> adds_rules u (f u)) \<Longrightarrow> adds_rules t (rbind m f)"
  by (fastforce simp: adds_rules_def rbind_eq_Inr)

lemma adds_rules_read: "(\<And>x. m = Inr x \<Longrightarrow> adds_rules t (f x)) \<Longrightarrow> adds_rules t (rbind m f)"
  by (auto simp: adds_rules_def rbind_eq_Inr)

lemma adds_rules_ninja_build [adds_rules]: "adds_rules t (ninja_build outs rule ins deps order vars iouts t)"
  by (auto simp: adds_rules_def ninja_build_def Let_def rbind_eq_Inr write_rules_lines write_rule_def)

lemma adds_rules_add_file [adds_rules]: "adds_rules t (add_target_file l v t)"
  by (auto simp: adds_rules_def add_target_file_def Let_def rbind_eq_Inr set_data_def)

lemma adds_rules_when [adds_rules]: "adds_rules t (f t) \<Longrightarrow> adds_rules t (when_ok c f t)"
  by (simp add: when_ok_def adds_rules)

text \<open>A loop that carries a list beside the target.\<close>

lemma adds_rules_loop:
  assumes "\<And>x xs t. adds_rules t (rbind (f x (xs, t)) (\<lambda>(_, u). Inr u))" and "rfold f ys (xs, t) = Inr (zs, u)"
  shows "\<exists>ls. t_rules u = t_rules t @ ls"
  using assms(2)
proof (induction ys arbitrary: xs t)
  case (Cons y ys)
  then obtain xs1 t1 where step: "f y (xs, t) = Inr (xs1, t1)" and rest: "rfold f ys (xs1, t1) = Inr (zs, u)"
    by (auto simp: rbind_eq_Inr)
  have "\<exists>ls. t_rules t1 = t_rules t @ ls" using assms(1) [of t y xs] step by (auto simp: adds_rules_def)
  then show ?case using Cons.IH [OF rest] by auto
qed simp

lemma adds_rules_after_loop:
  assumes "\<And>x xs t. adds_rules t (rbind (f x (xs, t)) (\<lambda>(_, u). Inr u))" and "\<And>zs u. adds_rules u (g zs u)"
  shows "adds_rules t (rbind (rfold f ys ([], t)) (\<lambda>(zs, u). g zs u))"
  unfolding adds_rules_def
proof (intro allI impI)
  fix v assume "rbind (rfold f ys ([], t)) (\<lambda>(zs, u). g zs u) = Inr v"
  then obtain zs u where "rfold f ys ([], t) = Inr (zs, u)" and "g zs u = Inr v" by (auto simp: rbind_eq_Inr)
  then show "\<exists>ls. t_rules v = t_rules t @ ls"
    using adds_rules_loop [OF assms(1)] assms(2) [of u zs] by (fastforce simp: adds_rules_def)
qed

lemma ninja_proto_java_rules_adds [adds_rules]: "adds_rules t (ninja_proto_java_rules so fs flags t b)"
  unfolding ninja_proto_java_rules_def
proof (rule adds_rules_after_loop)
  fix x xs and t :: target
  show "adds_rules t (rbind (ninja_proto_java so fs b (ninja_protoc_plugin_vars flags ''java'') x (xs, t)) (\<lambda>(_, u). Inr u))"
    using adds_rules_ninja_build unfolding ninja_proto_java_def by (fastforce simp: adds_rules_def rbind_eq_Inr)
next
  fix sources and t :: target
  have jar: "adds_rules t (rbind (ninja_build_jar so fs b [] sources encoding [] False [] t) (\<lambda>(jar, t). add_target_file ''jar'' (PyStr jar) t))"
    for encoding
    using adds_rules_ninja_build adds_rules_add_file unfolding ninja_build_jar_def Let_def by (fastforce simp: adds_rules_def rbind_eq_Inr)
  show "adds_rules t (let encoding = get_data t ''source_encoding'' PyNone
       in rbind (if truthy encoding then py_text encoding else Inr []) (\<lambda>encoding.
          rbind (ninja_build_jar so fs b [] sources encoding [] False [] t) (\<lambda>(jar, t). add_target_file ''jar'' (PyStr jar) t)))"
    unfolding Let_def by (rule adds_rules_read, rule jar)
qed

lemma ninja_proto_python_rules_adds [adds_rules]: "adds_rules t (ninja_proto_python_rules t b)"
  unfolding ninja_proto_python_rules_def
proof (rule adds_rules_after_loop)
  fix x xs and t :: target
  show "adds_rules t (rbind (ninja_proto_python b x (xs, t)) (\<lambda>(_, u). Inr u))"
    using adds_rules_ninja_build unfolding ninja_proto_python_def Let_def by (fastforce simp: adds_rules_def rbind_eq_Inr)
next
  fix pys and t :: target
  show "adds_rules t (let pylib = target_file_path b t [] @ ''.pylib''
       in rbind (ninja_build (PyStr pylib) ''pythonlibrary'' (pstrs pys) [] [] [(''pythonbasedir'', b_build_path b)] [] t)
            (add_target_file ''pylib'' (PyStr pylib)))"
    unfolding Let_def by (intro adds_rules_bind adds_rules)
qed

lemma ninja_proto_descriptor_rules_adds [adds_rules]: "adds_rules t (ninja_proto_descriptor_rules t b)"
  by (cases "map (source_file_path t) (t_srcs t)")
    (simp_all only: ninja_proto_descriptor_rules_def list.case adds_rules_ninja_build, simp add: adds_rules_def)

lemma ninja_proto_rules_adds: "adds_rules t (ninja_proto_rules so fs flags t b)"
  unfolding ninja_proto_rules_def by (intro adds_rules_bind adds_rules adds_rules_read)

section \<open>Statements of a protobuf library\<close>

lemma ninja_build_outs:
  assumes "outs \<noteq> []" and "i \<noteq> []"
  shows "ninja_build (pstrs outs) rule (PyStr i) [] [] vars [] t =
    Inr (t\<lparr>t_rules := t_rules t @ build_lines (join_with '' '' outs) rule [i] [] vars\<rparr>)"
  using assms
  by (simp add: ninja_build_def add_marked_def var_to_list_def join_blank_def write_rules_lines write_rule_def build_lines_def Let_def)

text \<open>The statement of one source: both generated files, from the source.\<close>

definition proto_lines :: "(string, string) dict \<Rightarrow> blade \<Rightarrow> target \<Rightarrow> string \<Rightarrow> string list" where
  "proto_lines vars b t src =
     build_lines (join_with '' '' [fst (proto_gen_files b t src), snd (proto_gen_files b t src)]) ''proto'' [source_file_path t src] [] vars"

lemma proto_frame [simp]:
  "proto_gen_files b (t\<lparr>t_rules := r\<rparr>) = proto_gen_files b t" "proto_lines vars b (t\<lparr>t_rules := r\<rparr>) = proto_lines vars b t"
  by (simp_all add: proto_gen_files_def proto_lines_def fun_eq_iff)

lemma ninja_proto_sources:
  "rfold (ninja_proto_source so b vars) srcs t =
    Inr (t\<lparr>t_rules := t_rules t @ concat (map (proto_lines (dict_order so vars) b t) srcs)\<rparr>)"
proof (induction srcs arbitrary: t)
  case (Cons src srcs)
  have "source_file_path t src \<noteq> []" by (simp add: source_file_path_def normpath_nonempty)
  then have "ninja_proto_source so b vars src t = Inr (t\<lparr>t_rules := t_rules t @ proto_lines (dict_order so vars) b t src\<rparr>)"
    using ninja_build_outs [of "[fst (proto_gen_files b t src), snd (proto_gen_files b t src)]" "source_file_path t src"]
    by (simp add: ninja_proto_source_def proto_lines_def case_prod_unfold)
  then show ?case by (simp add: Cons.IH)
qed simp

lemma unify_deps_extends:
  assumes "unify_deps t deps b = Inr (ks, b')"
  shows "extends b b'"
proof -
  have "extends b (snd r)" if "rfold (unify_one t) deps (ks0, b) = Inr r" for ks0 r
    by (rule rfold_invariant [OF that, where P = "\<lambda>p. extends b (snd p)"])
      (auto simp: unify_one_def rbind_eq_Inr elim: extends_trans dest!: unify_dep_ok(2))
  then show ?thesis using assms unfolding unify_deps_def by fastforce
qed

lemma check_proto_deps_extends: "check_proto_deps t b = Inr b' \<Longrightarrow> extends b b'"
  by (auto simp: check_proto_deps_def rbind_eq_Inr dest: unify_deps_extends)

lemma generated_source_rule: "get_ninja_rule_from_suffix (s @ ''.pb.cc'') = ''cxx''"
proof -
  have "endswith (s @ ''.pb.cc'') ''.cc''" by (rule endswith_append) (simp add: endswith_def suffix_def)
  then show ?thesis by (simp add: get_ninja_rule_from_suffix_def)
qed

lemma enumerate_map: "enumerate n (map f xs) = map (\<lambda>(i, x). (i, f x)) (enumerate n xs)"
  by (induction xs arbitrary: n) simp_all

lemma generated_proto_lines:
  "map (generated_lines vars deps extra b t) (enumerate n (map (\<lambda>src. proto_gen_file_names src ! 1) srcs)) =
   map (\<lambda>(i, src). build_lines (object_path b t (proto_stem src @ ''.pb.cc'')) ''cxx'' [fst (proto_gen_files b t src)]
     (deps @ concat (replicate (Suc i) extra)) vars) (enumerate n srcs)"
  by (auto simp: enumerate_map generated_lines_def proto_gen_file_names_def generated_source_rule proto_gen_files_def)

text \<open>The phases of the rules; \<open>c\<close> is the manager after the check of the dependencies.\<close>

lemma proto_ninja_phases:
  assumes "proto_ninja_rules depth so fs plugins t w = Inr (t', w')" and "t_srcs t \<noteq> []"
  obtains c vars flags t1 w1 t2 where "same_place w (w\<lparr>cw_blade := c\<rparr>)"
    and "cc_objects_ninja depth so (map (\<lambda>src. proto_gen_file_names src ! 1) (t_srcs t)) True
      (map (\<lambda>src. snd (proto_gen_files c t src)) (t_srcs t))
      (t\<lparr>t_rules := t_rules t @ concat (map (proto_lines (dict_order so vars) c t) (t_srcs t))\<rparr>) (w\<lparr>cw_blade := c\<rparr>) = Inr (t1, w1)"
    and "cc_library_ninja so t1 (cw_blade w1) = Inr t2" and "ninja_proto_rules so fs flags t2 (cw_blade w1) = Inr t'"
proof -
  obtain c flags vars where c: "check_proto_deps t (check_deprecated_deps t (cw_blade w)) = Inr c"
    and "ninja_protoc_direct_dependencies t c (ninja_protoc_plugin_vars flags ''cpp'') = Inr vars"
    and run: "rbind (rfold (ninja_proto_source so c vars) (t_srcs t) t) (\<lambda>t.
      rbind (cc_objects_ninja depth so (map (\<lambda>src. proto_gen_file_names src ! 1) (t_srcs t)) True
        (map (\<lambda>src. snd (proto_gen_files c t src)) (t_srcs t)) t (w\<lparr>cw_blade := c\<rparr>)) (\<lambda>tw.
      rbind (with_blade (cc_library_ninja so) tw) (with_blade (ninja_proto_rules so fs flags)))) = Inr (t', w')"
    using assms unfolding proto_ninja_rules_def by (auto simp: rbind_eq_Inr Let_def)
  have w: "same_place w (w\<lparr>cw_blade := c\<rparr>)"
    using check_proto_deps_extends [OF c] check_deprecated_place [of t "cw_blade w"]
    by (auto simp: same_place_def extends_def same_setting_def get_config_def fun_eq_iff)
  show thesis
    using that [OF w] run unfolding ninja_proto_sources by (auto simp: rbind_eq_Inr with_blade_def)
qed

text \<open>
  C29. The Ninja statements of a protobuf library (no shared library asked for): for every source one statement that generates
  its C++ file and its header, then a stamp statement when dependencies generate headers, then one compile statement
  for every source, whose input is exactly the generated C++ file and which waits for the stamp and, when there are several sources, for
  all headers of the library (listed once more with every source), then the archive of these objects; the statements of
  other languages follow.
\<close>

theorem proto_ninja_statements:
  fixes w :: cc_world
  assumes "proto_ninja_rules depth so fs plugins t w = Inr (t', w')" and "t_srcs t \<noteq> []" and "\<not> is_secure t"
    and "need_dynamic_library t (cw_blade w) = Inr False"
  defines "b \<equiv> cw_blade w"
  defines "p \<equiv> target_file_path b t (t_name t @ ''__stamp__'')"
    and "headers \<equiv> map (\<lambda>src. snd (proto_gen_files b t src)) (t_srcs t)"
    and "objs \<equiv> map (\<lambda>src. object_path b t (proto_stem src @ ''.pb.cc'')) (t_srcs t)"
  shows "\<exists>pvars vars deps stamp rest.
    t_rules t' = t_rules t @ concat (map (proto_lines pvars b t) (t_srcs t)) @ stamp @
      concat (map (\<lambda>(i, src). build_lines (object_path b t (proto_stem src @ ''.pb.cc'')) ''cxx'' [fst (proto_gen_files b t src)]
        (deps @ concat (replicate (Suc i) (if length headers > 1 then headers else []))) vars) (enumerate 0 (t_srcs t))) @
      build_lines (target_file_path b t (''lib'' @ t_name t @ ''.a'')) ''ar'' objs [] [] @ rest \<and>
    (deps = [] \<and> stamp = [] \<or> (\<exists>inputs. deps = [p] \<and> stamp = build_lines p ''stamp'' inputs [] []))"
proof -
  let ?names = "map (\<lambda>src. proto_gen_file_names src ! 1) (t_srcs t)"
  obtain c vars0 flags t1 w1 t2 where w: "same_place w (w\<lparr>cw_blade := c\<rparr>)"
    and objs: "cc_objects_ninja depth so ?names True (map (\<lambda>src. snd (proto_gen_files c t src)) (t_srcs t))
      (t\<lparr>t_rules := t_rules t @ concat (map (proto_lines (dict_order so vars0) c t) (t_srcs t))\<rparr>) (w\<lparr>cw_blade := c\<rparr>) = Inr (t1, w1)"
    and lib: "cc_library_ninja so t1 (cw_blade w1) = Inr t2" and other: "ninja_proto_rules so fs flags t2 (cw_blade w1) = Inr t'"
    by (rule proto_ninja_phases [OF assms(1,2)])
  have path: "target_file_path c = target_file_path b" using same_place_frame(1) [OF w] by (simp add: b_def)
  then have gen: "proto_gen_files c = proto_gen_files b" by (simp add: proto_gen_files_def fun_eq_iff)
  let ?pl = "concat (map (proto_lines (dict_order so vars0) c t) (t_srcs t))"
  let ?u = "t\<lparr>t_rules := t_rules t @ ?pl\<rparr>"
  have objs': "cc_objects_ninja depth so ?names True headers ?u (w\<lparr>cw_blade := c\<rparr>) = Inr (t1, w1)" using objs by (simp only: gen headers_def)
  have u: "\<not> is_secure ?u" "[] \<notin> set ?names" "?names \<noteq> []" using assms(2,3) by (auto simp: proto_gen_file_names_def)
  obtain vars deps stamp where w1: "same_place (w\<lparr>cw_blade := c\<rparr>) w1" and
    t1: "t1 = set_data ''objs'' (pstrs (map (object_path c t) ?names)) (t\<lparr>t_rules := t_rules t @ ?pl @ stamp @
      concat (map (generated_lines vars deps (repeated_headers headers) c t) (enumerate 0 ?names))\<rparr>)"
    and stamp: "deps = [] \<and> stamp = [] \<or> (\<exists>inputs. deps = [p] \<and> stamp = build_lines p ''stamp'' inputs [] [])"
    using cc_objects_ninja_generated_result [OF objs' u] by (auto simp: p_def path)
  have obj: "object_path c = object_path b" using same_place_frame(2) [OF w] by (simp add: b_def)
  have lines: "proto_lines vs c t = proto_lines vs b t" "generated_lines vs ds hs c t = generated_lines vs ds hs b t" for vs ds hs
    by (simp_all add: proto_lines_def generated_lines_def gen path obj fun_eq_iff)
  have "data_strs t1 ''objs'' = Inr (map (object_path c t) ?names)" unfolding t1 by (simp add: data_strs_def get_set_data del: map_map)
  then have data: "data_strs t1 ''objs'' = Inr objs" by (simp add: objs_def obj proto_gen_file_names_def comp_def)
  have w2: "same_place w w1" by (rule same_place_trans [OF w w1])
  have need: "need_dynamic_library t1 (cw_blade w1) = Inr False"
    unfolding t1 set_data_frame(4) [of "''objs''", simplified] using assms(4) same_place_frame(4) [OF w2]
    by (simp add: need_dynamic_library_def)
  have t2: "t_rules t2 = t_rules t1 @ build_lines (target_file_path b t (''lib'' @ t_name t @ ''.a'')) ''ar'' objs [] []"
    using cc_library_ninja_archive [OF lib data need] same_place_frame(1) [OF w2] unfolding t1 set_data_frame(1-2) by (simp add: b_def)
  obtain rest where rest: "t_rules t' = t_rules t2 @ rest" using ninja_proto_rules_adds other unfolding adds_rules_def by blast
  have "t_rules t1 = t_rules t @ ?pl @ stamp @ concat (map (generated_lines vars deps (repeated_headers headers) c t) (enumerate 0 ?names))"
    unfolding t1 set_data_frame by simp
  then show ?thesis
    using stamp unfolding rest t2 lines generated_proto_lines repeated_headers_def append_assoc by (simp only: append_assoc) blast
qed

section \<open>Flags of plug-ins\<close>

lemma fold_dset_const: "dget (fold (\<lambda>k. dset k v) ks d) k = (if k \<in> set ks then Some v else dget d k)"
  by (induction ks arbitrary: d) auto

text \<open>The last plug-in of a list that generates code for a language.\<close>

definition last_plugin :: "protoc_plugin list \<Rightarrow> string \<Rightarrow> protoc_plugin option" where
  "last_plugin ps language = find (\<lambda>p. language \<in> set (dkeys (pp_code_generation p))) (rev ps)"

lemma put_plugin_flags_lookup:
  assumes "set_order_ok so"
  shows "dget (fold (put_plugin_flags so b) ps d) language =
    (case last_plugin ps language of Some p \<Rightarrow> Some (protoc_plugin_flag p (b_build_path b)) | None \<Rightarrow> dget d language)"
proof (induction ps rule: rev_induct)
  case (snoc p ps)
  have "set (plugin_languages so p) = set (dkeys (pp_code_generation p))"
    using assms by (simp add: plugin_languages_def set_order_ok_def)
  then show ?case using snoc by (simp add: last_plugin_def put_plugin_flags_def fold_dset_const)
qed (simp add: last_plugin_def)

text \<open>The SCons statement for one language of a plug-in.\<close>

definition plugin_flag_line :: "blade \<Rightarrow> string \<Rightarrow> protoc_plugin \<Rightarrow> string \<Rightarrow> string" where
  "plugin_flag_line b e p language =
     e @ ''.Append(PROTOC'' @ upper language @ ''PLUGINFLAGS = '' @ quoted (protoc_plugin_flag p (b_build_path b) @ '' '') @ '')''"

lemma plugin_flag_rules_lines: "plugin_flag_rules so b e p = map (plugin_flag_line b e p) (plugin_languages so p)"
  by (simp add: plugin_flag_rules_def plugin_flag_line_def)

text \<open>
  Under Ninja a language gets the flag of the last plug-in only, whereas the SCons rules append the
  flags of every plug-in.
\<close>

theorem ninja_keeps_last_plugin:
  assumes "target_plugins plugins t = Inr ps" and "set_order_ok so"
  shows "(\<exists>flags. protoc_plugin_flags so plugins t b = Inr flags \<and>
      (\<forall>language. dget flags language = map_option (\<lambda>p. protoc_plugin_flag p (b_build_path b)) (last_plugin ps language))) \<and>
    (\<exists>u. protoc_plugin_rules so plugins t b = Inr u \<and>
      (\<forall>p \<in> set ps. \<forall>language \<in> set (dkeys (pp_code_generation p)).
        plugin_flag_line b (fst (env_name t)) p language @ [newline] \<in> set (t_rules u)))"
proof -
  have langs: "set (plugin_languages so p) = set (dkeys (pp_code_generation p))" for p
    using assms(2) by (simp add: plugin_languages_def set_order_ok_def)
  let ?u = "env_rules (\<lambda>e. concat (map (plugin_flag_rules so b e) ps)) t"
  let ?ls = "concat (map (plugin_flag_rules so b (fst (env_name t))) ps)"
  have "plugin_flag_line b (fst (env_name t)) p language \<in> set ?ls"
    if "p \<in> set ps" and "language \<in> set (dkeys (pp_code_generation p))" for p language
    using that langs by (auto simp: plugin_flag_rules_lines)
  then have "\<forall>p \<in> set ps. \<forall>language \<in> set (dkeys (pp_code_generation p)).
      plugin_flag_line b (fst (env_name t)) p language @ [newline] \<in> set (t_rules ?u)"
    unfolding env_rules_def case_prod_unfold write_rules_lines by simp
  then show ?thesis
    using assms(1) put_plugin_flags_lookup [OF assms(2), of b ps "[]"]
    by (auto simp: protoc_plugin_flags_def protoc_plugin_rules_def split: option.splits)
qed

section \<open>Witness\<close>

definition sample_proto :: target where
  "sample_proto =
     set_all [(''protoc_plugins'', pnil), (''protoc_plugin_deps'', pnil), (''generate_descriptors'', PyBool False)]
       (sample_cc ProtoLibraryC ''proto_library'' ''q'' [''a.proto'', ''b.proto''] [''d''])"

definition sample_proto_world :: cc_world where
  "sample_proto_world =
     (sample_world ''9.4'')\<lparr>cw_blade := sample_cc_blade\<lparr>b_config := \<lparr>c_file = [],
        c_configs = [(''cc_library_config'', []),
                     (''proto_library_config'', [(''protobuf_libs'', pnil), (''protobuf_java_libs'', pnil),
                        (''protoc_direct_dependencies'', PyBool False)])], c_log = []\<rparr>\<rparr>\<rparr>"

definition sample_proto_fs :: java_fs where
  "sample_proto_fs =
     \<lparr>jf_exists = (\<lambda>_. True), jf_isfile = (\<lambda>_. True), jf_content = (\<lambda>_. []), jf_walk = (\<lambda>_. Directory [] []), jf_cwd = ''/w''\<rparr>"

theorem proto_ninja_statements_witness:
  "\<exists>t' w' pvars ls. proto_ninja_rules 2 sample_set_order sample_proto_fs [] sample_proto sample_proto_world = Inr (t', w') \<and>
     t_rules t' = concat (map (proto_lines pvars (cw_blade sample_proto_world) sample_proto) [''a.proto'', ''b.proto'']) @ ls"
proof -
  let ?r = "proto_ninja_rules 2 sample_set_order sample_proto_fs [] sample_proto sample_proto_world"
  have "is_ok ?r" by code_simp
  then obtain t' w' where r: "?r = Inr (t', w')" by (cases ?r) (auto simp: is_ok_def)
  have t: "t_srcs sample_proto \<noteq> []" "\<not> is_secure sample_proto" "need_dynamic_library sample_proto (cw_blade sample_proto_world) = Inr False"
    and "t_srcs sample_proto = [''a.proto'', ''b.proto'']" "t_rules sample_proto = []"
    by code_simp+
  then show ?thesis using r proto_ninja_statements [OF r t] by (simp only: append_Nil) blast
qed

end
