(* ===== verification/Tool_World.thy ===== *)
theory Tool_World
  imports Target_Rules
begin

text \<open>
  The world in which the helper programs of the build run (\<open>src/blade/toolchain.py\<close> and
  \<open>src/blade/fatjar.py\<close>, started by Ninja as separate processes): files with their content, directories,
  file modes, the output of the process and the log file of \<open>src/blade/console.py\<close>. What the process finds
  outside (environment variables, clock, host name, the commands of the shell) is the record \<open>tool_env\<close>.

  Archives are kept as the list of their entries in the order of writing: the byte layout of zip and tar
  files is that of the modules \<open>zipfile\<close> and \<open>tarfile\<close>. A file may be an archive with other bytes in front,
  which is still a valid zip file. Symbolic links do not occur. An exception ends the process, and what it
  had written until then is not described.
\<close>

section \<open>State\<close>

datatype content =
    Bytes string
  | Zip string "(string \<times> content) list"
  | Tar string "(string \<times> content) list"

type_synonym entries = "(string \<times> content) list"

datatype tool_output = Stdout string | Stderr string

text \<open>Files and directories are named by their absolute normalised paths.\<close>

record tool_world =
  w_files :: "(string, content) dict"
  w_dirs :: "string list"
  w_modes :: "(string, nat) dict"
  w_out :: "tool_output list"
  w_log :: "string option"
  w_color :: bool

text \<open>
  \<open>e_md5\<close> and \<open>e_size\<close> are the digest and the size of a file, \<open>e_json\<close> is \<open>json.load\<close> for the file with the
  revision, \<open>e_repr\<close> and \<open>e_eval\<close> are \<open>str\<close> of a value and \<open>eval\<close> of a text, \<open>e_str\<close> is \<open>str\<close> of an exception, and
  \<open>e_shell\<close> runs a command line: exit status, standard output, standard error and the files afterwards.
\<close>

record tool_env =
  e_cwd :: string
  e_environ :: "(string, string) dict"
  e_host :: string
  e_asctime :: string
  e_md5 :: "content \<Rightarrow> string"
  e_size :: "content \<Rightarrow> nat"
  e_json :: "content \<Rightarrow> (string, string) dict result"
  e_repr :: "pyval \<Rightarrow> string"
  e_eval :: "content \<Rightarrow> pyval result"
  e_str :: "py_error \<Rightarrow> string"
  e_shell :: "string \<Rightarrow> tool_world \<Rightarrow> int \<times> string \<times> string \<times> tool_world"

section \<open>Files\<close>

abbreviation io_error :: py_error where "io_error \<equiv> PyException ''IOError''"
abbreviation os_error :: py_error where "os_error \<equiv> PyException ''OSError''"

definition place :: "tool_env \<Rightarrow> string \<Rightarrow> string" where
  "place e p = abspath (e_cwd e) p"

definition file_at :: "tool_env \<Rightarrow> string \<Rightarrow> tool_world \<Rightarrow> content option" where
  "file_at e p w = (if p = [] then None else dget (w_files w) (place e p))"

definition is_dir :: "tool_env \<Rightarrow> string \<Rightarrow> tool_world \<Rightarrow> bool" where
  "is_dir e p w \<longleftrightarrow> p \<noteq> [] \<and> place e p \<in> set (w_dirs w)"

definition path_exists :: "tool_env \<Rightarrow> string \<Rightarrow> tool_world \<Rightarrow> bool" where
  "path_exists e p w \<longleftrightarrow> is_dir e p w \<or> file_at e p w \<noteq> None"

definition read_file :: "tool_env \<Rightarrow> string \<Rightarrow> tool_world \<Rightarrow> content result" where
  "read_file e p w = (case file_at e p w of None \<Rightarrow> Inl io_error | Some c \<Rightarrow> Inr c)"

text \<open>\<open>open(p, 'w')\<close> with the given content written: the directory has to exist.\<close>

definition write_file :: "tool_env \<Rightarrow> string \<Rightarrow> content \<Rightarrow> tool_world \<Rightarrow> tool_world result" where
  "write_file e p c w =
     (if p = [] \<or> is_dir e p w \<or> dirname (place e p) \<notin> set (w_dirs w) then Inl io_error
      else Inr (w\<lparr>w_files := dset (place e p) c (w_files w)\<rparr>))"

text \<open>\<open>os.makedirs(p)\<close>: the directory must not exist, and the missing parents are made as well.\<close>

definition dir_chain :: "string \<Rightarrow> string list" where
  "dir_chain p =
     (let cs = filter (\<lambda>x. x \<noteq> []) (split_on slash p)
      in map (\<lambda>k. ''/'' @ join_with ''/'' (take k cs)) [1..<Suc (length cs)])"

definition makedirs :: "tool_env \<Rightarrow> string \<Rightarrow> tool_world \<Rightarrow> tool_world result" where
  "makedirs e p w =
     (let ds = dir_chain (place e p)
      in if p = [] \<or> path_exists e p w \<or> list_ex (\<lambda>d. dget (w_files w) d \<noteq> None) ds then Inl os_error
         else Inr (w\<lparr>w_dirs := w_dirs w @ filter (\<lambda>d. d \<notin> set (w_dirs w)) ds\<rparr>))"

definition chmod :: "tool_env \<Rightarrow> string \<Rightarrow> nat \<Rightarrow> tool_world \<Rightarrow> tool_world result" where
  "chmod e p mode w =
     (if path_exists e p w then Inr (w\<lparr>w_modes := dset (place e p) mode (w_modes w)\<rparr>) else Inl os_error)"

text \<open>\<open>0755\<close>\<close>

definition executable :: nat where
  "executable = 493"

text \<open>\<open>shutil.copy(src, dst)\<close>: content and mode; copying a file onto itself is an error.\<close>

definition copy_mode :: "string \<Rightarrow> string \<Rightarrow> tool_world \<Rightarrow> tool_world" where
  "copy_mode src dst w =
     w\<lparr>w_modes := (case dget (w_modes w) src of None \<Rightarrow> ddel dst (w_modes w) | Some m \<Rightarrow> dset dst m (w_modes w))\<rparr>"

definition copy_file :: "tool_env \<Rightarrow> string \<Rightarrow> string \<Rightarrow> tool_world \<Rightarrow> tool_world result" where
  "copy_file e src dst w =
     (let dst = (if is_dir e dst w then path_join dst (basename src) else dst)
      in rbind (read_file e src w) (\<lambda>c.
           if place e src = place e dst then Inl (PyException ''shutil.Error'')
           else rbind (write_file e dst c w) (\<lambda>w. Inr (copy_mode (place e src) (place e dst) w))))"

text \<open>\<open>os.getenv(k)\<close> printed with \<open>%s\<close>.\<close>

definition getenv_text :: "tool_env \<Rightarrow> string \<Rightarrow> string" where
  "getenv_text e k = dgetd (e_environ e) k ''None''"

definition file_size :: "tool_env \<Rightarrow> content \<Rightarrow> nat" where
  "file_size e c = (case c of Bytes s \<Rightarrow> length s | _ \<Rightarrow> e_size e c)"

section \<open>Archives\<close>

definition open_zip :: "tool_env \<Rightarrow> string \<Rightarrow> tool_world \<Rightarrow> entries result" where
  "open_zip e p w =
     rbind (read_file e p w) (\<lambda>c. case c of Zip _ es \<Rightarrow> Inr es | _ \<Rightarrow> Inl (PyException ''BadZipfile''))"

abbreviation namelist :: "entries \<Rightarrow> string list" where
  "namelist es \<equiv> map fst es"

text \<open>\<open>zip.read(name)\<close>: of several entries with one name the last is known by the name.\<close>

definition zip_read :: "entries \<Rightarrow> string \<Rightarrow> content result" where
  "zip_read es name = (case map_of (rev es) name of None \<Rightarrow> Inl KeyError | Some c \<Rightarrow> Inr c)"

text \<open>\<open>zip.write(filename, arcname)\<close>: the name is normalised and made relative.\<close>

definition zip_arcname :: "string \<Rightarrow> string result" where
  "zip_arcname arcname =
     (let a = dropWhile (\<lambda>x. x = slash) (normpath arcname) in if a = [] then Inl IndexError else Inr a)"

definition zip_write :: "tool_env \<Rightarrow> tool_world \<Rightarrow> string \<Rightarrow> string \<Rightarrow> entries \<Rightarrow> entries result" where
  "zip_write e w filename arcname es =
     (if path_exists e filename w
      then rbind (zip_arcname arcname) (\<lambda>a.
             Inr (es @ [case file_at e filename w of None \<Rightarrow> (a @ ''/'', Bytes []) | Some c \<Rightarrow> (a, c)]))
      else Inl os_error)"

definition zip_writestr :: "string \<Rightarrow> content \<Rightarrow> entries \<Rightarrow> entries" where
  "zip_writestr name c es = es @ [(name, c)]"

text \<open>
  \<open>tar.add(name, arcname)\<close> for a file: the archive itself is left out and the name made relative. The entries
  below a directory are not described; every caller reads the source as a file afterwards, which fails then.
\<close>

definition tar_add :: "tool_env \<Rightarrow> string \<Rightarrow> tool_world \<Rightarrow> string \<Rightarrow> string \<Rightarrow> entries \<Rightarrow> entries result" where
  "tar_add e path w name arcname es =
     (if place e name = place e path \<or> is_dir e name w then Inr es
      else case file_at e name w of
        None \<Rightarrow> Inl os_error
      | Some c \<Rightarrow> Inr (es @ [(dropWhile (\<lambda>x. x = slash) arcname, c)]))"

section \<open>Output\<close>

definition emit :: "tool_output \<Rightarrow> tool_world \<Rightarrow> tool_world" where
  "emit x w = w\<lparr>w_out := w_out w @ [x]\<rparr>"

definition append_content :: "content option \<Rightarrow> string \<Rightarrow> content" where
  "append_content c s = (case c of Some (Bytes t) \<Rightarrow> Bytes (t @ s) | _ \<Rightarrow> Bytes s)"

definition console_log :: "string \<Rightarrow> tool_world \<Rightarrow> tool_world" where
  "console_log msg w =
     (case w_log w of
        None \<Rightarrow> w
      | Some p \<Rightarrow> w\<lparr>w_files := dset p (append_content (dget (w_files w) p) (msg @ [newline])) (w_files w)\<rparr>)"

definition set_log_file :: "tool_env \<Rightarrow> string \<Rightarrow> tool_world \<Rightarrow> tool_world result" where
  "set_log_file e p w = rbind (write_file e p (Bytes []) w) (\<lambda>w. Inr (w\<lparr>w_log := Some (place e p)\<rparr>))"

definition colored :: "string \<Rightarrow> string \<Rightarrow> tool_world \<Rightarrow> string" where
  "colored code msg w = (if w_color w then CHR 0x1B # ''[1;'' @ code @ ''m'' @ msg @ CHR 0x1B # ''[0m'' else msg)"

definition console_error :: "string \<Rightarrow> tool_world \<Rightarrow> tool_world" where
  "console_error msg w =
     (let msg = ''Blade(error): '' @ msg; w = console_log msg w
      in emit (Stderr (colored ''31'' msg w @ [newline])) w)"

definition console_warning :: "string \<Rightarrow> tool_world \<Rightarrow> tool_world" where
  "console_warning msg w =
     (let msg = ''Blade(warning): '' @ msg; w = console_log msg w
      in emit (Stderr (colored ''33'' msg w @ [newline])) w)"

definition console_info :: "string \<Rightarrow> bool \<Rightarrow> tool_world \<Rightarrow> tool_world" where
  "console_info msg pfx w =
     (let msg = (if pfx then ''Blade(info): '' @ msg else msg); w = console_log msg w
      in emit (Stdout (colored ''36'' msg w @ [newline])) w)"

definition console_debug :: "string \<Rightarrow> tool_world \<Rightarrow> tool_world" where
  "console_debug msg w = console_log msg w"

section \<open>Helpers of blade_util.py that touch the world\<close>

definition md5sum_file :: "tool_env \<Rightarrow> string \<Rightarrow> tool_world \<Rightarrow> string result" where
  "md5sum_file e p w = rbind (read_file e p w) (\<lambda>c. Inr (e_md5 e c))"

definition echo :: "string \<Rightarrow> string \<Rightarrow> tool_world \<Rightarrow> tool_world" where
  "echo out err w =
     (let w = (if out \<noteq> [] then emit (Stdout out) w else w)
      in if err \<noteq> [] then emit (Stderr err) w else w)"

text \<open>\<open>shell(cmd)\<close> for a list: nothing is echoed when the command was interrupted.\<close>

definition shell :: "tool_env \<Rightarrow> string list \<Rightarrow> tool_world \<Rightarrow> int \<times> tool_world" where
  "shell e cmd w =
     (case e_shell e (join_with '' '' cmd) w of (code, out, err, w) \<Rightarrow>
        (code, if code \<noteq> 0 \<and> code = - 2 then w else echo out err w))"

definition load_scm :: "tool_env \<Rightarrow> string \<Rightarrow> tool_world \<Rightarrow> (string \<times> string) result" where
  "load_scm e build_dir w =
     (let path = path_join build_dir ''scm.json''
      in if path_exists e path w
         then rbind (read_file e path w) (\<lambda>c.
              rbind (e_json e c) (\<lambda>scm.
              rbind (dindex scm ''revision'') (\<lambda>revision.
              rbind (dindex scm ''url'') (\<lambda>url. Inr (revision, url)))))
         else Inr (''unknown'', ''unknown''))"

end
