(* ===== verification/Fat_Jar.thy ===== *)
theory Fat_Jar
  imports Tool_World
begin

text \<open>
  Fat jars, \<open>src/blade/fatjar.py\<close>: the entries of all jars in one archive. The loop over the jars and their
  entries is compared with a description that does not mention its table: every name that is not excluded
  occurs once, in the order of first occurrence, with the content of the first jar that has it.
\<close>

section \<open>Exclusions\<close>

definition jar_manifest :: string where
  "jar_manifest = ''META-INF/MANIFEST.MF''"

definition fatjar_exclusions :: "string list" where
  "fatjar_exclusions =
     [''LICENSE'', ''README'', ''NOTICE'', ''META-INF/LICENSE'', ''META-INF/README'', ''META-INF/NOTICE'',
      ''META-INF/INDEX.LIST'']"

definition is_signature_file :: "string \<Rightarrow> bool" where
  "is_signature_file name =
     (case split_on slash (upper name) of
        [_, part] \<Rightarrow> list_ex (endswith part) [''.SF'', ''.DSA'', ''.RSA''] \<or> startswith part ''SIG-''
      | _ \<Rightarrow> False)"

definition is_fat_jar_excluded :: "string \<Rightarrow> bool" where
  "is_fat_jar_excluded name =
     (let name = upper name
      in list_ex (startswith name) fatjar_exclusions \<or> name = jar_manifest \<or> is_signature_file name)"

definition manifest_scm :: "tool_env \<Rightarrow> string \<Rightarrow> tool_world \<Rightarrow> string list result" where
  "manifest_scm e build_dir w =
     rbind (load_scm e build_dir w) (\<lambda>(revision, url).
       Inr [''SCM-Url: '' @ url, ''SCM-Revision: '' @ revision])"

section \<open>Packing\<close>

text \<open>The variables of the loops: the new archive, the table of written paths, and the conflicts.\<close>

record fat_state =
  fj_entries :: entries
  fj_paths :: "(string, string) dict"
  fj_conflicts :: nat
  fj_logs :: "string list"

definition duplicate_msg :: "string \<Rightarrow> string \<Rightarrow> string \<Rightarrow> string \<Rightarrow> string" where
  "duplicate_msg target name first second =
     target @ '': duplicate path '' @ name @ '' found in {'' @ first @ '', '' @ second @ ''}''"

definition fat_jar_name :: "string \<Rightarrow> string \<Rightarrow> entries \<Rightarrow> string \<Rightarrow> fat_state \<Rightarrow> fat_state result" where
  "fat_jar_name target dep_jar es name s =
     (if endswith name ''/'' \<or> \<not> is_fat_jar_excluded name
      then (case dget (fj_paths s) name of
              None \<Rightarrow> rbind (zip_read es name) (\<lambda>c.
                Inr (s\<lparr>fj_entries := zip_writestr name c (fj_entries s),
                       fj_paths := dset name (basename dep_jar) (fj_paths s)\<rparr>))
            | Some first \<Rightarrow>
                Inr (if \<not> endswith name ''/''
                     then s\<lparr>fj_conflicts := fj_conflicts s + 1,
                            fj_logs := fj_logs s @ [duplicate_msg target name first (basename dep_jar)]\<rparr>
                     else s))
      else Inr s)"

definition fat_jar_dep :: "tool_env \<Rightarrow> tool_world \<Rightarrow> string \<Rightarrow> string \<Rightarrow> fat_state \<Rightarrow> fat_state result" where
  "fat_jar_dep e w target dep_jar s =
     rbind (open_zip e dep_jar w) (\<lambda>es. rfold (fat_jar_name target dep_jar es) (namelist es) s)"

definition fat_jar_report :: "bool \<Rightarrow> string \<Rightarrow> fat_state \<Rightarrow> tool_world \<Rightarrow> tool_world" where
  "fat_jar_report console_logging target s w =
     (if fj_conflicts s \<noteq> 0
      then let log = target @ '': Found '' @ show_nat (fj_conflicts s) @ '' conflicts when packaging.'';
               logs = join_with [newline] (fj_logs s)
           in if console_logging then console_debug logs (console_warning log w)
              else emit (Stderr (logs @ [newline])) (emit (Stdout (log @ [newline])) w)
      else w)"

definition fat_jar_manifest :: "tool_env \<Rightarrow> string list \<Rightarrow> string" where
  "fat_jar_manifest e scm =
     join_with [newline]
       ([''Manifest-Version: 1.0'', ''Created-By: Python.Zipfile (Blade)'', ''Built-By: '' @ getenv_text e ''USER'',
         ''Build-Time: '' @ e_asctime e] @ scm @ [[newline]])"

text \<open>The archive is truncated before the jars are opened, and complete when it is closed.\<close>

definition generate_fat_jar ::
  "tool_env \<Rightarrow> bool \<Rightarrow> string \<Rightarrow> string list \<Rightarrow> tool_world \<Rightarrow> tool_world result" where
  "generate_fat_jar e console_logging target jars w =
     (let target_dir = dirname target
      in rbind (if path_exists e target_dir w then Inr w else makedirs e target_dir w) (\<lambda>w.
         rbind (write_file e target (Bytes []) w) (\<lambda>w.
         rbind (rfold (fat_jar_dep e w target) jars \<lparr>fj_entries = [], fj_paths = [], fj_conflicts = 0, fj_logs = []\<rparr>) (\<lambda>s.
           let w = fat_jar_report console_logging target s w
           in rbind (manifest_scm e (hd (split_on slash target)) w) (\<lambda>scm.
                write_file e target
                  (Zip [] (zip_writestr jar_manifest (Bytes (fat_jar_manifest e scm)) (fj_entries s))) w)))))"

section \<open>What is packed\<close>

definition packed :: "string \<Rightarrow> bool" where
  "packed name \<longleftrightarrow> endswith name ''/'' \<or> \<not> is_fat_jar_excluded name"

text \<open>The names to pack with their content in the jar, jar by jar.\<close>

definition jar_offers :: "entries \<Rightarrow> entries" where
  "jar_offers es = map (\<lambda>n. (n, the (map_of (rev es) n))) (filter packed (namelist es))"

text \<open>The first offer of every name, in order.\<close>

definition first_offers :: "entries \<Rightarrow> entries" where
  "first_offers os = map (\<lambda>n. (n, the (map_of os n))) (stable_unique (map fst os))"

lemma stable_unique_snoc: "stable_unique (xs @ [x]) = stable_unique xs @ (if x \<in> set xs then [] else [x])"
  by (simp add: stable_unique_def stable_unique_from_snoc)

lemma set_stable_unique: "set (stable_unique xs) = set xs"
  by (simp add: stable_unique_def stable_unique_from_set)

lemma first_offers_Nil [simp]: "first_offers [] = []"
  by (simp add: first_offers_def stable_unique_def)

lemma first_offers_names: "map fst (first_offers os) = stable_unique (map fst os)"
  by (simp add: first_offers_def comp_def)

lemma first_offers_snoc:
  "first_offers (os @ [(n, c)]) = first_offers os @ (if n \<in> fst ` set os then [] else [(n, c)])"
proof -
  have "the (map_of (os @ [(n, c)]) m) = the (map_of os m)" if "m \<in> fst ` set os" for m
    using that by (auto simp: map_add_def split: option.splits simp: map_of_eq_None_iff)
  then have old: "map (\<lambda>m. (m, the (map_of (os @ [(n, c)]) m))) (stable_unique (map fst os)) = first_offers os"
    by (auto simp: first_offers_def set_stable_unique)
  have "map_of os n = None" if "n \<notin> fst ` set os" using that by (simp add: map_of_eq_None_iff)
  then show ?thesis
    using old by (auto simp: first_offers_def stable_unique_snoc map_add_def)
qed

text \<open>
  The loops keep \<open>fat_inv\<close>: the archive holds the first offers of the names seen so far, and the table knows
  exactly these names.
\<close>

definition fat_inv :: "entries \<Rightarrow> fat_state \<Rightarrow> bool" where
  "fat_inv os s \<longleftrightarrow> fj_entries s = first_offers os \<and> fst ` set (fj_paths s) = fst ` set os"

lemma fat_inv_lookup: "fat_inv os s \<Longrightarrow> dget (fj_paths s) n = None \<longleftrightarrow> n \<notin> fst ` set os"
  by (simp add: fat_inv_def dget_None)

lemma zip_read_entry: "n \<in> fst ` set es \<Longrightarrow> zip_read es n = Inr (the (map_of (rev es) n))"
  by (auto simp: zip_read_def split: option.splits simp: map_of_eq_None_iff)

lemma fat_jar_name_step:
  assumes inv: "fat_inv os s" and n: "n \<in> fst ` set es"
  shows "\<exists>s'. fat_jar_name target dep_jar es n s = Inr s' \<and>
    fat_inv (os @ (if packed n then [(n, the (map_of (rev es) n))] else [])) s'"
proof (cases "packed n")
  case True
  then have p: "endswith n ''/'' \<or> \<not> is_fat_jar_excluded n" by (simp add: packed_def)
  show ?thesis
  proof (cases "n \<in> fst ` set os")
    case False
    then have "dget (fj_paths s) n = None" using fat_inv_lookup [OF inv] by simp
    then show ?thesis
      using True p False inv n
      by (auto simp: fat_jar_name_def zip_read_entry fat_inv_def first_offers_snoc zip_writestr_def)
  next
    case old: True
    then obtain f where "dget (fj_paths s) n = Some f" using fat_inv_lookup [OF inv, of n] by auto
    then show ?thesis
      using True p old inv by (auto simp: fat_jar_name_def fat_inv_def first_offers_snoc insert_absorb)
  qed
next
  case False
  then show ?thesis using inv by (simp add: fat_jar_name_def packed_def)
qed

lemma fat_jar_names:
  assumes "fat_inv os s" and "set ns \<subseteq> fst ` set es"
  shows "\<exists>s'. rfold (fat_jar_name target dep_jar es) ns s = Inr s' \<and>
    fat_inv (os @ map (\<lambda>n. (n, the (map_of (rev es) n))) (filter packed ns)) s'"
  using assms
proof (induction ns arbitrary: os s)
  case (Cons n ns)
  obtain s' where s': "fat_jar_name target dep_jar es n s = Inr s'"
    and inv: "fat_inv (os @ (if packed n then [(n, the (map_of (rev es) n))] else [])) s'"
    using fat_jar_name_step [OF Cons.prems(1), of n es target dep_jar] Cons.prems(2) by (meson list.set_intros(1) subsetD)
  show ?case using Cons.IH [OF inv] Cons.prems(2) s' by (auto split: if_splits)
qed simp

lemma fat_jar_deps:
  assumes "rfold (fat_jar_dep e w target) jars s = Inr s'" and "fat_inv os s"
  shows "\<exists>ess. list_all2 (\<lambda>j es. open_zip e j w = Inr es) jars ess \<and> fat_inv (os @ concat (map jar_offers ess)) s'"
  using assms
proof (induction jars arbitrary: os s)
  case (Cons j jars)
  obtain es s1 where es: "open_zip e j w = Inr es"
    and s1: "rfold (fat_jar_name target j es) (namelist es) s = Inr s1"
    and rest: "rfold (fat_jar_dep e w target) jars s1 = Inr s'"
  proof -
    obtain s1 where "fat_jar_dep e w target j s = Inr s1" and rest: "rfold (fat_jar_dep e w target) jars s1 = Inr s'"
      using Cons.prems(1) by (auto simp: rbind_eq_Inr)
    then obtain es where "open_zip e j w = Inr es" "rfold (fat_jar_name target j es) (namelist es) s = Inr s1"
      by (auto simp: fat_jar_dep_def rbind_eq_Inr)
    then show thesis using rest by (rule that)
  qed
  have "fat_inv (os @ jar_offers es) s1"
    using fat_jar_names [OF Cons.prems(2), of "namelist es" es target j] s1 by (auto simp: jar_offers_def)
  from Cons.IH [OF rest this] obtain ess where
    "list_all2 (\<lambda>j es. open_zip e j w = Inr es) jars ess" "fat_inv ((os @ jar_offers es) @ concat (map jar_offers ess)) s'"
    by auto
  with es show ?case by (intro exI [of _ "es # ess"]) simp
qed auto

lemma write_file_result:
  assumes "write_file e p c w = Inr w'"
  shows "file_at e p w' = Some c" and "place e q \<noteq> place e p \<Longrightarrow> file_at e q w' = file_at e q w"
  using assms by (auto simp: write_file_def file_at_def split: if_splits)

lemma makedirs_files: "makedirs e p w = Inr w' \<Longrightarrow> w_files w' = w_files w"
  by (auto simp: makedirs_def Let_def split: if_splits)

text \<open>A jar that opens after the truncation of the target is not the target, so that it was the same before.\<close>

lemma open_zip_truncated:
  assumes "write_file e target (Bytes []) w = Inr w'" and "open_zip e j w' = Inr es"
  shows "open_zip e j w = Inr es"
proof -
  have "place e j \<noteq> place e target"
    using assms write_file_result(1) [OF assms(1)]
    by (auto simp: open_zip_def read_file_def file_at_def rbind_eq_Inr split: option.splits if_splits)
  from write_file_result(2) [OF assms(1) this] show ?thesis
    using assms(2) by (simp add: open_zip_def read_file_def)
qed

lemma manifest_excluded: "\<not> packed jar_manifest"
  by code_simp

lemma jar_offers_packed: "n \<in> fst ` set (jar_offers es) \<Longrightarrow> packed n"
  by (auto simp: jar_offers_def)

text \<open>
  C31. When packing a fat jar succeeds, all jars were zip archives and the new archive holds, for every name
  that is not excluded, exactly one entry: the names are in the order in which they first occur in the jars,
  each with the content it has in the first jar that contains it, and the manifest written by Blade comes
  last and is the only one.
\<close>

theorem fat_jar_takes_first:
  assumes "generate_fat_jar e console_logging target jars w = Inr w'"
  shows "\<exists>ess scm. list_all2 (\<lambda>jar es. open_zip e jar w = Inr es) jars ess \<and>
    file_at e target w' =
      Some (Zip [] (first_offers (concat (map jar_offers ess)) @ [(jar_manifest, Bytes (fat_jar_manifest e scm))])) \<and>
    distinct (map fst (first_offers (concat (map jar_offers ess))) @ [jar_manifest])"
proof -
  let ?s0 = "\<lparr>fj_entries = [], fj_paths = [], fj_conflicts = 0, fj_logs = []\<rparr>"
  obtain w1 w2 s scm where "(if path_exists e (dirname target) w then Inr w else makedirs e (dirname target) w) = Inr w1"
    and w2: "write_file e target (Bytes []) w1 = Inr w2"
    and s: "rfold (fat_jar_dep e w2 target) jars ?s0 = Inr s"
    and w': "write_file e target
      (Zip [] (zip_writestr jar_manifest (Bytes (fat_jar_manifest e scm)) (fj_entries s)))
      (fat_jar_report console_logging target s w2) = Inr w'"
    using assms unfolding generate_fat_jar_def Let_def rbind_eq_Inr by blast
  then have w1: "w_files w1 = w_files w" by (auto split: if_splits dest: makedirs_files)
  obtain ess where ess: "list_all2 (\<lambda>j es. open_zip e j w2 = Inr es) jars ess"
    and inv: "fat_inv (concat (map jar_offers ess)) s"
    using fat_jar_deps [OF s, of "[]"] by (auto simp: fat_inv_def)
  have "list_all2 (\<lambda>j es. open_zip e j w = Inr es) jars ess"
  proof (rule list_all2_mono [OF ess])
    fix j es
    assume "open_zip e j w2 = Inr es"
    then have "open_zip e j w1 = Inr es" by (rule open_zip_truncated [OF w2])
    then show "open_zip e j w = Inr es" using w1 by (cases "j = []") (simp_all add: open_zip_def read_file_def file_at_def)
  qed
  moreover have "file_at e target w' = Some (Zip [] (first_offers (concat (map jar_offers ess)) @
      [(jar_manifest, Bytes (fat_jar_manifest e scm))]))"
    using write_file_result(1) [OF w'] inv by (simp add: fat_inv_def zip_writestr_def)
  moreover have "distinct (map fst (first_offers (concat (map jar_offers ess))) @ [jar_manifest])"
    using manifest_excluded jar_offers_packed
    by (auto simp: first_offers_names set_stable_unique)
       (auto simp: stable_unique_def stable_unique_from_distinct)
  ultimately show ?thesis by blast
qed

text \<open>Two jars that share a class and a licence file; the first has the class twice.\<close>

definition sample_tool_env :: tool_env where
  "sample_tool_env =
     \<lparr>e_cwd = ''/r'', e_environ = [(''USER'', ''me'')], e_host = ''h'', e_asctime = ''now'', e_md5 = (\<lambda>_. ''d''),
      e_size = (\<lambda>_. 0), e_json = (\<lambda>_. Inl KeyError), e_repr = (\<lambda>_. ''r''), e_eval = (\<lambda>_. Inl TypeError),
      e_str = (\<lambda>_. ''e''), e_shell = (\<lambda>_ w. (0, [], [], w))\<rparr>"

definition sample_jars :: tool_world where
  "sample_jars =
     \<lparr>w_files = [(''/r/a.jar'', Zip [] [(''m/A.class'', Bytes ''1''), (''LICENSE'', Bytes ''l''), (''m/A.class'', Bytes ''2'')]),
                 (''/r/b.jar'', Zip [] [(''m/A.class'', Bytes ''3''), (''m/B.class'', Bytes ''4''), (''Licensed/C.class'', Bytes ''5'')])],
      w_dirs = [''/'', ''/r''], w_modes = [], w_out = [], w_log = None, w_color = False\<rparr>"

theorem fat_jar_takes_first_witness:
  "\<exists>w' ess scm. generate_fat_jar sample_tool_env False ''out/t.fat.jar'' [''a.jar'', ''b.jar''] sample_jars = Inr w' \<and>
    list_all2 (\<lambda>jar es. open_zip sample_tool_env jar sample_jars = Inr es) [''a.jar'', ''b.jar''] ess \<and>
    file_at sample_tool_env ''out/t.fat.jar'' w' =
      Some (Zip [] (first_offers (concat (map jar_offers ess)) @ [(jar_manifest, Bytes (fat_jar_manifest sample_tool_env scm))]))"
proof -
  have "is_ok (generate_fat_jar sample_tool_env False ''out/t.fat.jar'' [''a.jar'', ''b.jar''] sample_jars)"
    by code_simp
  then obtain w' where w': "generate_fat_jar sample_tool_env False ''out/t.fat.jar'' [''a.jar'', ''b.jar''] sample_jars = Inr w'"
    by (auto simp: is_ok_def split: sum.splits)
  from fat_jar_takes_first [OF w'] show ?thesis using w' by blast
qed

end
