(* ===== verification/Toolchain.thy ===== *)
theory Toolchain
  imports Fat_Jar
begin

text \<open>
  The helper programs of \<open>src/blade/toolchain.py\<close> except those for Python binaries: version information, packages,
  resources, jars, wrapper scripts of tests and binaries. Every entry function takes the arguments of the
  command line; its result is the value the function returns (\<open>None\<close> or an exit status) with the new world.
\<close>

type_synonym tool_result = "(int option \<times> tool_world) result"

definition finished :: "tool_world \<Rightarrow> tool_result" where
  "finished w = Inr (None, w)"

definition text_lines :: "string list \<Rightarrow> string" where
  "text_lines ls = concat (map (\<lambda>l. l @ [newline]) ls)"

definition in_dquotes :: "string \<Rightarrow> string" where
  "in_dquotes s = dquote # s @ [dquote]"

abbreviation assertion_error :: py_error where "assertion_error \<equiv> PyException ''AssertionError''"

text \<open>A list split in the middle, after the assertion that its length is even.\<close>

definition halves :: "string list \<Rightarrow> (string list \<times> string list) result" where
  "halves xs =
     (let middle = length xs div 2
      in if length xs mod 2 = 0 then Inr (take middle xs, drop middle xs) else Inl assertion_error)"

section \<open>Version information\<close>

definition scm_text :: "tool_env \<Rightarrow> string \<Rightarrow> string \<Rightarrow> string \<Rightarrow> string \<Rightarrow> string" where
  "scm_text e revision url profile compiler =
     text_lines
       [[], ''/* This file was generated by blade */'', ''extern '' @ in_dquotes ''C'' @ '' {'',
        ''namespace binary_version {'',
        ''  extern const int kSvnInfoCount = 1;'',
        ''  extern const char* const kSvnInfo[] = {'' @ in_dquotes (url @ ''@'' @ revision @ [backslash] @ ''n'') @ ''};'',
        ''  extern const char kBuildType[] = '' @ in_dquotes profile @ '';'',
        ''  extern const char kBuildTime[] = '' @ in_dquotes (e_asctime e) @ '';'',
        ''  extern const char kBuilderName[] = '' @ in_dquotes (getenv_text e ''USER'') @ '';'',
        ''  extern const char kHostName[] = '' @ in_dquotes (e_host e) @ '';'',
        ''  extern const char kCompiler[] = '' @ in_dquotes compiler @ '';'',
        ''}}'', []]"

definition generate_scm_entry :: "tool_env \<Rightarrow> string list \<Rightarrow> tool_world \<Rightarrow> tool_result" where
  "generate_scm_entry e args w =
     (case args of
        [scm, revision, url, profile, compiler] \<Rightarrow>
          rbind (write_file e scm (Bytes (scm_text e revision url profile compiler)) w) finished
      | _ \<Rightarrow> Inl ValueError)"

section \<open>Packages\<close>

definition package_manifest :: string where
  "package_manifest = ''MANIFEST.TXT''"

text \<open>\<open>package\<close> adds a file to the archive; the manifest has a line for every file.\<close>

fun archive_package_sources ::
  "tool_env \<Rightarrow> tool_world \<Rightarrow> (string \<Rightarrow> string \<Rightarrow> entries \<Rightarrow> entries result) \<Rightarrow> (string \<times> string) list \<Rightarrow>
   entries \<times> string list \<Rightarrow> (entries \<times> string list) result" where
  "archive_package_sources e w package [] st = Inr st"
| "archive_package_sources e w package ((src, dst) # rest) (es, manifest) =
     rbind (package src dst es) (\<lambda>es.
     rbind (md5sum_file e src w) (\<lambda>digest.
       archive_package_sources e w package rest (es, manifest @ [digest @ '' '' @ dst])))"

definition generate_zip_package ::
  "tool_env \<Rightarrow> string \<Rightarrow> string list \<Rightarrow> string list \<Rightarrow> tool_world \<Rightarrow> tool_world result" where
  "generate_zip_package e path sources destinations w =
     rbind (write_file e path (Bytes []) w) (\<lambda>w.
     rbind (archive_package_sources e w (zip_write e w) (zip sources destinations) ([], [])) (\<lambda>(es, manifest).
       write_file e path
         (Zip [] (zip_writestr package_manifest (Bytes (join_with [newline] manifest @ [newline])) es)) w))"

definition tar_write_modes :: "(string, string) dict" where
  "tar_write_modes =
     [(''tar'', ''w''), (''tar.gz'', ''w:gz''), (''tgz'', ''w:gz''), (''tar.bz2'', ''w:bz2''), (''tbz'', ''w:bz2'')]"

definition generate_tar_package ::
  "tool_env \<Rightarrow> string \<Rightarrow> string list \<Rightarrow> string list \<Rightarrow> string \<Rightarrow> tool_world \<Rightarrow> tool_world result" where
  "generate_tar_package e path sources destinations sfx w =
     rbind (dindex tar_write_modes sfx) (\<lambda>mode.
     rbind (write_file e path (Bytes []) w) (\<lambda>w.
     rbind (archive_package_sources e w (tar_add e path w) (zip sources destinations) ([], [])) (\<lambda>(es, manifest).
       let manifest_path = path @ ''.MANIFEST''
       in rbind (write_file e manifest_path (Bytes (join_with [newline] manifest @ [newline, newline])) w) (\<lambda>w.
          rbind (tar_add e path w manifest_path package_manifest es) (\<lambda>es.
            write_file e path (Tar mode es) w)))))"

text \<open>
  No key of the table is a suffix of another, so that at most one matches and the order of the loop does not
  matter; when none matches, the variable of the loop's result is unbound.
\<close>

definition generate_package_entry :: "tool_env \<Rightarrow> string list \<Rightarrow> tool_world \<Rightarrow> tool_result" where
  "generate_package_entry e args w =
     (case args of
        [] \<Rightarrow> Inl IndexError
      | path # manifest \<Rightarrow>
          rbind (halves manifest) (\<lambda>(sources, destinations).
            if endswith path ''.zip'' then rbind (generate_zip_package e path sources destinations w) finished
            else case find (endswith path) (dkeys tar_write_modes) of
                   None \<Rightarrow> Inl (NameError ''suffix'')
                 | Some sfx \<Rightarrow> rbind (generate_tar_package e path sources destinations sfx w) finished))"

section \<open>Objects of securecc\<close>

definition generate_securecc_object_entry :: "tool_env \<Rightarrow> string list \<Rightarrow> tool_world \<Rightarrow> tool_result" where
  "generate_securecc_object_entry e args w =
     rbind (unpack2 args) (\<lambda>(obj, phony_obj).
       if \<not> path_exists e obj w then rbind (copy_file e phony_obj obj w) finished
       else rbind (md5sum_file e obj w) (\<lambda>digest.
            rbind (md5sum_file e phony_obj w) (\<lambda>phony_digest.
              if digest \<noteq> phony_digest then rbind (copy_file e phony_obj obj w) finished else finished w)))"

section \<open>Resources\<close>

definition resource_header_intro :: "string \<Rightarrow> string" where
  "resource_header_intro guard_name =
     text_lines
       [''// This file was automatically generated by blade'', ''#ifndef '' @ guard_name, ''#define '' @ guard_name, [],
        ''#ifdef __cplusplus'', ''extern '' @ in_dquotes ''C'' @ '' {'', ''#endif'', [],
        ''#ifndef BLADE_RESOURCE_TYPE_DEFINED'', ''#define BLADE_RESOURCE_TYPE_DEFINED'',
        ''struct BladeResourceEntry {'', ''    const char* name;'', ''    const char* data;'', ''    unsigned int size;'',
        ''};'', ''#endif'', []]"

definition resource_source_intro :: "string \<Rightarrow> string \<Rightarrow> string" where
  "resource_source_intro header index_name =
     text_lines
       [''// This file was automatically generated by blade'', ''#include '' @ in_dquotes header, [],
        ''const struct BladeResourceEntry '' @ index_name @ ''[] = {'']"

definition resource_header_outro :: "string \<Rightarrow> string \<Rightarrow> string" where
  "resource_header_outro index_name guard_name =
     text_lines
       [''// Resource index'', ''extern const struct BladeResourceEntry '' @ index_name @ ''[];'',
        ''extern const unsigned '' @ index_name @ ''_len;'', [],
        ''#ifdef __cplusplus'', ''}  // extern '' @ in_dquotes ''C'', ''#endif'', [], ''#endif  // '' @ guard_name]"

definition resource_source_outro :: "string \<Rightarrow> nat \<Rightarrow> string" where
  "resource_source_outro index_name n = text_lines [''};'', ''const unsigned '' @ index_name @ ''_len = '' @ show_nat n @ '';'']"

text \<open>The loop over the resources; a resource is a file.\<close>

definition resource_entry ::
  "tool_env \<Rightarrow> tool_world \<Rightarrow> string \<Rightarrow> string \<Rightarrow> string \<times> string \<Rightarrow> (string \<times> string) result" where
  "resource_entry e w path s st =
     (case st of (h, c) \<Rightarrow>
        let entry_var = regular_variable_name s
        in rbind (relpath (e_cwd e) s path) (\<lambda>entry_name.
             case file_at e s w of
               None \<Rightarrow> Inl os_error
             | Some f \<Rightarrow>
                 let entry_size = show_nat (file_size e f)
                 in Inr (h @ text_lines
                           [''// '' @ entry_name,
                            ''extern const char RESOURCE_'' @ entry_var @ ''['' @ entry_size @ ''];'',
                            ''extern const unsigned RESOURCE_'' @ entry_var @ ''_len;'', []],
                         c @ text_lines
                           [''    { '' @ in_dquotes entry_name @ '', RESOURCE_'' @ entry_var @ '', '' @ entry_size @ '' },''])))"

definition generate_resource_index ::
  "tool_env \<Rightarrow> string \<Rightarrow> string \<Rightarrow> string list \<Rightarrow> string \<Rightarrow> string \<Rightarrow> tool_world \<Rightarrow> tool_world result" where
  "generate_resource_index e header src sources name path w =
     rbind (write_file e header (Bytes []) w) (\<lambda>w.
     rbind (write_file e src (Bytes []) w) (\<lambda>w.
       let full_name = regular_variable_name (path_join path name);
           guard_name = ''BLADE_RESOURCE_'' @ upper full_name @ ''_H_'';
           index_name = ''RESOURCE_INDEX_'' @ full_name
       in rbind (rfold (resource_entry e w path) sources
                   (resource_header_intro guard_name, resource_source_intro header index_name)) (\<lambda>(h, c).
          rbind (write_file e header (Bytes (h @ resource_header_outro index_name guard_name)) w)
            (write_file e src (Bytes (c @ resource_source_outro index_name (length sources)))))))"

definition generate_resource_index_entry :: "tool_env \<Rightarrow> string list \<Rightarrow> tool_world \<Rightarrow> tool_result" where
  "generate_resource_index_entry e args w =
     (case args of
        name # path # header # src # sources \<Rightarrow>
          rbind (generate_resource_index e header src sources name path w) finished
      | _ \<Rightarrow> Inl IndexError)"

end
