(* ===== verification/Tool_Scripts.thy ===== *)
theory Tool_Scripts
  imports Toolchain
begin

text \<open>
  The helper programs of \<open>src/blade/toolchain.py\<close> for jars, one-jar archives and the wrapper scripts of tests and
  binaries.
\<close>

section \<open>Jars\<close>

definition archive_resources ::
  "tool_env \<Rightarrow> string \<Rightarrow> string \<Rightarrow> string \<Rightarrow> string list \<Rightarrow> bool \<Rightarrow> tool_world \<Rightarrow> tool_result" where
  "archive_resources e jar target resources_dir resources new w =
     (let opt = (if new then ''cf'' else ''uf'')
      in rbind (rmap (\<lambda>r. rbind (relpath (e_cwd e) r resources_dir) (\<lambda>p.
                   Inr (''-C '' @ [CHR 0x27] @ resources_dir @ [CHR 0x27] @ '' '' @ [CHR 0x27] @ p @ [CHR 0x27]))) resources) (\<lambda>rs.
           case shell e ((jar @ '' '' @ opt @ '' '' @ target) # rs) w of (code, w) \<Rightarrow> Inr (Some code, w)))"

definition generate_java_jar_entry :: "tool_env \<Rightarrow> string list \<Rightarrow> tool_world \<Rightarrow> tool_result" where
  "generate_java_jar_entry e args w =
     (case args of
        jar # target # arg # rest \<Rightarrow>
          let resources_dir = replace_str ''.jar'' ''.resources'' target
          in if endswith arg ''__classes__.jar''
             then rbind (copy_file e arg target w) (\<lambda>w.
                    if rest \<noteq> [] then archive_resources e jar target resources_dir rest False w else finished w)
             else archive_resources e jar target resources_dir (arg # rest) True w
      | _ \<Rightarrow> Inl IndexError)"

definition copy_pairs :: "tool_env \<Rightarrow> (string \<times> string) list \<Rightarrow> tool_world \<Rightarrow> tool_world result" where
  "copy_pairs e ps w = rfold (\<lambda>(src, dst) w. copy_file e src dst w) ps w"

definition generate_java_resource_entry :: "tool_env \<Rightarrow> string list \<Rightarrow> tool_world \<Rightarrow> tool_result" where
  "generate_java_resource_entry e args w =
     rbind (halves args) (\<lambda>(targets, sources). rbind (copy_pairs e (zip sources targets) w) finished)"

section \<open>Tests\<close>

definition is_test_class :: "string \<Rightarrow> bool" where
  "is_test_class name =
     (let base = basename name
      in endswith base ''Test.class'' \<and> length base > length ''Test.class'' \<and> \<not> str_in ''$'' base)"

definition get_all_test_class_names_in_jar :: "tool_env \<Rightarrow> string \<Rightarrow> tool_world \<Rightarrow> string list result" where
  "get_all_test_class_names_in_jar e jar w =
     rbind (open_zip e jar w) (\<lambda>es.
       Inr (map (\<lambda>name. take (length name - 6) (replace_char slash (CHR ''.'') name)) (filter is_test_class (namelist es))))"

definition generate_java_test_coverage_flag :: "tool_env \<Rightarrow> string \<Rightarrow> string" where
  "generate_java_test_coverage_flag e targetundertestpkg =
     (let jacoco_agent = dgetd (e_environ e) ''JACOCOAGENT'' []
      in if targetundertestpkg \<noteq> [] \<and> jacoco_agent \<noteq> []
         then let packages = filter (\<lambda>p. p \<noteq> []) (split_on (CHR '':'') targetundertestpkg);
                  options = [''includes='' @ join_with '':'' (map (\<lambda>p. p @ ''.*'') packages), ''output=file'']
              in ''-javaagent:'' @ place e jacoco_agent @ ''='' @ join_with '','' options
         else [])"

text \<open>A script of the given lines, made executable.\<close>

definition write_script :: "tool_env \<Rightarrow> string \<Rightarrow> string list \<Rightarrow> tool_world \<Rightarrow> tool_world result" where
  "write_script e script ls w = rbind (write_file e script (Bytes (text_lines ls)) w) (chmod e script executable)"

definition script_intro :: "string list" where
  "script_intro = [''#!/bin/sh'', ''# Auto generated wrapper shell script by blade'', []]"

definition generate_java_test ::
  "tool_env \<Rightarrow> string \<Rightarrow> string \<Rightarrow> string list \<Rightarrow> string \<Rightarrow> string \<Rightarrow> tool_world \<Rightarrow> tool_world result" where
  "generate_java_test e script main_class jars args targetundertestpkg w =
     write_script e script
       (script_intro @
        [''if [ -n '' @ in_dquotes ''$BLADE_COVERAGE'' @ '' ]'', ''then'',
         ''  coverage_options='' @ in_dquotes (generate_java_test_coverage_flag e targetundertestpkg),
         ''fi'', [],
         ''exec java $coverage_options -classpath '' @ join_with '':'' jars @ '' '' @ main_class @ '' '' @ args @ '' $@'']) w"

definition generate_java_test_entry :: "tool_env \<Rightarrow> string list \<Rightarrow> tool_world \<Rightarrow> tool_result" where
  "generate_java_test_entry e args w =
     (case args of
        main_class # targetundertestpkg # script # jar # deps \<Rightarrow>
          let pkg = (if targetundertestpkg = ''__targetundertestpkg__'' then [] else targetundertestpkg)
          in rbind (get_all_test_class_names_in_jar e jar w) (\<lambda>names.
             rbind (generate_java_test e script main_class (jar # deps) (join_with '' '' names) pkg w) finished)
      | _ \<Rightarrow> Inl ValueError)"

definition generate_scala_test_entry :: "tool_env \<Rightarrow> string list \<Rightarrow> tool_world \<Rightarrow> tool_result" where
  "generate_scala_test_entry e args w =
     (case args of
        java # scala # script # jar # deps \<Rightarrow>
          rbind (get_all_test_class_names_in_jar e jar w) (\<lambda>names.
          rbind (write_script e script
                   (script_intro @
                    [''JAVACMD='' @ place e java @ '' exec '' @ place e scala @ '' -classpath '' @
                     join_with '':'' (jar # deps) @ '' org.scalatest.run '' @ join_with '' '' names @ '' $@'', []]) w) finished)
      | _ \<Rightarrow> Inl ValueError)"

definition generate_shell_test_entry :: "tool_env \<Rightarrow> string list \<Rightarrow> tool_world \<Rightarrow> tool_result" where
  "generate_shell_test_entry e args w =
     (case args of
        [] \<Rightarrow> Inl IndexError
      | wrapper # scripts \<Rightarrow>
          rbind (write_script e wrapper
                   (script_intro @ [''set -e'', [], join_with [newline] (map (\<lambda>s. ''. '' @ place e s) scripts), []]) w) finished)"

definition generate_shell_testdata_entry :: "tool_env \<Rightarrow> string list \<Rightarrow> tool_world \<Rightarrow> tool_result" where
  "generate_shell_testdata_entry e args w =
     (case args of
        [] \<Rightarrow> Inl IndexError
      | path # testdata \<Rightarrow>
          rbind (halves testdata) (\<lambda>(sources, destinations).
          rbind (write_file e path
                   (Bytes (text_lines (map (\<lambda>(s, d). place e s @ '' '' @ d) (zip sources destinations)))) w) finished))"

section \<open>Binaries\<close>

definition generate_fat_jar_entry :: "tool_env \<Rightarrow> string list \<Rightarrow> tool_world \<Rightarrow> tool_result" where
  "generate_fat_jar_entry e args w =
     (case args of
        [] \<Rightarrow> Inl IndexError
      | jar # jars \<Rightarrow>
          rbind (set_log_file e (replace_str ''.fat.jar'' ''__fatjar__'' jar @ ''.log'') w) (\<lambda>w.
          rbind (generate_fat_jar e True jar jars (w\<lparr>w_color := True\<rparr>)) finished))"

text \<open>The loops of \<open>generate_one_jar\<close>: the archive and the set of paths written so far.\<close>

definition boot_entry :: "entries \<Rightarrow> string \<Rightarrow> entries \<times> string list \<Rightarrow> (entries \<times> string list) result" where
  "boot_entry boot name st =
     (case st of (es, paths) \<Rightarrow>
        if endswith (lower name) ''manifest.mf'' then Inr (es, paths)
        else rbind (zip_read boot name) (\<lambda>c. Inr (zip_writestr name c es, List.insert name paths)))"

definition resource_of_jar :: "entries \<Rightarrow> string \<Rightarrow> entries \<times> string list \<Rightarrow> (entries \<times> string list) result" where
  "resource_of_jar jar name st =
     (case st of (es, paths) \<Rightarrow>
        if endswith name ''.class'' \<or> startswith (upper name) ''META-INF'' then Inr (es, paths)
        else if name \<notin> set paths
        then rbind (zip_read jar name) (\<lambda>c. Inr (zip_writestr name c es, List.insert name paths))
        else Inr (es, paths))"

definition resources_of_jar ::
  "tool_env \<Rightarrow> tool_world \<Rightarrow> string \<Rightarrow> entries \<times> string list \<Rightarrow> (entries \<times> string list) result" where
  "resources_of_jar e w jar st = rbind (open_zip e jar w) (\<lambda>es. rfold (resource_of_jar es) (namelist es) st)"

definition one_jar_manifest :: "string \<Rightarrow> string" where
  "one_jar_manifest main_class =
     text_lines
       [''Manifest-Version: 1.0'', ''Main-Class: com.simontuffs.onejar.Boot'', ''One-Jar-Main-Class: '' @ main_class, []]"

definition generate_one_jar ::
  "tool_env \<Rightarrow> string \<Rightarrow> string \<Rightarrow> string \<Rightarrow> string list \<Rightarrow> string \<Rightarrow> tool_world \<Rightarrow> tool_world result" where
  "generate_one_jar e onejar main_class main_jar jars bootjar w =
     rbind (write_file e onejar (Bytes []) w) (\<lambda>w.
     rbind (open_zip e bootjar w) (\<lambda>boot.
     rbind (rfold (boot_entry boot) (namelist boot) ([], [])) (\<lambda>(es, paths).
     rbind (zip_write e w main_jar (path_join ''main'' (basename main_jar)) es) (\<lambda>es.
     rbind (rfold (\<lambda>dep. zip_write e w dep (path_join ''lib'' (basename dep))) jars es) (\<lambda>es.
     rbind (rfold (resources_of_jar e w) (main_jar # jars) (es, paths)) (\<lambda>(es, paths).
       write_file e onejar
         (Zip [] (zip_writestr (path_join ''META-INF'' ''MANIFEST.MF'') (Bytes (one_jar_manifest main_class)) es)) w))))))"

definition generate_one_jar_entry :: "tool_env \<Rightarrow> string list \<Rightarrow> tool_world \<Rightarrow> tool_result" where
  "generate_one_jar_entry e args w =
     (case args of
        bootjar # main_class # onejar # main_jar # jars \<Rightarrow>
          rbind (generate_one_jar e onejar main_class main_jar jars bootjar w) finished
      | _ \<Rightarrow> Inl ValueError)"

definition generate_java_binary_entry :: "tool_env \<Rightarrow> string list \<Rightarrow> tool_world \<Rightarrow> tool_result" where
  "generate_java_binary_entry e args w =
     rbind (unpack2 args) (\<lambda>(script, onejar).
     rbind (write_script e script
              (script_intro @
               [''jar=`dirname '' @ in_dquotes ''$0'' @ ''`/'' @ in_dquotes (basename onejar),
                ''if [ ! -f '' @ in_dquotes ''$jar'' @ '' ]; then'',
                ''  jar='' @ in_dquotes (place e onejar), ''fi'', [],
                ''exec java -jar '' @ in_dquotes ''$jar'' @ '' $@'']) w) finished)"

end
