(* ===== verification/Python_Binary.thy ===== *)
theory Python_Binary
  imports Tool_Scripts
begin

text \<open>
  Python libraries and binaries, and the start of the helper programs (\<open>src/blade/toolchain.py\<close>, second half).

  A binary is a zip archive that Python imports from, so that every directory with modules needs an
  \<open>__init__.py\<close>. The loop that collects the directories climbs with \<open>dirname\<close> until the empty path; it does not
  end for an absolute path, which is the value \<open>None\<close> of the definitions here.
\<close>

section \<open>Computations that may not return\<close>

definition obind :: "'a result option \<Rightarrow> ('a \<Rightarrow> 'b result option) \<Rightarrow> 'b result option" where
  "obind m f = (case m of None \<Rightarrow> None | Some (Inl err) \<Rightarrow> Some (Inl err) | Some (Inr x) \<Rightarrow> f x)"

fun ofold :: "('x \<Rightarrow> 's \<Rightarrow> 's result option) \<Rightarrow> 'x list \<Rightarrow> 's \<Rightarrow> 's result option" where
  "ofold f [] s = Some (Inr s)"
| "ofold f (x # xs) s = obind (f x s) (ofold f xs)"

section \<open>Libraries\<close>

definition python_basedir :: "string \<Rightarrow> string" where
  "python_basedir basedir = (if basedir = ''__pythonbasedir__'' then [] else basedir)"

definition pylib_data :: "string \<Rightarrow> (string \<times> string) list \<Rightarrow> pyval" where
  "pylib_data basedir sources =
     PyDict [(''base_dir'', PyStr basedir), (''srcs'', PyList (map (\<lambda>(py, digest). PyTuple [PyStr py, PyStr digest]) sources))]"

definition generate_python_library_entry :: "tool_env \<Rightarrow> string list \<Rightarrow> tool_world \<Rightarrow> tool_result" where
  "generate_python_library_entry e args w =
     (case args of
        basedir # pylib # pys \<Rightarrow>
          rbind (rmap (\<lambda>py. rbind (md5sum_file e py w) (\<lambda>digest. Inr (py, digest))) pys) (\<lambda>sources.
          rbind (write_file e pylib (Bytes (e_repr e (pylib_data (python_basedir basedir) sources))) w) finished)
      | _ \<Rightarrow> Inl IndexError)"

section \<open>Binaries\<close>

text \<open>The archive, and the two sets of directories.\<close>

record pybin =
  pb_entries :: entries
  pb_dirs :: "string list"
  pb_with_init :: "string list"

text \<open>\<open>while dir: dirs.add(dir); dir = os.path.dirname(dir)\<close>\<close>

partial_function (option) add_parent_dirs :: "string \<Rightarrow> string list \<Rightarrow> string list option" where
  "add_parent_dirs d dirs = (if d = [] then Some dirs else add_parent_dirs (dirname d) (List.insert d dirs))"

declare add_parent_dirs.simps [code]

definition update_init_py_dirs :: "string \<Rightarrow> pybin \<Rightarrow> pybin option" where
  "update_init_py_dirs arcname s =
     (let d = dirname arcname;
          s = (if basename arcname = ''__init__.py'' then s\<lparr>pb_with_init := List.insert d (pb_with_init s)\<rparr> else s)
      in map_option (\<lambda>dirs. s\<lparr>pb_dirs := dirs\<rparr>) (add_parent_dirs d (pb_dirs s)))"

text \<open>
  \<open>for libsrc, digest in data['srcs']\<close>: any iterable of two items is unpacked; names that are no strings are
  type errors.
\<close>

fun libsrc_of :: "pyval \<Rightarrow> string result" where
  "libsrc_of (PyTuple [v, _]) = as_str v"
| "libsrc_of (PyList [v, _]) = as_str v"
| "libsrc_of (PyStr [c, _]) = Inr [c]"
| "libsrc_of (PyDict [(k, _), _]) = Inr k"
| "libsrc_of PyNone = Inl TypeError"
| "libsrc_of (PyBool _) = Inl TypeError"
| "libsrc_of (PyInt _) = Inl TypeError"
| "libsrc_of _ = Inl ValueError"

fun list_of_py :: "pyval \<Rightarrow> pyval list result" where
  "list_of_py (PyList vs) = Inr vs"
| "list_of_py (PyTuple vs) = Inr vs"
| "list_of_py (PyStr s) = Inr (map (\<lambda>c. PyStr [c]) s)"
| "list_of_py (PyDict d) = Inr (map PyStr (dkeys d))"
| "list_of_py _ = Inl TypeError"

fun dict_of_py :: "pyval \<Rightarrow> (string, pyval) dict result" where
  "dict_of_py (PyDict d) = Inr d"
| "dict_of_py _ = Inl TypeError"

definition add_libsrc :: "tool_env \<Rightarrow> tool_world \<Rightarrow> string \<Rightarrow> pyval \<Rightarrow> pybin \<Rightarrow> pybin result option" where
  "add_libsrc e w base_dir v s =
     obind (Some (rbind (libsrc_of v) (\<lambda>libsrc. rbind (relpath (e_cwd e) libsrc base_dir) (\<lambda>arcname. Inr (libsrc, arcname)))))
       (\<lambda>(libsrc, arcname).
          case update_init_py_dirs arcname s of
            None \<Rightarrow> None
          | Some s \<Rightarrow> Some (rbind (zip_write e w libsrc arcname (pb_entries s)) (\<lambda>es. Inr (s\<lparr>pb_entries := es\<rparr>))))"

definition pybin_add_pylib :: "tool_env \<Rightarrow> tool_world \<Rightarrow> string \<Rightarrow> pybin \<Rightarrow> pybin result option" where
  "pybin_add_pylib e w libname s =
     obind (Some (rbind (read_file e libname w) (\<lambda>c.
                  rbind (e_eval e c) (\<lambda>v.
                  rbind (dict_of_py v) (\<lambda>data.
                  rbind (dindex data ''base_dir'') (\<lambda>b.
                  rbind (dindex data ''srcs'') (\<lambda>srcs.
                  rbind (list_of_py srcs) (\<lambda>vs.
                  rbind (if vs = [] then Inr [] else as_str b) (\<lambda>base_dir. Inr (base_dir, vs))))))))))
       (\<lambda>(base_dir, vs). ofold (add_libsrc e w base_dir) vs s)"

definition add_zip_entry ::
  "entries \<Rightarrow> (string \<Rightarrow> bool) \<Rightarrow> bool \<Rightarrow> string \<Rightarrow> pybin \<Rightarrow> pybin result option" where
  "add_zip_entry lib keep record_dirs name s =
     (if keep name
      then case (if record_dirs then update_init_py_dirs name s else Some s) of
             None \<Rightarrow> None
           | Some s \<Rightarrow> Some (rbind (zip_read lib name) (\<lambda>c. Inr (s\<lparr>pb_entries := zip_writestr name c (pb_entries s)\<rparr>)))
      else Some (Inr s))"

definition pybin_add_zip ::
  "tool_env \<Rightarrow> tool_world \<Rightarrow> string \<Rightarrow> (string \<Rightarrow> bool) \<Rightarrow> bool \<Rightarrow> pybin \<Rightarrow> pybin result option" where
  "pybin_add_zip e w libname keep record_dirs s =
     obind (Some (open_zip e libname w)) (\<lambda>lib. ofold (add_zip_entry lib keep record_dirs) (namelist lib) s)"

definition egg_filter :: "string \<Rightarrow> bool" where
  "egg_filter name \<longleftrightarrow> \<not> startswith name ''EGG-INFO'' \<and> \<not> endswith name ''.pyc''"

definition pybin_add_egg :: "tool_env \<Rightarrow> tool_world \<Rightarrow> string \<Rightarrow> pybin \<Rightarrow> pybin result option" where
  "pybin_add_egg e w libname s = pybin_add_zip e w libname egg_filter False s"

definition whl_filter :: "string \<Rightarrow> bool" where
  "whl_filter name \<longleftrightarrow> \<not> str_in ''.dist-info/'' name"

definition pybin_add_whl :: "tool_env \<Rightarrow> tool_world \<Rightarrow> string \<Rightarrow> pybin \<Rightarrow> pybin result option" where
  "pybin_add_whl e w libname s = pybin_add_zip e w libname whl_filter True s"

definition pybin_add :: "tool_env \<Rightarrow> tool_world \<Rightarrow> string \<Rightarrow> pybin \<Rightarrow> pybin result option" where
  "pybin_add e w arg s =
     (if endswith arg ''.pylib'' then pybin_add_pylib e w arg s
      else if endswith arg ''.egg'' then pybin_add_egg e w arg s
      else if endswith arg ''.whl'' then pybin_add_whl e w arg s
      else Some (Inl assertion_error))"

text \<open>The empty modules for the directories without one, in sorted order, and one for the top level.\<close>

definition missing_inits :: "pybin \<Rightarrow> entries" where
  "missing_inits s =
     map (\<lambda>d. (path_join d ''__init__.py'', Bytes [])) (sort (filter (\<lambda>d. d \<notin> set (pb_with_init s)) (pb_dirs s))) @
     [(''__init__.py'', Bytes [])]"

definition bootstrap :: "string \<Rightarrow> string" where
  "bootstrap mainentry =
     text_lines
       [''#!/bin/sh'', [], ''PYTHONPATH='' @ in_dquotes ''$0:$PYTHONPATH'' @ '' exec python -m '' @ in_dquotes mainentry @ '' '' @
                           in_dquotes ''$@'']"

definition generate_python_binary ::
  "tool_env \<Rightarrow> string \<Rightarrow> string \<Rightarrow> string \<Rightarrow> string list \<Rightarrow> tool_world \<Rightarrow> tool_world result option" where
  "generate_python_binary e basedir mainentry path args w =
     obind (Some (write_file e path (Bytes []) w)) (\<lambda>w.
     obind (ofold (pybin_add e w) args \<lparr>pb_entries = [], pb_dirs = [], pb_with_init = []\<rparr>) (\<lambda>s.
       Some (rbind (write_file e path (Zip (bootstrap mainentry) (pb_entries s @ missing_inits s)) w)
              (chmod e path executable))))"

definition generate_python_binary_entry ::
  "tool_env \<Rightarrow> string list \<Rightarrow> tool_world \<Rightarrow> (int option \<times> tool_world) result option" where
  "generate_python_binary_entry e args w =
     (case args of
        basedir # mainentry # path # libs \<Rightarrow>
          obind (generate_python_binary e basedir mainentry path libs w) (\<lambda>w. Some (finished w))
      | _ \<Rightarrow> Some (Inl IndexError))"

section \<open>Start\<close>

definition toolchains ::
  "(string, tool_env \<Rightarrow> string list \<Rightarrow> tool_world \<Rightarrow> (int option \<times> tool_world) result option) dict" where
  "toolchains =
     map (\<lambda>(name, entry). (name, \<lambda>e args w. Some (entry e args w)))
       [(''scm'', generate_scm_entry), (''package'', generate_package_entry),
        (''securecc_object'', generate_securecc_object_entry), (''resource_index'', generate_resource_index_entry),
        (''java_jar'', generate_java_jar_entry), (''java_resource'', generate_java_resource_entry),
        (''java_test'', generate_java_test_entry), (''java_fatjar'', generate_fat_jar_entry),
        (''java_onejar'', generate_one_jar_entry), (''java_binary'', generate_java_binary_entry),
        (''scala_test'', generate_scala_test_entry), (''shell_test'', generate_shell_test_entry),
        (''shell_testdata'', generate_shell_testdata_entry), (''python_library'', generate_python_library_entry)] @
     [(''python_binary'', generate_python_binary_entry)]"

text \<open>
  The exit status of the process, with the world after a regular end or the message of the exception that
  ended it. Without an argument the process ends with \<open>IndexError\<close> before the handler is in place, which is
  exit status 1 as well.
\<close>

definition toolchain_main :: "tool_env \<Rightarrow> string list \<Rightarrow> tool_world \<Rightarrow> (int \<times> (string + tool_world)) option" where
  "toolchain_main e argv w =
     (case argv of
        [] \<Rightarrow> Some (1, Inl (e_str e IndexError))
      | name # args \<Rightarrow>
          map_option (\<lambda>r. case r of Inl err \<Rightarrow> (1, Inl (e_str e err)) | Inr (ret, w) \<Rightarrow> (case ret of None \<Rightarrow> 0 | Some c \<Rightarrow> c, Inr w))
            (obind (Some (dindex toolchains name)) (\<lambda>entry. entry e args w)))"

end
