(* ===== verification/Python_Binary_Facts.thy ===== *)
theory Python_Binary_Facts
  imports Python_Binary
begin

text \<open>
  Python binaries: the search for parent directories ends for relative names, and the archive is a tree of
  packages, every directory of which has an \<open>__init__.py\<close>.
\<close>

section \<open>Parts of a path\<close>

lemma path_parts: "p = path_head p @ basename p"
  unfolding path_head_def basename_def by (metis rev_append rev_rev_ident takeWhile_dropWhile_id)

lemma basename_no_slash: "slash \<notin> set (basename p)"
  by (auto simp: basename_def dest: set_takeWhileD)

lemma path_head_last: "path_head p \<noteq> [] \<Longrightarrow> last (path_head p) = slash"
  using hd_dropWhile [of "\<lambda>x. x \<noteq> slash" "rev p"] by (auto simp: path_head_def last_rev)

lemma path_head_join: "slash \<notin> set b \<Longrightarrow> path_head (h @ slash # b) = h @ [slash]"
  unfolding path_head_def by (subst rev_append) (auto simp: dropWhile_append)

lemma basename_join: "slash \<notin> set b \<Longrightarrow> basename (h @ slash # b) = b"
  unfolding basename_def by (subst rev_append) (auto simp: takeWhile_append)

lemma rstrip_prefix: "prefix (rstrip_by P s) s"
  unfolding rstrip_by_def by (metis suffix_dropWhile suffix_to_prefix rev_rev_ident)

lemma rstrip_last: "rstrip_by P s \<noteq> [] \<Longrightarrow> \<not> P (last (rstrip_by P s))"
  using hd_dropWhile [of P "rev s"] by (auto simp: rstrip_by_def last_rev)

lemma rstrip_Nil: "rstrip_by P s = [] \<longleftrightarrow> list_all P s"
  by (simp add: rstrip_by_def list_all_iff)

lemma dirname_prefix: "prefix (dirname p) p"
proof -
  have "prefix (path_head p) p" by (metis path_parts prefix_def)
  then show ?thesis
    using rstrip_prefix [of _ "path_head p"] by (auto simp: dirname_def Let_def intro: prefix_order.trans)
qed

lemma relative_iff_hd: "startswith p ''/'' \<longleftrightarrow> p \<noteq> [] \<and> hd p = slash"
  by (cases p) (auto simp: startswith_def)

lemma slash_end_iff_last: "endswith p ''/'' \<longleftrightarrow> p \<noteq> [] \<and> last p = slash"
  by (cases p rule: rev_cases) (auto simp: endswith_iff)

lemma dirname_Nil [simp]: "dirname [] = []"
  by (simp add: dirname_def path_head_def)

lemma dirname_shorter: "\<not> startswith p ''/'' \<Longrightarrow> p \<noteq> [] \<Longrightarrow> length (dirname p) < length p"
proof (rule ccontr)
  assume rel: "\<not> startswith p ''/''" and p: "p \<noteq> []" and "\<not> length (dirname p) < length p"
  then have eq: "dirname p = p"
    using dirname_prefix [of p] by (metis linorder_neqE_nat not_equal_is_parallel parallelE prefix_length_le prefix_order.antisym not_less)
  show False
  proof (cases "path_head p \<noteq> [] \<and> \<not> list_all (\<lambda>x. x = slash) (path_head p)")
    case True
    then have d: "dirname p = rstrip_by (\<lambda>x. x = slash) (path_head p)" by (simp add: dirname_def Let_def)
    have "length (rstrip_by (\<lambda>x. x = slash) (path_head p)) < length (path_head p)"
      using True path_head_last [of p] rstrip_last [of "\<lambda>x. x = slash" "path_head p"] rstrip_prefix [of "\<lambda>x. x = slash" "path_head p"]
      by (metis p d eq le_neq_implies_less prefix_length_le prefix_def append_eq_conv_conj take_all_iff order_refl)
    then show False using d eq path_parts [of p] by (metis length_append not_add_less1)
  next
    case False
    then have "dirname p = path_head p" by (auto simp: dirname_def Let_def)
    with eq p False have "list_all (\<lambda>x. x = slash) p" by auto
    then show False using rel p by (cases p) (auto simp: relative_iff_hd)
  qed
qed

lemma dirname_relative: "\<not> startswith p ''/'' \<Longrightarrow> \<not> startswith (dirname p) ''/''"
  using dirname_prefix [of p] by (auto simp: relative_iff_hd prefix_def) (metis hd_append2)

lemma dirname_absolute: "startswith p ''/'' \<Longrightarrow> startswith (dirname p) ''/''"
proof -
  assume p: "startswith p ''/''"
  then have "slash \<in> set p" by (cases p) (auto simp: relative_iff_hd)
  then have head: "path_head p \<noteq> []"
    using path_parts [of p] basename_no_slash [of p] by (metis append_Nil)
  then have "dirname p \<noteq> []"
    by (auto simp: dirname_def Let_def rstrip_Nil)
  then show ?thesis
    using p dirname_prefix [of p] by (auto simp: relative_iff_hd prefix_def) (metis hd_append2)
qed

lemma dirname_no_slash_end: "\<not> startswith p ''/'' \<Longrightarrow> \<not> endswith (dirname p) ''/''"
proof
  assume rel: "\<not> startswith p ''/''" and e: "endswith (dirname p) ''/''"
  show False
  proof (cases "path_head p \<noteq> [] \<and> \<not> list_all (\<lambda>x. x = slash) (path_head p)")
    case True
    then have "dirname p = rstrip_by (\<lambda>x. x = slash) (path_head p)" by (simp add: dirname_def Let_def)
    then show False using e rstrip_last [of "\<lambda>x. x = slash" "path_head p"] by (simp add: slash_end_iff_last)
  next
    case False
    then have "dirname p = path_head p" and "list_all (\<lambda>x. x = slash) (path_head p)" by (auto simp: dirname_def Let_def)
    then have "startswith (dirname p) ''/''" using e by (cases "path_head p") (auto simp: slash_end_iff_last relative_iff_hd)
    then show False using dirname_relative [OF rel] by simp
  qed
qed

lemma module_path:
  assumes "d \<noteq> []" and "\<not> endswith d ''/''" and "slash \<notin> set m"
  shows "dirname (path_join d m) = d" and "basename (path_join d m) = m"
proof -
  have j: "path_join d m = d @ slash # m"
    using assms by (cases m) (auto simp: path_join_def relative_iff_hd)
  have l: "last d \<noteq> slash" using assms(1,2) by (simp add: slash_end_iff_last)
  have "rstrip_by (\<lambda>x. x = slash) (d @ [slash]) = d"
    using assms(1) l by (cases d rule: rev_cases) (auto simp: rstrip_by_def)
  moreover have "\<not> list_all (\<lambda>x. x = slash) (d @ [slash])"
    using l last_in_set [OF assms(1)] by (auto simp: list_all_iff)
  ultimately show "dirname (path_join d m) = d"
    unfolding j dirname_def Let_def path_head_join [OF assms(3)] by (metis (mono_tags, lifting) append_is_Nil_conv list.distinct(1))
  show "basename (path_join d m) = m" unfolding j by (rule basename_join [OF assms(3)])
qed

section \<open>Parent directories\<close>

text \<open>The loop ends exactly for relative paths.\<close>

lemma add_parent_dirs_relative: "add_parent_dirs d dirs = Some r \<Longrightarrow> \<not> startswith d ''/''"
proof (induction rule: add_parent_dirs.raw_induct [of _ d dirs r, rotated 1, consumes 1])
  case (1 loop d dirs r)
  then show ?case using dirname_absolute by (cases "d = []") (auto simp: relative_iff_hd)
qed

lemma add_parent_dirs_returns:
  "\<not> startswith d ''/'' \<Longrightarrow> \<exists>r. add_parent_dirs d dirs = Some r"
proof (induction d arbitrary: dirs rule: length_induct)
  case (1 d)
  show ?case
  proof (cases "d = []")
    case True
    then show ?thesis by (simp add: add_parent_dirs.simps)
  next
    case False
    then show ?thesis
      using 1 dirname_shorter [of d] dirname_relative [of d] by (subst add_parent_dirs.simps) simp
  qed
qed

text \<open>The sets of directories the search builds: relative, not ending in a slash, closed under \<open>dirname\<close>.\<close>

definition dirs_ok :: "string list \<Rightarrow> bool" where
  "dirs_ok dirs \<longleftrightarrow> (\<forall>d \<in> set dirs. d \<noteq> [] \<and> \<not> endswith d ''/'' \<and> (dirname d = [] \<or> dirname d \<in> set dirs))"

lemma add_parent_dirs_set:
  "add_parent_dirs d dirs = Some r \<Longrightarrow> set r = set dirs \<union> {x. x \<noteq> [] \<and> (\<exists>k. x = (dirname ^^ k) d)}"
proof (induction rule: add_parent_dirs.raw_induct [of _ d dirs r, rotated 1, consumes 1])
  case (1 loop d dirs r)
  show ?case
  proof (cases "d = []")
    case True
    have "(dirname ^^ k) [] = []" for k by (induction k) auto
    with True 1 show ?thesis by auto
  next
    case False
    have r: "set r = insert d (set dirs) \<union> {x. x \<noteq> [] \<and> (\<exists>k. x = (dirname ^^ k) (dirname d))}"
      using 1 False by auto
    have "(\<exists>k. x = (dirname ^^ k) d) \<longleftrightarrow> x = d \<or> (\<exists>k. x = (dirname ^^ k) (dirname d))" for x
      by (metis funpow_0 funpow_swap1 funpow_simps_right(2) comp_apply not0_implies_Suc)
    with r False show ?thesis by auto
  qed
qed

lemma add_parent_dirs_ok:
  assumes "add_parent_dirs d dirs = Some r" and "dirs_ok dirs" and "\<not> endswith d ''/''"
  shows "dirs_ok r" and "set dirs \<subseteq> set r" and "d = [] \<or> d \<in> set r"
proof -
  note r = add_parent_dirs_set [OF assms(1)]
  show "set dirs \<subseteq> set r" using r by simp
  show "d = [] \<or> d \<in> set r" using r by (auto intro: exI [of _ 0])
  have rel: "\<not> startswith ((dirname ^^ k) d) ''/''" for k
    by (induction k) (use add_parent_dirs_relative [OF assms(1)] dirname_relative in auto)
  have "\<not> endswith ((dirname ^^ k) d) ''/''" for k
    by (cases k) (use assms(3) dirname_no_slash_end [OF rel] in auto)
  moreover have "dirname ((dirname ^^ k) d) = [] \<or> dirname ((dirname ^^ k) d) \<in> set r" for k
    using r by (auto intro: exI [of _ "Suc k"])
  ultimately show "dirs_ok r" using assms(2) r by (auto simp: dirs_ok_def)
qed

section \<open>Names of library sources\<close>

lemma split_join_comps: "list_all plain_comp cs \<Longrightarrow> filter (\<lambda>x. x \<noteq> []) (split_on slash (join_with ''/'' cs)) = cs"
proof (cases "cs = []")
  case False
  assume plain: "list_all plain_comp cs"
  then have "split_on slash (join_with ''/'' cs) = cs"
    using False by (intro split_join) (auto simp: list_all_iff plain_comp_def)
  then show ?thesis using plain by (auto simp: list_all_iff plain_comp_def filter_id_conv)
qed simp

lemma join_comps_ends:
  assumes "list_all plain_comp cs" and "cs \<noteq> []"
  shows "join_with ''/'' cs \<noteq> []" and "hd (join_with ''/'' cs) \<noteq> slash" and "last (join_with ''/'' cs) \<noteq> slash"
proof -
  obtain x xs where "join_with ''/'' cs = x # xs" and "x \<noteq> slash" by (rule join_comps_head [OF assms])
  then show "join_with ''/'' cs \<noteq> []" and "hd (join_with ''/'' cs) \<noteq> slash" by simp_all
  show "last (join_with ''/'' cs) \<noteq> slash"
    using assms
  proof (induction cs rule: induct_list012)
    case (2 x)
    then show ?case by (metis join_with.simps(2) last_in_set list.pred_inject(2) plain_comp_def)
  next
    case (3 x y zs)
    then show ?case by (cases "join_with ''/'' (y # zs) = []") (auto simp: join_with_eq_Nil plain_comp_def)
  qed simp
qed

lemma absolute_comps:
  assumes "startswith q ''/''"
  shows "norm_comps True (filter (\<lambda>x. x \<noteq> []) (split_on slash (normpath q)))"
proof -
  let ?n = "initial_slashes q" and ?cs = "fold (norm_step True) (split_on slash q) []"
  have n: "?n \<noteq> 0" and q: "q \<noteq> []" using assms by (auto simp: initial_slashes_def relative_iff_hd)
  have cs: "norm_comps True ?cs" by (rule norm_comps_fold) (auto dest: split_on_parts)
  have "normpath q = replicate ?n slash @ join_with ''/'' ?cs"
    using n q by (simp add: normpath_def Let_def)
  then have "filter (\<lambda>x. x \<noteq> []) (split_on slash (normpath q)) = filter (\<lambda>x. x \<noteq> []) (split_on slash (join_with ''/'' ?cs))"
    by (simp only: split_slashes filter_append) (simp add: filter_empty_conv)
  also have "\<dots> = ?cs" using cs by (intro split_join_comps) (simp add: norm_comps_def)
  finally show ?thesis using cs by simp
qed

text \<open>The text of a relative component list.\<close>

lemma relative_text:
  assumes "norm_comps False cs" and "r = (if cs = [] then ''.'' else join_with ''/'' cs)"
  shows "normpath r = r \<and> \<not> startswith r ''/'' \<and> \<not> endswith r ''/''"
proof (cases "cs = []")
  case True
  then have "r = ''.''" using assms(2) by simp
  moreover have "normpath ''.'' = ''.''" by code_simp
  ultimately show ?thesis by (simp add: relative_iff_hd slash_end_iff_last)
next
  case False
  have "list_all plain_comp cs" using assms(1) by (simp only: norm_comps_def)
  note ends = join_comps_ends [OF this False]
  have r: "r = join_with ''/'' cs" using assms(2) False by simp
  then have "norm_text 0 cs = r" using ends(1) by (simp add: norm_text_def)
  then show ?thesis using normpath_text [of 0 cs] assms(1) ends r by (simp add: relative_iff_hd slash_end_iff_last)
qed

lemma relative_comps:
  assumes "norm_comps True cs"
  shows "norm_comps False (replicate k ''..'' @ drop i cs)"
proof -
  have plain: "list_all plain_comp (drop i cs)" and up: "''..'' \<notin> set (drop i cs)"
    using assms by (auto simp: norm_comps_def list_all_iff dest: in_set_dropD)
  have "dropWhile (\<lambda>x. x = ''..'') (replicate k ''..'' @ drop i cs) = dropWhile (\<lambda>x. x = ''..'') (drop i cs)"
    by (rule dropWhile_append2) simp
  then have "''..'' \<notin> set (dropWhile (\<lambda>x. x = ''..'') (replicate k ''..'' @ drop i cs))"
    using up by (auto dest: set_dropWhileD)
  moreover have "list_all plain_comp (replicate k ''..'' @ drop i cs)"
    unfolding list_all_append using plain by (simp add: plain_comp_def list_all_iff)
  ultimately show ?thesis by (simp only: norm_comps_def if_False simp_thms)
qed

lemma relpath_normal:
  assumes "startswith cwd ''/''" and "relpath cwd p start = Inr r"
  shows "normpath r = r \<and> \<not> startswith r ''/'' \<and> \<not> endswith r ''/''"
proof -
  let ?cs = "filter (\<lambda>x. x \<noteq> []) (split_on slash (abspath cwd p))"
    and ?ss = "filter (\<lambda>x. x \<noteq> []) (split_on slash (abspath cwd start))"
  define i where "i = common_prefix_len ?ss ?cs"
  define k where "k = length ?ss - i"
  let ?rel = "replicate k ''..'' @ drop i ?cs"
  have "p \<noteq> []" using assms(2) by (auto simp: relpath_def)
  then have rel: "relpath cwd p start = Inr (if ?rel = [] then ''.'' else join_with ''/'' ?rel)"
    unfolding relpath_def Let_def k_def i_def by (rule if_not_P)
  have eq: "r = (if ?rel = [] then ''.'' else join_with ''/'' ?rel)"
    by (rule Inr_inject [OF trans [OF assms(2) [symmetric] rel]])
  have "startswith (if startswith p ''/'' then p else path_join cwd p) ''/''"
    using assms(1) by (auto simp: path_join_def relative_iff_hd)
  then have "norm_comps True ?cs" unfolding abspath_def by (rule absolute_comps)
  then have "norm_comps False ?rel" by (rule relative_comps)
  from relative_text [OF this eq] show ?thesis .
qed

lemma zip_arcname_relpath:
  assumes "startswith cwd ''/''" and "relpath cwd p start = Inr r"
  shows "zip_arcname r = Inr r" and "\<not> startswith r ''/''"
proof -
  have r: "normpath r = r" "\<not> startswith r ''/''" using relpath_normal [OF assms] by simp_all
  have "r \<noteq> []" using normpath_nonempty [of r] r(1) by metis
  then have "dropWhile (\<lambda>x. x = slash) r = r" using r(2) by (cases r) (auto simp: relative_iff_hd)
  with \<open>r \<noteq> []\<close> r(1) show "zip_arcname r = Inr r" by (simp add: zip_arcname_def)
  show "\<not> startswith r ''/''" by (fact r(2))
qed

section \<open>The archive\<close>

text \<open>
  The invariant of the loop: the directories of all entries are known, and the directories with a module
  \<open>__init__.py\<close> are exactly those of the entries of this name.
\<close>

definition pybin_ok :: "pybin \<Rightarrow> bool" where
  "pybin_ok s \<longleftrightarrow> dirs_ok (pb_dirs s) \<and>
     (\<forall>n \<in> fst ` set (pb_entries s). dirname n = [] \<or> dirname n \<in> set (pb_dirs s)) \<and>
     set (pb_with_init s) = dirname ` {n \<in> fst ` set (pb_entries s). basename n = ''__init__.py''}"

lemma update_and_write_ok:
  assumes "update_init_py_dirs n s = Some s'" and "pybin_ok s" and "es = pb_entries s @ [(n, c)]"
  shows "pybin_ok (s'\<lparr>pb_entries := es\<rparr>)" and "pb_entries s' = pb_entries s"
proof -
  let ?d = "dirname n"
  obtain r where r: "add_parent_dirs ?d (pb_dirs s) = Some r" and dirs: "pb_dirs s' = r"
    and ents: "pb_entries s' = pb_entries s"
    and init: "set (pb_with_init s') = (if basename n = ''__init__.py'' then {?d} else {}) \<union> set (pb_with_init s)"
    using assms(1) by (auto simp: update_init_py_dirs_def Let_def split: if_splits)
  show "pb_entries s' = pb_entries s" by (fact ents)
  have "\<not> startswith n ''/''" using add_parent_dirs_relative [OF r] dirname_absolute by blast
  then have "\<not> endswith ?d ''/''" by (rule dirname_no_slash_end)
  note ok = add_parent_dirs_ok [OF r _ this]
  have "dirs_ok (pb_dirs s)" using assms(2) by (simp add: pybin_ok_def)
  note ok = ok [OF this]
  have names: "fst ` set es = insert n (fst ` set (pb_entries s))" using assms(3) by auto
  have "dirname m = [] \<or> dirname m \<in> set r" if "m \<in> fst ` set es" for m
    using that ok(2,3) assms(2) unfolding names by (auto simp: pybin_ok_def)
  moreover have "set (pb_with_init s') = dirname ` {m \<in> fst ` set es. basename m = ''__init__.py''}"
    using assms(2) unfolding names init by (auto simp: pybin_ok_def)
  ultimately show "pybin_ok (s'\<lparr>pb_entries := es\<rparr>)" using ok(1) dirs by (simp add: pybin_ok_def)
qed

lemma obind_eq_Inr: "obind m f = Some (Inr y) \<longleftrightarrow> (\<exists>x. m = Some (Inr x) \<and> f x = Some (Inr y))"
  by (auto simp: obind_def split: option.splits sum.splits)

lemma obind_returns:
  "\<exists>r. m = Some r \<Longrightarrow> (\<And>x. m = Some (Inr x) \<Longrightarrow> \<exists>r. f x = Some r) \<Longrightarrow> \<exists>r. obind m f = Some r"
  by (auto simp: obind_def split: sum.splits)

lemma ofold_invariant:
  assumes "ofold f xs s = Some (Inr t)" and "P s"
    and "\<And>x u v. x \<in> set xs \<Longrightarrow> P u \<Longrightarrow> f x u = Some (Inr v) \<Longrightarrow> P v"
  shows "P t"
  using assms
proof (induction xs arbitrary: s)
  case (Cons x xs)
  then obtain u where u: "f x s = Some (Inr u)" "ofold f xs u = Some (Inr t)"
    by (auto simp: obind_eq_Inr)
  have "P u" using Cons.prems u(1) by auto
  show ?case by (rule Cons.IH [OF u(2) \<open>P u\<close>]) (use Cons.prems(3) in auto)
qed simp

lemma ofold_returns:
  "(\<And>x u. x \<in> set xs \<Longrightarrow> \<exists>r. f x u = Some r) \<Longrightarrow> \<exists>r. ofold f xs s = Some r"
proof (induction xs arbitrary: s)
  case (Cons x xs)
  have "\<exists>r. obind (f x s) (ofold f xs) = Some r"
    by (rule obind_returns) (use Cons in auto)
  then show ?case by simp
qed simp

text \<open>The source files a library file lists.\<close>

definition pylib_sources :: "tool_env \<Rightarrow> content \<Rightarrow> string list" where
  "pylib_sources e c =
     (case rbind (e_eval e c) (\<lambda>v. rbind (dict_of_py v) (\<lambda>data. rbind (dindex data ''srcs'') list_of_py)) of
        Inl _ \<Rightarrow> []
      | Inr vs \<Rightarrow> concat (map (\<lambda>v. case libsrc_of v of Inl _ \<Rightarrow> [] | Inr p \<Rightarrow> [p]) vs))"

text \<open>
  What an input contributes to the archive, read off the input alone: a library its source files under their
  names relative to the base directory, a wheel its entries but those of the metadata, a repeated name
  with the content that is known by the name.
\<close>

definition pylib_base :: "tool_env \<Rightarrow> content \<Rightarrow> string" where
  "pylib_base e c =
     (case rbind (e_eval e c) (\<lambda>v. rbind (dict_of_py v) (\<lambda>data. rbind (dindex data ''base_dir'') as_str)) of
        Inl _ \<Rightarrow> [] | Inr base_dir \<Rightarrow> base_dir)"

definition source_entry :: "tool_env \<Rightarrow> tool_world \<Rightarrow> string \<Rightarrow> string \<Rightarrow> entries" where
  "source_entry e w base_dir p =
     (case (relpath (e_cwd e) p base_dir, file_at e p w) of (Inr n, Some c) \<Rightarrow> [(n, c)] | _ \<Rightarrow> [])"

definition contributed :: "tool_env \<Rightarrow> tool_world \<Rightarrow> string \<Rightarrow> entries" where
  "contributed e w arg =
     (case file_at e arg w of
        None \<Rightarrow> []
      | Some c \<Rightarrow>
          if endswith arg ''.pylib'' then concat (map (source_entry e w (pylib_base e c)) (pylib_sources e c))
          else (case c of
                  Zip _ es \<Rightarrow> map (\<lambda>n. (n, the (map_of (rev es) n))) (filter (\<lambda>n. \<not> str_in ''.dist-info/'' n) (namelist es))
                | _ \<Rightarrow> []))"

lemma ofold_entries:
  assumes "ofold f xs s = Some (Inr t)"
    and "\<And>x u v. x \<in> set xs \<Longrightarrow> f x u = Some (Inr v) \<Longrightarrow> pb_entries v = pb_entries u @ g x"
  shows "pb_entries t = pb_entries s @ concat (map g xs)"
  using assms
proof (induction xs arbitrary: s)
  case (Cons x xs)
  then obtain u where u: "f x s = Some (Inr u)" "ofold f xs u = Some (Inr t)"
    by (auto simp: obind_eq_Inr)
  have "pb_entries t = pb_entries u @ concat (map g xs)" by (rule Cons.IH [OF u(2)]) (use Cons.prems in auto)
  then show ?case using Cons.prems(2) [OF _ u(1)] by simp
qed simp

lemma update_entries: "update_init_py_dirs n s = Some s' \<Longrightarrow> pb_entries s' = pb_entries s"
  by (auto simp: update_init_py_dirs_def Let_def split: if_splits)

lemma add_libsrc_ok:
  assumes cwd: "startswith (e_cwd e) ''/''" and nodir: "\<And>p. libsrc_of v = Inr p \<Longrightarrow> \<not> is_dir e p w"
    and add: "add_libsrc e w base_dir v s = Some (Inr s')"
  shows "pybin_ok s \<Longrightarrow> pybin_ok s'"
    and "pb_entries s' = pb_entries s @ (case libsrc_of v of Inl _ \<Rightarrow> [] | Inr p \<Rightarrow> source_entry e w base_dir p)"
proof -
  obtain p n s1 es where p: "libsrc_of v = Inr p" and n: "relpath (e_cwd e) p base_dir = Inr n"
    and s1: "update_init_py_dirs n s = Some s1" and es: "zip_write e w p n (pb_entries s1) = Inr es"
    and s': "s' = s1\<lparr>pb_entries := es\<rparr>"
    using add by (auto simp: add_libsrc_def obind_eq_Inr rbind_eq_Inr split: option.splits)
  obtain c where c: "file_at e p w = Some c" and es: "es = pb_entries s1 @ [(n, c)]"
    using es nodir [OF p] zip_arcname_relpath [OF cwd n]
    by (auto simp: zip_write_def path_exists_def split: if_splits)
  show "pybin_ok s \<Longrightarrow> pybin_ok s'" using update_and_write_ok [OF s1] es s' by simp
  show "pb_entries s' = pb_entries s @ (case libsrc_of v of Inl _ \<Rightarrow> [] | Inr p \<Rightarrow> source_entry e w base_dir p)"
    using s' es p n c update_entries [OF s1] by (simp add: source_entry_def)
qed

lemma concat_map_result:
  "concat (map (\<lambda>v. case f v of Inl _ \<Rightarrow> [] | Inr p \<Rightarrow> g p) vs) =
   concat (map g (concat (map (\<lambda>v. case f v of Inl _ \<Rightarrow> [] | Inr p \<Rightarrow> [p]) vs)))"
  by (induction vs) (auto split: sum.splits)

lemma pybin_add_pylib_ok:
  assumes "startswith (e_cwd e) ''/''" and "\<And>c p. file_at e libname w = Some c \<Longrightarrow> p \<in> set (pylib_sources e c) \<Longrightarrow> \<not> is_dir e p w"
    and add: "pybin_add_pylib e w libname s = Some (Inr s')"
  shows "pybin_ok s \<Longrightarrow> pybin_ok s'"
    and "endswith libname ''.pylib'' \<Longrightarrow> pb_entries s' = pb_entries s @ contributed e w libname"
proof -
  obtain c v data b srcs vs base_dir where c: "read_file e libname w = Inr c" and v: "e_eval e c = Inr v" "dict_of_py v = Inr data"
    "dget data ''srcs'' = Some srcs" "list_of_py srcs = Inr vs" "dget data ''base_dir'' = Some b"
    and b: "vs = [] \<or> as_str b = Inr base_dir"
    and fold: "ofold (add_libsrc e w base_dir) vs s = Some (Inr s')"
    using add by (auto simp: pybin_add_pylib_def obind_eq_Inr rbind_eq_Inr split: if_splits)
  have f: "file_at e libname w = Some c" using c by (simp add: read_file_def split: option.splits)
  have nodir: "\<not> is_dir e p w" if "x \<in> set vs" "libsrc_of x = Inr p" for x p
    by (rule assms(2) [OF f]) (use v that in \<open>force simp: pylib_sources_def\<close>)
  show "pybin_ok s'" if "pybin_ok s"
    by (rule ofold_invariant [where P = pybin_ok, OF fold that]) (rule add_libsrc_ok(1) [OF assms(1) nodir])
  have "pb_entries s' = pb_entries s @ concat (map (\<lambda>v. case libsrc_of v of Inl _ \<Rightarrow> [] | Inr p \<Rightarrow> source_entry e w base_dir p) vs)"
    by (rule ofold_entries [OF fold]) (rule add_libsrc_ok(2) [OF assms(1) nodir])
  moreover have sources: "pylib_sources e c = concat (map (\<lambda>v. case libsrc_of v of Inl _ \<Rightarrow> [] | Inr p \<Rightarrow> [p]) vs)"
    using v by (simp add: pylib_sources_def)
  moreover have "map (source_entry e w base_dir) (pylib_sources e c) = map (source_entry e w (pylib_base e c)) (pylib_sources e c)"
  proof (cases "vs = []")
    case False
    then show ?thesis using v b by (simp add: pylib_base_def)
  qed (simp add: sources)
  ultimately have "pb_entries s' = pb_entries s @ concat (map (source_entry e w (pylib_base e c)) (pylib_sources e c))"
    by (simp only: concat_map_result [of "source_entry e w base_dir" libsrc_of vs])
  then show "endswith libname ''.pylib'' \<Longrightarrow> pb_entries s' = pb_entries s @ contributed e w libname"
    using f by (simp add: contributed_def)
qed

lemma add_zip_entry_ok:
  assumes "add_zip_entry lib keep True n s = Some (Inr s')"
  shows "pybin_ok s \<Longrightarrow> pybin_ok s'"
    and "pb_entries s' = pb_entries s @ (if keep n then [(n, the (map_of (rev lib) n))] else [])"
proof -
  consider (skip) "\<not> keep n" "s' = s"
    | (take) s1 c where "keep n" "update_init_py_dirs n s = Some s1" "map_of (rev lib) n = Some c"
      "s' = s1\<lparr>pb_entries := pb_entries s1 @ [(n, c)]\<rparr>"
    using assms by (auto simp: add_zip_entry_def zip_read_def zip_writestr_def rbind_eq_Inr split: option.splits if_splits)
  note cases = this
  show "pybin_ok s \<Longrightarrow> pybin_ok s'"
    by (rule cases) (use update_and_write_ok in auto)
  show "pb_entries s' = pb_entries s @ (if keep n then [(n, the (map_of (rev lib) n))] else [])"
    by (rule cases) (use update_entries in auto)
qed

lemma concat_map_filter: "concat (map (\<lambda>n. if P n then [f n] else []) ns) = map f (filter P ns)"
  by (induction ns) auto

lemma pybin_add_whl_ok:
  assumes "pybin_add_whl e w libname s = Some (Inr s')"
  shows "pybin_ok s \<Longrightarrow> pybin_ok s'"
    and "\<not> endswith libname ''.pylib'' \<Longrightarrow> pb_entries s' = pb_entries s @ contributed e w libname"
proof -
  obtain es where es: "open_zip e libname w = Inr es" and fold: "ofold (add_zip_entry es whl_filter True) (namelist es) s = Some (Inr s')"
    using assms by (auto simp: pybin_add_whl_def pybin_add_zip_def obind_eq_Inr)
  show "pybin_ok s'" if "pybin_ok s"
    by (rule ofold_invariant [where P = pybin_ok, OF fold that]) (rule add_zip_entry_ok(1))
  obtain boot where "file_at e libname w = Some (Zip boot es)"
    using es by (auto simp: open_zip_def read_file_def rbind_eq_Inr split: option.splits content.splits)
  moreover have "pb_entries s' = pb_entries s @
      concat (map (\<lambda>n. if whl_filter n then [(n, the (map_of (rev es) n))] else []) (namelist es))"
    by (rule ofold_entries [OF fold]) (rule add_zip_entry_ok(2))
  ultimately show "\<not> endswith libname ''.pylib'' \<Longrightarrow> pb_entries s' = pb_entries s @ contributed e w libname"
    unfolding concat_map_filter by (simp add: contributed_def whl_filter_def)
qed

section \<open>The packages of a binary\<close>

lemma pybin_ok_parents:
  assumes "pybin_ok s" and "n \<in> fst ` set (pb_entries s @ missing_inits s)" and "(dirname ^^ Suc k) n \<noteq> []"
  shows "(dirname ^^ Suc k) n \<in> set (pb_dirs s)"
proof -
  have ok: "dirs_ok (pb_dirs s)" using assms(1) by (simp add: pybin_ok_def)
  have first: "dirname n = [] \<or> dirname n \<in> set (pb_dirs s)"
  proof (cases "n \<in> fst ` set (pb_entries s)")
    case True
    then show ?thesis using assms(1) by (auto simp: pybin_ok_def)
  next
    case False
    then consider "n = ''__init__.py''" | d where "d \<in> set (pb_dirs s)" "n = path_join d ''__init__.py''"
      using assms(2) by (auto simp: missing_inits_def)
    then show ?thesis
    proof cases
      case 1
      have "dirname ''__init__.py'' = []" by code_simp
      with 1 show ?thesis by simp
    next
      case 2
      then show ?thesis using ok module_path(1) [of d "''__init__.py''"] by (auto simp: dirs_ok_def)
    qed
  qed
  have "(dirname ^^ Suc k) n = [] \<or> (dirname ^^ Suc k) n \<in> set (pb_dirs s)"
  proof (induction k)
    case 0
    show ?case using first by simp
  next
    case (Suc k)
    have "dirname d = [] \<or> dirname d \<in> set (pb_dirs s)" if "d = [] \<or> d \<in> set (pb_dirs s)" for d
      using that ok by (auto simp: dirs_ok_def)
    from this [OF Suc.IH] show ?case by simp
  qed
  with assms(3) show ?thesis by blast
qed

lemma pybin_ok_packages:
  assumes ok: "pybin_ok s" and d: "d \<in> set (pb_dirs s)"
  shows "\<exists>q \<in> fst ` set (pb_entries s @ missing_inits s). dirname q = d \<and> basename q = ''__init__.py''"
proof (cases "d \<in> set (pb_with_init s)")
  case True
  then show ?thesis using ok by (auto simp: pybin_ok_def)
next
  case False
  then have "path_join d ''__init__.py'' \<in> fst ` set (missing_inits s)" using d by (auto simp: missing_inits_def image_iff)
  moreover have "d \<noteq> []" "\<not> endswith d ''/''" using ok d by (auto simp: pybin_ok_def dirs_ok_def)
  ultimately show ?thesis using module_path [of d "''__init__.py''"] by (intro bexI [of _ "path_join d ''__init__.py''"]) auto
qed

lemma pybin_ok_keeps_modules:
  assumes ok: "pybin_ok s"
  shows "fst ` set (pb_entries s) \<inter> fst ` set (missing_inits s) \<subseteq> {''__init__.py''}"
proof
  fix n
  assume n: "n \<in> fst ` set (pb_entries s) \<inter> fst ` set (missing_inits s)"
  show "n \<in> {''__init__.py''}"
  proof (rule ccontr)
    assume "n \<notin> {''__init__.py''}"
    then obtain d where d: "d \<in> set (pb_dirs s)" "d \<notin> set (pb_with_init s)" and "n = path_join d ''__init__.py''"
      using n by (auto simp: missing_inits_def)
    moreover have "d \<noteq> []" "\<not> endswith d ''/''" using ok d by (auto simp: pybin_ok_def dirs_ok_def)
    ultimately have "dirname n = d" "basename n = ''__init__.py''" using module_path [of d "''__init__.py''"] by auto
    then have "d \<in> set (pb_with_init s)" using ok n by (auto simp: pybin_ok_def)
    with d(2) show False by simp
  qed
qed

lemma pybin_add_ok:
  assumes "startswith (e_cwd e) ''/''" and "\<not> endswith arg ''.egg''"
    and "\<And>c p. file_at e arg w = Some c \<Longrightarrow> p \<in> set (pylib_sources e c) \<Longrightarrow> \<not> is_dir e p w"
    and "pybin_add e w arg s = Some (Inr s')"
  shows "(pybin_ok s \<longrightarrow> pybin_ok s') \<and> pb_entries s' = pb_entries s @ contributed e w arg"
proof (cases "endswith arg ''.pylib''")
  case True
  then have "pybin_add_pylib e w arg s = Some (Inr s')" using assms(4) by (simp add: pybin_add_def)
  note add = this
  have "pybin_ok s \<Longrightarrow> pybin_ok s'" by (rule pybin_add_pylib_ok(1) [OF assms(1,3) add])
  moreover have "pb_entries s' = pb_entries s @ contributed e w arg"
    by (rule pybin_add_pylib_ok(2) [OF assms(1,3) add True])
  ultimately show ?thesis by blast
next
  case False
  then have "pybin_add_whl e w arg s = Some (Inr s')" using assms(2,4) by (simp add: pybin_add_def split: if_splits)
  from pybin_add_whl_ok [OF this] False show ?thesis by blast
qed

lemma write_file_dirs: "write_file e p c w = Inr w' \<Longrightarrow> is_dir e q w' = is_dir e q w"
  by (auto simp: write_file_def is_dir_def split: if_splits)

lemma chmod_files: "chmod e p m w = Inr w' \<Longrightarrow> file_at e q w' = file_at e q w"
  by (auto simp: chmod_def file_at_def split: if_splits)

lemma contributed_same:
  assumes "file_at e arg w' = file_at e arg w"
    and "\<And>c p. file_at e arg w = Some c \<Longrightarrow> p \<in> set (pylib_sources e c) \<Longrightarrow> file_at e p w' = file_at e p w"
  shows "contributed e w' arg = contributed e w arg"
proof -
  have "map (source_entry e w' b) (pylib_sources e c) = map (source_entry e w b) (pylib_sources e c)" if "file_at e arg w = Some c" for b c
    using assms(2) [OF that] by (simp add: source_entry_def)
  then show ?thesis unfolding contributed_def assms(1)
    by (cases "file_at e arg w") (simp_all only: option.case)
qed


text \<open>A library with a module in a package and a wheel with a package of its own.\<close>

definition sample_py_env :: tool_env where
  "sample_py_env = sample_tool_env\<lparr>e_eval := (\<lambda>c. case c of
     Bytes s \<Rightarrow> Inr (pylib_data ''src'' [(''src/pkg/sub/m.py'', ''d''), (''src/pkg/__init__.py'', ''d'')])
   | _ \<Rightarrow> Inl TypeError)\<rparr>"

definition sample_py_world :: tool_world where
  "sample_py_world =
     \<lparr>w_files = [(''/r/out/l.pylib'', Bytes ''r''), (''/r/src/pkg/sub/m.py'', Bytes ''m''), (''/r/src/pkg/__init__.py'', Bytes ''i''),
                 (''/r/x.whl'', Zip [] [(''x/y.py'', Bytes ''y''), (''x-1.dist-info/RECORD'', Bytes ''r'')])],
      w_dirs = [''/'', ''/r'', ''/r/out'', ''/r/src'', ''/r/src/pkg'', ''/r/src/pkg/sub''], w_modes = [], w_out = [], w_log = None,
      w_color = False\<rparr>"

abbreviation sample_py_args :: "string list" where
  "sample_py_args \<equiv> [''out/l.pylib'', ''x.whl'']"

lemma list_all_option:
  "list_all (\<lambda>a. case f a of None \<Rightarrow> True | Some c \<Rightarrow> P c) xs \<Longrightarrow> \<forall>a \<in> set xs. \<forall>c. f a = Some c \<longrightarrow> P c"
  by (auto simp: list_all_iff)

lemma returns_Inr: "case x of Some (Inr w) \<Rightarrow> True | _ \<Rightarrow> False \<Longrightarrow> \<exists>w. x = Some (Inr w)"
  by (auto split: option.splits sum.splits)

lemma sample_py_binary:
  "case generate_python_binary sample_py_env [] ''pkg.main'' ''out/b'' sample_py_args sample_py_world of
     Some (Inr w) \<Rightarrow> True | _ \<Rightarrow> False"
  by code_simp

lemma sample_py_inputs:
  "\<forall>arg \<in> set sample_py_args. \<not> endswith arg ''.egg'' \<and> place sample_py_env arg \<noteq> place sample_py_env ''out/b''"
  "\<forall>arg \<in> set sample_py_args. \<forall>c. file_at sample_py_env arg sample_py_world = Some c \<longrightarrow>
     list_all (\<lambda>p. \<not> is_dir sample_py_env p sample_py_world \<and> place sample_py_env p \<noteq> place sample_py_env ''out/b'')
       (pylib_sources sample_py_env c)"
proof -
  have "list_all (\<lambda>arg. \<not> endswith arg ''.egg'' \<and> place sample_py_env arg \<noteq> place sample_py_env ''out/b'') sample_py_args"
    by code_simp
  then show "\<forall>arg \<in> set sample_py_args. \<not> endswith arg ''.egg'' \<and> place sample_py_env arg \<noteq> place sample_py_env ''out/b''"
    unfolding list_all_iff .
  have "list_all (\<lambda>arg. case file_at sample_py_env arg sample_py_world of
      None \<Rightarrow> True | Some c \<Rightarrow> list_all (\<lambda>p. \<not> is_dir sample_py_env p sample_py_world \<and> place sample_py_env p \<noteq> place sample_py_env ''out/b'')
        (pylib_sources sample_py_env c)) sample_py_args"
    by code_simp
  then show "\<forall>arg \<in> set sample_py_args. \<forall>c. file_at sample_py_env arg sample_py_world = Some c \<longrightarrow>
     list_all (\<lambda>p. \<not> is_dir sample_py_env p sample_py_world \<and> place sample_py_env p \<noteq> place sample_py_env ''out/b'')
       (pylib_sources sample_py_env c)"
    by (rule list_all_option)
qed

lemma sample_py_contributed:
  "concat (map (contributed sample_py_env sample_py_world) sample_py_args) =
   [(''pkg/sub/m.py'', Bytes ''m''), (''pkg/__init__.py'', Bytes ''i''), (''x/y.py'', Bytes ''y'')]"
  by code_simp


section \<open>Termination\<close>

lemma update_init_py_dirs_returns: "\<not> startswith n ''/'' \<Longrightarrow> \<exists>s'. update_init_py_dirs n s = Some s'"
  using add_parent_dirs_returns [OF dirname_relative] by (auto simp: update_init_py_dirs_def Let_def)

lemma add_libsrc_returns:
  assumes "startswith (e_cwd e) ''/''"
  shows "\<exists>r. add_libsrc e w base_dir v s = Some r"
  unfolding add_libsrc_def
proof (rule obind_returns)
  fix x
  assume "Some (rbind (libsrc_of v) (\<lambda>p. rbind (relpath (e_cwd e) p base_dir) (\<lambda>n. Inr (p, n)))) = Some (Inr x)"
  then obtain p n where x: "x = (p, n)" and n: "relpath (e_cwd e) p base_dir = Inr n" by (auto simp: rbind_eq_Inr)
  obtain s' where "update_init_py_dirs n s = Some s'"
    using update_init_py_dirs_returns [OF zip_arcname_relpath(2) [OF assms n]] by blast
  then show "\<exists>r. (case x of (p, n) \<Rightarrow> case update_init_py_dirs n s of None \<Rightarrow> None
      | Some s \<Rightarrow> Some (rbind (zip_write e w p n (pb_entries s)) (\<lambda>es. Inr (s\<lparr>pb_entries := es\<rparr>)))) = Some r"
    by (simp add: x)
qed simp

lemma pybin_add_zip_returns:
  assumes "\<And>es n. record_dirs \<Longrightarrow> open_zip e libname w = Inr es \<Longrightarrow> n \<in> set (namelist es) \<Longrightarrow> \<not> startswith n ''/''"
  shows "\<exists>r. pybin_add_zip e w libname keep record_dirs s = Some r"
  unfolding pybin_add_zip_def
proof (intro obind_returns ofold_returns)
  fix es n u
  assume "Some (open_zip e libname w) = Some (Inr es)" and "n \<in> set (namelist es)"
  then have "\<exists>s'. (if record_dirs then update_init_py_dirs n u else Some u) = Some s'"
    using assms update_init_py_dirs_returns by (cases record_dirs) auto
  then show "\<exists>r. add_zip_entry es keep record_dirs n u = Some r"
    by (auto simp: add_zip_entry_def simp del: if_split split: option.splits)
qed simp

lemma pybin_add_returns:
  assumes cwd: "startswith (e_cwd e) ''/''"
    and whl: "\<And>es n. endswith arg ''.whl'' \<Longrightarrow> open_zip e arg w = Inr es \<Longrightarrow> n \<in> set (namelist es) \<Longrightarrow> \<not> startswith n ''/''"
  shows "\<exists>r. pybin_add e w arg s = Some r"
proof -
  have "\<exists>r. pybin_add_pylib e w arg s = Some r"
    unfolding pybin_add_pylib_def
    by (rule obind_returns) (auto intro!: ofold_returns add_libsrc_returns [OF cwd])
  moreover have "\<exists>r. pybin_add_egg e w arg s = Some r"
    unfolding pybin_add_egg_def by (rule pybin_add_zip_returns) simp
  moreover have "\<exists>r. pybin_add_whl e w arg s = Some r" if "endswith arg ''.whl''"
    unfolding pybin_add_whl_def by (rule pybin_add_zip_returns) (rule whl [OF that])
  ultimately show ?thesis by (auto simp: pybin_add_def)
qed

text \<open>
  C33. Making a Python binary returns when no wheel has an entry with an absolute name: the names of library
  sources are relative to their base directory, and the search for parent directories then reaches the empty path.
\<close>

theorem python_binary_returns:
  assumes "startswith (e_cwd e) ''/''"
    and "\<forall>arg \<in> set args. \<forall>es. endswith arg ''.whl'' \<and> open_zip e arg w = Inr es \<longrightarrow>
      list_all (\<lambda>n. \<not> startswith n ''/'') (namelist es)"
  shows "\<exists>r. generate_python_binary e basedir mainentry path args w = Some r"
  unfolding generate_python_binary_def
proof (intro obind_returns ofold_returns)
  fix w1 arg s
  assume w1: "Some (write_file e path (Bytes []) w) = Some (Inr w1)" and arg: "arg \<in> set args"
  show "\<exists>r. pybin_add e w1 arg s = Some r"
  proof (rule pybin_add_returns [OF assms(1)])
    fix es n
    assume "endswith arg ''.whl''" and es: "open_zip e arg w1 = Inr es" and "n \<in> set (namelist es)"
    moreover have "open_zip e arg w = Inr es" using open_zip_truncated w1 es by blast
    ultimately show "\<not> startswith n ''/''" using assms(2) arg by (auto simp: list_all_iff)
  qed
qed simp_all

text \<open>The wheel of the sample has relative names, and its archive is made.\<close>

theorem python_binary_returns_witness:
  "(\<exists>r. generate_python_binary sample_py_env [] ''pkg.main'' ''out/b'' sample_py_args sample_py_world = Some r) \<and>
   startswith (e_cwd sample_py_env) ''/''"
proof
  have "list_all (\<lambda>arg. case (case open_zip sample_py_env arg sample_py_world of Inl _ \<Rightarrow> None | Inr es \<Rightarrow> Some es) of
      None \<Rightarrow> True | Some es \<Rightarrow> list_all (\<lambda>n. \<not> startswith n ''/'') (namelist es)) sample_py_args"
    by code_simp
  from list_all_option [OF this] have "\<forall>arg \<in> set sample_py_args. \<forall>es. endswith arg ''.whl'' \<and>
      open_zip sample_py_env arg sample_py_world = Inr es \<longrightarrow> list_all (\<lambda>n. \<not> startswith n ''/'') (namelist es)"
    by (metis (no_types, lifting) sum.simps(6))
  moreover show "startswith (e_cwd sample_py_env) ''/''" by code_simp
  ultimately show "\<exists>r. generate_python_binary sample_py_env [] ''pkg.main'' ''out/b'' sample_py_args sample_py_world = Some r"
    by (intro python_binary_returns)
qed

text \<open>A wheel with an absolute name: the search for its parent directories does not end.\<close>

theorem absolute_name_diverges: "startswith n ''/'' \<Longrightarrow> update_init_py_dirs n s = None"
  using add_parent_dirs_relative [of "dirname n"] dirname_absolute [of n]
  by (cases "add_parent_dirs (dirname n) (pb_dirs s)") (auto simp: update_init_py_dirs_def Let_def)

end
