(* ===== verification/Spec2Isabelle.thy ===== *)
theory Spec2Isabelle
  imports Manager_Facts Sched_Live Inctest_Facts Java_Facts Gen_Rule_Facts Cc_Link_Facts Cc_Make_Facts Make_Rules Go_Targets Scala_Targets Maven_Facts
    Python_Targets Cc_Generated Shell_Package Java_Jar Cu_Targets Swig_Library Thrift_Facts Proto_Facts Python_Binary_Facts
begin

text \<open>
  \<^bold>\<open>Verification of the Blade build system\<close> (\<open>src/build_tools/typhoon-blade/src/blade\<close>, Python 2), the program that builds and
  tests the prediction service of the repository. Paths below are relative to that directory.

  \<^bold>\<open>The program.\<close> A run reads configuration files (\<open>configparse.py\<close>), loads the BUILD files that the command line
  names and those their targets depend on (\<open>load_build_files.py\<close>), each of which constructs
  and registers target objects (\<open>target.py\<close> and its subclasses). The manager object (\<open>blade.py\<close>)
  holds the target database and passes it to the analysis of dependencies (\<open>dependency_analyzer.py\<close>), answers
  queries, and lets every target write its rules for a back end (SCons, Ninja or Make). After the build, programs
  and tests are run: the runner prepares directories and environments (\<open>binary_runner.py\<close>), the test runner chooses
  the tests (\<open>test_runner.py\<close>) and the scheduler runs them in threads (\<open>test_scheduler.py\<close>). Java and Scala targets resolve
  artifacts through a cache of a Maven repository (\<open>maven.py\<close>).

  \<^bold>\<open>Conventions.\<close> An exception is the left value of the sum type \<open>result\<close>; \<open>SystemExit\<close> carries the message of \<open>console.error_exit\<close>. A
  loop whose body may raise is \<open>rfold\<close>. Values without static type are \<open>pyval\<close>. A dictionary is an association list in iteration order, and where
  the order of a set or dictionary is not fixed by the language, it is a parameter (\<open>pick\<close>, \<open>order\<close>, \<open>set_order\<close>) and the theorems
  hold for all of its values. A target object is shared by several dictionaries: the model
  keeps it once, in the database. The file system, child processes, the clock and the digest
  function are parameters; operations on files are recorded in order, and later
  answers may depend on that record.

  \<^bold>\<open>Theories and what they show.\<close>

  \<^item> \<open>Py_Base\<close>, \<open>Py_Str\<close>: the language and its library: exceptions, dictionaries, string methods, paths of
    \<open>os.path\<close>; the named collections \<open>py_monad\<close>, \<open>py_dict\<close> and \<open>py_str\<close>; loop rules for \<open>rfold\<close>; \<open>normpath\<close> is
    idempotent. \<open>Py_Regex\<close>: the regular expression of location references.
  \<^item> \<open>Target_Types\<close>, \<open>Blade_State\<close>: the target object, the database and the state of the manager.
  \<^item> \<open>Util\<close>: list and name helpers and the upward search for a file (\<open>blade_util.py\<close>), which is
    correct from every directory but \<open>//\<close>, where it does not return.
  \<^item> \<open>Py_Value\<close>, \<open>Protoc_Plugin\<close>: texts of values, and the plug-in objects of the protocol compiler (\<open>proto_library_target.py\<close>).
  \<^item> \<open>Config\<close>: the default configuration and its updates; a configuration file keeps the sections, the
    value shapes, and the items of every section but that of the protocol compiler plug-ins, which may gain items, and the value of every item after an update is characterised.
  \<^item> \<open>Dep_Analyzer\<close> (definitions), \<open>Dep_Search\<close>, \<open>Dep_Generation\<close>, \<open>Dep_Topo\<close>, \<open>Dep_Analysis\<close>: the analysis computes the
    transitive dependencies in link order, reports loops and violations of visibility, and
    returns a topological order and the transposed relation. The locales of these theories
    state what the search, the cache and the generation methods promise each other.
  \<^item> \<open>Target_Ops\<close>, \<open>Target_Facts\<close>, \<open>Target_Rules\<close>: constructor, names, output tables and build statements; constructed targets
    are well formed, a source has one owner, tables of outputs behave as maps (locale
    \<open>output_table\<close>), the header question is reachability.
  \<^item> \<open>Loader\<close>, \<open>Load_Facts\<close>: loading returns exactly the targets reachable from the command line, and
    returns when the tree is finite (locale \<open>build_tree\<close>, interpreted for trees of rule calls).
  \<^item> \<open>Manager\<close>, \<open>Manager_Facts\<close>: loading and analysis composed, queries, job numbers; the contract of the methods that write
    rules (locale \<open>rule_writer\<close>).
  \<^item> \<open>Make_Rules\<close>: the choice of the builder and the rules for Make of all classes; the methods keep that contract, so
    the rule buffer is made of the blocks of the targets in build order.
  \<^item> \<open>Test_Scheduler\<close>, \<open>Sched_Facts\<close>, \<open>Sched_Live\<close>: the threads as an inductive step relation; no interleaving loses a test or runs an
    exclusive test beside another one, every run ends, and the scheduler refines an abstract
    pool of jobs.
  \<^item> \<open>Binary_Runner\<close>, \<open>Runner_Facts\<close>: run directories and environments; destinations of test data are different, and none lies inside
    another one but the run directory itself, which the check does not recognise.
  \<^item> \<open>Test_Runner\<close>, \<open>Inctest_Facts\<close>: the incremental selection agrees with its specification \<open>needs_run\<close>, and the
    stamp written by one run makes the next one repeat exactly the failed tests.
  \<^item> \<open>Maven\<close>, \<open>Maven_Facts\<close>: the database of artifacts is typed, a lookup is answered from it once it
    has succeeded, releases that are present are not downloaded.
  \<^item> \<open>Loose_Version\<close>, \<open>Java_Deps\<close>, \<open>Java_Facts\<close>: versions as a linear order, the dependencies of Java targets; conflicts are
    resolved to one version per artifact, exported dependencies are a transitive closure.
  \<^item> \<open>Java_Source\<close>, \<open>Java_Rules\<close>, \<open>Java_Targets\<close>, \<open>Scala_Targets\<close>, \<open>Go_Targets\<close>: constructors, resources and the rules of the Java, Scala and Go
    targets.
  \<^item> \<open>Python_Targets\<close>, \<open>Shell_Package\<close>, \<open>Java_Jar\<close>: the Python targets, shell tests and packages, the old Java target.
  \<^item> \<open>Gen_Rule\<close>, \<open>Gen_Rule_Facts\<close>: user defined rules; their command is equivalent to a direct
    substitution, with the file each reference names, as long as it has no percent sign, and it is never written for Make.
  \<^item> \<open>Cc_Targets\<close>, \<open>Cc_Rules\<close>, \<open>Cc_Build\<close>, \<open>Cc_Make\<close>, \<open>Cc_Classes\<close>: the C++ targets (\<open>cc_targets.py\<close>): constructor and checks, flags,
    generated headers; prebuilt libraries; objects, libraries and link steps for SCons and Ninja, and for Make;
    the classes of libraries, binaries, plugins and tests. The state beside the manager (files, class attributes, compiler) is the record \<open>cc_world\<close>.
  \<^item> \<open>Cc_Generated\<close>, \<open>Cu_Targets\<close>: C++ targets with generated sources (lex, yacc, embedded resources); CUDA targets.
  \<^item> \<open>Proto_Library\<close>, \<open>Proto_Rules\<close>, \<open>Swig_Library\<close>, \<open>Thrift_Library\<close>: the targets that generate code from interface files, with the scan of these
    files for the names of what is generated.
  \<^item> \<open>Proto_Facts\<close>, \<open>Thrift_Facts\<close>: Ninja compiles exactly what it generates from proto files, of several plug-ins for one
    language only the last is used; the rules of a constructed Thrift target never raise.
  \<^item> \<open>Cc_Facts\<close>, \<open>Cc_Link_Facts\<close>: the queue of header dependencies computes a reachability relation and
    returns; the Ninja statements of a library are the stamp of the generated headers when there are any, one per source and the archive of exactly these objects; a link step takes
    the libraries in link order; the assertions of the rules of prebuilt libraries hold (locale \<open>copy_writer\<close>, interpreted
    for Ninja and Make); two defects, the deprecated \<open>pre_build\<close> and the comparison of compiler versions.
  \<^item> \<open>Cc_Make_Facts\<close>: when the compile and link steps for Make fail to format.
  \<^item> \<open>Tool_World\<close>, \<open>Toolchain\<close>, \<open>Tool_Scripts\<close>, \<open>Fat_Jar\<close>, \<open>Python_Binary\<close>, \<open>Python_Binary_Facts\<close>: the programs that build statements start
    (\<open>toolchain.py\<close>, \<open>fatjar.py\<close>) and the messages of \<open>console.py\<close>, over a file system whose archives are lists of
    entries (\<open>tool_world\<close>); a fat jar has every name once, from the first jar that has it; the archive of a Python
    binary is a tree of packages, and making it returns unless a wheel has an absolute name.

  \<^bold>\<open>Bounds.\<close> Recursion that Python bounds by its stack has a depth argument: the header question (also in
  the rules of C++ targets), the dependency tree and the packaging of Java dependencies. The theorems on the first two state
  that the number of targets is enough. The search and the queue loops terminate by
  measures on the targets not yet visited; the loader, the upward search and the search for the
  parent directories of Python modules may run forever in the code and are partial functions.

  \<^bold>\<open>Not modelled.\<close> The generators of the
  fixed text of build files and the helpers that run inside SCons (\<open>rules_generator.py\<close>, \<open>scons_helper.py\<close>); probing of
  compilers and platforms; parsing of the command line and the erasable progress lines of the terminal; the bundled modules \<open>argparse.py\<close>
  and \<open>pathlib.py\<close>, which are library code. Of the modelled modules, plain getters, locks and the
  writing of files are left out. Formatting with \<open>%\<close> is modelled for text conversions only.
\<close>

end
